(* ===== verification/Prelude.thy ===== *)
theory Prelude
  imports Complex_Main "HOL-Library.AList"
begin

text \<open>
  The vocabulary every component theory shares: identifiers and JSON values, JavaScript errors as
  values, the state-and-error monad in which an \<open>async\<close> handler is written, Mongo collections as
  association lists in insertion order, and the automation (simp rules and the collections
  \<open>run_simps\<close> and \<open>keeps_intros\<close>) that the component proofs rest on.

  An \<open>await\<close>ed handler is modelled as a function from the database to a result and the database
  it leaves behind.  A thrown error does not undo what the handler wrote before the throw, exactly
  as in the code: only \<open>runInTransaction\<close> (theory Transactions) rolls back.
\<close>

named_theorems run_simps "equations that run a handler symbolically"
named_theorems keeps_intros "introduction rules for keeps, one per operation"

section \<open>Identifiers and JSON\<close>

type_synonym oid = string

text \<open>
  A JavaScript value as it is put into an event payload, a metadata field or a request body.
  \<open>JDate\<close> is a Date, in milliseconds since the epoch.
\<close>

datatype json =
    JUndef
  | JNull
  | JBool bool
  | JNum rat
  | JDate int
  | JStr string
  | JArr "json list"
  | JObj "(string \<times> json) list"

abbreviation JInt :: "int \<Rightarrow> json" where
  "JInt n \<equiv> JNum (of_int n)"

definition jopt :: "('a \<Rightarrow> json) \<Rightarrow> 'a option \<Rightarrow> json" where
  "jopt f x = (case x of None \<Rightarrow> JUndef | Some y \<Rightarrow> f y)"

fun jget :: "json \<Rightarrow> string \<Rightarrow> json" where
  "jget (JObj kvs) k = (case map_of kvs k of None \<Rightarrow> JUndef | Some v \<Rightarrow> v)"
| "jget _ _ = JUndef"

text \<open>JavaScript truthiness: \<open>undefined\<close>, \<open>null\<close>, \<open>false\<close>, \<open>0\<close> and the empty string are falsy.\<close>

fun truthy :: "json \<Rightarrow> bool" where
  "truthy JUndef = False"
| "truthy JNull = False"
| "truthy (JBool b) = b"
| "truthy (JNum n) = (n \<noteq> 0)"
| "truthy (JDate _) = True"
| "truthy (JStr s) = (s \<noteq> [])"
| "truthy (JArr _) = True"
| "truthy (JObj _) = True"

text \<open>The expression \<open>a || b\<close>.\<close>

definition jor :: "json \<Rightarrow> json \<Rightarrow> json" where
  "jor a b = (if truthy a then a else b)"

text \<open>\<open>x || d\<close> for an optional Number and an optional string: \<open>0\<close> and the empty string fall through.\<close>

definition num_or :: "int option \<Rightarrow> int \<Rightarrow> int" where
  "num_or x d = (case x of None \<Rightarrow> d | Some n \<Rightarrow> if n = 0 then d else n)"

definition str_or :: "string option \<Rightarrow> string \<Rightarrow> string" where
  "str_or x d = (case x of None \<Rightarrow> d | Some s \<Rightarrow> if s = [] then d else s)"

definition truthy_num :: "int option \<Rightarrow> bool" where
  "truthy_num x = (case x of None \<Rightarrow> False | Some n \<Rightarrow> n \<noteq> 0)"

definition truthy_str :: "string option \<Rightarrow> bool" where
  "truthy_str x = (case x of None \<Rightarrow> False | Some s \<Rightarrow> s \<noteq> [])"

lemma num_or_simps [simp]:
  "num_or None d = d"
  "num_or (Some n) d = (if n = 0 then d else n)"
  by (simp_all add: num_or_def)

lemma str_or_simps [simp]:
  "str_or None d = d"
  "str_or (Some t) d = (if t = [] then d else t)"
  by (simp_all add: str_or_def)

lemma truthy_opt_simps [simp]:
  "truthy_num None = False" "truthy_num (Some n) = (n \<noteq> 0)"
  "truthy_str None = False" "truthy_str (Some t) = (t \<noteq> [])"
  by (simp_all add: truthy_num_def truthy_str_def)

section \<open>Errors\<close>

text \<open>
  What a handler can throw: an \<open>ApiError\<close>, the plain Error with a \<open>statusCode\<close> of \<open>withLock\<close>,
  a MongoDB error (its code, message and error labels), and an error of another library.
\<close>

datatype js_error =
    ApiError int string
  | HttpError int string
  | MongoError int string "string list"
  | LibError string

section \<open>The monad of handlers\<close>

type_synonym ('s, 'a) handler = "'s \<Rightarrow> (js_error + 'a) \<times> 's"

definition retM :: "'a \<Rightarrow> ('s, 'a) handler" where
  "retM x = (\<lambda>s. (Inr x, s))"

definition throwM :: "js_error \<Rightarrow> ('s, 'a) handler" where
  "throwM e = (\<lambda>s. (Inl e, s))"

definition bindM :: "('s, 'a) handler \<Rightarrow> ('a \<Rightarrow> ('s, 'b) handler) \<Rightarrow> ('s, 'b) handler" where
  "bindM m f = (\<lambda>s. case m s of (Inl e, s') \<Rightarrow> (Inl e, s') | (Inr x, s') \<Rightarrow> f x s')"

definition thenM :: "('s, 'a) handler \<Rightarrow> ('s, 'b) handler \<Rightarrow> ('s, 'b) handler" where
  "thenM m k = bindM m (\<lambda>_. k)"

definition readM :: "('s \<Rightarrow> 'a) \<Rightarrow> ('s, 'a) handler" where
  "readM f = (\<lambda>s. (Inr (f s), s))"

definition modM :: "('s \<Rightarrow> 's) \<Rightarrow> ('s, unit) handler" where
  "modM f = (\<lambda>s. (Inr (), f s))"

text \<open>\<open>if (!c) throw e\<close>, and \<open>if (!x) throw e\<close> for a document that may be missing.\<close>

definition unlessM :: "bool \<Rightarrow> js_error \<Rightarrow> ('s, unit) handler" where
  "unlessM c e = (if c then retM () else throwM e)"

definition requireM :: "('s \<Rightarrow> 'a option) \<Rightarrow> js_error \<Rightarrow> ('s, 'a) handler" where
  "requireM f e = (\<lambda>s. case f s of None \<Rightarrow> (Inl e, s) | Some x \<Rightarrow> (Inr x, s))"

definition whenM :: "bool \<Rightarrow> ('s, unit) handler \<Rightarrow> ('s, unit) handler" where
  "whenM c m = (if c then m else retM ())"

definition catchM :: "('s, 'a) handler \<Rightarrow> (js_error \<Rightarrow> ('s, 'a) handler) \<Rightarrow> ('s, 'a) handler" where
  "catchM m h = (\<lambda>s. case m s of (Inl e, s') \<Rightarrow> h e s' | (Inr x, s') \<Rightarrow> (Inr x, s'))"

text \<open>A \<open>for ... of\<close> loop whose body awaits a handler and collects its results.\<close>

primrec eachM :: "('x \<Rightarrow> ('s, 'a) handler) \<Rightarrow> 'x list \<Rightarrow> ('s, 'a list) handler" where
  "eachM f [] = retM []"
| "eachM f (x # xs) = bindM (f x) (\<lambda>a. bindM (eachM f xs) (\<lambda>as. retM (a # as)))"

lemma retM_run [simp, run_simps]: "retM x s = (Inr x, s)"
  by (simp add: retM_def)

lemma throwM_run [simp, run_simps]: "throwM e s = (Inl e, s)"
  by (simp add: throwM_def)

lemma readM_run [simp, run_simps]: "readM f s = (Inr (f s), s)"
  by (simp add: readM_def)

lemma modM_run [simp, run_simps]: "modM f s = (Inr (), f s)"
  by (simp add: modM_def)

lemma unlessM_run [run_simps]: "unlessM c e s = (if c then (Inr (), s) else (Inl e, s))"
  by (simp add: unlessM_def)

lemma requireM_run [run_simps]:
  "requireM f e s = (case f s of None \<Rightarrow> (Inl e, s) | Some x \<Rightarrow> (Inr x, s))"
  by (simp add: requireM_def)

lemma whenM_run [run_simps]: "whenM c m s = (if c then m s else (Inr (), s))"
  by (simp add: whenM_def)

lemma bindM_run [run_simps]:
  "bindM m f s = (case m s of (Inl e, s') \<Rightarrow> (Inl e, s') | (Inr x, s') \<Rightarrow> f x s')"
  by (simp add: bindM_def)

lemma thenM_run [run_simps]:
  "thenM m k s = (case m s of (Inl e, s') \<Rightarrow> (Inl e, s') | (Inr x, s') \<Rightarrow> k s')"
  by (simp add: thenM_def bindM_def)

lemma catchM_run [run_simps]:
  "catchM m h s = (case m s of (Inl e, s') \<Rightarrow> h e s' | (Inr x, s') \<Rightarrow> (Inr x, s'))"
  by (simp add: catchM_def)

lemma bindM_Inr:
  "bindM m f s = (Inr b, s'') \<longleftrightarrow> (\<exists>a s'. m s = (Inr a, s') \<and> f a s' = (Inr b, s''))"
  by (auto simp: bindM_def split: prod.splits sum.splits)

lemma thenM_Inr:
  "thenM m k s = (Inr b, s'') \<longleftrightarrow> (\<exists>a s'. m s = (Inr a, s') \<and> k s' = (Inr b, s''))"
  by (simp add: thenM_def bindM_Inr)

section \<open>What every run of a handler keeps\<close>

text \<open>
  \<open>keeps I m\<close>: whatever the outcome, a run of \<open>m\<close> from a state with \<open>I\<close> leaves a state with
  \<open>I\<close>.  The rules of \<open>keeps_intros\<close> follow the structure of a handler, so an invariant of the
  whole service is proved by its facts about the primitive writes.
\<close>

definition keeps :: "('s \<Rightarrow> bool) \<Rightarrow> ('s, 'a) handler \<Rightarrow> bool" where
  "keeps I m \<longleftrightarrow> (\<forall>s. I s \<longrightarrow> I (snd (m s)))"

lemma keepsD: "keeps I m \<Longrightarrow> I s \<Longrightarrow> I (snd (m s))"
  by (simp add: keeps_def)

lemma keeps_run: "keeps I m \<Longrightarrow> I s \<Longrightarrow> m s = (r, s') \<Longrightarrow> I s'"
  by (metis keepsD snd_conv)

lemma keeps_retM [keeps_intros]: "keeps I (retM x)"
  by (simp add: keeps_def)

lemma keeps_throwM [keeps_intros]: "keeps I (throwM e)"
  by (simp add: keeps_def)

lemma keeps_readM [keeps_intros]: "keeps I (readM f)"
  by (simp add: keeps_def)

lemma keeps_unlessM [keeps_intros]: "keeps I (unlessM c e)"
  by (simp add: keeps_def unlessM_def)

lemma keeps_requireM [keeps_intros]: "keeps I (requireM f e)"
  by (auto simp: keeps_def requireM_def split: option.splits)

lemma keeps_modM: "(\<And>s. I s \<Longrightarrow> I (f s)) \<Longrightarrow> keeps I (modM f)"
  by (simp add: keeps_def)

lemma keeps_bindM [keeps_intros]:
  "keeps I m \<Longrightarrow> (\<And>x. keeps I (f x)) \<Longrightarrow> keeps I (bindM m f)"
  by (fastforce simp: keeps_def bindM_def split: prod.splits sum.splits)

lemma keeps_thenM [keeps_intros]: "keeps I m \<Longrightarrow> keeps I k \<Longrightarrow> keeps I (thenM m k)"
  unfolding thenM_def by (intro keeps_intros)

lemma keeps_whenM [keeps_intros]: "(c \<Longrightarrow> keeps I m) \<Longrightarrow> keeps I (whenM c m)"
  by (simp add: whenM_def keeps_retM)

lemma keeps_if [keeps_intros]:
  "(c \<Longrightarrow> keeps I m) \<Longrightarrow> (\<not> c \<Longrightarrow> keeps I k) \<Longrightarrow> keeps I (if c then m else k)"
  by simp

lemma keeps_case_option [keeps_intros]:
  "keeps I m \<Longrightarrow> (\<And>x. keeps I (k x)) \<Longrightarrow> keeps I (case x of None \<Rightarrow> m | Some y \<Rightarrow> k y)"
  by (cases x) simp_all

lemma keeps_case_prod [keeps_intros]:
  "(\<And>a b. keeps I (k a b)) \<Longrightarrow> keeps I (case p of (a, b) \<Rightarrow> k a b)"
  by (cases p) simp

lemma keeps_case_sum [keeps_intros]:
  "(\<And>e. keeps I (k e)) \<Longrightarrow> (\<And>x. keeps I (l x)) \<Longrightarrow> keeps I (case r of Inl e \<Rightarrow> k e | Inr x \<Rightarrow> l x)"
  by (cases r) simp_all

lemma keeps_Let [keeps_intros]: "(\<And>y. keeps I (f y)) \<Longrightarrow> keeps I (let y = x in f y)"
  by simp

lemma keeps_catchM [keeps_intros]:
  "keeps I m \<Longrightarrow> (\<And>e. keeps I (h e)) \<Longrightarrow> keeps I (catchM m h)"
  by (fastforce simp: keeps_def catchM_def split: prod.splits sum.splits)

lemma keeps_eachM [keeps_intros]: "(\<And>x. keeps I (f x)) \<Longrightarrow> keeps I (eachM f xs)"
  by (induction xs) (auto intro!: keeps_intros)

section \<open>Collections\<close>

text \<open>
  A Mongo collection is the list of its documents with their ids, oldest first.  A query without
  a sort returns them in that order.
\<close>

type_synonym 'd coll = "(oid \<times> 'd) list"

definition findById :: "'d coll \<Rightarrow> oid \<Rightarrow> 'd option" where
  "findById c k = map_of c k"

definition saveDoc :: "oid \<Rightarrow> 'd \<Rightarrow> 'd coll \<Rightarrow> 'd coll" where
  "saveDoc k d c = AList.update k d c"

definition findByIdAndUpdate :: "oid \<Rightarrow> ('d \<Rightarrow> 'd) \<Rightarrow> 'd coll \<Rightarrow> 'd coll" where
  "findByIdAndUpdate k f c = (case findById c k of None \<Rightarrow> c | Some d \<Rightarrow> saveDoc k (f d) c)"

definition findAll :: "('d \<Rightarrow> bool) \<Rightarrow> 'd coll \<Rightarrow> 'd coll" where
  "findAll P c = filter (\<lambda>(k, d). P d) c"

definition findOne :: "('d \<Rightarrow> bool) \<Rightarrow> 'd coll \<Rightarrow> (oid \<times> 'd) option" where
  "findOne P c = List.find (\<lambda>(k, d). P d) c"

definition existsDoc :: "('d \<Rightarrow> bool) \<Rightarrow> 'd coll \<Rightarrow> bool" where
  "existsDoc P c = list_ex (\<lambda>(k, d). P d) c"

definition countDocuments :: "('d \<Rightarrow> bool) \<Rightarrow> 'd coll \<Rightarrow> nat" where
  "countDocuments P c = length (findAll P c)"

definition updateMany :: "('d \<Rightarrow> bool) \<Rightarrow> ('d \<Rightarrow> 'd) \<Rightarrow> 'd coll \<Rightarrow> 'd coll" where
  "updateMany P f c = map (\<lambda>(k, d). (k, if P d then f d else d)) c"

lemma findById_Nil [simp]: "findById [] k = None"
  by (simp add: findById_def)

lemma findById_Cons [simp]:
  "findById ((k, d) # c) k' = (if k' = k then Some d else findById c k')"
  by (simp add: findById_def)

lemma findById_saveDoc [simp]:
  "findById (saveDoc k d c) k' = (if k' = k then Some d else findById c k')"
  by (simp add: findById_def saveDoc_def update_conv')

lemma saveDoc_Nil [simp]: "saveDoc k d [] = [(k, d)]"
  by (simp add: saveDoc_def)

lemma saveDoc_Cons [simp]:
  "saveDoc k d ((k', d') # c) = (if k' = k then (k, d) # c else (k', d') # saveDoc k d c)"
  by (simp add: saveDoc_def)

lemma saveDoc_saveDoc [simp]: "saveDoc k d (saveDoc k d' c) = saveDoc k d c"
  by (induction c) auto

lemma keys_saveDoc: "fst ` set (saveDoc k d c) = insert k (fst ` set c)"
  by (simp add: saveDoc_def dom_update)

lemma distinct_saveDoc [simp]:
  "distinct (map fst c) \<Longrightarrow> distinct (map fst (saveDoc k d c))"
  by (simp add: saveDoc_def distinct_update)

lemma findById_append [simp]:
  "findById (c @ c') k = (case findById c k of None \<Rightarrow> findById c' k | Some d \<Rightarrow> Some d)"
  by (simp add: findById_def map_add_def split: option.splits)

lemma findById_findByIdAndUpdate [simp]:
  "findById (findByIdAndUpdate k f c) k' =
     (if k' = k then map_option f (findById c k) else findById c k')"
  by (auto simp: findByIdAndUpdate_def split: option.splits)

lemma saveDoc_keys_present: "findById c k = Some d' \<Longrightarrow> map fst (saveDoc k d c) = map fst c"
  by (induction c) (auto split: if_splits)

lemma keys_findByIdAndUpdate [simp]: "map fst (findByIdAndUpdate k f c) = map fst c"
  by (auto simp: findByIdAndUpdate_def saveDoc_keys_present split: option.splits)

lemma findById_updateMany [simp]:
  "findById (updateMany P f c) k = map_option (\<lambda>d. if P d then f d else d) (findById c k)"
  by (induction c) (auto simp: updateMany_def)

lemma keys_updateMany [simp]: "map fst (updateMany P f c) = map fst c"
  by (simp add: updateMany_def case_prod_unfold comp_def)

lemma findById_in_set: "findById c k = Some d \<Longrightarrow> (k, d) \<in> set c"
  by (simp add: findById_def map_of_SomeD)

lemma in_set_findById: "distinct (map fst c) \<Longrightarrow> (k, d) \<in> set c \<Longrightarrow> findById c k = Some d"
  by (simp add: findById_def)

lemma findAll_simps [simp]:
  "findAll P [] = []"
  "findAll P ((k, d) # c) = (if P d then (k, d) # findAll P c else findAll P c)"
  by (simp_all add: findAll_def)

lemma set_findAll: "set (findAll P c) = {(k, d) \<in> set c. P d}"
  by (auto simp: findAll_def)

lemma existsDoc_iff: "existsDoc P c \<longleftrightarrow> (\<exists>(k, d) \<in> set c. P d)"
  by (auto simp: existsDoc_def list_ex_iff)

lemma existsDoc_simps [simp]:
  "existsDoc P [] = False"
  "existsDoc P ((k, d) # c) = (P d \<or> existsDoc P c)"
  by (simp_all add: existsDoc_def)

lemma existsDoc_append [simp]: "existsDoc P (c @ c') = (existsDoc P c \<or> existsDoc P c')"
  by (auto simp: existsDoc_iff)

lemma findOne_simps [simp]:
  "findOne P [] = None"
  "findOne P ((k, d) # c) = (if P d then Some (k, d) else findOne P c)"
  by (simp_all add: findOne_def)

lemma findOne_SomeD: "findOne P c = Some (k, d) \<Longrightarrow> (k, d) \<in> set c \<and> P d"
  by (induction c) (auto split: if_splits)

lemma findOne_None: "findOne P c = None \<longleftrightarrow> \<not> existsDoc P c"
  by (auto simp: findOne_def existsDoc_iff find_None_iff)

lemma countDocuments_0: "countDocuments P c = 0 \<longleftrightarrow> \<not> existsDoc P c"
  by (auto simp: countDocuments_def existsDoc_iff findAll_def filter_empty_conv)

lemma set_saveDoc_subset: "set (saveDoc k d c) \<subseteq> insert (k, d) (set c)"
  by (induction c) (auto split: if_splits)

lemma set_saveDoc_present:
  "distinct (map fst c) \<Longrightarrow> findById c k = Some d' \<Longrightarrow>
     set (saveDoc k d c) = insert (k, d) (set c - {(k, d')})"
  by (induction c) (auto split: if_splits simp: findById_def dest: map_of_SomeD)

text \<open>
  The interface a handler uses of one collection of the database: it finds a document by its id
  and saves a document, and the law is that a save is seen by the finds after it.
\<close>

locale doc_store =
  fixes find :: "'s \<Rightarrow> oid \<Rightarrow> 'd option"
    and save :: "oid \<Rightarrow> 'd \<Rightarrow> 's \<Rightarrow> 's"
  assumes find_save: "find (save k d s) k' = (if k' = k then Some d else find s k')"
begin

lemma find_saved: "find (save k d s) k = Some d"
  by (simp add: find_save)

lemma find_unsaved: "k' \<noteq> k \<Longrightarrow> find (save k d s) k' = find s k'"
  by (simp add: find_save)

lemma save_twice: "find (save k d (save k d' s)) = find (save k d s)"
  by (auto simp: find_save fun_eq_iff)

lemma save_commute:
  "k \<noteq> k' \<Longrightarrow> find (save k d (save k' d' s)) = find (save k' d' (save k d s))"
  by (auto simp: find_save fun_eq_iff)

lemma keeps_all_docs:
  assumes "\<forall>k d. find s k = Some d \<longrightarrow> P k d" and "P k' d'"
  shows "\<forall>k d. find (save k' d' s) k = Some d \<longrightarrow> P k d"
  using assms by (auto simp: find_save)

lemma requireM_found: "find s k = Some d \<Longrightarrow> requireM (\<lambda>s. find s k) e s = (Inr d, s)"
  by (simp add: requireM_def)

lemma requireM_missing: "find s k = None \<Longrightarrow> requireM (\<lambda>s. find s k) e s = (Inl e, s)"
  by (simp add: requireM_def)

end

section \<open>Runs of a system\<close>

text \<open>
  A system takes events one after the other; \<open>ok\<close> is kept by every event that is admitted.  Then
  every run of admitted events keeps it, at each of its states.
\<close>

locale kept_run =
  fixes step :: "'e \<Rightarrow> 's \<Rightarrow> 's"
    and ok :: "'s \<Rightarrow> bool"
    and admitted :: "'e \<Rightarrow> bool"
  assumes step_ok: "ok s \<Longrightarrow> admitted e \<Longrightarrow> ok (step e s)"
begin

lemma admitted_run: "ok s \<Longrightarrow> list_all admitted es \<Longrightarrow> ok (fold step es s)"
  by (induction es arbitrary: s) (auto intro: step_ok)

lemma every_prefix_ok: "ok s \<Longrightarrow> list_all admitted es \<Longrightarrow> ok (fold step (take n es) s)"
  by (rule admitted_run) (auto simp: list_all_iff dest: in_set_takeD)

end

end
