(* ===== verification/JsNumber.thy ===== *)
theory JsNumber
  imports Prelude
begin

text \<open>
  JavaScript numbers.  A finite Number is the rational it denotes; every arithmetic operator of
  the source is the exact operation followed by \<open>fl\<close>, the rounding of IEEE 754 binary64 (53
  significant bits, ties to even, gradual underflow below 2 to the -1022), and a decimal literal
  is \<open>fl\<close> of its value.  Overflow to Infinity (from 2 to the 1024 on) and the sign of zero are
  not modelled.  The locale \<open>rounding\<close> states the three facts about \<open>fl\<close> that the pricing proofs
  use: it is monotone, odd, and exact on the integers up to 2 to the 53.
\<close>

section \<open>Rounding to an integer\<close>

definition round_half_even :: "rat \<Rightarrow> int" where
  "round_half_even x =
     (let f = \<lfloor>x\<rfloor>; d = x - of_int f
      in if d < 1/2 then f else if d > 1/2 then f + 1 else if even f then f else f + 1)"

lemma round_half_even_of_int [simp]: "round_half_even (of_int n) = n"
  by (simp add: round_half_even_def)

lemma round_half_even_bounds: "\<lfloor>x\<rfloor> \<le> round_half_even x \<and> round_half_even x \<le> \<lfloor>x\<rfloor> + 1"
  by (simp add: round_half_even_def Let_def)

lemma round_half_even_mono:
  assumes "x \<le> y"
  shows "round_half_even x \<le> round_half_even y"
proof (cases "\<lfloor>x\<rfloor> = \<lfloor>y\<rfloor>")
  case True
  with assms show ?thesis by (auto simp: round_half_even_def Let_def)
next
  case False
  with floor_mono [OF assms] have "\<lfloor>x\<rfloor> + 1 \<le> \<lfloor>y\<rfloor>" by simp
  with round_half_even_bounds [of x] round_half_even_bounds [of y] show ?thesis by linarith
qed

section \<open>The binary exponent\<close>

function nlog2 :: "int \<Rightarrow> nat" where
  "nlog2 n = (if n < 2 then 0 else Suc (nlog2 (n div 2)))"
  by pat_completeness auto
termination
  by (relation "measure nat") auto

declare nlog2.simps [simp del]

lemma nlog2_bounds: "0 < n \<Longrightarrow> 2 ^ nlog2 n \<le> n \<and> n < 2 ^ Suc (nlog2 n)"
proof (induction n rule: nlog2.induct)
  case (1 n)
  show ?case
  proof (cases "n < 2")
    case True
    with "1.prems" show ?thesis by (simp add: nlog2.simps [of n])
  next
    case False
    with "1.IH" have "2 ^ nlog2 (n div 2) \<le> n div 2 \<and> n div 2 < 2 ^ Suc (nlog2 (n div 2))"
      by simp
    with False show ?thesis by (simp add: nlog2.simps [of n]) linarith
  qed
qed

text \<open>\<open>ilog2 x\<close> is the exponent of a positive \<open>x\<close>: the \<open>e\<close> with 2 powi e \<le> x < 2 powi (e + 1).\<close>

definition ilog2 :: "rat \<Rightarrow> int" where
  "ilog2 x = (if 1 \<le> x then int (nlog2 \<lfloor>x\<rfloor>) else - int (nlog2 (\<lceil>1 / x\<rceil> - 1)) - 1)"

lemma two_powi_pos [simp]: "0 < (2::rat) powi e"
  by simp

lemma two_powi_nat: "(2::rat) powi int n = 2 ^ n"
  by simp

lemma two_powi_mono: "e \<le> e' \<Longrightarrow> (2::rat) powi e \<le> 2 powi e'"
  by (rule power_int_increasing) auto

lemma ilog2_ge_one:
  assumes "1 \<le> x"
  shows "2 powi (ilog2 x) \<le> x \<and> x < 2 powi (ilog2 x + 1)"
proof -
  let ?n = "\<lfloor>x\<rfloor>"
  have pos: "0 < ?n" using assms by simp
  from nlog2_bounds [OF pos] have "2 ^ nlog2 ?n \<le> ?n" "?n + 1 \<le> 2 ^ Suc (nlog2 ?n)" by simp_all
  then have "rat_of_int (2 ^ nlog2 ?n) \<le> of_int ?n" "of_int (?n + 1) \<le> rat_of_int (2 ^ Suc (nlog2 ?n))"
    by (simp_all only: of_int_le_iff)
  moreover have "of_int ?n \<le> x" "x < of_int (?n + 1)" by (simp, linarith)
  ultimately have "rat_of_int (2 ^ nlog2 ?n) \<le> x" "x < rat_of_int (2 ^ Suc (nlog2 ?n))" by linarith+
  then have "2 ^ nlog2 ?n \<le> x" "x < 2 ^ Suc (nlog2 ?n)" by simp_all
  moreover have "ilog2 x + 1 = int (Suc (nlog2 ?n))" "ilog2 x = int (nlog2 ?n)"
    using assms by (simp_all add: ilog2_def)
  ultimately show ?thesis by (simp only: two_powi_nat)
qed

lemma ilog2_lt_one:
  assumes "0 < x" "x < 1"
  shows "2 powi (ilog2 x) \<le> x \<and> x < 2 powi (ilog2 x + 1)"
proof -
  let ?c = "\<lceil>1 / x\<rceil>" and ?k = "nlog2 (\<lceil>1 / x\<rceil> - 1)"
  have "1 < 1 / x" using assms by simp
  then have pos: "0 < ?c - 1" by linarith
  from nlog2_bounds [OF pos] have "?c \<le> 2 ^ Suc ?k" "2 ^ ?k \<le> ?c - 1" by linarith+
  then have "of_int ?c \<le> rat_of_int (2 ^ Suc ?k)" "rat_of_int (2 ^ ?k) \<le> of_int (?c - 1)"
    by (simp_all only: of_int_le_iff)
  moreover have "1 / x \<le> of_int ?c" "of_int (?c - 1) < 1 / x" by (simp, linarith)
  ultimately have "1 / x \<le> rat_of_int (2 ^ Suc ?k)" "rat_of_int (2 ^ ?k) < 1 / x" by linarith+
  then have up: "1 / x \<le> 2 ^ Suc ?k" and lo: "2 ^ ?k < 1 / x" by simp_all
  have e: "ilog2 x = - int (Suc ?k)" "ilog2 x + 1 = - int ?k" using assms by (simp_all add: ilog2_def)
  have p: "(2::rat) powi (- int n) = 1 / 2 ^ n" for n
    by (simp add: power_int_minus field_simps)
  have "(2::rat) powi (ilog2 x) = 1 / 2 ^ Suc ?k" unfolding e(1) by (rule p)
  moreover have "(2::rat) powi (ilog2 x + 1) = 1 / 2 ^ ?k" unfolding e(2) by (rule p)
  moreover have "1 / 2 ^ Suc ?k \<le> x" "x < 1 / 2 ^ ?k" using up lo assms by (simp_all add: field_simps)
  ultimately show ?thesis by (simp only: simp_thms)
qed

lemma ilog2_bounds: "0 < x \<Longrightarrow> 2 powi (ilog2 x) \<le> x \<and> x < 2 powi (ilog2 x + 1)"
  using ilog2_ge_one ilog2_lt_one by (cases "1 \<le> x") auto

section \<open>IEEE 754 binary64 rounding\<close>

definition ulp_exp :: "rat \<Rightarrow> int" where
  "ulp_exp x = max (ilog2 x) (- 1022) - 52"

definition fl_pos :: "rat \<Rightarrow> rat" where
  "fl_pos x = (let q = 2 powi (ulp_exp x) in of_int (round_half_even (x / q)) * q)"

definition fl :: "rat \<Rightarrow> rat" where
  "fl x = (if x = 0 then 0 else if 0 < x then fl_pos x else - fl_pos (- x))"

lemma fl_pos_nonneg: "0 < x \<Longrightarrow> 0 \<le> fl_pos x"
proof -
  assume "0 < x"
  then have "0 \<le> x / 2 powi (ulp_exp x)" by simp
  from round_half_even_mono [OF this] have "0 \<le> round_half_even (x / 2 powi (ulp_exp x))"
    using round_half_even_of_int [of 0] by simp
  then show ?thesis by (simp add: fl_pos_def Let_def)
qed

text \<open>A value below (above) a multiple of its own unit stays below (above) it when rounded.\<close>

lemma fl_pos_le:
  assumes "x \<le> of_int n * 2 powi (ulp_exp x)"
  shows "fl_pos x \<le> of_int n * 2 powi (ulp_exp x)"
proof -
  from assms have "x / 2 powi (ulp_exp x) \<le> of_int n" by (simp add: pos_divide_le_eq)
  from round_half_even_mono [OF this] have "round_half_even (x / 2 powi (ulp_exp x)) \<le> n" by simp
  then show ?thesis by (simp add: fl_pos_def Let_def)
qed

lemma fl_pos_ge:
  assumes "of_int n * 2 powi (ulp_exp x) \<le> x"
  shows "of_int n * 2 powi (ulp_exp x) \<le> fl_pos x"
proof -
  from assms have "of_int n \<le> x / 2 powi (ulp_exp x)" by (simp add: pos_le_divide_eq)
  from round_half_even_mono [OF this] have "n \<le> round_half_even (x / 2 powi (ulp_exp x))" by simp
  then show ?thesis by (simp add: fl_pos_def Let_def)
qed

lemma two_powi_split: "e' \<le> e \<Longrightarrow> (2::rat) powi e = of_int (2 ^ nat (e - e')) * 2 powi e'"
proof -
  assume "e' \<le> e"
  then have "(2::rat) powi e = 2 powi (int (nat (e - e')) + e')" by simp
  also have "\<dots> = 2 powi int (nat (e - e')) * 2 powi e'" by (rule power_int_add) simp
  finally show ?thesis unfolding two_powi_nat by simp
qed

lemma fl_pos_mono:
  assumes "0 < x" "x \<le> y"
  shows "fl_pos x \<le> fl_pos y"
proof -
  let ?e = "\<lambda>z. max (ilog2 z) (- 1022)"
  have y: "0 < y" using assms by simp
  note bx = ilog2_bounds [OF assms(1)] and by' = ilog2_bounds [OF y]
  have le: "ilog2 x \<le> ilog2 y"
  proof (rule ccontr)
    assume "\<not> ilog2 x \<le> ilog2 y"
    then have "(2::rat) powi (ilog2 y + 1) \<le> 2 powi (ilog2 x)" by (intro two_powi_mono) simp
    with bx by' assms(2) show False by linarith
  qed
  show ?thesis
  proof (cases "?e x = ?e y")
    case True
    then have u: "ulp_exp x = ulp_exp y" by (simp add: ulp_exp_def)
    from assms(2) have "x / 2 powi (ulp_exp y) \<le> y / 2 powi (ulp_exp y)"
      by (simp add: divide_right_mono)
    from round_half_even_mono [OF this] u show ?thesis by (simp add: fl_pos_def Let_def)
  next
    case False
    with le have lt: "?e x < ?e y" and ey: "?e y = ilog2 y" by (auto simp: max_def split: if_splits)
    have ex: "(2::rat) powi (?e x + 1) = of_int (2 ^ nat (?e x + 1 - ulp_exp x)) * 2 powi (ulp_exp x)"
      by (rule two_powi_split) (simp add: ulp_exp_def)
    have "x \<le> 2 powi (ilog2 x + 1)" using bx by simp
    also have "\<dots> \<le> 2 powi (?e x + 1)" by (rule two_powi_mono) simp
    finally have "fl_pos x \<le> 2 powi (?e x + 1)" unfolding ex by (rule fl_pos_le)
    also have "\<dots> \<le> 2 powi (?e y)" using lt by (intro two_powi_mono) linarith
    also have "\<dots> \<le> fl_pos y"
    proof -
      have eq: "(2::rat) powi (?e y) = of_int (2 ^ nat (?e y - ulp_exp y)) * 2 powi (ulp_exp y)"
        by (rule two_powi_split) (simp add: ulp_exp_def)
      have "2 powi (?e y) \<le> y" using by' ey by simp
      then show ?thesis unfolding eq by (rule fl_pos_ge)
    qed
    finally show ?thesis .
  qed
qed

lemma fl_mono: "x \<le> y \<Longrightarrow> fl x \<le> fl y"
proof -
  assume le: "x \<le> y"
  consider "0 < x" | "y < 0" | "x \<le> 0" "0 \<le> y" by linarith
  then show ?thesis
  proof cases
    case 1
    with le fl_pos_mono [of x y] show ?thesis by (simp add: fl_def)
  next
    case 2
    with le fl_pos_mono [of "- y" "- x"] show ?thesis by (simp add: fl_def)
  next
    case 3
    with fl_pos_nonneg [of "- x"] fl_pos_nonneg [of y] show ?thesis by (auto simp: fl_def)
  qed
qed

lemma fl_minus: "fl (- x) = - fl x"
  by (simp add: fl_def)

lemma fl_pos_of_nat:
  assumes "0 < n" "n \<le> 2 ^ 53"
  shows "fl_pos (rat_of_nat n) = rat_of_nat n"
proof -
  let ?x = "rat_of_nat n"
  have x: "0 < ?x" using assms by simp
  note b = ilog2_bounds [OF x]
  have "ilog2 ?x \<ge> 0" using assms by (simp add: ilog2_def)
  then have u: "ulp_exp ?x = ilog2 ?x - 52" by (simp add: ulp_exp_def)
  have "ilog2 ?x \<le> 53"
  proof (rule ccontr)
    assume "\<not> ilog2 ?x \<le> 53"
    then have "(2::rat) powi 54 \<le> 2 powi (ilog2 ?x)" by (intro two_powi_mono) simp
    moreover have "?x \<le> rat_of_nat (2 ^ 53)" using assms(2) by (simp only: of_nat_le_iff)
    ultimately show False using b by simp
  qed
  then consider "ilog2 ?x \<le> 52" | "ilog2 ?x = 53" by linarith
  then obtain m where m: "?x = of_int m * 2 powi (ulp_exp ?x)"
  proof cases
    case 1
    have "1 = (2::rat) powi (- ulp_exp ?x) * 2 powi (ulp_exp ?x)"
      by (simp add: power_int_minus)
    also have "(2::rat) powi (- ulp_exp ?x) = of_int (2 ^ nat (- ulp_exp ?x))"
      using two_powi_split [of 0 "- ulp_exp ?x"] 1 u by simp
    finally have "?x = of_int (int n * 2 ^ nat (- ulp_exp ?x)) * 2 powi (ulp_exp ?x)" by simp
    then show thesis by (rule that)
  next
    case 2
    then have "2 powi 53 \<le> ?x" using b by simp
    moreover have "?x \<le> rat_of_nat (2 ^ 53)" using assms(2) by (simp only: of_nat_le_iff)
    ultimately have "?x = of_int (2 ^ 52) * 2 powi (ulp_exp ?x)" using 2 u by simp
    then show thesis by (rule that)
  qed
  then have "fl_pos ?x \<le> ?x" "?x \<le> fl_pos ?x"
    using fl_pos_le [of ?x m] fl_pos_ge [of m ?x] by simp_all
  then show ?thesis by simp
qed

lemma fl_of_int: "\<bar>n\<bar> \<le> 2 ^ 53 \<Longrightarrow> fl (of_int n) = of_int n"
  using fl_pos_of_nat [of "nat n"] fl_pos_of_nat [of "nat (- n)"]
  by (auto simp: fl_def nat_le_iff)

section \<open>The interface of a correctly rounded arithmetic\<close>

locale rounding =
  fixes rnd :: "rat \<Rightarrow> rat"
  assumes rnd_mono: "x \<le> y \<Longrightarrow> rnd x \<le> rnd y"
    and rnd_minus: "rnd (- x) = - rnd x"
    and rnd_int: "\<bar>n\<bar> \<le> 2 ^ 53 \<Longrightarrow> rnd (of_int n) = of_int n"
begin

lemma rnd_0 [simp]: "rnd 0 = 0"
  using rnd_int [of 0] by simp

lemma rnd_1 [simp]: "rnd 1 = 1"
  using rnd_int [of 1] by simp

lemma rnd_nonneg: "0 \<le> x \<Longrightarrow> 0 \<le> rnd x"
  using rnd_mono [of 0 x] by simp

lemma rnd_nonpos: "x \<le> 0 \<Longrightarrow> rnd x \<le> 0"
  using rnd_mono [of x 0] by simp

lemma rnd_le_int: "x \<le> of_int n \<Longrightarrow> \<bar>n\<bar> \<le> 2 ^ 53 \<Longrightarrow> rnd x \<le> of_int n"
  using rnd_mono [of x "of_int n"] rnd_int [of n] by simp

lemma rnd_ge_int: "of_int n \<le> x \<Longrightarrow> \<bar>n\<bar> \<le> 2 ^ 53 \<Longrightarrow> of_int n \<le> rnd x"
  using rnd_mono [of "of_int n" x] rnd_int [of n] by simp

lemma rnd_mult_mono: "0 \<le> a \<Longrightarrow> x \<le> y \<Longrightarrow> rnd (x * a) \<le> rnd (y * a)"
  by (intro rnd_mono mult_right_mono)

end

interpretation fl: rounding fl
  by unfold_locales (auto intro: fl_mono simp: fl_minus fl_of_int)

section \<open>Operators and Math functions\<close>

definition jadd :: "rat \<Rightarrow> rat \<Rightarrow> rat" where "jadd a b = fl (a + b)"
definition jsub :: "rat \<Rightarrow> rat \<Rightarrow> rat" where "jsub a b = fl (a - b)"
definition jmul :: "rat \<Rightarrow> rat \<Rightarrow> rat" where "jmul a b = fl (a * b)"
definition jdiv :: "rat \<Rightarrow> rat \<Rightarrow> rat" where "jdiv a b = fl (a / b)"

text \<open>\<open>Math.round\<close>: the nearest integer, a tie going up.\<close>

definition js_round :: "rat \<Rightarrow> int" where
  "js_round x = \<lfloor>x + 1/2\<rfloor>"

text \<open>\<open>Number(x.toFixed(d))\<close> for a non-negative \<open>x\<close>.\<close>

definition to_fixed :: "nat \<Rightarrow> rat \<Rightarrow> rat" where
  "to_fixed d x =
     (if x < 0 then - fl (of_int \<lfloor>- x * 10 ^ d + 1/2\<rfloor> / 10 ^ d)
      else fl (of_int \<lfloor>x * 10 ^ d + 1/2\<rfloor> / 10 ^ d))"

text \<open>A value of type \<open>unknown\<close> where the code tests for a finite Number.\<close>

datatype jsval = VUndefined | VNaN | VInfinity | VNumber rat | VOther

definition safeNumber :: "jsval \<Rightarrow> rat \<Rightarrow> rat" where
  "safeNumber v d = (case v of VNumber r \<Rightarrow> r | _ \<Rightarrow> d)"

lemma js_round_mono: "x \<le> y \<Longrightarrow> js_round x \<le> js_round y"
  by (simp add: js_round_def floor_mono)

lemma js_round_of_int [simp]: "js_round (of_int n) = n"
  by (simp add: js_round_def) linarith

lemma js_round_le: "x \<le> of_int n \<Longrightarrow> js_round x \<le> n"
  using js_round_mono [of x "of_int n"] by simp

lemma js_round_ge: "of_int n \<le> x \<Longrightarrow> n \<le> js_round x"
  using js_round_mono [of "of_int n" x] by simp

lemma js_round_nonneg: "0 \<le> x \<Longrightarrow> 0 \<le> js_round x"
  using js_round_ge [of 0 x] by simp

lemma jmul_mono: "0 \<le> a \<Longrightarrow> x \<le> y \<Longrightarrow> jmul x a \<le> jmul y a"
  by (simp add: jmul_def fl.rnd_mult_mono)

lemma jmul_nonneg: "0 \<le> a \<Longrightarrow> 0 \<le> b \<Longrightarrow> 0 \<le> jmul a b"
  by (simp add: jmul_def fl.rnd_nonneg)

lemma jdiv_nonneg: "0 \<le> a \<Longrightarrow> 0 \<le> b \<Longrightarrow> 0 \<le> jdiv a b"
  by (simp add: jdiv_def fl.rnd_nonneg)

lemma jdiv_mono: "0 < c \<Longrightarrow> a \<le> b \<Longrightarrow> jdiv a c \<le> jdiv b c"
  by (simp add: jdiv_def fl_mono divide_right_mono)

lemma jadd_mono: "a \<le> b \<Longrightarrow> c \<le> d \<Longrightarrow> jadd a c \<le> jadd b d"
  by (simp add: jadd_def fl_mono)

lemma jadd_of_int: "\<bar>a + b\<bar> \<le> 2 ^ 53 \<Longrightarrow> jadd (of_int a) (of_int b) = of_int (a + b)"
  unfolding jadd_def of_int_add [symmetric] by (rule fl_of_int)

lemma jsub_nonneg: "b \<le> a \<Longrightarrow> 0 \<le> jsub a b"
  by (simp add: jsub_def fl.rnd_nonneg)

end
