(* ===== verification/Models.thy ===== *)
theory Models
  imports JsNumber
begin

text \<open>
  The data model: one record per mongoose schema of \<open>backend/src/models\<close>, one datatype per enum,
  the configuration (\<open>config/env.ts\<close>) and the external services as the record \<open>world\<close>, and the
  state \<open>db\<close> that every handler of the service reads and writes.

  A field the schema leaves optional is an option.  Amounts of money are whole paise and are
  integers (exact as long as they stay below 2 to the 53, as the amounts of the service do);
  weights, prices per kilogram, ratings and percentages are Numbers.  \<open>updatedAt\<close> is written by
  mongoose and read by nothing, so it is left out.
\<close>

section \<open>Enums\<close>

datatype match_status =
    Proposed | CarrierAccepted | SenderConfirmed | Active | PickupPending | PickedUp
  | InTransit | DeliveryPending | Delivered | Cancelled | Disputed

fun match_status_str :: "match_status \<Rightarrow> string" where
  "match_status_str Proposed = ''proposed''"
| "match_status_str CarrierAccepted = ''carrier_accepted''"
| "match_status_str SenderConfirmed = ''sender_confirmed''"
| "match_status_str Active = ''active''"
| "match_status_str PickupPending = ''pickup_pending''"
| "match_status_str PickedUp = ''picked_up''"
| "match_status_str InTransit = ''in_transit''"
| "match_status_str DeliveryPending = ''delivery_pending''"
| "match_status_str Delivered = ''delivered''"
| "match_status_str Cancelled = ''cancelled''"
| "match_status_str Disputed = ''disputed''"

datatype timeline_event =
    EvMatchProposed | EvCarrierAccepted | EvSenderConfirmed | EvPaymentDone
  | EvPickupOtpGenerated | EvPickupVerified | EvDeliveryOtpGenerated | EvDeliveryVerified
  | EvCompleted | EvCancelled | EvDisputed | EvRapidoBooked

text \<open>
  \<open>ReqCreated\<close> is the value \<open>created\<close> that the SLA worker writes with \<open>findByIdAndUpdate\<close>, which
  runs no validator: it is not in the enum of the schema.
\<close>

datatype request_status =
    ReqPending | ReqMatched | ReqPickupOtpSent | ReqPickedUp | ReqInTransit
  | ReqDeliveryOtpSent | ReqDelivered | ReqCancelled | ReqExpired | ReqCreated

fun request_status_str :: "request_status \<Rightarrow> string" where
  "request_status_str ReqPending = ''pending''"
| "request_status_str ReqMatched = ''matched''"
| "request_status_str ReqPickupOtpSent = ''pickup_otp_sent''"
| "request_status_str ReqPickedUp = ''picked_up''"
| "request_status_str ReqInTransit = ''in_transit''"
| "request_status_str ReqDeliveryOtpSent = ''delivery_otp_sent''"
| "request_status_str ReqDelivered = ''delivered''"
| "request_status_str ReqCancelled = ''cancelled''"
| "request_status_str ReqExpired = ''expired''"
| "request_status_str ReqCreated = ''created''"

datatype payment_status = Unpaid | Paid | Refunded | PartialRefund

fun payment_status_str :: "payment_status \<Rightarrow> string" where
  "payment_status_str Unpaid = ''unpaid''"
| "payment_status_str Paid = ''paid''"
| "payment_status_str Refunded = ''refunded''"
| "payment_status_str PartialRefund = ''partial_refund''"

datatype trip_status = TripActive | TripFull | TripInTransit | TripCompleted | TripCancelled

fun trip_status_str :: "trip_status \<Rightarrow> string" where
  "trip_status_str TripActive = ''active''"
| "trip_status_str TripFull = ''full''"
| "trip_status_str TripInTransit = ''in_transit''"
| "trip_status_str TripCompleted = ''completed''"
| "trip_status_str TripCancelled = ''cancelled''"

datatype category = Documents | Clothing | Electronics | Food | Fragile | Medicine | OtherCategory

fun category_str :: "category \<Rightarrow> string" where
  "category_str Documents = ''documents''"
| "category_str Clothing = ''clothing''"
| "category_str Electronics = ''electronics''"
| "category_str Food = ''food''"
| "category_str Fragile = ''fragile''"
| "category_str Medicine = ''medicine''"
| "category_str OtherCategory = ''other''"

datatype transport_mode = Bus | Train | Car | Bike | Flight | OtherMode

datatype role = SenderRole | CarrierRole | AdminRole

datatype transaction_type =
    DeliveryPayment | SafetyDeposit | CarrierPayout | Refund | PlatformFee
  | EscrowHold | EscrowRelease

datatype transaction_status = TxInitiated | TxPending | TxCompleted | TxFailed | TxRefunded

datatype outbox_status = OutPending | OutProcessing | OutPublished | OutFailed

datatype government_id = Aadhaar | Pan | Passport | DrivingLicence

datatype kyc_tier = Tier1Basic | Tier2Verified | Tier3Pro

section \<open>Documents\<close>

record location =
  l_city :: string
  l_state :: "string option"
  l_coordinates :: "(rat \<times> rat) option"
  l_placeId :: "string option"
  l_fullAddress :: "string option"

record dimensions =
  d_length :: "rat option"
  d_width :: "rat option"
  d_height :: "rat option"

record package =
  p_description :: string
  p_category :: category
  p_weightKg :: rat
  p_dimensionsCm :: "dimensions option"
  p_isFragile :: bool
  p_declaredValue :: "rat option"
  p_photoUrl :: "string option"

record recipient =
  rc_name :: string
  rc_phone :: string
  rc_address :: string

record time_window =
  w_earliest :: int
  w_latest :: int

record delivery_request =
  r_sender :: oid
  r_origin :: location
  r_destination :: location
  r_package :: package
  r_recipient :: recipient
  r_window :: time_window
  r_status :: request_status
  r_quotedPrice :: "int option"
  r_platformFee :: "int option"
  r_totalCharge :: "int option"
  r_match :: "oid option"
  r_paymentOrderId :: "string option"
  r_paymentStatus :: payment_status
  r_expiresAt :: "int option"
  r_createdAt :: int

record timeline_entry =
  te_event :: timeline_event
  te_timestamp :: int
  te_actor :: "oid option"
  te_metadata :: json

record otp_stamps =
  os_generatedAt :: "int option"
  os_verifiedAt :: "int option"

record rating_entry =
  re_score :: int
  re_comment :: "string option"
  re_at :: int

record rapido_info =
  ra_requested :: bool
  ra_bookingId :: "string option"
  ra_status :: "string option"

record match_doc =
  m_trip :: oid
  m_deliveryRequest :: oid
  m_carrier :: oid
  m_sender :: oid
  m_status :: match_status
  m_otpPickup :: otp_stamps
  m_otpDelivery :: otp_stamps
  m_timeline :: "timeline_entry list"
  m_agreedPrice :: int
  m_payoutToCarrier :: "int option"
  m_rapido :: rapido_info
  m_senderRatedCarrier :: "rating_entry option"
  m_carrierRatedSender :: "rating_entry option"
  m_createdAt :: int

record transport_details =
  td_name :: "string option"
  td_pnr :: "string option"
  td_seatNumber :: "string option"

record capacity =
  c_weightKg :: rat
  c_dimensionsCm :: "dimensions option"
  c_allowedCategories :: "category list"

record trip =
  t_carrier :: oid
  t_origin :: location
  t_destination :: location
  t_departureTime :: int
  t_estimatedArrivalTime :: "int option"
  t_modeOfTransport :: transport_mode
  t_transportDetails :: "transport_details option"
  t_availableCapacity :: capacity
  t_pricePerKg :: rat
  t_status :: trip_status
  t_safetyDepositPaid :: bool
  t_safetyDepositAmount :: "int option"
  t_safetyDepositTransactionId :: "string option"
  t_pickupInstructions :: "string option"
  t_dropoffInstructions :: "string option"
  t_matches :: "oid list"

record payout_bank =
  pb_accountNumberMasked :: "string option"
  pb_ifsc :: "string option"
  pb_verified :: bool
  pb_holderName :: "string option"

record carrier_preferences =
  cp_preferredModes :: "string list"
  cp_maxCapacityKg :: rat
  cp_allowedCategories :: "string list"
  cp_instantBooking :: bool
  cp_bio :: "string option"
  cp_emergencyContact :: "string option"

record user =
  u_name :: string
  u_email :: string
  u_phone :: string
  u_phoneVerified :: bool
  u_emailVerified :: bool
  u_profilePhoto :: "string option"
  u_role :: "role list"
  u_ratingAverage :: rat
  u_ratingCount :: int
  u_balance :: int
  u_escrowHeld :: int
  u_governmentIdVerified :: bool
  u_governmentIdType :: "government_id option"
  u_governmentIdLast4 :: "string option"
  u_aadhaarVerified :: bool
  u_aadhaarMasked :: "string option"
  u_payoutUpi :: "string option"
  u_payoutBank :: payout_bank
  u_carrierPreferences :: carrier_preferences
  u_kycTier :: kyc_tier
  u_totalDeliveries :: int
  u_totalTripsAsCarrier :: int
  u_isActive :: bool
  u_refreshTokenHash :: "string option"
  u_fcmToken :: "string option"
  u_createdAt :: int

record transaction =
  x_user :: oid
  x_match :: "oid option"
  x_type :: transaction_type
  x_amount :: int
  x_currency :: string
  x_razorpayOrderId :: "string option"
  x_razorpayPaymentId :: "string option"
  x_razorpaySignature :: "string option"
  x_status :: transaction_status
  x_description :: "string option"
  x_createdAt :: int

record outbox_event =
  o_topic :: string
  o_eventType :: string
  o_aggregateType :: string
  o_aggregateId :: string
  o_partitionKey :: "string option"
  o_payload :: json
  o_headers :: json
  o_status :: outbox_status
  o_attempts :: int
  o_availableAt :: int
  o_publishedAt :: "int option"
  o_lastError :: "string option"
  o_expiresAt :: "int option"
  o_createdAt :: int

record processed_webhook =
  pw_eventId :: string
  pw_event :: string
  pw_orderId :: string
  pw_processedAt :: int

record review =
  rv_match :: oid
  rv_from :: oid
  rv_to :: oid
  rv_score :: int
  rv_comment :: "string option"

record notification =
  n_user :: oid
  n_title :: string
  n_body :: string
  n_type :: string
  n_read :: bool
  n_metadata :: json
  n_createdAt :: int

section \<open>Schema defaults\<close>

definition new_user :: "string \<Rightarrow> string \<Rightarrow> string \<Rightarrow> role list \<Rightarrow> int \<Rightarrow> user" where
  "new_user name email phone roles now =
     \<lparr> u_name = name, u_email = email, u_phone = phone, u_phoneVerified = False,
       u_emailVerified = False, u_profilePhoto = None, u_role = roles,
       u_ratingAverage = 5, u_ratingCount = 0, u_balance = 0, u_escrowHeld = 0,
       u_governmentIdVerified = False, u_governmentIdType = None, u_governmentIdLast4 = None,
       u_aadhaarVerified = False, u_aadhaarMasked = None, u_payoutUpi = None,
       u_payoutBank = \<lparr> pb_accountNumberMasked = None, pb_ifsc = None, pb_verified = False,
                        pb_holderName = None \<rparr>,
       u_carrierPreferences =
         \<lparr> cp_preferredModes = [''train'', ''car''], cp_maxCapacityKg = 10,
           cp_allowedCategories = [''documents'', ''electronics'', ''clothing''],
           cp_instantBooking = True, cp_bio = Some [], cp_emergencyContact = Some [] \<rparr>,
       u_kycTier = Tier1Basic, u_totalDeliveries = 0, u_totalTripsAsCarrier = 0,
       u_isActive = True, u_refreshTokenHash = None, u_fcmToken = None, u_createdAt = now \<rparr>"

definition no_stamps :: otp_stamps where
  "no_stamps = \<lparr> os_generatedAt = None, os_verifiedAt = None \<rparr>"

definition new_match ::
  "oid \<Rightarrow> oid \<Rightarrow> oid \<Rightarrow> oid \<Rightarrow> int \<Rightarrow> int option \<Rightarrow> timeline_entry list \<Rightarrow> int \<Rightarrow> match_doc" where
  "new_match trip req carrier sender price payout timeline now =
     \<lparr> m_trip = trip, m_deliveryRequest = req, m_carrier = carrier, m_sender = sender,
       m_status = Proposed, m_otpPickup = no_stamps, m_otpDelivery = no_stamps,
       m_timeline = timeline, m_agreedPrice = price, m_payoutToCarrier = payout,
       m_rapido = \<lparr> ra_requested = False, ra_bookingId = None, ra_status = None \<rparr>,
       m_senderRatedCarrier = None, m_carrierRatedSender = None, m_createdAt = now \<rparr>"

definition new_transaction ::
  "oid \<Rightarrow> oid option \<Rightarrow> transaction_type \<Rightarrow> int \<Rightarrow> transaction_status \<Rightarrow> string \<Rightarrow> int \<Rightarrow> transaction" where
  "new_transaction usr mid ty amount st descr now =
     \<lparr> x_user = usr, x_match = mid, x_type = ty, x_amount = amount, x_currency = ''INR'',
       x_razorpayOrderId = None, x_razorpayPaymentId = None, x_razorpaySignature = None,
       x_status = st, x_description = Some descr, x_createdAt = now \<rparr>"

section \<open>Documents as they appear in event payloads\<close>

definition location_json :: "location \<Rightarrow> json" where
  "location_json l = JObj
     [(''city'', JStr (l_city l)), (''state'', jopt JStr (l_state l)),
      (''coordinates'', jopt (\<lambda>(lng, lat). JObj [(''type'', JStr ''Point''),
         (''coordinates'', JArr [JNum lng, JNum lat])]) (l_coordinates l)),
      (''placeId'', jopt JStr (l_placeId l)), (''fullAddress'', jopt JStr (l_fullAddress l))]"

definition dimensions_json :: "dimensions \<Rightarrow> json" where
  "dimensions_json d = JObj
     [(''length'', jopt JNum (d_length d)), (''width'', jopt JNum (d_width d)),
      (''height'', jopt JNum (d_height d))]"

definition package_json :: "package \<Rightarrow> json" where
  "package_json p = JObj
     [(''description'', JStr (p_description p)), (''category'', JStr (category_str (p_category p))),
      (''weightKg'', JNum (p_weightKg p)),
      (''dimensionsCm'', jopt dimensions_json (p_dimensionsCm p)),
      (''isFragile'', JBool (p_isFragile p)), (''declaredValue'', jopt JNum (p_declaredValue p)),
      (''photoUrl'', jopt JStr (p_photoUrl p))]"

definition window_json :: "time_window \<Rightarrow> json" where
  "window_json w = JObj [(''earliest'', JDate (w_earliest w)), (''latest'', JDate (w_latest w))]"

definition capacity_json :: "capacity \<Rightarrow> json" where
  "capacity_json c = JObj
     [(''weightKg'', JNum (c_weightKg c)),
      (''dimensionsCm'', jopt dimensions_json (c_dimensionsCm c)),
      (''allowedCategories'', JArr (map (JStr \<circ> category_str) (c_allowedCategories c)))]"

section \<open>Redis, realtime messages and queue jobs\<close>

text \<open>
  A Redis value: a plain string, or the JSON text of an OTP record.  A key may have an expiry
  time; a key whose expiry has passed is absent for every command.
\<close>

record otp_record =
  otp_hash :: string
  otp_attempts :: int
  otp_createdAt :: int

datatype redis_value = RedisString string | RedisOtp otp_record

datatype rt_target = RtUser oid | RtMatch oid | RtTrip oid | RtRoom string | RtBroadcast

record rt_message =
  rt_target :: rt_target
  rt_event :: string
  rt_payload :: json

record job =
  j_queue :: string
  j_name :: string
  j_data :: json
  j_delay :: int

section \<open>The state\<close>

record db =
  users :: "user coll"
  trips :: "trip coll"
  requests :: "delivery_request coll"
  matches :: "match_doc coll"
  transactions :: "transaction coll"
  outbox :: "outbox_event coll"
  webhooks :: "processed_webhook coll"
  reviews :: "review coll"
  notifications :: "notification coll"
  redis :: "(string \<times> redis_value \<times> int option) list"
  published :: "rt_message list"
  jobs :: "job list"
  clock :: int
  draws :: nat

definition empty_db :: "int \<Rightarrow> db" where
  "empty_db now =
     \<lparr> users = [], trips = [], requests = [], matches = [], transactions = [], outbox = [],
       webhooks = [], reviews = [], notifications = [], redis = [], published = [], jobs = [],
       clock = now, draws = 0 \<rparr>"

section \<open>Configuration and the outside world\<close>

text \<open>
  The fields in capitals are those of \<open>config/env.ts\<close>.  The others stand for code that is not in
  the repository: ObjectIds, bcrypt, HMAC, AES and random numbers (the number says which draw it is,
  so two draws of one run may differ), JSON Web Tokens (signed with the time and a secret; verified
  at a time, giving the payload or nothing), the verification of a Google identity token, the
  regular expressions of zod's \<open>email\<close> and \<open>url\<close> checks, the host's parsing of a date,
  the SMS provider (an error or nothing), MongoDB's answer to starting a session and to committing
  the n-th attempt of a transaction (an error, and whether the server had applied the commit all
  the same, as behind an UnknownTransactionCommitResult), the Razorpay client behind its circuit breaker, the routing
  search service and the Rapido API.
\<close>

record razorpay_order =
  ro_id :: string
  ro_amount :: int
  ro_currency :: string

record world =
  DEMO_MODE :: bool
  OUTBOX_RELAY_ENABLED :: bool
  KAFKA_BROKERS :: "string option"
  OUTBOX_BATCH_SIZE :: nat
  OUTBOX_MAX_ATTEMPTS :: int
  PLATFORM_FEE_PERCENT :: rat
  DEFAULT_SAFETY_DEPOSIT_PAISE :: int
  ESCROW_RELEASE_DELAY_MS :: int
  RAZORPAY_KEY_SECRET :: string
  RAZORPAY_WEBHOOK_SECRET :: string
  JWT_ACCESS_SECRET :: string
  JWT_REFRESH_SECRET :: string
  INTERNAL_API_TOKEN :: string
  BULL_BOARD_PASSWORD :: "string option"
  GOOGLE_CLIENT_ID :: "string option"
  MSG91_AUTH_KEY :: "string option"
  MSG91_TEMPLATE_ID :: "string option"
  MAX_IN_FLIGHT_REQUESTS :: int
  REQUIRE_HTTPS :: bool
  NODE_ENV :: string
  newId :: "nat \<Rightarrow> oid"
  randomInt :: "nat \<Rightarrow> int \<Rightarrow> int \<Rightarrow> int"
  randomToken :: "nat \<Rightarrow> string"
  bcryptHash :: "nat \<Rightarrow> string \<Rightarrow> string"
  bcryptCompare :: "string \<Rightarrow> string \<Rightarrow> bool"
  hmacSha256Hex :: "string \<Rightarrow> string \<Rightarrow> string"
  aes256cbcHex :: "string \<Rightarrow> string \<Rightarrow> string"
  jwtSign :: "int \<Rightarrow> string \<Rightarrow> json \<Rightarrow> string"
  jwtVerify :: "int \<Rightarrow> string \<Rightarrow> string \<Rightarrow> json option"
  verifyIdToken :: "string \<Rightarrow> json option"
  zodEmail :: "string \<Rightarrow> bool"
  zodUrl :: "string \<Rightarrow> bool"
  dateParse :: "string \<Rightarrow> int option"
  msg91Post :: "string \<Rightarrow> string \<Rightarrow> js_error option"
  startSession :: "js_error option"
  commitTransaction :: "nat \<Rightarrow> (js_error \<times> bool) option"
  ordersCreate :: "nat \<Rightarrow> int \<Rightarrow> string \<Rightarrow> (string \<times> string) + razorpay_order"
  matchCandidates :: "json \<Rightarrow> (string list) option"
  isValidObjectId :: "string \<Rightarrow> bool"
  rapidoBook :: "oid \<Rightarrow> json \<Rightarrow> string \<Rightarrow> js_error + (string option \<times> string option \<times> string option)"

section \<open>Primitive writes\<close>

text \<open>
  Each draw from the outside world (an ObjectId, an OTP, a salt) advances the counter.
\<close>

definition next_draw :: "db \<Rightarrow> db" where
  "next_draw s = s\<lparr>draws := Suc (draws s)\<rparr>"

definition save_user :: "oid \<Rightarrow> user \<Rightarrow> db \<Rightarrow> db" where
  "save_user k d s = s\<lparr>users := saveDoc k d (users s)\<rparr>"

definition save_trip :: "oid \<Rightarrow> trip \<Rightarrow> db \<Rightarrow> db" where
  "save_trip k d s = s\<lparr>trips := saveDoc k d (trips s)\<rparr>"

definition save_request :: "oid \<Rightarrow> delivery_request \<Rightarrow> db \<Rightarrow> db" where
  "save_request k d s = s\<lparr>requests := saveDoc k d (requests s)\<rparr>"

definition save_match :: "oid \<Rightarrow> match_doc \<Rightarrow> db \<Rightarrow> db" where
  "save_match k d s = s\<lparr>matches := saveDoc k d (matches s)\<rparr>"

definition save_transaction :: "oid \<Rightarrow> transaction \<Rightarrow> db \<Rightarrow> db" where
  "save_transaction k d s = s\<lparr>transactions := saveDoc k d (transactions s)\<rparr>"

definition update_user :: "oid \<Rightarrow> (user \<Rightarrow> user) \<Rightarrow> db \<Rightarrow> db" where
  "update_user k f s = s\<lparr>users := findByIdAndUpdate k f (users s)\<rparr>"

definition update_trip :: "oid \<Rightarrow> (trip \<Rightarrow> trip) \<Rightarrow> db \<Rightarrow> db" where
  "update_trip k f s = s\<lparr>trips := findByIdAndUpdate k f (trips s)\<rparr>"

definition update_request :: "oid \<Rightarrow> (delivery_request \<Rightarrow> delivery_request) \<Rightarrow> db \<Rightarrow> db" where
  "update_request k f s = s\<lparr>requests := findByIdAndUpdate k f (requests s)\<rparr>"

text \<open>\<open>Transaction.create\<close>: the id is the next draw.\<close>

definition create_transaction :: "world \<Rightarrow> transaction \<Rightarrow> db \<Rightarrow> db" where
  "create_transaction W x s =
     next_draw (s\<lparr>transactions := transactions s @ [(newId W (draws s), x)]\<rparr>)"

definition add_job :: "string \<Rightarrow> string \<Rightarrow> json \<Rightarrow> int \<Rightarrow> db \<Rightarrow> db" where
  "add_job queue name data delay s =
     s\<lparr>jobs := jobs s @ [\<lparr> j_queue = queue, j_name = name, j_data = data, j_delay = delay \<rparr>]\<rparr>"

lemmas write_defs =
  next_draw_def save_user_def save_trip_def save_request_def save_match_def
  save_transaction_def update_user_def update_trip_def update_request_def
  create_transaction_def add_job_def

text \<open>What each primitive write leaves of the state.\<close>

lemma next_draw_frames [simp]:
  "users (next_draw s) = users s" "trips (next_draw s) = trips s"
  "requests (next_draw s) = requests s" "matches (next_draw s) = matches s"
  "transactions (next_draw s) = transactions s" "outbox (next_draw s) = outbox s"
  "webhooks (next_draw s) = webhooks s" "reviews (next_draw s) = reviews s"
  "notifications (next_draw s) = notifications s" "redis (next_draw s) = redis s"
  "published (next_draw s) = published s" "jobs (next_draw s) = jobs s"
  "clock (next_draw s) = clock s" "draws (next_draw s) = Suc (draws s)"
  by (simp_all add: next_draw_def)

lemma save_user_frames [simp]:
  "users (save_user k u s) = saveDoc k u (users s)" "trips (save_user k u s) = trips s"
  "requests (save_user k u s) = requests s" "matches (save_user k u s) = matches s"
  "transactions (save_user k u s) = transactions s" "outbox (save_user k u s) = outbox s"
  "webhooks (save_user k u s) = webhooks s" "reviews (save_user k u s) = reviews s"
  "notifications (save_user k u s) = notifications s" "redis (save_user k u s) = redis s"
  "published (save_user k u s) = published s" "jobs (save_user k u s) = jobs s"
  "clock (save_user k u s) = clock s" "draws (save_user k u s) = draws s"
  by (simp_all add: save_user_def)

lemma save_trip_frames [simp]:
  "users (save_trip k t s) = users s" "trips (save_trip k t s) = saveDoc k t (trips s)"
  "requests (save_trip k t s) = requests s" "matches (save_trip k t s) = matches s"
  "transactions (save_trip k t s) = transactions s" "outbox (save_trip k t s) = outbox s"
  "webhooks (save_trip k t s) = webhooks s" "reviews (save_trip k t s) = reviews s"
  "notifications (save_trip k t s) = notifications s" "redis (save_trip k t s) = redis s"
  "published (save_trip k t s) = published s" "jobs (save_trip k t s) = jobs s"
  "clock (save_trip k t s) = clock s" "draws (save_trip k t s) = draws s"
  by (simp_all add: save_trip_def)

lemma save_request_frames [simp]:
  "users (save_request k r s) = users s" "trips (save_request k r s) = trips s"
  "requests (save_request k r s) = saveDoc k r (requests s)"
  "matches (save_request k r s) = matches s" "transactions (save_request k r s) = transactions s"
  "outbox (save_request k r s) = outbox s" "webhooks (save_request k r s) = webhooks s"
  "reviews (save_request k r s) = reviews s"
  "notifications (save_request k r s) = notifications s" "redis (save_request k r s) = redis s"
  "published (save_request k r s) = published s" "jobs (save_request k r s) = jobs s"
  "clock (save_request k r s) = clock s" "draws (save_request k r s) = draws s"
  by (simp_all add: save_request_def)

lemma save_match_frames [simp]:
  "users (save_match k m s) = users s" "trips (save_match k m s) = trips s"
  "requests (save_match k m s) = requests s"
  "matches (save_match k m s) = saveDoc k m (matches s)"
  "transactions (save_match k m s) = transactions s" "outbox (save_match k m s) = outbox s"
  "webhooks (save_match k m s) = webhooks s" "reviews (save_match k m s) = reviews s"
  "notifications (save_match k m s) = notifications s" "redis (save_match k m s) = redis s"
  "published (save_match k m s) = published s" "jobs (save_match k m s) = jobs s"
  "clock (save_match k m s) = clock s" "draws (save_match k m s) = draws s"
  by (simp_all add: save_match_def)

lemma save_transaction_frames [simp]:
  "users (save_transaction k x s) = users s" "trips (save_transaction k x s) = trips s"
  "requests (save_transaction k x s) = requests s" "matches (save_transaction k x s) = matches s"
  "transactions (save_transaction k x s) = saveDoc k x (transactions s)"
  "outbox (save_transaction k x s) = outbox s" "webhooks (save_transaction k x s) = webhooks s"
  "reviews (save_transaction k x s) = reviews s"
  "notifications (save_transaction k x s) = notifications s"
  "redis (save_transaction k x s) = redis s" "published (save_transaction k x s) = published s"
  "jobs (save_transaction k x s) = jobs s" "clock (save_transaction k x s) = clock s"
  "draws (save_transaction k x s) = draws s"
  by (simp_all add: save_transaction_def)

lemma update_user_frames [simp]:
  "users (update_user k uf s) = findByIdAndUpdate k uf (users s)"
  "trips (update_user k uf s) = trips s" "requests (update_user k uf s) = requests s"
  "matches (update_user k uf s) = matches s" "transactions (update_user k uf s) = transactions s"
  "outbox (update_user k uf s) = outbox s" "webhooks (update_user k uf s) = webhooks s"
  "reviews (update_user k uf s) = reviews s"
  "notifications (update_user k uf s) = notifications s" "redis (update_user k uf s) = redis s"
  "published (update_user k uf s) = published s" "jobs (update_user k uf s) = jobs s"
  "clock (update_user k uf s) = clock s" "draws (update_user k uf s) = draws s"
  by (simp_all add: update_user_def)

lemma update_trip_frames [simp]:
  "users (update_trip k tf s) = users s"
  "trips (update_trip k tf s) = findByIdAndUpdate k tf (trips s)"
  "requests (update_trip k tf s) = requests s" "matches (update_trip k tf s) = matches s"
  "transactions (update_trip k tf s) = transactions s" "outbox (update_trip k tf s) = outbox s"
  "webhooks (update_trip k tf s) = webhooks s" "reviews (update_trip k tf s) = reviews s"
  "notifications (update_trip k tf s) = notifications s" "redis (update_trip k tf s) = redis s"
  "published (update_trip k tf s) = published s" "jobs (update_trip k tf s) = jobs s"
  "clock (update_trip k tf s) = clock s" "draws (update_trip k tf s) = draws s"
  by (simp_all add: update_trip_def)

lemma update_request_frames [simp]:
  "users (update_request k rf s) = users s" "trips (update_request k rf s) = trips s"
  "requests (update_request k rf s) = findByIdAndUpdate k rf (requests s)"
  "matches (update_request k rf s) = matches s"
  "transactions (update_request k rf s) = transactions s"
  "outbox (update_request k rf s) = outbox s" "webhooks (update_request k rf s) = webhooks s"
  "reviews (update_request k rf s) = reviews s"
  "notifications (update_request k rf s) = notifications s"
  "redis (update_request k rf s) = redis s" "published (update_request k rf s) = published s"
  "jobs (update_request k rf s) = jobs s" "clock (update_request k rf s) = clock s"
  "draws (update_request k rf s) = draws s"
  by (simp_all add: update_request_def)

lemma create_transaction_frames [simp]:
  "users (create_transaction W x s) = users s" "trips (create_transaction W x s) = trips s"
  "requests (create_transaction W x s) = requests s"
  "matches (create_transaction W x s) = matches s"
  "transactions (create_transaction W x s) = transactions s @ [(newId W (draws s), x)]"
  "outbox (create_transaction W x s) = outbox s"
  "webhooks (create_transaction W x s) = webhooks s"
  "reviews (create_transaction W x s) = reviews s"
  "notifications (create_transaction W x s) = notifications s"
  "redis (create_transaction W x s) = redis s"
  "published (create_transaction W x s) = published s" "jobs (create_transaction W x s) = jobs s"
  "clock (create_transaction W x s) = clock s" "draws (create_transaction W x s) = Suc (draws s)"
  by (simp_all add: create_transaction_def next_draw_def)

lemma add_job_frames [simp]:
  "users (add_job q n j d s) = users s" "trips (add_job q n j d s) = trips s"
  "requests (add_job q n j d s) = requests s" "matches (add_job q n j d s) = matches s"
  "transactions (add_job q n j d s) = transactions s" "outbox (add_job q n j d s) = outbox s"
  "webhooks (add_job q n j d s) = webhooks s" "reviews (add_job q n j d s) = reviews s"
  "notifications (add_job q n j d s) = notifications s" "redis (add_job q n j d s) = redis s"
  "published (add_job q n j d s) = published s"
  "jobs (add_job q n j d s) = jobs s @ [\<lparr> j_queue = q, j_name = n, j_data = j, j_delay = d \<rparr>]"
  "clock (add_job q n j d s) = clock s" "draws (add_job q n j d s) = draws s"
  by (simp_all add: add_job_def)

text \<open>Every collection of the database is a document store.\<close>

interpretation user_store: doc_store "\<lambda>s k. findById (users s) k" save_user
  by unfold_locales (simp add: save_user_def)

interpretation trip_store: doc_store "\<lambda>s k. findById (trips s) k" save_trip
  by unfold_locales (simp add: save_trip_def)

interpretation request_store: doc_store "\<lambda>s k. findById (requests s) k" save_request
  by unfold_locales (simp add: save_request_def)

interpretation match_store: doc_store "\<lambda>s k. findById (matches s) k" save_match
  by unfold_locales (simp add: save_match_def)

interpretation transaction_store: doc_store "\<lambda>s k. findById (transactions s) k" save_transaction
  by unfold_locales (simp add: save_transaction_def)

end
