(* ===== verification/JsString.thy ===== *)
theory JsString
  imports Prelude
begin

text \<open>
  The String methods the source uses, on character lists, and \<open>utils/sanitize.ts\<close>: the escaping
  of user text before it becomes a regular expression, and the removal of operator keys from
  request data.  Characters are bytes; upper and lower case are those of ASCII.
\<close>

section \<open>String methods\<close>

definition is_space :: "char \<Rightarrow> bool" where
  "is_space c = (c = CHR '' '' \<or> c = CHR 0x09 \<or> c = CHR 0x0A \<or> c = CHR 0x0B \<or> c = CHR 0x0C
     \<or> c = CHR 0x0D \<or> c = CHR 0xA0)"

definition trim :: "string \<Rightarrow> string" where
  "trim s = rev (dropWhile is_space (rev (dropWhile is_space s)))"

definition char_code :: "char \<Rightarrow> int" where
  "char_code c = of_char c"

definition lower_char :: "char \<Rightarrow> char" where
  "lower_char c = (if 65 \<le> char_code c \<and> char_code c \<le> 90 then char_of (char_code c + 32) else c)"

definition toLowerCase :: "string \<Rightarrow> string" where
  "toLowerCase s = map lower_char s"

definition upper_char :: "char \<Rightarrow> char" where
  "upper_char c = (if 97 \<le> char_code c \<and> char_code c \<le> 122 then char_of (char_code c - 32) else c)"

definition toUpperCase :: "string \<Rightarrow> string" where
  "toUpperCase s = map upper_char s"

fun startsWith :: "string \<Rightarrow> string \<Rightarrow> bool" where
  "startsWith _ [] = True"
| "startsWith [] (_ # _) = False"
| "startsWith (c # s) (d # p) = (c = d \<and> startsWith s p)"

fun strIncludes :: "string \<Rightarrow> string \<Rightarrow> bool" where
  "strIncludes [] p = (p = [])"
| "strIncludes (c # s) p = (startsWith (c # s) p \<or> strIncludes s p)"

fun split_on :: "char \<Rightarrow> string \<Rightarrow> string list" where
  "split_on d [] = [[]]"
| "split_on d (c # s) =
     (if c = d then [] # split_on d s
      else case split_on d s of [] \<Rightarrow> [[c]] | w # ws \<Rightarrow> (c # w) # ws)"

text \<open>\<open>ws.join(d)\<close>.\<close>

fun join_with :: "string \<Rightarrow> string list \<Rightarrow> string" where
  "join_with d [] = []"
| "join_with d [w] = w"
| "join_with d (w # ws) = w @ d @ join_with d ws"

lemma startsWith_iff: "startsWith s p \<longleftrightarrow> (\<exists>t. s = p @ t)"
  by (induction s p rule: startsWith.induct) auto

lemma startsWith_append [simp]: "startsWith (p @ t) p"
  by (auto simp: startsWith_iff)

lemma startsWith_refl [simp]: "startsWith p p"
  using startsWith_append [of p "[]"] by simp

lemma strIncludes_iff: "strIncludes s p \<longleftrightarrow> (\<exists>u t. s = u @ p @ t)"
proof (induction s)
  case Nil
  then show ?case by simp
next
  case (Cons c s)
  show ?case
  proof
    assume "strIncludes (c # s) p"
    then consider t where "c # s = p @ t" | u t where "s = u @ p @ t"
      using Cons.IH by (auto simp: startsWith_iff)
    then show "\<exists>u t. c # s = u @ p @ t" by cases (metis append_Nil, metis append_Cons)
  next
    assume "\<exists>u t. c # s = u @ p @ t"
    then obtain u t where eq: "c # s = u @ p @ t" by blast
    show "strIncludes (c # s) p"
    proof (cases u)
      case Nil
      with eq have "startsWith (c # s) p" by (auto simp: startsWith_iff)
      then show ?thesis by simp
    next
      case (Cons d u')
      with eq have "\<exists>u t. s = u @ p @ t" by auto
      with Cons.IH show ?thesis by simp
    qed
  qed
qed

lemma strIncludes_refl [simp]: "strIncludes s s"
  by (cases s) simp_all

lemma split_on_nonempty: "split_on d s \<noteq> []"
  by (induction s) (auto split: list.splits)

text \<open>An integer as \<open>String(n)\<close> or a template literal writes it.\<close>

function dec_digits :: "int \<Rightarrow> string" where
  "dec_digits n =
     (if n < 10 then [char_of (48 + n)] else dec_digits (n div 10) @ [char_of (48 + n mod 10)])"
  by pat_completeness auto
termination
  by (relation "measure nat") auto

declare dec_digits.simps [simp del]

definition int_str :: "int \<Rightarrow> string" where
  "int_str n = (if n < 0 then CHR ''-'' # dec_digits (- n) else dec_digits n)"

section \<open>escapeRegex\<close>

text \<open>The characters of the class \<open>[.*+?^${}()|[\]\\]\<close>.\<close>

definition regex_special :: "char \<Rightarrow> bool" where
  "regex_special c = (c \<in> set ''.*+?^${}()|[]'' \<or> c = CHR 0x5C)"

fun escapeRegex :: "string \<Rightarrow> string" where
  "escapeRegex [] = []"
| "escapeRegex (c # s) =
     (if regex_special c then CHR 0x5C # c # escapeRegex s else c # escapeRegex s)"

text \<open>
  What a regular expression made of plain and escaped characters matches: \<open>regex_literal\<close> is the
  text it stands for, and is \<open>None\<close> for a pattern that holds an unescaped metacharacter or an
  escape of a character that is not one.
\<close>

fun regex_literal :: "string \<Rightarrow> string option" where
  "regex_literal [] = Some []"
| "regex_literal (c # s) =
     (if c = CHR 0x5C then
        (case s of [] \<Rightarrow> None
         | d # s' \<Rightarrow> if regex_special d then map_option ((#) d) (regex_literal s') else None)
      else if regex_special c then None
      else map_option ((#) c) (regex_literal s))"

text \<open>\<open>new RegExp(p, 'i')\<close> applied to a text: a search that ignores case.\<close>

definition regex_search_i :: "string \<Rightarrow> string \<Rightarrow> bool option" where
  "regex_search_i p text =
     map_option (\<lambda>w. strIncludes (toLowerCase text) (toLowerCase w)) (regex_literal p)"

text \<open>
  The query \<open>{ $regex: new RegExp(escapeRegex(city), 'i') }\<close> on a city; a pattern outside the
  fragment would not match, and no escaped text is outside it.
\<close>

definition city_matches :: "string \<Rightarrow> string \<Rightarrow> bool" where
  "city_matches wanted city = (regex_search_i (escapeRegex wanted) city = Some True)"

lemma regex_literal_escape: "regex_literal (escapeRegex s) = Some s"
  by (induction s) (auto simp: regex_special_def)

lemma city_matches_iff:
  "city_matches wanted city \<longleftrightarrow> strIncludes (toLowerCase city) (toLowerCase wanted)"
  by (simp add: city_matches_def regex_search_i_def regex_literal_escape)

text \<open>An anchored pattern \<open>^p$\<close> with the flag \<open>i\<close>: the whole text, ignoring case.\<close>

definition regex_whole_i :: "string \<Rightarrow> string \<Rightarrow> bool" where
  "regex_whole_i p text =
     (case regex_literal p of None \<Rightarrow> False | Some w \<Rightarrow> toLowerCase text = toLowerCase w)"

lemma regex_whole_escape: "regex_whole_i (escapeRegex s) text \<longleftrightarrow> toLowerCase text = toLowerCase s"
  by (simp add: regex_whole_i_def regex_literal_escape)

section \<open>sanitizeNoSql\<close>

definition operator_key :: "string \<Rightarrow> bool" where
  "operator_key k = (startsWith k ''$'' \<or> strIncludes k ''.'')"

fun sanitizeNoSql :: "json \<Rightarrow> json" where
  "sanitizeNoSql (JArr xs) = JArr (map sanitizeNoSql xs)"
| "sanitizeNoSql (JObj kvs) =
     JObj (map (\<lambda>(k, v). (k, sanitizeNoSql v)) (filter (\<lambda>(k, v). \<not> operator_key k) kvs))"
| "sanitizeNoSql v = v"

text \<open>No object inside the value has an operator key.\<close>

fun operator_free :: "json \<Rightarrow> bool" where
  "operator_free (JArr xs) = list_all operator_free xs"
| "operator_free (JObj kvs) = list_all (\<lambda>(k, v). \<not> operator_key k \<and> operator_free v) kvs"
| "operator_free v = True"

lemma sanitized_operator_free: "operator_free (sanitizeNoSql v)"
proof (induction v rule: sanitizeNoSql.induct)
  case (1 xs)
  then show ?case by (simp add: list_all_iff)
next
  case (2 kvs)
  then show ?case by (fastforce simp: list_all_iff)
qed simp_all

lemma sanitize_operator_free_id: "operator_free v \<Longrightarrow> sanitizeNoSql v = v"
proof (induction v rule: sanitizeNoSql.induct)
  case (1 xs)
  then show ?case by (simp add: list_all_iff map_idI)
next
  case (2 kvs)
  then have "filter (\<lambda>(k, v). \<not> operator_key k) kvs = kvs"
    by (auto simp: list_all_iff filter_id_conv)
  moreover have "map (\<lambda>(k, v). (k, sanitizeNoSql v)) kvs = kvs"
    using 2 by (intro map_idI) (fastforce simp: list_all_iff)
  ultimately show ?case by simp
qed simp_all

lemma sanitize_idem: "sanitizeNoSql (sanitizeNoSql v) = sanitizeNoSql v"
  by (rule sanitize_operator_free_id [OF sanitized_operator_free])

text \<open>A key that is not an operator keeps its (sanitised) value.\<close>

lemma sanitize_keeps_plain_keys:
  assumes "\<not> operator_key k"
  shows "jget (sanitizeNoSql (JObj kvs)) k = sanitizeNoSql (jget (JObj kvs) k)"
proof -
  have "map_of (map (\<lambda>(k, v). (k, sanitizeNoSql v)) (filter (\<lambda>(k, v). \<not> operator_key k) kvs)) k =
        map_option sanitizeNoSql (map_of kvs k)"
    using assms by (induction kvs) auto
  then show ?thesis by (simp split: option.splits)
qed

end
