(* ===== verification/Outbox.thy ===== *)
theory Outbox
  imports Models JsString
begin

text \<open>
  The transactional outbox: \<open>events/domainEvents.ts\<close>, \<open>services/outbox.service.ts\<close>,
  \<open>services/outboxRelay.service.ts\<close> and the topic and broker names of \<open>services/kafka.service.ts\<close>.
  An event is appended as pending; the relay claims a batch (processing, one attempt counted),
  sends each event to Kafka, and marks it published or releases it for a later attempt.
\<close>

section \<open>Topics and event types\<close>

definition topic_trip :: string where "topic_trip = ''trip.lifecycle''"
definition topic_delivery :: string where "topic_delivery = ''delivery.lifecycle''"
definition topic_match :: string where "topic_match = ''match.lifecycle''"
definition topic_payment :: string where "topic_payment = ''payment.lifecycle''"
definition topic_notification :: string where "topic_notification = ''notification.dispatch''"
definition topic_realtime :: string where "topic_realtime = ''realtime.dispatch''"

definition trip_posted :: string where "trip_posted = ''TripPosted''"
definition trip_updated :: string where "trip_updated = ''TripUpdated''"
definition trip_cancelled :: string where "trip_cancelled = ''TripCancelled''"
definition delivery_requested :: string where "delivery_requested = ''DeliveryRequested''"
definition delivery_updated :: string where "delivery_updated = ''DeliveryUpdated''"
definition delivery_cancelled :: string where "delivery_cancelled = ''DeliveryCancelled''"
definition delivery_paid :: string where "delivery_paid = ''DeliveryPaid''"

definition match_status_event_types :: "(string \<times> string) list" where
  "match_status_event_types =
     [(''proposed'', ''MatchProposed''), (''carrier_accepted'', ''CarrierAccepted''),
      (''sender_confirmed'', ''SenderConfirmed''), (''active'', ''MatchActivated''),
      (''pickup_pending'', ''PickupOtpGenerated''), (''picked_up'', ''PickupVerified''),
      (''in_transit'', ''TransitStarted''), (''delivery_pending'', ''DeliveryOtpGenerated''),
      (''delivered'', ''DeliveryCompleted''), (''completed'', ''PayoutCompleted''),
      (''cancelled'', ''MatchCancelled''), (''disputed'', ''MatchDisputed'')]"

definition getMatchStatusEventType :: "string \<Rightarrow> string" where
  "getMatchStatusEventType st =
     (case map_of match_status_event_types st of None \<Rightarrow> ''MatchUpdated'' | Some t \<Rightarrow> t)"

section \<open>Kafka names\<close>

definition getKafkaBrokers :: "world \<Rightarrow> string list option" where
  "getKafkaBrokers W =
     map_option (\<lambda>s. filter (\<lambda>b. b \<noteq> []) (map trim (split_on CHR '','' s))) (KAFKA_BROKERS W)"

definition isKafkaConfigured :: "world \<Rightarrow> bool" where
  "isKafkaConfigured W = (case getKafkaBrokers W of None \<Rightarrow> False | Some bs \<Rightarrow> bs \<noteq> [])"

section \<open>Appending\<close>

record outbox_input =
  in_topic :: string
  in_eventType :: string
  in_aggregateType :: string
  in_aggregateId :: string
  in_partitionKey :: "string option"
  in_payload :: json
  in_headers :: "json option"
  in_availableAt :: "int option"

definition event_input :: "string \<Rightarrow> string \<Rightarrow> string \<Rightarrow> string \<Rightarrow> json \<Rightarrow> outbox_input" where
  "event_input topic ty agg aid payload =
     \<lparr> in_topic = topic, in_eventType = ty, in_aggregateType = agg, in_aggregateId = aid,
       in_partitionKey = Some aid, in_payload = payload, in_headers = None,
       in_availableAt = None \<rparr>"

definition pending_event :: "int \<Rightarrow> outbox_input \<Rightarrow> outbox_event" where
  "pending_event now e =
     \<lparr> o_topic = in_topic e, o_eventType = in_eventType e,
       o_aggregateType = in_aggregateType e, o_aggregateId = in_aggregateId e,
       o_partitionKey = in_partitionKey e, o_payload = in_payload e,
       o_headers = (case in_headers e of None \<Rightarrow> JObj [] | Some h \<Rightarrow> h),
       o_status = OutPending, o_attempts = 0,
       o_availableAt = (case in_availableAt e of None \<Rightarrow> now | Some t \<Rightarrow> t),
       o_publishedAt = None, o_lastError = None, o_expiresAt = None, o_createdAt = now \<rparr>"

primrec appendOutboxEvents :: "world \<Rightarrow> outbox_input list \<Rightarrow> db \<Rightarrow> db" where
  "appendOutboxEvents W [] s = s"
| "appendOutboxEvents W (e # es) s =
     appendOutboxEvents W es
       (next_draw (s\<lparr>outbox := outbox s @ [(newId W (draws s), pending_event (clock s) e)]\<rparr>))"

section \<open>The contract of an announcement\<close>

text \<open>
  Announcing something (an outbox event, a notification, a realtime message) never touches the
  business data: \<open>silent\<close> is what every handler relies on about the announcements it makes.  An
  \<open>announcer\<close> moreover only appends to the outbox, and only pending events.
\<close>

locale silent =
  fixes f :: "db \<Rightarrow> db"
  assumes keeps_users [simp]: "users (f s) = users s"
    and keeps_trips [simp]: "trips (f s) = trips s"
    and keeps_requests [simp]: "requests (f s) = requests s"
    and keeps_matches [simp]: "matches (f s) = matches s"
    and keeps_transactions [simp]: "transactions (f s) = transactions s"
    and keeps_webhooks [simp]: "webhooks (f s) = webhooks s"
    and keeps_reviews [simp]: "reviews (f s) = reviews s"
    and keeps_redis [simp]: "redis (f s) = redis s"
    and keeps_jobs [simp]: "jobs (f s) = jobs s"
    and keeps_clock [simp]: "clock (f s) = clock s"
begin

lemma keeps_core:
  assumes "\<And>s t. users s = users t \<Longrightarrow> trips s = trips t \<Longrightarrow> requests s = requests t \<Longrightarrow>
    matches s = matches t \<Longrightarrow> transactions s = transactions t \<Longrightarrow> I t \<Longrightarrow> I s"
  shows "keeps I (modM f)"
proof (rule keeps_modM)
  fix s
  assume "I s"
  then show "I (f s)" by (rule assms [rotated -1]) simp_all
qed

end

definition fresh_pending :: "(oid \<times> outbox_event) list \<Rightarrow> bool" where
  "fresh_pending es =
     list_all (\<lambda>(k, e). o_status e = OutPending \<and> o_attempts e = 0 \<and> o_expiresAt e = None) es"

locale announcer = silent +
  assumes appends: "\<exists>es. outbox (f s) = outbox s @ es \<and> fresh_pending es"
begin

lemma outbox_kept: "set (outbox s) \<subseteq> set (outbox (f s))"
  using appends [of s] by auto

lemma outbox_new: "(k, e) \<in> set (outbox (f s)) \<Longrightarrow> (k, e) \<notin> set (outbox s) \<Longrightarrow>
    o_status e = OutPending \<and> o_attempts e = 0 \<and> o_expiresAt e = None"
  using appends [of s] by (auto simp: fresh_pending_def list_all_iff)

end

lemma append_silent: "silent (appendOutboxEvents W es)"
proof
  fix s
  show "users (appendOutboxEvents W es s) = users s"
    and "trips (appendOutboxEvents W es s) = trips s"
    and "requests (appendOutboxEvents W es s) = requests s"
    and "matches (appendOutboxEvents W es s) = matches s"
    and "transactions (appendOutboxEvents W es s) = transactions s"
    and "webhooks (appendOutboxEvents W es s) = webhooks s"
    and "reviews (appendOutboxEvents W es s) = reviews s"
    and "redis (appendOutboxEvents W es s) = redis s"
    and "jobs (appendOutboxEvents W es s) = jobs s"
    and "clock (appendOutboxEvents W es s) = clock s"
    by (induction es arbitrary: s) (simp_all add: next_draw_def)
qed

lemma append_appends:
  "\<exists>xs. outbox (appendOutboxEvents W es s) = outbox s @ xs \<and> fresh_pending xs \<and>
        length xs = length es"
proof (induction es arbitrary: s)
  case Nil
  then show ?case by (simp add: fresh_pending_def)
next
  case (Cons e es)
  let ?x = "(newId W (draws s), pending_event (clock s) e)"
  obtain xs where "outbox (appendOutboxEvents W (e # es) s) = (outbox s @ [?x]) @ xs"
    and "fresh_pending xs" "length xs = length es"
    using Cons.IH [of "next_draw (s\<lparr>outbox := outbox s @ [?x]\<rparr>)"] by (auto simp: next_draw_def)
  then show ?case
    by (intro exI [of _ "?x # xs"]) (simp add: fresh_pending_def pending_event_def)
qed

interpretation append: announcer "appendOutboxEvents W es" for W es
proof (intro announcer.intro append_silent announcer_axioms.intro)
  fix s
  show "\<exists>xs. outbox (appendOutboxEvents W es s) = outbox s @ xs \<and> fresh_pending xs"
    using append_appends [of W es s] by blast
qed

lemma notifications_append [simp]: "notifications (appendOutboxEvents W es s) = notifications s"
  by (induction es arbitrary: s) (simp_all add: next_draw_def)

lemma published_append [simp]: "published (appendOutboxEvents W es s) = published s"
  by (induction es arbitrary: s) (simp_all add: next_draw_def)

declare appendOutboxEvents.simps(2) [simp del]

section \<open>Claiming a batch\<close>

text \<open>The document that \<open>sort: { createdAt: 1 }\<close> puts first; the oldest inserted among equals.\<close>

fun earliest :: "outbox_event coll \<Rightarrow> (oid \<times> outbox_event) option" where
  "earliest [] = None"
| "earliest (p # ps) =
     (case earliest ps of None \<Rightarrow> Some p
      | Some q \<Rightarrow> if o_createdAt (snd q) < o_createdAt (snd p) then Some q else Some p)"

definition claimable :: "int \<Rightarrow> outbox_event \<Rightarrow> bool" where
  "claimable now e = (o_status e = OutPending \<and> o_availableAt e \<le> now)"

fun claim_loop :: "nat \<Rightarrow> int \<Rightarrow> db \<Rightarrow> (oid \<times> outbox_event) list \<times> db" where
  "claim_loop 0 now s = ([], s)"
| "claim_loop (Suc n) now s =
     (case earliest (findAll (claimable now) (outbox s)) of
        None \<Rightarrow> ([], s)
      | Some (k, e) \<Rightarrow>
          (let e' = e\<lparr>o_status := OutProcessing, o_attempts := o_attempts e + 1\<rparr>;
               (rest, s') = claim_loop n now (s\<lparr>outbox := saveDoc k e' (outbox s)\<rparr>)
           in ((k, e') # rest, s')))"

definition claimOutboxBatch :: "nat \<Rightarrow> db \<Rightarrow> (oid \<times> outbox_event) list \<times> db" where
  "claimOutboxBatch limit s = claim_loop limit (clock s) s"

section \<open>Settling an event\<close>

definition outbox_retention_ms :: int where
  "outbox_retention_ms = 7 * 24 * 60 * 60 * 1000"

definition markOutboxEventPublished :: "oid \<Rightarrow> db \<Rightarrow> db" where
  "markOutboxEventPublished k s =
     s\<lparr>outbox := findByIdAndUpdate k
         (\<lambda>e. e\<lparr>o_status := OutPublished, o_publishedAt := Some (clock s), o_lastError := None,
                o_expiresAt := Some (clock s + outbox_retention_ms)\<rparr>) (outbox s)\<rparr>"

definition retryDelayMs :: "int \<Rightarrow> int" where
  "retryDelayMs attempts = min 30000 (1000 * 2 ^ nat (max 0 (attempts - 1)))"

definition releaseOutboxEvent :: "oid \<Rightarrow> string \<Rightarrow> int \<Rightarrow> db \<Rightarrow> db" where
  "releaseOutboxEvent k msg maxAttempts s =
     (case findById (outbox s) k of None \<Rightarrow> s
      | Some event \<Rightarrow>
          (let exhausted = maxAttempts \<le> o_attempts event
           in s\<lparr>outbox := findByIdAndUpdate k
                (\<lambda>e. e\<lparr>o_status := (if exhausted then OutFailed else OutPending),
                       o_lastError := Some msg,
                       o_availableAt := (if exhausted then o_availableAt event
                                         else clock s + retryDelayMs (o_attempts event)),
                       o_expiresAt := (if exhausted then Some (clock s + outbox_retention_ms)
                                       else o_expiresAt e)\<rparr>) (outbox s)\<rparr>))"

definition requeueProcessingOutboxEvents :: "db \<Rightarrow> db" where
  "requeueProcessingOutboxEvents s =
     s\<lparr>outbox := updateMany (\<lambda>e. o_status e = OutProcessing)
         (\<lambda>e. e\<lparr>o_status := OutPending, o_availableAt := clock s\<rparr>) (outbox s)\<rparr>"

section \<open>The relay\<close>

text \<open>
  \<open>send\<close> is what Kafka answers to the publication of an event: nothing, or the error message of
  the failed send.  \<open>isRunning\<close> is the module's guard against overlapping flushes; a flush that
  finds it set does nothing.  The value of a flush is the list of events Kafka accepted.
\<close>

type_synonym kafka = "oid \<Rightarrow> outbox_event \<Rightarrow> string option"

definition publish_event :: "world \<Rightarrow> kafka \<Rightarrow> oid \<times> outbox_event \<Rightarrow> db \<Rightarrow> db" where
  "publish_event W send p s =
     (case send (fst p) (snd p) of
        None \<Rightarrow> markOutboxEventPublished (fst p) s
      | Some msg \<Rightarrow> releaseOutboxEvent (fst p) msg (OUTBOX_MAX_ATTEMPTS W) s)"

definition flushOutboxBatch :: "world \<Rightarrow> kafka \<Rightarrow> bool \<Rightarrow> db \<Rightarrow> (oid \<times> outbox_event) list \<times> db" where
  "flushOutboxBatch W send isRunning s =
     (if isRunning then ([], s)
      else let (events, s') = claimOutboxBatch (OUTBOX_BATCH_SIZE W) s
           in (filter (\<lambda>p. send (fst p) (snd p) = None) events,
               fold (publish_event W send) events s'))"

definition startOutboxRelay :: "world \<Rightarrow> kafka \<Rightarrow> db \<Rightarrow> (oid \<times> outbox_event) list \<times> db" where
  "startOutboxRelay W send s =
     (if \<not> (OUTBOX_RELAY_ENABLED W \<and> isKafkaConfigured W) then ([], s)
      else flushOutboxBatch W send False (requeueProcessingOutboxEvents s))"

section \<open>Facts about claiming\<close>

lemma earliest_in: "earliest c = Some p \<Longrightarrow> p \<in> set c"
  by (induction c arbitrary: p) (auto split: option.splits if_splits)

lemma earliest_None: "earliest c = None \<longleftrightarrow> c = []"
  by (cases c) (auto split: option.splits)

lemma earliest_le:
  "earliest c = Some p \<Longrightarrow> q \<in> set c \<Longrightarrow> o_createdAt (snd p) \<le> o_createdAt (snd q)"
proof (induction c arbitrary: p q)
  case Nil
  then show ?case by simp
next
  case (Cons x c)
  show ?case
  proof (cases "earliest c")
    case None
    with Cons.prems show ?thesis by (simp add: earliest_None)
  next
    case (Some y)
    from Cons.prems(2) consider "q = x" | "q \<in> set c" by auto
    then show ?thesis
    proof cases
      case 1
      with Cons.prems(1) Some show ?thesis by (auto split: if_splits)
    next
      case 2
      from Cons.IH [OF Some 2] Cons.prems(1) Some show ?thesis by (auto split: if_splits)
    qed
  qed
qed

lemma claimable_processing [simp]: "\<not> claimable now (e\<lparr>o_status := OutProcessing, o_attempts := n\<rparr>)"
  by (simp add: claimable_def)

text \<open>One claim: what was claimable, and the effect on the other documents.\<close>

lemma claim_oneD:
  assumes "distinct (map fst (outbox s))"
    and "earliest (findAll (claimable now) (outbox s)) = Some (k, e)"
  shows "findById (outbox s) k = Some e" and "claimable now e"
    and "\<And>k' e'. (k', e') \<in> set (outbox s) \<Longrightarrow> claimable now e' \<Longrightarrow> o_createdAt e \<le> o_createdAt e'"
proof -
  have "(k, e) \<in> set (findAll (claimable now) (outbox s))"
    using assms(2) by (rule earliest_in)
  then have m: "(k, e) \<in> set (outbox s)" "claimable now e" by (auto simp: set_findAll)
  then show "findById (outbox s) k = Some e" "claimable now e"
    using assms(1) by (auto intro: in_set_findById)
  fix k' e'
  assume "(k', e') \<in> set (outbox s)" "claimable now e'"
  then have "(k', e') \<in> set (findAll (claimable now) (outbox s))" by (simp add: set_findAll)
  from earliest_le [OF assms(2) this] show "o_createdAt e \<le> o_createdAt e'" by simp
qed

definition claimed_from :: "int \<Rightarrow> outbox_event coll \<Rightarrow> oid \<times> outbox_event \<Rightarrow> bool" where
  "claimed_from now c p =
     (\<exists>e. findById c (fst p) = Some e \<and> claimable now e \<and>
          snd p = e\<lparr>o_status := OutProcessing, o_attempts := o_attempts e + 1\<rparr>)"

lemma claim_loop_spec:
  assumes "distinct (map fst (outbox s))" and "claim_loop n now s = (evs, s')"
  shows "length evs \<le> n \<and> distinct (map fst evs) \<and> sorted (map (\<lambda>p. o_createdAt (snd p)) evs)
    \<and> list_all (claimed_from now (outbox s)) evs
    \<and> map fst (outbox s') = map fst (outbox s)
    \<and> (\<forall>k. findById (outbox s') k =
          (case map_of evs k of None \<Rightarrow> findById (outbox s) k | Some e \<Rightarrow> Some e))"
  using assms
proof (induction n arbitrary: s evs s')
  case 0
  then show ?case by simp
next
  case (Suc n)
  show ?case
  proof (cases "earliest (findAll (claimable now) (outbox s))")
    case None
    with Suc.prems show ?thesis by simp
  next
    case (Some p)
    obtain k e where p: "p = (k, e)" by fastforce
    note one = claim_oneD [OF Suc.prems(1) Some [unfolded p]]
    let ?e' = "e\<lparr>o_status := OutProcessing, o_attempts := o_attempts e + 1\<rparr>"
    let ?s1 = "s\<lparr>outbox := saveDoc k ?e' (outbox s)\<rparr>"
    obtain rest where evs: "evs = (k, ?e') # rest" and run: "claim_loop n now ?s1 = (rest, s')"
      using Suc.prems(2) Some p by (auto simp: Let_def split: prod.splits)
    have d1: "distinct (map fst (outbox ?s1))" using Suc.prems(1) by simp
    have keys: "map fst (outbox ?s1) = map fst (outbox s)"
      using one(1) by (simp add: saveDoc_keys_present)
    note IH = Suc.IH [OF d1 run]
    have new: "fst q \<noteq> k \<and> claimed_from now (outbox s) q \<and> o_createdAt e \<le> o_createdAt (snd q)"
      if "q \<in> set rest" for q
    proof -
      from IH that have c: "claimed_from now (outbox ?s1) q" by (auto simp: list_all_iff)
      then have ne: "fst q \<noteq> k" by (auto simp: claimed_from_def)
      with c have c': "claimed_from now (outbox s) q" by (simp add: claimed_from_def)
      then obtain e1 where "findById (outbox s) (fst q) = Some e1" "claimable now e1"
        and "snd q = e1\<lparr>o_status := OutProcessing, o_attempts := o_attempts e1 + 1\<rparr>"
        by (auto simp: claimed_from_def)
      with one(3) [of "fst q" e1] have "o_createdAt e \<le> o_createdAt (snd q)"
        by (auto dest: findById_in_set)
      with ne c' show ?thesis by simp
    qed
    have "distinct (map fst evs)" using IH new by (auto simp: evs)
    moreover have "sorted (map (\<lambda>p. o_createdAt (snd p)) evs)" using IH new by (auto simp: evs)
    moreover have "list_all (claimed_from now (outbox s)) evs"
      using new one(1,2) by (auto simp: evs list_all_iff claimed_from_def)
    moreover have "findById (outbox s') k' =
        (case map_of evs k' of None \<Rightarrow> findById (outbox s) k' | Some e \<Rightarrow> Some e)" for k'
    proof (cases "k' = k")
      case True
      then have "map_of rest k' = None" using new by (force simp: map_of_eq_None_iff)
      with True IH show ?thesis by (simp add: evs)
    next
      case False
      with IH show ?thesis by (cases "map_of rest k'") (simp_all add: evs)
    qed
    ultimately show ?thesis using IH keys by (simp add: evs)
  qed
qed

text \<open>The claim leaves the rest of the database alone.\<close>

lemma claim_loop_frame: "claim_loop n now s = (evs, s') \<Longrightarrow> \<exists>c. s' = s\<lparr>outbox := c\<rparr>"
proof (induction n arbitrary: s evs s')
  case 0
  then have "s' = s\<lparr>outbox := outbox s\<rparr>" by simp
  then show ?case ..
next
  case (Suc n)
  show ?case
  proof (cases "earliest (findAll (claimable now) (outbox s))")
    case None
    with Suc.prems have "s' = s\<lparr>outbox := outbox s\<rparr>" by simp
    then show ?thesis ..
  next
    case (Some p)
    with Suc.prems Suc.IH show ?thesis
      by (cases p) (fastforce simp: Let_def split: prod.splits)
  qed
qed

section \<open>Facts about settling\<close>

text \<open>
  What a flush makes of a claimed event: published, or released with its attempt counted.
\<close>

definition settle :: "world \<Rightarrow> kafka \<Rightarrow> int \<Rightarrow> oid \<Rightarrow> outbox_event \<Rightarrow> outbox_event" where
  "settle W send now k e =
     (case send k e of
        None \<Rightarrow> e\<lparr>o_status := OutPublished, o_publishedAt := Some now, o_lastError := None,
                 o_expiresAt := Some (now + outbox_retention_ms)\<rparr>
      | Some msg \<Rightarrow>
          if OUTBOX_MAX_ATTEMPTS W \<le> o_attempts e
          then e\<lparr>o_status := OutFailed, o_lastError := Some msg,
                 o_expiresAt := Some (now + outbox_retention_ms)\<rparr>
          else e\<lparr>o_status := OutPending, o_lastError := Some msg,
                 o_availableAt := now + retryDelayMs (o_attempts e)\<rparr>)"

lemma settle_status: "o_status (settle W send now k e) \<noteq> OutProcessing"
  by (simp add: settle_def split: option.splits)

lemma publish_event_outbox:
  "findById (outbox s) k = Some e \<Longrightarrow>
   findById (outbox (publish_event W send (k, e) s)) k' =
     (if k' = k then Some (settle W send (clock s) k e) else findById (outbox s) k')"
  by (auto simp: publish_event_def markOutboxEventPublished_def releaseOutboxEvent_def settle_def
      Let_def split: option.splits)

lemma publish_event_frame: "\<exists>c. publish_event W send p s = s\<lparr>outbox := c\<rparr>"
proof -
  have "\<exists>c. s = s\<lparr>outbox := c\<rparr>" by (intro exI [of _ "outbox s"]) simp
  then show ?thesis
    by (auto simp: publish_event_def markOutboxEventPublished_def releaseOutboxEvent_def Let_def
        split: option.splits)
qed

lemma publish_event_clock [simp]: "clock (publish_event W send p s) = clock s"
  using publish_event_frame [of W send p s] by auto

lemma publish_events_frame: "\<exists>c. fold (publish_event W send) evs s = s\<lparr>outbox := c\<rparr>"
proof (induction evs arbitrary: s)
  case Nil
  have "s = s\<lparr>outbox := outbox s\<rparr>" by simp
  then show ?case by (metis fold_simps(1))
next
  case (Cons p evs)
  obtain c where c: "publish_event W send p s = s\<lparr>outbox := c\<rparr>"
    using publish_event_frame by blast
  with Cons [of "s\<lparr>outbox := c\<rparr>"] show ?case by auto
qed

lemma publish_events_outbox:
  assumes "distinct (map fst evs)" and "\<forall>(k, e) \<in> set evs. findById (outbox s) k = Some e"
  shows "findById (outbox (fold (publish_event W send) evs s)) k =
     (case map_of evs k of None \<Rightarrow> findById (outbox s) k
      | Some e \<Rightarrow> Some (settle W send (clock s) k e))"
  using assms
proof (induction evs arbitrary: s)
  case Nil
  then show ?case by simp
next
  case (Cons p evs)
  obtain k1 e1 where p: "p = (k1, e1)" by fastforce
  let ?s1 = "publish_event W send p s"
  have here: "findById (outbox s) k1 = Some e1" using Cons.prems(2) p by simp
  note step = publish_event_outbox [OF here, of W send, folded p]
  have "\<forall>(k, e) \<in> set evs. findById (outbox ?s1) k = Some e"
  proof clarify
    fix k e
    assume kv: "(k, e) \<in> set evs"
    then have "k \<noteq> k1" using Cons.prems(1) p by (force simp: image_iff)
    with kv Cons.prems(2) show "findById (outbox ?s1) k = Some e" by (auto simp: step)
  qed
  then have IH: "findById (outbox (fold (publish_event W send) evs ?s1)) k =
     (case map_of evs k of None \<Rightarrow> findById (outbox ?s1) k
      | Some e \<Rightarrow> Some (settle W send (clock s) k e))"
    using Cons.IH [of ?s1] Cons.prems(1) by (simp cong: option.case_cong)
  have "k1 \<notin> fst ` set evs" using Cons.prems(1) p by simp
  then have "map_of evs k1 = None" by (simp add: map_of_eq_None_iff)
  with IH show ?case by (cases "map_of evs k") (auto simp: step [unfolded p] p)
qed

text \<open>
  A whole flush, document by document: the claimed events are settled and the rest is untouched.
\<close>

lemma flush_outbox:
  assumes "distinct (map fst (outbox s))" and "claimOutboxBatch (OUTBOX_BATCH_SIZE W) s = (evs, s1)"
    and "flushOutboxBatch W send False s = (sent, s')"
  shows "findById (outbox s') k =
     (case map_of evs k of None \<Rightarrow> findById (outbox s) k
      | Some e \<Rightarrow> Some (settle W send (clock s) k e))"
proof -
  from assms(2) have run: "claim_loop (OUTBOX_BATCH_SIZE W) (clock s) s = (evs, s1)"
    by (simp add: claimOutboxBatch_def)
  note spec = claim_loop_spec [OF assms(1) run]
  from claim_loop_frame [OF run] have ck: "clock s1 = clock s" by auto
  have s': "s' = fold (publish_event W send) evs s1"
    using assms(2,3) by (simp add: flushOutboxBatch_def)
  have there: "\<forall>(k, e) \<in> set evs. findById (outbox s1) k = Some e"
    using spec by (auto simp: map_of_is_SomeI)
  show ?thesis
    using publish_events_outbox [OF _ there, of W send k] spec ck
    by (cases "map_of evs k") (simp_all add: s')
qed

lemma retryDelayMs_bounds: "1000 \<le> retryDelayMs n \<and> retryDelayMs n \<le> 30000"
proof -
  have "(1::int) \<le> 2 ^ nat (max 0 (n - 1))" by simp
  then show ?thesis by (simp add: retryDelayMs_def)
qed

lemma retryDelayMs_mono: "a \<le> b \<Longrightarrow> retryDelayMs a \<le> retryDelayMs b"
proof -
  assume "a \<le> b"
  then have "(2::int) ^ nat (max 0 (a - 1)) \<le> 2 ^ nat (max 0 (b - 1))"
    by (intro power_increasing nat_mono) auto
  then show ?thesis unfolding retryDelayMs_def by linarith
qed

end
