(* ===== verification/Notify.thy ===== *)
theory Notify
  imports Outbox
begin

text \<open>
  \<open>services/notification.service.ts\<close> and \<open>services/realtime.service.ts\<close>.  With the outbox relay
  on and Kafka configured, a notification or a realtime message becomes an outbox event for the
  consumers; otherwise it is written (Notification) and published on the Redis channel directly.
  A publication that Redis refuses is logged and dropped, so it never fails the caller: the list
  \<open>published\<close> holds the messages handed to Redis.
\<close>

section \<open>realtime.service\<close>

definition publishRealtimeEvent :: "rt_message \<Rightarrow> db \<Rightarrow> db" where
  "publishRealtimeEvent m s = s\<lparr>published := published s @ [m]\<rparr>"

section \<open>notification.service\<close>

definition shouldDispatchAsync :: "world \<Rightarrow> bool" where
  "shouldDispatchAsync W = (OUTBOX_RELAY_ENABLED W \<and> isKafkaConfigured W)"

record notify_params =
  np_userId :: oid
  np_title :: string
  np_body :: string
  np_type :: string
  np_metadata :: "json option"

definition notify_event :: "notify_params \<Rightarrow> outbox_input" where
  "notify_event p =
     event_input topic_notification ''UserNotificationDispatchRequested'' ''user'' (np_userId p)
       (JObj [(''userId'', JStr (np_userId p)), (''title'', JStr (np_title p)),
              (''body'', JStr (np_body p)), (''type'', JStr (np_type p)),
              (''metadata'', (case np_metadata p of None \<Rightarrow> JObj [] | Some m \<Rightarrow> m))])"

definition notification_json :: "oid \<Rightarrow> notification \<Rightarrow> json" where
  "notification_json k n = JObj
     [(''_id'', JStr k), (''user'', JStr (n_user n)), (''title'', JStr (n_title n)),
      (''body'', JStr (n_body n)), (''type'', JStr (n_type n)), (''read'', JBool (n_read n)),
      (''metadata'', n_metadata n), (''createdAt'', JDate (n_createdAt n))]"

definition notifyUser :: "world \<Rightarrow> notify_params \<Rightarrow> db \<Rightarrow> db" where
  "notifyUser W p s =
     (if shouldDispatchAsync W then appendOutboxEvents W [notify_event p] s
      else
        (let k = newId W (draws s);
             n = \<lparr> n_user = np_userId p, n_title = np_title p, n_body = np_body p,
                   n_type = np_type p, n_read = False,
                   n_metadata = jopt id (np_metadata p), n_createdAt = clock s \<rparr>
         in publishRealtimeEvent
              \<lparr> rt_target = RtUser (np_userId p), rt_event = ''notification:new'',
                rt_payload = notification_json k n \<rparr>
              (next_draw (s\<lparr>notifications := notifications s @ [(k, n)]\<rparr>))))"

definition realtime_event :: "string \<Rightarrow> string \<Rightarrow> string \<Rightarrow> json \<Rightarrow> outbox_input" where
  "realtime_event kind k ev payload =
     event_input topic_realtime ''RealtimeDispatchRequested'' kind k
       (JObj [(''target'', JObj [(''type'', JStr kind), (''id'', JStr k)]),
              (''event'', JStr ev), (''payload'', payload)])"

definition emitToUser :: "world \<Rightarrow> oid \<Rightarrow> string \<Rightarrow> json \<Rightarrow> db \<Rightarrow> db" where
  "emitToUser W usr ev payload s =
     (if shouldDispatchAsync W
      then appendOutboxEvents W [realtime_event ''user'' usr ev payload] s
      else publishRealtimeEvent \<lparr> rt_target = RtUser usr, rt_event = ev, rt_payload = payload \<rparr> s)"

definition emitToMatch :: "world \<Rightarrow> oid \<Rightarrow> string \<Rightarrow> json \<Rightarrow> db \<Rightarrow> db" where
  "emitToMatch W mid ev payload s =
     (if shouldDispatchAsync W
      then appendOutboxEvents W [realtime_event ''match'' mid ev payload] s
      else publishRealtimeEvent \<lparr> rt_target = RtMatch mid, rt_event = ev, rt_payload = payload \<rparr> s)"

definition emitToTrip :: "world \<Rightarrow> oid \<Rightarrow> string \<Rightarrow> json \<Rightarrow> db \<Rightarrow> db" where
  "emitToTrip W tid ev payload s =
     (if shouldDispatchAsync W
      then appendOutboxEvents W [realtime_event ''trip'' tid ev payload] s
      else publishRealtimeEvent \<lparr> rt_target = RtTrip tid, rt_event = ev, rt_payload = payload \<rparr> s)"

section \<open>The announcements are announcers\<close>

lemma no_new_events: "outbox t = outbox s \<Longrightarrow> \<exists>es. outbox t = outbox s @ es \<and> fresh_pending es"
  by (intro exI [of _ "[]"]) (simp add: fresh_pending_def)

lemma fresh_pending_simps [simp]:
  "fresh_pending []"
  "fresh_pending ((k, pending_event now e) # es) = fresh_pending es"
  by (simp_all add: fresh_pending_def pending_event_def)

lemmas announce_defs =
  notifyUser_def emitToUser_def emitToMatch_def emitToTrip_def publishRealtimeEvent_def
  next_draw_def Let_def

interpretation notifyUser: announcer "notifyUser W p" for W p
  by unfold_locales (auto simp: announce_defs no_new_events append.appends)

interpretation emitToUser: announcer "emitToUser W k ev pl" for W k ev pl
  by unfold_locales (auto simp: announce_defs no_new_events append.appends)

interpretation emitToMatch: announcer "emitToMatch W k ev pl" for W k ev pl
  by unfold_locales (auto simp: announce_defs no_new_events append.appends)

interpretation emitToTrip: announcer "emitToTrip W k ev pl" for W k ev pl
  by unfold_locales (auto simp: announce_defs no_new_events append.appends)

text \<open>Either way one announcement leaves exactly one trace: an outbox event or a message.\<close>

lemma emitToUser_once:
  "length (outbox (emitToUser W k ev pl s)) + length (published (emitToUser W k ev pl s)) =
     Suc (length (outbox s) + length (published s))"
  using append_appends [of W "[realtime_event ''user'' k ev pl]" s]
  by (auto simp: emitToUser_def publishRealtimeEvent_def next_draw_def)

lemma notifyUser_once:
  "length (outbox (notifyUser W p s)) + length (notifications (notifyUser W p s)) =
     Suc (length (outbox s) + length (notifications s))"
  using append_appends [of W "[notify_event p]" s]
  by (auto simp: notifyUser_def publishRealtimeEvent_def next_draw_def Let_def)

end
