(* ===== verification/Transactions.thy ===== *)
theory Transactions
  imports Models JsString
begin

text \<open>
  \<open>utils/mongoTransactions.ts\<close>: \<open>runInTransaction\<close> runs its body inside a MongoDB transaction
  with up to five attempts, and outside any transaction on a server that has none.  An aborted
  attempt undoes the writes to the collections; what the body drew from the outside world, sent
  to Redis or put on a queue stays.
\<close>

section \<open>Classification of errors\<close>

fun err_message :: "js_error \<Rightarrow> string" where
  "err_message (ApiError _ m) = m"
| "err_message (HttpError _ m) = m"
| "err_message (MongoError _ m _) = m"
| "err_message (LibError m) = m"

fun err_code :: "js_error \<Rightarrow> int option" where
  "err_code (MongoError c _ _) = Some c"
| "err_code _ = None"

fun err_labels :: "js_error \<Rightarrow> string list" where
  "err_labels (MongoError _ _ ls) = ls"
| "err_labels _ = []"

definition isTransactionUnsupported :: "js_error \<Rightarrow> bool" where
  "isTransactionUnsupported e =
     (err_code e = Some 20 \<or>
      strIncludes (err_message e)
        ''Transaction numbers are only allowed on a replica set member or mongos'')"

definition isWriteConflictOrTransient :: "js_error \<Rightarrow> bool" where
  "isWriteConflictOrTransient e =
     (err_code e = Some 112 \<or>
      ''TransientTransactionError'' \<in> set (err_labels e) \<or>
      ''UnknownTransactionCommitResult'' \<in> set (err_labels e) \<or>
      strIncludes (err_message e) ''Write conflict'' \<or>
      strIncludes (err_message e) ''WriteConflict'')"

section \<open>runInTransaction\<close>

text \<open>\<open>abort s s'\<close>: the collections of \<open>s\<close>, the rest of \<open>s'\<close>.\<close>

definition abort :: "db \<Rightarrow> db \<Rightarrow> db" where
  "abort s s' =
     s'\<lparr>users := users s, trips := trips s, requests := requests s, matches := matches s,
        transactions := transactions s, outbox := outbox s, webhooks := webhooks s,
        reviews := reviews s, notifications := notifications s\<rparr>"

text \<open>
  The attempts of the \<open>for\<close> loop: the first number counts the attempts left, the second is the
  number of this attempt.  A commit that fails leaves the writes in place if the server had
  applied it.  The pause before a retry changes nothing the handlers read.
\<close>

fun tx_loop :: "world \<Rightarrow> (db, 'a) handler \<Rightarrow> nat \<Rightarrow> nat \<Rightarrow> (db, 'a) handler" where
  "tx_loop W fn 0 attempt s = (Inl (LibError ''Transaction max retries exceeded''), s)"
| "tx_loop W fn (Suc left) attempt s =
     (let (failed, result, s1) =
            (case fn s of
               (Inl e, s') \<Rightarrow> (Some e, None, abort s s')
             | (Inr x, s') \<Rightarrow>
                 (case commitTransaction W attempt of
                    None \<Rightarrow> (None, Some x, s')
                  | Some (e, applied) \<Rightarrow> (Some e, None, if applied then s' else abort s s')))
      in case failed of
           None \<Rightarrow> (Inr (the result), s1)
         | Some e \<Rightarrow>
             if isTransactionUnsupported e then fn s1
             else if isWriteConflictOrTransient e \<and> 0 < left
             then tx_loop W fn left (Suc attempt) s1
             else (Inl e, s1))"

definition runInTransaction :: "world \<Rightarrow> (db, 'a) handler \<Rightarrow> (db, 'a) handler" where
  "runInTransaction W fn s =
     (case startSession W of
        Some e \<Rightarrow> if isTransactionUnsupported e then fn s else (Inl e, s)
      | None \<Rightarrow> tx_loop W fn 5 1 s)"

declare tx_loop.simps(2) [simp del]

section \<open>Facts\<close>

text \<open>The server's word can be trusted: a commit that fails has not been applied.\<close>

definition commits_atomically :: "world \<Rightarrow> bool" where
  "commits_atomically W \<longleftrightarrow>
     (\<forall>n e applied. commitTransaction W n = Some (e, applied) \<longrightarrow>
        \<not> applied \<and> \<not> isTransactionUnsupported e)"

text \<open>
  The body reads only collections that an abort restores, and what else it leaves differs only
  outside them.
\<close>

definition same_collections :: "db \<Rightarrow> db \<Rightarrow> bool" where
  "same_collections s t \<longleftrightarrow>
     users s = users t \<and> trips s = trips t \<and> requests s = requests t \<and> matches s = matches t \<and>
     transactions s = transactions t \<and> outbox s = outbox t \<and> webhooks s = webhooks t \<and>
     reviews s = reviews t \<and> notifications s = notifications t"

lemma same_collections_refl [simp]: "same_collections s s"
  by (simp add: same_collections_def)

lemma same_collections_trans:
  "same_collections s t \<Longrightarrow> same_collections t u \<Longrightarrow> same_collections s u"
  by (simp add: same_collections_def)

lemma same_collections_abort [simp]: "same_collections (abort s s') s"
  by (simp add: same_collections_def abort_def)

lemma same_collections_aborted [simp]:
  "same_collections t (abort s s') \<longleftrightarrow> same_collections t s"
  by (simp add: same_collections_def abort_def)

lemma abort_simps [simp]:
  "users (abort s s') = users s" "trips (abort s s') = trips s"
  "requests (abort s s') = requests s" "matches (abort s s') = matches s"
  "transactions (abort s s') = transactions s" "outbox (abort s s') = outbox s"
  "webhooks (abort s s') = webhooks s" "reviews (abort s s') = reviews s"
  "notifications (abort s s') = notifications s"
  "redis (abort s s') = redis s'" "published (abort s s') = published s'"
  "jobs (abort s s') = jobs s'" "clock (abort s s') = clock s'" "draws (abort s s') = draws s'"
  by (simp_all add: abort_def)

text \<open>Rolled back or applied once: the shape of every outcome.\<close>

lemma tx_loop_atomic:
  assumes "commits_atomically W"
    and "\<And>t e t'. fn t = (Inl e, t') \<Longrightarrow> \<not> isTransactionUnsupported e"
  shows "tx_loop W fn left attempt s = (r, s') \<Longrightarrow>
     (\<exists>e. r = Inl e \<and> same_collections s' s) \<or>
     (\<exists>x t. r = Inr x \<and> same_collections t s \<and> fn t = (Inr x, s'))"
proof (induction left arbitrary: attempt s)
  case 0
  then show ?case by auto
next
  case (Suc left)
  show ?case
  proof (cases "fn s")
    case (Pair q s1)
    show ?thesis
    proof (cases q)
      case (Inl e)
      have nu: "\<not> isTransactionUnsupported e" using assms(2) Pair Inl by blast
      show ?thesis
      proof (cases "isWriteConflictOrTransient e \<and> 0 < left")
        case True
        with Suc.prems Pair Inl nu have "tx_loop W fn left (Suc attempt) (abort s s1) = (r, s')"
          by (simp add: tx_loop.simps)
        from Suc.IH [OF this] show ?thesis
          by simp
      next
        case False
        with Suc.prems Pair Inl nu have "r = Inl e" "s' = abort s s1"
          by (auto simp: tx_loop.simps)
        then show ?thesis by simp
      qed
    next
      case (Inr x)
      show ?thesis
      proof (cases "commitTransaction W attempt")
        case None
        with Suc.prems Pair Inr have "r = Inr x" "s' = s1" by (auto simp: tx_loop.simps)
        with Pair Inr show ?thesis by (auto intro!: exI [of _ s])
      next
        case (Some p)
        obtain e a where p: "p = (e, a)" by fastforce
        with Some assms(1) have na: "\<not> a" "\<not> isTransactionUnsupported e"
          by (auto simp: commits_atomically_def)
        show ?thesis
        proof (cases "isWriteConflictOrTransient e \<and> 0 < left")
          case True
          with Suc.prems Pair Inr Some p na have "tx_loop W fn left (Suc attempt) (abort s s1) = (r, s')"
            by (simp add: tx_loop.simps)
          from Suc.IH [OF this] show ?thesis
            by simp
        next
          case False
          with Suc.prems Pair Inr Some p na have "r = Inl e" "s' = abort s s1"
            by (auto simp: tx_loop.simps)
          then show ?thesis by simp
        qed
      qed
    qed
  qed
qed

lemma runInTransaction_atomic:
  assumes "commits_atomically W"
    and "\<And>t e t'. fn t = (Inl e, t') \<Longrightarrow> \<not> isTransactionUnsupported e"
    and "startSession W = None"
    and "runInTransaction W fn s = (r, s')"
  shows "(\<exists>e. r = Inl e \<and> same_collections s' s) \<or>
     (\<exists>x t. r = Inr x \<and> same_collections t s \<and> fn t = (Inr x, s'))"
proof -
  from assms(3,4) have "tx_loop W fn 5 1 s = (r, s')" by (simp add: runInTransaction_def)
  from tx_loop_atomic [OF assms(1,2) this] show ?thesis .
qed

text \<open>
  How often the body runs: a body whose every run makes at most \<open>k\<close> draws makes at most \<open>6 * k\<close>
  of them in all, five attempts and the run without a session.
\<close>

lemma tx_loop_draws:
  assumes "\<And>t. draws (snd (fn t)) \<le> draws t + k"
  shows "draws (snd (tx_loop W fn left attempt s)) \<le> draws s + Suc left * k"
proof (induction left arbitrary: attempt s)
  case 0
  then show ?case by simp
next
  case (Suc left)
  obtain q s1 where q: "fn s = (q, s1)" by fastforce
  have s1: "draws s1 \<le> draws s + k" using assms [of s] by (simp add: q)
  have more: "draws (snd (tx_loop W fn left (Suc attempt) t)) \<le> draws s + Suc (Suc left) * k"
    "draws (snd (fn t)) \<le> draws s + Suc (Suc left) * k"
    if "draws t = draws s1" for t
    using Suc.IH [of "Suc attempt" t] assms [of t] s1 that by simp_all
  show ?case
    using s1 more [of s1] more [of "abort s s1"]
    by (auto simp: tx_loop.simps q split: sum.splits option.splits)
qed

lemma runInTransaction_draws:
  assumes "\<And>t. draws (snd (fn t)) \<le> draws t + k"
  shows "draws (snd (runInTransaction W fn s)) \<le> draws s + 6 * k"
  using tx_loop_draws [OF assms, of W 5 1 s] assms [of s]
  by (auto simp: runInTransaction_def split: option.splits)

text \<open>A result is the result of a run of the body, and the state is the one that run left.\<close>

lemma tx_loop_result: "tx_loop W fn n a s = (Inr x, s') \<Longrightarrow> \<exists>t. fn t = (Inr x, s')"
proof (induction n arbitrary: a s)
  case 0
  then show ?case by simp
next
  case (Suc n)
  obtain q s1 where q: "fn s = (q, s1)" by fastforce
  have one: "fn t = (Inr x, s') \<Longrightarrow> ?case" for t by blast
  from Suc.prems Suc.IH one q show ?case
    by (auto simp: tx_loop.simps split: sum.splits option.splits if_splits)
qed

lemma runInTransaction_result: "runInTransaction W fn s = (Inr x, s') \<Longrightarrow> \<exists>t. fn t = (Inr x, s')"
  by (auto simp: runInTransaction_def dest: tx_loop_result split: option.splits if_splits)

lemma keeps_tx_loop:
  assumes "keeps I fn" and "\<And>s s'. I s \<Longrightarrow> I s' \<Longrightarrow> I (abort s s')"
  shows "keeps I (tx_loop W fn left attempt)"
proof -
  have "I s \<Longrightarrow> I (snd (tx_loop W fn left attempt s))" for s
  proof (induction left arbitrary: attempt s)
    case 0
    then show ?case by simp
  next
    case (Suc left)
    obtain q s1 where q: "fn s = (q, s1)" by fastforce
    have s1: "I s1" using keeps_run [OF assms(1) Suc.prems q] .
    have a: "I (abort s s1)" using assms(2) Suc.prems s1 .
    show ?case
      using Suc.IH [OF s1] Suc.IH [OF a] keepsD [OF assms(1) s1] keepsD [OF assms(1) a] s1 a
      by (auto simp: tx_loop.simps q split: sum.splits option.splits)
  qed
  then show ?thesis by (simp add: keeps_def)
qed

lemma keeps_runInTransaction:
  assumes "keeps I fn" and "\<And>s s'. I s \<Longrightarrow> I s' \<Longrightarrow> I (abort s s')"
  shows "keeps I (runInTransaction W fn)"
  using keeps_tx_loop [OF assms, of W] assms(1)
  by (auto simp: keeps_def runInTransaction_def split: option.splits)

end
