(* ===== verification/Escrow.thy ===== *)
theory Escrow
  imports Transactions
begin

text \<open>
  \<open>services/escrow.service.ts\<close>: \<open>holdFunds\<close> books money into escrow and \<open>releaseFunds\<close> pays a
  delivered match out, both inside \<open>runInTransaction\<close>.  The facts: a hold is booked in the ledger
  and in the wallet together or not at all; a release pays the carrier and the platform exactly
  once, whatever the commits of the server answer; and the exact effect of a release on wallets.
\<close>

section \<open>holdFunds\<close>

datatype hold_kind = CarrierDeposit | SenderPayment

fun hold_kind_str :: "hold_kind \<Rightarrow> string" where
  "hold_kind_str CarrierDeposit = ''carrier_deposit''"
| "hold_kind_str SenderPayment = ''sender_payment''"

definition inc_escrow :: "int \<Rightarrow> user \<Rightarrow> user" where
  "inc_escrow n u = u\<lparr>u_escrowHeld := u_escrowHeld u + n\<rparr>"

definition hold_body :: "world \<Rightarrow> oid \<Rightarrow> oid \<Rightarrow> int \<Rightarrow> hold_kind \<Rightarrow> (db, unit) handler" where
  "hold_body W usr mid amount kind =
     thenM (modM (\<lambda>s. create_transaction W
         (new_transaction usr (Some mid) EscrowHold amount TxPending
           (''Escrow hold ('' @ hold_kind_str kind @ '')'') (clock s)) s))
       (modM (update_user usr (inc_escrow amount)))"

definition holdFunds :: "world \<Rightarrow> oid \<Rightarrow> int \<Rightarrow> hold_kind \<Rightarrow> (db, unit) handler" where
  "holdFunds W mid amount kind =
     bindM (requireM (\<lambda>s. findById (matches s) mid) (ApiError 404 ''Match not found'')) (\<lambda>mat.
       let usr = (if kind = CarrierDeposit then m_carrier mat else m_sender mat)
       in runInTransaction W (hold_body W usr mid amount kind))"

section \<open>releaseFunds\<close>

record release_result =
  rr_payoutToCarrier :: int
  rr_depositAmount :: int
  rr_platformFee :: int

text \<open>\<open>Transaction.exists({ match, type: 'carrier_payout', status: 'completed' })\<close>\<close>

definition completed_payout :: "oid \<Rightarrow> transaction \<Rightarrow> bool" where
  "completed_payout mid x =
     (x_match x = Some mid \<and> x_type x = CarrierPayout \<and> x_status x = TxCompleted)"

text \<open>The four amounts, from the trip, the request and the match.\<close>

definition release_deposit :: "trip \<Rightarrow> int" where
  "release_deposit t = num_or (t_safetyDepositAmount t) 0"

definition release_sender_payment :: "delivery_request \<Rightarrow> match_doc \<Rightarrow> int" where
  "release_sender_payment d mat = num_or (r_totalCharge d) (m_agreedPrice mat)"

definition release_platform_fee :: "world \<Rightarrow> delivery_request \<Rightarrow> match_doc \<Rightarrow> int" where
  "release_platform_fee W d mat =
     num_or (r_platformFee d)
       (js_round (jdiv (jmul (of_int (release_sender_payment d mat)) (PLATFORM_FEE_PERCENT W)) 100))"

definition release_payout :: "world \<Rightarrow> delivery_request \<Rightarrow> match_doc \<Rightarrow> int" where
  "release_payout W d mat =
     num_or (r_quotedPrice d) (max (release_sender_payment d mat - release_platform_fee W d mat) 0)"

definition pay_carrier :: "user \<Rightarrow> int \<Rightarrow> int \<Rightarrow> user \<Rightarrow> user" where
  "pay_carrier loaded deposit payout u =
     u\<lparr>u_escrowHeld := max 0 (u_escrowHeld loaded - deposit),
       u_balance := u_balance loaded + (deposit + payout)\<rparr>"

definition settle_sender :: "user \<Rightarrow> int \<Rightarrow> user \<Rightarrow> user" where
  "settle_sender loaded payment u = u\<lparr>u_escrowHeld := max 0 (u_escrowHeld loaded - payment)\<rparr>"

definition release_ledger :: "oid \<Rightarrow> oid \<Rightarrow> oid \<Rightarrow> int \<Rightarrow> int \<Rightarrow> int \<Rightarrow> int \<Rightarrow> transaction list" where
  "release_ledger carrier sender mid deposit payout fee now =
     [new_transaction carrier (Some mid) EscrowRelease deposit TxCompleted
        ''Safety deposit released to carrier wallet'' now,
      new_transaction carrier (Some mid) CarrierPayout payout TxCompleted
        ''Delivery payout released to carrier'' now,
      new_transaction sender (Some mid) PlatformFee fee TxCompleted
        ''Platform fee deducted'' now]"

definition release_body ::
  "world \<Rightarrow> oid \<Rightarrow> oid \<Rightarrow> oid \<Rightarrow> int \<Rightarrow> int \<Rightarrow> int \<Rightarrow> int \<Rightarrow> (db, unit) handler" where
  "release_body W mid carrier sender deposit payment fee payout s =
     (case (findById (users s) carrier, findById (users s) sender, findById (matches s) mid) of
        (Some txCarrier, Some txSender, Some txMatch) \<Rightarrow>
          if existsDoc (completed_payout mid) (transactions s) then (Inr (), s)
          else
            (let s1 = update_user carrier (pay_carrier txCarrier deposit payout) s;
                 s2 = update_user sender (settle_sender txSender payment) s1;
                 s3 = fold (create_transaction W)
                        (release_ledger carrier sender mid deposit payout fee (clock s)) s2
             in (Inr (), save_match mid (txMatch\<lparr>m_payoutToCarrier := Some payout\<rparr>) s3))
      | _ \<Rightarrow> (Inl (ApiError 404 ''Users or match disappeared inside transaction''), s))"

definition releaseFunds :: "world \<Rightarrow> oid \<Rightarrow> (db, release_result) handler" where
  "releaseFunds W mid s =
     (case findById (matches s) mid of
        None \<Rightarrow> (Inl (ApiError 404 ''Match not found''), s)
      | Some mat \<Rightarrow>
          if existsDoc (completed_payout mid) (transactions s)
          then (Inr \<lparr> rr_payoutToCarrier = num_or (m_payoutToCarrier mat) 0,
                      rr_depositAmount = 0, rr_platformFee = 0 \<rparr>, s)
          else
            (case (findById (trips s) (m_trip mat), findById (requests s) (m_deliveryRequest mat)) of
               (Some t, Some d) \<Rightarrow>
                 (let deposit = release_deposit t;
                      payment = release_sender_payment d mat;
                      fee = release_platform_fee W d mat;
                      payout = release_payout W d mat
                  in thenM (runInTransaction W
                         (release_body W mid (m_carrier mat) (m_sender mat) deposit payment fee payout))
                       (retM \<lparr> rr_payoutToCarrier = payout, rr_depositAmount = deposit,
                               rr_platformFee = fee \<rparr>) s)
             | _ \<Rightarrow> (Inl (ApiError 404 ''Related trip or delivery request not found''), s)))"

section \<open>Facts about holds\<close>

text \<open>A hold as one step: the ledger row and the wallet together.\<close>

definition hold_effect :: "world \<Rightarrow> oid \<Rightarrow> oid \<Rightarrow> int \<Rightarrow> hold_kind \<Rightarrow> db \<Rightarrow> db" where
  "hold_effect W usr mid amount kind s =
     update_user usr (inc_escrow amount)
       (create_transaction W
         (new_transaction usr (Some mid) EscrowHold amount TxPending
           (''Escrow hold ('' @ hold_kind_str kind @ '')'') (clock s)) s)"

lemma hold_body_run: "hold_body W usr mid amount kind s = (Inr (), hold_effect W usr mid amount kind s)"
  by (simp add: hold_body_def hold_effect_def run_simps)

text \<open>
  What a hold means on the business data: \<open>held W ... s s'\<close> says that exactly one pending
  \<open>escrow_hold\<close> of the amount was booked and the wallet grew by it.
\<close>

definition held :: "oid \<Rightarrow> oid \<Rightarrow> int \<Rightarrow> db \<Rightarrow> db \<Rightarrow> bool" where
  "held usr mid amount s s' \<longleftrightarrow>
     (\<exists>k x. transactions s' = transactions s @ [(k, x)] \<and> x_user x = usr \<and> x_match x = Some mid \<and>
        x_type x = EscrowHold \<and> x_amount x = amount \<and> x_status x = TxPending) \<and>
     users s' = findByIdAndUpdate usr (inc_escrow amount) (users s) \<and>
     matches s' = matches s \<and> requests s' = requests s \<and> trips s' = trips s"

lemma hold_effect_held: "held usr mid amount s (hold_effect W usr mid amount kind s)"
  by (auto simp: held_def hold_effect_def new_transaction_def)

lemma held_same: "held usr mid amount t s' \<Longrightarrow> same_collections t s \<Longrightarrow> held usr mid amount s s'"
  by (simp add: held_def same_collections_def)

lemma holdFunds_outcome:
  assumes "commits_atomically W" and "startSession W = None"
    and "findById (matches s) mid = Some mat"
    and "holdFunds W mid amount kind s = (r, s')"
  shows "(\<exists>e. r = Inl e \<and> same_collections s' s) \<or>
     (r = Inr () \<and> held (if kind = CarrierDeposit then m_carrier mat else m_sender mat) mid amount s s')"
proof -
  let ?u = "if kind = CarrierDeposit then m_carrier mat else m_sender mat"
  have run: "runInTransaction W (hold_body W ?u mid amount kind) s = (r, s')"
    using assms(3,4) by (simp add: holdFunds_def run_simps)
  have "(\<exists>e. r = Inl e \<and> same_collections s' s) \<or>
     (\<exists>x t. r = Inr x \<and> same_collections t s \<and> hold_body W ?u mid amount kind t = (Inr x, s'))"
    by (rule runInTransaction_atomic [OF assms(1) _ assms(2) run]) (simp add: hold_body_run)
  then show ?thesis
    using held_same [OF hold_effect_held] by (auto simp: hold_body_run)
qed

text \<open>With a server that commits, or one that has no transactions at all, the hold is made.\<close>

definition tx_succeeds :: "world \<Rightarrow> bool" where
  "tx_succeeds W \<longleftrightarrow>
     (case startSession W of None \<Rightarrow> commitTransaction W 1 = None
      | Some e \<Rightarrow> isTransactionUnsupported e)"

lemma tx_loop_first:
  "fn s = (Inr x, s') \<Longrightarrow> commitTransaction W a = None \<Longrightarrow> tx_loop W fn (Suc n) a s = (Inr x, s')"
  by (simp add: tx_loop.simps(2))

lemma runInTransaction_succeeds:
  assumes "tx_succeeds W" and "fn s = (Inr x, s')"
  shows "runInTransaction W fn s = (Inr x, s')"
proof (cases "startSession W")
  case None
  with assms tx_loop_first [where fn = fn, OF assms(2), of W 1 4] show ?thesis
    by (simp add: tx_succeeds_def runInTransaction_def)
next
  case (Some e)
  with assms show ?thesis by (simp add: tx_succeeds_def runInTransaction_def)
qed

lemma holdFunds_succeeds:
  assumes "tx_succeeds W" and "findById (matches s) mid = Some mat"
  shows "holdFunds W mid amount kind s =
     (Inr (), hold_effect W (if kind = CarrierDeposit then m_carrier mat else m_sender mat)
                mid amount kind s)"
  using assms runInTransaction_succeeds [OF assms(1) hold_body_run]
  by (simp add: holdFunds_def run_simps)

section \<open>Facts about releases\<close>

lemma existsDoc_release_ledger:
  "fold (create_transaction W) (release_ledger c sd mid dep pay fee now) s = s' \<Longrightarrow>
   existsDoc (completed_payout mid) (transactions s')"
  by (auto simp: release_ledger_def completed_payout_def new_transaction_def)

lemma transactions_release_ledger:
  "\<exists>ks. length ks = 3 \<and>
     transactions (fold (create_transaction W) (release_ledger c sd mid dep pay fee now) s) =
       transactions s @ zip ks (release_ledger c sd mid dep pay fee now)"
  by (intro exI [of _ "[newId W (draws s), newId W (Suc (draws s)), newId W (Suc (Suc (draws s)))]"])
     (simp add: release_ledger_def)

lemma fold_create_frames [simp]:
  "users (fold (create_transaction W) xs s) = users s"
  "trips (fold (create_transaction W) xs s) = trips s"
  "requests (fold (create_transaction W) xs s) = requests s"
  "matches (fold (create_transaction W) xs s) = matches s"
  "outbox (fold (create_transaction W) xs s) = outbox s"
  "clock (fold (create_transaction W) xs s) = clock s"
  by (induction xs arbitrary: s) simp_all

lemma countDocuments_append [simp]:
  "countDocuments P (xs @ ys) = countDocuments P xs + countDocuments P ys"
  by (simp add: countDocuments_def findAll_def)

lemma countDocuments_Cons [simp]:
  "countDocuments P ((k, d) # xs) = (if P d then Suc (countDocuments P xs) else countDocuments P xs)"
  "countDocuments P [] = 0"
  by (simp_all add: countDocuments_def)

text \<open>No match is ever paid out twice, whatever the server answers to the commits.\<close>

definition paid_once :: "db \<Rightarrow> bool" where
  "paid_once s \<longleftrightarrow> (\<forall>mid. countDocuments (completed_payout mid) (transactions s) \<le> 1)"

lemma paid_once_cong: "transactions s = transactions t \<Longrightarrow> paid_once t \<Longrightarrow> paid_once s"
  by (simp add: paid_once_def)

lemma completed_payout_new [simp]:
  "completed_payout mid (new_transaction u mt ty amt st ds now) =
     (mt = Some mid \<and> ty = CarrierPayout \<and> st = TxCompleted)"
  by (simp add: completed_payout_def new_transaction_def)

lemma paid_once_create:
  "paid_once s \<Longrightarrow> ty \<noteq> CarrierPayout \<Longrightarrow>
   paid_once (create_transaction W (new_transaction u mt ty amt st ds now) s)"
  by (simp add: paid_once_def)

lemma keeps_release_body: "keeps paid_once (release_body W mid c sd dep pay fee out)"
proof -
  have "paid_once (snd (release_body W mid c sd dep pay fee out s))" if I: "paid_once s" for s
  proof (cases "existsDoc (completed_payout mid) (transactions s)")
    case True
    with I show ?thesis by (auto simp: release_body_def split: option.splits)
  next
    case False
    then have "countDocuments (completed_payout mid) (transactions s) = 0"
      by (simp add: countDocuments_0)
    with I False show ?thesis
      by (auto simp: release_body_def Let_def paid_once_def release_ledger_def split: option.splits)
  qed
  then show ?thesis by (simp add: keeps_def)
qed

lemma keeps_hold_body: "keeps paid_once (hold_body W u mid n kind)"
  unfolding hold_body_def
  by (intro keeps_intros keeps_modM) (auto intro: paid_once_create paid_once_cong)

lemma paid_once_abort: "paid_once s \<Longrightarrow> paid_once (abort s s')"
  by (rule paid_once_cong) simp_all

lemma keeps_holdFunds: "keeps paid_once (holdFunds W mid n kind)"
  unfolding holdFunds_def
  by (intro keeps_intros keeps_runInTransaction keeps_hold_body) (rule paid_once_abort)

lemma keeps_releaseFunds: "keeps paid_once (releaseFunds W mid)"
proof -
  have tx: "keeps paid_once (runInTransaction W (release_body W mid c sd dep pay fee out))"
    for c sd dep pay fee out
    by (intro keeps_runInTransaction keeps_release_body) (rule paid_once_abort)
  have "paid_once (snd (releaseFunds W mid s))" if "paid_once s" for s
    using that keepsD [OF tx that]
    by (auto simp: releaseFunds_def thenM_run Let_def split: option.splits prod.splits sum.splits)
      (metis snd_conv)+
  then show ?thesis by (simp add: keeps_def)
qed

text \<open>The effect of a release that has not been made before.\<close>

definition release_effect :: "world \<Rightarrow> oid \<Rightarrow> match_doc \<Rightarrow> trip \<Rightarrow> delivery_request \<Rightarrow> db \<Rightarrow> db" where
  "release_effect W mid mat t d s =
     snd (release_body W mid (m_carrier mat) (m_sender mat) (release_deposit t)
       (release_sender_payment d mat) (release_platform_fee W d mat) (release_payout W d mat) s)"

lemma releaseFunds_succeeds:
  assumes "tx_succeeds W" and "findById (matches s) mid = Some mat"
    and "findById (trips s) (m_trip mat) = Some t"
    and "findById (requests s) (m_deliveryRequest mat) = Some d"
    and "findById (users s) (m_carrier mat) = Some c" and "findById (users s) (m_sender mat) = Some sd"
    and "\<not> existsDoc (completed_payout mid) (transactions s)"
  shows "releaseFunds W mid s =
     (Inr \<lparr> rr_payoutToCarrier = release_payout W d mat, rr_depositAmount = release_deposit t,
            rr_platformFee = release_platform_fee W d mat \<rparr>, release_effect W mid mat t d s)"
proof -
  let ?b = "release_body W mid (m_carrier mat) (m_sender mat) (release_deposit t)
       (release_sender_payment d mat) (release_platform_fee W d mat) (release_payout W d mat)"
  have "?b s = (Inr (), snd (?b s))" using assms by (simp add: release_body_def Let_def)
  from runInTransaction_succeeds [where fn = ?b, OF assms(1) this]
  show ?thesis using assms by (simp add: releaseFunds_def release_effect_def thenM_run Let_def)
qed

lemma release_effect_wallets:
  assumes "findById (matches s) mid = Some mat"
    and "findById (users s) (m_carrier mat) = Some c" and "findById (users s) (m_sender mat) = Some sd"
    and "\<not> existsDoc (completed_payout mid) (transactions s)" and "m_carrier mat \<noteq> m_sender mat"
  shows "findById (users (release_effect W mid mat t d s)) (m_carrier mat) =
       Some (c\<lparr>u_escrowHeld := max 0 (u_escrowHeld c - release_deposit t),
               u_balance := u_balance c + (release_deposit t + release_payout W d mat)\<rparr>)"
    and "findById (users (release_effect W mid mat t d s)) (m_sender mat) =
       Some (sd\<lparr>u_escrowHeld := max 0 (u_escrowHeld sd - release_sender_payment d mat)\<rparr>)"
    and "u \<noteq> m_carrier mat \<Longrightarrow> u \<noteq> m_sender mat \<Longrightarrow>
       findById (users (release_effect W mid mat t d s)) u = findById (users s) u"
    and "findById (matches (release_effect W mid mat t d s)) mid =
       Some (mat\<lparr>m_payoutToCarrier := Some (release_payout W d mat)\<rparr>)"
    and "existsDoc (completed_payout mid) (transactions (release_effect W mid mat t d s))"
  using assms
  by (simp_all add: release_effect_def release_body_def Let_def pay_carrier_def settle_sender_def
      release_ledger_def)

text \<open>A second release returns the payout of the first and changes nothing.\<close>

lemma releaseFunds_again:
  assumes "findById (matches s) mid = Some mat"
    and "existsDoc (completed_payout mid) (transactions s)"
  shows "releaseFunds W mid s =
     (Inr \<lparr> rr_payoutToCarrier = num_or (m_payoutToCarrier mat) 0, rr_depositAmount = 0,
            rr_platformFee = 0 \<rparr>, s)"
  using assms by (simp add: releaseFunds_def)

lemma release_body_done:
  assumes "release_body W mid c sd dep pay fee out s = (Inr (), s')"
  shows "existsDoc (completed_payout mid) (transactions s')" "findById (matches s') mid \<noteq> None"
proof -
  obtain uc us m where u: "findById (users s) c = Some uc" "findById (users s) sd = Some us"
    and m: "findById (matches s) mid = Some m"
    using assms by (auto simp: release_body_def split: option.splits)
  show "existsDoc (completed_payout mid) (transactions s')"
    using assms u m by (auto simp: release_body_def Let_def release_ledger_def split: if_splits)
  show "findById (matches s') mid \<noteq> None"
    using assms u m by (auto simp: release_body_def Let_def split: if_splits)
qed

text \<open>After a release has returned, another one changes nothing: on any server.\<close>

lemma releaseFunds_twice:
  assumes "releaseFunds W mid s = (Inr r, s')"
  shows "snd (releaseFunds W mid s') = s' \<and> (\<exists>r'. fst (releaseFunds W mid s') = Inr r' \<and>
     rr_depositAmount r' = 0 \<and> rr_platformFee r' = 0)"
proof -
  obtain m where m: "findById (matches s) mid = Some m"
    using assms by (auto simp: releaseFunds_def split: option.splits)
  have "existsDoc (completed_payout mid) (transactions s') \<and> (\<exists>m'. findById (matches s') mid = Some m')"
  proof (cases "existsDoc (completed_payout mid) (transactions s)")
    case True
    with assms m show ?thesis by (simp add: releaseFunds_def)
  next
    case False
    then obtain c sd dep pay fee out where
      "runInTransaction W (release_body W mid c sd dep pay fee out) s = (Inr (), s')"
      using assms m by (auto simp: releaseFunds_def thenM_run Let_def split: option.splits prod.splits sum.splits)
    from runInTransaction_result [OF this] obtain t where
      "release_body W mid c sd dep pay fee out t = (Inr (), s')" by blast
    from release_body_done [OF this] show ?thesis by simp
  qed
  then show ?thesis using releaseFunds_again by auto
qed

section \<open>A commit whose outcome is unknown\<close>

text \<open>
  The server applied the commit but the client got a transient error: the loop runs the body
  again, and a body without a check of its own makes its writes twice.
\<close>

lemma tx_loop_unknown_commit:
  assumes "fn s = (Inr x, s1)" and "fn s1 = (Inr y, s2)"
    and "commitTransaction W a = Some (e, True)" and "commitTransaction W (Suc a) = None"
    and "isWriteConflictOrTransient e" "\<not> isTransactionUnsupported e"
  shows "tx_loop W fn (Suc (Suc n)) a s = (Inr y, s2)"
  using assms by (simp add: tx_loop.simps(2))

lemma holdFunds_unknown_commit:
  assumes "startSession W = None" and "findById (matches s) mid = Some mat"
    and "commitTransaction W 1 = Some (e, True)" and "commitTransaction W 2 = None"
    and "isWriteConflictOrTransient e" "\<not> isTransactionUnsupported e"
    and "findById (users s) (m_sender mat) = Some u"
  shows "\<exists>s'. holdFunds W mid n SenderPayment s = (Inr (), s') \<and>
     findById (users s') (m_sender mat) = Some (u\<lparr>u_escrowHeld := u_escrowHeld u + n + n\<rparr>) \<and>
     length (transactions s') = length (transactions s) + 2"
proof -
  let ?b = "hold_body W (m_sender mat) mid n SenderPayment"
  let ?h = "hold_effect W (m_sender mat) mid n SenderPayment"
  have c2: "commitTransaction W (Suc 1) = None" using assms(4) by (simp add: numeral_2_eq_2)
  note twice = tx_loop_unknown_commit [OF hold_body_run hold_body_run assms(3) c2 assms(5,6)]
  have "tx_loop W ?b (Suc (Suc 3)) 1 s = (Inr (), ?h (?h s))" by (rule twice)
  moreover have "Suc (Suc 3) = (5 :: nat)" by simp
  ultimately have "tx_loop W ?b 5 1 s = (Inr (), ?h (?h s))" by simp
  then have "holdFunds W mid n SenderPayment s = (Inr (), ?h (?h s))"
    using assms by (simp add: holdFunds_def run_simps runInTransaction_def)
  then show ?thesis using assms(7) by (simp add: hold_effect_def inc_escrow_def)
qed

section \<open>What escrow leaves alone\<close>

definition hold_frame :: "db \<Rightarrow> db \<Rightarrow> bool" where
  "hold_frame s t \<longleftrightarrow> matches t = matches s \<and> requests t = requests s \<and> trips t = trips s \<and>
     redis t = redis s \<and> jobs t = jobs s \<and> outbox t = outbox s \<and> clock t = clock s"

lemma keeps_hold_frame: "keeps (hold_frame s) (holdFunds W mid n kind)"
proof -
  have "keeps (hold_frame s) (hold_body W u mid n kind)" for u
    by (simp add: keeps_def hold_body_run) (simp add: hold_effect_def hold_frame_def)
  then have "keeps (hold_frame s) (runInTransaction W (hold_body W u mid n kind))" for u
    by (rule keeps_runInTransaction) (simp add: hold_frame_def)
  then show ?thesis unfolding holdFunds_def by (intro keeps_intros)
qed

lemma holdFunds_frame [simp]:
  "matches (snd (holdFunds W mid n kind s)) = matches s"
  "requests (snd (holdFunds W mid n kind s)) = requests s"
  "trips (snd (holdFunds W mid n kind s)) = trips s"
  "redis (snd (holdFunds W mid n kind s)) = redis s"
  "jobs (snd (holdFunds W mid n kind s)) = jobs s"
  "outbox (snd (holdFunds W mid n kind s)) = outbox s"
  "clock (snd (holdFunds W mid n kind s)) = clock s"
  using keepsD [OF keeps_hold_frame [of s W mid n kind], of s] by (simp_all add: hold_frame_def)

text \<open>A release writes the recorded payout of the match and nothing else of any match.\<close>

definition release_frame :: "oid \<Rightarrow> db \<Rightarrow> db \<Rightarrow> bool" where
  "release_frame mid s t \<longleftrightarrow>
     (\<forall>k. k \<noteq> mid \<longrightarrow> findById (matches t) k = findById (matches s) k) \<and>
     rel_option (\<lambda>m m'. \<exists>p. m' = m\<lparr>m_payoutToCarrier := p\<rparr>)
       (findById (matches s) mid) (findById (matches t) mid) \<and>
     requests t = requests s \<and> trips t = trips s \<and> redis t = redis s \<and> jobs t = jobs s \<and>
     outbox t = outbox s \<and> clock t = clock s"

lemma release_frame_refl [simp]: "release_frame mid s s"
proof -
  have "\<exists>p. m = m\<lparr>m_payoutToCarrier := p\<rparr>" for m :: match_doc
    by (intro exI [of _ "m_payoutToCarrier m"]) simp
  then show ?thesis by (auto simp: release_frame_def intro: option.rel_refl)
qed

lemma keeps_release_frame: "keeps (release_frame mid s) (releaseFunds W mid)"
proof -
  have "release_frame mid s (snd (release_body W mid c sd dep pay fee out t))"
    if I: "release_frame mid s t" for c sd dep pay fee out t
  proof -
    have "rel_option (\<lambda>m m'. \<exists>p. m' = m\<lparr>m_payoutToCarrier := p\<rparr>)
        (findById (matches s) mid) (Some (m\<lparr>m_payoutToCarrier := q\<rparr>))"
      if "findById (matches t) mid = Some m" for m q
      using I that by (fastforce simp: release_frame_def option_rel_Some2)
    with I show ?thesis
      by (auto simp: release_body_def Let_def release_frame_def release_ledger_def split: option.splits)
  qed
  then have "keeps (release_frame mid s) (release_body W mid c sd dep pay fee out)"
    for c sd dep pay fee out by (simp add: keeps_def)
  then have tx: "keeps (release_frame mid s) (runInTransaction W (release_body W mid c sd dep pay fee out))"
    for c sd dep pay fee out
    by (rule keeps_runInTransaction) (simp add: release_frame_def)
  have "release_frame mid s (snd (releaseFunds W mid t))" if "release_frame mid s t" for t
    using that keepsD [OF tx that]
    by (auto simp: releaseFunds_def thenM_run Let_def split: option.splits prod.splits sum.splits)
      (metis snd_conv)+
  then show ?thesis by (simp add: keeps_def)
qed

lemma releaseFunds_frame: "release_frame mid s (snd (releaseFunds W mid s))"
  using keepsD [OF keeps_release_frame, of mid s s W] by simp

end
