(* ===== verification/Payments.thy ===== *)
theory Payments
  imports Notify Escrow
begin

text \<open>
  \<open>services/payment.service.ts\<close>: Razorpay orders, the verification of their signatures, the
  confirmation of a trip's safety deposit and of a delivery's payment, and the webhook.  The
  Razorpay client behind its circuit breaker is \<open>ordersCreate\<close> of the world (its error is a code
  and a message), HMAC-SHA256 is \<open>hmacSha256Hex\<close>.
\<close>

section \<open>Signatures\<close>

definition verifySignature :: "world \<Rightarrow> string \<Rightarrow> string \<Rightarrow> string \<Rightarrow> bool" where
  "verifySignature W orderId paymentId signature =
     (if DEMO_MODE W \<and> startsWith orderId ''mock_order_'' \<and> signature = ''mock_signature'' then True
      else hmacSha256Hex W (RAZORPAY_KEY_SECRET W) (orderId @ ''|'' @ paymentId) = signature)"

section \<open>Orders\<close>

definition breaker_open :: "string \<times> string \<Rightarrow> bool" where
  "breaker_open e = (strIncludes (snd e) ''Breaker is open'' \<or> fst e = ''EOPENBREAKER'')"

definition createOrder :: "world \<Rightarrow> int \<Rightarrow> string \<Rightarrow> (db, razorpay_order) handler" where
  "createOrder W amount receipt s =
     (case ordersCreate W (draws s) amount receipt of
        Inr order \<Rightarrow> (Inr order, next_draw s)
      | Inl e \<Rightarrow>
          if DEMO_MODE W
          then (Inr \<lparr> ro_id = ''mock_order_'' @ int_str (clock s), ro_amount = amount,
                      ro_currency = ''INR'' \<rparr>, next_draw s)
          else if breaker_open e
          then (Inl (ApiError 503
                  ''Payment provider is temporarily unavailable. Please try again shortly.''), next_draw s)
          else (Inl (ApiError 502 (''Failed to create payment order with provider: '' @ snd e)), next_draw s))"

record standalone_order =
  so_orderId :: string
  so_amount :: int
  so_currency :: string
  so_receipt :: string

definition createStandaloneOrder ::
  "world \<Rightarrow> int \<Rightarrow> string option \<Rightarrow> string option \<Rightarrow> (db, standalone_order) handler" where
  "createStandaloneOrder W amount currency receipt =
     thenM (unlessM (100 \<le> amount) (ApiError 400 ''Invalid amount: minimum amount is 100 paise''))
     (bindM (readM (\<lambda>s. if truthy_str receipt then the receipt
                        else ''rcpt_'' @ int_str (clock s) @ ''_'' @ take 6 (randomToken W (draws s)))) (\<lambda>rcpt.
      bindM (createOrder W amount rcpt) (\<lambda>order.
      retM \<lparr> so_orderId = ro_id order, so_amount = ro_amount order,
             so_currency = (if ro_currency order \<noteq> [] then ro_currency order else str_or currency ''INR''),
             so_receipt = rcpt \<rparr>)))"

definition verifyStandalonePayment ::
  "world \<Rightarrow> string \<Rightarrow> string \<Rightarrow> string \<Rightarrow> (db, string \<times> string) handler" where
  "verifyStandalonePayment W orderId paymentId signature =
     thenM (unlessM (orderId \<noteq> [] \<and> paymentId \<noteq> [] \<and> signature \<noteq> [])
        (ApiError 400 ''Missing required fields: order_id, payment_id, and signature are required''))
     (thenM (unlessM (verifySignature W orderId paymentId signature)
        (ApiError 400 ''Invalid payment signature. Verification failed.''))
     (retM (orderId, paymentId)))"

section \<open>The safety deposit of a trip\<close>

text \<open>\<open>find(...).sort({ createdAt: -1 })\<close> and its first document.\<close>

definition newest :: "(transaction \<Rightarrow> bool) \<Rightarrow> transaction coll \<Rightarrow> (oid \<times> transaction) option" where
  "newest P c =
     (case sort_key (\<lambda>p. - x_createdAt (snd p)) (findAll P c) of [] \<Rightarrow> None | p # _ \<Rightarrow> Some p)"

definition deposit_description :: "oid \<Rightarrow> string" where
  "deposit_description tid = ''trip:'' @ tid"

definition open_deposit :: "oid \<Rightarrow> string \<Rightarrow> transaction \<Rightarrow> bool" where
  "open_deposit usr descr x =
     (x_user x = usr \<and> x_type x = SafetyDeposit \<and> x_status x \<in> {TxInitiated, TxPending} \<and>
      x_description x = Some descr)"

record order_result =
  or_alreadyPaid :: bool
  or_orderId :: "string option"
  or_amount :: "int option"

definition with_order :: "string \<Rightarrow> transaction \<Rightarrow> transaction" where
  "with_order orderId x = x\<lparr>x_razorpayOrderId := Some orderId\<rparr>"

definition createTripDepositOrder :: "world \<Rightarrow> oid \<Rightarrow> oid \<Rightarrow> (db, order_result) handler" where
  "createTripDepositOrder W tid usr =
     bindM (requireM (\<lambda>s. findById (trips s) tid) (ApiError 404 ''Trip not found'')) (\<lambda>t.
     thenM (unlessM (t_carrier t = usr) (ApiError 403 ''Forbidden''))
     (let amount = num_or (t_safetyDepositAmount t) (DEFAULT_SAFETY_DEPOSIT_PAISE W) in
      if t_safetyDepositPaid t
      then retM \<lparr> or_alreadyPaid = True, or_orderId = t_safetyDepositTransactionId t, or_amount = Some amount \<rparr>
      else
        bindM (readM (\<lambda>s. newest (open_deposit usr (deposit_description tid)) (transactions s))) (\<lambda>existing.
        case existing of
          Some (k, x) \<Rightarrow>
            if truthy_str (x_razorpayOrderId x)
            then retM \<lparr> or_alreadyPaid = False, or_orderId = x_razorpayOrderId x,
                        or_amount = Some (x_amount x) \<rparr>
            else bindM (createOrder W amount (''trip_dep_'' @ tid)) (\<lambda>order.
                 thenM (modM (save_transaction k (with_order (ro_id order) (x\<lparr>x_amount := amount\<rparr>))))
                 (thenM (modM (update_trip tid (\<lambda>t. t\<lparr>t_safetyDepositAmount := Some amount\<rparr>)))
                 (retM \<lparr> or_alreadyPaid = False, or_orderId = Some (ro_id order), or_amount = Some amount \<rparr>)))
        | None \<Rightarrow>
            bindM (createOrder W amount (''trip_dep_'' @ tid)) (\<lambda>order.
            thenM (modM (\<lambda>s. create_transaction W (with_order (ro_id order)
                (new_transaction usr None SafetyDeposit amount TxInitiated (deposit_description tid)
                  (clock s))) s))
            (thenM (modM (update_trip tid (\<lambda>t. t\<lparr>t_safetyDepositAmount := Some amount\<rparr>)))
            (retM \<lparr> or_alreadyPaid = False, or_orderId = Some (ro_id order), or_amount = Some amount \<rparr>))))))"

record confirmation =
  cn_success :: bool
  cn_idempotent :: bool

definition complete_payment :: "string \<Rightarrow> string \<Rightarrow> transaction \<Rightarrow> transaction" where
  "complete_payment paymentId signature x =
     x\<lparr>x_razorpayPaymentId := Some paymentId, x_razorpaySignature := Some signature,
       x_status := TxCompleted\<rparr>"

definition payment_notice :: "oid \<Rightarrow> string \<Rightarrow> string \<Rightarrow> notify_params" where
  "payment_notice usr title body =
     \<lparr> np_userId = usr, np_title = title, np_body = body, np_type = ''payment'', np_metadata = None \<rparr>"

definition deposit_event :: "oid \<Rightarrow> oid \<Rightarrow> trip \<Rightarrow> string \<Rightarrow> outbox_input" where
  "deposit_event tid usr t paymentId =
     event_input topic_trip trip_updated ''trip'' tid (JObj
       [(''tripId'', JStr tid), (''carrierId'', JStr usr), (''status'', JStr (trip_status_str (t_status t))),
        (''safetyDepositPaid'', JBool True), (''safetyDepositTransactionId'', JStr paymentId),
        (''updates'', JObj [(''safetyDepositPaid'', JBool True)])])"

definition announce_deposit :: "world \<Rightarrow> oid \<Rightarrow> oid \<Rightarrow> trip \<Rightarrow> string \<Rightarrow> db \<Rightarrow> db" where
  "announce_deposit W tid usr t paymentId s =
     emitToUser W usr ''payment:status''
       (JObj [(''status'', JStr ''success''), (''type'', JStr ''safety_deposit''), (''tripId'', JStr tid)])
       (notifyUser W (payment_notice usr ''Safety Deposit Locked''
            ''Your safety deposit is held in escrow for this trip.'')
         (appendOutboxEvents W [deposit_event tid usr t paymentId] s))"

definition payment_tx :: "transaction_type \<Rightarrow> oid \<Rightarrow> string \<Rightarrow> transaction \<Rightarrow> bool" where
  "payment_tx ty usr orderId x =
     (x_razorpayOrderId x = Some orderId \<and> x_user x = usr \<and> x_type x = ty)"

definition mark_deposit_paid :: "string \<Rightarrow> trip \<Rightarrow> trip" where
  "mark_deposit_paid paymentId t =
     t\<lparr>t_safetyDepositPaid := True, t_safetyDepositTransactionId := Some paymentId\<rparr>"

definition confirmTripDeposit ::
  "world \<Rightarrow> oid \<Rightarrow> oid \<Rightarrow> string \<Rightarrow> string \<Rightarrow> string \<Rightarrow> (db, confirmation) handler" where
  "confirmTripDeposit W tid usr orderId paymentId signature =
     bindM (requireM (\<lambda>s. findById (trips s) tid) (ApiError 404 ''Trip not found'')) (\<lambda>t.
     thenM (unlessM (t_carrier t = usr) (ApiError 403 ''Forbidden''))
     (thenM (unlessM (verifySignature W orderId paymentId signature)
               (ApiError 400 ''Invalid payment signature''))
     (bindM (requireM (\<lambda>s. findOne (payment_tx SafetyDeposit usr orderId) (transactions s))
               (ApiError 404 ''Deposit transaction not found'')) (\<lambda>(k, x).
      if x_status x = TxCompleted \<and> t_safetyDepositPaid t
      then retM \<lparr> cn_success = True, cn_idempotent = True \<rparr>
      else
        thenM (modM (save_transaction k (complete_payment paymentId signature x)))
        (thenM (modM (update_user usr (inc_escrow (x_amount x))))
        (thenM (modM (update_trip tid (mark_deposit_paid paymentId)))
        (thenM (modM (announce_deposit W tid usr t paymentId))
        (retM \<lparr> cn_success = True, cn_idempotent = False \<rparr>))))))))"

section \<open>The payment of a delivery\<close>

definition createDeliveryOrder :: "world \<Rightarrow> oid \<Rightarrow> oid \<Rightarrow> (db, order_result) handler" where
  "createDeliveryOrder W rid usr =
     bindM (requireM (\<lambda>s. findById (requests s) rid) (ApiError 404 ''Delivery request not found'')) (\<lambda>r.
     thenM (unlessM (r_sender r = usr) (ApiError 403 ''Forbidden''))
     (if r_paymentStatus r = Paid \<and> truthy_str (r_paymentOrderId r)
      then retM \<lparr> or_alreadyPaid = True, or_orderId = r_paymentOrderId r, or_amount = r_totalCharge r \<rparr>
      else if truthy_str (r_paymentOrderId r) \<and> r_paymentStatus r = Unpaid
      then retM \<lparr> or_alreadyPaid = False, or_orderId = r_paymentOrderId r, or_amount = r_totalCharge r \<rparr>
      else
        (let amount = num_or (r_totalCharge r)
               (js_round (jmul (jmul (p_weightKg (r_package r)) 100) 100))
         in bindM (createOrder W amount (''delivery_'' @ rid)) (\<lambda>order.
            thenM (modM (update_request rid
                (\<lambda>r. r\<lparr>r_paymentOrderId := Some (ro_id order), r_totalCharge := Some amount\<rparr>)))
            (thenM (modM (\<lambda>s. create_transaction W (with_order (ro_id order)
                (new_transaction usr None DeliveryPayment amount TxInitiated (''delivery:'' @ rid)
                  (clock s))) s))
            (retM \<lparr> or_alreadyPaid = False, or_orderId = Some (ro_id order), or_amount = Some amount \<rparr>))))))"

definition has_hold :: "oid \<Rightarrow> transaction \<Rightarrow> bool" where
  "has_hold mid x = (x_match x = Some mid \<and> x_type x = EscrowHold)"

text \<open>The sender's money goes into escrow for the match, unless it has a hold already.\<close>

definition hold_once :: "world \<Rightarrow> oid option \<Rightarrow> int \<Rightarrow> (db, unit) handler" where
  "hold_once W match_id amount =
     (case match_id of None \<Rightarrow> retM ()
      | Some mid \<Rightarrow> bindM (readM (\<lambda>s. existsDoc (has_hold mid) (transactions s))) (\<lambda>existing.
          whenM (\<not> existing) (holdFunds W mid amount SenderPayment)))"

definition paid_event :: "oid \<Rightarrow> oid \<Rightarrow> int \<Rightarrow> string \<Rightarrow> string \<Rightarrow> outbox_input" where
  "paid_event rid usr charge orderId paymentId =
     event_input topic_payment delivery_paid ''delivery_request'' rid (JObj
       [(''requestId'', JStr rid), (''userId'', JStr usr), (''paymentStatus'', JStr ''paid''),
        (''totalCharge'', JInt charge), (''razorpayOrderId'', JStr orderId),
        (''razorpayPaymentId'', JStr paymentId)])"

definition announce_payment :: "world \<Rightarrow> oid \<Rightarrow> oid \<Rightarrow> int \<Rightarrow> string \<Rightarrow> string \<Rightarrow> db \<Rightarrow> db" where
  "announce_payment W rid usr charge orderId paymentId s =
     appendOutboxEvents W [paid_event rid usr charge orderId paymentId]
       (emitToUser W usr ''payment:status''
         (JObj [(''status'', JStr ''success''), (''type'', JStr ''delivery_payment''), (''requestId'', JStr rid)])
         (notifyUser W (payment_notice usr ''Payment Confirmed''
            ''Your delivery payment is now secured in escrow.'') s))"

definition set_payment_status :: "payment_status \<Rightarrow> delivery_request \<Rightarrow> delivery_request" where
  "set_payment_status p r = r\<lparr>r_paymentStatus := p\<rparr>"

definition confirmDeliveryPayment ::
  "world \<Rightarrow> oid \<Rightarrow> oid \<Rightarrow> string \<Rightarrow> string \<Rightarrow> string \<Rightarrow> (db, confirmation) handler" where
  "confirmDeliveryPayment W rid usr orderId paymentId signature =
     bindM (requireM (\<lambda>s. findById (requests s) rid) (ApiError 404 ''Delivery request not found'')) (\<lambda>r.
     thenM (unlessM (r_sender r = usr) (ApiError 403 ''Forbidden''))
     (thenM (unlessM (verifySignature W orderId paymentId signature)
               (ApiError 400 ''Invalid payment signature''))
     (if r_paymentStatus r = Paid then retM \<lparr> cn_success = True, cn_idempotent = True \<rparr>
      else
        bindM (requireM (\<lambda>s. findOne (payment_tx DeliveryPayment usr orderId) (transactions s))
                 (ApiError 404 ''Delivery payment transaction not found'')) (\<lambda>(k, x).
        let charge = num_or (r_totalCharge r) (x_amount x) in
        thenM (modM (save_transaction k (complete_payment paymentId signature x)))
        (thenM (modM (update_request rid (set_payment_status Paid)))
        (thenM (hold_once W (r_match r) charge)
        (thenM (modM (announce_payment W rid usr charge orderId paymentId))
        (retM \<lparr> cn_success = True, cn_idempotent = False \<rparr>))))))))"

definition getTransactions :: "oid \<Rightarrow> db \<Rightarrow> (oid \<times> transaction) list" where
  "getTransactions usr s =
     sort_key (\<lambda>p. - x_createdAt (snd p)) (findAll (\<lambda>x. x_user x = usr) (transactions s))"

section \<open>The webhook\<close>

text \<open>
  \<open>parse\<close> is JSON.parse (nothing when it throws); the payment entity is
  \<open>payload.payload.payment.entity\<close>.
\<close>

definition js_text :: "json \<Rightarrow> string" where
  "js_text j = (case j of JStr t \<Rightarrow> t | _ \<Rightarrow> [])"

definition process_webhook :: "string \<Rightarrow> string \<Rightarrow> json \<Rightarrow> db \<Rightarrow> db" where
  "process_webhook event paymentId orderId s =
     (let s1 = (if event = ''payment.captured'' \<and> truthy orderId
           then (case findOne (\<lambda>x. x_razorpayOrderId x = Some (js_text orderId)) (transactions s) of
                   None \<Rightarrow> s
                 | Some (k, x) \<Rightarrow> save_transaction k
                     (x\<lparr>x_razorpayPaymentId := Some paymentId, x_status := TxCompleted\<rparr>) s)
           else s)
      in if event = ''payment.failed'' \<and> truthy orderId
         then (case findOne (\<lambda>x. x_razorpayOrderId x = Some (js_text orderId)) (transactions s1) of
                 None \<Rightarrow> s1
               | Some (k, x) \<Rightarrow> save_transaction k (x\<lparr>x_status := TxFailed\<rparr>) s1)
         else s1)"

datatype webhook_answer = Received | ReceivedIdempotent

definition handleWebhook ::
  "world \<Rightarrow> (string \<Rightarrow> json option) \<Rightarrow> string \<Rightarrow> string option \<Rightarrow> (db, webhook_answer) handler" where
  "handleWebhook W parse body signature =
     (if \<not> truthy_str signature then throwM (ApiError 400 ''Missing webhook signature'')
      else if hmacSha256Hex W (RAZORPAY_WEBHOOK_SECRET W) body \<noteq> the signature
      then throwM (ApiError 400 ''Invalid webhook signature'')
      else case parse body of
        None \<Rightarrow> throwM (LibError ''SyntaxError'')
      | Some payload \<Rightarrow>
          (let event = js_text (jget payload ''event'');
               entity = jget (jget (jget payload ''payload'') ''payment'') ''entity'';
               paymentId = jget entity ''id'';
               orderId = jget entity ''order_id''
           in if \<not> truthy paymentId then retM Received
              else bindM (readM (\<lambda>s. existsDoc (\<lambda>p. pw_eventId p = js_text paymentId) (webhooks s))) (\<lambda>seen.
                if seen then retM ReceivedIdempotent
                else
                  thenM (modM (\<lambda>s. next_draw (s\<lparr>webhooks := webhooks s @ [(newId W (draws s),
                     \<lparr> pw_eventId = js_text paymentId, pw_event = event,
                       pw_orderId = (if truthy orderId then js_text orderId else ''unknown''),
                       pw_processedAt = clock s \<rparr>)]\<rparr>)))
                  (thenM (modM (process_webhook event (js_text paymentId) orderId))
                  (retM Received)))))"

section \<open>Facts\<close>

lemma announce_payment_frames [simp]:
  "users (announce_deposit W tid usr t pid s) = users s" "users (announce_payment W rid usr n o' p' s) = users s"
  "trips (announce_deposit W tid usr t pid s) = trips s" "trips (announce_payment W rid usr n o' p' s) = trips s"
  "requests (announce_deposit W tid usr t pid s) = requests s"
  "requests (announce_payment W rid usr n o' p' s) = requests s"
  "matches (announce_deposit W tid usr t pid s) = matches s"
  "matches (announce_payment W rid usr n o' p' s) = matches s"
  "transactions (announce_deposit W tid usr t pid s) = transactions s"
  "transactions (announce_payment W rid usr n o' p' s) = transactions s"
  "redis (announce_deposit W tid usr t pid s) = redis s" "redis (announce_payment W rid usr n o' p' s) = redis s"
  by (simp_all add: announce_deposit_def announce_payment_def)

lemma findOne_saveDoc_kept:
  assumes "findOne P c = Some (k, x)" and "P x'"
  shows "findOne P (saveDoc k x' c) = Some (k, x')"
  using assms
proof (induction c)
  case Nil
  then show ?case by simp
next
  case (Cons p c)
  obtain j y where p: "p = (j, y)" by fastforce
  show ?case
  proof (cases "P y")
    case True
    with Cons.prems p show ?thesis by simp
  next
    case False
    with Cons p show ?thesis by (cases "j = k") simp_all
  qed
qed

lemma payment_tx_completed [simp]:
  "payment_tx ty usr o' (complete_payment p sg x) = payment_tx ty usr o' x"
  by (simp add: payment_tx_def complete_payment_def)

lemma complete_payment_simps [simp]:
  "x_amount (complete_payment p sg x) = x_amount x"
  "x_status (complete_payment p sg x) = TxCompleted"
  by (simp_all add: complete_payment_def)

text \<open>The whole effect of a first confirmation of a trip's deposit.\<close>

lemma confirmTripDeposit_new:
  assumes "findById (trips s) tid = Some t" and "t_carrier t = usr"
    and "verifySignature W o' p sg"
    and "findOne (payment_tx SafetyDeposit usr o') (transactions s) = Some (k, x)"
    and "\<not> (x_status x = TxCompleted \<and> t_safetyDepositPaid t)"
  shows "\<exists>s'. confirmTripDeposit W tid usr o' p sg s = (Inr \<lparr> cn_success = True, cn_idempotent = False \<rparr>, s') \<and>
     users s' = findByIdAndUpdate usr (inc_escrow (x_amount x)) (users s) \<and>
     trips s' = findByIdAndUpdate tid (mark_deposit_paid p) (trips s) \<and>
     transactions s' = saveDoc k (complete_payment p sg x) (transactions s)"
  using assms by (simp add: confirmTripDeposit_def run_simps)

lemma confirmTripDeposit_again:
  assumes "findById (trips s) tid = Some t" and "t_carrier t = usr" and "verifySignature W o' p sg"
    and "findOne (payment_tx SafetyDeposit usr o') (transactions s) = Some (k, x)"
    and "x_status x = TxCompleted" "t_safetyDepositPaid t"
  shows "confirmTripDeposit W tid usr o' p sg s = (Inr \<lparr> cn_success = True, cn_idempotent = True \<rparr>, s)"
  using assms by (simp add: confirmTripDeposit_def run_simps)

text \<open>The confirmation does not check for which trip the order was made.\<close>

lemma confirmTripDeposit_replay:
  assumes "findById (trips s) a = Some ta" "findById (trips s) b = Some tb" "a \<noteq> b"
    and "t_carrier ta = usr" "t_carrier tb = usr" "\<not> t_safetyDepositPaid ta" "\<not> t_safetyDepositPaid tb"
    and "verifySignature W o' p sg"
    and "findOne (payment_tx SafetyDeposit usr o') (transactions s) = Some (k, x)"
    and "findById (users s) usr = Some u"
  shows "\<exists>s1 s2. confirmTripDeposit W a usr o' p sg s = (Inr \<lparr> cn_success = True, cn_idempotent = False \<rparr>, s1) \<and>
     confirmTripDeposit W b usr o' p sg s1 = (Inr \<lparr> cn_success = True, cn_idempotent = False \<rparr>, s2) \<and>
     findById (users s2) usr = Some (u\<lparr>u_escrowHeld := u_escrowHeld u + x_amount x + x_amount x\<rparr>) \<and>
     length (transactions s2) = length (transactions s)"
proof -
  have len: "length (saveDoc k y (transactions s)) = length (transactions s)" for y
  proof -
    have "\<exists>y'. findById (transactions s) k = Some y'"
      using assms(9) by (auto dest!: findOne_SomeD simp: findById_def dest: weak_map_of_SomeI)
    then have "map fst (saveDoc k y (transactions s)) = map fst (transactions s)"
      by (auto intro: saveDoc_keys_present)
    from arg_cong [OF this, of length] show ?thesis by simp
  qed
  obtain s1 where 1: "confirmTripDeposit W a usr o' p sg s = (Inr \<lparr> cn_success = True, cn_idempotent = False \<rparr>, s1)"
    and u1: "users s1 = findByIdAndUpdate usr (inc_escrow (x_amount x)) (users s)"
    and t1: "trips s1 = findByIdAndUpdate a (mark_deposit_paid p) (trips s)"
    and x1: "transactions s1 = saveDoc k (complete_payment p sg x) (transactions s)"
    using confirmTripDeposit_new [OF assms(1,4,8,9)] assms(6) by blast
  have tb: "findById (trips s1) b = Some tb" using assms(2,3) t1 by simp
  have P: "payment_tx SafetyDeposit usr o' x" using assms(9) findOne_SomeD by fastforce
  have f1: "findOne (payment_tx SafetyDeposit usr o') (transactions s1) = Some (k, complete_payment p sg x)"
    unfolding x1 by (rule findOne_saveDoc_kept [OF assms(9)]) (simp add: P)
  obtain s2 where 2: "confirmTripDeposit W b usr o' p sg s1 = (Inr \<lparr> cn_success = True, cn_idempotent = False \<rparr>, s2)"
    and u2: "users s2 = findByIdAndUpdate usr (inc_escrow (x_amount x)) (users s1)"
    and x2: "transactions s2 = saveDoc k (complete_payment p sg (complete_payment p sg x)) (transactions s1)"
    using confirmTripDeposit_new [OF tb assms(5,8) f1] assms(7) by auto
  have "findById (users s2) usr = Some (u\<lparr>u_escrowHeld := u_escrowHeld u + x_amount x + x_amount x\<rparr>)"
    using assms(10) by (simp add: u2 u1 inc_escrow_def)
  with 1 2 show ?thesis by (auto simp: x2 x1 len)
qed

text \<open>A forged signature changes nothing.\<close>

lemma confirmations_need_signature:
  assumes "\<not> verifySignature W o' p sg"
  shows "snd (confirmTripDeposit W tid usr o' p sg s) = s"
    and "snd (confirmDeliveryPayment W rid usr o' p sg s) = s"
  using assms
  by (simp_all add: confirmTripDeposit_def confirmDeliveryPayment_def run_simps split: option.split)

text \<open>The effect of a delivery payment on the request, the ledger and the escrow.\<close>

lemma confirmDeliveryPayment_new:
  assumes "findById (requests s) rid = Some r" and "r_sender r = usr" and "verifySignature W o' p sg"
    and "r_paymentStatus r \<noteq> Paid"
    and "findOne (payment_tx DeliveryPayment usr o') (transactions s) = Some (k, x)"
    and "tx_succeeds W" and "r_match r = Some mid" and "findById (matches s) mid = Some mat"
    and "\<not> existsDoc (has_hold mid) (saveDoc k (complete_payment p sg x) (transactions s))"
  shows "\<exists>s' h. confirmDeliveryPayment W rid usr o' p sg s =
        (Inr \<lparr> cn_success = True, cn_idempotent = False \<rparr>, s') \<and>
     findById (requests s') rid = Some (r\<lparr>r_paymentStatus := Paid\<rparr>) \<and>
     users s' = findByIdAndUpdate (m_sender mat) (inc_escrow (num_or (r_totalCharge r) (x_amount x))) (users s) \<and>
     transactions s' = saveDoc k (complete_payment p sg x) (transactions s) @ [h] \<and>
     has_hold mid (snd h) \<and> x_amount (snd h) = num_or (r_totalCharge r) (x_amount x)"
proof -
  let ?n = "num_or (r_totalCharge r) (x_amount x)"
  let ?s1 = "update_request rid (set_payment_status Paid) (save_transaction k (complete_payment p sg x) s)"
  have "holdFunds W mid ?n SenderPayment ?s1 =
      (Inr (), hold_effect W (m_sender mat) mid ?n SenderPayment ?s1)"
    using holdFunds_succeeds [OF assms(6), of ?s1 mid mat ?n SenderPayment] assms(8) by simp
  then show ?thesis
    using assms
    by (simp add: confirmDeliveryPayment_def hold_once_def run_simps Let_def)
       (simp add: hold_effect_def has_hold_def new_transaction_def set_payment_status_def)
qed

text \<open>The ledger never gets a payout from a payment, so no match is paid out by one.\<close>

lemma paid_once_save:
  assumes "paid_once s" "findById (transactions s) k = Some x"
    and "\<And>mid. completed_payout mid y \<Longrightarrow> completed_payout mid x"
  shows "paid_once (save_transaction k y s)"
proof -
  have le: "countDocuments P (saveDoc k y c) \<le> countDocuments P c"
    if "findById c k = Some x" "P y \<Longrightarrow> P x" for P and c :: "transaction coll"
    using that(1) by (induction c) (auto split: if_splits dest: that(2))
  have "countDocuments (completed_payout m) (saveDoc k y (transactions s)) \<le> 1" for m
  proof -
    have "countDocuments (completed_payout m) (saveDoc k y (transactions s)) \<le>
        countDocuments (completed_payout m) (transactions s)"
      by (rule le [OF assms(2)]) (rule assms(3))
    also have "\<dots> \<le> 1" using assms(1) by (simp add: paid_once_def)
    finally show ?thesis .
  qed
  then show ?thesis by (simp add: paid_once_def)
qed

text \<open>A webhook is processed once per payment id.\<close>

lemma handleWebhook_repeated:
  assumes "existsDoc (\<lambda>p. pw_eventId p = js_text (jget (jget (jget (jget pl ''payload'') ''payment'') ''entity'') ''id'')) (webhooks s)"
    and "parse body = Some pl" and "truthy_str sg"
    and "hmacSha256Hex W (RAZORPAY_WEBHOOK_SECRET W) body = the sg"
    and "truthy (jget (jget (jget (jget pl ''payload'') ''payment'') ''entity'') ''id'')"
  shows "handleWebhook W parse body sg s = (Inr ReceivedIdempotent, s)"
  using assms by (simp add: handleWebhook_def run_simps Let_def)

end
