(* ===== verification/Users.thy ===== *)
theory Users
  imports Payments
begin

text \<open>
  \<open>services/user.service.ts\<close>: the profile of a user, the verification of identity documents, the
  payout method and the preferences of a carrier, the wallet, and the deactivation of an account.
  AES is the parameter \<open>aes256cbcHex\<close>; the message texts of the answers are left out.
\<close>

section \<open>Strings\<close>

text \<open>\<open>s.slice(-n)\<close>.\<close>

definition slice_last :: "nat \<Rightarrow> string \<Rightarrow> string" where
  "slice_last n s = drop (length s - n) s"

definition is_digit :: "char \<Rightarrow> bool" where
  "is_digit c = (48 \<le> char_code c \<and> char_code c \<le> 57)"

lemma length_slice_last [simp]: "length (slice_last n s) = min n (length s)"
  by (simp add: slice_last_def)

definition encryptLast4 :: "world \<Rightarrow> string \<Rightarrow> string" where
  "encryptLast4 W v = aes256cbcHex W (JWT_ACCESS_SECRET W) v"

section \<open>Profile\<close>

definition user_missing :: js_error where
  "user_missing = ApiError 404 ''User not found''"

definition find_user :: "oid \<Rightarrow> (db, user) handler" where
  "find_user usr = requireM (\<lambda>s. findById (users s) usr) user_missing"

text \<open>\<open>select('-refreshTokenHash')\<close>.\<close>

definition without_refresh :: "user \<Rightarrow> user" where
  "without_refresh u = u\<lparr>u_refreshTokenHash := None\<rparr>"

definition getMyProfile :: "oid \<Rightarrow> (db, user) handler" where
  "getMyProfile usr = bindM (find_user usr) (\<lambda>u. retM (without_refresh u))"

text \<open>The update of one field: only a string is taken, trimmed (and lower-cased for the email).\<close>

definition text_update :: "json \<Rightarrow> (string \<Rightarrow> string) \<Rightarrow> string option" where
  "text_update v f = (case v of JStr t \<Rightarrow> Some (f t) | _ \<Rightarrow> None)"

definition put_profile :: "json \<Rightarrow> user \<Rightarrow> user" where
  "put_profile payload u =
     u\<lparr>u_name := (case text_update (jget payload ''name'') trim of None \<Rightarrow> u_name u | Some n \<Rightarrow> n),
       u_email := (case text_update (jget payload ''email'') (\<lambda>t. toLowerCase (trim t)) of
                     None \<Rightarrow> u_email u | Some e \<Rightarrow> e),
       u_profilePhoto := (case text_update (jget payload ''profilePhoto'') trim of
                     None \<Rightarrow> u_profilePhoto u | Some p \<Rightarrow> Some p)\<rparr>"

text \<open>
  \<open>runValidators\<close> refuses an empty name or email (both are required); the unique index refuses
  an email that another user has.
\<close>

definition email_taken :: js_error where
  "email_taken = MongoError 11000 ''E11000 duplicate key error'' []"

definition other_has_email :: "oid \<Rightarrow> string \<Rightarrow> db \<Rightarrow> bool" where
  "other_has_email usr e s = list_ex (\<lambda>(k, u). k \<noteq> usr \<and> u_email u = e) (users s)"

definition updateMyProfile :: "oid \<Rightarrow> json \<Rightarrow> (db, user) handler" where
  "updateMyProfile usr payload s =
     (case findById (users s) usr of
        None \<Rightarrow>
          if text_update (jget payload ''name'') trim = Some []
             \<or> text_update (jget payload ''email'') (\<lambda>t. toLowerCase (trim t)) = Some []
          then (Inl (LibError ''ValidationError''), s)
          else (Inl user_missing, s)
      | Some u \<Rightarrow>
          (let u' = put_profile payload u
           in if text_update (jget payload ''name'') trim = Some []
                 \<or> text_update (jget payload ''email'') (\<lambda>t. toLowerCase (trim t)) = Some []
              then (Inl (LibError ''ValidationError''), s)
              else if text_update (jget payload ''email'') (\<lambda>t. toLowerCase (trim t)) \<noteq> None
                   \<and> other_has_email usr (u_email u') s
              then (Inl email_taken, s)
              else (Inr (without_refresh u'), save_user usr u' s)))"

section \<open>Identity documents\<close>

text \<open>
  In \<open>findByIdAndUpdate\<close> a field whose value is \<open>undefined\<close> is not part of the update.
\<close>

definition put_government_id :: "world \<Rightarrow> government_id \<Rightarrow> string \<Rightarrow> user \<Rightarrow> user" where
  "put_government_id W ty number u =
     u\<lparr>u_governmentIdVerified := True, u_governmentIdType := Some ty,
       u_governmentIdLast4 := Some (encryptLast4 W (slice_last 4 number)),
       u_aadhaarVerified := (if ty = Aadhaar then True else u_aadhaarVerified u),
       u_aadhaarMasked := (if ty = Aadhaar then Some (''XXXXXXXX'' @ slice_last 4 number)
                           else u_aadhaarMasked u),
       u_kycTier := Tier2Verified\<rparr>"

definition verifyGovernmentId :: "world \<Rightarrow> oid \<Rightarrow> government_id \<Rightarrow> string \<Rightarrow> (db, user) handler" where
  "verifyGovernmentId W usr ty number =
     bindM (find_user usr) (\<lambda>u.
     thenM (modM (update_user usr (put_government_id W ty number)))
     (retM (without_refresh (put_government_id W ty number u))))"

definition add_role :: "role \<Rightarrow> user \<Rightarrow> user" where
  "add_role r u = (if r \<in> set (u_role u) then u else u\<lparr>u_role := u_role u @ [r]\<rparr>)"

definition has_payout :: "user \<Rightarrow> bool" where
  "has_payout u = (truthy_str (u_payoutUpi u) \<or> pb_verified (u_payoutBank u))"

definition has_identity :: "user \<Rightarrow> bool" where
  "has_identity u = (u_aadhaarVerified u \<or> u_governmentIdVerified u)"

definition put_aadhaar :: "world \<Rightarrow> string \<Rightarrow> user \<Rightarrow> user" where
  "put_aadhaar W number u =
     add_role CarrierRole
       (u\<lparr>u_governmentIdVerified := True, u_governmentIdType := Some Aadhaar,
          u_governmentIdLast4 := Some (encryptLast4 W (slice_last 4 number)),
          u_aadhaarVerified := True, u_aadhaarMasked := Some (''XXXX-XXXX-'' @ slice_last 4 number),
          u_kycTier := (if has_payout u then Tier3Pro else Tier2Verified)\<rparr>)"

record aadhaar_result =
  ar_aadhaarMasked :: string
  ar_kycTier :: kyc_tier
  ar_verifiedAt :: int

definition valid_aadhaar :: "string \<Rightarrow> bool" where
  "valid_aadhaar n = (length n = 12 \<and> list_all is_digit n)"

definition verifyCarrierAadhaarDigiLocker :: "world \<Rightarrow> oid \<Rightarrow> string \<Rightarrow> (db, aadhaar_result) handler" where
  "verifyCarrierAadhaarDigiLocker W usr aadhaarNumber =
     (let cleanNumber = filter (\<lambda>c. \<not> is_space c) aadhaarNumber in
      thenM (unlessM (valid_aadhaar cleanNumber) (ApiError 400 ''Invalid 12-digit Aadhaar number format''))
      (bindM (find_user usr) (\<lambda>u.
       let u' = put_aadhaar W cleanNumber u in
       thenM (modM (save_user usr u'))
       (bindM (readM clock) (\<lambda>now.
        retM \<lparr> ar_aadhaarMasked = ''XXXX-XXXX-'' @ slice_last 4 cleanNumber, ar_kycTier = u_kycTier u',
               ar_verifiedAt = now \<rparr>)))))"

section \<open>Payout method\<close>

record payout_payload =
  pm_method :: string
  pm_upiId :: "string option"
  pm_accountNumber :: "string option"
  pm_ifsc :: "string option"
  pm_holderName :: "string option"

record payout_result =
  pr_payoutUpi :: "string option"
  pr_payoutBank :: payout_bank
  pr_kycTier :: kyc_tier

definition bank_of :: "payout_payload \<Rightarrow> user \<Rightarrow> payout_bank" where
  "bank_of p u =
     \<lparr> pb_accountNumberMasked = Some (''XXXX'' @ slice_last 4 (the (pm_accountNumber p))),
       pb_ifsc = Some (trim (toUpperCase (the (pm_ifsc p)))), pb_verified = True,
       pb_holderName = Some (str_or (map_option trim (pm_holderName p)) (u_name u)) \<rparr>"

definition put_payout :: "payout_payload \<Rightarrow> user \<Rightarrow> js_error + user" where
  "put_payout p u =
     (if pm_method p = ''upi'' then
        if \<not> truthy_str (pm_upiId p) \<or> CHR ''@'' \<notin> set (the (pm_upiId p))
        then Inl (ApiError 400 ''Invalid UPI ID format (e.g. user@okhdfcbank)'')
        else Inr (u\<lparr>u_payoutUpi := Some (toLowerCase (trim (the (pm_upiId p))))\<rparr>)
      else if pm_method p = ''bank'' then
        if \<not> truthy_str (pm_accountNumber p) \<or> \<not> truthy_str (pm_ifsc p)
        then Inl (ApiError 400 ''Bank account number and IFSC are required'')
        else Inr (u\<lparr>u_payoutBank := bank_of p u\<rparr>)
      else Inr u)"

definition raise_tier :: "user \<Rightarrow> user" where
  "raise_tier u = (if has_identity u then u\<lparr>u_kycTier := Tier3Pro\<rparr> else u)"

definition saveCarrierPayoutMethod :: "oid \<Rightarrow> payout_payload \<Rightarrow> (db, payout_result) handler" where
  "saveCarrierPayoutMethod usr p =
     bindM (find_user usr) (\<lambda>u.
     case put_payout p u of
       Inl e \<Rightarrow> throwM e
     | Inr u1 \<Rightarrow>
         (let u' = raise_tier u1 in
          thenM (modM (save_user usr u'))
          (retM \<lparr> pr_payoutUpi = u_payoutUpi u', pr_payoutBank = u_payoutBank u',
                  pr_kycTier = u_kycTier u' \<rparr>)))"

section \<open>Preferences\<close>

fun only_strings :: "json list \<Rightarrow> string list" where
  "only_strings [] = []"
| "only_strings (JStr t # vs) = t # only_strings vs"
| "only_strings (_ # vs) = only_strings vs"

definition pref_list :: "json \<Rightarrow> string list \<Rightarrow> string list" where
  "pref_list v old = (case v of JArr vs \<Rightarrow> only_strings vs | _ \<Rightarrow> old)"

definition pref_text :: "nat \<Rightarrow> json \<Rightarrow> string option \<Rightarrow> string option" where
  "pref_text n v old = (case v of JStr t \<Rightarrow> Some (take n t) | _ \<Rightarrow> old)"

definition put_preferences :: "json \<Rightarrow> carrier_preferences \<Rightarrow> carrier_preferences" where
  "put_preferences p old =
     \<lparr> cp_preferredModes = pref_list (jget p ''preferredModes'') (cp_preferredModes old),
       cp_maxCapacityKg = (case jget p ''maxCapacityKg'' of
          JNum n \<Rightarrow> if 0 < n then n else if cp_maxCapacityKg old = 0 then 10 else cp_maxCapacityKg old
        | _ \<Rightarrow> if cp_maxCapacityKg old = 0 then 10 else cp_maxCapacityKg old),
       cp_allowedCategories = pref_list (jget p ''allowedCategories'') (cp_allowedCategories old),
       cp_instantBooking = (case jget p ''instantBooking'' of JBool b \<Rightarrow> b | _ \<Rightarrow> cp_instantBooking old),
       cp_bio = pref_text 500 (jget p ''bio'') (cp_bio old),
       cp_emergencyContact = pref_text 20 (jget p ''emergencyContact'') (cp_emergencyContact old) \<rparr>"

definition saveCarrierPreferences :: "oid \<Rightarrow> json \<Rightarrow> (db, carrier_preferences) handler" where
  "saveCarrierPreferences usr p =
     bindM (find_user usr) (\<lambda>u.
     let u' = add_role CarrierRole
                (u\<lparr>u_carrierPreferences := put_preferences p (u_carrierPreferences u)\<rparr>) in
     thenM (modM (save_user usr u'))
     (retM (u_carrierPreferences u')))"

section \<open>Setup status, wallet, public profile\<close>

record setup_status =
  ss_kycTier :: kyc_tier
  ss_completionPercentage :: int
  ss_tripLimitRupees :: int
  ss_aadhaarVerified :: bool
  ss_aadhaarMasked :: "string option"
  ss_aadhaarType :: government_id
  ss_payoutConfigured :: bool
  ss_upiId :: "string option"
  ss_bank :: payout_bank
  ss_preferences :: carrier_preferences

definition has_preferences :: "user \<Rightarrow> bool" where
  "has_preferences u = (cp_preferredModes (u_carrierPreferences u) \<noteq> [])"

definition completion :: "user \<Rightarrow> int" where
  "completion u =
     25 + (if has_identity u then 35 else 0) + (if has_payout u then 25 else 0)
        + (if has_preferences u then 15 else 0)"

definition masked_id :: "user \<Rightarrow> string option" where
  "masked_id u =
     (if truthy_str (u_aadhaarMasked u) then u_aadhaarMasked u
      else if truthy_str (u_governmentIdLast4 u) then Some (''XXXXXXXX'' @ the (u_governmentIdLast4 u))
      else None)"

definition setup_of :: "user \<Rightarrow> setup_status" where
  "setup_of u =
     \<lparr> ss_kycTier = u_kycTier u, ss_completionPercentage = completion u,
       ss_tripLimitRupees = (if has_identity u then 15000 else 1000),
       ss_aadhaarVerified = has_identity u, ss_aadhaarMasked = masked_id u,
       ss_aadhaarType = (case u_governmentIdType u of None \<Rightarrow> Aadhaar | Some ty \<Rightarrow> ty),
       ss_payoutConfigured = has_payout u,
       ss_upiId = (if truthy_str (u_payoutUpi u) then u_payoutUpi u else None),
       ss_bank = u_payoutBank u, ss_preferences = u_carrierPreferences u \<rparr>"

definition getCarrierSetupStatus :: "oid \<Rightarrow> (db, setup_status) handler" where
  "getCarrierSetupStatus usr = bindM (find_user usr) (\<lambda>u. retM (setup_of u))"

record wallet_view =
  wv_balance :: int
  wv_escrowHeld :: int
  wv_transactions :: "(oid \<times> transaction) list"

definition getWallet :: "oid \<Rightarrow> (db, wallet_view) handler" where
  "getWallet usr =
     bindM (find_user usr) (\<lambda>u.
     bindM (readM (\<lambda>s. take 100 (getTransactions usr s))) (\<lambda>xs.
     retM \<lparr> wv_balance = u_balance u, wv_escrowHeld = u_escrowHeld u, wv_transactions = xs \<rparr>))"

record public_profile =
  pp_name :: string
  pp_profilePhoto :: "string option"
  pp_ratingAverage :: rat
  pp_ratingCount :: int
  pp_totalDeliveries :: int
  pp_totalTripsAsCarrier :: int
  pp_carrierPreferences :: carrier_preferences
  pp_kycTier :: kyc_tier
  pp_governmentIdVerified :: bool

definition getPublicProfile :: "oid \<Rightarrow> (db, public_profile) handler" where
  "getPublicProfile usr =
     bindM (find_user usr) (\<lambda>u. retM
       \<lparr> pp_name = u_name u, pp_profilePhoto = u_profilePhoto u, pp_ratingAverage = u_ratingAverage u,
         pp_ratingCount = u_ratingCount u, pp_totalDeliveries = u_totalDeliveries u,
         pp_totalTripsAsCarrier = u_totalTripsAsCarrier u,
         pp_carrierPreferences = u_carrierPreferences u, pp_kycTier = u_kycTier u,
         pp_governmentIdVerified = u_governmentIdVerified u \<rparr>)"

section \<open>Deactivation\<close>

text \<open>
  The list of statuses is the one of the code: \<open>accepted\<close> and \<open>confirmed\<close> are not statuses of a
  match, and \<open>carrier_accepted\<close>, \<open>sender_confirmed\<close>, \<open>pickup_pending\<close>, \<open>in_transit\<close> and
  \<open>delivery_pending\<close> are missing.
\<close>

definition account_blocking :: "match_status \<Rightarrow> bool" where
  "account_blocking st =
     (match_status_str st \<in> {''proposed'', ''accepted'', ''confirmed'', ''active'', ''picked_up''})"

definition deactivated :: "user \<Rightarrow> user" where
  "deactivated u =
     u\<lparr>u_isActive := False, u_fcmToken := None, u_refreshTokenHash := None,
       u_name := ''Deactivated User'', u_profilePhoto := None\<rparr>"

definition deleteMyAccount :: "oid \<Rightarrow> (db, unit) handler" where
  "deleteMyAccount usr =
     bindM (find_user usr) (\<lambda>u.
     thenM (unlessM (u_escrowHeld u \<le> 0) (ApiError 400
        ''Cannot deactivate account with funds held in escrow. Please complete or cancel pending transactions.''))
     (bindM (readM (\<lambda>s. countDocuments
        (\<lambda>m. (m_carrier m = usr \<or> m_sender m = usr) \<and> account_blocking (m_status m)) (matches s))) (\<lambda>n.
      thenM (unlessM (n = 0)
        (ApiError 400 ''Cannot deactivate account with active deliveries or trips in progress.''))
      (modM (save_user usr (deactivated u))))))"

lemmas user_handler_defs =
  find_user_def getMyProfile_def updateMyProfile_def verifyGovernmentId_def
  verifyCarrierAadhaarDigiLocker_def saveCarrierPayoutMethod_def saveCarrierPreferences_def
  getCarrierSetupStatus_def getWallet_def getPublicProfile_def deleteMyAccount_def

section \<open>Consistency of the tiers\<close>

text \<open>
  A carrier of the third tier has a verified identity and a payout method; one of the second
  tier has a verified identity.
\<close>

definition kyc_ok :: "user \<Rightarrow> bool" where
  "kyc_ok u = ((u_kycTier u = Tier3Pro \<longrightarrow> has_identity u \<and> has_payout u) \<and>
               (u_kycTier u = Tier2Verified \<longrightarrow> has_identity u))"

definition kyc_sound :: "db \<Rightarrow> bool" where
  "kyc_sound s = (\<forall>k u. findById (users s) k = Some u \<longrightarrow> kyc_ok u)"

lemma kyc_soundD: "kyc_sound s \<Longrightarrow> findById (users s) k = Some u \<Longrightarrow> kyc_ok u"
  by (simp add: kyc_sound_def)

lemma kyc_sound_save: "kyc_sound s \<Longrightarrow> kyc_ok u \<Longrightarrow> kyc_sound (save_user k u s)"
  by (simp add: kyc_sound_def)

lemma kyc_sound_update:
  "kyc_sound s \<Longrightarrow> (\<And>u. kyc_ok u \<Longrightarrow> kyc_ok (f u)) \<Longrightarrow> kyc_sound (update_user k f s)"
  by (auto simp: kyc_sound_def split: if_splits)

lemma kyc_ok_cong:
  assumes "u_kycTier v = u_kycTier u" "has_identity v = has_identity u" "has_payout v = has_payout u"
  shows "kyc_ok v = kyc_ok u"
  using assms by (simp add: kyc_ok_def)

lemmas kyc_field_defs = has_identity_def has_payout_def

lemma add_role_fields [simp]:
  "u_kycTier (add_role r u) = u_kycTier u" "has_identity (add_role r u) = has_identity u"
  "has_payout (add_role r u) = has_payout u" "u_refreshTokenHash (add_role r u) = u_refreshTokenHash u"
  "u_email (add_role r u) = u_email u" "u_phone (add_role r u) = u_phone u"
  "u_isActive (add_role r u) = u_isActive u"
  by (simp_all add: add_role_def kyc_field_defs)

lemma trim_mem: "c \<in> set s \<Longrightarrow> \<not> is_space c \<Longrightarrow> c \<in> set (trim s)"
proof -
  have mem: "c \<in> set (dropWhile is_space xs)" if "c \<in> set xs" "\<not> is_space c" for xs
    using that by (induction xs) auto
  assume "c \<in> set s" "\<not> is_space c"
  then show ?thesis unfolding trim_def by (simp add: mem)
qed

lemma upi_kept: "CHR ''@'' \<in> set s \<Longrightarrow> toLowerCase (trim s) \<noteq> []"
  using trim_mem [of "CHR ''@''" s] by (auto simp: is_space_def toLowerCase_def)

lemma put_payout_payout:
  assumes "put_payout p u = Inr v" "pm_method p \<in> {''upi'', ''bank''}"
  shows "has_payout v" "has_identity v = has_identity u"
  using assms by (auto simp: put_payout_def kyc_field_defs bank_of_def upi_kept split: if_splits)

lemma kyc_ok_ops:
  "kyc_ok u \<Longrightarrow> kyc_ok (put_profile p u)"
  "kyc_ok (put_government_id W ty n u)"
  "kyc_ok (put_aadhaar W n u)"
  "kyc_ok u \<Longrightarrow> kyc_ok (deactivated u)"
  "kyc_ok u \<Longrightarrow> kyc_ok (add_role r (u\<lparr>u_carrierPreferences := c\<rparr>))"
  by (auto simp: kyc_ok_def put_profile_def put_government_id_def put_aadhaar_def kyc_field_defs
      deactivated_def add_role_def)

text \<open>No operation on a profile touches the wallet.\<close>

lemma wallet_kept [simp]:
  "u_balance (put_profile p u) = u_balance u" "u_escrowHeld (put_profile p u) = u_escrowHeld u"
  "u_balance (put_government_id W ty n u) = u_balance u"
  "u_escrowHeld (put_government_id W ty n u) = u_escrowHeld u"
  "u_balance (add_role r u) = u_balance u" "u_escrowHeld (add_role r u) = u_escrowHeld u"
  "u_balance (put_aadhaar W n u) = u_balance u" "u_escrowHeld (put_aadhaar W n u) = u_escrowHeld u"
  "u_balance (raise_tier u) = u_balance u" "u_escrowHeld (raise_tier u) = u_escrowHeld u"
  "u_balance (deactivated u) = u_balance u" "u_escrowHeld (deactivated u) = u_escrowHeld u"
  by (simp_all add: put_profile_def put_government_id_def add_role_def put_aadhaar_def
      raise_tier_def deactivated_def)

lemma put_payout_wallet:
  "put_payout p u = Inr v \<Longrightarrow> u_balance v = u_balance u \<and> u_escrowHeld v = u_escrowHeld u"
  by (auto simp: put_payout_def split: if_splits)

text \<open>Only a profile update touches the contacts.\<close>

lemma contacts_kept [simp]:
  "u_email (put_government_id W ty n u) = u_email u" "u_phone (put_government_id W ty n u) = u_phone u"
  "u_email (put_aadhaar W n u) = u_email u" "u_phone (put_aadhaar W n u) = u_phone u"
  "u_email (raise_tier u) = u_email u" "u_phone (raise_tier u) = u_phone u"
  "u_email (deactivated u) = u_email u" "u_phone (deactivated u) = u_phone u"
  "u_phone (put_profile p u) = u_phone u"
  by (simp_all add: put_profile_def put_government_id_def put_aadhaar_def raise_tier_def deactivated_def)

lemma put_profile_email:
  "text_update (jget p ''email'') (\<lambda>t. toLowerCase (trim t)) = None \<Longrightarrow> u_email (put_profile p u) = u_email u"
  by (simp add: put_profile_def)

lemma put_payout_contacts: "put_payout p u = Inr v \<Longrightarrow> u_email v = u_email u \<and> u_phone v = u_phone u"
  by (auto simp: put_payout_def split: if_splits)

lemma kyc_ok_payout:
  "put_payout p u = Inr v \<Longrightarrow> pm_method p \<in> {''upi'', ''bank''} \<Longrightarrow> kyc_ok u \<Longrightarrow> kyc_ok (raise_tier v)"
  using put_payout_payout [of p u v]
  by (auto simp: kyc_ok_def raise_tier_def kyc_field_defs put_payout_def split: if_splits)

text \<open>What the operations on users can be: an operation, its user, and its run.\<close>

datatype user_op =
    UpdateProfile json
  | VerifyGovernmentId government_id string
  | VerifyAadhaar string
  | SavePayout payout_payload
  | SavePreferences json
  | DeleteAccount

fun run_user_op :: "world \<Rightarrow> oid \<Rightarrow> user_op \<Rightarrow> db \<Rightarrow> db" where
  "run_user_op W usr (UpdateProfile p) s = snd (updateMyProfile usr p s)"
| "run_user_op W usr (VerifyGovernmentId ty n) s = snd (verifyGovernmentId W usr ty n s)"
| "run_user_op W usr (VerifyAadhaar n) s = snd (verifyCarrierAadhaarDigiLocker W usr n s)"
| "run_user_op W usr (SavePayout p) s = snd (saveCarrierPayoutMethod usr p s)"
| "run_user_op W usr (SavePreferences p) s = snd (saveCarrierPreferences usr p s)"
| "run_user_op W usr DeleteAccount s = snd (deleteMyAccount usr s)"

text \<open>The validators of the routes admit the two methods of the payout schema only.\<close>

fun valid_user_op :: "user_op \<Rightarrow> bool" where
  "valid_user_op (SavePayout p) = (pm_method p \<in> {''upi'', ''bank''})"
| "valid_user_op _ = True"

text \<open>Every operation leaves the database as it is or saves one new version of its user.\<close>

lemma user_op_cases:
  assumes "run_user_op W usr op s \<noteq> s"
  obtains u v where "findById (users s) usr = Some u" "run_user_op W usr op s = save_user usr v s"
    "valid_user_op op \<Longrightarrow> kyc_ok u \<Longrightarrow> kyc_ok v"
    "u_balance v = u_balance u" "u_escrowHeld v = u_escrowHeld u" "u_phone v = u_phone u"
    "u_email v = u_email u \<or> \<not> other_has_email usr (u_email v) s"
proof (cases "findById (users s) usr")
  case None
  then have "run_user_op W usr op s = s"
    by (cases op) (simp_all add: user_handler_defs run_simps Let_def)
  with assms show ?thesis by simp
next
  case (Some u)
  have same: "update_user usr f s = save_user usr (f u) s" for f
    using Some by (simp add: update_user_def save_user_def findByIdAndUpdate_def)
  show ?thesis
  proof (cases op)
    case (UpdateProfile p)
    with Some assms show ?thesis
      by (intro that [of u "put_profile p u"])
         (auto simp: user_handler_defs Let_def kyc_ok_ops put_profile_email split: if_splits)
  next
    case (VerifyGovernmentId ty n)
    with Some assms show ?thesis
      by (intro that [of u "put_government_id W ty n u"])
         (auto simp: user_handler_defs run_simps same kyc_ok_ops)
  next
    case (VerifyAadhaar n)
    with Some assms show ?thesis
      by (intro that [of u "put_aadhaar W (filter (\<lambda>c. \<not> is_space c) n) u"])
         (auto simp: user_handler_defs run_simps Let_def kyc_ok_ops split: if_splits)
  next
    case (SavePayout p)
    with Some assms obtain v where "put_payout p u = Inr v"
      by (cases "put_payout p u") (auto simp: user_handler_defs run_simps)
    with SavePayout Some assms show ?thesis
      by (intro that [of u "raise_tier v"])
         (auto simp: user_handler_defs run_simps Let_def kyc_ok_payout dest: put_payout_wallet put_payout_contacts split: if_splits)
  next
    case (SavePreferences p)
    with Some assms show ?thesis
      by (intro that [of u "add_role CarrierRole (u\<lparr>u_carrierPreferences := put_preferences p (u_carrierPreferences u)\<rparr>)"])
         (auto simp: user_handler_defs run_simps Let_def kyc_ok_ops)
  next
    case DeleteAccount
    with Some assms show ?thesis
      by (intro that [of u "deactivated u"])
         (auto simp: user_handler_defs run_simps kyc_ok_ops split: if_splits)
  qed
qed

lemma user_op_kyc_sound: "valid_user_op op \<Longrightarrow> kyc_sound s \<Longrightarrow> kyc_sound (run_user_op W usr op s)"
  by (cases "run_user_op W usr op s = s")
     (auto elim!: user_op_cases intro!: kyc_sound_save dest: kyc_soundD)

text \<open>Completion.\<close>

lemma completion_bounds: "25 \<le> completion u \<and> completion u \<le> 100"
  by (simp add: completion_def)

lemma completion_full: "completion u = 100 \<longleftrightarrow> has_identity u \<and> has_payout u \<and> has_preferences u"
  by (simp add: completion_def)

text \<open>The deactivation looks at statuses a match in custody does not have.\<close>

lemma account_blocking_iff: "account_blocking st \<longleftrightarrow> st \<in> {Proposed, Active, PickedUp}"
  by (cases st) (simp_all add: account_blocking_def)

end
