(* ===== verification/Schemas.thy ===== *)
theory Schemas
  imports Users
begin

text \<open>
  The request schemas, \<open>validators/*.ts\<close> and those of \<open>controllers/pricing.controller.ts\<close>, and
  \<open>middleware/validate.ts\<close>.  A schema is written with zod's combinators, as data; \<open>zparse\<close> is the
  documented meaning of \<open>schema.parse\<close> for the combinators the source uses: a value, with
  defaults filled in, coercions done and unknown keys stripped, or a refusal.  The texts of the
  refusals, the regular expressions of \<open>email\<close> and \<open>url\<close> and the parsing of dates are parameters.
  Numbers are finite.
\<close>

section \<open>Conversions\<close>

text \<open>\<open>Number(s)\<close> of a text: blank is 0; a sign, digits, a fraction, an exponent; or a radix prefix.\<close>

fun digits_value :: "int \<Rightarrow> int \<Rightarrow> string \<Rightarrow> int option" where
  "digits_value base acc [] = Some acc"
| "digits_value base acc (c # cs) =
     (let k = char_code (lower_char c);
          d = (if 48 \<le> k \<and> k \<le> 57 then k - 48 else if 97 \<le> k \<and> k \<le> 122 then k - 87 else base)
      in if d < base then digits_value base (acc * base + d) cs else None)"

definition digit_run :: "string \<Rightarrow> string \<times> string" where
  "digit_run s = (takeWhile (\<lambda>c. 48 \<le> char_code c \<and> char_code c \<le> 57) s,
                  dropWhile (\<lambda>c. 48 \<le> char_code c \<and> char_code c \<le> 57) s)"

definition take_sign :: "string \<Rightarrow> int \<times> string" where
  "take_sign s = (case s of [] \<Rightarrow> (1, []) | c # r \<Rightarrow>
     if c = CHR ''-'' then (-1, r) else if c = CHR ''+'' then (1, r) else (1, s))"

definition exponent_value :: "string \<Rightarrow> int option" where
  "exponent_value s =
     (case s of [] \<Rightarrow> Some 0 | c # r \<Rightarrow>
        if lower_char c = CHR ''e''
        then (case take_sign r of (sg, ds) \<Rightarrow>
                if ds = [] then None else map_option ((*) sg) (digits_value 10 0 ds))
        else None)"

definition decimal_value :: "string \<Rightarrow> rat option" where
  "decimal_value s =
     (case take_sign s of (sg, body) \<Rightarrow>
      case digit_run body of (whole, rest) \<Rightarrow>
      case (case rest of c # r \<Rightarrow> if c = CHR ''.'' then digit_run r else ([], rest) | [] \<Rightarrow> ([], []))
        of (fr, rst) \<Rightarrow>
      if whole @ fr = [] then None
      else (case (digits_value 10 0 (whole @ fr), exponent_value rst) of
              (Some n, Some e) \<Rightarrow> Some (of_int (sg * n) * 10 powi (e - int (length fr)))
            | _ \<Rightarrow> None))"

definition text_number :: "string \<Rightarrow> rat option" where
  "text_number t =
     (let s = trim t in
      if s = [] then Some 0
      else if startsWith (toLowerCase s) ''0x'' \<and> drop 2 s \<noteq> [] then map_option of_int (digits_value 16 0 (drop 2 s))
      else if startsWith (toLowerCase s) ''0b'' \<and> drop 2 s \<noteq> [] then map_option of_int (digits_value 2 0 (drop 2 s))
      else if startsWith (toLowerCase s) ''0o'' \<and> drop 2 s \<noteq> [] then map_option of_int (digits_value 8 0 (drop 2 s))
      else decimal_value s)"

text \<open>\<open>Number(v)\<close>; \<open>None\<close> is NaN.  An array is converted through its text.\<close>

fun to_number :: "json \<Rightarrow> rat option" where
  "to_number JUndef = None"
| "to_number JNull = Some 0"
| "to_number (JBool b) = Some (if b then 1 else 0)"
| "to_number (JNum n) = Some n"
| "to_number (JDate d) = Some (of_int d)"
| "to_number (JStr t) = text_number t"
| "to_number (JArr []) = Some 0"
| "to_number (JArr [v]) =
     (case v of JUndef \<Rightarrow> Some 0 | JBool b \<Rightarrow> None | JDate d \<Rightarrow> None | _ \<Rightarrow> to_number v)"
| "to_number (JArr (v # w # vs)) = None"
| "to_number (JObj kvs) = None"

text \<open>\<open>new Date(v)\<close> of what a request can hold; a date beyond 8.64e15 ms is invalid.\<close>

definition time_clip :: "rat \<Rightarrow> int option" where
  "time_clip x = (if \<bar>x\<bar> \<le> 8640000000000000 then Some (if 0 \<le> x then \<lfloor>x\<rfloor> else \<lceil>x\<rceil>) else None)"

definition to_date :: "world \<Rightarrow> json \<Rightarrow> int option" where
  "to_date W v =
     (case v of JNull \<Rightarrow> Some 0 | JBool b \<Rightarrow> Some (if b then 1 else 0) | JNum n \<Rightarrow> time_clip n
      | JDate d \<Rightarrow> Some d | JStr t \<Rightarrow> dateParse W t | _ \<Rightarrow> None)"

section \<open>Schemas\<close>

datatype scheck = SMin nat | SMax nat | SLength nat | SEmail | SUrl | SObjectId

datatype ncheck = NInt | NPositive | NNonnegative | NMin rat | NMax rat

datatype zschema =
    ZString "scheck list"
  | ZTrimmed "scheck list"
  | ZNumber "ncheck list"
  | ZCoerceNumber "ncheck list"
  | ZCoerceDate
  | ZBoolean
  | ZEnum "string list"
  | ZTuple "zschema list"
  | ZArray zschema nat
  | ZObject "(string \<times> zschema) list"
  | ZOptional zschema
  | ZDefault zschema json
  | ZTrueText
  | ZCategoryList "string list"
  | ZEnvBool bool
  | ZBlankText "scheck list"

definition hex_digit :: "char \<Rightarrow> bool" where
  "hex_digit c = (c \<in> set ''0123456789abcdefABCDEF'')"

fun scheck_ok :: "world \<Rightarrow> scheck \<Rightarrow> string \<Rightarrow> bool" where
  "scheck_ok W (SMin n) t = (n \<le> length t)"
| "scheck_ok W (SMax n) t = (length t \<le> n)"
| "scheck_ok W (SLength n) t = (length t = n)"
| "scheck_ok W SEmail t = zodEmail W t"
| "scheck_ok W SUrl t = zodUrl W t"
| "scheck_ok W SObjectId t = (length t = 24 \<and> list_all hex_digit t)"

fun ncheck_ok :: "ncheck \<Rightarrow> rat \<Rightarrow> bool" where
  "ncheck_ok NInt x = (x = of_int \<lfloor>x\<rfloor>)"
| "ncheck_ok NPositive x = (0 < x)"
| "ncheck_ok NNonnegative x = (0 \<le> x)"
| "ncheck_ok (NMin a) x = (a \<le> x)"
| "ncheck_ok (NMax a) x = (x \<le> a)"

definition number_ok :: "ncheck list \<Rightarrow> rat \<Rightarrow> json option" where
  "number_ok cs x = (if list_all (\<lambda>c. ncheck_ok c x) cs then Some (JNum x) else None)"

definition text_ok :: "world \<Rightarrow> scheck list \<Rightarrow> string \<Rightarrow> json option" where
  "text_ok W cs t = (if list_all (\<lambda>c. scheck_ok W c t) cs then Some (JStr t) else None)"

definition is_str :: "json \<Rightarrow> bool" where
  "is_str v = (case v of JStr t \<Rightarrow> True | _ \<Rightarrow> False)"

text \<open>The transform of the list of categories: split, trim, drop the blanks.\<close>

definition category_items :: "json \<Rightarrow> string list option" where
  "category_items v =
     (case v of
        JUndef \<Rightarrow> Some [''documents'']
      | JStr t \<Rightarrow> Some (if t = [] then [''documents''] else filter (\<lambda>i. i \<noteq> []) (map trim (split_on CHR '','' t)))
      | JArr vs \<Rightarrow>
          if list_all is_str vs
          then Some (filter (\<lambda>i. i \<noteq> []) (map trim (only_strings vs))) else None
      | _ \<Rightarrow> None)"

text \<open>\<open>booleanFromEnv\<close> of \<open>config/env.ts\<close>: the preprocessing and the \<open>z.boolean()\<close> after it.\<close>

definition env_bool :: "bool \<Rightarrow> json \<Rightarrow> bool option" where
  "env_bool d v =
     (case v of
        JUndef \<Rightarrow> Some d
      | JNull \<Rightarrow> Some d
      | JBool b \<Rightarrow> Some b
      | JStr t \<Rightarrow>
          (let n = toLowerCase (trim t) in
           if t = [] then Some d
           else if n \<in> set [''true'', ''1'', ''yes'', ''on''] then Some True
           else if n \<in> set [''false'', ''0'', ''no'', ''off''] then Some False else None)
      | _ \<Rightarrow> None)"

fun zparse :: "world \<Rightarrow> zschema \<Rightarrow> json \<Rightarrow> json option"
  and zfields :: "world \<Rightarrow> (string \<times> zschema) list \<Rightarrow> json \<Rightarrow> (string \<times> json) list option"
  and zitems :: "world \<Rightarrow> zschema list \<Rightarrow> json list \<Rightarrow> json list option" where
  "zparse W (ZString cs) v = (case v of JStr t \<Rightarrow> text_ok W cs t | _ \<Rightarrow> None)"
| "zparse W (ZTrimmed cs) v = (case v of JStr t \<Rightarrow> text_ok W cs (trim t) | _ \<Rightarrow> None)"
| "zparse W (ZNumber cs) v = (case v of JNum x \<Rightarrow> number_ok cs x | _ \<Rightarrow> None)"
| "zparse W (ZCoerceNumber cs) v = (case to_number v of None \<Rightarrow> None | Some x \<Rightarrow> number_ok cs x)"
| "zparse W ZCoerceDate v = map_option JDate (to_date W v)"
| "zparse W ZBoolean v = (case v of JBool b \<Rightarrow> Some v | _ \<Rightarrow> None)"
| "zparse W (ZEnum ts) v = (case v of JStr t \<Rightarrow> if t \<in> set ts then Some v else None | _ \<Rightarrow> None)"
| "zparse W (ZTuple ss) v =
     (case v of JArr vs \<Rightarrow> if length vs = length ss then map_option JArr (zitems W ss vs) else None
      | _ \<Rightarrow> None)"
| "zparse W (ZArray s n) v =
     (case v of JArr vs \<Rightarrow>
        if n \<le> length vs then map_option JArr (those (map (zparse W s) vs)) else None
      | _ \<Rightarrow> None)"
| "zparse W (ZObject fs) v = (case v of JObj kvs \<Rightarrow> map_option JObj (zfields W fs v) | _ \<Rightarrow> None)"
| "zparse W (ZOptional s) v = (if v = JUndef then Some JUndef else zparse W s v)"
| "zparse W (ZDefault s d) v = zparse W s (if v = JUndef then d else v)"
| "zparse W ZTrueText v =
     (case v of JUndef \<Rightarrow> Some (JBool False) | JBool b \<Rightarrow> Some v
      | JStr t \<Rightarrow> Some (JBool (t = ''true'')) | _ \<Rightarrow> None)"
| "zparse W (ZCategoryList ts) v =
     (case category_items v of None \<Rightarrow> None | Some its \<Rightarrow>
        if its \<noteq> [] \<and> list_all (\<lambda>i. i \<in> set ts) its then Some (JArr (map JStr its)) else None)"
| "zparse W (ZEnvBool d) v = map_option JBool (env_bool d v)"
| "zparse W (ZBlankText cs) v =
     (if v = JUndef \<or> v = JStr [] then Some JUndef else case v of JStr t \<Rightarrow> text_ok W cs t | _ \<Rightarrow> None)"
| "zfields W [] v = Some []"
| "zfields W ((k, s) # fs) v =
     (case zparse W s (jget v k) of None \<Rightarrow> None | Some x \<Rightarrow>
        (case zfields W fs v of None \<Rightarrow> None | Some kvs \<Rightarrow>
           Some (if x = JUndef then kvs else (k, x) # kvs)))"
| "zitems W (s # ss) (v # vs) =
     (case zparse W s v of None \<Rightarrow> None | Some x \<Rightarrow> map_option ((#) x) (zitems W ss vs))"
| "zitems W _ _ = Some []"

section \<open>The type of a schema\<close>

text \<open>What a parsed value is known to be.\<close>

fun conforms :: "world \<Rightarrow> zschema \<Rightarrow> json \<Rightarrow> bool"
  and fields_conform :: "world \<Rightarrow> (string \<times> zschema) list \<Rightarrow> json \<Rightarrow> bool"
  and items_conform :: "world \<Rightarrow> zschema list \<Rightarrow> json list \<Rightarrow> bool" where
  "conforms W (ZString cs) v = (case v of JStr t \<Rightarrow> list_all (\<lambda>c. scheck_ok W c t) cs | _ \<Rightarrow> False)"
| "conforms W (ZTrimmed cs) v =
     (case v of JStr t \<Rightarrow> trim t = t \<and> list_all (\<lambda>c. scheck_ok W c t) cs | _ \<Rightarrow> False)"
| "conforms W (ZNumber cs) v = (case v of JNum x \<Rightarrow> list_all (\<lambda>c. ncheck_ok c x) cs | _ \<Rightarrow> False)"
| "conforms W (ZCoerceNumber cs) v = (case v of JNum x \<Rightarrow> list_all (\<lambda>c. ncheck_ok c x) cs | _ \<Rightarrow> False)"
| "conforms W ZCoerceDate v = (case v of JDate d \<Rightarrow> True | _ \<Rightarrow> False)"
| "conforms W ZBoolean v = (case v of JBool b \<Rightarrow> True | _ \<Rightarrow> False)"
| "conforms W (ZEnum ts) v = (case v of JStr t \<Rightarrow> t \<in> set ts | _ \<Rightarrow> False)"
| "conforms W (ZTuple ss) v =
     (case v of JArr vs \<Rightarrow> length vs = length ss \<and> items_conform W ss vs | _ \<Rightarrow> False)"
| "conforms W (ZArray s n) v =
     (case v of JArr vs \<Rightarrow> n \<le> length vs \<and> list_all (conforms W s) vs | _ \<Rightarrow> False)"
| "conforms W (ZObject fs) v =
     (case v of JObj kvs \<Rightarrow> list_all (\<lambda>(k, x). k \<in> fst ` set fs) kvs \<and> fields_conform W fs v | _ \<Rightarrow> False)"
| "conforms W (ZOptional s) v = (v = JUndef \<or> conforms W s v)"
| "conforms W (ZDefault s d) v = conforms W s v"
| "conforms W ZTrueText v = (case v of JBool b \<Rightarrow> True | _ \<Rightarrow> False)"
| "conforms W (ZCategoryList ts) v =
     (case v of JArr vs \<Rightarrow> vs \<noteq> [] \<and> list_all (\<lambda>x. x \<in> JStr ` set ts) vs | _ \<Rightarrow> False)"
| "conforms W (ZEnvBool d) v = (case v of JBool b \<Rightarrow> True | _ \<Rightarrow> False)"
| "conforms W (ZBlankText cs) v =
     (case v of JUndef \<Rightarrow> True | JStr t \<Rightarrow> t \<noteq> [] \<and> list_all (\<lambda>c. scheck_ok W c t) cs | _ \<Rightarrow> False)"
| "fields_conform W [] v = True"
| "fields_conform W ((k, s) # fs) v = (conforms W s (jget v k) \<and> fields_conform W fs v)"
| "items_conform W (s # ss) (v # vs) = (conforms W s v \<and> items_conform W ss vs)"
| "items_conform W _ _ = True"

text \<open>Only \<open>undefined\<close> parses to \<open>undefined\<close>.\<close>

fun strict :: "zschema \<Rightarrow> bool" where
  "strict (ZBlankText cs) = False"
| "strict (ZOptional s) = strict s"
| "strict (ZDefault s d) = strict s"
| "strict _ = True"

text \<open>The keys of every object of a schema are distinct and are no operators.\<close>

fun schema_ok :: "zschema \<Rightarrow> bool"
  and fields_ok :: "(string \<times> zschema) list \<Rightarrow> bool"
  and items_ok :: "zschema list \<Rightarrow> bool" where
  "schema_ok (ZObject fs) = (distinct (map fst fs) \<and> fields_ok fs)"
| "schema_ok (ZTuple ss) = items_ok ss"
| "schema_ok (ZArray s n) = schema_ok s"
| "schema_ok (ZOptional s) = schema_ok s"
| "schema_ok (ZDefault s d) = (strict s \<and> schema_ok s)"
| "schema_ok (ZCategoryList ts) = list_all (\<lambda>t. trim t = t \<and> t \<noteq> []) ts"
| "schema_ok _ = True"
| "fields_ok [] = True"
| "fields_ok ((k, s) # fs) = (\<not> operator_key k \<and> schema_ok s \<and> fields_ok fs)"
| "items_ok [] = True"
| "items_ok (s # ss) = (schema_ok s \<and> items_ok ss)"

section \<open>Parsing gives a value of the type, once and for all\<close>

lemma trim_trim [simp]: "trim (trim s) = trim s"
proof -
  have drop2: "dropWhile is_space (dropWhile is_space xs) = dropWhile is_space xs" for xs :: string
    by (induction xs) auto
  have head: "dropWhile is_space (rev (dropWhile is_space (rev xs))) = rev (dropWhile is_space (rev xs))"
    if "dropWhile is_space xs = xs" for xs :: string
  proof (cases "rev (dropWhile is_space (rev xs))")
    case (Cons c ys)
    obtain u where "rev xs = u @ dropWhile is_space (rev xs)"
      by (metis takeWhile_dropWhile_id)
    then have "xs = rev (dropWhile is_space (rev xs)) @ rev u"
      by (metis rev_append rev_rev_ident)
    with Cons obtain zs where "xs = c # zs" by auto
    with that length_dropWhile_le [of is_space zs] have "\<not> is_space c" by (auto split: if_splits)
    with Cons show ?thesis by simp
  next
    case Nil
    show ?thesis unfolding Nil by simp
  qed
  show ?thesis unfolding trim_def by (simp add: head drop2)
qed

text \<open>What each leaf does.\<close>

lemma leaf_simps [simp]:
  "text_ok W cs t = Some w \<longleftrightarrow> list_all (\<lambda>c. scheck_ok W c t) cs \<and> w = JStr t"
  "number_ok ns x = Some w \<longleftrightarrow> list_all (\<lambda>c. ncheck_ok c x) ns \<and> w = JNum x"
  by (auto simp: text_ok_def number_ok_def)

lemma zparse_JUndef: "strict s \<Longrightarrow> zparse W s v = Some JUndef \<Longrightarrow> v = JUndef"
  by (induction s arbitrary: v) (auto split: json.splits option.splits if_splits)

lemma zfields_cong:
  "(\<And>k. k \<in> fst ` set fs \<Longrightarrow> jget v k = jget w k) \<Longrightarrow> zfields W fs v = zfields W fs w"
  by (induction fs) (auto split: option.splits)

lemma fields_conform_cong:
  "(\<And>k. k \<in> fst ` set fs \<Longrightarrow> jget v k = jget w k) \<Longrightarrow> fields_conform W fs v = fields_conform W fs w"
  by (induction fs) auto

lemma zfields_Cons:
  assumes "zfields W ((k, s) # fs) v = Some kvs"
  obtains x kvs' where "zparse W s (jget v k) = Some x" "zfields W fs v = Some kvs'"
    "kvs = (if x = JUndef then kvs' else (k, x) # kvs')"
  using assms by (auto split: option.splits)

lemma zfields_keys: "zfields W fs v = Some kvs \<Longrightarrow> fst ` set kvs \<subseteq> fst ` set fs"
proof (induction fs arbitrary: kvs)
  case (Cons f fs)
  obtain k s where f: "f = (k, s)" by fastforce
  from Cons.prems [unfolded f] obtain x kvs' where "zfields W fs v = Some kvs'"
    "kvs = (if x = JUndef then kvs' else (k, x) # kvs')" by (rule zfields_Cons)
  with Cons.IH show ?case by (auto simp: f)
qed simp

lemma absent_key: "k \<notin> fst ` set kvs \<Longrightarrow> jget (JObj kvs) k = JUndef"
  by (force simp: map_of_eq_None_iff split: option.splits dest: map_of_SomeD)

lemma category_items_list: "list_all (\<lambda>t. trim t = t \<and> t \<noteq> []) its \<Longrightarrow> category_items (JArr (map JStr its)) = Some its"
proof -
  assume a: "list_all (\<lambda>t. trim t = t \<and> t \<noteq> []) its"
  have o: "only_strings (map JStr its) = its" by (induction its) auto
  have m: "map trim its = its" using a by (induction its) auto
  have "filter (\<lambda>i. i \<noteq> []) its = its" using a by (induction its) auto
  then show ?thesis by (simp add: category_items_def o m list_all_iff is_str_def)
qed

lemma those_Some: "those xs = Some ys \<longleftrightarrow> xs = map Some ys"
  by (induction xs arbitrary: ys) (auto split: option.splits simp: Cons_eq_map_conv)


lemma zparse_conforms:
  "zparse W s v = Some w \<Longrightarrow> schema_ok s \<Longrightarrow> conforms W s w"
  "zfields W fs v = Some kvs \<Longrightarrow> distinct (map fst fs) \<Longrightarrow> fields_ok fs \<Longrightarrow> fields_conform W fs (JObj kvs)"
  "zitems W ss vs = Some ws \<Longrightarrow> length vs = length ss \<Longrightarrow> items_ok ss \<Longrightarrow> length ws = length ss \<and> items_conform W ss ws"
proof (induction W s v and W fs v and W ss vs arbitrary: w and kvs and ws rule: zparse_zfields_zitems.induct)
  case (8 W ss v)
  then show ?case by (auto split: json.splits if_splits)
next
  case (9 W s n v)
  then show ?case
    by (auto split: json.splits if_splits simp: those_Some list_all_iff)
      (metis (no_types, lifting) in_set_conv_nth length_map nth_map nth_mem)+
next
  case (10 W fs v)
  then obtain kvs xs where v: "v = JObj kvs" and z: "zfields W fs v = Some xs" and w: "w = JObj xs"
    by (auto split: json.splits)
  with "10.IH" "10.prems" have "fields_conform W fs w" by simp
  moreover have "list_all (\<lambda>(k, x). k \<in> fst ` set fs) xs"
    using zfields_keys [OF z] by (simp add: list_all_iff case_prod_unfold image_subset_iff)
  ultimately show ?case by (simp add: w)
next
  case (14 W ts v)
  then show ?case
    by (auto split: json.splits option.splits if_splits simp: list_all_iff)
next
  case (18 W k s fs v)
  from "18.prems"(1) obtain x kvs' where x: "zparse W s (jget v k) = Some x" "zfields W fs v = Some kvs'"
    and kvs: "kvs = (if x = JUndef then kvs' else (k, x) # kvs')"
    by (rule zfields_Cons)
  from "18.prems" have ok: "k \<notin> fst ` set fs" "distinct (map fst fs)" "fields_ok fs" "schema_ok s" by auto
  with zfields_keys [OF x(2)] have "k \<notin> fst ` set kvs'" by auto
  then have "jget (JObj kvs) k = x" using absent_key [of k kvs'] by (auto simp: kvs)
  moreover have "fields_conform W fs (JObj kvs) = fields_conform W fs (JObj kvs')"
    using ok by (intro fields_conform_cong) (auto simp: kvs)
  ultimately show ?case using "18.IH" x ok by auto
qed (auto split: json.splits option.splits if_splits simp: trim_trim)

lemma zparse_idem:
  "zparse W s v = Some w \<Longrightarrow> schema_ok s \<Longrightarrow> zparse W s w = Some w"
  "zfields W fs v = Some kvs \<Longrightarrow> distinct (map fst fs) \<Longrightarrow> fields_ok fs \<Longrightarrow> zfields W fs (JObj kvs) = Some kvs"
  "zitems W ss vs = Some ws \<Longrightarrow> length vs = length ss \<Longrightarrow> items_ok ss \<Longrightarrow> length ws = length ss \<and> zitems W ss ws = Some ws"
proof (induction W s v and W fs v and W ss vs arbitrary: w and kvs and ws rule: zparse_zfields_zitems.induct)
  case (8 W ss v)
  then show ?case by (auto split: json.splits if_splits)
next
  case (9 W s n v)
  then obtain vs ws where v: "v = JArr vs" and n: "n \<le> length vs" and w: "w = JArr ws"
    and m: "map (zparse W s) vs = map Some ws"
    by (auto split: json.splits if_splits simp: those_Some)
  have len: "length ws = length vs" using arg_cong [OF m, of length] by simp
  have "zparse W s (ws ! i) = Some (ws ! i)" if i: "i < length ws" for i
  proof (rule "9.IH" [OF v n])
    show "vs ! i \<in> set vs" using i len by simp
    show "zparse W s (vs ! i) = Some (ws ! i)" using arg_cong [OF m, of "\<lambda>l. l ! i"] i len by simp
    show "schema_ok s" using "9.prems" by simp
  qed
  then have "map (zparse W s) ws = map Some ws" by (simp add: list_eq_iff_nth_eq)
  with n len show ?case by (simp add: w those_Some)
next
  case (10 W fs v)
  then show ?case by (auto split: json.splits)
next
  case (12 W s d v)
  show ?case
  proof (cases "w = JUndef")
    case True
    from "12.prems" True have "strict s" "zparse W s (if v = JUndef then d else v) = Some JUndef" by simp_all
    then have "(if v = JUndef then d else v) = JUndef" by (rule zparse_JUndef)
    then have "v = JUndef" by (cases "v = JUndef") simp_all
    with "12.prems" True show ?thesis by simp
  next
    case False
    with "12" show ?thesis by simp
  qed
next
  case (14 W ts v)
  then obtain its where c: "its \<noteq> []" "list_all (\<lambda>i. i \<in> set ts) its" and w: "w = JArr (map JStr its)"
    by (auto split: option.splits if_splits)
  moreover from c "14.prems"(2) have "list_all (\<lambda>t. trim t = t \<and> t \<noteq> []) its" by (auto simp: list_all_iff)
  ultimately show ?case using category_items_list [of its] by simp
next
  case (18 W k s fs v)
  from "18.prems"(1) obtain x kvs' where x: "zparse W s (jget v k) = Some x" "zfields W fs v = Some kvs'"
    and kvs: "kvs = (if x = JUndef then kvs' else (k, x) # kvs')"
    by (rule zfields_Cons)
  from "18.prems" have ok: "k \<notin> fst ` set fs" "distinct (map fst fs)" "fields_ok fs" "schema_ok s" by auto
  with zfields_keys [OF x(2)] have "k \<notin> fst ` set kvs'" by auto
  then have here: "jget (JObj kvs) k = x" using absent_key [of k kvs'] by (auto simp: kvs)
  have "zfields W fs (JObj kvs) = zfields W fs (JObj kvs')"
    using ok by (intro zfields_cong) (auto simp: kvs)
  with "18.IH" x ok here show ?case by (auto simp: kvs)
qed (auto split: json.splits option.splits if_splits simp: to_date_def env_bool_def)

lemma zparse_operator_free:
  "zparse W s v = Some w \<Longrightarrow> schema_ok s \<Longrightarrow> operator_free w"
  "zfields W fs v = Some kvs \<Longrightarrow> fields_ok fs \<Longrightarrow> operator_free (JObj kvs)"
  "zitems W ss vs = Some ws \<Longrightarrow> items_ok ss \<Longrightarrow> list_all operator_free ws"
proof (induction W s v and W fs v and W ss vs arbitrary: w and kvs and ws rule: zparse_zfields_zitems.induct)
  case (9 W s n v)
  then obtain vs ws where v: "v = JArr vs" "n \<le> length vs" and w: "w = JArr ws"
    and m: "map (zparse W s) vs = map Some ws"
    by (auto split: json.splits if_splits simp: those_Some)
  have "operator_free y" if "y \<in> set ws" for y
  proof -
    from that m obtain x where "x \<in> set vs" "zparse W s x = Some y"
      by (metis (no_types, lifting) image_iff image_set)
    with "9.IH" [OF v] "9.prems" show ?thesis by simp
  qed
  then show ?case by (simp add: w list_all_iff)
next
  case (14 W ts v)
  then show ?case by (auto split: option.splits if_splits simp: list_all_iff)
next
  case (18 W k s fs v)
  from "18.prems"(1) obtain x kvs' where "zparse W s (jget v k) = Some x" "zfields W fs v = Some kvs'"
    "kvs = (if x = JUndef then kvs' else (k, x) # kvs')"
    by (rule zfields_Cons)
  with "18.IH" "18.prems" show ?case by auto
qed (auto split: json.splits option.splits if_splits)

section \<open>The schemas\<close>

definition partial :: "zschema \<Rightarrow> zschema" where
  "partial s = (case s of ZObject fs \<Rightarrow> ZObject (map (\<lambda>(k, f). (k, ZOptional f)) fs) | _ \<Rightarrow> s)"

definition phoneSchema :: zschema where
  "phoneSchema = ZString [SMin 10, SMax 15]"

definition demoPersonaSchema :: zschema where
  "demoPersonaSchema = ZEnum [''carrier'', ''sender_priya'', ''sender_rahul'']"

definition sendOtpSchema :: zschema where
  "sendOtpSchema = ZObject [(''phone'', phoneSchema)]"

definition verifyOtpSchema :: zschema where
  "verifyOtpSchema = ZObject [(''phone'', phoneSchema), (''otp'', ZString [SLength 6])]"

definition googleLoginSchema :: zschema where
  "googleLoginSchema = ZObject [(''idToken'', ZString [SMin 10])]"

definition registerSchema :: zschema where
  "registerSchema = ZObject
     [(''name'', ZString [SMin 2]), (''email'', ZString [SEmail]), (''phone'', phoneSchema),
      (''otp'', ZString [SLength 6])]"

definition loginSchema :: zschema where
  "loginSchema = ZObject [(''phone'', phoneSchema), (''otp'', ZString [SLength 6])]"

definition refreshSchema :: zschema where
  "refreshSchema = ZObject [(''refreshToken'', ZString [SMin 10])]"

definition demoLoginSchema :: zschema where
  "demoLoginSchema = ZObject
     [(''persona'', ZOptional demoPersonaSchema), (''role'', ZOptional demoPersonaSchema)]"

definition objectIdSchema :: zschema where
  "objectIdSchema = ZString [SObjectId]"

definition coordinatesSchema :: zschema where
  "coordinatesSchema = ZObject
     [(''type'', ZDefault (ZEnum [''Point'']) (JStr ''Point'')),
      (''coordinates'', ZTuple [ZNumber [], ZNumber []])]"

definition locationSchema :: zschema where
  "locationSchema = ZObject
     [(''city'', ZString [SMin 1]), (''state'', ZOptional (ZString [])),
      (''coordinates'', ZOptional coordinatesSchema), (''placeId'', ZOptional (ZString [])),
      (''fullAddress'', ZOptional (ZString []))]"

definition categories :: "string list" where
  "categories = [''documents'', ''clothing'', ''electronics'', ''food'', ''fragile'', ''medicine'', ''other'']"

definition categorySchema :: zschema where
  "categorySchema = ZEnum categories"

definition transportModeSchema :: zschema where
  "transportModeSchema = ZEnum [''bus'', ''train'', ''car'', ''bike'', ''flight'', ''other'']"

definition dimensionsSchema :: zschema where
  "dimensionsSchema = ZObject
     [(''length'', ZOptional (ZNumber [NPositive])), (''width'', ZOptional (ZNumber [NPositive])),
      (''height'', ZOptional (ZNumber [NPositive]))]"

definition packageSchema :: zschema where
  "packageSchema = ZObject
     [(''description'', ZString [SMin 3]), (''category'', categorySchema),
      (''weightKg'', ZNumber [NPositive]), (''dimensionsCm'', ZOptional dimensionsSchema),
      (''isFragile'', ZDefault ZBoolean (JBool False)),
      (''declaredValue'', ZOptional (ZNumber [NInt, NNonnegative])),
      (''photoUrl'', ZOptional (ZString [SUrl]))]"

definition recipientSchema :: zschema where
  "recipientSchema = ZObject
     [(''name'', ZString [SMin 2]), (''phone'', phoneSchema), (''address'', ZString [SMin 5])]"

definition windowSchema :: zschema where
  "windowSchema = ZObject [(''earliest'', ZCoerceDate), (''latest'', ZCoerceDate)]"

definition createDeliverySchema :: zschema where
  "createDeliverySchema = ZObject
     [(''origin'', locationSchema), (''destination'', locationSchema), (''package'', packageSchema),
      (''recipient'', recipientSchema), (''preferredDeliveryWindow'', windowSchema)]"

definition updateDeliverySchema :: zschema where
  "updateDeliverySchema = partial createDeliverySchema"

definition payment_fields :: "(string \<times> zschema) list" where
  "payment_fields =
     [(''razorpayOrderId'', ZString []), (''razorpayPaymentId'', ZString []),
      (''razorpaySignature'', ZString [])]"

definition confirmDeliveryPaymentSchema :: zschema where
  "confirmDeliveryPaymentSchema = ZObject ((''requestId'', ZString [SMin 1]) # payment_fields)"

definition transportDetailsSchema :: zschema where
  "transportDetailsSchema = ZObject
     [(''name'', ZOptional (ZString [])), (''pnr'', ZOptional (ZString [])),
      (''seatNumber'', ZOptional (ZString []))]"

definition capacitySchema :: zschema where
  "capacitySchema = ZObject
     [(''weightKg'', ZNumber [NPositive, NMax 30]), (''dimensionsCm'', ZOptional dimensionsSchema),
      (''allowedCategories'', ZArray categorySchema 1)]"

definition createTripSchema :: zschema where
  "createTripSchema = ZObject
     [(''origin'', locationSchema), (''destination'', locationSchema),
      (''departureTime'', ZCoerceDate), (''estimatedArrivalTime'', ZOptional ZCoerceDate),
      (''modeOfTransport'', transportModeSchema),
      (''transportDetails'', ZOptional transportDetailsSchema),
      (''availableCapacity'', capacitySchema), (''pricePerKg'', ZNumber [NPositive]),
      (''pickupInstructions'', ZOptional (ZString [])), (''dropoffInstructions'', ZOptional (ZString []))]"

definition updateTripSchema :: zschema where
  "updateTripSchema = partial createTripSchema"

definition tripFilterSchema :: zschema where
  "tripFilterSchema = ZObject
     [(''origin_city'', ZOptional (ZString [])), (''destination_city'', ZOptional (ZString [])),
      (''date'', ZOptional (ZString [])), (''mode'', ZOptional transportModeSchema),
      (''min_capacity_kg'', ZOptional (ZCoerceNumber [])),
      (''page'', ZDefault (ZCoerceNumber []) (JNum 1)), (''limit'', ZDefault (ZCoerceNumber []) (JNum 10))]"

definition confirmDepositSchema :: zschema where
  "confirmDepositSchema = ZObject ((''tripId'', ZString [SMin 1]) # payment_fields)"

definition match_verifyOtpSchema :: zschema where
  "match_verifyOtpSchema = ZObject [(''otp'', ZString [SLength 6])]"

definition rateMatchSchema :: zschema where
  "rateMatchSchema = ZObject
     [(''score'', ZNumber [NInt, NMin 1, NMax 5]), (''comment'', ZOptional (ZString [SMax 500]))]"

definition disputeSchema :: zschema where
  "disputeSchema = ZObject [(''reason'', ZString [SMin 3]), (''description'', ZString [SMin 10])]"

definition requestRapidoSchema :: zschema where
  "requestRapidoSchema = ZObject
     [(''pickupCoords'', ZTuple [ZNumber [], ZNumber []]), (''dropAddress'', ZString [SMin 5])]"

definition withdrawalSchema :: zschema where
  "withdrawalSchema = ZObject [(''amount'', ZNumber [NInt, NPositive])]"

definition updateMeSchema :: zschema where
  "updateMeSchema = ZObject
     [(''name'', ZOptional (ZString [SMin 2])), (''email'', ZOptional (ZString [SEmail])),
      (''profilePhoto'', ZOptional (ZString [SUrl]))]"

definition verifyIdSchema :: zschema where
  "verifyIdSchema = ZObject
     [(''governmentIdType'', ZEnum [''aadhaar'', ''pan'', ''passport'', ''dl'']),
      (''governmentIdNumber'', ZString [SMin 6, SMax 30])]"

definition verifyCarrierAadhaarSchema :: zschema where
  "verifyCarrierAadhaarSchema = ZObject
     [(''aadhaarNumber'', ZString [SMin 12, SMax 16]), (''otp'', ZOptional (ZString []))]"

definition saveCarrierPayoutSchema :: zschema where
  "saveCarrierPayoutSchema = ZObject
     [(''method'', ZEnum [''upi'', ''bank'']), (''upiId'', ZOptional (ZString [])),
      (''accountNumber'', ZOptional (ZString [])), (''ifsc'', ZOptional (ZString [])),
      (''holderName'', ZOptional (ZString []))]"

definition saveCarrierPreferencesSchema :: zschema where
  "saveCarrierPreferencesSchema = ZObject
     [(''preferredModes'', ZOptional (ZArray (ZString []) 0)),
      (''maxCapacityKg'', ZOptional (ZNumber [NPositive, NMax 50])),
      (''allowedCategories'', ZOptional (ZArray (ZString []) 0)),
      (''instantBooking'', ZOptional ZBoolean), (''bio'', ZOptional (ZString [SMax 500])),
      (''emergencyContact'', ZOptional (ZString [SMax 20]))]"

definition actorSchema :: zschema where
  "actorSchema = ZOptional (ZEnum [''sender'', ''carrier''])"

definition fieldSchema :: zschema where
  "fieldSchema = ZOptional (ZEnum [''origin'', ''destination''])"

definition mapSuggestSchema :: zschema where
  "mapSuggestSchema = ZObject
     [(''q'', ZString [SMin 2, SMax 120]), (''region'', ZDefault (ZString []) (JStr ''IND'')),
      (''actor'', actorSchema), (''field'', fieldSchema),
      (''limit'', ZDefault (ZCoerceNumber [NInt, NMin 1, NMax 12]) (JNum 10))]"

definition suggestionSchema :: zschema where
  "suggestionSchema = ZObject
     [(''placeName'', ZString [SMin 1]), (''placeAddress'', ZDefault (ZString []) (JStr [])),
      (''eLoc'', ZString [SMin 2]), (''latitude'', ZCoerceNumber []), (''longitude'', ZCoerceNumber []),
      (''city'', ZOptional (ZString [])), (''state'', ZOptional (ZString []))]"

definition mapSelectSchema :: zschema where
  "mapSelectSchema = ZObject
     [(''query'', ZString [SMin 2, SMax 120]), (''region'', ZDefault (ZString []) (JStr ''IND'')),
      (''actor'', actorSchema), (''field'', fieldSchema), (''suggestion'', suggestionSchema)]"

definition mapRouteSchema :: zschema where
  "mapRouteSchema = ZObject
     [(''originLng'', ZCoerceNumber []), (''originLat'', ZCoerceNumber []),
      (''destLng'', ZCoerceNumber []), (''destLat'', ZCoerceNumber [])]"

definition pricingEstimateQuerySchema :: zschema where
  "pricingEstimateQuerySchema = ZObject
     [(''originCity'', ZTrimmed [SMin 2]), (''destinationCity'', ZTrimmed [SMin 2]),
      (''weightKg'', ZCoerceNumber [NPositive]),
      (''category'', ZDefault categorySchema (JStr ''documents'')), (''isFragile'', ZTrueText),
      (''declaredValue'', ZOptional (ZCoerceNumber [NPositive]))]"

definition carrierGuidanceQuerySchema :: zschema where
  "carrierGuidanceQuerySchema = ZObject
     [(''originCity'', ZTrimmed [SMin 2]), (''destinationCity'', ZTrimmed [SMin 2]),
      (''capacityKg'', ZCoerceNumber [NPositive, NMax 30]),
      (''pricePerKg'', ZOptional (ZCoerceNumber [NPositive])),
      (''modeOfTransport'', ZOptional transportModeSchema), (''departureTime'', ZOptional ZCoerceDate),
      (''categories'', ZCategoryList categories)]"

lemmas schema_defs =
  partial_def phoneSchema_def demoPersonaSchema_def sendOtpSchema_def verifyOtpSchema_def
  googleLoginSchema_def registerSchema_def loginSchema_def refreshSchema_def demoLoginSchema_def
  objectIdSchema_def coordinatesSchema_def locationSchema_def categories_def categorySchema_def
  transportModeSchema_def dimensionsSchema_def packageSchema_def recipientSchema_def
  windowSchema_def createDeliverySchema_def updateDeliverySchema_def payment_fields_def
  confirmDeliveryPaymentSchema_def transportDetailsSchema_def capacitySchema_def
  createTripSchema_def updateTripSchema_def tripFilterSchema_def confirmDepositSchema_def
  match_verifyOtpSchema_def rateMatchSchema_def disputeSchema_def requestRapidoSchema_def
  withdrawalSchema_def updateMeSchema_def verifyIdSchema_def verifyCarrierAadhaarSchema_def
  saveCarrierPayoutSchema_def saveCarrierPreferencesSchema_def actorSchema_def fieldSchema_def
  mapSuggestSchema_def suggestionSchema_def mapSelectSchema_def mapRouteSchema_def
  pricingEstimateQuerySchema_def carrierGuidanceQuerySchema_def

section \<open>validate\<close>

text \<open>\<open>msgs\<close> is the joined text of zod's messages.\<close>

definition validate :: "world \<Rightarrow> (zschema \<Rightarrow> json \<Rightarrow> string) \<Rightarrow> zschema \<Rightarrow> json \<Rightarrow> js_error + json" where
  "validate W msgs schema body =
     (case zparse W schema body of
        None \<Rightarrow> Inl (ApiError 400 (msgs schema body))
      | Some v \<Rightarrow> Inr v)"

text \<open>A \<open>schema.parse\<close> in a controller throws the \<open>ZodError\<close> itself.\<close>

definition parseM :: "world \<Rightarrow> zschema \<Rightarrow> json \<Rightarrow> ('s, json) handler" where
  "parseM W schema v = (case zparse W schema v of None \<Rightarrow> throwM (LibError ''ZodError'') | Some w \<Rightarrow> retM w)"

definition all_schemas :: "zschema list" where
  "all_schemas =
     [sendOtpSchema, verifyOtpSchema, googleLoginSchema, registerSchema, loginSchema, refreshSchema,
      demoLoginSchema, objectIdSchema, locationSchema, createDeliverySchema, updateDeliverySchema,
      confirmDeliveryPaymentSchema, createTripSchema, updateTripSchema, tripFilterSchema,
      confirmDepositSchema, match_verifyOtpSchema, rateMatchSchema, disputeSchema,
      requestRapidoSchema, withdrawalSchema, updateMeSchema, verifyIdSchema,
      verifyCarrierAadhaarSchema, saveCarrierPayoutSchema, saveCarrierPreferencesSchema,
      mapSuggestSchema, mapSelectSchema, mapRouteSchema, pricingEstimateQuerySchema,
      carrierGuidanceQuerySchema]"

lemma all_schemas_ok: "list_all schema_ok all_schemas"
  unfolding all_schemas_def schema_defs by (simp add: operator_key_def trim_def is_space_def)

lemma validate_Inr: "validate W msgs s v = Inr w \<longleftrightarrow> zparse W s v = Some w"
  by (simp add: validate_def split: option.splits)

end
