(* ===== verification/Redis.thy ===== *)
theory Redis
  imports Models JsString
begin

text \<open>
  The Redis commands the services send, on the component \<open>redis\<close> of the state: GET, SETEX, DEL,
  SET ... NX EX and the compare-and-delete script of \<open>releaseLock\<close>; and \<open>MockRedisEmitter\<close> of
  \<open>config/redis.ts\<close>, the in-memory replacement used in tests and on serverless hosts.  The
  locale \<open>kv_store\<close> is the contract the clients of both rely on.
\<close>

section \<open>The commands\<close>

definition live :: "db \<Rightarrow> redis_value \<times> int option \<Rightarrow> bool" where
  "live s e = (case snd e of None \<Rightarrow> True | Some t \<Rightarrow> clock s < t)"

definition redis_get :: "string \<Rightarrow> db \<Rightarrow> redis_value option" where
  "redis_get k s =
     (case map_of (redis s) k of None \<Rightarrow> None | Some e \<Rightarrow> if live s e then Some (fst e) else None)"

definition redis_setex :: "string \<Rightarrow> int \<Rightarrow> redis_value \<Rightarrow> db \<Rightarrow> db" where
  "redis_setex k ttl v s = s\<lparr>redis := AList.update k (v, Some (clock s + ttl * 1000)) (redis s)\<rparr>"

definition redis_del :: "string \<Rightarrow> db \<Rightarrow> db" where
  "redis_del k s = s\<lparr>redis := AList.delete k (redis s)\<rparr>"

definition redis_set_nx_ex :: "string \<Rightarrow> string \<Rightarrow> int \<Rightarrow> db \<Rightarrow> bool \<times> db" where
  "redis_set_nx_ex k v ttl s =
     (if redis_get k s = None then (True, redis_setex k ttl (RedisString v) s) else (False, s))"

definition redis_del_if_equal :: "string \<Rightarrow> string \<Rightarrow> db \<Rightarrow> db" where
  "redis_del_if_equal k v s =
     (if redis_get k s = Some (RedisString v) then redis_del k s else s)"

section \<open>MockRedisEmitter\<close>

type_synonym mock_redis = "(string \<times> string) list"

definition mock_get :: "string \<Rightarrow> mock_redis \<Rightarrow> string option" where
  "mock_get k st = map_of st k"

definition mock_set :: "string \<Rightarrow> string \<Rightarrow> mock_redis \<Rightarrow> mock_redis" where
  "mock_set k v st = AList.update k v st"

definition mock_setex :: "string \<Rightarrow> int \<Rightarrow> string \<Rightarrow> mock_redis \<Rightarrow> mock_redis" where
  "mock_setex k ttl v st = AList.update k v st"

primrec mock_del :: "string list \<Rightarrow> mock_redis \<Rightarrow> int \<times> mock_redis" where
  "mock_del [] st = (0, st)"
| "mock_del (k # ks) st =
     (let hit = (if map_of st k = None then 0 else 1);
          (n, st') = mock_del ks (AList.delete k st)
      in (hit + n, st'))"

definition mock_ttl :: "string \<Rightarrow> mock_redis \<Rightarrow> int" where
  "mock_ttl k st = (if map_of st k = None then - 2 else - 1)"

text \<open>The answer to SET with the options NX and EX: the options are not parameters of \<open>set\<close>.\<close>

definition mock_set_nx_ex :: "string \<Rightarrow> string \<Rightarrow> int \<Rightarrow> mock_redis \<Rightarrow> bool \<times> mock_redis" where
  "mock_set_nx_ex k v ttl st = (True, mock_set k v st)"

section \<open>The contract of a key-value store\<close>

locale kv_store =
  fixes get :: "string \<Rightarrow> 's \<Rightarrow> 'v option"
    and set :: "string \<Rightarrow> 'v \<Rightarrow> 's \<Rightarrow> 's"
    and del :: "string \<Rightarrow> 's \<Rightarrow> 's"
  assumes get_set: "get k' (set k v s) = (if k' = k then Some v else get k' s)"
    and get_del: "get k' (del k s) = (if k' = k then None else get k' s)"
begin

lemma set_del: "get k' (set k v (del k s)) = get k' (set k v s)"
  by (simp add: get_set get_del)

lemma del_set: "get k' (del k (set k v s)) = get k' (del k s)"
  by (simp add: get_set get_del)

lemma set_set: "get k' (set k v (set k v' s)) = get k' (set k v s)"
  by (simp add: get_set)

lemma set_commute: "j \<noteq> k \<Longrightarrow> get k' (set j v (set k w s)) = get k' (set k w (set j v s))"
  by (simp add: get_set)

end

lemma redis_get_setex:
  "0 < ttl \<Longrightarrow> redis_get k' (redis_setex k ttl v s) = (if k' = k then Some v else redis_get k' s)"
  by (auto simp: redis_get_def redis_setex_def live_def update_conv' split: option.splits)

lemma redis_get_del [simp]:
  "redis_get k' (redis_del k s) = (if k' = k then None else redis_get k' s)"
  by (auto simp: redis_get_def redis_del_def live_def delete_conv' split: option.splits)

interpretation redis_kv: kv_store redis_get "\<lambda>k. redis_setex k (Suc n)" redis_del for n
  by unfold_locales (simp_all add: redis_get_setex)

interpretation mock_kv: kv_store mock_get mock_set "\<lambda>k st. snd (mock_del [k] st)"
  by unfold_locales (simp_all add: mock_get_def mock_set_def update_conv' delete_conv')

lemma redis_frames [simp]:
  "users (redis_setex k n v s) = users s" "users (redis_del k s) = users s"
  "trips (redis_setex k n v s) = trips s" "trips (redis_del k s) = trips s"
  "requests (redis_setex k n v s) = requests s" "requests (redis_del k s) = requests s"
  "matches (redis_setex k n v s) = matches s" "matches (redis_del k s) = matches s"
  "transactions (redis_setex k n v s) = transactions s"
  "transactions (redis_del k s) = transactions s"
  "outbox (redis_setex k n v s) = outbox s" "outbox (redis_del k s) = outbox s"
  "webhooks (redis_setex k n v s) = webhooks s" "webhooks (redis_del k s) = webhooks s"
  "reviews (redis_setex k n v s) = reviews s" "reviews (redis_del k s) = reviews s"
  "jobs (redis_setex k n v s) = jobs s" "jobs (redis_del k s) = jobs s"
  "clock (redis_setex k n v s) = clock s" "clock (redis_del k s) = clock s"
  "draws (redis_setex k n v s) = draws s" "draws (redis_del k s) = draws s"
  by (simp_all add: redis_setex_def redis_del_def)

text \<open>A value set with a time to live is seen until the time has passed, and not after.\<close>

lemma redis_get_wait:
  "0 < ttl \<Longrightarrow> redis_get k (redis_setex k ttl v s\<lparr>clock := c\<rparr>) =
     (if c < clock s + ttl * 1000 then Some v else None)"
  by (simp add: redis_get_def redis_setex_def live_def update_conv')

lemma redis_get_later: "redis_get k (s\<lparr>clock := c\<rparr>) = Some v \<Longrightarrow> clock s \<le> c \<Longrightarrow> redis_get k s = Some v"
  by (auto simp: redis_get_def live_def split: option.splits if_splits)

lemma redis_get_next_draw [simp]: "redis_get k (next_draw s) = redis_get k s"
  by (simp add: redis_get_def live_def next_draw_def cong: option.case_cong)

lemma redis_get_cong: "redis t = redis s \<Longrightarrow> clock t = clock s \<Longrightarrow> redis_get k t = redis_get k s"
  by (simp add: redis_get_def live_def cong: option.case_cong)

end
