(* ===== verification/Cities.thy ===== *)
theory Cities
  imports JsString JsNumber "HOL-Library.Multiset"
begin

text \<open>
  \<open>shared/src/maps/indianCities.ts\<close>: the catalogue of cities the portals fall back on, row by row,
  and the search in it.  The search fills four buckets in one pass (exact name, prefix, alias,
  contains) and joins them; it is shown to be a stable sort by the kind of the match.  The server has a copy
  of the table, \<open>backend/src/services/indianCities.ts\<close>, which is the list of \<open>maps_env\<close>.
\<close>

section \<open>The catalogue\<close>

record city_data =
  ct_placeName :: string
  ct_placeAddress :: string
  ct_city :: string
  ct_state :: string
  ct_eLoc :: string
  ct_latitude :: rat
  ct_longitude :: rat
  ct_aliases :: "string list"

text \<open>A row of the table; a coordinate is the Number nearest to the decimal written.\<close>

definition city_row ::
  "string \<Rightarrow> string \<Rightarrow> string \<Rightarrow> string \<Rightarrow> string \<Rightarrow> rat \<Rightarrow> rat \<Rightarrow> string list \<Rightarrow> city_data" where
  "city_row name address city' state' eLoc latitude longitude aliases =
     \<lparr> ct_placeName = name, ct_placeAddress = address, ct_city = city', ct_state = state',
       ct_eLoc = eLoc, ct_latitude = fl latitude, ct_longitude = fl longitude, ct_aliases = aliases \<rparr>"

definition karnataka_cities :: "city_data list" where
  "karnataka_cities = [
     city_row ''Bengaluru'' ''Bengaluru, Karnataka, India'' ''Bengaluru'' ''Karnataka'' ''DEMO_BLR'' (129716 / 10000) (775946 / 10000)
       [''Bangalore'', ''BLR'', ''SBC'', ''SMVT'', ''YPR'', ''Yeshwantpur'', ''Majestic'', ''Kempegowda''],
     city_row ''Mysuru'' ''Mysuru, Karnataka, India'' ''Mysuru'' ''Karnataka'' ''DEMO_MYQ'' (122958 / 10000) (766394 / 10000)
       [''Mysore'', ''MYQ'', ''MYS'', ''Mysuru Junction''],
     city_row ''Mangaluru'' ''Mangaluru, Karnataka, India'' ''Mangaluru'' ''Karnataka'' ''DEMO_IXE'' (129141 / 10000) (74856 / 1000)
       [''Mangalore'', ''IXE'', ''MAQ'', ''MAJN''],
     city_row ''Hubballi'' ''Hubballi, Karnataka, India'' ''Hubballi'' ''Karnataka'' ''DEMO_HBX'' (153647 / 10000) (75124 / 1000)
       [''Hubli'', ''Dharwad'', ''HBX'', ''UBL''],
     city_row ''Belagavi'' ''Belagavi, Karnataka, India'' ''Belagavi'' ''Karnataka'' ''DEMO_IXG'' (158497 / 10000) (744977 / 10000)
       [''Belgaum'', ''IXG'', ''BGM''],
     city_row ''Kalaburagi'' ''Kalaburagi, Karnataka, India'' ''Kalaburagi'' ''Karnataka'' ''DEMO_GBI'' (173297 / 10000) (768343 / 10000)
       [''Gulbarga'', ''GBI'', ''KLBG''],
     city_row ''Ballari'' ''Ballari, Karnataka, India'' ''Ballari'' ''Karnataka'' ''DEMO_BEP'' (151394 / 10000) (769214 / 10000)
       [''Bellary'', ''BAY''],
     city_row ''Vijayapura'' ''Vijayapura, Karnataka, India'' ''Vijayapura'' ''Karnataka'' ''DEMO_BJP'' (168302 / 10000) (7571 / 100)
       [''Bijapur'', ''BJP''],
     city_row ''Shivamogga'' ''Shivamogga, Karnataka, India'' ''Shivamogga'' ''Karnataka'' ''DEMO_SME'' (139299 / 10000) (755681 / 10000)
       [''Shimoga'', ''SME''],
     city_row ''Tumakuru'' ''Tumakuru, Karnataka, India'' ''Tumakuru'' ''Karnataka'' ''DEMO_TK'' (133379 / 10000) (771173 / 10000)
       [''Tumkur'', ''TK''],
     city_row ''Davangere'' ''Davangere, Karnataka, India'' ''Davangere'' ''Karnataka'' ''DEMO_DVG'' (144644 / 10000) (759218 / 10000)
       [''Davanagere'', ''DVG''],
     city_row ''Udupi'' ''Udupi, Karnataka, India'' ''Udupi'' ''Karnataka'' ''DEMO_UD'' (133409 / 10000) (747421 / 10000)
       [''Manipal'', ''UD''],
     city_row ''Hassan'' ''Hassan, Karnataka, India'' ''Hassan'' ''Karnataka'' ''DEMO_HAS'' (130033 / 10000) (761004 / 10000)
       [''HAS''],
     city_row ''Bidar'' ''Bidar, Karnataka, India'' ''Bidar'' ''Karnataka'' ''DEMO_IXX'' (179104 / 10000) (775199 / 10000)
       [''IXX'', ''BIDR''],
     city_row ''Raichur'' ''Raichur, Karnataka, India'' ''Raichur'' ''Karnataka'' ''DEMO_RC'' (162076 / 10000) (773463 / 10000)
       [''RC''],
     city_row ''Mandya'' ''Mandya, Karnataka, India'' ''Mandya'' ''Karnataka'' ''DEMO_MYA'' (125218 / 10000) (768951 / 10000)
       [''Sugar City'', ''MYA''],
     city_row ''Chikkamagaluru'' ''Chikkamagaluru, Karnataka, India'' ''Chikkamagaluru'' ''Karnataka'' ''DEMO_CKM'' (133161 / 10000) (75772 / 1000)
       [''Chikmagalur'', ''Coffee Land''],
     city_row ''Chitradurga'' ''Chitradurga, Karnataka, India'' ''Chitradurga'' ''Karnataka'' ''DEMO_CTA'' (142251 / 10000) (76398 / 1000)
       [''CTA''],
     city_row ''Kolar'' ''Kolar, Karnataka, India'' ''Kolar'' ''Karnataka'' ''DEMO_KGF'' (131378 / 10000) (781292 / 10000)
       [''KGF'', ''Kolar Gold Fields''],
     city_row ''Bagalkot'' ''Bagalkot, Karnataka, India'' ''Bagalkot'' ''Karnataka'' ''DEMO_BGK'' (161691 / 10000) (756615 / 10000)
       [''BGK''],
     city_row ''Karwar'' ''Karwar, Karnataka, India'' ''Karwar'' ''Karnataka'' ''DEMO_KAWR'' (148136 / 10000) (741298 / 10000)
       [''KAWR''],
     city_row ''Madikeri'' ''Madikeri, Karnataka, India'' ''Madikeri'' ''Karnataka'' ''DEMO_CRG'' (124244 / 10000) (757382 / 10000)
       [''Coorg'', ''Mercara'']]"

definition maharashtra_cities :: "city_data list" where
  "maharashtra_cities = [
     city_row ''Mumbai'' ''Mumbai, Maharashtra, India'' ''Mumbai'' ''Maharashtra'' ''DEMO_BOM'' (19076 / 1000) (728777 / 10000)
       [''Bombay'', ''BOM'', ''CSMT'', ''CST'', ''BCT'', ''Mumbai Central'', ''Bandra'', ''LTT'', ''Dadar'', ''Thane''],
     city_row ''Pune'' ''Pune, Maharashtra, India'' ''Pune'' ''Maharashtra'' ''DEMO_PNQ'' (185204 / 10000) (738567 / 10000)
       [''Poona'', ''PNQ'', ''Shivajinagar'', ''Hinjawadi''],
     city_row ''Nagpur'' ''Nagpur, Maharashtra, India'' ''Nagpur'' ''Maharashtra'' ''DEMO_NAG'' (211458 / 10000) (790882 / 10000)
       [''NAG'', ''Orange City''],
     city_row ''Nashik'' ''Nashik, Maharashtra, India'' ''Nashik'' ''Maharashtra'' ''DEMO_ISK'' (199975 / 10000) (737898 / 10000)
       [''Nasik'', ''ISK'', ''NK''],
     city_row ''Thane'' ''Thane, Maharashtra, India'' ''Thane'' ''Maharashtra'' ''DEMO_TNA'' (192183 / 10000) (729781 / 10000)
       [''TNA''],
     city_row ''Navi Mumbai'' ''Navi Mumbai, Maharashtra, India'' ''Navi Mumbai'' ''Maharashtra'' ''DEMO_NVM'' (19033 / 1000) (730297 / 10000)
       [''New Bombay'', ''Vashi'', ''Panvel''],
     city_row ''Chhatrapati Sambhajinagar'' ''Chhatrapati Sambhajinagar, Maharashtra, India'' ''Chhatrapati Sambhajinagar'' ''Maharashtra'' ''DEMO_IXU'' (198762 / 10000) (753433 / 10000)
       [''Aurangabad'', ''IXU'', ''AWB''],
     city_row ''Solapur'' ''Solapur, Maharashtra, India'' ''Solapur'' ''Maharashtra'' ''DEMO_SSE'' (176599 / 10000) (759064 / 10000)
       [''SUR'', ''Sholapur''],
     city_row ''Amravati'' ''Amravati, Maharashtra, India'' ''Amravati'' ''Maharashtra'' ''DEMO_AMI'' (209374 / 10000) (777796 / 10000)
       [''AMI''],
     city_row ''Kolhapur'' ''Kolhapur, Maharashtra, India'' ''Kolhapur'' ''Maharashtra'' ''DEMO_KLH'' (16705 / 1000) (742433 / 10000)
       [''KLH'', ''KOP''],
     city_row ''Sangli'' ''Sangli, Maharashtra, India'' ''Sangli'' ''Maharashtra'' ''DEMO_SLI'' (168524 / 10000) (745815 / 10000)
       [''Miraj'', ''SLI''],
     city_row ''Jalgaon'' ''Jalgaon, Maharashtra, India'' ''Jalgaon'' ''Maharashtra'' ''DEMO_JL'' (210077 / 10000) (755626 / 10000)
       [''JL''],
     city_row ''Akola'' ''Akola, Maharashtra, India'' ''Akola'' ''Maharashtra'' ''DEMO_AK'' (207002 / 10000) (770082 / 10000)
       [''AK''],
     city_row ''Latur'' ''Latur, Maharashtra, India'' ''Latur'' ''Maharashtra'' ''DEMO_LTU'' (184088 / 10000) (765604 / 10000)
       [''LTU'', ''LUR''],
     city_row ''Dhule'' ''Dhule, Maharashtra, India'' ''Dhule'' ''Maharashtra'' ''DEMO_DHI'' (209042 / 10000) (747749 / 10000)
       [''DHI''],
     city_row ''Ahmednagar'' ''Ahmednagar, Maharashtra, India'' ''Ahmednagar'' ''Maharashtra'' ''DEMO_ANG'' (190952 / 10000) (747496 / 10000)
       [''Ahilyanagar'', ''ANG''],
     city_row ''Chandrapur'' ''Chandrapur, Maharashtra, India'' ''Chandrapur'' ''Maharashtra'' ''DEMO_CD'' (199615 / 10000) (792961 / 10000)
       [''CD''],
     city_row ''Nanded'' ''Nanded, Maharashtra, India'' ''Nanded'' ''Maharashtra'' ''DEMO_NDC'' (191383 / 10000) (77321 / 1000)
       [''NDC'', ''NED''],
     city_row ''Satara'' ''Satara, Maharashtra, India'' ''Satara'' ''Maharashtra'' ''DEMO_STR'' (176805 / 10000) (739936 / 10000)
       [''STR''],
     city_row ''Shirdi'' ''Shirdi, Maharashtra, India'' ''Shirdi'' ''Maharashtra'' ''DEMO_SAG'' (197667 / 10000) (744766 / 10000)
       [''SAG'', ''Kopargaon'']]"

definition delhi_haryana_cities :: "city_data list" where
  "delhi_haryana_cities = [
     city_row ''Delhi'' ''New Delhi, Delhi, India'' ''Delhi'' ''Delhi'' ''DEMO_DEL'' (286139 / 10000) (77209 / 1000)
       [''New Delhi'', ''NDLS'', ''DLI'', ''Old Delhi'', ''NZM'', ''Hazrat Nizamuddin'', ''ANVT'', ''Anand Vihar'', ''IGI'', ''DEL''],
     city_row ''Gurugram'' ''Gurugram, Haryana, India'' ''Gurugram'' ''Haryana'' ''DEMO_GUR'' (284595 / 10000) (770266 / 10000)
       [''Gurgaon'', ''Cyber City'', ''GUR''],
     city_row ''Noida'' ''Noida, Uttar Pradesh, India'' ''Noida'' ''Uttar Pradesh'' ''DEMO_NOI'' (285355 / 10000) (77391 / 1000)
       [''NOI'', ''Sector 18'', ''Sector 62''],
     city_row ''Greater Noida'' ''Greater Noida, Uttar Pradesh, India'' ''Greater Noida'' ''Uttar Pradesh'' ''DEMO_GNOI'' (284744 / 10000) (77504 / 1000)
       [''Pari Chowk'', ''GNOI''],
     city_row ''Faridabad'' ''Faridabad, Haryana, India'' ''Faridabad'' ''Haryana'' ''DEMO_FDB'' (284089 / 10000) (773178 / 10000)
       [''FDB''],
     city_row ''Ghaziabad'' ''Ghaziabad, Uttar Pradesh, India'' ''Ghaziabad'' ''Uttar Pradesh'' ''DEMO_GZB'' (286692 / 10000) (774538 / 10000)
       [''GZB''],
     city_row ''Chandigarh'' ''Chandigarh, Punjab/Haryana, India'' ''Chandigarh'' ''Chandigarh'' ''DEMO_IXC'' (307333 / 10000) (767794 / 10000)
       [''IXC'', ''CDG'', ''Mohali'', ''Panchkula''],
     city_row ''Panipat'' ''Panipat, Haryana, India'' ''Panipat'' ''Haryana'' ''DEMO_PNP'' (293909 / 10000) (769635 / 10000)
       [''PNP''],
     city_row ''Ambala'' ''Ambala, Haryana, India'' ''Ambala'' ''Haryana'' ''DEMO_UMB'' (303782 / 10000) (767767 / 10000)
       [''Ambala Cantt'', ''UMB''],
     city_row ''Rohtak'' ''Rohtak, Haryana, India'' ''Rohtak'' ''Haryana'' ''DEMO_ROK'' (288955 / 10000) (766066 / 10000)
       [''ROK''],
     city_row ''Hisar'' ''Hisar, Haryana, India'' ''Hisar'' ''Haryana'' ''DEMO_HSS'' (291492 / 10000) (757217 / 10000)
       [''Hissar'', ''HSS''],
     city_row ''Karnal'' ''Karnal, Haryana, India'' ''Karnal'' ''Haryana'' ''DEMO_KUN'' (296857 / 10000) (769905 / 10000)
       [''KUN''],
     city_row ''Sonipat'' ''Sonipat, Haryana, India'' ''Sonipat'' ''Haryana'' ''DEMO_SNP'' (289931 / 10000) (770151 / 10000)
       [''Sonepat'', ''SNP'']]"

definition tamil_nadu_cities :: "city_data list" where
  "tamil_nadu_cities = [
     city_row ''Chennai'' ''Chennai, Tamil Nadu, India'' ''Chennai'' ''Tamil Nadu'' ''DEMO_MAA'' (130827 / 10000) (802707 / 10000)
       [''Madras'', ''MAA'', ''MAS'', ''MS'', ''Chennai Central'', ''Egmore''],
     city_row ''Coimbatore'' ''Coimbatore, Tamil Nadu, India'' ''Coimbatore'' ''Tamil Nadu'' ''DEMO_CJB'' (110168 / 10000) (769558 / 10000)
       [''Kovai'', ''CJB'', ''CBE''],
     city_row ''Madurai'' ''Madurai, Tamil Nadu, India'' ''Madurai'' ''Tamil Nadu'' ''DEMO_IXM'' (99252 / 10000) (781198 / 10000)
       [''IXM'', ''MDU'', ''Temple City''],
     city_row ''Tiruchirappalli'' ''Tiruchirappalli, Tamil Nadu, India'' ''Tiruchirappalli'' ''Tamil Nadu'' ''DEMO_TRZ'' (107905 / 10000) (787047 / 10000)
       [''Trichy'', ''Tiruchi'', ''TRZ'', ''TPJ''],
     city_row ''Salem'' ''Salem, Tamil Nadu, India'' ''Salem'' ''Tamil Nadu'' ''DEMO_SXV'' (116643 / 10000) (78146 / 1000)
       [''SXV'', ''SA''],
     city_row ''Tirunelveli'' ''Tirunelveli, Tamil Nadu, India'' ''Tirunelveli'' ''Tamil Nadu'' ''DEMO_TEN'' (87139 / 10000) (777567 / 10000)
       [''Nellai'', ''TEN''],
     city_row ''Tiruppur'' ''Tiruppur, Tamil Nadu, India'' ''Tiruppur'' ''Tamil Nadu'' ''DEMO_TUP'' (111085 / 10000) (773411 / 10000)
       [''Tirupur'', ''TUP''],
     city_row ''Vellore'' ''Vellore, Tamil Nadu, India'' ''Vellore'' ''Tamil Nadu'' ''DEMO_VLR'' (129165 / 10000) (791325 / 10000)
       [''Katpadi'', ''VLR'', ''KPD''],
     city_row ''Erode'' ''Erode, Tamil Nadu, India'' ''Erode'' ''Tamil Nadu'' ''DEMO_ED'' (11341 / 1000) (777172 / 10000)
       [''ED''],
     city_row ''Thoothukudi'' ''Thoothukudi, Tamil Nadu, India'' ''Thoothukudi'' ''Tamil Nadu'' ''DEMO_TCR'' (87642 / 10000) (781348 / 10000)
       [''Tuticorin'', ''TCR'', ''TN''],
     city_row ''Thanjavur'' ''Thanjavur, Tamil Nadu, India'' ''Thanjavur'' ''Tamil Nadu'' ''DEMO_TJ'' (10787 / 1000) (791378 / 10000)
       [''Tanjore'', ''TJ''],
     city_row ''Nagercoil'' ''Nagercoil, Tamil Nadu, India'' ''Nagercoil'' ''Tamil Nadu'' ''DEMO_NCJ'' (81833 / 10000) (774119 / 10000)
       [''Kanyakumari'', ''NCJ'', ''CAPE''],
     city_row ''Kanchipuram'' ''Kanchipuram, Tamil Nadu, India'' ''Kanchipuram'' ''Tamil Nadu'' ''DEMO_CJ'' (128342 / 10000) (797036 / 10000)
       [''Kanchi'', ''Silk City'', ''CJ''],
     city_row ''Udhagamandalam'' ''Udhagamandalam, Tamil Nadu, India'' ''Udhagamandalam'' ''Tamil Nadu'' ''DEMO_UAM'' (114102 / 10000) (76695 / 1000)
       [''Ooty'', ''Ootacamund'', ''UAM''],
     city_row ''Hosur'' ''Hosur, Tamil Nadu, India'' ''Hosur'' ''Tamil Nadu'' ''DEMO_HSRA'' (127409 / 10000) (778253 / 10000)
       [''HSRA'']]"

definition telangana_andhra_cities :: "city_data list" where
  "telangana_andhra_cities = [
     city_row ''Hyderabad'' ''Hyderabad, Telangana, India'' ''Hyderabad'' ''Telangana'' ''DEMO_HYD'' (17385 / 1000) (784867 / 10000)
       [''Secunderabad'', ''HYD'', ''SC'', ''RGIA'', ''Shamshabad'', ''Cyberabad''],
     city_row ''Warangal'' ''Warangal, Telangana, India'' ''Warangal'' ''Telangana'' ''DEMO_WGC'' (179689 / 10000) (795941 / 10000)
       [''Kazipet'', ''WGC'', ''KZJ''],
     city_row ''Nizamabad'' ''Nizamabad, Telangana, India'' ''Nizamabad'' ''Telangana'' ''DEMO_NZB'' (186725 / 10000) (780941 / 10000)
       [''NZB''],
     city_row ''Karimnagar'' ''Karimnagar, Telangana, India'' ''Karimnagar'' ''Telangana'' ''DEMO_KRMR'' (184386 / 10000) (791288 / 10000)
       [''KRMR''],
     city_row ''Visakhapatnam'' ''Visakhapatnam, Andhra Pradesh, India'' ''Visakhapatnam'' ''Andhra Pradesh'' ''DEMO_VTZ'' (176868 / 10000) (832185 / 10000)
       [''Vizag'', ''VTZ'', ''VSKP'', ''Waltair''],
     city_row ''Vijayawada'' ''Vijayawada, Andhra Pradesh, India'' ''Vijayawada'' ''Andhra Pradesh'' ''DEMO_VGA'' (165062 / 10000) (80648 / 1000)
       [''Bezawada'', ''VGA'', ''BZA''],
     city_row ''Guntur'' ''Guntur, Andhra Pradesh, India'' ''Guntur'' ''Andhra Pradesh'' ''DEMO_GNT'' (163067 / 10000) (804365 / 10000)
       [''GNT'', ''Amaravati''],
     city_row ''Nellore'' ''Nellore, Andhra Pradesh, India'' ''Nellore'' ''Andhra Pradesh'' ''DEMO_NLR'' (144426 / 10000) (799865 / 10000)
       [''NLR''],
     city_row ''Kurnool'' ''Kurnool, Andhra Pradesh, India'' ''Kurnool'' ''Andhra Pradesh'' ''DEMO_KJB'' (158281 / 10000) (780373 / 10000)
       [''KJB'', ''KRNT''],
     city_row ''Rajahmundry'' ''Rajahmundry, Andhra Pradesh, India'' ''Rajahmundry'' ''Andhra Pradesh'' ''DEMO_RJA'' (170005 / 10000) (81804 / 1000)
       [''Rajamahendravaram'', ''RJA'', ''RJY''],
     city_row ''Tirupati'' ''Tirupati, Andhra Pradesh, India'' ''Tirupati'' ''Andhra Pradesh'' ''DEMO_TIR'' (136288 / 10000) (794192 / 10000)
       [''TPTY'', ''TIR'', ''Tirumala''],
     city_row ''Kadapa'' ''Kadapa, Andhra Pradesh, India'' ''Kadapa'' ''Andhra Pradesh'' ''DEMO_CDP'' (144673 / 10000) (788242 / 10000)
       [''Cuddapah'', ''CDP'', ''HX''],
     city_row ''Anantapur'' ''Anantapur, Andhra Pradesh, India'' ''Anantapur'' ''Andhra Pradesh'' ''DEMO_ATP'' (146819 / 10000) (776006 / 10000)
       [''ATP'']]"

definition west_bengal_cities :: "city_data list" where
  "west_bengal_cities = [
     city_row ''Kolkata'' ''Kolkata, West Bengal, India'' ''Kolkata'' ''West Bengal'' ''DEMO_CCU'' (225726 / 10000) (883639 / 10000)
       [''Calcutta'', ''CCU'', ''HWH'', ''Howrah'', ''SDA'', ''Sealdah'', ''Dumdum''],
     city_row ''Siliguri'' ''Siliguri, West Bengal, India'' ''Siliguri'' ''West Bengal'' ''DEMO_IXB'' (267271 / 10000) (883953 / 10000)
       [''Bagdogra'', ''NJP'', ''New Jalpaiguri'', ''IXB''],
     city_row ''Asansol'' ''Asansol, West Bengal, India'' ''Asansol'' ''West Bengal'' ''DEMO_ASN'' (236739 / 10000) (869524 / 10000)
       [''ASN''],
     city_row ''Durgapur'' ''Durgapur, West Bengal, India'' ''Durgapur'' ''West Bengal'' ''DEMO_RDP'' (235204 / 10000) (873119 / 10000)
       [''RDP'', ''Steel City''],
     city_row ''Kharagpur'' ''Kharagpur, West Bengal, India'' ''Kharagpur'' ''West Bengal'' ''DEMO_KGP'' (22346 / 1000) (87232 / 1000)
       [''IIT Kharagpur'', ''KGP''],
     city_row ''Darjeeling'' ''Darjeeling, West Bengal, India'' ''Darjeeling'' ''West Bengal'' ''DEMO_DJ'' (27041 / 1000) (882663 / 10000)
       [''DJ'', ''Queen of Hills'']]"

definition gujarat_cities :: "city_data list" where
  "gujarat_cities = [
     city_row ''Ahmedabad'' ''Ahmedabad, Gujarat, India'' ''Ahmedabad'' ''Gujarat'' ''DEMO_AMD'' (230225 / 10000) (725714 / 10000)
       [''Amdavad'', ''AMD'', ''ADI'', ''Sabarmati''],
     city_row ''Surat'' ''Surat, Gujarat, India'' ''Surat'' ''Gujarat'' ''DEMO_STV'' (211702 / 10000) (728311 / 10000)
       [''Diamond City'', ''STV'', ''ST''],
     city_row ''Vadodara'' ''Vadodara, Gujarat, India'' ''Vadodara'' ''Gujarat'' ''DEMO_BDQ'' (223072 / 10000) (731812 / 10000)
       [''Baroda'', ''BDQ'', ''BRC''],
     city_row ''Rajkot'' ''Rajkot, Gujarat, India'' ''Rajkot'' ''Gujarat'' ''DEMO_RAJ'' (223039 / 10000) (708022 / 10000)
       [''RAJ'', ''RJT''],
     city_row ''Bhavnagar'' ''Bhavnagar, Gujarat, India'' ''Bhavnagar'' ''Gujarat'' ''DEMO_BHU'' (217645 / 10000) (721519 / 10000)
       [''BHU'', ''BVC''],
     city_row ''Jamnagar'' ''Jamnagar, Gujarat, India'' ''Jamnagar'' ''Gujarat'' ''DEMO_JGA'' (224707 / 10000) (700577 / 10000)
       [''JGA''],
     city_row ''Gandhinagar'' ''Gandhinagar, Gujarat, India'' ''Gandhinagar'' ''Gujarat'' ''DEMO_GND'' (232156 / 10000) (726369 / 10000)
       [''Capital of Gujarat''],
     city_row ''Anand'' ''Anand, Gujarat, India'' ''Anand'' ''Gujarat'' ''DEMO_ANND'' (225645 / 10000) (729289 / 10000)
       [''Milk City'', ''Amul'', ''ANND''],
     city_row ''Vapi'' ''Vapi, Gujarat, India'' ''Vapi'' ''Gujarat'' ''DEMO_VAPI'' (203893 / 10000) (729106 / 10000)
       [''VAPI''],
     city_row ''Bhuj'' ''Bhuj, Gujarat, India'' ''Bhuj'' ''Gujarat'' ''DEMO_BHJ'' (23242 / 1000) (696669 / 10000)
       [''Kutch'', ''BHJ'']]"

definition rajasthan_cities :: "city_data list" where
  "rajasthan_cities = [
     city_row ''Jaipur'' ''Jaipur, Rajasthan, India'' ''Jaipur'' ''Rajasthan'' ''DEMO_JAI'' (269124 / 10000) (757873 / 10000)
       [''Pink City'', ''JAI'', ''JP''],
     city_row ''Jodhpur'' ''Jodhpur, Rajasthan, India'' ''Jodhpur'' ''Rajasthan'' ''DEMO_JDH'' (262389 / 10000) (730243 / 10000)
       [''Blue City'', ''Sun City'', ''JDH'', ''JU''],
     city_row ''Udaipur'' ''Udaipur, Rajasthan, India'' ''Udaipur'' ''Rajasthan'' ''DEMO_UDR'' (245854 / 10000) (737125 / 10000)
       [''City of Lakes'', ''UDR'', ''UDZ''],
     city_row ''Kota'' ''Kota, Rajasthan, India'' ''Kota'' ''Rajasthan'' ''DEMO_KOTA'' (252138 / 10000) (758648 / 10000)
       [''KOTA''],
     city_row ''Bikaner'' ''Bikaner, Rajasthan, India'' ''Bikaner'' ''Rajasthan'' ''DEMO_BKB'' (280229 / 10000) (733119 / 10000)
       [''BKB''],
     city_row ''Ajmer'' ''Ajmer, Rajasthan, India'' ''Ajmer'' ''Rajasthan'' ''DEMO_AII'' (264499 / 10000) (746399 / 10000)
       [''Pushkar'', ''AII''],
     city_row ''Jaisalmer'' ''Jaisalmer, Rajasthan, India'' ''Jaisalmer'' ''Rajasthan'' ''DEMO_JSA'' (269157 / 10000) (709083 / 10000)
       [''Golden City'', ''JSA''],
     city_row ''Alwar'' ''Alwar, Rajasthan, India'' ''Alwar'' ''Rajasthan'' ''DEMO_AWR'' (27553 / 1000) (766346 / 10000)
       [''AWR'']]"

definition kerala_cities :: "city_data list" where
  "kerala_cities = [
     city_row ''Kochi'' ''Kochi, Kerala, India'' ''Kochi'' ''Kerala'' ''DEMO_COK'' (99312 / 10000) (762673 / 10000)
       [''Cochin'', ''Ernakulam'', ''COK'', ''ERS''],
     city_row ''Thiruvananthapuram'' ''Thiruvananthapuram, Kerala, India'' ''Thiruvananthapuram'' ''Kerala'' ''DEMO_TRV'' (85241 / 10000) (769366 / 10000)
       [''Trivandrum'', ''TRV'', ''TVC''],
     city_row ''Kozhikode'' ''Kozhikode, Kerala, India'' ''Kozhikode'' ''Kerala'' ''DEMO_CCJ'' (112588 / 10000) (757804 / 10000)
       [''Calicut'', ''CCJ'', ''CLT''],
     city_row ''Thrissur'' ''Thrissur, Kerala, India'' ''Thrissur'' ''Kerala'' ''DEMO_TCR_KER'' (105276 / 10000) (762144 / 10000)
       [''Trichur'', ''TCR''],
     city_row ''Kollam'' ''Kollam, Kerala, India'' ''Kollam'' ''Kerala'' ''DEMO_QLN'' (88932 / 10000) (766141 / 10000)
       [''Quilon'', ''QLN''],
     city_row ''Alappuzha'' ''Alappuzha, Kerala, India'' ''Alappuzha'' ''Kerala'' ''DEMO_ALLP'' (94981 / 10000) (763388 / 10000)
       [''Alleppey'', ''ALLP''],
     city_row ''Palakkad'' ''Palakkad, Kerala, India'' ''Palakkad'' ''Kerala'' ''DEMO_PGT'' (107867 / 10000) (766548 / 10000)
       [''Palghat'', ''PGT''],
     city_row ''Kannur'' ''Kannur, Kerala, India'' ''Kannur'' ''Kerala'' ''DEMO_CNN'' (118745 / 10000) (753704 / 10000)
       [''Cannanore'', ''CNN'', ''CAN''],
     city_row ''Kottayam'' ''Kottayam, Kerala, India'' ''Kottayam'' ''Kerala'' ''DEMO_KTYM'' (95916 / 10000) (765222 / 10000)
       [''KTYM'']]"

definition uttar_pradesh_cities :: "city_data list" where
  "uttar_pradesh_cities = [
     city_row ''Lucknow'' ''Lucknow, Uttar Pradesh, India'' ''Lucknow'' ''Uttar Pradesh'' ''DEMO_LKO'' (268467 / 10000) (809462 / 10000)
       [''LKO'', ''Charbagh'', ''Nawabs''],
     city_row ''Kanpur'' ''Kanpur, Uttar Pradesh, India'' ''Kanpur'' ''Uttar Pradesh'' ''DEMO_KNU'' (264499 / 10000) (803319 / 10000)
       [''CNB'', ''KNU''],
     city_row ''Varanasi'' ''Varanasi, Uttar Pradesh, India'' ''Varanasi'' ''Uttar Pradesh'' ''DEMO_VNS'' (253176 / 10000) (829739 / 10000)
       [''Banaras'', ''Benares'', ''Kashi'', ''VNS'', ''BSB''],
     city_row ''Agra'' ''Agra, Uttar Pradesh, India'' ''Agra'' ''Uttar Pradesh'' ''DEMO_AGR'' (271767 / 10000) (780081 / 10000)
       [''Taj'', ''Taj Mahal'', ''AGR'', ''AGC''],
     city_row ''Prayagraj'' ''Prayagraj, Uttar Pradesh, India'' ''Prayagraj'' ''Uttar Pradesh'' ''DEMO_IXD'' (254358 / 10000) (818463 / 10000)
       [''Allahabad'', ''PRYJ'', ''IXD'', ''Sangam''],
     city_row ''Meerut'' ''Meerut, Uttar Pradesh, India'' ''Meerut'' ''Uttar Pradesh'' ''DEMO_MTC'' (289845 / 10000) (777064 / 10000)
       [''MTC''],
     city_row ''Bareilly'' ''Bareilly, Uttar Pradesh, India'' ''Bareilly'' ''Uttar Pradesh'' ''DEMO_BEK'' (28367 / 1000) (794304 / 10000)
       [''BEK'', ''BE''],
     city_row ''Aligarh'' ''Aligarh, Uttar Pradesh, India'' ''Aligarh'' ''Uttar Pradesh'' ''DEMO_ALJN'' (278974 / 10000) (78088 / 1000)
       [''ALJN''],
     city_row ''Gorakhpur'' ''Gorakhpur, Uttar Pradesh, India'' ''Gorakhpur'' ''Uttar Pradesh'' ''DEMO_GOP'' (267606 / 10000) (833732 / 10000)
       [''GOP'', ''GKP''],
     city_row ''Jhansi'' ''Jhansi, Uttar Pradesh, India'' ''Jhansi'' ''Uttar Pradesh'' ''DEMO_JHS'' (254484 / 10000) (785685 / 10000)
       [''VGLB'', ''JHS''],
     city_row ''Mathura'' ''Mathura, Uttar Pradesh, India'' ''Mathura'' ''Uttar Pradesh'' ''DEMO_MTJ'' (274924 / 10000) (776737 / 10000)
       [''Vrindavan'', ''MTJ''],
     city_row ''Ayodhya'' ''Ayodhya, Uttar Pradesh, India'' ''Ayodhya'' ''Uttar Pradesh'' ''DEMO_AYJ'' (267922 / 10000) (821998 / 10000)
       [''Faizabad'', ''AYJ'', ''AY'', ''Ram Mandir'']]"

definition punjab_hills_cities :: "city_data list" where
  "punjab_hills_cities = [
     city_row ''Ludhiana'' ''Ludhiana, Punjab, India'' ''Ludhiana'' ''Punjab'' ''DEMO_LUH'' (30901 / 1000) (758573 / 10000)
       [''LDH'', ''LUH''],
     city_row ''Amritsar'' ''Amritsar, Punjab, India'' ''Amritsar'' ''Punjab'' ''DEMO_ATQ'' (31634 / 1000) (748723 / 10000)
       [''Golden Temple'', ''ATQ'', ''ASR''],
     city_row ''Jalandhar'' ''Jalandhar, Punjab, India'' ''Jalandhar'' ''Punjab'' ''DEMO_JUC'' (31326 / 1000) (755762 / 10000)
       [''JUC''],
     city_row ''Patiala'' ''Patiala, Punjab, India'' ''Patiala'' ''Punjab'' ''DEMO_PTA'' (303398 / 10000) (763869 / 10000)
       [''PTA''],
     city_row ''Bathinda'' ''Bathinda, Punjab, India'' ''Bathinda'' ''Punjab'' ''DEMO_BUP'' (30211 / 1000) (749455 / 10000)
       [''BTI'', ''BUP''],
     city_row ''Dehradun'' ''Dehradun, Uttarakhand, India'' ''Dehradun'' ''Uttarakhand'' ''DEMO_DED'' (303165 / 10000) (780322 / 10000)
       [''DDN'', ''DED''],
     city_row ''Haridwar'' ''Haridwar, Uttarakhand, India'' ''Haridwar'' ''Uttarakhand'' ''DEMO_HW'' (299457 / 10000) (781642 / 10000)
       [''Hardwar'', ''HW''],
     city_row ''Rishikesh'' ''Rishikesh, Uttarakhand, India'' ''Rishikesh'' ''Uttarakhand'' ''DEMO_RKSH'' (300869 / 10000) (782676 / 10000)
       [''RKSH'', ''Yoga Capital''],
     city_row ''Nainital'' ''Nainital, Uttarakhand, India'' ''Nainital'' ''Uttarakhand'' ''DEMO_NTL'' (293919 / 10000) (794542 / 10000)
       [''Lake City'', ''NTL''],
     city_row ''Shimla'' ''Shimla, Himachal Pradesh, India'' ''Shimla'' ''Himachal Pradesh'' ''DEMO_SLV'' (311048 / 10000) (771734 / 10000)
       [''Simla'', ''SLV'', ''SML''],
     city_row ''Dharamsala'' ''Dharamsala, Himachal Pradesh, India'' ''Dharamsala'' ''Himachal Pradesh'' ''DEMO_DHM'' (32219 / 1000) (763234 / 10000)
       [''McLeod Ganj'', ''DHM''],
     city_row ''Kullu'' ''Kullu, Himachal Pradesh, India'' ''Kullu'' ''Himachal Pradesh'' ''DEMO_KUU'' (319579 / 10000) (771095 / 10000)
       [''Manali'', ''KUU''],
     city_row ''Srinagar'' ''Srinagar, Jammu and Kashmir, India'' ''Srinagar'' ''Jammu and Kashmir'' ''DEMO_SXR'' (340837 / 10000) (747973 / 10000)
       [''Dal Lake'', ''SXR''],
     city_row ''Jammu'' ''Jammu, Jammu and Kashmir, India'' ''Jammu'' ''Jammu and Kashmir'' ''DEMO_IXJ'' (327266 / 10000) (74857 / 1000)
       [''JAT'', ''IXJ'', ''Tawi''],
     city_row ''Leh'' ''Leh, Ladakh, India'' ''Leh'' ''Ladakh'' ''DEMO_IXL'' (341526 / 10000) (775771 / 10000)
       [''Ladakh'', ''IXL'']]"

definition madhya_pradesh_cities :: "city_data list" where
  "madhya_pradesh_cities = [
     city_row ''Indore'' ''Indore, Madhya Pradesh, India'' ''Indore'' ''Madhya Pradesh'' ''DEMO_IDR'' (227196 / 10000) (758577 / 10000)
       [''Cleanest City'', ''IDR'', ''INDB''],
     city_row ''Bhopal'' ''Bhopal, Madhya Pradesh, India'' ''Bhopal'' ''Madhya Pradesh'' ''DEMO_BHO'' (232599 / 10000) (774126 / 10000)
       [''BHO'', ''BPL'', ''Habibganj'', ''Rani Kamlapati''],
     city_row ''Jabalpur'' ''Jabalpur, Madhya Pradesh, India'' ''Jabalpur'' ''Madhya Pradesh'' ''DEMO_JLR'' (231815 / 10000) (799864 / 10000)
       [''JBP'', ''JLR'', ''Bhedaghat''],
     city_row ''Gwalior'' ''Gwalior, Madhya Pradesh, India'' ''Gwalior'' ''Madhya Pradesh'' ''DEMO_GWL'' (262183 / 10000) (781828 / 10000)
       [''GWL''],
     city_row ''Ujjain'' ''Ujjain, Madhya Pradesh, India'' ''Ujjain'' ''Madhya Pradesh'' ''DEMO_UJN'' (231765 / 10000) (757885 / 10000)
       [''Mahakaleshwar'', ''UJN''],
     city_row ''Raipur'' ''Raipur, Chhattisgarh, India'' ''Raipur'' ''Chhattisgarh'' ''DEMO_RPR'' (212514 / 10000) (816296 / 10000)
       [''RPR''],
     city_row ''Bilaspur'' ''Bilaspur, Chhattisgarh, India'' ''Bilaspur'' ''Chhattisgarh'' ''DEMO_PAB'' (220797 / 10000) (821409 / 10000)
       [''PAB'', ''BSP''],
     city_row ''Bhilai'' ''Bhilai, Chhattisgarh, India'' ''Bhilai'' ''Chhattisgarh'' ''DEMO_DURG'' (211938 / 10000) (813509 / 10000)
       [''Durg'', ''Steel City'']]"

definition bihar_jharkhand_cities :: "city_data list" where
  "bihar_jharkhand_cities = [
     city_row ''Patna'' ''Patna, Bihar, India'' ''Patna'' ''Bihar'' ''DEMO_PAT'' (255941 / 10000) (851376 / 10000)
       [''PAT'', ''PNBE'', ''Pataliputra''],
     city_row ''Gaya'' ''Gaya, Bihar, India'' ''Gaya'' ''Bihar'' ''DEMO_GAY'' (247914 / 10000) (850002 / 10000)
       [''Bodh Gaya'', ''GAY''],
     city_row ''Muzaffarpur'' ''Muzaffarpur, Bihar, India'' ''Muzaffarpur'' ''Bihar'' ''DEMO_MFP'' (261209 / 10000) (853647 / 10000)
       [''MFP''],
     city_row ''Bhagalpur'' ''Bhagalpur, Bihar, India'' ''Bhagalpur'' ''Bihar'' ''DEMO_BGP'' (252425 / 10000) (869842 / 10000)
       [''BGP'', ''Silk City''],
     city_row ''Ranchi'' ''Ranchi, Jharkhand, India'' ''Ranchi'' ''Jharkhand'' ''DEMO_IXR'' (233441 / 10000) (853096 / 10000)
       [''IXR'', ''RNC''],
     city_row ''Jamshedpur'' ''Jamshedpur, Jharkhand, India'' ''Jamshedpur'' ''Jharkhand'' ''DEMO_IXW'' (228046 / 10000) (862029 / 10000)
       [''Tatanagar'', ''Steel City'', ''TATA''],
     city_row ''Dhanbad'' ''Dhanbad, Jharkhand, India'' ''Dhanbad'' ''Jharkhand'' ''DEMO_DHN'' (237957 / 10000) (864304 / 10000)
       [''Coal Capital'', ''DHN'']]"

definition odisha_cities :: "city_data list" where
  "odisha_cities = [
     city_row ''Bhubaneswar'' ''Bhubaneswar, Odisha, India'' ''Bhubaneswar'' ''Odisha'' ''DEMO_BBI'' (202961 / 10000) (858245 / 10000)
       [''Temple City'', ''BBI'', ''BBS''],
     city_row ''Cuttack'' ''Cuttack, Odisha, India'' ''Cuttack'' ''Odisha'' ''DEMO_CTC'' (204625 / 10000) (858828 / 10000)
       [''Silver City'', ''CTC''],
     city_row ''Puri'' ''Puri, Odisha, India'' ''Puri'' ''Odisha'' ''DEMO_PURI'' (198135 / 10000) (858312 / 10000)
       [''Jagannath Puri'', ''PURI''],
     city_row ''Rourkela'' ''Rourkela, Odisha, India'' ''Rourkela'' ''Odisha'' ''DEMO_RRK'' (222604 / 10000) (848536 / 10000)
       [''RRK'', ''ROU'']]"

definition northeast_goa_cities :: "city_data list" where
  "northeast_goa_cities = [
     city_row ''Guwahati'' ''Guwahati, Assam, India'' ''Guwahati'' ''Assam'' ''DEMO_GAU'' (261445 / 10000) (917362 / 10000)
       [''GAU'', ''GHY'', ''Dispur''],
     city_row ''Silchar'' ''Silchar, Assam, India'' ''Silchar'' ''Assam'' ''DEMO_IXS'' (248333 / 10000) (927789 / 10000)
       [''IXS''],
     city_row ''Agartala'' ''Agartala, Tripura, India'' ''Agartala'' ''Tripura'' ''DEMO_IXA'' (238315 / 10000) (912868 / 10000)
       [''IXA''],
     city_row ''Shillong'' ''Shillong, Meghalaya, India'' ''Shillong'' ''Meghalaya'' ''DEMO_SHL'' (255788 / 10000) (918933 / 10000)
       [''Scotland of East'', ''SHL''],
     city_row ''Imphal'' ''Imphal, Manipur, India'' ''Imphal'' ''Manipur'' ''DEMO_IMF'' (24817 / 1000) (939368 / 10000)
       [''IMF''],
     city_row ''Aizawl'' ''Aizawl, Mizoram, India'' ''Aizawl'' ''Mizoram'' ''DEMO_AJL'' (237271 / 10000) (927176 / 10000)
       [''AJL''],
     city_row ''Dimapur'' ''Dimapur, Nagaland, India'' ''Dimapur'' ''Nagaland'' ''DEMO_DMU'' (259068 / 10000) (937273 / 10000)
       [''DMU''],
     city_row ''Gangtok'' ''Gangtok, Sikkim, India'' ''Gangtok'' ''Sikkim'' ''DEMO_PYG'' (273389 / 10000) (886065 / 10000)
       [''Pakyong''],
     city_row ''Goa (Panaji)'' ''Panaji, Goa, India'' ''Goa'' ''Goa'' ''DEMO_GOI'' (154909 / 10000) (738278 / 10000)
       [''Goa'', ''Panjim'', ''Margao'', ''Madgaon'', ''Vasco'', ''Mopa'', ''GOI'', ''GOX'', ''MAO''],
     city_row ''Puducherry'' ''Puducherry, India'' ''Puducherry'' ''Puducherry'' ''DEMO_PNY'' (119416 / 10000) (798083 / 10000)
       [''Pondicherry'', ''PNY'', ''White Town''],
     city_row ''Port Blair'' ''Port Blair, Andaman and Nicobar Islands, India'' ''Port Blair'' ''Andaman and Nicobar Islands'' ''DEMO_IXZ'' (116234 / 10000) (927265 / 10000)
       [''Andaman'', ''IXZ'']]"

definition ALL_INDIAN_CITIES :: "city_data list" where
  "ALL_INDIAN_CITIES =
     karnataka_cities @
     maharashtra_cities @
     delhi_haryana_cities @
     tamil_nadu_cities @
     telangana_andhra_cities @
     west_bengal_cities @
     gujarat_cities @
     rajasthan_cities @
     kerala_cities @
     uttar_pradesh_cities @
     punjab_hills_cities @
     madhya_pradesh_cities @
     bihar_jharkhand_cities @
     odisha_cities @
     northeast_goa_cities"

lemmas city_tables =
  karnataka_cities_def
  maharashtra_cities_def
  delhi_haryana_cities_def
  tamil_nadu_cities_def
  telangana_andhra_cities_def
  west_bengal_cities_def
  gujarat_cities_def
  rajasthan_cities_def
  kerala_cities_def
  uttar_pradesh_cities_def
  punjab_hills_cities_def
  madhya_pradesh_cities_def
  bihar_jharkhand_cities_def
  odisha_cities_def
  northeast_goa_cities_def

section \<open>The search\<close>

text \<open>The four buckets, numbered; \<open>None\<close> when no bucket takes the city.\<close>

definition city_bucket :: "string \<Rightarrow> city_data \<Rightarrow> nat option" where
  "city_bucket q c =
     (let name = toLowerCase (ct_placeName c);
          cityName = toLowerCase (ct_city c);
          address = toLowerCase (ct_placeAddress c);
          state' = toLowerCase (ct_state c);
          aliases = map toLowerCase (ct_aliases c)
      in if name = q \<or> cityName = q then Some 0
         else if startsWith name q \<or> startsWith cityName q then Some 1
         else if list_ex (\<lambda>a. a = q \<or> startsWith a q) aliases then Some 2
         else if strIncludes name q \<or> strIncludes address q \<or> strIncludes state' q
                 \<or> list_ex (\<lambda>a. strIncludes a q) aliases then Some 3
         else None)"

record buckets =
  bk_exact :: "city_data list"
  bk_prefix :: "city_data list"
  bk_alias :: "city_data list"
  bk_contains :: "city_data list"

definition into_bucket :: "string \<Rightarrow> city_data \<Rightarrow> buckets \<Rightarrow> buckets" where
  "into_bucket q c b =
     (case city_bucket q c of
        None \<Rightarrow> b
      | Some n \<Rightarrow>
          if n = 0 then b\<lparr>bk_exact := bk_exact b @ [c]\<rparr>
          else if n = 1 then b\<lparr>bk_prefix := bk_prefix b @ [c]\<rparr>
          else if n = 2 then b\<lparr>bk_alias := bk_alias b @ [c]\<rparr>
          else b\<lparr>bk_contains := bk_contains b @ [c]\<rparr>)"

definition no_buckets :: buckets where
  "no_buckets = \<lparr> bk_exact = [], bk_prefix = [], bk_alias = [], bk_contains = [] \<rparr>"

definition combined :: "string \<Rightarrow> city_data list \<Rightarrow> city_data list" where
  "combined q cities =
     (let b = fold (into_bucket q) cities no_buckets
      in bk_exact b @ bk_prefix b @ bk_alias b @ bk_contains b)"

text \<open>The loop that keeps the first city of each \<open>eLoc\<close>, and stops when \<open>limit\<close> are found.\<close>

fun first_per_eLoc :: "nat \<Rightarrow> string list \<Rightarrow> city_data list \<Rightarrow> city_data list \<Rightarrow> city_data list" where
  "first_per_eLoc limit seen deduped [] = deduped"
| "first_per_eLoc limit seen deduped (c # cs) =
     (if ct_eLoc c \<in> set seen then first_per_eLoc limit seen deduped cs
      else (let deduped' = deduped @ [c]
            in if limit \<le> length deduped' then deduped'
               else first_per_eLoc limit (ct_eLoc c # seen) deduped' cs))"

definition search_in :: "city_data list \<Rightarrow> string \<Rightarrow> nat \<Rightarrow> city_data list" where
  "search_in cities query limit =
     (let q = toLowerCase (trim query)
      in if q = [] then take limit cities else first_per_eLoc limit [] [] (combined q cities))"

definition searchIndianCities :: "string \<Rightarrow> nat \<Rightarrow> city_data list" where
  "searchIndianCities query limit = search_in ALL_INDIAN_CITIES query limit"

section \<open>The table is well formed\<close>

lemma row_simps [simp]:
  "ct_placeName (city_row n a c s e la lo al) = n" "ct_placeAddress (city_row n a c s e la lo al) = a"
  "ct_city (city_row n a c s e la lo al) = c" "ct_state (city_row n a c s e la lo al) = s"
  "ct_eLoc (city_row n a c s e la lo al) = e" "ct_latitude (city_row n a c s e la lo al) = fl la"
  "ct_longitude (city_row n a c s e la lo al) = fl lo" "ct_aliases (city_row n a c s e la lo al) = al"
  by (simp_all add: city_row_def)

lemma eLoc_suffixes: "distinct (map (drop 5) (map ct_eLoc ALL_INDIAN_CITIES))"
  by (simp add: ALL_INDIAN_CITIES_def city_tables)

lemma eLocs_distinct: "distinct (map ct_eLoc ALL_INDIAN_CITIES)"
  using eLoc_suffixes by (simp only: distinct_map)

lemma fl_numeral_bounds:
  "numeral m \<le> x \<Longrightarrow> numeral m \<le> (2::int) ^ 53 \<Longrightarrow> numeral m \<le> fl x"
  "x \<le> numeral m \<Longrightarrow> numeral m \<le> (2::int) ^ 53 \<Longrightarrow> fl x \<le> numeral m"
  using fl_mono [of "numeral m" x] fl_mono [of x "numeral m"] fl_of_int [of "numeral m"] by simp_all

definition in_india :: "city_data \<Rightarrow> bool" where
  "in_india c = (6 \<le> ct_latitude c \<and> ct_latitude c \<le> 37 \<and> 68 \<le> ct_longitude c \<and> ct_longitude c \<le> 98)"

lemma cities_in_india: "list_all in_india ALL_INDIAN_CITIES"
  by (simp add: ALL_INDIAN_CITIES_def city_tables in_india_def fl_numeral_bounds)

lemma cities_named: "list_all (\<lambda>c. ct_placeName c \<noteq> [] \<and> ct_city c \<noteq> [] \<and> ct_eLoc c \<noteq> []) ALL_INDIAN_CITIES"
  by (simp add: ALL_INDIAN_CITIES_def city_tables)

lemma catalogue_size: "length ALL_INDIAN_CITIES = 173"
  by (simp add: ALL_INDIAN_CITIES_def city_tables)

section \<open>The search is a stable sort\<close>

lemma city_bucket_range: "city_bucket q c = Some n \<Longrightarrow> n < 4"
  by (auto simp: city_bucket_def Let_def split: if_splits)

lemma buckets_filled:
  "fold (into_bucket q) cs b =
     \<lparr> bk_exact = bk_exact b @ filter (\<lambda>c. city_bucket q c = Some 0) cs,
       bk_prefix = bk_prefix b @ filter (\<lambda>c. city_bucket q c = Some 1) cs,
       bk_alias = bk_alias b @ filter (\<lambda>c. city_bucket q c = Some 2) cs,
       bk_contains = bk_contains b @ filter (\<lambda>c. city_bucket q c = Some 3) cs \<rparr>"
proof (induction cs arbitrary: b)
  case Nil
  then show ?case by simp
next
  case (Cons c cs)
  have "city_bucket q c \<in> {None, Some 0, Some 1, Some 2, Some 3}"
    using city_bucket_range [of q c] by (cases "city_bucket q c") auto
  moreover have "fold (into_bucket q) (c # cs) b = fold (into_bucket q) cs (into_bucket q c b)" by simp
  ultimately show ?case unfolding Cons.IH by (auto simp: into_bucket_def [of q c b])
qed

text \<open>The list of the matches of a kind keeps the order of the catalogue.\<close>

lemma sort_key_buckets:
  assumes "\<forall>x \<in> set xs. k x < (4::nat)"
  shows "sort_key k xs = filter (\<lambda>x. k x = 0) xs @ filter (\<lambda>x. k x = 1) xs
           @ filter (\<lambda>x. k x = 2) xs @ filter (\<lambda>x. k x = 3) xs" (is "_ = ?ys")
proof (rule properties_for_sort_key)
  have cases4: "k x = 0 \<or> k x = 1 \<or> k x = 2 \<or> k x = 3" if "x \<in> set xs" for x
    using assms that by force
  show "mset ?ys = mset xs"
    using assms
  proof (induction xs)
    case (Cons x xs)
    moreover have "k x = 0 \<or> k x = 1 \<or> k x = 2 \<or> k x = 3" using Cons.prems by force
    ultimately show ?case by auto
  qed simp
  have one_kind: "sorted (map k (filter (\<lambda>x. k x = n) xs))" for n
    using sorted_map_same [of k "\<lambda>_. n" xs] .
  show "sorted (map k ?ys)"
    by (auto simp: sorted_append one_kind)
  fix y assume "y \<in> set ?ys"
  then have "y \<in> set xs" by auto
  have part: "filter (\<lambda>x. k y = k x) (filter (\<lambda>x. k x = n) xs) =
      (if k y = n then filter (\<lambda>x. k y = k x) xs else [])" for n
    by (auto simp: filter_empty_conv intro!: filter_cong)
  from cases4 [OF \<open>y \<in> set xs\<close>] show "filter (\<lambda>x. k y = k x) ?ys = filter (\<lambda>x. k y = k x) xs"
    unfolding filter_append part by (elim disjE) simp_all
qed

definition bucket_of :: "string \<Rightarrow> city_data \<Rightarrow> nat" where
  "bucket_of q c = (case city_bucket q c of Some n \<Rightarrow> n | None \<Rightarrow> 4)"

lemma combined_sorted:
  "combined q cs = sort_key (bucket_of q) (filter (\<lambda>c. city_bucket q c \<noteq> None) cs)"
proof -
  have range: "\<forall>c \<in> set (filter (\<lambda>c. city_bucket q c \<noteq> None) cs). bucket_of q c < 4"
    using city_bucket_range by (auto simp: bucket_of_def)
  have same: "filter (\<lambda>c. bucket_of q c = n) (filter (\<lambda>c. city_bucket q c \<noteq> None) cs) =
          filter (\<lambda>c. city_bucket q c = Some n) cs" if "n < 4" for n
    using that by (auto simp: bucket_of_def intro!: filter_cong split: option.splits)
  show ?thesis
    unfolding sort_key_buckets [OF range]
    by (simp add: same combined_def buckets_filled no_buckets_def Let_def del: filter_filter not_None_eq)
qed

lemma first_per_eLoc_distinct:
  assumes "distinct (map ct_eLoc cs)" and "\<forall>c \<in> set cs. ct_eLoc c \<notin> set seen" and "length ds < max 1 limit"
  shows "first_per_eLoc limit seen ds cs = ds @ take (max 1 limit - length ds) cs"
  using assms
proof (induction cs arbitrary: seen ds)
  case Nil
  then show ?case by simp
next
  case (Cons c cs)
  show ?case
  proof (cases "limit \<le> Suc (length ds)")
    case True
    with Cons.prems have "max 1 limit - length ds = 1" by auto
    with True Cons.prems show ?thesis by simp
  next
    case False
    then have "max 1 limit - length ds = Suc (max 1 limit - Suc (length ds))" by auto
    moreover have "first_per_eLoc limit (ct_eLoc c # seen) (ds @ [c]) cs =
        (ds @ [c]) @ take (max 1 limit - length (ds @ [c])) cs"
      using Cons.prems False by (intro Cons.IH) (auto simp: image_iff)
    ultimately show ?thesis using Cons.prems False by simp
  qed
qed

lemma search_in_sorted:
  assumes "distinct (map ct_eLoc cities)" and "toLowerCase (trim query) = q" and "q \<noteq> []"
  shows "search_in cities query limit =
           take (max 1 limit) (sort_key (bucket_of q) (filter (\<lambda>c. city_bucket q c \<noteq> None) cities))"
proof -
  have "distinct (map ct_eLoc (combined q cities))"
    using assms(1) by (auto simp: combined_sorted distinct_map elim: inj_on_subset)
  with assms show ?thesis
    by (simp add: search_in_def first_per_eLoc_distinct combined_sorted)
qed

lemma search_sorted:
  "q \<noteq> [] \<Longrightarrow> toLowerCase (trim query) = q \<Longrightarrow>
     searchIndianCities query limit =
       take (max 1 limit) (sort_key (bucket_of q) (filter (\<lambda>c. city_bucket q c \<noteq> None) ALL_INDIAN_CITIES))"
  unfolding searchIndianCities_def by (rule search_in_sorted [OF eLocs_distinct])

lemma set_search: "set (searchIndianCities query limit) \<subseteq> set ALL_INDIAN_CITIES"
proof (cases "toLowerCase (trim query) = []")
  case True
  then show ?thesis by (simp add: searchIndianCities_def search_in_def set_take_subset)
next
  case False
  then show ?thesis by (auto simp: search_sorted [OF False refl] dest: in_set_takeD)
qed

end
