(* ===== verification/Places.thy ===== *)
theory Places
  imports Schemas Redis Cities "HOL-Library.Product_Lexorder"
begin

text \<open>
  \<open>maps.service.ts\<close>: the search for places.  Text is normalised and cut into tokens, the candidates
  come from the map provider or from the built-in list of cities, clicks that users made are read
  from sorted sets of Redis, every candidate is scored, and the best are suggested.  The provider,
  its token endpoint, the routing-search service and \<open>Math.log1p\<close> are parameters.
\<close>

section \<open>Text\<close>

definition is_word :: "char \<Rightarrow> bool" where
  "is_word c = (97 \<le> char_code c \<and> char_code c \<le> 122 \<or> 48 \<le> char_code c \<and> char_code c \<le> 57)"

text \<open>\<open>replace(/P+/g, ' ')\<close>: every maximal run becomes one space.\<close>

function squeeze :: "(char \<Rightarrow> bool) \<Rightarrow> string \<Rightarrow> string" where
  "squeeze P [] = []"
| "squeeze P (c # s) = (if P c then CHR '' '' # squeeze P (dropWhile P s) else c # squeeze P s)"
  by pat_completeness auto
termination
  by (relation "measure (\<lambda>(P, s). length s)") (auto simp: less_Suc_eq_le length_dropWhile_le)

definition normalizeText :: "string option \<Rightarrow> string" where
  "normalizeText v =
     (if \<not> truthy_str v then []
      else trim (squeeze is_space (squeeze (\<lambda>c. \<not> is_word c) (toLowerCase (trim (the v))))))"

text \<open>\<open>match(/[a-z0-9]+/g)\<close>: the maximal runs of word characters.\<close>

function word_runs :: "string \<Rightarrow> string list" where
  "word_runs [] = []"
| "word_runs (c # s) =
     (if is_word c then takeWhile is_word (c # s) # word_runs (dropWhile is_word s) else word_runs s)"
  by pat_completeness auto
termination
  by (relation "measure length") (auto simp: less_Suc_eq_le length_dropWhile_le)

definition tokenizeText :: "string option \<Rightarrow> string list" where
  "tokenizeText v = filter (\<lambda>t. 2 \<le> length t) (word_runs (normalizeText v))"

section \<open>Candidates\<close>

record candidate =
  cd_placeName :: string
  cd_placeAddress :: string
  cd_eLoc :: string
  cd_latitude :: rat
  cd_longitude :: rat
  cd_city :: string
  cd_state :: string
  cd_source :: string
  cd_sourceOrder :: nat
  cd_normalizedName :: string
  cd_normalizedCity :: string
  cd_normalizedAddress :: string
  cd_normalizedSearchText :: string
  cd_nameTokens :: "string list"
  cd_cityTokens :: "string list"
  cd_addressTokens :: "string list"
  cd_searchTokens :: "string list"

definition document ::
  "string \<Rightarrow> string \<Rightarrow> string \<Rightarrow> rat \<Rightarrow> rat \<Rightarrow> string \<Rightarrow> string \<Rightarrow> string \<Rightarrow> nat \<Rightarrow> string \<Rightarrow> string list \<Rightarrow> candidate" where
  "document placeName placeAddress eLoc latitude longitude city' state' source ord addressText searchParts =
     \<lparr> cd_placeName = placeName, cd_placeAddress = placeAddress, cd_eLoc = eLoc,
       cd_latitude = latitude, cd_longitude = longitude, cd_city = city', cd_state = state',
       cd_source = source, cd_sourceOrder = ord,
       cd_normalizedName = normalizeText (Some placeName), cd_normalizedCity = normalizeText (Some city'),
       cd_normalizedAddress = normalizeText (Some placeAddress),
       cd_normalizedSearchText = normalizeText (Some (join_with '' '' searchParts)),
       cd_nameTokens = tokenizeText (Some placeName), cd_cityTokens = tokenizeText (Some city'),
       cd_addressTokens = tokenizeText (Some addressText),
       cd_searchTokens = tokenizeText (Some (join_with '' '' searchParts)) \<rparr>"

definition buildCandidate :: "nat \<Rightarrow> city_data \<Rightarrow> candidate" where
  "buildCandidate ord c =
     document (ct_placeName c) (ct_placeAddress c) (ct_eLoc c) (ct_latitude c) (ct_longitude c)
       (ct_city c) (ct_state c) ''demo'' ord (ct_placeAddress c @ '' '' @ ct_state c)
       ([ct_placeName c, ct_city c, ct_state c, ct_placeAddress c, ct_eLoc c] @ ct_aliases c)"

text \<open>
  The environment of the search: configuration, the list \<open>ALL_INDIAN_CITIES\<close>, and what is outside
  of the repository.  \<open>mp_search\<close> answers a token, a query and a region, \<open>mp_token\<close> gives the token
  and its \<open>expires_in\<close>; \<open>None\<close> is a failed call.
\<close>

record maps_env =
  mp_DEMO_MODE :: bool
  mp_MMI_CLIENT_ID :: "string option"
  mp_MMI_CLIENT_SECRET :: "string option"
  mp_cities :: "city_data list"
  mp_routing :: "string \<Rightarrow> json \<Rightarrow> json option"
  mp_search :: "string \<Rightarrow> string \<Rightarrow> string \<Rightarrow> json option"
  mp_token :: "(string \<times> int option) option"
  mp_parse :: "string \<Rightarrow> json option"
  mp_stringify :: "json \<Rightarrow> string"
  mp_text :: "json \<Rightarrow> string"
  mp_number_text :: "rat \<Rightarrow> string"
  mp_log1p :: "int \<Rightarrow> rat"

definition DEMO_CITIES :: "maps_env \<Rightarrow> candidate list" where
  "DEMO_CITIES E = map (\<lambda>(i, c). buildCandidate i c) (enumerate 0 (mp_cities E))"

definition useDemoMaps :: "maps_env \<Rightarrow> bool" where
  "useDemoMaps E =
     (mp_DEMO_MODE E \<or>
      (let clientId = toLowerCase (case mp_MMI_CLIENT_ID E of None \<Rightarrow> [] | Some t \<Rightarrow> t);
           clientSecret = toLowerCase (case mp_MMI_CLIENT_SECRET E of None \<Rightarrow> [] | Some t \<Rightarrow> t)
       in clientId = [] \<or> clientSecret = [] \<or> strIncludes clientId ''dummy'' \<or> strIncludes clientSecret ''dummy''))"

definition safe_number :: "json \<Rightarrow> rat" where
  "safe_number v = (case to_number v of None \<Rightarrow> 0 | Some x \<Rightarrow> x)"

definition fallbackState :: "string \<Rightarrow> string" where
  "fallbackState placeAddress =
     (let parts = filter (\<lambda>p. p \<noteq> []) (map trim (split_on (CHR '','') placeAddress))
      in if parts = [] then []
         else if 2 \<le> length parts \<and> toLowerCase (last parts) \<in> {''india'', ''ind''} then last (butlast parts)
         else last parts)"

definition field_text :: "maps_env \<Rightarrow> json \<Rightarrow> string \<Rightarrow> string" where
  "field_text E entry k = trim (mp_text E (jor (jget entry k) (JStr [])))"

definition parseCandidate :: "maps_env \<Rightarrow> json \<Rightarrow> nat \<Rightarrow> string \<Rightarrow> candidate" where
  "parseCandidate E entry ord source =
     (let placeName = field_text E entry ''placeName'';
          placeAddress = field_text E entry ''placeAddress'';
          city0 = trim (mp_text E (jor (jget entry ''city'') (JStr placeName)));
          city1 = (if city0 = [] then placeName else city0);
          state1 = trim (mp_text E (jor (jget entry ''state'') (JStr (fallbackState placeAddress))));
          locality = trim (mp_text E (jor (jor (jget entry ''locality'') (jget entry ''district'')) (JStr [])));
          subLocality = trim (mp_text E (jor (jor (jget entry ''subLocality'') (jget entry ''subDistrict'')) (JStr [])));
          eLoc = field_text E entry ''eLoc''
      in document placeName placeAddress eLoc (safe_number (jget entry ''latitude''))
           (safe_number (jget entry ''longitude'')) city1 state1 source ord
           (join_with '' '' [placeAddress, state1, locality, subLocality])
           [placeName, city1, state1, locality, subLocality, placeAddress, eLoc])"

section \<open>Duplicates\<close>

definition dedupe_key :: "maps_env \<Rightarrow> candidate \<Rightarrow> string" where
  "dedupe_key E c =
     (if cd_eLoc c \<noteq> [] then cd_eLoc c
      else cd_normalizedName c @ '':'' @ cd_normalizedCity c @ '':'' @ mp_number_text E (cd_latitude c) @ '':'' @
        mp_number_text E (cd_longitude c))"

definition dedupe_step :: "maps_env \<Rightarrow> candidate \<Rightarrow> (string \<times> candidate) list \<Rightarrow> (string \<times> candidate) list" where
  "dedupe_step E c m =
     (case map_of m (dedupe_key E c) of
        None \<Rightarrow> AList.update (dedupe_key E c) c m
      | Some old \<Rightarrow> if cd_sourceOrder c < cd_sourceOrder old then AList.update (dedupe_key E c) c m else m)"

definition dedupeCandidates :: "maps_env \<Rightarrow> candidate list \<Rightarrow> candidate list" where
  "dedupeCandidates E cs = map snd (fold (dedupe_step E) cs [])"

section \<open>Coverage and similarity\<close>

definition coverage :: "(string \<Rightarrow> string list \<Rightarrow> bool) \<Rightarrow> string list \<Rightarrow> string list \<Rightarrow> rat" where
  "coverage hit queryTokens candidateTokens =
     (if queryTokens = [] \<or> candidateTokens = [] then 0
      else jdiv (of_nat (length (filter (\<lambda>q. hit q candidateTokens) queryTokens))) (of_nat (length queryTokens)))"

definition prefixCoverage :: "string list \<Rightarrow> string list \<Rightarrow> rat" where
  "prefixCoverage = coverage (\<lambda>q cs. list_ex (\<lambda>c. startsWith c q) cs)"

definition exactCoverage :: "string list \<Rightarrow> string list \<Rightarrow> rat" where
  "exactCoverage = coverage (\<lambda>q cs. q \<in> set cs)"

definition similarity :: "string \<Rightarrow> string \<Rightarrow> rat" where
  "similarity query text =
     (if query = [] \<or> text = [] then 0
      else if strIncludes text query then max (jdiv (of_nat (length query)) (of_nat (length text))) (fl (7 / 10))
      else let qs = tokenizeText (Some query); cs = tokenizeText (Some text)
           in if qs = [] \<or> cs = [] then 0
              else jdiv (of_nat (length (filter (\<lambda>q. list_ex (\<lambda>c. startsWith c q) cs) qs)))
                     (of_nat (max (length qs) (length cs))))"

section \<open>Clicks\<close>

text \<open>
  The state of the search: Redis strings (in the database), sorted sets with their expiry, and the
  hashes of the selected places.
\<close>

record search_db =
  sd_db :: db
  sd_scores :: "string \<Rightarrow> string \<Rightarrow> int"
  sd_expiry :: "string \<Rightarrow> int option"
  sd_meta :: "string \<Rightarrow> (string \<times> string) list"

definition zset_live :: "search_db \<Rightarrow> string \<Rightarrow> bool" where
  "zset_live s key = (case sd_expiry s key of None \<Rightarrow> True | Some t \<Rightarrow> clock (sd_db s) < t)"

text \<open>\<open>ZSCORE\<close>, with the \<open>|| 0\<close> of the readers; an expired set is gone.\<close>

definition zscore :: "search_db \<Rightarrow> string \<Rightarrow> string \<Rightarrow> int" where
  "zscore s key member = (if zset_live s key then sd_scores s key member else 0)"

definition zincrby :: "string \<Rightarrow> int \<Rightarrow> string \<Rightarrow> search_db \<Rightarrow> search_db" where
  "zincrby key n member s =
     s\<lparr>sd_scores := (sd_scores s)(key := (if zset_live s key then sd_scores s key else (\<lambda>_. 0))
          (member := zscore s key member + n)),
       sd_expiry := (sd_expiry s)(key := (if zset_live s key then sd_expiry s key else None))\<rparr>"

definition expire :: "string \<Rightarrow> int \<Rightarrow> search_db \<Rightarrow> search_db" where
  "expire key ttl s = s\<lparr>sd_expiry := (sd_expiry s)(key := Some (clock (sd_db s) + ttl * 1000))\<rparr>"

definition hset :: "string \<Rightarrow> (string \<times> string) list \<Rightarrow> search_db \<Rightarrow> search_db" where
  "hset key fields' s = s\<lparr>sd_meta := (sd_meta s)(key := AList.updates (map fst fields') (map snd fields') (sd_meta s key))\<rparr>"

definition providerCacheKey :: "string \<Rightarrow> string \<Rightarrow> string" where
  "providerCacheKey query region = ''cache:search:provider:'' @ toUpperCase region @ '':'' @ query"

definition selectionMetadataKey :: "string \<Rightarrow> string" where
  "selectionMetadataKey placeId = ''search:selection:meta:'' @ placeId"

definition globalClickKey :: "string \<Rightarrow> string" where
  "globalClickKey region = ''search:clicks:global:'' @ toUpperCase region"

definition or_all :: "string option \<Rightarrow> string" where
  "or_all v = (if truthy_str v then the v else ''all'')"

definition contextClickKey :: "string \<Rightarrow> string option \<Rightarrow> string option \<Rightarrow> string" where
  "contextClickKey region actor field =
     ''search:clicks:context:'' @ toUpperCase region @ '':'' @ or_all actor @ '':'' @ or_all field"

definition queryClickKey :: "string \<Rightarrow> string \<Rightarrow> string" where
  "queryClickKey region query = ''search:clicks:query:'' @ toUpperCase region @ '':'' @ query"

text \<open>\<open>[...new Set(xs)]\<close> keeps the first of equal texts.\<close>

definition unique :: "string list \<Rightarrow> string list" where
  "unique xs = rev (remdups (rev xs))"

definition contextClickKeys :: "string \<Rightarrow> string option \<Rightarrow> string option \<Rightarrow> string list" where
  "contextClickKeys region actor field =
     unique ([contextClickKey region None None] @
       (if truthy_str actor then [contextClickKey region actor None] else []) @
       (if truthy_str field then [contextClickKey region None field] else []) @
       (if truthy_str actor \<or> truthy_str field then [contextClickKey region actor field] else []))"

record click_signals =
  cs_globalClicks :: int
  cs_contextClicks :: int
  cs_queryClicks :: int

text \<open>The pipeline sends its commands in one go and the answers are read by a running index.\<close>

definition click_answers :: "search_db \<Rightarrow> string list \<Rightarrow> string \<Rightarrow> string \<Rightarrow> string list \<Rightarrow> int list" where
  "click_answers s keys region query places =
     concat (map (\<lambda>p. zscore s (globalClickKey region) p # map (\<lambda>k. zscore s k p) keys @
        [zscore s (queryClickKey region query) p]) places)"

definition answer_at :: "int list \<Rightarrow> nat \<Rightarrow> int" where
  "answer_at rs i = (if i < length rs then rs ! i else 0)"

fun read_signals :: "nat \<Rightarrow> int list \<Rightarrow> nat \<Rightarrow> string list \<Rightarrow> (string \<times> click_signals) list" where
  "read_signals n rs i [] = []"
| "read_signals n rs i (p # ps) =
     (p, \<lparr> cs_globalClicks = answer_at rs i,
           cs_contextClicks = sum_list (map (\<lambda>j. answer_at rs (i + 1 + j)) [0..<n]),
           cs_queryClicks = answer_at rs (i + 1 + n) \<rparr>) # read_signals n rs (i + n + 2) ps"

definition loadClickSignals ::
  "search_db \<Rightarrow> candidate list \<Rightarrow> string \<Rightarrow> string \<Rightarrow> string option \<Rightarrow> string option \<Rightarrow> (string \<times> click_signals) list" where
  "loadClickSignals s cs query region actor field =
     (if cs = [] \<or> length query < 2 then []
      else let keys = contextClickKeys region actor field; places = map cd_eLoc cs
           in read_signals (length keys) (click_answers s keys region query places) 0 places)"

text \<open>Assigning to \<open>signals[eLoc]\<close> again overwrites, so the last entry counts.\<close>

definition signals_of :: "(string \<times> click_signals) list \<Rightarrow> string \<Rightarrow> click_signals" where
  "signals_of m p =
     (case map_of (rev m) p of
        None \<Rightarrow> \<lparr> cs_globalClicks = 0, cs_contextClicks = 0, cs_queryClicks = 0 \<rparr> | Some c \<Rightarrow> c)"

section \<open>Scores\<close>

definition CITY_POPULARITY_PRIORS :: "(string \<times> rat) list" where
  "CITY_POPULARITY_PRIORS =
     [(''bengaluru'', fl (95 / 10)), (''mumbai'', 10), (''delhi'', 10), (''hyderabad'', fl (85 / 10)), (''pune'', 8),
      (''chennai'', fl (82 / 10)), (''kolkata'', 8), (''ahmedabad'', fl (72 / 10)), (''jaipur'', fl (64 / 10)),
      (''kochi'', fl (61 / 10)), (''chandigarh'', 6), (''lucknow'', fl (59 / 10))]"

definition popularityPrior :: "candidate \<Rightarrow> rat" where
  "popularityPrior c =
     (case map_of CITY_POPULARITY_PRIORS (cd_normalizedCity c) of
        Some x \<Rightarrow> x
      | None \<Rightarrow> (case map_of CITY_POPULARITY_PRIORS (cd_normalizedName c) of Some x \<Rightarrow> x | None \<Rightarrow> 0))"

datatype match_type = MatchExact | MatchPrefix | MatchToken | MatchContains | MatchFuzzy | MatchProvider

record suggestion =
  sg_placeName :: string
  sg_placeAddress :: string
  sg_eLoc :: string
  sg_latitude :: rat
  sg_longitude :: rat
  sg_city :: string
  sg_state :: string
  sg_source :: string
  sg_matchType :: match_type
  sg_score :: rat
  sg_queryClicks :: int
  sg_contextClicks :: int
  sg_globalClicks :: int
  sg_popularityHint :: "string option"

record lexical =
  lx_exactMatch :: bool
  lx_prefixName :: bool
  lx_prefixCity :: bool
  lx_containsMatch :: bool
  lx_name :: rat
  lx_city :: rat
  lx_address :: rat
  lx_lexical :: rat
  lx_exactToken :: rat
  lx_fuzzy :: rat

definition lexical_of :: "candidate \<Rightarrow> string \<Rightarrow> string list \<Rightarrow> lexical" where
  "lexical_of c query tokens =
     \<lparr> lx_exactMatch = (query = cd_normalizedName c \<or> query = cd_normalizedCity c),
       lx_prefixName = startsWith (cd_normalizedName c) query,
       lx_prefixCity = startsWith (cd_normalizedCity c) query,
       lx_containsMatch = strIncludes (cd_normalizedSearchText c) query,
       lx_name = prefixCoverage tokens (cd_nameTokens c),
       lx_city = prefixCoverage tokens (cd_cityTokens c),
       lx_address = prefixCoverage tokens (cd_addressTokens c),
       lx_lexical = prefixCoverage tokens (cd_searchTokens c),
       lx_exactToken = exactCoverage tokens (cd_searchTokens c),
       lx_fuzzy = max (max (similarity query (cd_normalizedName c)) (similarity query (cd_normalizedCity c)))
         (similarity query (cd_normalizedAddress c)) \<rparr>"

definition isRelevant :: "lexical \<Rightarrow> click_signals \<Rightarrow> bool" where
  "isRelevant x clicks \<longleftrightarrow>
     lx_exactMatch x \<or> lx_prefixName x \<or> lx_prefixCity x \<or> lx_containsMatch x \<or> 0 < lx_lexical x \<or>
     fl (64 / 100) \<le> lx_fuzzy x \<or> 0 < cs_queryClicks clicks"

text \<open>\<open>Math.min(Math.log1p(n) * a + n * b, most)\<close>.\<close>

definition click_bonus :: "maps_env \<Rightarrow> int \<Rightarrow> rat \<Rightarrow> rat \<Rightarrow> rat \<Rightarrow> rat" where
  "click_bonus E n a b most = min (jadd (jmul (mp_log1p E n) a) (jmul (of_int n) b)) most"

definition raw_score :: "maps_env \<Rightarrow> candidate \<Rightarrow> lexical \<Rightarrow> click_signals \<Rightarrow> rat" where
  "raw_score E c x clicks =
     fold (\<lambda>t acc. jadd acc t)
       [if lx_exactMatch x then 120 else 0, if lx_prefixName x then 82 else 0, if lx_prefixCity x then 70 else 0,
        jmul 42 (lx_name x), jmul 36 (lx_city x), jmul 28 (lx_lexical x), jmul 14 (lx_exactToken x), jmul 10 (lx_address x),
        if lx_containsMatch x then 12 else 0,
        if fl (52 / 100) \<le> lx_fuzzy x then jmul (lx_fuzzy x) 24 else 0,
        popularityPrior c,
        max 0 (jsub 14 (jmul (of_nat (cd_sourceOrder c)) (fl (11 / 10)))),
        click_bonus E (cs_globalClicks clicks) (fl (24 / 10)) (fl (4 / 10)) 10,
        click_bonus E (cs_contextClicks clicks) (fl (62 / 10)) (fl (9 / 10)) 28,
        click_bonus E (cs_queryClicks clicks) (fl (84 / 10)) (fl (28 / 10)) 24] 0"

definition match_type_of :: "lexical \<Rightarrow> match_type" where
  "match_type_of x =
     (if lx_exactMatch x then MatchExact
      else if lx_prefixName x \<or> lx_prefixCity x then MatchPrefix
      else if 1 \<le> lx_lexical x then MatchToken
      else if lx_containsMatch x then MatchContains
      else if fl (64 / 100) \<le> lx_fuzzy x then MatchFuzzy else MatchProvider)"

definition popularity_hint :: "candidate \<Rightarrow> click_signals \<Rightarrow> string option" where
  "popularity_hint c clicks =
     (if 2 \<le> cs_queryClicks clicks then Some ''Frequently selected for this query''
      else if 2 \<le> cs_contextClicks clicks then Some ''Popular with similar trips''
      else if 8 \<le> popularityPrior c then Some ''Popular city'' else None)"

definition scoreCandidate :: "maps_env \<Rightarrow> candidate \<Rightarrow> string \<Rightarrow> string list \<Rightarrow> click_signals \<Rightarrow> bool \<times> suggestion \<times> nat" where
  "scoreCandidate E c query tokens clicks =
     (let x = lexical_of c query tokens
      in (isRelevant x clicks,
          \<lparr> sg_placeName = cd_placeName c, sg_placeAddress = cd_placeAddress c, sg_eLoc = cd_eLoc c,
            sg_latitude = cd_latitude c, sg_longitude = cd_longitude c, sg_city = cd_city c,
            sg_state = cd_state c, sg_source = cd_source c, sg_matchType = match_type_of x,
            sg_score = jdiv (of_int (js_round (jmul (raw_score E c x clicks) 1000))) 1000,
            sg_queryClicks = cs_queryClicks clicks, sg_contextClicks = cs_contextClicks clicks,
            sg_globalClicks = cs_globalClicks clicks, sg_popularityHint = popularity_hint c clicks \<rparr>,
          cd_sourceOrder c))"

section \<open>The provider\<close>

definition lift_db :: "(db \<Rightarrow> db) \<Rightarrow> search_db \<Rightarrow> search_db" where
  "lift_db f s = s\<lparr>sd_db := f (sd_db s)\<rparr>"

definition cached_text :: "string \<Rightarrow> search_db \<Rightarrow> string option" where
  "cached_text key s = (case redis_get key (sd_db s) of Some (RedisString t) \<Rightarrow> Some t | _ \<Rightarrow> None)"

text \<open>\<open>None\<close> is a failed call; \<open>expires_in\<close> defaults to an hour.\<close>

definition getMMIToken :: "maps_env \<Rightarrow> search_db \<Rightarrow> string option \<times> search_db" where
  "getMMIToken E s =
     (case cached_text ''mmi:token'' s of
        Some (c # t) \<Rightarrow> (Some (c # t), s)
      | _ \<Rightarrow>
          (case mp_token E of
             None \<Rightarrow> (None, s)
           | Some (token, expires_in) \<Rightarrow>
               (Some token,
                lift_db (redis_setex ''mmi:token'' (max (num_or expires_in 3600 - 60) 60) (RedisString token)) s)))"

definition entries_of :: "json \<Rightarrow> json list option" where
  "entries_of v =
     (case v of JArr es \<Rightarrow> (if list_ex (\<lambda>e. e = JNull \<or> e = JUndef) es then None else Some es) | _ \<Rightarrow> None)"

text \<open>\<open>payload.length > 0\<close>.\<close>

definition has_length :: "json \<Rightarrow> bool" where
  "has_length v = (case v of JArr es \<Rightarrow> es \<noteq> [] | JStr t \<Rightarrow> t \<noteq> [] | _ \<Rightarrow> False)"

definition provider_payload :: "maps_env \<Rightarrow> string \<Rightarrow> string \<Rightarrow> search_db \<Rightarrow> json \<times> search_db" where
  "provider_payload E query region s =
     (let key = providerCacheKey (normalizeText (Some query)) region
      in case cached_text key s of
           Some (c # t) \<Rightarrow> ((case mp_parse E (c # t) of None \<Rightarrow> JArr [] | Some v \<Rightarrow> v), s)
         | _ \<Rightarrow>
             (case getMMIToken E s of
                (None, s1) \<Rightarrow> (JArr [], s1)
              | (Some token, s1) \<Rightarrow>
                  (case mp_search E token query region of
                     None \<Rightarrow> (JArr [], s1)
                   | Some v \<Rightarrow>
                       (let payload = jor v (JArr [])
                        in (payload, if has_length payload
                              then lift_db (redis_setex key 3600 (RedisString (mp_stringify E payload))) s1 else s1)))))"

text \<open>\<open>None\<close>: the payload is not a list of objects, so the code throws.\<close>

definition loadProviderCandidates :: "maps_env \<Rightarrow> string \<Rightarrow> string \<Rightarrow> search_db \<Rightarrow> candidate list option \<times> search_db" where
  "loadProviderCandidates E query region s =
     (case provider_payload E query region s of
        (payload, s1) \<Rightarrow>
          (case entries_of payload of
             None \<Rightarrow> (None, s1)
           | Some es \<Rightarrow>
               (let found = dedupeCandidates E (map (\<lambda>(i, e). parseCandidate E e i ''mapmyindia'')
                      (enumerate 0 (filter (\<lambda>e. truthy (jget e ''placeName'') \<and> truthy (jget e ''eLoc'')) es)))
                in (Some (if found \<noteq> [] then found else DEMO_CITIES E), s1))))"

section \<open>Suggestions\<close>

record search_context =
  sc_actor :: "string option"
  sc_field :: "string option"
  sc_limit :: "int option"

record search_meta =
  sm_normalizedQuery :: string
  sm_strategy :: string
  sm_actor :: "string option"
  sm_field :: "string option"
  sm_region :: string

datatype search_response = Proxied json | Found "suggestion list" search_meta

definition suggestion_limit :: "search_context \<Rightarrow> int" where
  "suggestion_limit ctx = max 1 (min (case sc_limit ctx of None \<Rightarrow> 10 | Some n \<Rightarrow> n) 12)"

text \<open>
  The order of the suggestions: by score, clicks for the query and clicks in the context, all
  descending, then by the order of the source; the sort is stable.
\<close>

definition rank_key :: "bool \<times> suggestion \<times> nat \<Rightarrow> rat \<times> int \<times> int \<times> nat" where
  "rank_key r = (case r of (_, g, ord) \<Rightarrow> (- sg_score g, - sg_queryClicks g, - sg_contextClicks g, ord))"

definition rank_candidates ::
  "maps_env \<Rightarrow> candidate list \<Rightarrow> string \<Rightarrow> (string \<times> click_signals) list \<Rightarrow> nat \<Rightarrow> suggestion list" where
  "rank_candidates E cs query signals limit =
     (let tokens = tokenizeText (Some query)
      in map (\<lambda>(_, g, _). g) (take limit (sort_key rank_key (filter fst
           (map (\<lambda>c. scoreCandidate E c query tokens (signals_of signals (cd_eLoc c))) cs)))))"

definition capitalised :: "string \<Rightarrow> string" where
  "capitalised w = toUpperCase (take 1 w) @ toLowerCase (drop 1 w)"

definition fallback_suggestion :: "string \<Rightarrow> suggestion" where
  "fallback_suggestion query =
     (let formatted = join_with '' '' (map capitalised (split_on (CHR '' '') (trim query)))
      in \<lparr> sg_placeName = formatted, sg_placeAddress = formatted @ '', India'',
           sg_eLoc = ''LOC_'' @ map (\<lambda>c. if 65 \<le> char_code c \<and> char_code c \<le> 90 \<or> 48 \<le> char_code c \<and> char_code c \<le> 57
              then c else CHR ''_'') (toUpperCase formatted),
           sg_latitude = fl (205937 / 10000), sg_longitude = fl (789629 / 10000),
           sg_city = formatted, sg_state = ''India'', sg_source = ''fallback'', sg_matchType = MatchFuzzy,
           sg_score = 10, sg_queryClicks = 0, sg_contextClicks = 0, sg_globalClicks = 0, sg_popularityHint = None \<rparr>)"

definition or_demo :: "maps_env \<Rightarrow> candidate list option \<Rightarrow> candidate list" where
  "or_demo E found = (case found of None \<Rightarrow> DEMO_CITIES E | Some [] \<Rightarrow> DEMO_CITIES E | Some cs \<Rightarrow> cs)"

definition search_candidates :: "maps_env \<Rightarrow> string \<Rightarrow> string \<Rightarrow> search_db \<Rightarrow> candidate list \<times> search_db" where
  "search_candidates E query region s =
     (if useDemoMaps E then (DEMO_CITIES E, s)
      else case loadProviderCandidates E query region s of (found, s1) \<Rightarrow> (or_demo E found, s1))"

definition suggestCities :: "maps_env \<Rightarrow> string \<Rightarrow> string \<Rightarrow> search_context \<Rightarrow> search_db \<Rightarrow> search_response \<times> search_db" where
  "suggestCities E query region ctx s =
     (let normalized = normalizeText (Some query);
          limit = suggestion_limit ctx;
          meta = \<lparr> sm_normalizedQuery = normalized, sm_strategy = ''hybrid_lexical_ctr_rerank'',
                   sm_actor = sc_actor ctx, sm_field = sc_field ctx, sm_region = region \<rparr>
      in case mp_routing E ''/internal/v1/search/locations''
                (JObj [(''query'', JStr query), (''region'', JStr region), (''limit'', JNum (of_int limit)),
                       (''actor'', jopt JStr (sc_actor ctx)), (''field'', jopt JStr (sc_field ctx))]) of
           Some v \<Rightarrow> (Proxied v, s)
         | None \<Rightarrow>
             if length normalized < 2 then (Found [] meta, s)
             else (case search_candidates E query region s of
                (cs, s1) \<Rightarrow>
                  (let signals = loadClickSignals s1 cs normalized region (sc_actor ctx) (sc_field ctx);
                       ranked = rank_candidates E cs normalized signals (nat limit)
                   in (Found (if ranked = [] then [fallback_suggestion query] else ranked) meta, s1))))"

section \<open>Selections\<close>

definition click :: "string \<Rightarrow> string \<Rightarrow> search_db \<Rightarrow> search_db" where
  "click placeId key s = expire key (60 * 60 * 24 * 30) (zincrby key 1 placeId s)"

definition record_clicks :: "string \<Rightarrow> string \<Rightarrow> string option \<Rightarrow> string option \<Rightarrow> string \<Rightarrow> search_db \<Rightarrow> search_db" where
  "record_clicks region query actor field placeId s =
     click placeId (queryClickKey region query)
       (fold (click placeId) (contextClickKeys region actor field)
         (zincrby (globalClickKey region) 1 placeId s))"

record selection =
  sl_query :: string
  sl_region :: "string option"
  sl_actor :: "string option"
  sl_field :: "string option"
  sl_placeName :: string
  sl_placeAddress :: string
  sl_eLoc :: string
  sl_city :: "string option"
  sl_state :: "string option"

definition or_empty :: "string option \<Rightarrow> string" where
  "or_empty v = (case v of None \<Rightarrow> [] | Some t \<Rightarrow> t)"

definition selected_region :: "selection \<Rightarrow> string" where
  "selected_region p = (if truthy_str (sl_region p) then the (sl_region p) else ''IND'')"

definition recordSuggestionSelection :: "maps_env \<Rightarrow> selection \<Rightarrow> search_db \<Rightarrow> (json + bool) \<times> search_db" where
  "recordSuggestionSelection E p s =
     (let region = selected_region p;
          query = normalizeText (Some (sl_query p));
          placeId = trim (sl_eLoc p)
      in case mp_routing E ''/internal/v1/search/feedback/select''
                (JObj [(''query'', JStr (sl_query p)), (''region'', JStr region), (''actor'', jopt JStr (sl_actor p)),
                       (''field'', jopt JStr (sl_field p)), (''place_id'', JStr (sl_eLoc p)),
                       (''place_name'', JStr (sl_placeName p)), (''place_address'', JStr (sl_placeAddress p)),
                       (''city'', jopt JStr (sl_city p)), (''state'', jopt JStr (sl_state p))]) of
           Some v \<Rightarrow> (Inl v, s)
         | None \<Rightarrow>
             if length query < 2 \<or> placeId = [] then (Inr False, s)
             else (Inr True,
               hset (selectionMetadataKey placeId)
                 [(''place_name'', sl_placeName p), (''place_address'', sl_placeAddress p),
                  (''city'', or_empty (sl_city p)), (''state'', or_empty (sl_state p))]
                 (record_clicks region query (sl_actor p) (sl_field p) placeId s)))"

section \<open>Normal form\<close>

text \<open>Normalised text is the lower-case words of the text with one space between them.\<close>

lemma word_not_space: "is_word c \<Longrightarrow> \<not> is_space c"
  by (auto simp: is_word_def is_space_def char_code_def)

lemma word_lower [simp]: "is_word c \<Longrightarrow> lower_char c = c"
  by (auto simp: is_word_def lower_char_def)

lemma space_facts [simp]: "is_space (CHR '' '')" "\<not> is_word (CHR '' '')"
  by (simp_all add: is_space_def is_word_def char_code_def)

lemma join_word [simp]: "join_with sep ((c # t) # us) = c # join_with sep (t # us)"
  by (cases us) simp_all

lemma word_runs_skip: "word_runs (dropWhile (\<lambda>c. \<not> is_word c) s) = word_runs s"
  by (induction s) simp_all

lemma word_runs_grow:
  "is_word c \<Longrightarrow> is_word d \<Longrightarrow> word_runs (d # s) = w # ws \<Longrightarrow> word_runs (c # d # s) = (c # w) # ws"
  by simp

lemma no_runs: "word_runs s = [] \<Longrightarrow> \<forall>c \<in> set s. \<not> is_word c"
  by (induction s) (simp_all split: if_splits)

lemma squeezed_words:
  "squeeze (\<lambda>c. \<not> is_word c) s =
     (if s \<noteq> [] \<and> \<not> is_word (hd s) then '' '' else []) @ join_with '' '' (word_runs s) @
     (if word_runs s \<noteq> [] \<and> \<not> is_word (last s) then '' '' else [])"
proof (induction "\<lambda>c. \<not> is_word c" s rule: squeeze.induct)
  case (2 c s)
  let ?r = "dropWhile (\<lambda>c. \<not> is_word c) s"
  show ?case
  proof (cases "is_word c")
    case True
    with 2(2) have IH: "squeeze (\<lambda>c. \<not> is_word c) (c # s) = c # (if s \<noteq> [] \<and> \<not> is_word (hd s) then '' '' else []) @
        join_with '' '' (word_runs s) @ (if word_runs s \<noteq> [] \<and> \<not> is_word (last s) then '' '' else [])" by simp
    show ?thesis
    proof (cases s)
      case Nil
      with True show ?thesis by simp
    next
      case (Cons d t)
      show ?thesis
      proof (cases "is_word d")
        case True
        with Cons obtain w ws where w: "word_runs s = w # ws" by simp
        with Cons word_runs_grow [OF \<open>is_word c\<close> True, of t w ws] have runs: "word_runs (c # s) = (c # w) # ws" by simp
        have s: "s \<noteq> []" "is_word (hd s)" using Cons True by simp_all
        show ?thesis unfolding IH runs by (simp add: w s \<open>is_word c\<close>)
      next
        case False
        then have runs: "word_runs (c # s) = [c] # word_runs s"
          using Cons \<open>is_word c\<close> by simp
        show ?thesis
        proof (cases "word_runs s")
          case Nil
          then have "\<not> is_word (last s)" using Cons no_runs [of s] by (simp del: word_runs.simps)
          with IH runs Nil Cons False \<open>is_word c\<close> show ?thesis by simp
        next
          case (Cons w ws)
          with IH runs \<open>s = d # t\<close> False \<open>is_word c\<close> show ?thesis by simp
        qed
      qed
    qed
  next
    case False
    with 2(1) have IH: "squeeze (\<lambda>c. \<not> is_word c) (c # s) = CHR '' '' # (if ?r \<noteq> [] \<and> \<not> is_word (hd ?r) then '' '' else []) @
        join_with '' '' (word_runs s) @ (if word_runs s \<noteq> [] \<and> \<not> is_word (last ?r) then '' '' else [])"
      by (simp add: word_runs_skip)
    have hd: "?r \<noteq> [] \<Longrightarrow> is_word (hd ?r)" using hd_dropWhile [of "\<lambda>c. \<not> is_word c" s] by blast
    have "last ?r = last s" "s \<noteq> []" if "word_runs s \<noteq> []"
    proof -
      from that word_runs_skip [of s] have "?r \<noteq> []" by (metis word_runs.simps(1))
      then show "last ?r = last s" by (metis last_appendR takeWhile_dropWhile_id)
      from that show "s \<noteq> []" by auto
    qed
    with IH hd False show ?thesis by auto
  qed
qed simp


lemma squeezed_start:
  "r = [] \<or> is_word (hd r) \<Longrightarrow>
   squeeze (\<lambda>c. \<not> is_word c) r = [] \<or> is_word (hd (squeeze (\<lambda>c. \<not> is_word c) r))"
  by (cases r) auto

lemma squeeze_spaces: "squeeze is_space (squeeze (\<lambda>c. \<not> is_word c) s) = squeeze (\<lambda>c. \<not> is_word c) s"
proof (induction "\<lambda>c. \<not> is_word c" s rule: squeeze.induct)
  case (2 c s)
  let ?r = "dropWhile (\<lambda>c. \<not> is_word c) s" and ?f = "squeeze (\<lambda>c. \<not> is_word c)"
  have "?r = [] \<or> is_word (hd ?r)" using hd_dropWhile [of "\<lambda>c. \<not> is_word c" s] by blast
  from squeezed_start [OF this] have "?f ?r = [] \<or> is_word (hd (?f ?r))" .
  then have "dropWhile is_space (?f ?r) = ?f ?r" by (cases "?f ?r") (auto dest: word_not_space)
  with 2 show ?case by (auto dest: word_not_space)
qed simp

lemma runs_are_words: "w \<in> set (word_runs s) \<Longrightarrow> w \<noteq> [] \<and> list_all is_word w"
proof (induction s rule: word_runs.induct)
  case (2 c s)
  have "list_all is_word (takeWhile is_word s)" by (auto simp: list_all_iff dest: set_takeWhileD)
  with 2 show ?case by (cases "is_word c") auto
qed simp

lemma trim_words:
  assumes "pre = [] \<or> pre = '' ''" "post = [] \<or> post = '' ''" "J = [] \<or> is_word (hd J) \<and> is_word (last J)"
    and "J = [] \<Longrightarrow> post = []"
  shows "trim (pre @ J @ post) = J"
proof (cases "J = []")
  case True
  with assms show ?thesis by (auto simp: trim_def)
next
  case False
  with assms(3) obtain a t where a: "J = a # t" "\<not> is_space a" by (cases J) (auto dest: word_not_space)
  obtain u b where b: "J = u @ [b]" "\<not> is_space b"
    using False assms(3) by (cases J rule: rev_cases) (auto dest: word_not_space)
  have "dropWhile is_space (pre @ J @ post) = J @ post" using assms(1) a by auto
  moreover have "dropWhile is_space (rev (J @ post)) = rev J" using assms(2) b by auto
  ultimately show ?thesis by (simp add: trim_def)
qed

lemma join_ends:
  assumes "\<forall>w \<in> set ws. w \<noteq> [] \<and> list_all is_word w"
  shows "join_with '' '' ws = [] \<and> ws = [] \<or> is_word (hd (join_with '' '' ws)) \<and> is_word (last (join_with '' '' ws)) \<and> ws \<noteq> []
     \<and> join_with '' '' ws \<noteq> []"
  using assms
proof (induction ws)
  case (Cons w ws)
  then have w: "w \<noteq> []" "is_word (hd w)" "is_word (last w)" by (auto simp: list_all_iff)
  with Cons show ?case by (cases ws) (auto simp: last_append)
qed simp

theorem normalized_words: "normalizeText (Some s) = join_with '' '' (word_runs (toLowerCase (trim s)))"
proof (cases "s = []")
  case True
  then show ?thesis by (simp add: normalizeText_def trim_def toLowerCase_def)
next
  case False
  let ?t = "toLowerCase (trim s)"
  have ends: "join_with '' '' (word_runs ?t) = [] \<and> word_runs ?t = [] \<or>
      is_word (hd (join_with '' '' (word_runs ?t))) \<and> is_word (last (join_with '' '' (word_runs ?t))) \<and> word_runs ?t \<noteq> []
      \<and> join_with '' '' (word_runs ?t) \<noteq> []"
    using join_ends runs_are_words by blast
  have "normalizeText (Some s) = trim (squeeze (\<lambda>c. \<not> is_word c) ?t)"
    using False by (simp add: normalizeText_def squeeze_spaces)
  also have "\<dots> = join_with '' '' (word_runs ?t)"
    unfolding squeezed_words [of ?t] by (rule trim_words) (use ends in auto)
  finally show ?thesis .
qed

lemma runs_of_join:
  assumes "\<forall>w \<in> set ws. w \<noteq> [] \<and> list_all is_word w"
  shows "word_runs (join_with '' '' ws) = ws"
  using assms
proof (induction ws)
  case (Cons w ws)
  have one: "word_runs (w @ r) = w # word_runs r" if "r = [] \<or> \<not> is_word (hd r)" for r
  proof -
    from Cons.prems obtain a u where w: "w = a # u" "is_word a" "\<forall>x \<in> set u. is_word x"
      by (cases w) (auto simp: list_all_iff)
    have "takeWhile is_word (u @ r) = u" "dropWhile is_word (u @ r) = r"
      using w(3) that by (cases r; auto simp: takeWhile_append2 dropWhile_append2)+
    with w show ?thesis by simp
  qed
  show ?case
  proof (cases ws)
    case Nil
    with one [of "[]"] show ?thesis by simp
  next
    case (Cons v vs)
    with one [of "'' '' @ join_with '' '' ws"] Cons.IH Cons.prems show ?thesis by simp
  qed
qed simp

lemma lower_words: "\<forall>w \<in> set ws. w \<noteq> [] \<and> list_all is_word w \<Longrightarrow> toLowerCase (join_with '' '' ws) = join_with '' '' ws"
proof (induction ws)
  case (Cons w ws)
  have "map lower_char w = w" using Cons.prems by (intro map_idI) (auto simp: list_all_iff)
  moreover have "lower_char (CHR '' '') = CHR '' ''" by (simp add: lower_char_def char_code_def)
  ultimately show ?case using Cons by (cases ws) (auto simp: toLowerCase_def)
qed (simp add: toLowerCase_def)

text \<open>Normalising is idempotent, and a text and its normal form have the same tokens.\<close>

theorem normalize_idem: "normalizeText (Some (normalizeText (Some s))) = normalizeText (Some s)"
proof -
  let ?ws = "word_runs (toLowerCase (trim s))"
  have ws: "\<forall>w \<in> set ?ws. w \<noteq> [] \<and> list_all is_word w" using runs_are_words by blast
  have "trim (join_with '' '' ?ws) = join_with '' '' ?ws"
    using trim_words [of "[]" "[]" "join_with '' '' ?ws"] join_ends [OF ws] by auto
  with ws show ?thesis by (simp add: normalized_words lower_words runs_of_join)
qed

corollary tokens_of_normalized: "tokenizeText (Some (normalizeText (Some s))) = tokenizeText (Some s)"
  by (simp add: tokenizeText_def normalize_idem)

section \<open>Duplicates are removed\<close>

lemma dedupe_step_map:
  "map_of (dedupe_step E c m) k =
     (if k = dedupe_key E c then
        (case map_of m k of None \<Rightarrow> Some c | Some d \<Rightarrow> Some (if cd_sourceOrder c < cd_sourceOrder d then c else d))
      else map_of m k)"
  by (simp add: dedupe_step_def update_conv' split: option.splits)

lemma dedupe_step_distinct: "distinct (map fst m) \<Longrightarrow> distinct (map fst (dedupe_step E c m))"
  by (auto simp: dedupe_step_def distinct_update split: option.splits)

lemma dedupe_fold:
  assumes "distinct (map fst m)" "\<forall>k d. map_of m k = Some d \<longrightarrow> dedupe_key E d = k \<and> d \<in> A"
    and "\<forall>c \<in> A. \<exists>d. map_of m (dedupe_key E c) = Some d \<and> cd_sourceOrder d \<le> cd_sourceOrder c"
  shows "let m' = fold (dedupe_step E) cs m
    in distinct (map fst m') \<and> (\<forall>k d. map_of m' k = Some d \<longrightarrow> dedupe_key E d = k \<and> d \<in> A \<union> set cs) \<and>
      (\<forall>c \<in> A \<union> set cs. \<exists>d. map_of m' (dedupe_key E c) = Some d \<and> cd_sourceOrder d \<le> cd_sourceOrder c)"
  using assms
proof (induction cs arbitrary: m A)
  case (Cons c cs)
  have from_seen: "\<forall>k d. map_of (dedupe_step E c m) k = Some d \<longrightarrow> dedupe_key E d = k \<and> d \<in> insert c A"
    using Cons.prems(2) by (auto simp: dedupe_step_map split: option.splits if_splits)
  have best: "\<forall>x \<in> insert c A. \<exists>d. map_of (dedupe_step E c m) (dedupe_key E x) = Some d \<and> cd_sourceOrder d \<le> cd_sourceOrder x"
    using Cons.prems(3) by (fastforce simp: dedupe_step_map split: option.splits)
  from Cons.IH [OF dedupe_step_distinct [OF Cons.prems(1)] from_seen best] show ?case by simp
qed (simp add: Let_def)

theorem dedupe_spec:
  "distinct (map (dedupe_key E) (dedupeCandidates E cs)) \<and> set (dedupeCandidates E cs) \<subseteq> set cs \<and>
   (\<forall>c \<in> set cs. \<exists>d \<in> set (dedupeCandidates E cs). dedupe_key E d = dedupe_key E c \<and> cd_sourceOrder d \<le> cd_sourceOrder c)"
proof -
  let ?m = "fold (dedupe_step E) cs []"
  have m: "distinct (map fst ?m)" "\<forall>k d. map_of ?m k = Some d \<longrightarrow> dedupe_key E d = k \<and> d \<in> set cs"
      "\<forall>c \<in> set cs. \<exists>d. map_of ?m (dedupe_key E c) = Some d \<and> cd_sourceOrder d \<le> cd_sourceOrder c"
    using dedupe_fold [of "[]" E "{}" cs] unfolding Let_def by (simp_all del: map_of_eq_Some_iff)
  have entry: "dedupe_key E d = k \<and> d \<in> set cs" if "(k, d) \<in> set ?m" for k d
    using m(1,2) that by (metis map_of_is_SomeI)
  then have "map (dedupe_key E) (dedupeCandidates E cs) = map fst ?m"
    by (auto simp: dedupeCandidates_def)
  moreover have "set (dedupeCandidates E cs) \<subseteq> set cs"
    using entry by (auto simp: dedupeCandidates_def)
  moreover have "\<exists>d \<in> set (dedupeCandidates E cs). dedupe_key E d = dedupe_key E c \<and> cd_sourceOrder d \<le> cd_sourceOrder c"
    if "c \<in> set cs" for c
  proof -
    from m(3) that obtain d where d: "map_of ?m (dedupe_key E c) = Some d" "cd_sourceOrder d \<le> cd_sourceOrder c" by blast
    then have "d \<in> set (dedupeCandidates E cs)" by (force simp: dedupeCandidates_def dest: map_of_SomeD)
    with d m(2) show ?thesis by blast
  qed
  ultimately show ?thesis using m(1) by simp
qed

section \<open>Clicks are counted\<close>

lemma click_fields [simp]:
  "sd_db (zincrby k n m s) = sd_db s" "sd_db (expire k ttl s) = sd_db s"
  "sd_scores (expire k ttl s) = sd_scores s"
  "sd_expiry (zincrby k n m s) = (sd_expiry s)(k := (if zset_live s k then sd_expiry s k else None))"
  "sd_expiry (expire k ttl s) = (sd_expiry s)(k := Some (clock (sd_db s) + ttl * 1000))"
  by (cases s; simp add: zincrby_def expire_def)+

lemma zincrby_scores [simp]:
  "sd_scores (zincrby k n m s) =
     (sd_scores s)(k := (if zset_live s k then sd_scores s k else (\<lambda>_. 0))(m := zscore s k m + n))"
  by (cases s) (simp add: zincrby_def)

lemma zset_live_zincrby [simp]: "zset_live (zincrby k n m s) k' \<longleftrightarrow> k' = k \<or> zset_live s k'"
  by (auto simp: zset_live_def split: option.splits)

lemma zset_live_expire [simp]: "0 < ttl \<Longrightarrow> zset_live (expire k ttl s) k' \<longleftrightarrow> k' = k \<or> zset_live s k'"
  by (auto simp: zset_live_def split: option.splits)

lemma zscore_zincrby: "zscore (zincrby k n m s) k' m' = (if k' = k \<and> m' = m then zscore s k m + n else zscore s k' m')"
  by (simp add: zscore_def)

lemma zscore_expire: "zset_live s k \<Longrightarrow> 0 < ttl \<Longrightarrow> zscore (expire k ttl s) k' m' = zscore s k' m'"
  by (simp add: zscore_def)

lemma zscore_click: "zscore (click p k s) k' m' = zscore s k' m' + (if k' = k \<and> m' = p then 1 else 0)"
  by (simp add: click_def zscore_expire zscore_zincrby)

lemma zscore_clicks:
  "distinct ks \<Longrightarrow> zscore (fold (click p) ks s) k' m' = zscore s k' m' + (if k' \<in> set ks \<and> m' = p then 1 else 0)"
  by (induction ks arbitrary: s) (auto simp: zscore_click)

lemma contextClickKeys_distinct: "distinct (contextClickKeys region actor field)"
  by (simp add: contextClickKeys_def unique_def)

lemma click_keys_apart [simp]:
  "globalClickKey r \<noteq> queryClickKey r' q" "queryClickKey r' q \<noteq> globalClickKey r"
  "globalClickKey r \<notin> set (contextClickKeys r' a f)" "queryClickKey r q \<notin> set (contextClickKeys r' a f)"
  by (auto simp: globalClickKey_def queryClickKey_def contextClickKeys_def contextClickKey_def unique_def)

lemma zscore_record_clicks:
  "zscore (record_clicks region query actor field p s) k m =
     zscore s k m +
     (if m = p \<and> (k = globalClickKey region \<or> k \<in> set (contextClickKeys region actor field) \<or> k = queryClickKey region query)
      then 1 else 0)"
  by (cases "k = globalClickKey region"; cases "k = queryClickKey region query")
    (simp_all add: record_clicks_def zscore_click zscore_clicks [OF contextClickKeys_distinct] zscore_zincrby)

text \<open>The running index of the reader hits the answers that belong to each candidate.\<close>

definition clicks_at :: "search_db \<Rightarrow> string list \<Rightarrow> string \<Rightarrow> string \<Rightarrow> string \<Rightarrow> click_signals" where
  "clicks_at s keys region query p =
     \<lparr> cs_globalClicks = zscore s (globalClickKey region) p, cs_contextClicks = sum_list (map (\<lambda>k. zscore s k p) keys),
       cs_queryClicks = zscore s (queryClickKey region query) p \<rparr>"

lemma answer_at_append [simp]: "answer_at (xs @ ys) (length xs + i) = answer_at ys i"
  by (simp add: answer_at_def)

lemma answers_prefix: "map (\<lambda>j. answer_at (map f ks @ rs) j) [0..<length ks] = map f ks"
  by (intro nth_equalityI) (simp_all add: answer_at_def nth_append)

lemma read_signals_aligned:
  "read_signals (length keys) (pre @ click_answers s keys region query places) (length pre) places =
     map (\<lambda>p. (p, clicks_at s keys region query p)) places"
proof (induction places arbitrary: pre)
  case (Cons p ps)
  let ?block = "zscore s (globalClickKey region) p # map (\<lambda>k. zscore s k p) keys @ [zscore s (queryClickKey region query) p]"
  let ?rest = "click_answers s keys region query ps"
  have all: "click_answers s keys region query (p # ps) = ?block @ ?rest" by (simp add: click_answers_def)
  have read: "answer_at (pre @ ?block @ ?rest) (length pre + i) = answer_at (?block @ ?rest) i" for i
    by (rule answer_at_append)
  have "answer_at (?block @ ?rest) 0 = zscore s (globalClickKey region) p" by (simp add: answer_at_def)
  moreover have "answer_at (?block @ ?rest) (Suc j) =
      answer_at (map (\<lambda>k. zscore s k p) keys @ zscore s (queryClickKey region query) p # ?rest) j" for j
    by (simp add: answer_at_def)
  moreover have "answer_at (map (\<lambda>k. zscore s k p) keys @ zscore s (queryClickKey region query) p # ?rest) (length keys) =
      zscore s (queryClickKey region query) p"
    by (simp add: answer_at_def nth_append)
  moreover have "map (\<lambda>j. answer_at (map (\<lambda>k. zscore s k p) keys @ zscore s (queryClickKey region query) p # ?rest) j)
      [0..<length keys] = map (\<lambda>k. zscore s k p) keys"
    by (rule answers_prefix)
  moreover have "read_signals (length keys) (pre @ ?block @ ?rest) (length pre + length keys + 2) ps =
      map (\<lambda>p. (p, clicks_at s keys region query p)) ps"
    using Cons.IH [of "pre @ ?block"] by (simp add: ac_simps)
  ultimately show ?case
    using read [of 0] read [of "Suc (length keys)"] read [of "Suc _"]
    by (simp add: all clicks_at_def del: append_assoc append.simps)
qed simp

text \<open>
  What the next search of the same kind reads: one more click on the place in all, one in each set
  of the context, and one for the query; nothing else changes.
\<close>

lemma map_of_places: "map_of (rev (map (\<lambda>p. (p, f p)) ps)) p = (if p \<in> set ps then Some (f p) else None)"
  by (induction ps rule: rev_induct) auto

lemma loaded_signals:
  assumes "2 \<le> length query" "c \<in> set cs"
  shows "signals_of (loadClickSignals s cs query region actor field) (cd_eLoc c) =
     clicks_at s (contextClickKeys region actor field) region query (cd_eLoc c)"
proof -
  let ?keys = "contextClickKeys region actor field"
  have "loadClickSignals s cs query region actor field = map (\<lambda>p. (p, clicks_at s ?keys region query p)) (map cd_eLoc cs)"
    using assms read_signals_aligned [of ?keys "[]" s region query "map cd_eLoc cs"]
    by (auto simp: loadClickSignals_def Let_def)
  then show ?thesis using assms(2) by (simp add: signals_of_def map_of_places del: map_map rev_map)
qed

lemma sum_list_plus_one:
  "distinct ks \<Longrightarrow> (\<forall>k \<in> set ks. g k = f k + (1 :: int)) \<Longrightarrow> sum_list (map g ks) = sum_list (map f ks) + int (length ks)"
  by (induction ks) auto

theorem selection_counts:
  assumes "2 \<le> length query" "c \<in> set cs"
  shows "signals_of (loadClickSignals (record_clicks region query actor field p s) cs query region actor field) (cd_eLoc c) =
     (let old = signals_of (loadClickSignals s cs query region actor field) (cd_eLoc c)
      in if cd_eLoc c = p
         then \<lparr> cs_globalClicks = cs_globalClicks old + 1,
                cs_contextClicks = cs_contextClicks old + int (length (contextClickKeys region actor field)),
                cs_queryClicks = cs_queryClicks old + 1 \<rparr>
         else old)"
proof -
  let ?keys = "contextClickKeys region actor field"
  have "sum_list (map (\<lambda>k. zscore (record_clicks region query actor field p s) k p) ?keys) =
      sum_list (map (\<lambda>k. zscore s k p) ?keys) + int (length ?keys)"
    by (rule sum_list_plus_one [OF contextClickKeys_distinct]) (simp add: zscore_record_clicks)
  then show ?thesis
    by (simp add: loaded_signals [OF assms] clicks_at_def zscore_record_clicks)
qed

section \<open>Scores are bounded\<close>

lemma fraction_bounds: "k \<le> n \<Longrightarrow> 0 \<le> jdiv (of_nat k) (of_nat n) \<and> jdiv (of_nat k) (of_nat n) \<le> 1"
proof
  assume "k \<le> n"
  then have "(of_nat k :: rat) / of_nat n \<le> of_int 1" by (cases "n = 0") (simp_all add: divide_le_eq)
  from fl.rnd_le_int [OF this] show "jdiv (of_nat k) (of_nat n) \<le> 1" by (simp add: jdiv_def)
qed (simp add: jdiv_nonneg)

lemma coverage_bounds: "0 \<le> coverage hit qs cs \<and> coverage hit qs cs \<le> 1"
  using fraction_bounds [of "length (filter (\<lambda>q. hit q cs) qs)" "length qs"] by (simp add: coverage_def)

lemma exact_le_prefix: "exactCoverage qs cs \<le> prefixCoverage qs cs"
proof -
  have "length (filter (\<lambda>q. q \<in> set cs) qs) \<le> length (filter (\<lambda>q. list_ex (\<lambda>c. startsWith c q) cs) qs)"
    by (induction qs) (auto simp: list_ex_iff intro: startsWith_refl)
  then show ?thesis by (cases "qs = []") (auto simp: exactCoverage_def prefixCoverage_def coverage_def intro!: jdiv_mono)
qed

lemma similarity_bounds: "0 \<le> similarity q t \<and> similarity q t \<le> 1"
proof (cases "q = [] \<or> t = []")
  case True
  then show ?thesis by (auto simp: similarity_def)
next
  case False
  let ?qs = "tokenizeText (Some q)" and ?cs = "tokenizeText (Some t)"
  have "length q \<le> length t" if "strIncludes t q" using that by (auto simp: strIncludes_iff)
  moreover have "fl (7 / 10) \<le> 1" using fl.rnd_le_int [of "7 / 10" 1] by simp
  moreover have "length (filter P ?qs) \<le> max (length ?qs) (length ?cs)" for P
    by (rule le_trans [OF length_filter_le]) simp
  ultimately show ?thesis
    using False fraction_bounds by (auto simp: similarity_def Let_def le_max_iff_disj)
qed

lemma bounds_nonneg:
  "list_all2 (\<lambda>t b. 0 \<le> t \<and> t \<le> (of_int b :: rat)) ts bs \<Longrightarrow> 0 \<le> sum_list bs"
proof (induction rule: list_all2_induct)
  case (Cons t ts b bs)
  then have "(0 :: rat) \<le> of_int b" by linarith
  with Cons show ?case by simp
qed simp

lemma fold_jadd_bounds:
  assumes "list_all2 (\<lambda>t b. 0 \<le> t \<and> t \<le> of_int b) ts bs" "0 \<le> acc" "acc \<le> of_int a" "0 \<le> a" "a + sum_list bs \<le> 2 ^ 53"
  shows "0 \<le> fold (\<lambda>t acc. jadd acc t) ts acc \<and> fold (\<lambda>t acc. jadd acc t) ts acc \<le> of_int (a + sum_list bs)"
  using assms
proof (induction ts bs arbitrary: acc a rule: list_all2_induct)
  case (Cons t ts b bs)
  have "(0 :: rat) \<le> of_int b" using Cons.hyps(1) by linarith
  then have b: "0 \<le> b" by simp
  have rest: "0 \<le> sum_list bs" by (rule bounds_nonneg [OF Cons.hyps(2)])
  have "acc + t \<le> of_int (a + b)" using Cons.prems(2) Cons.hyps(1) by simp
  moreover have "\<bar>a + b\<bar> \<le> 2 ^ 53" using Cons.prems(3,4) b rest by simp
  ultimately have "jadd acc t \<le> of_int (a + b)" unfolding jadd_def by (rule fl.rnd_le_int)
  moreover have "0 \<le> jadd acc t" unfolding jadd_def using Cons.prems(1) Cons.hyps(1) by (intro fl.rnd_nonneg) simp
  ultimately show ?case using Cons.IH [of "jadd acc t" "a + b"] Cons.prems(3,4) b by (simp add: add.assoc)
qed simp

lemma jmul_unit_bounds: "0 \<le> x \<Longrightarrow> x \<le> 1 \<Longrightarrow> 0 \<le> n \<Longrightarrow> n \<le> 1000 \<Longrightarrow> 0 \<le> jmul (of_int n) x \<and> jmul (of_int n) x \<le> of_int n"
proof
  assume x: "0 \<le> x" "x \<le> 1" "0 \<le> n" "n \<le> 1000"
  then show "0 \<le> jmul (of_int n) x" by (simp add: jmul_nonneg)
  have "of_int n * x \<le> of_int n" using x by (simp add: mult_left_le)
  from fl.rnd_le_int [OF this] x show "jmul (of_int n) x \<le> of_int n" by (simp add: jmul_def)
qed

lemma click_bonus_bounds:
  assumes "0 \<le> n" "0 \<le> mp_log1p E n" "0 \<le> a" "0 \<le> b" "0 \<le> most"
  shows "0 \<le> click_bonus E n a b most \<and> click_bonus E n a b most \<le> most"
  using assms by (auto simp: click_bonus_def jadd_def intro!: fl.rnd_nonneg add_nonneg_nonneg jmul_nonneg)

lemma priors_bounds: "list_all (\<lambda>(k, x). 0 \<le> x \<and> x \<le> 10) CITY_POPULARITY_PRIORS"
  by code_simp

lemma popularityPrior_bounds: "0 \<le> popularityPrior c \<and> popularityPrior c \<le> 10"
  using priors_bounds by (auto simp: popularityPrior_def list_all_iff split: option.splits dest!: map_of_SomeD)

lemma lexical_bounds:
  assumes "x = lexical_of c query tokens"
  shows "0 \<le> lx_name x \<and> lx_name x \<le> 1" "0 \<le> lx_city x \<and> lx_city x \<le> 1" "0 \<le> lx_address x \<and> lx_address x \<le> 1"
    "0 \<le> lx_lexical x \<and> lx_lexical x \<le> 1" "0 \<le> lx_exactToken x \<and> lx_exactToken x \<le> 1" "0 \<le> lx_fuzzy x \<and> lx_fuzzy x \<le> 1"
  using similarity_bounds
  by (simp_all add: assms lexical_of_def prefixCoverage_def exactCoverage_def coverage_bounds le_max_iff_disj)

lemma provider_bonus_bounds: "0 \<le> max 0 (jsub 14 (jmul (of_nat n) (fl (11 / 10))))
    \<and> max 0 (jsub 14 (jmul (of_nat n) (fl (11 / 10)))) \<le> 14"
proof -
  have "0 \<le> fl (11 / 10)" by (rule fl.rnd_nonneg) simp
  then have "14 - jmul (of_nat n) (fl (11 / 10)) \<le> of_int 14" by (simp add: jmul_nonneg)
  from fl.rnd_le_int [OF this] show ?thesis by (simp add: jsub_def)
qed

definition clicks_sane :: "maps_env \<Rightarrow> click_signals \<Rightarrow> bool" where
  "clicks_sane E k \<longleftrightarrow>
     0 \<le> cs_globalClicks k \<and> 0 \<le> cs_contextClicks k \<and> 0 \<le> cs_queryClicks k \<and>
     0 \<le> mp_log1p E (cs_globalClicks k) \<and> 0 \<le> mp_log1p E (cs_contextClicks k) \<and> 0 \<le> mp_log1p E (cs_queryClicks k)"

lemma raw_score_bounds:
  assumes "clicks_sane E k"
  shows "0 \<le> raw_score E c (lexical_of c query tokens) k \<and> raw_score E c (lexical_of c query tokens) k \<le> 524"
proof -
  let ?x = "lexical_of c query tokens"
  note lx = lexical_bounds [OF refl, of c query tokens]
  have unit: "0 \<le> jmul 42 (lx_name ?x) \<and> jmul 42 (lx_name ?x) \<le> 42" "0 \<le> jmul 36 (lx_city ?x) \<and> jmul 36 (lx_city ?x) \<le> 36"
    "0 \<le> jmul 28 (lx_lexical ?x) \<and> jmul 28 (lx_lexical ?x) \<le> 28" "0 \<le> jmul 14 (lx_exactToken ?x) \<and> jmul 14 (lx_exactToken ?x) \<le> 14"
    "0 \<le> jmul 10 (lx_address ?x) \<and> jmul 10 (lx_address ?x) \<le> 10" "0 \<le> jmul (lx_fuzzy ?x) 24 \<and> jmul (lx_fuzzy ?x) 24 \<le> 24"
    using jmul_unit_bounds [of "lx_name ?x" 42] jmul_unit_bounds [of "lx_city ?x" 36] jmul_unit_bounds [of "lx_lexical ?x" 28]
      jmul_unit_bounds [of "lx_exactToken ?x" 14] jmul_unit_bounds [of "lx_address ?x" 10] jmul_unit_bounds [of "lx_fuzzy ?x" 24] lx
    by (simp_all add: jmul_def mult.commute)
  have lit: "0 \<le> fl (24 / 10)" "0 \<le> fl (4 / 10)" "0 \<le> fl (62 / 10)" "0 \<le> fl (9 / 10)" "0 \<le> fl (84 / 10)" "0 \<le> fl (28 / 10)"
    by (simp_all add: fl.rnd_nonneg)
  have bonus: "0 \<le> click_bonus E (cs_globalClicks k) (fl (24 / 10)) (fl (4 / 10)) 10 \<and>
      click_bonus E (cs_globalClicks k) (fl (24 / 10)) (fl (4 / 10)) 10 \<le> 10"
    "0 \<le> click_bonus E (cs_contextClicks k) (fl (62 / 10)) (fl (9 / 10)) 28 \<and>
      click_bonus E (cs_contextClicks k) (fl (62 / 10)) (fl (9 / 10)) 28 \<le> 28"
    "0 \<le> click_bonus E (cs_queryClicks k) (fl (84 / 10)) (fl (28 / 10)) 24 \<and>
      click_bonus E (cs_queryClicks k) (fl (84 / 10)) (fl (28 / 10)) 24 \<le> 24"
    by (rule click_bonus_bounds; use assms lit in \<open>simp add: clicks_sane_def\<close>)+
  have "0 \<le> raw_score E c ?x k \<and> raw_score E c ?x k \<le>
      of_int (0 + sum_list [120, 82, 70, 42, 36, 28, 14, 10, 12, 24, 10, 14, 10, 28, 24])"
    unfolding raw_score_def
    by (rule fold_jadd_bounds) (use unit bonus popularityPrior_bounds [of c] provider_bonus_bounds [of "cd_sourceOrder c"] in simp_all)
  then show ?thesis by simp
qed

theorem score_bounds:
  assumes "clicks_sane E k" "scoreCandidate E c query tokens k = (rel, g, ord)"
  shows "0 \<le> sg_score g \<and> sg_score g \<le> 524"
proof -
  let ?raw = "raw_score E c (lexical_of c query tokens) k"
  have g: "sg_score g = jdiv (of_int (js_round (jmul ?raw 1000))) 1000"
    using arg_cong [OF assms(2), of "\<lambda>r. sg_score (fst (snd r))"] by (simp add: scoreCandidate_def Let_def)
  have raw: "0 \<le> ?raw" "?raw \<le> 524" using raw_score_bounds [OF assms(1)] by blast+
  have "?raw * 1000 \<le> of_int 524000" using raw(2) by simp
  from fl.rnd_le_int [OF this] have "jmul ?raw 1000 \<le> of_int 524000" by (simp add: jmul_def)
  from js_round_le [OF this] have r: "js_round (jmul ?raw 1000) \<le> 524000" .
  have "0 \<le> js_round (jmul ?raw 1000)" using raw(1) by (simp add: js_round_nonneg jmul_nonneg)
  moreover have "of_int (js_round (jmul ?raw 1000)) / 1000 \<le> (of_int 524 :: rat)" using r by simp
  ultimately show ?thesis
    using fl.rnd_le_int [of "of_int (js_round (jmul ?raw 1000)) / 1000" 524] by (simp add: g jdiv_def fl.rnd_nonneg)
qed

section \<open>What is suggested\<close>

lemma rank_candidates_spec:
  "length (rank_candidates E cs query signals limit) \<le> limit \<and>
   sorted_wrt (\<lambda>g h. sg_score h \<le> sg_score g) (rank_candidates E cs query signals limit) \<and>
   (\<forall>g \<in> set (rank_candidates E cs query signals limit). \<exists>c \<in> set cs.
      isRelevant (lexical_of c query (tokenizeText (Some query))) (signals_of signals (cd_eLoc c)) \<and>
      sg_eLoc g = cd_eLoc c \<and> sg_placeName g = cd_placeName c)"
proof -
  let ?scored = "map (\<lambda>c. scoreCandidate E c query (tokenizeText (Some query)) (signals_of signals (cd_eLoc c))) cs"
  let ?sorted = "sort_key rank_key (filter fst ?scored)"
  have "sorted (map rank_key ?sorted)" by (rule sorted_sort_key)
  then have "sorted (take limit (map rank_key ?sorted))" by (rule sorted_wrt_take)
  then have "sorted (map rank_key (take limit ?sorted))" by (simp add: take_map)
  then have "sorted_wrt (\<lambda>r r'. sg_score (fst (snd r')) \<le> sg_score (fst (snd r))) (take limit ?sorted)"
    unfolding sorted_wrt_map
    by (rule sorted_wrt_mono_rel [rotated]) (auto simp: rank_key_def less_eq_prod_def less_prod_def split: prod.splits)
  then have "sorted_wrt (\<lambda>g h. sg_score h \<le> sg_score g) (map (\<lambda>(_, g, _). g) (take limit ?sorted))"
    by (simp add: sorted_wrt_map split_def)
  moreover have "\<exists>c \<in> set cs. isRelevant (lexical_of c query (tokenizeText (Some query))) (signals_of signals (cd_eLoc c)) \<and>
      sg_eLoc g = cd_eLoc c \<and> sg_placeName g = cd_placeName c"
    if "g \<in> set (map (\<lambda>(_, g, _). g) (take limit ?sorted))" for g
  proof -
    from that obtain r where r: "r \<in> set ?sorted" "g = fst (snd r)" by (auto dest!: in_set_takeD)
    then obtain c where "c \<in> set cs" "fst r" 
        "r = scoreCandidate E c query (tokenizeText (Some query)) (signals_of signals (cd_eLoc c))"
      by auto
    with r(2) show ?thesis by (intro bexI [of _ c]) (auto simp: scoreCandidate_def Let_def)
  qed
  ultimately show ?thesis by (simp add: rank_candidates_def Let_def)
qed

theorem suggestions_spec:
  assumes "suggestCities E query region ctx s = (Found gs meta, s')"
  shows "length gs \<le> nat (suggestion_limit ctx) \<and> suggestion_limit ctx \<le> 12 \<and>
     sorted_wrt (\<lambda>g h. sg_score h \<le> sg_score g) gs \<and> (gs = [] \<longleftrightarrow> length (normalizeText (Some query)) < 2)"
proof -
  have limit: "1 \<le> nat (suggestion_limit ctx)" "suggestion_limit ctx \<le> 12"
    by (simp_all add: suggestion_limit_def)
  show ?thesis
    using assms limit rank_candidates_spec
    by (auto simp: suggestCities_def Let_def split: option.splits prod.splits if_splits)
qed

end
