(* ===== verification/Autocomplete.thy ===== *)
theory Autocomplete
  imports Places
begin

text \<open>
  \<open>shared/src/maps/RouteAutocomplete.tsx\<close>: the field in which a user picks a city.  The component
  is a state machine: what its hooks hold is a record, and typing, the debounce timer, the answers
  of the search, keys, clicks and changes of its properties are its events.  The portals' wrappers,
  \<open>components/map/RouteAutocomplete.tsx\<close>, give the search and the record of a selection; what a
  search answers is a parameter of the event.  Drawing and scrolling are not modelled.
\<close>

section \<open>Suggestions\<close>

record mmi =
  mm_placeName :: string
  mm_placeAddress :: string
  mm_eLoc :: string
  mm_latitude :: rat
  mm_longitude :: rat
  mm_city :: "string option"
  mm_state :: "string option"
  mm_source :: "string option"
  mm_matchType :: "match_type option"
  mm_score :: "rat option"
  mm_queryClicks :: "int option"
  mm_contextClicks :: "int option"
  mm_globalClicks :: "int option"
  mm_popularityHint :: "string option"

definition plain_suggestion ::
  "string \<Rightarrow> string \<Rightarrow> string \<Rightarrow> string \<Rightarrow> string \<Rightarrow> rat \<Rightarrow> rat \<Rightarrow> match_type \<Rightarrow> string \<Rightarrow> mmi" where
  "plain_suggestion name address city' state' eLoc latitude longitude mt source =
     \<lparr> mm_placeName = name, mm_placeAddress = address, mm_eLoc = eLoc, mm_latitude = latitude,
       mm_longitude = longitude, mm_city = Some city', mm_state = Some state',
       mm_source = Some source, mm_matchType = Some mt, mm_score = None, mm_queryClicks = None,
       mm_contextClicks = None, mm_globalClicks = None, mm_popularityHint = None \<rparr>"

definition mapIndianCityToSuggestion :: "city_data \<Rightarrow> mmi" where
  "mapIndianCityToSuggestion c =
     plain_suggestion (ct_placeName c) (ct_placeAddress c) (ct_city c) (ct_state c) (ct_eLoc c)
       (ct_latitude c) (ct_longitude c) MatchExact ''catalog''"

definition custom_eLoc :: "string \<Rightarrow> string" where
  "custom_eLoc formatted =
     ''LOC_'' @ map (\<lambda>c. if 65 \<le> char_code c \<and> char_code c \<le> 90 \<or> 48 \<le> char_code c \<and> char_code c \<le> 57
                        then c else CHR ''_'') (toUpperCase formatted)"

definition buildCustomCitySuggestion :: "string \<Rightarrow> mmi" where
  "buildCustomCitySuggestion name =
     (let formatted = join_with '' '' (map capitalised (split_on (CHR '' '') (trim name)))
      in plain_suggestion formatted (formatted @ '', India'') formatted ''India'' (custom_eLoc formatted)
           (fl (205937 / 10000)) (fl (789629 / 10000)) MatchFuzzy ''custom'')"

definition POPULAR_INDIAN_CITIES :: "mmi list" where
  "POPULAR_INDIAN_CITIES = map mapIndianCityToSuggestion ALL_INDIAN_CITIES"

definition suggestionHeadline :: "mmi \<Rightarrow> string" where
  "suggestionHeadline g = str_or (mm_city g) (mm_placeName g)"

definition suggestionRegion :: "mmi \<Rightarrow> string" where
  "suggestionRegion g =
     (let segments = filter (\<lambda>p. p \<noteq> []) (map trim (split_on (CHR '','') (mm_placeAddress g)));
          country = (case List.find (\<lambda>p. toLowerCase p = ''india'') segments of Some p \<Rightarrow> p | None \<Rightarrow> ''India'')
      in join_with '', '' (unique (filter (\<lambda>p. p \<noteq> []) [str_or (mm_state g) [], country])))"

text \<open>\<open>text.indexOf(q)\<close>, for a text that is not blank.\<close>

fun index_of :: "string \<Rightarrow> string \<Rightarrow> nat option" where
  "index_of [] q = (if q = [] then Some 0 else None)"
| "index_of (c # s) q = (if startsWith (c # s) q then Some 0 else map_option Suc (index_of s q))"

datatype highlighted = Unmarked string | Marked string string string

definition highlightMatch :: "string \<Rightarrow> string \<Rightarrow> highlighted" where
  "highlightMatch text query =
     (let normalizedQuery = toLowerCase (trim query)
      in if length normalizedQuery < 2 then Unmarked text
         else case index_of (toLowerCase text) normalizedQuery of
           None \<Rightarrow> Unmarked text
         | Some i \<Rightarrow> Marked (take i text) (take (length normalizedQuery) (drop i text))
                      (drop (i + length normalizedQuery) text))"

section \<open>Recent selections\<close>

text \<open>
  \<open>localStorage\<close>, by what \<open>JSON.parse\<close> makes of the text under a key: an array, or something else
  (no JSON, or no array).  Reading and writing may throw, as with cookies blocked or a full quota.
\<close>

datatype stored = StoredList "mmi list" | StoredOther

record browser_storage =
  bs_window :: bool
  bs_readable :: bool
  bs_writable :: bool
  bs_items :: "(string \<times> stored) list"

record ac_context =
  cx_actor :: "string option"
  cx_field :: "string option"

definition RECENT_SELECTION_LIMIT :: nat where
  "RECENT_SELECTION_LIMIT = 5"

definition recentStorageKey :: "ac_context \<Rightarrow> string" where
  "recentStorageKey cx =
     ''hopdrop:route-search:recent:'' @ or_all (cx_actor cx) @ '':'' @ or_all (cx_field cx)"

definition loadRecentSuggestions :: "ac_context \<Rightarrow> browser_storage \<Rightarrow> mmi list" where
  "loadRecentSuggestions cx st =
     (if \<not> bs_window st \<or> \<not> bs_readable st then []
      else case map_of (bs_items st) (recentStorageKey cx) of Some (StoredList gs) \<Rightarrow> gs | _ \<Rightarrow> [])"

definition recent_first :: "mmi \<Rightarrow> mmi list \<Rightarrow> mmi list" where
  "recent_first g gs = take RECENT_SELECTION_LIMIT (g # filter (\<lambda>e. mm_eLoc e \<noteq> mm_eLoc g) gs)"

text \<open>\<open>None\<close> when \<open>setItem\<close> throws: it stands outside of any \<open>try\<close>.\<close>

definition saveRecentSuggestion :: "mmi \<Rightarrow> ac_context \<Rightarrow> browser_storage \<Rightarrow> mmi list option \<times> browser_storage" where
  "saveRecentSuggestion g cx st =
     (if \<not> bs_window st then (Some (loadRecentSuggestions cx st), st)
      else (let kept = recent_first g (loadRecentSuggestions cx st)
            in if bs_writable st
               then (Some kept, st\<lparr>bs_items := AList.update (recentStorageKey cx) (StoredList kept) (bs_items st)\<rparr>)
               else (None, st)))"

section \<open>The component\<close>

text \<open>
  \<open>ac_pending\<close> are the searches that have not answered, with the request's number and its query;
  \<open>ac_inputs\<close>, \<open>ac_changes\<close> and \<open>ac_told\<close> are the calls of \<open>onInputChange\<close>, \<open>onChange\<close> and
  \<open>onSuggestionSelected\<close> so far.
\<close>

record ac_state =
  ac_context :: ac_context
  ac_query :: string
  ac_suggestions :: "mmi list"
  ac_recent :: "mmi list"
  ac_loading :: bool
  ac_errorMessage :: "string option"
  ac_isOpen :: bool
  ac_activeIndex :: int
  ac_debounce :: "string option"
  ac_request :: nat
  ac_pending :: "(nat \<times> string) list"
  ac_storage :: browser_storage
  ac_inputs :: "string list"
  ac_changes :: "(string \<times> string \<times> rat \<times> rat) list"
  ac_told :: "(mmi \<times> string) list"

definition ac_start :: "ac_context \<Rightarrow> string \<Rightarrow> browser_storage \<Rightarrow> ac_state" where
  "ac_start cx v st =
     \<lparr> ac_context = cx, ac_query = v, ac_suggestions = [], ac_recent = loadRecentSuggestions cx st,
       ac_loading = False, ac_errorMessage = None, ac_isOpen = False, ac_activeIndex = - 1,
       ac_debounce = None, ac_request = 0, ac_pending = [], ac_storage = st, ac_inputs = [],
       ac_changes = [], ac_told = [] \<rparr>"

definition catalogue_matches :: "string \<Rightarrow> mmi list" where
  "catalogue_matches q = map mapIndianCityToSuggestion (searchIndianCities q 15)"

definition fallbackCities :: "string \<Rightarrow> mmi list" where
  "fallbackCities query =
     (let q = toLowerCase (trim query)
      in if q = [] then take 5 POPULAR_INDIAN_CITIES
         else if catalogue_matches q \<noteq> [] then catalogue_matches q
         else if 2 \<le> length q then [buildCustomCitySuggestion query] else [])"

definition visibleSuggestions :: "ac_state \<Rightarrow> mmi list" where
  "visibleSuggestions s =
     (if 2 \<le> length (trim (ac_query s))
      then (if ac_suggestions s \<noteq> [] then ac_suggestions s else fallbackCities (ac_query s))
      else (if ac_recent s \<noteq> [] then ac_recent s else fallbackCities (ac_query s)))"

definition showingRecent :: "ac_state \<Rightarrow> bool" where
  "showingRecent s = (length (trim (ac_query s)) < 2 \<and> ac_recent s \<noteq> [])"

text \<open>\<open>search\<close>, up to the \<open>await\<close> and after it; the answer \<open>None\<close> is a failed call.\<close>

definition search_begin :: "string \<Rightarrow> ac_state \<Rightarrow> ac_state" where
  "search_begin nextQuery s =
     (let normalizedQuery = trim nextQuery;
          s1 = s\<lparr>ac_request := ac_request s + 1\<rparr>
      in if length normalizedQuery < 2
         then s1\<lparr>ac_loading := False, ac_errorMessage := None, ac_suggestions := [], ac_activeIndex := - 1\<rparr>
         else s1\<lparr>ac_loading := True, ac_errorMessage := None,
                 ac_pending := ac_pending s @ [(ac_request s + 1, normalizedQuery)]\<rparr>)"

definition answered :: "string \<Rightarrow> mmi list option \<Rightarrow> mmi list" where
  "answered q found =
     (case found of
        Some (g # gs) \<Rightarrow> g # gs
      | _ \<Rightarrow> if catalogue_matches q \<noteq> [] then catalogue_matches q else [buildCustomCitySuggestion q])"

definition search_end :: "nat \<Rightarrow> mmi list option \<Rightarrow> ac_state \<Rightarrow> ac_state" where
  "search_end n found s =
     (case map_of (ac_pending s) n of
        None \<Rightarrow> s
      | Some q \<Rightarrow>
          (let s1 = s\<lparr>ac_pending := filter (\<lambda>(m, _). m \<noteq> n) (ac_pending s)\<rparr>
           in if ac_request s \<noteq> n then s1
              else s1\<lparr>ac_suggestions := answered q found, ac_isOpen := True, ac_activeIndex := 0,
                      ac_errorMessage := (if found = None then None else ac_errorMessage s),
                      ac_loading := False\<rparr>))"

definition handleInput :: "string \<Rightarrow> ac_state \<Rightarrow> ac_state" where
  "handleInput t s =
     (let s1 = s\<lparr>ac_request := ac_request s + 1, ac_query := t, ac_isOpen := True, ac_activeIndex := - 1,
                 ac_errorMessage := None, ac_inputs := ac_inputs s @ [t], ac_debounce := None\<rparr>
      in if length (trim t) < 2 then s1\<lparr>ac_loading := False, ac_suggestions := [], ac_errorMessage := None\<rparr>
         else s1\<lparr>ac_debounce := Some t\<rparr>)"

definition debounce_fires :: "ac_state \<Rightarrow> ac_state" where
  "debounce_fires s =
     (case ac_debounce s of None \<Rightarrow> s | Some t \<Rightarrow> search_begin t (s\<lparr>ac_debounce := None\<rparr>))"

definition handleSelect :: "mmi \<Rightarrow> ac_state \<Rightarrow> ac_state" where
  "handleSelect g s =
     (let selectionQuery = (if trim (ac_query s) \<noteq> [] then trim (ac_query s) else mm_placeName g);
          s1 = s\<lparr>ac_query := mm_placeName g, ac_suggestions := [], ac_isOpen := False,
                 ac_activeIndex := - 1, ac_errorMessage := None\<rparr>
      in case saveRecentSuggestion g (ac_context s) (ac_storage s) of
           (None, st) \<Rightarrow> s1
         | (Some gs, st) \<Rightarrow>
             s1\<lparr>ac_recent := gs, ac_storage := st,
                ac_changes := ac_changes s @ [(mm_placeName g, mm_eLoc g, mm_longitude g, mm_latitude g)],
                ac_told := ac_told s @ [(g, selectionQuery)]\<rparr>)"

datatype ac_key = ArrowDown | ArrowUp | Enter | Escape | OtherKey

text \<open>\<open>Enter\<close> on an index out of range reads \<open>placeName\<close> of \<open>undefined\<close> and throws at once.\<close>

definition handleKeyDown :: "ac_key \<Rightarrow> ac_state \<Rightarrow> ac_state" where
  "handleKeyDown k s =
     (let shown = visibleSuggestions s; n = int (length shown); i = ac_activeIndex s
      in if shown = [] then (if k = Escape then s\<lparr>ac_isOpen := False\<rparr> else s)
         else case k of
           ArrowDown \<Rightarrow> s\<lparr>ac_isOpen := True, ac_activeIndex := (if n \<le> i + 1 then 0 else i + 1)\<rparr>
         | ArrowUp \<Rightarrow> s\<lparr>ac_isOpen := True, ac_activeIndex := (if i \<le> 0 then n - 1 else i - 1)\<rparr>
         | Enter \<Rightarrow> (if ac_isOpen s \<and> 0 \<le> i \<and> i < n then handleSelect (shown ! nat i) s else s)
         | Escape \<Rightarrow> s\<lparr>ac_isOpen := False, ac_activeIndex := - 1\<rparr>
         | OtherKey \<Rightarrow> s)"

definition click_option :: "nat \<Rightarrow> ac_state \<Rightarrow> ac_state" where
  "click_option i s =
     (if ac_isOpen s \<and> i < length (visibleSuggestions s) then handleSelect (visibleSuggestions s ! i) s else s)"

datatype ac_event =
    Typed string
  | DebounceFires
  | SearchEnds nat "mmi list option"
  | KeyDown ac_key
  | ClickOption nat
  | Focused
  | PressedOutside
  | ValueChanged string
  | ContextChanged ac_context

fun ac_step :: "ac_event \<Rightarrow> ac_state \<Rightarrow> ac_state" where
  "ac_step (Typed t) s = handleInput t s"
| "ac_step DebounceFires s = debounce_fires s"
| "ac_step (SearchEnds n found) s = search_end n found s"
| "ac_step (KeyDown k) s = handleKeyDown k s"
| "ac_step (ClickOption i) s = click_option i s"
| "ac_step Focused s = s\<lparr>ac_isOpen := True\<rparr>"
| "ac_step PressedOutside s = s\<lparr>ac_isOpen := False, ac_activeIndex := - 1\<rparr>"
| "ac_step (ValueChanged v) s = s\<lparr>ac_query := v\<rparr>"
| "ac_step (ContextChanged cx) s = s\<lparr>ac_context := cx, ac_recent := loadRecentSuggestions cx (ac_storage s)\<rparr>"

text \<open>What is under the field: nothing, options with their heading, an error, or a hint.\<close>

datatype ac_list = NoList | Options bool "mmi list" | ErrorText string | NoMatches | EmptyList

definition listbox :: "ac_state \<Rightarrow> ac_list" where
  "listbox s =
     (let shown = visibleSuggestions s
      in if \<not> (ac_isOpen s \<and> (ac_loading s \<or> shown \<noteq> [] \<or> 2 \<le> length (trim (ac_query s)))) then NoList
         else if shown \<noteq> [] then Options (showingRecent s) shown
         else case ac_errorMessage s of
           Some e \<Rightarrow> (if e = [] then (if \<not> ac_loading s \<and> 2 \<le> length (trim (ac_query s)) then NoMatches else EmptyList) else ErrorText e)
         | None \<Rightarrow> (if \<not> ac_loading s \<and> 2 \<le> length (trim (ac_query s)) then NoMatches else EmptyList))"

section \<open>Highlighting\<close>

lemma index_of_Some: "index_of s q = Some i \<Longrightarrow> startsWith (drop i s) q \<and> i \<le> length s"
  by (induction s arbitrary: i) (auto split: if_splits)

lemma index_of_None: "index_of s q = None \<longleftrightarrow> \<not> strIncludes s q"
  by (induction s) auto

lemma startsWith_take: "startsWith s p \<Longrightarrow> take (length p) s = p"
  by (auto simp: startsWith_iff)

lemma highlight_parts:
  "case highlightMatch text query of
     Unmarked t \<Rightarrow> t = text \<and> (length (trim query) < 2 \<or> \<not> strIncludes (toLowerCase text) (toLowerCase (trim query)))
   | Marked before hit after \<Rightarrow> before @ hit @ after = text \<and> toLowerCase hit = toLowerCase (trim query)"
proof (cases "length (trim query) < 2 \<or> index_of (toLowerCase text) (toLowerCase (trim query)) = None")
  case True
  then show ?thesis
    by (auto simp: highlightMatch_def Let_def toLowerCase_def index_of_None [symmetric])
next
  case False
  define q where "q = toLowerCase (trim query)"
  from False obtain i where i: "index_of (toLowerCase text) q = Some i" by (auto simp: q_def)
  have marked: "highlightMatch text query =
      Marked (take i text) (take (length q) (drop i text)) (drop (i + length q) text)"
    using False i by (simp add: highlightMatch_def Let_def q_def toLowerCase_def)
  have "take (length q) (drop i (toLowerCase text)) = q"
    using i by (auto dest: index_of_Some startsWith_take)
  then have "toLowerCase (take (length q) (drop i text)) = q"
    by (simp add: toLowerCase_def take_map drop_map)
  moreover have "take i text @ take (length q) (drop i text) @ drop (i + length q) text = text"
    by (metis append_take_drop_id drop_drop add.commute)
  ultimately show ?thesis by (simp add: marked q_def)
qed

section \<open>Recent selections\<close>

definition recent_ok :: "mmi list \<Rightarrow> bool" where
  "recent_ok gs = (distinct (map mm_eLoc gs) \<and> length gs \<le> RECENT_SELECTION_LIMIT)"

definition storage_ok :: "browser_storage \<Rightarrow> bool" where
  "storage_ok st = list_all (\<lambda>(k, v). case v of StoredList gs \<Rightarrow> recent_ok gs | StoredOther \<Rightarrow> True) (bs_items st)"

lemma recent_ok_Nil [simp]: "recent_ok []"
  by (simp add: recent_ok_def)

lemma recent_first_ok: "recent_ok gs \<Longrightarrow> recent_ok (recent_first g gs)"
  by (auto simp: recent_ok_def recent_first_def RECENT_SELECTION_LIMIT_def take_Cons' distinct_map
      dest: in_set_takeD intro: distinct_take elim!: inj_on_subset)

lemma load_ok: "storage_ok st \<Longrightarrow> recent_ok (loadRecentSuggestions cx st)"
  by (auto simp: loadRecentSuggestions_def storage_ok_def list_all_iff split: option.splits stored.splits
      dest!: map_of_SomeD)

lemma set_update_subset: "set (AList.update k v xs) \<subseteq> insert (k, v) (set xs)"
  by (induction xs) auto

lemma save_ok:
  assumes "storage_ok st" and "saveRecentSuggestion g cx st = (r, st')"
  shows "storage_ok st' \<and> (case r of None \<Rightarrow> st' = st | Some gs \<Rightarrow> recent_ok gs)"
proof -
  note new = recent_first_ok [OF load_ok [OF assms(1)]]
  have "storage_ok (st\<lparr>bs_items := AList.update k (StoredList (recent_first g (loadRecentSuggestions cx st))) (bs_items st)\<rparr>)" for k
    using assms(1) new set_update_subset [of k _ "bs_items st"]
    by (fastforce simp: storage_ok_def list_all_iff)
  with assms new load_ok [OF assms(1)] show ?thesis
    by (auto simp: saveRecentSuggestion_def Let_def split: if_splits)
qed

lemma recent_first_hd [simp]: "recent_first g gs \<noteq> []" "hd (recent_first g gs) = g"
  by (simp_all add: recent_first_def RECENT_SELECTION_LIMIT_def)

section \<open>What is always true of the field\<close>

lemma answered_nonempty [simp]: "answered q found \<noteq> []"
  by (auto simp: answered_def split: option.splits list.splits)

lemma trim_lower_nonempty: "2 \<le> length (trim q) \<Longrightarrow> toLowerCase (trim q) \<noteq> []"
  by (auto simp: toLowerCase_def)

lemma fallback_nonempty: "2 \<le> length (trim q) \<Longrightarrow> fallbackCities q \<noteq> []"
  by (auto simp: fallbackCities_def Let_def toLowerCase_def)

lemma visible_nonempty: "2 \<le> length (trim (ac_query s)) \<Longrightarrow> visibleSuggestions s \<noteq> []"
  by (simp add: visibleSuggestions_def fallback_nonempty)

text \<open>The numbers and queries of the searches under way, and the spinner.\<close>

definition requests_ok :: "ac_state \<Rightarrow> bool" where
  "requests_ok s =
     (distinct (map fst (ac_pending s)) \<and>
      (\<forall>(n, q) \<in> set (ac_pending s).
         n \<le> ac_request s \<and> (n = ac_request s \<longrightarrow> ac_inputs s \<noteq> [] \<and> q = trim (last (ac_inputs s)))) \<and>
      (\<forall>t. ac_debounce s = Some t \<longrightarrow> ac_inputs s \<noteq> [] \<and> t = last (ac_inputs s)) \<and>
      (ac_loading s \<longrightarrow> ac_debounce s \<noteq> None \<or> ac_request s \<in> fst ` set (ac_pending s)))"

definition memory_ok :: "ac_state \<Rightarrow> bool" where
  "memory_ok s = (storage_ok (ac_storage s) \<and> recent_ok (ac_recent s) \<and> ac_errorMessage s = None)"

definition in_range :: "ac_state \<Rightarrow> bool" where
  "in_range s =
     (- 1 \<le> ac_activeIndex s \<and>
      (visibleSuggestions s \<noteq> [] \<longrightarrow> ac_activeIndex s < int (length (visibleSuggestions s))))"

lemmas ac_defs = handleInput_def debounce_fires_def search_begin_def search_end_def handleSelect_def
  handleKeyDown_def click_option_def Let_def

lemma select_fields [simp]:
  "ac_request (handleSelect g s) = ac_request s" "ac_pending (handleSelect g s) = ac_pending s"
  "ac_inputs (handleSelect g s) = ac_inputs s" "ac_debounce (handleSelect g s) = ac_debounce s"
  "ac_loading (handleSelect g s) = ac_loading s" "ac_activeIndex (handleSelect g s) = - 1"
  "ac_isOpen (handleSelect g s) = False" "ac_suggestions (handleSelect g s) = []"
  "ac_query (handleSelect g s) = mm_placeName g" "ac_errorMessage (handleSelect g s) = None"
  "ac_context (handleSelect g s) = ac_context s"
  by (auto simp: handleSelect_def Let_def split: prod.splits option.splits)

lemma select_memory: "memory_ok s \<Longrightarrow> memory_ok (handleSelect g s)"
  using save_ok [of "ac_storage s" g "ac_context s"]
  by (auto simp: memory_ok_def handleSelect_def Let_def split: prod.splits option.splits)

lemma key_cases:
  "handleKeyDown k s = s \<or> (\<exists>o' i. handleKeyDown k s = s\<lparr>ac_isOpen := o', ac_activeIndex := i\<rparr>) \<or>
     (\<exists>g. handleKeyDown k s = handleSelect g s)"
proof (cases "visibleSuggestions s = []")
  case True
  have "s\<lparr>ac_isOpen := False\<rparr> = s\<lparr>ac_isOpen := False, ac_activeIndex := ac_activeIndex s\<rparr>" by simp
  with True show ?thesis unfolding handleKeyDown_def Let_def by metis
next
  case False
  then show ?thesis by (cases k) (auto simp: handleKeyDown_def Let_def)
qed

lemma click_cases: "click_option i s = s \<or> (\<exists>g. click_option i s = handleSelect g s)"
  by (auto simp: click_option_def)

text \<open>Events that leave the requests alone.\<close>

lemma requests_same:
  assumes "requests_ok s" and "ac_pending s' = ac_pending s" "ac_request s' = ac_request s"
    "ac_inputs s' = ac_inputs s" "ac_debounce s' = ac_debounce s" "ac_loading s' = ac_loading s"
  shows "requests_ok s'"
  using assms unfolding requests_ok_def by simp

lemma requests_okI:
  assumes "distinct (map fst (ac_pending s))"
    and "\<And>n q. (n, q) \<in> set (ac_pending s) \<Longrightarrow> n \<le> ac_request s"
    and "\<And>q. (ac_request s, q) \<in> set (ac_pending s) \<Longrightarrow> ac_inputs s \<noteq> [] \<and> q = trim (last (ac_inputs s))"
    and "\<And>t. ac_debounce s = Some t \<Longrightarrow> ac_inputs s \<noteq> [] \<and> t = last (ac_inputs s)"
    and "ac_loading s \<Longrightarrow> ac_debounce s = None \<Longrightarrow> ac_request s \<in> fst ` set (ac_pending s)"
  shows "requests_ok s"
  using assms unfolding requests_ok_def by blast

lemma requests_okD:
  assumes "requests_ok s"
  shows "distinct (map fst (ac_pending s))"
    and "(n, q) \<in> set (ac_pending s) \<Longrightarrow> n \<le> ac_request s"
    and "(ac_request s, q) \<in> set (ac_pending s) \<Longrightarrow> ac_inputs s \<noteq> [] \<and> q = trim (last (ac_inputs s))"
    and "ac_debounce s = Some t \<Longrightarrow> ac_inputs s \<noteq> [] \<and> t = last (ac_inputs s)"
    and "ac_loading s \<Longrightarrow> ac_debounce s = None \<Longrightarrow> ac_request s \<in> fst ` set (ac_pending s)"
  using assms unfolding requests_ok_def by auto

lemma requests_typed:
  assumes "requests_ok s"
  shows "requests_ok (handleInput t s)"
proof (rule requests_okI)
  have old: "n \<le> ac_request s" if "(n, q) \<in> set (ac_pending s)" for n q
    using requests_okD(2) [OF assms that] .
  show "distinct (map fst (ac_pending (handleInput t s)))"
    using requests_okD(1) [OF assms] by (simp add: handleInput_def Let_def)
  show "n \<le> ac_request (handleInput t s)" if "(n, q) \<in> set (ac_pending (handleInput t s))" for n q
    using old [of n q] that by (simp add: handleInput_def Let_def split: if_splits)
  show "ac_inputs (handleInput t s) \<noteq> [] \<and> q = trim (last (ac_inputs (handleInput t s)))"
    if "(ac_request (handleInput t s), q) \<in> set (ac_pending (handleInput t s))" for q
    using old [of "Suc (ac_request s)" q] that by (simp add: handleInput_def Let_def split: if_splits)
qed (simp_all add: handleInput_def Let_def split: if_splits)

lemma requests_searched:
  assumes "requests_ok s" and "ac_inputs s \<noteq> []"
  shows "requests_ok (search_begin (last (ac_inputs s)) (s\<lparr>ac_debounce := None\<rparr>))" (is "requests_ok ?s'")
proof (rule requests_okI)
  have old: "n \<le> ac_request s" if "(n, q) \<in> set (ac_pending s)" for n q
    using requests_okD(2) [OF assms(1) that] .
  then have new: "Suc (ac_request s) \<notin> fst ` set (ac_pending s)" by force
  show "distinct (map fst (ac_pending ?s'))"
    using requests_okD(1) [OF assms(1)] new by (simp add: search_begin_def Let_def)
  show "n \<le> ac_request ?s'" if "(n, q) \<in> set (ac_pending ?s')" for n q
    using old [of n q] that by (auto simp: search_begin_def Let_def split: if_splits)
  show "ac_inputs ?s' \<noteq> [] \<and> q = trim (last (ac_inputs ?s'))" if "(ac_request ?s', q) \<in> set (ac_pending ?s')" for q
    using old [of "Suc (ac_request s)" q] that assms(2)
    by (auto simp: search_begin_def Let_def split: if_splits)
qed (simp_all add: search_begin_def Let_def split: if_splits)

lemma requests_answered:
  assumes "requests_ok s"
  shows "requests_ok (search_end n found s)"
proof (cases "map_of (ac_pending s) n")
  case None
  with assms show ?thesis by (simp add: search_end_def)
next
  case (Some q)
  show ?thesis
  proof (rule requests_okI)
    show "distinct (map fst (ac_pending (search_end n found s)))"
      using requests_okD(1) [OF assms] Some
      by (auto simp: search_end_def Let_def distinct_map elim!: inj_on_subset)
    show "m \<le> ac_request (search_end n found s)" if "(m, p) \<in> set (ac_pending (search_end n found s))" for m p
      using requests_okD(2) [OF assms, of m p] that Some by (auto simp: search_end_def Let_def split: if_splits)
    show "ac_inputs (search_end n found s) \<noteq> [] \<and> p = trim (last (ac_inputs (search_end n found s)))"
      if "(ac_request (search_end n found s), p) \<in> set (ac_pending (search_end n found s))" for p
      using requests_okD(3) [OF assms, of p] that Some by (auto simp: search_end_def Let_def split: if_splits)
    show "ac_inputs (search_end n found s) \<noteq> [] \<and> t = last (ac_inputs (search_end n found s))"
      if "ac_debounce (search_end n found s) = Some t" for t
      using requests_okD(4) [OF assms, of t] that Some by (auto simp: search_end_def Let_def split: if_splits)
    show "ac_request (search_end n found s) \<in> fst ` set (ac_pending (search_end n found s))"
      if "ac_loading (search_end n found s)" and "ac_debounce (search_end n found s) = None"
      using requests_okD(5) [OF assms] that Some
      by (auto simp: search_end_def Let_def image_iff split: if_splits)
  qed
qed

lemma requests_step: "requests_ok s \<Longrightarrow> requests_ok (ac_step e s)"
proof (cases e)
  case DebounceFires
  moreover assume "requests_ok s"
  ultimately show ?thesis
    using requests_searched [of s] requests_okD(4) [of s]
    by (cases "ac_debounce s") (auto simp: debounce_fires_def)
next
  case (KeyDown k)
  moreover assume "requests_ok s"
  ultimately show ?thesis
    using key_cases [of k s] by (auto elim!: requests_same)
next
  case (ClickOption i)
  moreover assume "requests_ok s"
  ultimately show ?thesis
    using click_cases [of i s] by (auto elim!: requests_same)
qed (auto simp: requests_typed requests_answered elim: requests_same)

lemma memory_step: "memory_ok s \<Longrightarrow> memory_ok (ac_step e s)"
proof (cases e)
  case (KeyDown k)
  moreover assume "memory_ok s"
  ultimately show ?thesis
    using key_cases [of k s] select_memory [of s] by (auto simp: memory_ok_def)
next
  case (ClickOption i)
  moreover assume "memory_ok s"
  ultimately show ?thesis
    using click_cases [of i s] select_memory [of s] by auto
qed (auto simp: memory_ok_def ac_defs load_ok split: option.splits)

text \<open>
  The parent gives back the text that the field reported, and the context changes while no option
  is active.
\<close>

definition echoes :: "ac_event \<Rightarrow> ac_state \<Rightarrow> bool" where
  "echoes e s =
     (case e of
        ValueChanged v \<Rightarrow> v = ac_query s \<or> ac_activeIndex s = - 1
      | ContextChanged cx \<Rightarrow> ac_activeIndex s = - 1
      | _ \<Rightarrow> True)"

lemma visible_cong:
  "ac_query s' = ac_query s \<Longrightarrow> ac_suggestions s' = ac_suggestions s \<Longrightarrow> ac_recent s' = ac_recent s \<Longrightarrow>
     visibleSuggestions s' = visibleSuggestions s"
  by (simp add: visibleSuggestions_def)

lemma visible_moved [simp]:
  "visibleSuggestions (s\<lparr>ac_isOpen := o', ac_activeIndex := i\<rparr>) = visibleSuggestions s"
  by (simp add: visibleSuggestions_def)

lemma closed_in_range: "ac_activeIndex s = - 1 \<Longrightarrow> in_range s"
  by (simp add: in_range_def)

lemma first_in_range: "ac_activeIndex s = 0 \<Longrightarrow> in_range s"
  by (simp add: in_range_def)

lemma range_same:
  assumes "in_range s" and "ac_query s' = ac_query s" "ac_suggestions s' = ac_suggestions s"
    "ac_recent s' = ac_recent s" "ac_activeIndex s' = ac_activeIndex s"
  shows "in_range s'"
  using assms(1) unfolding in_range_def visible_cong [OF assms(2-4)] assms(5) .

lemma range_key: "in_range s \<Longrightarrow> in_range (handleKeyDown k s)"
proof (cases k)
  case ArrowDown
  moreover assume "in_range s"
  ultimately show ?thesis
    by (auto simp: handleKeyDown_def Let_def in_range_def)
next
  case ArrowUp
  moreover assume "in_range s"
  ultimately show ?thesis
    by (auto simp: handleKeyDown_def Let_def in_range_def)
qed (auto simp: handleKeyDown_def Let_def intro: closed_in_range range_same)

lemma range_step: "in_range s \<Longrightarrow> echoes e s \<Longrightarrow> in_range (ac_step e s)"
proof (cases e)
  case (Typed t)
  then show ?thesis by (auto simp: handleInput_def Let_def intro: closed_in_range)
next
  case DebounceFires
  moreover assume "in_range s"
  ultimately show ?thesis
    by (auto simp: debounce_fires_def search_begin_def Let_def intro: closed_in_range elim: range_same
        split: option.splits)
next
  case (SearchEnds n found)
  moreover assume "in_range s"
  ultimately show ?thesis
    by (auto simp: search_end_def Let_def intro: first_in_range elim: range_same split: option.splits)
next
  case (KeyDown k)
  moreover assume "in_range s"
  ultimately show ?thesis by (simp add: range_key)
next
  case (ClickOption i)
  moreover assume "in_range s"
  ultimately show ?thesis using click_cases [of i s] by (auto intro: closed_in_range)
qed (auto simp: echoes_def intro: closed_in_range elim: range_same)

text \<open>The states of a field, from its first rendering.\<close>

inductive ac_reach :: "ac_context \<Rightarrow> string \<Rightarrow> browser_storage \<Rightarrow> ac_state \<Rightarrow> bool"
  for cx v st where
  mounted: "ac_reach cx v st (ac_start cx v st)"
| stepped: "ac_reach cx v st s \<Longrightarrow> echoes e s \<Longrightarrow> ac_reach cx v st (ac_step e s)"

lemma start_ok: "storage_ok st \<Longrightarrow> requests_ok (ac_start cx v st) \<and> memory_ok (ac_start cx v st) \<and> in_range (ac_start cx v st)"
  by (auto simp: ac_start_def requests_ok_def memory_ok_def load_ok intro: closed_in_range)

lemma reach_ok:
  assumes "ac_reach cx v st s" and "storage_ok st"
  shows "requests_ok s \<and> memory_ok s \<and> in_range s"
  using assms(1) by (induction) (auto simp: start_ok [OF assms(2)] requests_step memory_step range_step)

text \<open>An answer changes the suggestions only if it answers the last text typed.\<close>

lemma answers_last_typed:
  assumes "requests_ok s" and "ac_suggestions (search_end n found s) \<noteq> ac_suggestions s"
  shows "ac_suggestions (search_end n found s) = answered (trim (last (ac_inputs s))) found \<and> n = ac_request s"
  using assms by (auto simp: search_end_def Let_def requests_ok_def split: option.splits if_splits dest!: map_of_SomeD)

lemma stale_ignored:
  "n \<noteq> ac_request s \<Longrightarrow> search_end n found s = s\<lparr>ac_pending := filter (\<lambda>(m, _). m \<noteq> n) (ac_pending s)\<rparr>"
proof (cases "map_of (ac_pending s) n")
  case None
  then have "filter (\<lambda>(m, _). m \<noteq> n) (ac_pending s) = ac_pending s"
    by (auto simp: filter_id_conv map_of_eq_None_iff image_iff)
  with None show ?thesis by (simp add: search_end_def)
qed (simp add: search_end_def Let_def)

text \<open>A search that is under way when an option is taken opens the list again.\<close>

lemma reopened:
  assumes "map_of (ac_pending s) (ac_request s) = Some q"
  shows "ac_isOpen (search_end (ac_request s) found (handleSelect g s)) \<and>
    ac_suggestions (search_end (ac_request s) found (handleSelect g s)) = answered q found \<and>
    ac_activeIndex (search_end (ac_request s) found (handleSelect g s)) = 0"
  using assms by (simp add: search_end_def Let_def)

section \<open>The wrappers of the portals\<close>

text \<open>The context of a field, the query string of a search and the body that records a selection.\<close>

definition portal_context :: "string \<Rightarrow> string \<Rightarrow> ac_context" where
  "portal_context actor field = \<lparr> cx_actor = Some actor, cx_field = Some field \<rparr>"

definition suggest_params :: "string \<Rightarrow> string \<Rightarrow> string \<Rightarrow> json" where
  "suggest_params actor field q =
     JObj [(''q'', JStr q), (''region'', JStr ''IND''), (''actor'', JStr actor), (''field'', JStr field)]"

definition match_type_text :: "match_type \<Rightarrow> string" where
  "match_type_text m =
     (case m of MatchExact \<Rightarrow> ''exact'' | MatchPrefix \<Rightarrow> ''prefix'' | MatchToken \<Rightarrow> ''token''
      | MatchContains \<Rightarrow> ''contains'' | MatchFuzzy \<Rightarrow> ''fuzzy'' | MatchProvider \<Rightarrow> ''provider'')"

definition mmi_json :: "mmi \<Rightarrow> json" where
  "mmi_json g = JObj
     [(''placeName'', JStr (mm_placeName g)), (''placeAddress'', JStr (mm_placeAddress g)),
      (''eLoc'', JStr (mm_eLoc g)), (''latitude'', JNum (mm_latitude g)), (''longitude'', JNum (mm_longitude g)),
      (''city'', jopt JStr (mm_city g)), (''state'', jopt JStr (mm_state g)), (''source'', jopt JStr (mm_source g)),
      (''matchType'', jopt (\<lambda>m. JStr (match_type_text m)) (mm_matchType g)), (''score'', jopt JNum (mm_score g)),
      (''queryClicks'', jopt JInt (mm_queryClicks g)), (''contextClicks'', jopt JInt (mm_contextClicks g)),
      (''globalClicks'', jopt JInt (mm_globalClicks g)),
      (''popularityHint'', jopt JStr (mm_popularityHint g))]"

definition select_body :: "string \<Rightarrow> string \<Rightarrow> mmi \<times> string \<Rightarrow> json" where
  "select_body actor field told = JObj
     [(''query'', JStr (snd told)), (''region'', JStr ''IND''), (''actor'', JStr actor),
      (''field'', JStr field), (''suggestion'', mmi_json (fst told))]"

text \<open>The server takes every search that the field makes, up to its longest query.\<close>

lemma suggest_accepted:
  assumes "actor \<in> {''sender'', ''carrier''}" and "field \<in> {''origin'', ''destination''}"
  shows "zparse W mapSuggestSchema (suggest_params actor field q) \<noteq> None \<longleftrightarrow> 2 \<le> length q \<and> length q \<le> 120"
  using assms
  by (auto simp: mapSuggestSchema_def suggest_params_def actorSchema_def fieldSchema_def text_ok_def number_ok_def)

lemma select_accepted:
  assumes "actor \<in> {''sender'', ''carrier''}" and "field \<in> {''origin'', ''destination''}"
    and "mm_placeName g \<noteq> []" and "2 \<le> length (mm_eLoc g)"
  shows "zparse W mapSelectSchema (select_body actor field (g, q)) \<noteq> None \<longleftrightarrow> 2 \<le> length q \<and> length q \<le> 120"
  using assms
  by (auto simp: mapSelectSchema_def select_body_def mmi_json_def suggestionSchema_def actorSchema_def
      fieldSchema_def text_ok_def number_ok_def jopt_def Suc_le_eq split: option.splits)

text \<open>The field shows neither an error nor the text for no match.\<close>

lemma listbox_texts:
  assumes "memory_ok s"
  shows "listbox s \<noteq> NoMatches \<and> (\<forall>e. listbox s \<noteq> ErrorText e)"
  using assms visible_nonempty [of s] by (auto simp: listbox_def memory_ok_def Let_def)

end
