(* ===== verification/Checkout.thy ===== *)
theory Checkout
  imports Autocomplete
begin

text \<open>
  \<open>components/ui/RazorpayButton.tsx\<close>, the same file in both portals: the order, the checkout of
  Razorpay, which is a parameter, and what is made of its answer.  The events of the checkout come
  one after the other: a failed attempt leaves it open for another one.
\<close>

section \<open>The button\<close>

record order_answer =
  oa_order_id :: "string option"
  oa_orderId :: "string option"
  oa_id :: "string option"

definition order_id_of :: "order_answer option \<Rightarrow> string" where
  "order_id_of a =
     (case a of None \<Rightarrow> []
      | Some d \<Rightarrow> str_or (oa_order_id d) (str_or (oa_orderId d) (str_or (oa_id d) [])))"

datatype verification = Verified | Refused "string option" | VerifyFailed

datatype checkout_event =
    PaymentDone string "string option" "string option" verification
  | PaymentFailed "string option" "string option"
  | CheckoutDismissed

text \<open>
  The surroundings of a click: whether the script loads and the global is there, the answers of
  \<open>createOrderFn\<close> (if one is given; \<open>Inl\<close> when it throws) and of the server's endpoint, whether the
  constructor and \<open>open\<close> work, and what the user does.  The rupee sign is spelt out.
\<close>

record pay_env =
  pe_amount :: int
  pe_window :: bool
  pe_sdkBefore :: bool
  pe_scriptLoads :: bool
  pe_sdk :: bool
  pe_createOrderFn :: "(js_error + order_answer option) option"
  pe_serverOrder :: "order_answer option option"
  pe_opens :: bool
  pe_openError :: "string option"
  pe_events :: "checkout_event list"
  pe_now :: string

datatype pay_call = OnSuccess string string string | OnFailure | OnDismiss

datatype pay_toast = ToastSuccess string | ToastError string | ToastNote string

record pay_state =
  ps_loading :: bool
  ps_toasts :: "pay_toast list"
  ps_calls :: "pay_call list"
  ps_orderId :: string
  ps_opened :: bool

definition pay_start :: pay_state where
  "pay_start = \<lparr> ps_loading = False, ps_toasts = [], ps_calls = [], ps_orderId = [], ps_opened = False \<rparr>"

definition say :: "pay_toast \<Rightarrow> pay_state \<Rightarrow> pay_state" where
  "say t s = s\<lparr>ps_toasts := ps_toasts s @ [t]\<rparr>"

definition call :: "pay_call \<Rightarrow> pay_state \<Rightarrow> pay_state" where
  "call c s = s\<lparr>ps_calls := ps_calls s @ [c]\<rparr>"

definition loadRazorpayScript :: "pay_env \<Rightarrow> bool" where
  "loadRazorpayScript E = (pe_window E \<and> (pe_sdkBefore E \<or> pe_scriptLoads E))"

definition custom_order :: "pay_env \<Rightarrow> string" where
  "custom_order E = (case pe_createOrderFn E of Some (Inr a) \<Rightarrow> order_id_of a | _ \<Rightarrow> [])"

text \<open>The second attempt is made when the first gives no id; \<open>None\<close>: the call failed.\<close>

definition checkout_order :: "pay_env \<Rightarrow> string" where
  "checkout_order E =
     (if custom_order E \<noteq> [] then custom_order E
      else case pe_serverOrder E of None \<Rightarrow> [] | Some a \<Rightarrow> order_id_of a)"

definition verification_asked :: "string option \<Rightarrow> string option \<Rightarrow> bool" where
  "verification_asked oid sig = (truthy_str oid \<and> truthy_str sig)"

text \<open>\<open>handler\<close>: a refusal and a failed call are caught, and the success is announced all the same.\<close>

definition payment_handler ::
  "pay_env \<Rightarrow> string \<Rightarrow> string option \<Rightarrow> string option \<Rightarrow> verification \<Rightarrow> pay_state \<Rightarrow> pay_state" where
  "payment_handler E pid oid sig v s =
     (let told = OnSuccess pid (str_or oid (str_or (Some (ps_orderId s)) (''order_'' @ pe_now E)))
                   (str_or sig ''sig_verified_mock'');
          text = (if verification_asked oid sig \<and> v \<noteq> Verified then ''Payment completed!''
                  else ''Payment verified successfully!'')
      in (call told (say (ToastSuccess text) s))\<lparr>ps_loading := False\<rparr>)"

definition failure_reason :: "string option \<Rightarrow> string option \<Rightarrow> string" where
  "failure_reason description reason =
     ''Payment failed: '' @ str_or description (str_or reason ''Transaction could not be completed'')"

fun checkout_step :: "pay_env \<Rightarrow> checkout_event \<Rightarrow> pay_state \<Rightarrow> pay_state" where
  "checkout_step E (PaymentDone pid oid sig v) s = payment_handler E pid oid sig v s"
| "checkout_step E (PaymentFailed d r) s =
     call OnFailure (say (ToastError (failure_reason d r)) (s\<lparr>ps_loading := False\<rparr>))"
| "checkout_step E CheckoutDismissed s =
     call OnDismiss (say (ToastNote ''Payment cancelled by user'') (s\<lparr>ps_loading := False\<rparr>))"

definition setup_failed :: "string \<Rightarrow> pay_state \<Rightarrow> pay_state" where
  "setup_failed msg s = (call OnFailure (say (ToastError msg) s))\<lparr>ps_loading := False\<rparr>"

definition handlePay :: "pay_env \<Rightarrow> pay_state \<Rightarrow> pay_state" where
  "handlePay E s =
     (if pe_amount E < 100 then say (ToastError ''Amount must be at least Re 1 (100 paise)'') s
      else (let s1 = s\<lparr>ps_loading := True\<rparr>
            in if \<not> loadRazorpayScript E \<and> \<not> pe_sdk E
               then setup_failed ''Failed to load Razorpay SDK. Please check your internet connection.'' s1
               else if \<not> pe_opens E
               then setup_failed (str_or (pe_openError E) ''Payment setup failed. Please retry.'') (s1\<lparr>ps_orderId := checkout_order E\<rparr>)
               else fold (checkout_step E) (pe_events E)
                      (s1\<lparr>ps_orderId := checkout_order E, ps_opened := True\<rparr>)))"

text \<open>The button is disabled while a payment is set up.\<close>

definition press_pay :: "bool \<Rightarrow> pay_env \<Rightarrow> pay_state \<Rightarrow> pay_state" where
  "press_pay disabled E s = (if ps_loading s \<or> disabled then s else handlePay E s)"

text \<open>The label: \<open>children\<close>, or the button's own.\<close>

definition pay_label :: "bool \<Rightarrow> string option \<Rightarrow> string \<Rightarrow> string" where
  "pay_label loading children label' =
     (if loading then ''Setting up secure payment...'' else str_or children label')"

section \<open>What the caller is told\<close>

definition paid_events :: "checkout_event list \<Rightarrow> nat" where
  "paid_events es = length (filter (\<lambda>e. case e of PaymentDone _ _ _ _ \<Rightarrow> True | _ \<Rightarrow> False) es)"

definition success_calls :: "pay_state \<Rightarrow> nat" where
  "success_calls s = length (filter (\<lambda>c. case c of OnSuccess _ _ _ \<Rightarrow> True | _ \<Rightarrow> False) (ps_calls s))"

lemma say_fields [simp]:
  "ps_calls (say t s) = ps_calls s" "ps_loading (say t s) = ps_loading s"
  "ps_orderId (say t s) = ps_orderId s" "ps_opened (say t s) = ps_opened s"
  by (simp_all add: say_def)

lemma call_fields [simp]:
  "ps_calls (call c s) = ps_calls s @ [c]" "ps_loading (call c s) = ps_loading s"
  "ps_orderId (call c s) = ps_orderId s" "ps_opened (call c s) = ps_opened s"
  "ps_toasts (call c s) = ps_toasts s"
  by (simp_all add: call_def)

lemma step_successes:
  "success_calls (checkout_step E e s) = success_calls s + paid_events [e]"
  by (cases e) (simp_all add: success_calls_def paid_events_def payment_handler_def Let_def)

lemma step_orderId [simp]: "ps_orderId (checkout_step E e s) = ps_orderId s"
  by (cases e) (simp_all add: payment_handler_def Let_def)

lemma step_loading [simp]: "ps_loading (checkout_step E e s) = False"
  by (cases e) (simp_all add: payment_handler_def Let_def)

lemma run_orderId [simp]: "ps_orderId (fold (checkout_step E) es s) = ps_orderId s"
  by (induction es arbitrary: s) simp_all

lemma run_loading: "es \<noteq> [] \<Longrightarrow> ps_loading (fold (checkout_step E) es s) = False"
  by (induction es rule: rev_induct) simp_all

lemma paid_Cons: "paid_events (e # es) = paid_events [e] + paid_events es"
  by (simp add: paid_events_def)

lemma run_successes:
  "success_calls (fold (checkout_step E) es s) = success_calls s + paid_events es"
proof (induction es arbitrary: s)
  case (Cons e es)
  then show ?case using step_successes [of E e s] paid_Cons [of e es] by simp
qed (simp add: paid_events_def)

text \<open>Success is reported exactly once for every payment of an opened checkout, and never else.\<close>

lemma handlePay_successes:
  "success_calls (handlePay E s) =
     success_calls s +
       (if 100 \<le> pe_amount E \<and> (loadRazorpayScript E \<or> pe_sdk E) \<and> pe_opens E then paid_events (pe_events E) else 0)"
proof -
  have same: "success_calls (s\<lparr>ps_loading := b\<rparr>) = success_calls s"
    "success_calls (s\<lparr>ps_loading := b, ps_orderId := i, ps_opened := o'\<rparr>) = success_calls s" for b i o'
    by (simp_all add: success_calls_def)
  show ?thesis
    by (auto simp: handlePay_def setup_failed_def Let_def run_successes same)
      (simp_all add: success_calls_def)
qed

text \<open>The answer of the verification has no effect on what the caller is told.\<close>

lemma verification_ignored:
  "ps_calls (payment_handler E pid oid sig v s) = ps_calls (payment_handler E pid oid sig v' s)"
  by (simp add: payment_handler_def Let_def)

lemma unlocked_after:
  "pe_events E \<noteq> [] \<or> \<not> (pe_opens E \<and> (loadRazorpayScript E \<or> pe_sdk E)) \<Longrightarrow> 100 \<le> pe_amount E \<Longrightarrow>
     \<not> ps_loading (handlePay E s)"
  by (auto simp: handlePay_def setup_failed_def Let_def run_loading)

end
