(* ===== verification/TripWizard.thy ===== *)
theory TripWizard
  imports Checkout
begin

text \<open>
  \<open>carrier-portal/src/pages/PostTrip.tsx\<close>: the form in four steps with which a carrier posts a trip.
  Its controls are the events; a control is there only on the page of its step.  Submitting calls
  the API, whose answers are a parameter, after the deposit has been paid.
\<close>

section \<open>The form\<close>

record place_point =
  pp_city :: string
  pp_placeId :: string
  pp_coords :: "(rat \<times> rat) option"

record trip_form =
  tf_origin :: place_point
  tf_destination :: place_point
  tf_departureTime :: string
  tf_estimatedArrivalTime :: string
  tf_modeOfTransport :: string
  tf_transportName :: string
  tf_pnr :: string
  tf_totalWeightKg :: rat
  tf_pricePerKg :: rat
  tf_allowedCategories :: "string list"
  tf_pickupInstructions :: string
  tf_dropoffInstructions :: string
  tf_distanceKm :: rat
  tf_durationHours :: rat

record post_trip =
  pt_step :: nat
  pt_submitting :: bool
  pt_stepError :: "string option"
  pt_form :: trip_form

definition no_place :: place_point where
  "no_place = \<lparr> pp_city = [], pp_placeId = [], pp_coords = None \<rparr>"

definition post_trip_start :: post_trip where
  "post_trip_start =
     \<lparr> pt_step = 1, pt_submitting = False, pt_stepError = None,
       pt_form = \<lparr> tf_origin = no_place, tf_destination = no_place, tf_departureTime = [],
         tf_estimatedArrivalTime = [], tf_modeOfTransport = ''train'', tf_transportName = [], tf_pnr = [],
         tf_totalWeightKg = 5, tf_pricePerKg = 80, tf_allowedCategories = [''documents''],
         tf_pickupInstructions = [], tf_dropoffInstructions = [], tf_distanceKm = 0, tf_durationHours = 0 \<rparr> \<rparr>"

definition transportModes :: "string list" where
  "transportModes = [''train'', ''bus'', ''car'', ''flight'', ''bike'']"

definition trip_categories :: "string list" where
  "trip_categories = [''documents'', ''clothing'', ''electronics'', ''food'', ''medicine'', ''fragile'', ''other'']"

definition step_titles :: "string list" where
  "step_titles = [''Route setup'', ''Schedule details'', ''Capacity and pricing'', ''Deposit and publish'']"

definition routeConfigured :: "trip_form \<Rightarrow> bool" where
  "routeConfigured f = (pp_placeId (tf_origin f) \<noteq> [] \<and> pp_placeId (tf_destination f) \<noteq> [])"

text \<open>A comparison with an invalid date is false.\<close>

definition hasValidArrival :: "world \<Rightarrow> trip_form \<Rightarrow> bool" where
  "hasValidArrival W f =
     (tf_estimatedArrivalTime f = [] \<or>
      (tf_departureTime f \<noteq> [] \<and>
       (case (dateParse W (tf_estimatedArrivalTime f), dateParse W (tf_departureTime f)) of
          (Some a, Some d) \<Rightarrow> d < a | _ \<Rightarrow> False)))"

definition scheduleReady :: "world \<Rightarrow> trip_form \<Rightarrow> bool" where
  "scheduleReady W f = (tf_departureTime f \<noteq> [] \<and> hasValidArrival W f)"

definition tripReadyToPost :: "world \<Rightarrow> trip_form \<Rightarrow> bool" where
  "tripReadyToPost W f =
     (routeConfigured f \<and> scheduleReady W f \<and> tf_allowedCategories f \<noteq> [] \<and> 0 < tf_totalWeightKg f)"

definition getStepValidationMessage :: "world \<Rightarrow> post_trip \<Rightarrow> string option" where
  "getStepValidationMessage W s =
     (let f = pt_form s; n = pt_step s in
      if n = 1 \<and> \<not> routeConfigured f then Some ''Select both origin and destination from the route suggestions.''
      else if n = 2 \<and> tf_departureTime f = [] then Some ''Add a departure date and time before continuing.''
      else if n = 2 \<and> \<not> hasValidArrival W f then Some ''Estimated arrival must be later than the departure time.''
      else if n = 3 \<and> tf_totalWeightKg f \<le> 0 then Some ''Set the capacity you can carry on this trip.''
      else if n = 3 \<and> tf_allowedCategories f = [] then Some ''Choose at least one package category you can carry.''
      else None)"

definition advanceStep :: "world \<Rightarrow> post_trip \<Rightarrow> post_trip" where
  "advanceStep W s =
     (case getStepValidationMessage W s of
        Some m \<Rightarrow> s\<lparr>pt_stepError := Some m\<rparr>
      | None \<Rightarrow> s\<lparr>pt_stepError := None, pt_step := min 4 (pt_step s + 1)\<rparr>)"

definition retreatStep :: "post_trip \<Rightarrow> post_trip" where
  "retreatStep s = s\<lparr>pt_stepError := None, pt_step := max 1 (pt_step s - 1)\<rparr>"

section \<open>The controls\<close>

text \<open>The first argument of a place's event: \<open>True\<close> for the origin.\<close>

datatype pt_event =
    PlaceTyped bool string
  | PlaceChosen bool string string "rat \<times> rat"
  | ModeChosen string
  | DistanceFetched rat rat
  | DepartureSet string
  | ArrivalSet string
  | TransportNamed string
  | PnrSet string
  | CapacitySet rat
  | RateSet rat
  | CategoryToggled string
  | PickupNoted string
  | DropoffNoted string
  | Continue
  | Back

definition set_place :: "bool \<Rightarrow> place_point \<Rightarrow> trip_form \<Rightarrow> trip_form" where
  "set_place isOrigin p f = (if isOrigin then f\<lparr>tf_origin := p\<rparr> else f\<lparr>tf_destination := p\<rparr>)"

definition toggled :: "string \<Rightarrow> string list \<Rightarrow> string list" where
  "toggled c cs = (if c \<in> set cs then filter (\<lambda>v. v \<noteq> c) cs else cs @ [c])"

fun edit_form :: "pt_event \<Rightarrow> trip_form \<Rightarrow> trip_form" where
  "edit_form (PlaceTyped o' t) f = set_place o' \<lparr> pp_city = t, pp_placeId = [], pp_coords = None \<rparr> f"
| "edit_form (PlaceChosen o' t i xy) f = set_place o' \<lparr> pp_city = t, pp_placeId = i, pp_coords = Some xy \<rparr> f"
| "edit_form (ModeChosen m) f = f\<lparr>tf_modeOfTransport := m\<rparr>"
| "edit_form (DistanceFetched km h) f = f\<lparr>tf_distanceKm := km, tf_durationHours := h\<rparr>"
| "edit_form (DepartureSet t) f = f\<lparr>tf_departureTime := t\<rparr>"
| "edit_form (ArrivalSet t) f = f\<lparr>tf_estimatedArrivalTime := t\<rparr>"
| "edit_form (TransportNamed t) f = f\<lparr>tf_transportName := t\<rparr>"
| "edit_form (PnrSet t) f = f\<lparr>tf_pnr := t\<rparr>"
| "edit_form (CapacitySet x) f = f\<lparr>tf_totalWeightKg := x\<rparr>"
| "edit_form (RateSet x) f = f\<lparr>tf_pricePerKg := x\<rparr>"
| "edit_form (CategoryToggled c) f = f\<lparr>tf_allowedCategories := toggled c (tf_allowedCategories f)\<rparr>"
| "edit_form (PickupNoted t) f = f\<lparr>tf_pickupInstructions := t\<rparr>"
| "edit_form (DropoffNoted t) f = f\<lparr>tf_dropoffInstructions := t\<rparr>"
| "edit_form _ f = f"

text \<open>The page a control is on; an answer of the map may come at any time.\<close>

fun on_page :: "nat \<Rightarrow> pt_event \<Rightarrow> bool" where
  "on_page n (PlaceTyped _ _) = (n = 1)"
| "on_page n (PlaceChosen _ _ _ _) = (n = 1)"
| "on_page n (ModeChosen _) = (n = 1)"
| "on_page n (DistanceFetched _ _) = True"
| "on_page n (DepartureSet _) = (n = 2)"
| "on_page n (ArrivalSet _) = (n = 2)"
| "on_page n (TransportNamed _) = (n = 2)"
| "on_page n (PnrSet _) = (n = 2)"
| "on_page n (CapacitySet _) = (n = 3)"
| "on_page n (RateSet _) = (n = 3)"
| "on_page n (CategoryToggled _) = (n = 3)"
| "on_page n (PickupNoted _) = (n = 3)"
| "on_page n (DropoffNoted _) = (n = 3)"
| "on_page n Continue = (n < 4)"
| "on_page n Back = (1 < n \<and> n < 4)"

definition pt_step_event :: "world \<Rightarrow> pt_event \<Rightarrow> post_trip \<Rightarrow> post_trip" where
  "pt_step_event W e s =
     (if \<not> on_page (pt_step s) e then s
      else if e = Continue then advanceStep W s
      else if e = Back then retreatStep s
      else s\<lparr>pt_stepError := None, pt_form := edit_form e (pt_form s)\<rparr>)"

section \<open>What is shown of the price\<close>

definition sampleWeightKg :: "trip_form \<Rightarrow> rat" where
  "sampleWeightKg f = min (tf_totalWeightKg f) 5"

text \<open>The argument is the payout of the pricing guidance, when it has answered.\<close>

definition estimatedEarningPaise :: "int option \<Rightarrow> trip_form \<Rightarrow> int" where
  "estimatedEarningPaise guide f =
     (case guide of Some p \<Rightarrow> p
      | None \<Rightarrow> js_round (jmul (jmul (tf_pricePerKg f) (sampleWeightKg f)) 100))"

definition maxCapacityValuePaise :: "trip_form \<Rightarrow> int" where
  "maxCapacityValuePaise f =
     (if 0 < tf_totalWeightKg f then js_round (jmul (jmul (tf_totalWeightKg f) (tf_pricePerKg f)) 100) else 0)"

section \<open>Submitting\<close>

definition place_json :: "place_point \<Rightarrow> json" where
  "place_json p =
     JObj [(''city'', JStr (pp_city p)), (''placeId'', JStr (pp_placeId p)),
           (''coordinates'', JObj [(''type'', JStr ''Point''),
              (''coordinates'', (case pp_coords p of None \<Rightarrow> JNull | Some (x, y) \<Rightarrow> JArr [JNum x, JNum y]))])]"

definition or_undefined :: "string \<Rightarrow> json" where
  "or_undefined t = (if t = [] then JUndef else JStr t)"

definition trip_payload :: "trip_form \<Rightarrow> (string \<times> json) list" where
  "trip_payload f =
     [(''origin'', place_json (tf_origin f)), (''destination'', place_json (tf_destination f)),
      (''departureTime'', JStr (tf_departureTime f)),
      (''estimatedArrivalTime'', or_undefined (tf_estimatedArrivalTime f)),
      (''modeOfTransport'', JStr (tf_modeOfTransport f)),
      (''transportDetails'', JObj [(''name'', or_undefined (tf_transportName f)), (''pnr'', or_undefined (tf_pnr f))]),
      (''availableCapacity'', JObj [(''weightKg'', JNum (tf_totalWeightKg f)),
         (''allowedCategories'', JArr (map JStr (tf_allowedCategories f)))]),
      (''pricePerKg'', JNum (tf_pricePerKg f)),
      (''pickupInstructions'', JStr (tf_pickupInstructions f)),
      (''dropoffInstructions'', JStr (tf_dropoffInstructions f))]"

text \<open>
  The answers while a trip is submitted.  \<open>Created i\<close>: with the new trip; \<open>NoTrip\<close>: an answer without
  one, whose \<open>_id\<close> cannot be read.  \<open>se_local\<close> is the list of trips under
  \<open>hopdrop:carrier:local_trips\<close>, \<open>None\<close> when it is no JSON array.
\<close>

datatype created = Created oid | NoTrip | CreateFailed

record submit_env =
  se_created :: created
  se_confirmed :: bool
  se_local :: "json list option"
  se_writable :: bool
  se_now :: int
  se_nowIso :: string
  se_nowText :: string

datatype trip_call =
    CallCreateTrip json
  | CallConfirmDeposit oid string string string

record submit_result =
  sr_calls :: "trip_call list"
  sr_local :: "json list option"
  sr_success :: bool
  sr_error :: "string option"
  sr_navigated :: bool

definition local_trip :: "submit_env \<Rightarrow> string \<Rightarrow> trip_form \<Rightarrow> json" where
  "local_trip E paymentId f =
     JObj ((''_id'', JStr (''trip_local_'' @ se_nowText E)) # trip_payload f @
       [(''status'', JStr ''active''), (''depositPaid'', JBool True), (''paymentId'', JStr paymentId),
        (''createdAt'', JStr (se_nowIso E))])"

definition stored_locally :: "submit_env \<Rightarrow> string \<Rightarrow> trip_form \<Rightarrow> json list option" where
  "stored_locally E paymentId f =
     (case se_local E of
        None \<Rightarrow> None
      | Some ts \<Rightarrow> if se_writable E then Some (local_trip E paymentId f # ts) else Some ts)"

definition submitTrip :: "submit_env \<Rightarrow> string \<Rightarrow> string \<Rightarrow> string \<Rightarrow> trip_form \<Rightarrow> submit_result" where
  "submitTrip E paymentId orderId sig f =
     (if pp_coords (tf_origin f) = None \<or> pp_coords (tf_destination f) = None
      then \<lparr> sr_calls = [], sr_local = se_local E, sr_success = False,
             sr_error = Some ''Please select valid origin and destination'', sr_navigated = False \<rparr>
      else (let posted = CallCreateTrip (JObj (trip_payload f)) in
        case se_created E of
          Created i \<Rightarrow>
            \<lparr> sr_calls = [posted, CallConfirmDeposit i orderId paymentId sig], sr_local = se_local E,
              sr_success = True, sr_error = None, sr_navigated = True \<rparr>
        | _ \<Rightarrow>
            \<lparr> sr_calls = [posted], sr_local = stored_locally E paymentId f,
              sr_success = True, sr_error = None, sr_navigated = True \<rparr>))"

section \<open>The way through the form\<close>

text \<open>
  What the controls can give: a suggestion has a name, the date inputs give nothing or a date, the
  sliders keep their ranges, and the rates that the server recommends are positive.
\<close>

fun pt_allowed :: "world \<Rightarrow> pt_event \<Rightarrow> bool" where
  "pt_allowed W (PlaceChosen o' t i xy) = (t \<noteq> [])"
| "pt_allowed W (ModeChosen m) = (m \<in> set transportModes)"
| "pt_allowed W (DepartureSet t) = (t = [] \<or> dateParse W t \<noteq> None)"
| "pt_allowed W (ArrivalSet t) = (t = [] \<or> dateParse W t \<noteq> None)"
| "pt_allowed W (CapacitySet x) = (1 / 2 \<le> x \<and> x \<le> 30)"
| "pt_allowed W (RateSet x) = (0 < x)"
| "pt_allowed W (CategoryToggled c) = (c \<in> set trip_categories)"
| "pt_allowed W _ = True"

definition place_ok :: "place_point \<Rightarrow> bool" where
  "place_ok p = (pp_placeId p \<noteq> [] \<longrightarrow> pp_city p \<noteq> [] \<and> pp_coords p \<noteq> None)"

definition form_ok :: "world \<Rightarrow> trip_form \<Rightarrow> bool" where
  "form_ok W f =
     (place_ok (tf_origin f) \<and> place_ok (tf_destination f) \<and>
      tf_modeOfTransport f \<in> set transportModes \<and>
      (tf_departureTime f = [] \<or> dateParse W (tf_departureTime f) \<noteq> None) \<and>
      (tf_estimatedArrivalTime f = [] \<or> dateParse W (tf_estimatedArrivalTime f) \<noteq> None) \<and>
      0 < tf_totalWeightKg f \<and> tf_totalWeightKg f \<le> 30 \<and> 0 < tf_pricePerKg f \<and>
      set (tf_allowedCategories f) \<subseteq> set trip_categories)"

text \<open>What the pages behind the carrier have established.\<close>

definition passed :: "world \<Rightarrow> nat \<Rightarrow> trip_form \<Rightarrow> bool" where
  "passed W n f =
     ((2 \<le> n \<longrightarrow> routeConfigured f) \<and> (3 \<le> n \<longrightarrow> scheduleReady W f) \<and> (4 \<le> n \<longrightarrow> tf_allowedCategories f \<noteq> []))"

definition pt_ok :: "world \<Rightarrow> post_trip \<Rightarrow> bool" where
  "pt_ok W s =
     (1 \<le> pt_step s \<and> pt_step s \<le> 4 \<and> form_ok W (pt_form s) \<and> passed W (pt_step s) (pt_form s))"

lemma set_place_fields [simp]:
  "tf_origin (set_place o' p f) = (if o' then p else tf_origin f)"
  "tf_destination (set_place o' p f) = (if o' then tf_destination f else p)"
  "tf_modeOfTransport (set_place o' p f) = tf_modeOfTransport f"
  "tf_departureTime (set_place o' p f) = tf_departureTime f"
  "tf_estimatedArrivalTime (set_place o' p f) = tf_estimatedArrivalTime f"
  "tf_totalWeightKg (set_place o' p f) = tf_totalWeightKg f"
  "tf_pricePerKg (set_place o' p f) = tf_pricePerKg f"
  "tf_allowedCategories (set_place o' p f) = tf_allowedCategories f"
  by (simp_all add: set_place_def)

lemma set_toggled: "set (toggled c cs) \<subseteq> insert c (set cs)"
  by (auto simp: toggled_def)

lemma edit_ok: "form_ok W f \<Longrightarrow> pt_allowed W e \<Longrightarrow> form_ok W (edit_form e f)"
  using set_toggled by (cases e) (fastforce simp: form_ok_def place_ok_def)+

text \<open>A control of a page leaves alone what the pages before it have established.\<close>

lemma edit_passed: "passed W n f \<Longrightarrow> on_page n e \<Longrightarrow> passed W n (edit_form e f)"
  by (cases e) (auto simp: passed_def routeConfigured_def scheduleReady_def hasValidArrival_def)

lemma start_pt_ok: "pt_ok W post_trip_start"
  by (simp add: pt_ok_def post_trip_start_def form_ok_def place_ok_def no_place_def passed_def
      transportModes_def trip_categories_def)

lemma passed_next:
  assumes "passed W (pt_step s) (pt_form s)" and "getStepValidationMessage W s = None" and "1 \<le> pt_step s"
  shows "passed W (pt_step s + 1) (pt_form s)"
proof -
  have "pt_step s = 1 \<or> pt_step s = 2 \<or> pt_step s = 3 \<or> 4 \<le> pt_step s" using assms(3) by linarith
  with assms show ?thesis
    by (elim disjE) (simp_all add: passed_def getStepValidationMessage_def scheduleReady_def Let_def split: if_splits)
qed

lemma passed_le: "passed W n f \<Longrightarrow> m \<le> n \<Longrightarrow> passed W m f"
  by (simp add: passed_def)

lemma advance_ok: "pt_ok W s \<Longrightarrow> pt_ok W (advanceStep W s)"
  using passed_next [of W s] passed_le [of W "pt_step s + 1" "pt_form s" "min 4 (pt_step s + 1)"]
  by (auto simp: pt_ok_def advanceStep_def split: option.splits)

lemma retreat_ok: "pt_ok W s \<Longrightarrow> pt_ok W (retreatStep s)"
  by (auto simp: pt_ok_def retreatStep_def passed_def)

lemma pt_step_ok: "pt_ok W s \<Longrightarrow> pt_allowed W e \<Longrightarrow> pt_ok W (pt_step_event W e s)"
  using edit_ok [of W "pt_form s" e] edit_passed [of W "pt_step s" "pt_form s" e]
  by (auto simp: pt_step_event_def advance_ok retreat_ok) (auto simp: pt_ok_def)

interpretation trip_wizard: kept_run "pt_step_event W" "pt_ok W" "pt_allowed W" for W
  by unfold_locales (rule pt_step_ok)

lemma wizard_ok: "list_all (pt_allowed W) es \<Longrightarrow> pt_ok W (fold (pt_step_event W) es post_trip_start)"
  by (rule trip_wizard.admitted_run [OF start_pt_ok])

lemma last_page_ready: "pt_ok W s \<Longrightarrow> pt_step s = 4 \<Longrightarrow> tripReadyToPost W (pt_form s)"
  by (simp add: pt_ok_def passed_def tripReadyToPost_def form_ok_def)

lemma last_page_coords:
  "pt_ok W s \<Longrightarrow> pt_step s = 4 \<Longrightarrow> pp_coords (tf_origin (pt_form s)) \<noteq> None \<and> pp_coords (tf_destination (pt_form s)) \<noteq> None"
  by (auto simp: pt_ok_def passed_def routeConfigured_def form_ok_def place_ok_def)

section \<open>The request and its schema\<close>

text \<open>An object is accepted when each of its fields is.\<close>

lemma fields_accepted: "list_all (\<lambda>(k, s). zparse W s (jget v k) \<noteq> None) fs \<Longrightarrow> zfields W fs v \<noteq> None"
  by (induction fs) auto

lemma object_accepted:
  "list_all (\<lambda>(k, s). zparse W s (jget (JObj kvs) k) \<noteq> None) fs \<Longrightarrow> zparse W (ZObject fs) (JObj kvs) \<noteq> None"
  using fields_accepted [of W "JObj kvs" fs] by simp

lemma place_accepted:
  "place_ok p \<Longrightarrow> pp_placeId p \<noteq> [] \<Longrightarrow> \<exists>v. zparse W locationSchema (place_json p) = Some v \<and> v \<noteq> JUndef"
  by (cases "pp_coords p")
    (auto simp: place_json_def place_ok_def schema_defs text_ok_def number_ok_def Suc_le_eq)

lemma categories_accepted:
  "set cs \<subseteq> set trip_categories \<Longrightarrow> those (map (zparse W categorySchema) (map JStr cs)) = Some (map JStr cs)"
  by (induction cs) (auto simp: schema_defs trip_categories_def)

lemma mode_accepted: "m \<in> set transportModes \<Longrightarrow> zparse W transportModeSchema (JStr m) = Some (JStr m)"
  by (auto simp: schema_defs transportModes_def)

lemma payload_accepted:
  assumes "form_ok W f" and "tripReadyToPost W f"
  shows "zparse W createTripSchema (JObj (trip_payload f)) \<noteq> None"
proof -
  note f = assms(1) [unfolded form_ok_def] and r = assms(2) [unfolded tripReadyToPost_def]
  from f r obtain p q where
    places: "zparse W locationSchema (place_json (tf_origin f)) = Some p"
      "zparse W locationSchema (place_json (tf_destination f)) = Some q"
    using place_accepted by (metis routeConfigured_def)
  from f r obtain d where "dateParse W (tf_departureTime f) = Some d"
    by (auto simp: scheduleReady_def)
  moreover have "zparse W (ZOptional ZCoerceDate) (or_undefined (tf_estimatedArrivalTime f)) \<noteq> None"
    using f by (auto simp: or_undefined_def to_date_def)
  moreover have "zparse W (ZOptional transportDetailsSchema)
      (JObj [(''name'', or_undefined (tf_transportName f)), (''pnr'', or_undefined (tf_pnr f))]) \<noteq> None"
    by (auto simp: or_undefined_def transportDetailsSchema_def text_ok_def)
  moreover have "zparse W capacitySchema (JObj [(''weightKg'', JNum (tf_totalWeightKg f)),
      (''allowedCategories'', JArr (map JStr (tf_allowedCategories f)))]) \<noteq> None"
    using f r categories_accepted [of "tf_allowedCategories f" W]
    by (auto simp: capacitySchema_def number_ok_def Suc_le_eq)
  moreover have "zparse W transportModeSchema (JStr (tf_modeOfTransport f)) = Some (JStr (tf_modeOfTransport f))"
    using f mode_accepted by simp
  moreover have "zparse W (ZNumber [NPositive]) (JNum (tf_pricePerKg f)) \<noteq> None"
    using f by (simp add: number_ok_def)
  moreover have "zparse W (ZOptional (ZString [])) (JStr t) \<noteq> None" for t
    by (simp add: text_ok_def)
  ultimately show ?thesis
    using places unfolding createTripSchema_def
    by (intro object_accepted) (simp add: trip_payload_def to_date_def del: zparse.simps(11))
qed

end
