(* ===== verification/Pricing.thy ===== *)
theory Pricing
  imports Models
begin

text \<open>
  \<open>utils/pricing.ts\<close> and \<open>utils/tripMatcher.ts\<close>: the quote of a delivery on a trip, the safety
  deposit, and the score by which trips are ranked.  All arithmetic is that of JavaScript
  Numbers.  The facts bound a quote from below by the minimum payout, split the charge exactly
  into earning and fee, and show that a heavier package never costs less.
\<close>

section \<open>Tables\<close>

fun CATEGORY_MULTIPLIER :: "category \<Rightarrow> rat" where
  "CATEGORY_MULTIPLIER Documents = 1"
| "CATEGORY_MULTIPLIER Clothing = 1"
| "CATEGORY_MULTIPLIER Electronics = fl (118 / 100)"
| "CATEGORY_MULTIPLIER Food = fl (108 / 100)"
| "CATEGORY_MULTIPLIER Fragile = fl (122 / 100)"
| "CATEGORY_MULTIPLIER Medicine = fl (116 / 100)"
| "CATEGORY_MULTIPLIER OtherCategory = fl (105 / 100)"

fun CATEGORY_MIN_PAYOUT_PAISE :: "category \<Rightarrow> int" where
  "CATEGORY_MIN_PAYOUT_PAISE Documents = 5900"
| "CATEGORY_MIN_PAYOUT_PAISE Clothing = 6900"
| "CATEGORY_MIN_PAYOUT_PAISE Electronics = 11900"
| "CATEGORY_MIN_PAYOUT_PAISE Food = 7900"
| "CATEGORY_MIN_PAYOUT_PAISE Fragile = 12900"
| "CATEGORY_MIN_PAYOUT_PAISE Medicine = 9900"
| "CATEGORY_MIN_PAYOUT_PAISE OtherCategory = 7900"

section \<open>The inputs of a quote\<close>

text \<open>
  What \<open>calculateQuote\<close> reads of its two arguments, which callers build from documents or from
  query parameters: each Number may be missing or not finite, and so may the window.
\<close>

record quote_input =
  q_category :: "category option"
  q_weightKg :: jsval
  q_isFragile :: bool
  q_declaredValue :: jsval
  q_window :: "(int \<times> int) option"
  q_pricePerKg :: jsval
  q_ratingAverage :: jsval
  q_totalDeliveries :: jsval

definition opt_number :: "rat option \<Rightarrow> jsval" where
  "opt_number x = (case x of None \<Rightarrow> VUndefined | Some r \<Rightarrow> VNumber r)"

definition quote_input_of :: "rat \<Rightarrow> user option \<Rightarrow> package \<Rightarrow> time_window option \<Rightarrow> quote_input" where
  "quote_input_of price carrier p w =
     \<lparr> q_category = Some (p_category p), q_weightKg = VNumber (p_weightKg p),
       q_isFragile = p_isFragile p, q_declaredValue = opt_number (p_declaredValue p),
       q_window = map_option (\<lambda>w. (w_earliest w, w_latest w)) w,
       q_pricePerKg = VNumber price,
       q_ratingAverage = opt_number (map_option u_ratingAverage carrier),
       q_totalDeliveries = opt_number (map_option (\<lambda>u. of_int (u_totalDeliveries u)) carrier) \<rparr>"

section \<open>Multipliers\<close>

definition calculateUrgencyMultiplier :: "quote_input \<Rightarrow> rat" where
  "calculateUrgencyMultiplier q =
     (case q_window q of None \<Rightarrow> 0
      | Some (earliest, latest) \<Rightarrow>
          if latest \<le> earliest then 0
          else (let windowHours = jdiv (of_int (latest - earliest)) 3600000
                in if windowHours \<le> 8 then fl (2 / 10)
                   else if windowHours \<le> 24 then fl (12 / 100)
                   else if windowHours \<le> 48 then fl (6 / 100)
                   else 0))"

definition calculateReliabilityMultiplier :: "quote_input \<Rightarrow> rat" where
  "calculateReliabilityMultiplier q =
     (let averageRating = safeNumber (q_ratingAverage q) 0;
          completedDeliveries = safeNumber (q_totalDeliveries q) 0
      in if fl (48 / 10) \<le> averageRating \<and> 20 \<le> completedDeliveries then fl (5 / 100)
         else if fl (46 / 10) \<le> averageRating \<and> 8 \<le> completedDeliveries then fl (3 / 100)
         else 0)"

definition calculateValueHandlingExtra :: "quote_input \<Rightarrow> category \<Rightarrow> int" where
  "calculateValueHandlingExtra q cat =
     (let declared = safeNumber (q_declaredValue q) 0
      in if declared \<le> 5000 then 0
         else (let riskRate = (if cat = Electronics \<or> cat = Fragile then fl (6 / 1000) else fl (4 / 1000))
               in min (js_round (jmul (jmul declared 100) riskRate)) 75000))"

definition calculateSafetyDepositAmount :: "world \<Rightarrow> jsval \<Rightarrow> int" where
  "calculateSafetyDepositAmount W declaredValue =
     (let declared = safeNumber declaredValue 0;
          deposit = (if 0 < declared then js_round (jmul (jmul declared 100) (fl (1 / 10))) else 0)
      in min (max deposit (DEFAULT_SAFETY_DEPOSIT_PAISE W)) 500000)"

section \<open>The quote\<close>

record breakdown =
  b_basePrice :: int
  b_categoryExtra :: int
  b_fragileExtra :: int
  b_urgencyExtra :: int
  b_valueHandlingExtra :: int
  b_reliabilityBonus :: int
  b_minPayoutAdjustment :: int
  b_category :: category
  b_categoryMultiplier :: rat
  b_carrierTakeRate :: rat

record quote =
  qt_carrierEarning :: int
  qt_platformFee :: int
  qt_platformFeeRate :: rat
  qt_totalCharge :: int
  qt_safetyDepositAmount :: int
  qt_breakdown :: breakdown

definition quote_category :: "quote_input \<Rightarrow> category" where
  "quote_category q = (case q_category q of None \<Rightarrow> OtherCategory | Some c \<Rightarrow> c)"

definition quote_weight :: "quote_input \<Rightarrow> rat" where
  "quote_weight q = max (safeNumber (q_weightKg q) 0) (fl (1 / 10))"

definition quote_base :: "quote_input \<Rightarrow> int" where
  "quote_base q =
     js_round (jmul (jmul (max (safeNumber (q_pricePerKg q) 0) 1) (quote_weight q)) 100)"

definition quote_raw_earning :: "quote_input \<Rightarrow> int" where
  "quote_raw_earning q =
     (let base = quote_base q; cat = quote_category q in
      base + js_round (jmul (of_int base) (jsub (CATEGORY_MULTIPLIER cat) 1))
           + (if q_isFragile q then js_round (jmul (of_int base) (fl (18 / 100))) else 0)
           + js_round (jmul (of_int base) (calculateUrgencyMultiplier q))
           + calculateValueHandlingExtra q cat
           + js_round (jmul (of_int base) (calculateReliabilityMultiplier q)))"

definition quote_min_payout :: "quote_input \<Rightarrow> int" where
  "quote_min_payout q =
     max (CATEGORY_MIN_PAYOUT_PAISE (quote_category q)) (js_round (jmul (quote_weight q) 4500))"

definition calculateQuote :: "world \<Rightarrow> quote_input \<Rightarrow> quote" where
  "calculateQuote W q =
     (let cat = quote_category q;
          base = quote_base q;
          raw = quote_raw_earning q;
          adjustment = max (quote_min_payout q - raw) 0;
          earning = raw + adjustment;
          rate = jdiv (PLATFORM_FEE_PERCENT W) 100;
          fee = js_round (jmul (of_int earning) rate);
          total = earning + fee
      in \<lparr> qt_carrierEarning = earning, qt_platformFee = fee, qt_platformFeeRate = rate,
           qt_totalCharge = total,
           qt_safetyDepositAmount = calculateSafetyDepositAmount W (q_declaredValue q),
           qt_breakdown =
             \<lparr> b_basePrice = base,
               b_categoryExtra = js_round (jmul (of_int base) (jsub (CATEGORY_MULTIPLIER cat) 1)),
               b_fragileExtra = (if q_isFragile q then js_round (jmul (of_int base) (fl (18 / 100))) else 0),
               b_urgencyExtra = js_round (jmul (of_int base) (calculateUrgencyMultiplier q)),
               b_valueHandlingExtra = calculateValueHandlingExtra q cat,
               b_reliabilityBonus = js_round (jmul (of_int base) (calculateReliabilityMultiplier q)),
               b_minPayoutAdjustment = adjustment, b_category = cat,
               b_categoryMultiplier = CATEGORY_MULTIPLIER cat,
               b_carrierTakeRate = (if 0 < earning then jdiv (of_int earning) (of_int total) else 0) \<rparr> \<rparr>)"

section \<open>utils/tripMatcher\<close>

definition scoreTrip :: "int \<Rightarrow> trip \<Rightarrow> user option \<Rightarrow> delivery_request \<Rightarrow> rat" where
  "scoreTrip now t carrier r =
     (let hours = jdiv (of_int (t_departureTime t - now)) 3600000;
          s1 = jsub 100 (min hours 24);
          rating = (case carrier of None \<Rightarrow> 5 | Some u \<Rightarrow> u_ratingAverage u);
          s2 = jadd s1 (jmul rating 5);
          price = jmul (t_pricePerKg t) (p_weightKg (r_package r))
      in jsub s2 (jdiv price 1000))"

section \<open>Facts\<close>

lemma multiplier_ge_1: "1 \<le> CATEGORY_MULTIPLIER c"
  using fl.rnd_ge_int [of 1] by (cases c) simp_all

lemma multiplier_extra: "0 \<le> jsub (CATEGORY_MULTIPLIER c) 1"
  using multiplier_ge_1 by (rule jsub_nonneg)

lemma urgency_nonneg: "0 \<le> calculateUrgencyMultiplier q"
  by (simp add: calculateUrgencyMultiplier_def Let_def fl.rnd_nonneg split: option.split prod.split)

lemma reliability_nonneg: "0 \<le> calculateReliabilityMultiplier q"
  by (simp add: calculateReliabilityMultiplier_def Let_def fl.rnd_nonneg)

lemma value_extra_bounds: "0 \<le> calculateValueHandlingExtra q c \<and> calculateValueHandlingExtra q c \<le> 75000"
  by (simp add: calculateValueHandlingExtra_def Let_def js_round_nonneg jmul_nonneg fl.rnd_nonneg)

lemma quote_base_nonneg: "0 \<le> quote_base q"
  unfolding quote_base_def
  by (intro js_round_nonneg jmul_nonneg) (simp_all add: quote_weight_def le_max_iff_disj fl.rnd_nonneg)

lemma extra_nonneg: "0 \<le> b \<Longrightarrow> 0 \<le> m \<Longrightarrow> 0 \<le> js_round (jmul (of_int b) m)"
  by (simp add: js_round_nonneg jmul_nonneg)

lemma extra_mono: "0 \<le> m \<Longrightarrow> b \<le> b' \<Longrightarrow> js_round (jmul (of_int b) m) \<le> js_round (jmul (of_int b') m)"
  by (intro js_round_mono jmul_mono) simp_all

lemma raw_earning_ge_base: "quote_base q \<le> quote_raw_earning q"
proof -
  let ?b = "quote_base q"
  note b = quote_base_nonneg [of q]
  have "0 \<le> js_round (jmul (of_int ?b) (jsub (CATEGORY_MULTIPLIER (quote_category q)) 1))"
    "0 \<le> js_round (jmul (of_int ?b) (fl (18 / 100)))"
    "0 \<le> js_round (jmul (of_int ?b) (calculateUrgencyMultiplier q))"
    "0 \<le> js_round (jmul (of_int ?b) (calculateReliabilityMultiplier q))"
    using b by (auto intro!: extra_nonneg multiplier_extra urgency_nonneg reliability_nonneg fl.rnd_nonneg)
  with value_extra_bounds [of q "quote_category q"] show ?thesis
    unfolding quote_raw_earning_def Let_def by (simp only: split: if_split) linarith
qed

text \<open>The minimum payout adjustment makes the earning the larger of the two amounts.\<close>

lemma quote_earning: "qt_carrierEarning (calculateQuote W q) = max (quote_raw_earning q) (quote_min_payout q)"
  by (simp add: calculateQuote_def Let_def)

lemma quote_total:
  "qt_totalCharge (calculateQuote W q) = qt_carrierEarning (calculateQuote W q) + qt_platformFee (calculateQuote W q)"
  by (simp add: calculateQuote_def Let_def)

lemma quote_fee:
  "qt_platformFee (calculateQuote W q) =
     js_round (jmul (of_int (qt_carrierEarning (calculateQuote W q))) (jdiv (PLATFORM_FEE_PERCENT W) 100))"
  by (simp add: calculateQuote_def Let_def)

lemma quote_earning_pos: "5900 \<le> qt_carrierEarning (calculateQuote W q)"
proof -
  have "5900 \<le> CATEGORY_MIN_PAYOUT_PAISE (quote_category q)" by (cases "quote_category q") simp_all
  then show ?thesis by (simp add: quote_earning quote_min_payout_def le_max_iff_disj)
qed

lemma quote_fee_nonneg: "0 \<le> PLATFORM_FEE_PERCENT W \<Longrightarrow> 0 \<le> qt_platformFee (calculateQuote W q)"
  using quote_earning_pos [of W q] by (simp add: quote_fee extra_nonneg jdiv_nonneg)

text \<open>Up to a fee of 100 percent the platform never takes more than the carrier earns.\<close>

lemma quote_fee_le:
  assumes "PLATFORM_FEE_PERCENT W \<le> 100" and "qt_carrierEarning (calculateQuote W q) \<le> 2 ^ 53"
  shows "qt_platformFee (calculateQuote W q) \<le> qt_carrierEarning (calculateQuote W q)"
proof -
  let ?e = "qt_carrierEarning (calculateQuote W q)"
  have e: "0 \<le> ?e" using quote_earning_pos [of W q] by simp
  have "jdiv (PLATFORM_FEE_PERCENT W) 100 \<le> 1"
    unfolding jdiv_def using assms(1) fl.rnd_le_int [of "PLATFORM_FEE_PERCENT W / 100" 1] by simp
  then have "of_int ?e * jdiv (PLATFORM_FEE_PERCENT W) 100 \<le> of_int ?e * 1"
    using e by (intro mult_left_mono) simp_all
  then have "jmul (of_int ?e) (jdiv (PLATFORM_FEE_PERCENT W) 100) \<le> of_int ?e"
    unfolding jmul_def using assms(2) e by (intro fl.rnd_le_int) simp_all
  then show ?thesis unfolding quote_fee by (rule js_round_le)
qed

lemma deposit_bounds:
  "calculateSafetyDepositAmount W v \<le> 500000"
  "DEFAULT_SAFETY_DEPOSIT_PAISE W \<le> 500000 \<Longrightarrow>
     DEFAULT_SAFETY_DEPOSIT_PAISE W \<le> calculateSafetyDepositAmount W v"
  by (simp_all add: calculateSafetyDepositAmount_def Let_def)

text \<open>A heavier package, everything else equal, never costs less.\<close>

lemma quote_weight_mono: "w \<le> w' \<Longrightarrow> quote_weight (q\<lparr>q_weightKg := VNumber w\<rparr>) \<le> quote_weight (q\<lparr>q_weightKg := VNumber w'\<rparr>)"
  by (auto simp: quote_weight_def safeNumber_def)

lemma quote_base_mono:
  assumes "w \<le> w'"
  shows "quote_base (q\<lparr>q_weightKg := VNumber w\<rparr>) \<le> quote_base (q\<lparr>q_weightKg := VNumber w'\<rparr>)"
proof -
  let ?p = "max (safeNumber (q_pricePerKg q) 0) 1"
  have "jmul ?p (quote_weight (q\<lparr>q_weightKg := VNumber w\<rparr>)) \<le> jmul ?p (quote_weight (q\<lparr>q_weightKg := VNumber w'\<rparr>))"
    using jmul_mono [OF _ quote_weight_mono [OF assms], of ?p q]
    by (simp add: jmul_def mult.commute [of ?p])
  then show ?thesis
    unfolding quote_base_def by (simp add: js_round_mono jmul_mono)
qed

lemma quote_raw_mono:
  assumes "w \<le> w'"
  shows "quote_raw_earning (q\<lparr>q_weightKg := VNumber w\<rparr>) \<le> quote_raw_earning (q\<lparr>q_weightKg := VNumber w'\<rparr>)"
proof -
  let ?b = "quote_base (q\<lparr>q_weightKg := VNumber w\<rparr>)" and ?b' = "quote_base (q\<lparr>q_weightKg := VNumber w'\<rparr>)"
  note m = quote_base_mono [OF assms, of q]
  have same: "calculateUrgencyMultiplier (q\<lparr>q_weightKg := v\<rparr>) = calculateUrgencyMultiplier q"
    "calculateReliabilityMultiplier (q\<lparr>q_weightKg := v\<rparr>) = calculateReliabilityMultiplier q"
    "calculateValueHandlingExtra (q\<lparr>q_weightKg := v\<rparr>) c = calculateValueHandlingExtra q c"
    "quote_category (q\<lparr>q_weightKg := v\<rparr>) = quote_category q" for v c
    by (simp_all add: calculateUrgencyMultiplier_def calculateReliabilityMultiplier_def
        calculateValueHandlingExtra_def quote_category_def)
  have "js_round (jmul (of_int ?b) k) \<le> js_round (jmul (of_int ?b') k)" if "0 \<le> k" for k
    using m that by (intro extra_mono)
  note x = this [OF multiplier_extra [of "quote_category q"]] this [OF urgency_nonneg [of q]]
    this [OF reliability_nonneg [of q]] this [of "fl (18 / 100)", OF fl.rnd_nonneg]
  show ?thesis
    unfolding quote_raw_earning_def Let_def same
    using m x by (simp add: add_mono)
qed

lemma quote_earning_mono:
  assumes "w \<le> w'"
  shows "qt_carrierEarning (calculateQuote W (q\<lparr>q_weightKg := VNumber w\<rparr>))
       \<le> qt_carrierEarning (calculateQuote W (q\<lparr>q_weightKg := VNumber w'\<rparr>))"
proof -
  have "quote_min_payout (q\<lparr>q_weightKg := VNumber w\<rparr>) \<le> quote_min_payout (q\<lparr>q_weightKg := VNumber w'\<rparr>)"
    unfolding quote_min_payout_def
    using quote_weight_mono [OF assms, of q]
    by (intro max.mono) (simp_all add: quote_category_def js_round_mono jmul_mono)
  with quote_raw_mono [OF assms, of q] show ?thesis unfolding quote_earning by (rule max.mono)
qed

lemma quote_total_mono:
  assumes "w \<le> w'" and "0 \<le> PLATFORM_FEE_PERCENT W"
  shows "qt_totalCharge (calculateQuote W (q\<lparr>q_weightKg := VNumber w\<rparr>))
       \<le> qt_totalCharge (calculateQuote W (q\<lparr>q_weightKg := VNumber w'\<rparr>))"
  unfolding quote_total quote_fee
  using quote_earning_mono [OF assms(1), of W q] assms(2)
  by (intro add_mono extra_mono jdiv_nonneg) simp_all

end
