(* ===== verification/PricingService.thy ===== *)
theory PricingService
  imports Pricing JsString
begin

text \<open>
  \<open>services/pricing.service.ts\<close>: the price estimate of a sender and the earning guidance of a
  carrier, computed from the trips and requests in the database.  The facts bound the recommended
  rate and the demand score, order the three rate tiers, and show that the packages chosen for a
  projection fit into the capacity.
\<close>

section \<open>Helpers\<close>

definition createCityMatcher :: "string \<Rightarrow> string \<Rightarrow> bool" where
  "createCityMatcher city text = regex_whole_i (escapeRegex (trim city)) text"

definition roundToNearest :: "rat \<Rightarrow> int \<Rightarrow> int" where
  "roundToNearest v nearest = max nearest (js_round (jdiv v (of_int nearest)) * nearest)"

definition median :: "rat list \<Rightarrow> rat option" where
  "median values =
     (if values = [] then None
      else (let sorted = sort values; middle = length sorted div 2
            in if even (length sorted)
               then Some (of_int (js_round (jdiv (jadd (sorted ! (middle - 1)) (sorted ! middle)) 2)))
               else Some (sorted ! middle)))"

definition clamp :: "'a :: linorder \<Rightarrow> 'a \<Rightarrow> 'a \<Rightarrow> 'a" where
  "clamp v lo hi = min (max v lo) hi"

fun MODE_BASE_RATE_PER_KG :: "transport_mode \<Rightarrow> rat" where
  "MODE_BASE_RATE_PER_KG Bike = 65"
| "MODE_BASE_RATE_PER_KG Bus = 80"
| "MODE_BASE_RATE_PER_KG Train = 90"
| "MODE_BASE_RATE_PER_KG Car = 110"
| "MODE_BASE_RATE_PER_KG Flight = 180"
| "MODE_BASE_RATE_PER_KG OtherMode = 95"

section \<open>Projections\<close>

text \<open>
  The package and window of a request, as far as a quote reads them; in \<open>partial_request\<close> every
  field may be missing.
\<close>

record partial_request =
  pr_window :: "time_window option"
  pr_category :: "category option"
  pr_weightKg :: "rat option"
  pr_isFragile :: bool
  pr_declaredValue :: "rat option"

definition no_request :: partial_request where
  "no_request = \<lparr> pr_window = None, pr_category = None, pr_weightKg = None, pr_isFragile = False,
                  pr_declaredValue = None \<rparr>"

record projected =
  pj_window :: time_window
  pj_category :: category
  pj_weightKg :: rat
  pj_isFragile :: bool
  pj_declaredValue :: "rat option"

definition buildProjectionPackage ::
  "int \<Rightarrow> partial_request \<Rightarrow> category \<Rightarrow> rat \<Rightarrow> int option \<Rightarrow> projected" where
  "buildProjectionPackage now r cat weight departure =
     \<lparr> pj_window = (case pr_window r of
           None \<Rightarrow> \<lparr> w_earliest = now,
                     w_latest = (case departure of None \<Rightarrow> now + 36 * 60 * 60 * 1000 | Some d \<Rightarrow> d) \<rparr>
         | Some w \<Rightarrow> w),
       pj_category = (case pr_category r of None \<Rightarrow> cat | Some c \<Rightarrow> c),
       pj_weightKg = (case pr_weightKg r of None \<Rightarrow> weight | Some w \<Rightarrow> if w = 0 then weight else w),
       pj_isFragile = (pr_isFragile r \<or> cat = Fragile),
       pj_declaredValue = pr_declaredValue r \<rparr>"

definition projected_of :: "delivery_request \<Rightarrow> projected" where
  "projected_of r =
     \<lparr> pj_window = r_window r, pj_category = p_category (r_package r),
       pj_weightKg = p_weightKg (r_package r), pj_isFragile = p_isFragile (r_package r),
       pj_declaredValue = p_declaredValue (r_package r) \<rparr>"

definition projected_quote :: "world \<Rightarrow> rat \<Rightarrow> projected \<Rightarrow> quote" where
  "projected_quote W rate p =
     calculateQuote W
       \<lparr> q_category = Some (pj_category p), q_weightKg = VNumber (pj_weightKg p),
         q_isFragile = pj_isFragile p, q_declaredValue = opt_number (pj_declaredValue p),
         q_window = Some (w_earliest (pj_window p), w_latest (pj_window p)),
         q_pricePerKg = VNumber rate, q_ratingAverage = VUndefined, q_totalDeliveries = VUndefined \<rparr>"

text \<open>The loop that fills the remaining capacity, first come first served.\<close>

fun fill_capacity :: "rat \<Rightarrow> projected list \<Rightarrow> projected list" where
  "fill_capacity remaining [] = []"
| "fill_capacity remaining (p # ps) =
     (if pj_weightKg p \<le> remaining then p # fill_capacity (jsub remaining (pj_weightKg p)) ps
      else fill_capacity remaining ps)"

record tier =
  ti_label :: string
  ti_ratePerKg :: rat
  ti_expectedPackages :: nat
  ti_occupiedWeightKg :: rat
  ti_carrierPayout :: int
  ti_platformFee :: int
  ti_senderCharge :: int
  ti_payoutPerKg :: int

definition sum_weights :: "projected list \<Rightarrow> rat" where
  "sum_weights ps = foldl (\<lambda>acc p. jadd acc (pj_weightKg p)) 0 ps"

definition projectTier ::
  "world \<Rightarrow> int \<Rightarrow> string \<Rightarrow> rat \<Rightarrow> projected list \<Rightarrow> rat \<Rightarrow> category list \<Rightarrow> int option \<Rightarrow> rat \<Rightarrow> tier" where
  "projectTier W now label rate reqs capacity cats departure fallback =
     (let chosen = fill_capacity capacity reqs;
          selected =
            (if chosen \<noteq> [] then chosen
             else [buildProjectionPackage now no_request
                     (case cats of [] \<Rightarrow> Documents | c # _ \<Rightarrow> c)
                     (to_fixed 1 (clamp (jmul capacity fallback) (fl (1 / 2)) capacity)) departure]);
          quotes = map (projected_quote W rate) selected;
          occupied = sum_weights selected;
          payout = sum_list (map qt_carrierEarning quotes)
      in \<lparr> ti_label = label, ti_ratePerKg = rate, ti_expectedPackages = length selected,
           ti_occupiedWeightKg = to_fixed 1 occupied, ti_carrierPayout = payout,
           ti_platformFee = sum_list (map qt_platformFee quotes),
           ti_senderCharge = sum_list (map qt_totalCharge quotes),
           ti_payoutPerKg = (if 0 < occupied then js_round (jdiv (of_int payout) occupied) else 0) \<rparr>)"

section \<open>estimatePricing\<close>

record estimate_input =
  ei_originCity :: string
  ei_destinationCity :: string
  ei_weightKg :: rat
  ei_category :: category
  ei_isFragile :: bool
  ei_declaredValue :: "rat option"

definition trip_on_route :: "string \<Rightarrow> string \<Rightarrow> trip \<Rightarrow> bool" where
  "trip_on_route origin dest t =
     (createCityMatcher origin (l_city (t_origin t)) \<and>
      createCityMatcher dest (l_city (t_destination t)) \<and>
      t_status t = TripActive \<and> t_safetyDepositPaid t)"

definition estimate_trips :: "estimate_input \<Rightarrow> db \<Rightarrow> (oid \<times> trip) list" where
  "estimate_trips i s =
     take 10 (sort_key (\<lambda>p. t_pricePerKg (snd p)) (sort_key (\<lambda>p. t_departureTime (snd p))
       (findAll (\<lambda>t. trip_on_route (ei_originCity i) (ei_destinationCity i) t \<and>
            ei_weightKg i \<le> c_weightKg (t_availableCapacity t) \<and>
            ei_category i \<in> set (c_allowedCategories (t_availableCapacity t))) (trips s))))"

record estimate_result =
  er_carrierCount :: nat
  er_estimate :: "(quote \<times> oid \<times> rat) option"

text \<open>The reference trip is not populated: its carrier is an id, without a rating.\<close>

definition estimatePricing :: "world \<Rightarrow> estimate_input \<Rightarrow> db \<Rightarrow> estimate_result" where
  "estimatePricing W i s =
     (case estimate_trips i s of
        [] \<Rightarrow> \<lparr> er_carrierCount = 0, er_estimate = None \<rparr>
      | (k, t) # rest \<Rightarrow>
          \<lparr> er_carrierCount = Suc (length rest),
            er_estimate = Some
              (calculateQuote W
                 \<lparr> q_category = Some (ei_category i), q_weightKg = VNumber (ei_weightKg i),
                   q_isFragile = ei_isFragile i, q_declaredValue = opt_number (ei_declaredValue i),
                   q_window = None, q_pricePerKg = VNumber (t_pricePerKg t),
                   q_ratingAverage = VUndefined, q_totalDeliveries = VUndefined \<rparr>,
               k, t_pricePerKg t) \<rparr>)"

section \<open>estimateCarrierEarnings\<close>

record guidance_input =
  gi_originCity :: string
  gi_destinationCity :: string
  gi_capacityKg :: rat
  gi_categories :: "category list"
  gi_pricePerKg :: "rat option"
  gi_modeOfTransport :: "transport_mode option"
  gi_departureTime :: "int option"

text \<open>\<open>Array.from(new Set(xs))\<close>: the first occurrence of each element, in order.\<close>

fun uniq :: "'a list \<Rightarrow> 'a list" where
  "uniq [] = []"
| "uniq (x # xs) = x # uniq (filter (\<lambda>y. y \<noteq> x) xs)"

definition guidance_categories :: "guidance_input \<Rightarrow> category list" where
  "guidance_categories i = uniq (if gi_categories i = [] then [Documents] else gi_categories i)"

definition guidance_requests :: "guidance_input \<Rightarrow> rat \<Rightarrow> db \<Rightarrow> (oid \<times> delivery_request) list" where
  "guidance_requests i capacity s =
     take 25 (sort_key (\<lambda>p. - r_createdAt (snd p)) (findAll (\<lambda>r.
       createCityMatcher (gi_originCity i) (l_city (r_origin r)) \<and>
       createCityMatcher (gi_destinationCity i) (l_city (r_destination r)) \<and>
       r_status r = ReqPending \<and> r_paymentStatus r \<in> {Unpaid, Paid} \<and>
       p_weightKg (r_package r) \<le> capacity \<and>
       p_category (r_package r) \<in> set (guidance_categories i) \<and>
       (case gi_departureTime i of None \<Rightarrow> True
        | Some d \<Rightarrow> w_earliest (r_window r) \<le> d \<and> d \<le> w_latest (r_window r))) (requests s)))"

definition guidance_trips :: "guidance_input \<Rightarrow> db \<Rightarrow> (oid \<times> trip) list" where
  "guidance_trips i s =
     take 25 (sort_key (\<lambda>p. t_departureTime (snd p)) (findAll (\<lambda>t.
       trip_on_route (gi_originCity i) (gi_destinationCity i) t \<and>
       fl (1 / 2) \<le> c_weightKg (t_availableCapacity t) \<and>
       list_ex (\<lambda>c. c \<in> set (guidance_categories i)) (c_allowedCategories (t_availableCapacity t)))
       (trips s)))"

record market =
  mk_pendingPackages :: nat
  mk_pendingWeightKg :: rat
  mk_competingCarriers :: nat
  mk_lowestRatePerKg :: "rat option"
  mk_medianRatePerKg :: "rat option"
  mk_highestRatePerKg :: "rat option"
  mk_demandScore :: int

record guidance =
  gd_market :: market
  gd_currentRatePerKg :: rat
  gd_recommendedRatePerKg :: int
  gd_current :: tier
  gd_balanced :: tier
  gd_fastFill :: tier
  gd_premium :: tier
  gd_byCategory :: "(category \<times> nat \<times> rat) list"

definition demand_boost :: "nat \<Rightarrow> rat \<Rightarrow> rat" where
  "demand_boost n ratio =
     min (jadd (jmul (of_nat n) (fl (35 / 1000))) (jmul ratio (fl (8 / 100)))) (fl (28 / 100))"

definition competition_pressure :: "nat \<Rightarrow> rat" where
  "competition_pressure n =
     (if n = 0 then 0 else min (jmul (of_nat n) (fl (25 / 1000))) (fl (18 / 100)))"

definition category_boost :: "category list \<Rightarrow> rat" where
  "category_boost cats =
     (if list_ex (\<lambda>c. c \<in> {Electronics, Fragile, Medicine}) cats then fl (8 / 100) else 0)"

definition recommended_rate :: "rat \<Rightarrow> rat \<Rightarrow> rat \<Rightarrow> rat \<Rightarrow> int" where
  "recommended_rate base demand cat competition =
     clamp (roundToNearest (jmul base (jsub (jadd (jadd 1 demand) cat) competition)) 10) 30 500"

definition demand_score :: "nat \<Rightarrow> rat \<Rightarrow> nat \<Rightarrow> rat \<Rightarrow> int" where
  "demand_score n ratio competing cat =
     clamp (js_round (jadd (jsub (jadd (of_nat n * 12) (jmul ratio 35)) (of_nat competing * 4))
                           (jmul cat 100))) 0 100"

definition or_rate :: "rat option \<Rightarrow> rat \<Rightarrow> rat" where
  "or_rate x d = (case x of None \<Rightarrow> d | Some r \<Rightarrow> if r = 0 then d else r)"

definition fast_fill_rate :: "int \<Rightarrow> int" where
  "fast_fill_rate rec = clamp (roundToNearest (jmul (of_int rec) (fl (9 / 10))) 10) 20 500"

definition premium_rate :: "int \<Rightarrow> int" where
  "premium_rate rec = clamp (roundToNearest (jmul (of_int rec) (fl (118 / 100))) 10) 20 500"

definition estimateCarrierEarnings :: "world \<Rightarrow> guidance_input \<Rightarrow> db \<Rightarrow> guidance" where
  "estimateCarrierEarnings W i s =
     (let cats = guidance_categories i;
          capacity = clamp (gi_capacityKg i) (fl (1 / 2)) 30;
          mode = (case gi_modeOfTransport i of None \<Rightarrow> OtherMode | Some m \<Rightarrow> m);
          pending = map (projected_of \<circ> snd) (guidance_requests i capacity s);
          competing = map snd (guidance_trips i s);
          rates = filter (\<lambda>r. 0 < r) (map t_pricePerKg competing);
          med = median rates;
          base = or_rate med (MODE_BASE_RATE_PER_KG mode);
          weight = sum_weights pending;
          ratio = jdiv weight capacity;
          recommended = recommended_rate base (demand_boost (length pending) ratio) (category_boost cats)
            (competition_pressure (length competing));
          current = (case gi_pricePerKg i of
              None \<Rightarrow> of_int recommended
            | Some p \<Rightarrow> if p = 0 then of_int recommended else clamp p 20 500);
          fallback = (if pending \<noteq> [] then clamp ratio (fl (35 / 100)) 1
                      else if competing \<noteq> [] then fl (45 / 100) else fl (6 / 10));
          project = (\<lambda>label rate fb. projectTier W (clock s) label rate pending capacity cats
                       (gi_departureTime i) fb)
      in \<lparr> gd_market =
             \<lparr> mk_pendingPackages = length pending, mk_pendingWeightKg = to_fixed 1 weight,
               mk_competingCarriers = length competing,
               mk_lowestRatePerKg = (if rates = [] then None else Some (foldr min (tl rates) (hd rates))),
               mk_medianRatePerKg = med,
               mk_highestRatePerKg = (if rates = [] then None else Some (foldr max (tl rates) (hd rates))),
               mk_demandScore = demand_score (length pending) ratio (length competing) (category_boost cats) \<rparr>,
           gd_currentRatePerKg = current, gd_recommendedRatePerKg = recommended,
           gd_current = project ''Your rate'' current fallback,
           gd_balanced = project ''Balanced'' (of_int recommended) fallback,
           gd_fastFill = project ''Fast fill'' (of_int (fast_fill_rate recommended)) fallback,
           gd_premium = project ''Premium'' (of_int (premium_rate recommended))
             (max (jsub fallback (fl (15 / 100))) (fl (1 / 4))),
           gd_byCategory = map (\<lambda>c. let ms = filter (\<lambda>p. pj_category p = c) pending
               in (c, length ms, to_fixed 1 (sum_weights ms))) cats \<rparr>)"

section \<open>Facts\<close>

lemma clamp_bounds: "lo \<le> hi \<Longrightarrow> lo \<le> clamp v lo hi \<and> clamp v lo hi \<le> hi"
  by (simp add: clamp_def)

lemma clamp_mono: "v \<le> v' \<Longrightarrow> clamp v lo hi \<le> clamp v' lo hi"
  by (auto simp: clamp_def min_def max_def)

lemma clamp_id: "lo \<le> v \<Longrightarrow> v \<le> hi \<Longrightarrow> clamp v lo hi = v"
  by (simp add: clamp_def)

lemma recommended_bounds: "30 \<le> recommended_rate b d c p \<and> recommended_rate b d c p \<le> 500"
  by (simp add: recommended_rate_def clamp_bounds)

lemma demand_score_bounds: "0 \<le> demand_score n r k c \<and> demand_score n r k c \<le> 100"
  by (simp add: demand_score_def clamp_bounds)

lemma roundToNearest_dvd: "nearest dvd roundToNearest v nearest"
  by (simp add: roundToNearest_def max_def)

lemma roundToNearest_mono: "0 < n \<Longrightarrow> v \<le> v' \<Longrightarrow> roundToNearest v n \<le> roundToNearest v' n"
  unfolding roundToNearest_def
  by (intro max.mono mult_right_mono js_round_mono jdiv_mono) simp_all

lemma roundToNearest_multiple:
  assumes "0 < k" "k \<le> 2 ^ 53"
  shows "roundToNearest (of_int (10 * k)) 10 = 10 * k"
proof -
  have "jdiv (of_int (10 * k)) (of_int 10) = of_int k"
    unfolding jdiv_def using assms fl_of_int [of k] by simp
  then show ?thesis using assms by (simp add: roundToNearest_def)
qed

lemma recommended_multiple: "10 dvd recommended_rate b d c p"
  unfolding recommended_rate_def clamp_def
  using roundToNearest_dvd [of 10] by (auto simp: min_def max_def)

text \<open>The three tiers are ordered.\<close>

lemma tiers_ordered:
  assumes "rec = recommended_rate b d c p"
  shows "fast_fill_rate rec \<le> rec \<and> rec \<le> premium_rate rec"
proof -
  from assms recommended_bounds [of b d c p] recommended_multiple [of b d c p]
  obtain k where rec: "rec = 10 * k" and k: "3 \<le> k" "k \<le> 50" by auto
  have r: "roundToNearest (of_int rec) 10 = rec"
    unfolding rec using k by (intro roundToNearest_multiple) simp_all
  have lo: "jmul (of_int rec) (fl (9 / 10)) \<le> of_int rec"
    unfolding jmul_def
  proof (rule fl.rnd_le_int)
    have "fl (9 / 10) \<le> 1" using fl.rnd_le_int [of "9 / 10" 1] by simp
    then show "of_int rec * fl (9 / 10) \<le> rat_of_int rec"
      using mult_left_mono [of "fl (9 / 10)" 1 "rat_of_int rec"] rec k by simp
  qed (use rec k in simp)
  have hi: "of_int rec \<le> jmul (of_int rec) (fl (118 / 100))"
    unfolding jmul_def
  proof (rule fl.rnd_ge_int)
    have "1 \<le> fl (118 / 100)" using fl.rnd_ge_int [of 1 "118 / 100"] by simp
    then show "rat_of_int rec \<le> of_int rec * fl (118 / 100)"
      using mult_left_mono [of 1 "fl (118 / 100)" "rat_of_int rec"] rec k by simp
  qed (use rec k in simp)
  have "fast_fill_rate rec \<le> clamp rec 20 500"
    unfolding fast_fill_rate_def using roundToNearest_mono [OF _ lo, of 10] r by (simp add: clamp_mono)
  moreover have "clamp rec 20 500 \<le> premium_rate rec"
    unfolding premium_rate_def using roundToNearest_mono [OF _ hi, of 10] r by (simp add: clamp_mono)
  ultimately show ?thesis using rec k by (simp add: clamp_id)
qed

text \<open>The packages chosen fit one after the other, and are a subsequence of the candidates.\<close>

fun fits :: "rat \<Rightarrow> projected list \<Rightarrow> bool" where
  "fits remaining [] = (0 \<le> remaining)"
| "fits remaining (p # ps) = (pj_weightKg p \<le> remaining \<and> fits (jsub remaining (pj_weightKg p)) ps)"

lemma fill_capacity_fits: "0 \<le> r \<Longrightarrow> fits r (fill_capacity r ps)"
  by (induction r ps rule: fill_capacity.induct) (auto simp: jsub_nonneg)

lemma fill_capacity_subset: "set (fill_capacity r ps) \<subseteq> set ps"
  by (induction r ps rule: fill_capacity.induct) auto

lemma set_uniq [simp]: "set (uniq xs) = set xs"
  by (induction xs rule: uniq.induct) auto

lemma distinct_uniq [simp]: "distinct (uniq xs)"
  by (induction xs rule: uniq.induct) auto

lemma city_matcher_iff: "createCityMatcher city text \<longleftrightarrow> toLowerCase text = toLowerCase (trim city)"
  by (simp add: createCityMatcher_def regex_whole_escape)

text \<open>The estimate is made on the cheapest trip that fits.\<close>

lemma estimate_trips_sound:
  "(k, t) \<in> set (estimate_trips i s) \<Longrightarrow>
     (k, t) \<in> set (trips s) \<and> trip_on_route (ei_originCity i) (ei_destinationCity i) t \<and>
     ei_weightKg i \<le> c_weightKg (t_availableCapacity t) \<and>
     ei_category i \<in> set (c_allowedCategories (t_availableCapacity t))"
  unfolding estimate_trips_def by (drule in_set_takeD) (auto simp: set_findAll)

lemma estimate_trips_sorted: "sorted (map (\<lambda>p. t_pricePerKg (snd p)) (estimate_trips i s))"
  unfolding estimate_trips_def by (simp flip: take_map add: sorted_wrt_take)

lemma estimate_trips_length: "length (estimate_trips i s) \<le> 10"
  by (simp add: estimate_trips_def)

lemma uniq_nonempty: "xs \<noteq> [] \<Longrightarrow> uniq xs \<noteq> []"
  by (cases xs) simp_all

end
