(* ===== verification/Matching.thy ===== *)
theory Matching
  imports PricingService Notify Escrow
begin

text \<open>
  \<open>services/matching.service.ts\<close>: pairing delivery requests with trips.  A candidate trip carries
  its populated carrier (none if the user is gone).  The routing-search service is the parameter
  \<open>matchCandidates\<close> of the world: its answer is the list of \<open>trip_id || candidate_id\<close> (or
  \<open>delivery_request_id || candidate_id\<close>) of the ranking, or nothing when the call failed.  The
  unique index of the Match schema on (trip, deliveryRequest) is part of \<open>create_match\<close>.
\<close>

section \<open>Promise.all\<close>

text \<open>
  All handlers run to their end even if one of them rejects; the result is the first rejection.
  They are run one after the other.
\<close>

primrec allM :: "('s, 'a) handler list \<Rightarrow> ('s, 'a list) handler" where
  "allM [] s = (Inr [], s)"
| "allM (m # ms) s =
     (let (r, s1) = m s; (rs, s2) = allM ms s1
      in (case r of Inl e \<Rightarrow> Inl e
          | Inr x \<Rightarrow> (case rs of Inl e \<Rightarrow> Inl e | Inr xs \<Rightarrow> Inr (x # xs)), s2))"

lemma keeps_allM [keeps_intros]: "(\<And>m. m \<in> set ms \<Longrightarrow> keeps I m) \<Longrightarrow> keeps I (allM ms)"
proof (induction ms)
  case Nil
  then show ?case by (simp add: keeps_def)
next
  case (Cons m ms)
  then have "keeps I m" "keeps I (allM ms)" by simp_all
  then show ?case by (fastforce simp: keeps_def Let_def split: prod.splits)
qed

section \<open>Serialisation for routing-search\<close>

definition toOptionalCoords :: "location \<Rightarrow> json" where
  "toOptionalCoords l = JObj
     [(''city'', JStr (l_city l)), (''state'', jopt JStr (l_state l)),
      (''place_id'', jopt JStr (l_placeId l)),
      (''latitude'', (case l_coordinates l of None \<Rightarrow> JNull | Some (lng, lat) \<Rightarrow> JNum lat)),
      (''longitude'', (case l_coordinates l of None \<Rightarrow> JNull | Some (lng, lat) \<Rightarrow> JNum lng))]"

text \<open>A date sent as an ISO string is kept as the date.\<close>

definition serializeDeliveryRequest :: "oid \<Rightarrow> delivery_request \<Rightarrow> json" where
  "serializeDeliveryRequest rid r = JObj
     [(''delivery_request_id'', JStr rid), (''sender_id'', JStr (r_sender r)),
      (''origin'', toOptionalCoords (r_origin r)), (''destination'', toOptionalCoords (r_destination r)),
      (''pickup_window'', JObj [(''earliest'', JDate (w_earliest (r_window r))),
                                (''latest'', JDate (w_latest (r_window r)))]),
      (''package'', JObj
         [(''weight_kg'', JNum (p_weightKg (r_package r))),
          (''category'', JStr (category_str (p_category (r_package r)))),
          (''is_fragile'', JBool (p_isFragile (r_package r))),
          (''declared_value'', jopt JNum (p_declaredValue (r_package r)))])]"

type_synonym populated_trip = "oid \<times> trip \<times> user option"

definition serializeTrip :: "populated_trip \<Rightarrow> json" where
  "serializeTrip pt = (case pt of (k, t, carrier) \<Rightarrow> JObj
     [(''trip_id'', JStr k), (''carrier_id'', JStr (t_carrier t)),
      (''origin'', toOptionalCoords (t_origin t)), (''destination'', toOptionalCoords (t_destination t)),
      (''departure_time'', JDate (t_departureTime t)),
      (''estimated_arrival_time'', (case t_estimatedArrivalTime t of None \<Rightarrow> JNull | Some d \<Rightarrow> JDate d)),
      (''price_per_kg'', JNum (t_pricePerKg t)),
      (''available_capacity_weight_kg'', JNum (c_weightKg (t_availableCapacity t))),
      (''allowed_categories'',
         JArr (map (JStr \<circ> category_str) (c_allowedCategories (t_availableCapacity t)))),
      (''carrier_rating_average'', JNum (case carrier of None \<Rightarrow> 5 | Some u \<Rightarrow> u_ratingAverage u)),
      (''carrier_total_deliveries'', JInt (case carrier of None \<Rightarrow> 0 | Some u \<Rightarrow> u_totalDeliveries u))])"

section \<open>Candidates\<close>

definition populate :: "db \<Rightarrow> oid \<times> trip \<Rightarrow> populated_trip" where
  "populate s p = (fst p, snd p, findById (users s) (t_carrier (snd p)))"

definition trip_fits :: "delivery_request \<Rightarrow> trip \<Rightarrow> bool" where
  "trip_fits r t =
     (w_earliest (r_window r) \<le> t_departureTime t \<and> t_departureTime t \<le> w_latest (r_window r) \<and>
      t_status t = TripActive \<and> t_safetyDepositPaid t \<and>
      p_weightKg (r_package r) \<le> c_weightKg (t_availableCapacity t) \<and>
      p_category (r_package r) \<in> set (c_allowedCategories (t_availableCapacity t)))"

definition request_fits :: "trip \<Rightarrow> delivery_request \<Rightarrow> bool" where
  "request_fits t r =
     (r_status r = ReqPending \<and> r_paymentStatus r \<in> {Unpaid, Paid} \<and>
      p_weightKg (r_package r) \<le> c_weightKg (t_availableCapacity t) \<and>
      p_category (r_package r) \<in> set (c_allowedCategories (t_availableCapacity t)) \<and>
      w_earliest (r_window r) \<le> t_departureTime t \<and> t_departureTime t \<le> w_latest (r_window r))"

text \<open>\<open>byId\<close> of the code: the candidates in the order of the ranking, the unknown ids dropped.\<close>

definition by_rank :: "(oid \<times> 'a) list \<Rightarrow> string list \<Rightarrow> (oid \<times> 'a) list" where
  "by_rank xs ids =
     map (\<lambda>k. (k, the (map_of xs k))) (filter (\<lambda>k. map_of xs k \<noteq> None) ids)"

definition with_remainder :: "(oid \<times> 'a) list \<Rightarrow> string list \<Rightarrow> (oid \<times> 'a) list" where
  "with_remainder xs ids =
     by_rank xs ids @ filter (\<lambda>p. fst p \<notin> fst ` set (by_rank xs ids)) xs"

definition ranking :: "world \<Rightarrow> json \<Rightarrow> string list option" where
  "ranking W body =
     (case matchCandidates W body of None \<Rightarrow> None | Some ids \<Rightarrow> if ids = [] then None else Some ids)"

definition rankTripsWithRoutingSearch ::
  "world \<Rightarrow> oid \<Rightarrow> delivery_request \<Rightarrow> populated_trip list \<Rightarrow> populated_trip list option" where
  "rankTripsWithRoutingSearch W rid r ts =
     (if ts = [] then Some ts
      else map_option (with_remainder ts)
        (ranking W (JObj
          [(''delivery_request'', serializeDeliveryRequest rid r),
           (''trip_candidates'', JArr (map serializeTrip ts)),
           (''limit'', JInt (int (min (length ts) 5)))])))"

definition candidate_ids :: "world \<Rightarrow> json \<Rightarrow> string list option" where
  "candidate_ids W body =
     (case ranking W body of None \<Rightarrow> None
      | Some ids \<Rightarrow> (let valid = filter (\<lambda>k. k \<noteq> [] \<and> isValidObjectId W k) ids
                    in if valid = [] then None else Some valid))"

definition retrieveTripsWithRoutingSearch ::
  "world \<Rightarrow> oid \<Rightarrow> delivery_request \<Rightarrow> db \<Rightarrow> populated_trip list option" where
  "retrieveTripsWithRoutingSearch W rid r s =
     (case candidate_ids W (JObj [(''delivery_request'', serializeDeliveryRequest rid r),
                                  (''limit'', JInt 12)]) of
        None \<Rightarrow> None
      | Some ids \<Rightarrow>
          (let found = filter (\<lambda>p. fst p \<in> set ids) (findAll (trip_fits r) (trips s));
               valid = filter (\<lambda>(k, t, c). \<not> (c \<noteq> None \<and> t_carrier t = r_sender r)) (map (populate s) found)
           in Some (by_rank valid ids)))"

definition rankRequestsWithRoutingSearch ::
  "world \<Rightarrow> populated_trip \<Rightarrow> (oid \<times> delivery_request) list \<Rightarrow> (oid \<times> delivery_request) list option" where
  "rankRequestsWithRoutingSearch W pt rs =
     (if rs = [] then Some rs
      else map_option (with_remainder rs)
        (ranking W (JObj
          [(''trip'', serializeTrip pt),
           (''delivery_request_candidates'', JArr (map (\<lambda>(k, r). serializeDeliveryRequest k r) rs)),
           (''limit'', JInt (int (length rs)))])))"

definition retrieveRequestsWithRoutingSearch ::
  "world \<Rightarrow> populated_trip \<Rightarrow> db \<Rightarrow> (oid \<times> delivery_request) list option" where
  "retrieveRequestsWithRoutingSearch W pt s =
     (case candidate_ids W (JObj [(''trip'', serializeTrip pt), (''limit'', JInt 12)]) of
        None \<Rightarrow> None
      | Some ids \<Rightarrow>
          Some (by_rank (filter (\<lambda>p. fst p \<in> set ids) (findAll (request_fits (fst (snd pt))) (requests s))) ids))"

section \<open>Creating a proposal\<close>

definition duplicate_key :: js_error where
  "duplicate_key = MongoError 11000 ''E11000 duplicate key error'' []"

definition same_pair :: "oid \<Rightarrow> oid \<Rightarrow> match_doc \<Rightarrow> bool" where
  "same_pair tid rid m = (m_trip m = tid \<and> m_deliveryRequest m = rid)"

definition create_match :: "world \<Rightarrow> match_doc \<Rightarrow> (db, oid \<times> match_doc) handler" where
  "create_match W m s =
     (if existsDoc (same_pair (m_trip m) (m_deliveryRequest m)) (matches s) then (Inl duplicate_key, s)
      else (Inr (newId W (draws s), m),
            next_draw (s\<lparr>matches := matches s @ [(newId W (draws s), m)]\<rparr>)))"

definition proposed_match :: "oid \<Rightarrow> trip \<Rightarrow> oid \<Rightarrow> delivery_request \<Rightarrow> quote \<Rightarrow> int \<Rightarrow> match_doc" where
  "proposed_match tid t rid r q now =
     new_match tid rid (t_carrier t) (r_sender r) (qt_totalCharge q) (Some (qt_carrierEarning q))
       [\<lparr> te_event = EvMatchProposed, te_timestamp = now, te_actor = Some (t_carrier t),
          te_metadata = JObj [(''totalCharge'', JInt (qt_totalCharge q))] \<rparr>] now"

definition proposal_events ::
  "oid \<Rightarrow> oid \<Rightarrow> trip \<Rightarrow> oid \<Rightarrow> delivery_request \<Rightarrow> quote \<Rightarrow> outbox_input list" where
  "proposal_events mid tid t rid r q =
     [event_input topic_match (getMatchStatusEventType ''proposed'') ''match'' mid (JObj
        [(''matchId'', JStr mid), (''tripId'', JStr tid), (''deliveryRequestId'', JStr rid),
         (''carrierId'', JStr (t_carrier t)), (''senderId'', JStr (r_sender r)),
         (''status'', JStr ''proposed''), (''agreedPrice'', JInt (qt_totalCharge q)),
         (''payoutToCarrier'', JInt (qt_carrierEarning q))]),
      event_input topic_delivery delivery_updated ''delivery_request'' rid (JObj
        [(''requestId'', JStr rid), (''senderId'', JStr (r_sender r)),
         (''origin'', location_json (r_origin r)), (''destination'', location_json (r_destination r)),
         (''preferredDeliveryWindow'', window_json (r_window r)), (''package'', package_json (r_package r)),
         (''status'', JStr ''matched''), (''paymentStatus'', JStr (payment_status_str (r_paymentStatus r))),
         (''updates'', JObj [(''status'', JStr ''matched'')])])]"

definition appendMatchProposalOutbox ::
  "world \<Rightarrow> oid \<Rightarrow> oid \<Rightarrow> trip \<Rightarrow> oid \<Rightarrow> delivery_request \<Rightarrow> quote \<Rightarrow> db \<Rightarrow> db" where
  "appendMatchProposalOutbox W mid tid t rid r q = appendOutboxEvents W (proposal_events mid tid t rid r q)"

definition proposal_json :: "oid \<Rightarrow> oid \<Rightarrow> json" where
  "proposal_json mid rid = JObj [(''matchId'', JStr mid), (''deliveryRequestId'', JStr rid)]"

definition emitMatchProposalCreated ::
  "world \<Rightarrow> oid \<Rightarrow> trip \<Rightarrow> oid \<Rightarrow> delivery_request \<Rightarrow> oid \<Rightarrow> db \<Rightarrow> db" where
  "emitMatchProposalCreated W tid t rid r mid s =
     emitToTrip W tid ''match:proposed'' (proposal_json mid rid)
       (emitToUser W (t_carrier t) ''match:proposed'' (proposal_json mid rid)
         (notifyUser W \<lparr> np_userId = t_carrier t, np_title = ''New Delivery Match'',
              np_body = ''New package request from '' @ l_city (r_origin r) @ '' to '' @
                        l_city (r_destination r) @ ''.'',
              np_type = ''match'', np_metadata = Some (JObj [(''matchId'', JStr mid)]) \<rparr> s))"

definition add_to_set :: "'a \<Rightarrow> 'a list \<Rightarrow> 'a list" where
  "add_to_set x xs = (if x \<in> set xs then xs else xs @ [x])"

definition link_match :: "oid \<Rightarrow> oid \<Rightarrow> oid \<Rightarrow> (db, unit) handler" where
  "link_match tid rid mid =
     thenM (modM (update_trip tid (\<lambda>t. t\<lparr>t_matches := add_to_set mid (t_matches t)\<rparr>)))
       (modM (update_request rid (\<lambda>r. r\<lparr>r_status := ReqMatched\<rparr>)))"

definition createMatchWithoutTransaction ::
  "world \<Rightarrow> oid \<Rightarrow> trip \<Rightarrow> oid \<Rightarrow> delivery_request \<Rightarrow> quote \<Rightarrow> (db, oid \<times> match_doc) handler" where
  "createMatchWithoutTransaction W tid t rid r q =
     bindM (readM (\<lambda>s. (findOne (same_pair tid rid) (matches s), clock s))) (\<lambda>(found, now).
     bindM (case found of
              Some m \<Rightarrow> retM (Some m, False)
            | None \<Rightarrow>
                catchM (bindM (create_match W (proposed_match tid t rid r q now)) (\<lambda>m. retM (Some m, True)))
                  (\<lambda>e. if e = duplicate_key
                       then bindM (readM (\<lambda>s. findOne (same_pair tid rid) (matches s))) (\<lambda>m. retM (m, False))
                       else throwM e)) (\<lambda>(m, created).
     case m of
       None \<Rightarrow> throwM (ApiError 500 ''Unable to create match proposal'')
     | Some (mid, doc) \<Rightarrow>
         thenM (link_match tid rid mid)
         (thenM (whenM created
            (thenM (modM (appendMatchProposalOutbox W mid tid t rid r q))
                   (modM (emitMatchProposalCreated W tid t rid r mid))))
         (retM (mid, doc)))))"

text \<open>The body of the transaction: the carrier of the trip must have been populated.\<close>

definition proposal_body ::
  "world \<Rightarrow> populated_trip \<Rightarrow> oid \<Rightarrow> delivery_request \<Rightarrow> quote \<Rightarrow> (db, oid \<times> match_doc) handler" where
  "proposal_body W pt rid r q =
     (case pt of (tid, t, carrier) \<Rightarrow>
        if carrier = None then throwM (LibError ''TypeError'')
        else bindM (readM clock) (\<lambda>now.
             bindM (create_match W (proposed_match tid t rid r q now)) (\<lambda>(mid, doc).
             thenM (link_match tid rid mid)
             (thenM (modM (appendMatchProposalOutbox W mid tid t rid r q))
             (retM (mid, doc))))))"

definition proposal_quote :: "world \<Rightarrow> populated_trip \<Rightarrow> delivery_request \<Rightarrow> quote" where
  "proposal_quote W pt r =
     calculateQuote W (quote_input_of (t_pricePerKg (fst (snd pt))) (snd (snd pt)) (r_package r)
                         (Some (r_window r)))"

definition createMatchProposal ::
  "world \<Rightarrow> populated_trip \<Rightarrow> oid \<times> delivery_request \<Rightarrow> (db, oid \<times> match_doc) handler" where
  "createMatchProposal W pt req =
     (case (pt, req) of ((tid, t, carrier), (rid, r)) \<Rightarrow>
        if rid = [] then throwM (ApiError 400 ''Delivery request id missing'')
        else
          (let q = proposal_quote W pt r in
           catchM
             (bindM (runInTransaction W (proposal_body W pt rid r q)) (\<lambda>(mid, doc).
              thenM (modM (emitMatchProposalCreated W tid t rid r mid)) (retM (mid, doc))))
             (\<lambda>e. bindM (readM (\<lambda>s. if err_code e = Some 11000
                                    then findOne (same_pair tid rid) (matches s) else None)) (\<lambda>existing.
                  case existing of
                    Some m \<Rightarrow> retM m
                  | None \<Rightarrow>
                      if isTransactionUnsupported e then createMatchWithoutTransaction W tid t rid r q
                      else throwM e))))"

section \<open>findMatches\<close>

definition query_trips :: "delivery_request \<Rightarrow> db \<Rightarrow> populated_trip list" where
  "query_trips r s =
     filter (\<lambda>(k, t, c). \<not> (c \<noteq> None \<and> t_carrier t = r_sender r))
       (map (populate s) (findAll (\<lambda>t. city_matches (l_city (r_origin r)) (l_city (t_origin t)) \<and>
           city_matches (l_city (r_destination r)) (l_city (t_destination t)) \<and> trip_fits r t) (trips s)))"

definition score_order :: "int \<Rightarrow> delivery_request \<Rightarrow> populated_trip list \<Rightarrow> populated_trip list" where
  "score_order now r ts = sort_key (\<lambda>(k, t, c). - scoreTrip now t c r) ts"

definition chosen_trips :: "world \<Rightarrow> oid \<Rightarrow> delivery_request \<Rightarrow> db \<Rightarrow> populated_trip list" where
  "chosen_trips W rid r s =
     (case retrieveTripsWithRoutingSearch W rid r s of
        Some (p # ps) \<Rightarrow> take 5 (p # ps)
      | _ \<Rightarrow>
          (let valid = query_trips r s in
           case rankTripsWithRoutingSearch W rid r valid of
             Some (p # ps) \<Rightarrow> take 5 (p # ps)
           | _ \<Rightarrow> take 5 (score_order (clock s) r valid)))"

definition findMatches :: "world \<Rightarrow> oid \<Rightarrow> (db, (oid \<times> match_doc) list) handler" where
  "findMatches W rid =
     bindM (requireM (\<lambda>s. findById (requests s) rid) (ApiError 404 ''Delivery request not found'')) (\<lambda>r.
     bindM (readM (chosen_trips W rid r)) (\<lambda>ts.
     allM (map (\<lambda>pt. createMatchProposal W pt (rid, r)) ts)))"

definition queueMatching :: "oid \<Rightarrow> db \<Rightarrow> db" where
  "queueMatching rid = add_job ''matchQueue'' ''findMatches'' (JObj [(''deliveryRequestId'', JStr rid)]) 0"

text \<open>queues/matchQueue: the worker.\<close>

definition match_job :: "world \<Rightarrow> string \<Rightarrow> oid \<Rightarrow> (db, unit) handler" where
  "match_job W name rid = whenM (name = ''findMatches'') (thenM (findMatches W rid) (retM ()))"

section \<open>matchTripAgainstPendingRequests\<close>

definition query_requests :: "trip \<Rightarrow> db \<Rightarrow> (oid \<times> delivery_request) list" where
  "query_requests t s =
     findAll (\<lambda>r. request_fits t r \<and>
       city_matches (l_city (t_origin t)) (l_city (r_origin r)) \<and>
       city_matches (l_city (t_destination t)) (l_city (r_destination r))) (requests s)"

definition chosen_requests :: "world \<Rightarrow> populated_trip \<Rightarrow> db \<Rightarrow> (oid \<times> delivery_request) list" where
  "chosen_requests W pt s =
     (case retrieveRequestsWithRoutingSearch W pt s of
        Some (p # ps) \<Rightarrow> p # ps
      | _ \<Rightarrow>
          (let rs = query_requests (fst (snd pt)) s in
           case rankRequestsWithRoutingSearch W pt rs of None \<Rightarrow> rs | Some ranked \<Rightarrow> ranked))"

text \<open>
  The loop skips the carrier's own requests; a trip whose carrier is gone throws at the first
  request.
\<close>

definition propose_unless_own ::
  "world \<Rightarrow> populated_trip \<Rightarrow> oid \<times> delivery_request \<Rightarrow> (db, (oid \<times> match_doc) list) handler" where
  "propose_unless_own W pt req =
     (if snd (snd pt) = None then throwM (LibError ''TypeError'')
      else if r_sender (snd req) = t_carrier (fst (snd pt)) then retM []
      else bindM (createMatchProposal W pt req) (\<lambda>m. retM [m]))"

definition matchTripAgainstPendingRequests :: "world \<Rightarrow> oid \<Rightarrow> (db, (oid \<times> match_doc) list) handler" where
  "matchTripAgainstPendingRequests W tid =
     bindM (requireM (\<lambda>s. findById (trips s) tid) (ApiError 404 ''Trip not found'')) (\<lambda>t.
     bindM (readM (\<lambda>s. populate s (tid, t))) (\<lambda>pt.
     bindM (readM (chosen_requests W pt)) (\<lambda>rs.
     bindM (eachM (propose_unless_own W pt) rs) (\<lambda>xss. retM (concat xss)))))"

definition estimateFromTrip :: "world \<Rightarrow> trip \<Rightarrow> delivery_request \<Rightarrow> quote" where
  "estimateFromTrip W t r =
     calculateQuote W (quote_input_of (t_pricePerKg t) None (r_package r) (Some (r_window r)))"

section \<open>One match per trip and request\<close>

definition unique_pairs :: "db \<Rightarrow> bool" where
  "unique_pairs s \<longleftrightarrow> distinct (map (\<lambda>(k, m). (m_trip m, m_deliveryRequest m)) (matches s))"

lemma unique_pairs_cong: "matches s = matches t \<Longrightarrow> unique_pairs t \<Longrightarrow> unique_pairs s"
  by (simp add: unique_pairs_def)

lemma unique_pairs_abort: "unique_pairs s \<Longrightarrow> unique_pairs (abort s s')"
  by (rule unique_pairs_cong) simp_all

lemma keeps_create_match: "keeps unique_pairs (create_match W m)"
  by (auto simp: keeps_def create_match_def unique_pairs_def existsDoc_iff same_pair_def)

lemma keeps_silent_pairs: "(\<And>s. matches (f s) = matches s) \<Longrightarrow> keeps unique_pairs (modM f)"
  by (intro keeps_modM) (auto intro: unique_pairs_cong)

lemma keeps_link_match: "keeps unique_pairs (link_match tid rid mid)"
  unfolding link_match_def by (intro keeps_intros keeps_silent_pairs) simp_all

lemma matches_proposal_announcements [simp]:
  "matches (appendMatchProposalOutbox W mid tid t rid r q s) = matches s"
  "matches (emitMatchProposalCreated W tid t rid r mid s) = matches s"
  "requests (appendMatchProposalOutbox W mid tid t rid r q s) = requests s"
  "requests (emitMatchProposalCreated W tid t rid r mid s) = requests s"
  "trips (appendMatchProposalOutbox W mid tid t rid r q s) = trips s"
  "trips (emitMatchProposalCreated W tid t rid r mid s) = trips s"
  "transactions (appendMatchProposalOutbox W mid tid t rid r q s) = transactions s"
  "transactions (emitMatchProposalCreated W tid t rid r mid s) = transactions s"
  "users (appendMatchProposalOutbox W mid tid t rid r q s) = users s"
  "users (emitMatchProposalCreated W tid t rid r mid s) = users s"
  "redis (appendMatchProposalOutbox W mid tid t rid r q s) = redis s"
  "redis (emitMatchProposalCreated W tid t rid r mid s) = redis s"
  by (simp_all add: appendMatchProposalOutbox_def emitMatchProposalCreated_def)

lemmas keeps_proposal_steps =
  keeps_create_match keeps_link_match keeps_silent_pairs [of "appendMatchProposalOutbox W mid tid t rid r q" for W mid tid t rid r q]
  keeps_silent_pairs [of "emitMatchProposalCreated W tid t rid r mid" for W tid t rid r mid]

lemma keeps_without_transaction: "keeps unique_pairs (createMatchWithoutTransaction W tid t rid r q)"
  unfolding createMatchWithoutTransaction_def
  by (intro keeps_intros keeps_proposal_steps) simp_all

lemma keeps_proposal_body: "keeps unique_pairs (proposal_body W pt rid r q)"
  unfolding proposal_body_def
  by (intro keeps_intros keeps_proposal_steps) simp_all

lemma keeps_createMatchProposal: "keeps unique_pairs (createMatchProposal W pt req)"
  unfolding createMatchProposal_def
  by (intro keeps_intros keeps_proposal_steps keeps_without_transaction keeps_proposal_body
      keeps_runInTransaction) (simp_all add: unique_pairs_abort)

lemma keeps_findMatches: "keeps unique_pairs (findMatches W rid)"
  unfolding findMatches_def
  by (intro keeps_intros) (auto intro: keeps_createMatchProposal)

lemma keeps_matchTrip: "keeps unique_pairs (matchTripAgainstPendingRequests W tid)"
  unfolding matchTripAgainstPendingRequests_def propose_unless_own_def
  by (intro keeps_intros keeps_createMatchProposal)

section \<open>Proposing an existing pair again\<close>

definition session_ok :: "world \<Rightarrow> bool" where
  "session_ok W \<longleftrightarrow> (case startSession W of None \<Rightarrow> True | Some e \<Rightarrow> isTransactionUnsupported e)"

lemma abort_same [simp]: "abort s s = s"
  by (simp add: abort_def)

lemma duplicate_key_simps [simp]:
  "\<not> isTransactionUnsupported duplicate_key" "\<not> isWriteConflictOrTransient duplicate_key"
  "err_code duplicate_key = Some 11000"
  by (simp_all add: duplicate_key_def isTransactionUnsupported_def isWriteConflictOrTransient_def)

lemma tx_loop_fails:
  "fn s = (Inl e, s) \<Longrightarrow> \<not> isTransactionUnsupported e \<Longrightarrow> \<not> isWriteConflictOrTransient e \<Longrightarrow>
   tx_loop W fn (Suc n) a s = (Inl e, s)"
  by (simp add: tx_loop.simps(2))

lemma runInTransaction_fails:
  assumes "session_ok W" and "fn s = (Inl e, s)"
    and "\<not> isTransactionUnsupported e" "\<not> isWriteConflictOrTransient e"
  shows "runInTransaction W fn s = (Inl e, s)"
  using assms tx_loop_fails [where fn = fn, OF assms(2-4), of W 4 1]
  by (auto simp: runInTransaction_def session_ok_def split: option.splits)

lemma createMatchProposal_existing:
  assumes "session_ok W" and "rid \<noteq> []" and "findOne (same_pair tid rid) (matches s) = Some p"
  shows "createMatchProposal W (tid, t, Some c) (rid, r) s = (Inr p, s)"
proof -
  let ?q = "proposal_quote W (tid, t, Some c) r"
  let ?b = "proposal_body W (tid, t, Some c) rid r ?q"
  have "existsDoc (same_pair tid rid) (matches s)" using assms(3) findOne_None by (metis option.distinct(1))
  then have "?b s = (Inl duplicate_key, s)"
    by (simp add: proposal_body_def create_match_def proposed_match_def new_match_def run_simps)
  from runInTransaction_fails [where fn = ?b, OF assms(1) this] assms(2,3) show ?thesis
    by (simp add: createMatchProposal_def run_simps Let_def)
qed

lemma type_error_simps [simp]:
  "\<not> isTransactionUnsupported (LibError ''TypeError'')"
  "\<not> isWriteConflictOrTransient (LibError ''TypeError'')"
  by (simp_all add: isTransactionUnsupported_def isWriteConflictOrTransient_def)

lemma createMatchProposal_no_carrier:
  assumes "session_ok W" and "rid \<noteq> []"
  shows "createMatchProposal W (tid, t, None) (rid, r) s = (Inl (LibError ''TypeError''), s)"
proof -
  let ?b = "proposal_body W (tid, t, None) rid r (proposal_quote W (tid, t, None) r)"
  have "?b s = (Inl (LibError ''TypeError''), s)" by (simp add: proposal_body_def)
  from runInTransaction_fails [where fn = ?b, OF assms(1) this] assms(2) show ?thesis
    by (simp add: createMatchProposal_def run_simps Let_def)
qed

section \<open>A new proposal\<close>

lemma proposal_body_result:
  "proposal_body W (tid, t, c) rid r q s = (Inr (mid, m), s') \<Longrightarrow>
     m_trip m = tid \<and> m_deliveryRequest m = rid \<and> c \<noteq> None"
  by (auto simp: proposal_body_def run_simps create_match_def proposed_match_def new_match_def
      split: if_splits prod.splits sum.splits)

lemma findOne_pair:
  "findOne (same_pair tid rid) c = Some (mid, m) \<Longrightarrow> m_trip m = tid \<and> m_deliveryRequest m = rid"
  by (drule findOne_SomeD) (simp add: same_pair_def)

lemma without_transaction_result:
  assumes "createMatchWithoutTransaction W tid t rid r q s = (Inr (mid, m), s')"
  shows "m_trip m = tid \<and> m_deliveryRequest m = rid"
proof (cases "findOne (same_pair tid rid) (matches s)")
  case None
  then have "\<not> existsDoc (same_pair tid rid) (matches s)" by (simp add: findOne_None)
  with None assms show ?thesis
    by (auto simp: createMatchWithoutTransaction_def run_simps create_match_def proposed_match_def
        new_match_def link_match_def)
next
  case (Some p)
  obtain k d where "p = (k, d)" by fastforce
  with Some findOne_pair [of tid rid _ k d] assms show ?thesis
    by (simp add: createMatchWithoutTransaction_def run_simps link_match_def)
qed

lemma createMatchProposal_result:
  assumes "createMatchProposal W (tid, t, c) (rid, r) s = (Inr (mid, m), s')" and "session_ok W"
  shows "m_trip m = tid \<and> m_deliveryRequest m = rid \<and> c \<noteq> None"
proof -
  have rid: "rid \<noteq> []" using assms(1) by (auto simp: createMatchProposal_def)
  have c: "c \<noteq> None" using createMatchProposal_no_carrier [OF assms(2) rid, of tid t r s] assms(1) by (cases c) auto
  let ?b = "proposal_body W (tid, t, c) rid r (proposal_quote W (tid, t, c) r)"
  obtain x s1 where run: "runInTransaction W ?b s = (x, s1)" by fastforce
  show ?thesis
  proof (cases x)
    case (Inr p)
    obtain k d where p: "p = (k, d)" by fastforce
    with run Inr obtain u where "?b u = (Inr (k, d), s1)"
      using runInTransaction_result [of W ?b s p s1] by auto
    from proposal_body_result [OF this] show ?thesis
      using assms(1) rid run Inr p by (simp add: createMatchProposal_def run_simps Let_def)
  next
    case (Inl e)
    show ?thesis
    proof (cases "if err_code e = Some 11000 then findOne (same_pair tid rid) (matches s1) else None")
      case None
      with assms(1) rid run Inl c show ?thesis
        by (auto simp: createMatchProposal_def run_simps Let_def split: if_splits dest: without_transaction_result)
    next
      case (Some p)
      then have f: "findOne (same_pair tid rid) (matches s1) = Some p" by (simp split: if_splits)
      from Some assms(1) rid run Inl have "p = (mid, m)"
        by (simp add: createMatchProposal_def run_simps Let_def split: if_splits)
      with f findOne_pair c show ?thesis by blast
    qed
  qed
qed

lemma allM_length: "allM ms s = (Inr xs, s') \<Longrightarrow> length xs = length ms"
  by (induction ms arbitrary: s s' xs) (auto simp: Let_def split: prod.splits sum.splits)

lemma allM_results:
  "allM ms s = (Inr xs, s') \<Longrightarrow> x \<in> set xs \<Longrightarrow> \<exists>m t t'. m \<in> set ms \<and> m t = (Inr x, t')"
proof (induction ms arbitrary: s s' xs)
  case Nil
  then show ?case by simp
next
  case (Cons m ms)
  obtain y t ys t' where "m s = (Inr y, t)" "allM ms t = (Inr ys, t')" "xs = y # ys"
    using Cons.prems(1) by (auto simp: Let_def split: prod.splits sum.splits)
  with Cons.IH [of t ys t'] Cons.prems(2) show ?case by fastforce
qed

section \<open>The candidates\<close>

lemma set_by_rank: "p \<in> set (by_rank xs ids) \<Longrightarrow> p \<in> set xs"
  by (auto simp: by_rank_def dest: map_of_SomeD)

lemma set_with_remainder: "p \<in> set (with_remainder xs ids) \<Longrightarrow> p \<in> set xs"
  by (auto simp: with_remainder_def dest: set_by_rank)

definition eligible :: "delivery_request \<Rightarrow> db \<Rightarrow> populated_trip \<Rightarrow> bool" where
  "eligible r s pt \<longleftrightarrow>
     (fst pt, fst (snd pt)) \<in> set (trips s) \<and> trip_fits r (fst (snd pt)) \<and>
     (snd (snd pt) \<noteq> None \<longrightarrow> t_carrier (fst (snd pt)) \<noteq> r_sender r)"

lemma retrieved_eligible:
  "retrieveTripsWithRoutingSearch W rid r s = Some ts \<Longrightarrow> p \<in> set ts \<Longrightarrow> eligible r s p"
  by (auto simp: retrieveTripsWithRoutingSearch_def eligible_def populate_def set_findAll Let_def
      split: option.splits dest!: set_by_rank)

lemma query_eligible: "p \<in> set (query_trips r s) \<Longrightarrow> eligible r s p"
  by (auto simp: query_trips_def eligible_def populate_def set_findAll)

lemma ranked_eligible:
  assumes "rankTripsWithRoutingSearch W rid r (query_trips r s) = Some ts" "p \<in> set ts"
  shows "eligible r s p"
proof -
  have "p \<in> set (query_trips r s)"
    using assms by (auto simp: rankTripsWithRoutingSearch_def split: if_splits dest: set_with_remainder)
  then show ?thesis by (rule query_eligible)
qed

lemma scored_eligible: "p \<in> set (score_order now r (query_trips r s)) \<Longrightarrow> eligible r s p"
  by (simp add: score_order_def query_eligible)

lemma chosen_trips_eligible: "p \<in> set (chosen_trips W rid r s) \<Longrightarrow> eligible r s p"
  unfolding chosen_trips_def Let_def
  by (auto split: option.splits list.splits intro: retrieved_eligible ranked_eligible scored_eligible
      dest!: in_set_takeD)

lemma chosen_trips_length: "length (chosen_trips W rid r s) \<le> 5"
  unfolding chosen_trips_def Let_def by (simp split: option.split list.split)

lemma findMatches_result:
  assumes "findMatches W rid s = (Inr ms, s')" and "session_ok W"
    and "findById (requests s) rid = Some r"
  shows "length ms \<le> 5 \<and> (\<forall>(mid, m) \<in> set ms. m_deliveryRequest m = rid \<and>
     (\<exists>t. (m_trip m, t) \<in> set (trips s) \<and> trip_fits r t \<and> t_carrier t \<noteq> r_sender r))"
proof -
  let ?ts = "chosen_trips W rid r s"
  have run: "allM (map (\<lambda>pt. createMatchProposal W pt (rid, r)) ?ts) s = (Inr ms, s')"
    using assms by (simp add: findMatches_def run_simps)
  have "\<exists>t. (m_trip m, t) \<in> set (trips s) \<and> trip_fits r t \<and> t_carrier t \<noteq> r_sender r"
    "m_deliveryRequest m = rid" if m: "(mid, m) \<in> set ms" for mid m
  proof -
    from allM_results [OF run m] obtain tid t c u u' where pt: "(tid, t, c) \<in> set ?ts"
      and p: "createMatchProposal W (tid, t, c) (rid, r) u = (Inr (mid, m), u')" by auto
    from createMatchProposal_result [OF p assms(2)] chosen_trips_eligible [OF pt]
    show "\<exists>t. (m_trip m, t) \<in> set (trips s) \<and> trip_fits r t \<and> t_carrier t \<noteq> r_sender r"
      "m_deliveryRequest m = rid" by (auto simp: eligible_def)
  qed
  with allM_length [OF run] chosen_trips_length [of W rid r s] show ?thesis by auto
qed

text \<open>The effect of a proposal for a pair that has none, when the transaction goes through.\<close>

lemma createMatchProposal_new:
  assumes "tx_succeeds W" and "rid \<noteq> []" and "\<not> existsDoc (same_pair tid rid) (matches s)"
    and "findById (requests s) rid = Some r0" and "findById (trips s) tid = Some t0"
  shows "\<exists>mid m s'. createMatchProposal W (tid, t, Some c) (rid, r) s = (Inr (mid, m), s') \<and>
     matches s' = matches s @ [(mid, m)] \<and> m_status m = Proposed \<and>
     m_agreedPrice m = qt_totalCharge (proposal_quote W (tid, t, Some c) r) \<and>
     findById (requests s') rid = Some (r0\<lparr>r_status := ReqMatched\<rparr>) \<and>
     findById (trips s') tid = Some (t0\<lparr>t_matches := add_to_set mid (t_matches t0)\<rparr>)"
proof -
  let ?q = "proposal_quote W (tid, t, Some c) r"
  let ?b = "proposal_body W (tid, t, Some c) rid r ?q"
  let ?m = "proposed_match tid t rid r ?q (clock s)"
  have m: "m_trip ?m = tid" "m_deliveryRequest ?m = rid" "m_status ?m = Proposed"
    "m_agreedPrice ?m = qt_totalCharge ?q"
    by (simp_all add: proposed_match_def new_match_def)
  obtain s1 where b: "?b s = (Inr (newId W (draws s), ?m), s1)"
    and s1: "matches s1 = matches s @ [(newId W (draws s), ?m)]"
      "requests s1 = findByIdAndUpdate rid (\<lambda>r. r\<lparr>r_status := ReqMatched\<rparr>) (requests s)"
      "trips s1 = findByIdAndUpdate tid (\<lambda>t. t\<lparr>t_matches := add_to_set (newId W (draws s)) (t_matches t)\<rparr>) (trips s)"
    using assms(3) by (simp add: proposal_body_def create_match_def m link_match_def run_simps)
  note run = runInTransaction_succeeds [where fn = ?b, OF assms(1) b]
  let ?s' = "emitMatchProposalCreated W tid t rid r (newId W (draws s)) s1"
  have "createMatchProposal W (tid, t, Some c) (rid, r) s = (Inr (newId W (draws s), ?m), ?s')"
    using run assms(2) by (simp add: createMatchProposal_def run_simps Let_def)
  then show ?thesis
    by (intro exI [of _ "newId W (draws s)"] exI [of _ ?m] exI [of _ ?s']) (simp add: s1 m assms(4,5))
qed

end
