(* ===== verification/Trips.thy ===== *)
theory Trips
  imports Payments Matching
begin

text \<open>
  \<open>services/trip.service.ts\<close> and \<open>utils/time.ts\<close>: posting, listing, editing and cancelling trips.
  A request body has passed the zod schema of its route, so it is a record of the schema's
  fields.  The facts: pages of a listing partition the result, the ticket data of a trip are shown
  to its owner only, no trip is edited or cancelled over a match that blocks it, and what a
  cancellation refunds.
\<close>

section \<open>Request bodies\<close>

record trip_payload =
  tp_origin :: location
  tp_destination :: location
  tp_departureTime :: int
  tp_estimatedArrivalTime :: "int option"
  tp_modeOfTransport :: transport_mode
  tp_transportDetails :: "transport_details option"
  tp_availableCapacity :: capacity
  tp_pricePerKg :: rat
  tp_pickupInstructions :: "string option"
  tp_dropoffInstructions :: "string option"
  tp_safetyDepositPaid :: bool

record trip_update =
  tu_origin :: "location option"
  tu_destination :: "location option"
  tu_departureTime :: "int option"
  tu_estimatedArrivalTime :: "int option"
  tu_modeOfTransport :: "transport_mode option"
  tu_transportDetails :: "transport_details option"
  tu_availableCapacity :: "capacity option"
  tu_pricePerKg :: "rat option"
  tu_pickupInstructions :: "string option"
  tu_dropoffInstructions :: "string option"

section \<open>createTrip\<close>

definition new_trip :: "world \<Rightarrow> oid \<Rightarrow> trip_payload \<Rightarrow> trip" where
  "new_trip W usr p =
     \<lparr> t_carrier = usr, t_origin = tp_origin p, t_destination = tp_destination p,
       t_departureTime = tp_departureTime p, t_estimatedArrivalTime = tp_estimatedArrivalTime p,
       t_modeOfTransport = tp_modeOfTransport p, t_transportDetails = tp_transportDetails p,
       t_availableCapacity = tp_availableCapacity p, t_pricePerKg = tp_pricePerKg p,
       t_status = TripActive,
       t_safetyDepositPaid = (if DEMO_MODE W then True else tp_safetyDepositPaid p),
       t_safetyDepositAmount = None, t_safetyDepositTransactionId = None,
       t_pickupInstructions = tp_pickupInstructions p, t_dropoffInstructions = tp_dropoffInstructions p,
       t_matches = [] \<rparr>"

definition trip_json :: "oid \<Rightarrow> oid \<Rightarrow> trip \<Rightarrow> (string \<times> json) list" where
  "trip_json tid usr t =
     [(''tripId'', JStr tid), (''carrierId'', JStr usr), (''origin'', location_json (t_origin t)),
      (''destination'', location_json (t_destination t)), (''departureTime'', JDate (t_departureTime t)),
      (''pricePerKg'', JNum (t_pricePerKg t)),
      (''availableCapacity'', capacity_json (t_availableCapacity t)),
      (''status'', JStr (trip_status_str (t_status t))),
      (''safetyDepositPaid'', JBool (t_safetyDepositPaid t))]"

definition become_carrier :: "user \<Rightarrow> user" where
  "become_carrier u =
     u\<lparr>u_role := add_to_set CarrierRole (u_role u),
       u_totalTripsAsCarrier := u_totalTripsAsCarrier u + 1\<rparr>"

definition insert_trip :: "world \<Rightarrow> trip \<Rightarrow> (db, oid) handler" where
  "insert_trip W t s =
     (Inr (newId W (draws s)), next_draw (s\<lparr>trips := trips s @ [(newId W (draws s), t)]\<rparr>))"

definition persistTrip :: "world \<Rightarrow> oid \<Rightarrow> trip_payload \<Rightarrow> (db, oid \<times> trip) handler" where
  "persistTrip W usr p =
     (let t = new_trip W usr p in
      bindM (insert_trip W t) (\<lambda>tid.
      thenM (modM (update_user usr become_carrier))
      (thenM (modM (appendOutboxEvents W
          [event_input topic_trip trip_posted ''trip'' tid (JObj (trip_json tid usr t))]))
      (retM (tid, t)))))"

definition trip_id_json :: "oid \<Rightarrow> json" where
  "trip_id_json tid = JObj [(''tripId'', JStr tid)]"

definition remind :: "string \<Rightarrow> oid \<Rightarrow> int \<Rightarrow> (db, unit) handler" where
  "remind name tid delay = whenM (0 < delay) (modM (add_job ''reminderQueue'' name (trip_id_json tid) delay))"

definition createTrip :: "world \<Rightarrow> oid \<Rightarrow> trip_payload \<Rightarrow> (db, oid \<times> trip) handler" where
  "createTrip W usr p =
     bindM (runInTransaction W (persistTrip W usr p)) (\<lambda>(tid, t).
     bindM (readM clock) (\<lambda>now.
     thenM (remind ''trip-two-hour-reminder'' tid (t_departureTime t - now - 2 * 60 * 60 * 1000))
     (thenM (remind ''trip-thirty-min-reminder'' tid (t_departureTime t - now - 30 * 60 * 1000))
     (retM (tid, t)))))"

section \<open>Listings\<close>

text \<open>The local day of a date, for a zone \<open>tz\<close> milliseconds ahead of UTC.\<close>

definition startOfDay :: "int \<Rightarrow> int \<Rightarrow> int" where
  "startOfDay tz d = d - (d + tz) mod 86400000"

definition endOfDay :: "int \<Rightarrow> int \<Rightarrow> int" where
  "endOfDay tz d = startOfDay tz d + 86399999"

record trip_filter =
  tf_origin_city :: "string option"
  tf_destination_city :: "string option"
  tf_date :: "int option"
  tf_mode :: "transport_mode option"
  tf_min_capacity_kg :: "rat option"
  tf_page :: nat
  tf_limit :: nat

definition trip_query :: "int \<Rightarrow> trip_filter \<Rightarrow> trip \<Rightarrow> bool" where
  "trip_query tz f t =
     (t_status t = TripActive \<and>
      (truthy_str (tf_origin_city f) \<longrightarrow> city_matches (the (tf_origin_city f)) (l_city (t_origin t))) \<and>
      (truthy_str (tf_destination_city f) \<longrightarrow>
         city_matches (the (tf_destination_city f)) (l_city (t_destination t))) \<and>
      (case tf_date f of None \<Rightarrow> True
       | Some d \<Rightarrow> startOfDay tz d \<le> t_departureTime t \<and> t_departureTime t \<le> endOfDay tz d) \<and>
      (case tf_mode f of None \<Rightarrow> True | Some m \<Rightarrow> t_modeOfTransport t = m) \<and>
      (case tf_min_capacity_kg f of None \<Rightarrow> True
       | Some k \<Rightarrow> k = 0 \<or> k \<le> c_weightKg (t_availableCapacity t)))"

definition page_of :: "nat \<Rightarrow> nat \<Rightarrow> 'a list \<Rightarrow> 'a list" where
  "page_of page limit xs = take limit (drop ((page - 1) * limit) xs)"

definition nat_or :: "nat \<Rightarrow> nat \<Rightarrow> nat" where
  "nat_or n d = (if n = 0 then d else n)"

definition total_pages :: "nat \<Rightarrow> nat \<Rightarrow> nat" where
  "total_pages n limit = (n + limit - 1) div limit"

definition hide_ticket :: "trip \<Rightarrow> trip" where
  "hide_ticket t =
     t\<lparr>t_transportDetails := map_option (\<lambda>d. d\<lparr>td_pnr := None, td_seatNumber := None\<rparr>) (t_transportDetails t)\<rparr>"

record trip_page =
  tg_items :: "(oid \<times> trip \<times> int) list"
  tg_total :: nat
  tg_page :: nat
  tg_limit :: nat
  tg_totalPages :: nat

definition matching_trips :: "int \<Rightarrow> trip_filter \<Rightarrow> db \<Rightarrow> (oid \<times> trip) list" where
  "matching_trips tz f s = sort_key (\<lambda>p. t_departureTime (snd p)) (findAll (trip_query tz f) (trips s))"

definition listTrips :: "int \<Rightarrow> trip_filter \<Rightarrow> db \<Rightarrow> trip_page" where
  "listTrips tz f s =
     (let page = nat_or (tf_page f) 1;
          limit = nat_or (tf_limit f) 10;
          found = matching_trips tz f s
      in \<lparr> tg_items = map (\<lambda>(k, t). (k, hide_ticket t, js_round (jmul (t_pricePerKg t) 100)))
             (page_of page limit found),
           tg_total = countDocuments (trip_query tz f) (trips s), tg_page = page, tg_limit = limit,
           tg_totalPages = total_pages (countDocuments (trip_query tz f) (trips s)) limit \<rparr>)"

definition getTripById :: "oid \<Rightarrow> string option \<Rightarrow> (db, trip) handler" where
  "getTripById tid usr =
     bindM (requireM (\<lambda>s. findById (trips s) tid) (ApiError 404 ''Trip not found'')) (\<lambda>t.
     thenM (requireM (\<lambda>s. findById (users s) (t_carrier t)) (LibError ''TypeError''))
     (retM (if truthy_str usr \<and> usr = Some (t_carrier t) then t else hide_ticket t)))"

definition listMyTrips :: "oid \<Rightarrow> db \<Rightarrow> (oid \<times> trip) list" where
  "listMyTrips usr s = sort_key (\<lambda>p. - t_departureTime (snd p)) (findAll (\<lambda>t. t_carrier t = usr) (trips s))"

section \<open>updateTrip\<close>

definition blocking_status :: "match_status \<Rightarrow> bool" where
  "blocking_status st =
     (st \<in> {CarrierAccepted, SenderConfirmed, Active, PickupPending, PickedUp, InTransit,
            DeliveryPending, Delivered})"

definition opt_or :: "'a option \<Rightarrow> 'a \<Rightarrow> 'a" where
  "opt_or x d = (case x of None \<Rightarrow> d | Some y \<Rightarrow> y)"

definition apply_update :: "trip_update \<Rightarrow> trip \<Rightarrow> trip" where
  "apply_update u t =
     t\<lparr>t_origin := opt_or (tu_origin u) (t_origin t),
       t_destination := opt_or (tu_destination u) (t_destination t),
       t_departureTime := opt_or (tu_departureTime u) (t_departureTime t),
       t_estimatedArrivalTime := (if tu_estimatedArrivalTime u = None then t_estimatedArrivalTime t
                                  else tu_estimatedArrivalTime u),
       t_modeOfTransport := opt_or (tu_modeOfTransport u) (t_modeOfTransport t),
       t_transportDetails := (if tu_transportDetails u = None then t_transportDetails t
                              else tu_transportDetails u),
       t_availableCapacity := opt_or (tu_availableCapacity u) (t_availableCapacity t),
       t_pricePerKg := opt_or (tu_pricePerKg u) (t_pricePerKg t),
       t_pickupInstructions := (if tu_pickupInstructions u = None then t_pickupInstructions t
                                else tu_pickupInstructions u),
       t_dropoffInstructions := (if tu_dropoffInstructions u = None then t_dropoffInstructions t
                                 else tu_dropoffInstructions u)\<rparr>"

text \<open>The body of the update as it appears in the event is an argument.\<close>

definition updateTrip :: "world \<Rightarrow> oid \<Rightarrow> oid \<Rightarrow> trip_update \<Rightarrow> json \<Rightarrow> (db, trip) handler" where
  "updateTrip W usr tid u body =
     bindM (requireM (\<lambda>s. findById (trips s) tid) (ApiError 404 ''Trip not found'')) (\<lambda>t.
     thenM (unlessM (t_carrier t = usr) (ApiError 403 ''Forbidden''))
     (bindM (readM (\<lambda>s. existsDoc (\<lambda>m. m_trip m = tid \<and> blocking_status (m_status m)) (matches s))) (\<lambda>blocked.
      thenM (unlessM (\<not> blocked) (ApiError 400 ''Trip cannot be edited once matches are accepted''))
      (let t' = apply_update u t in
       thenM (modM (save_trip tid t'))
       (thenM (modM (appendOutboxEvents W
          [event_input topic_trip trip_updated ''trip'' tid
             (JObj (trip_json tid (t_carrier t) t' @ [(''updates'', body)]))]))
       (retM t'))))))"

section \<open>cancelTrip\<close>

definition custody_status :: "match_status \<Rightarrow> bool" where
  "custody_status st =
     (st \<in> {SenderConfirmed, Active, PickupPending, PickedUp, InTransit, DeliveryPending})"

definition refund_wallet :: "int \<Rightarrow> user \<Rightarrow> user" where
  "refund_wallet n u = u\<lparr>u_escrowHeld := u_escrowHeld u - n, u_balance := u_balance u + n\<rparr>"

definition cancelTrip :: "world \<Rightarrow> oid \<Rightarrow> oid \<Rightarrow> (db, trip) handler" where
  "cancelTrip W usr tid =
     bindM (requireM (\<lambda>s. findById (trips s) tid) (ApiError 404 ''Trip not found'')) (\<lambda>t.
     thenM (unlessM (t_carrier t = usr) (ApiError 403 ''Forbidden''))
     (if t_status t = TripCancelled then retM t
      else
        bindM (readM (\<lambda>s. existsDoc (\<lambda>m. m_trip m = tid \<and> custody_status (m_status m)) (matches s))) (\<lambda>custody.
        thenM (unlessM (\<not> custody) (ApiError 400
          ''Cannot cancel trip with active deliveries in progress. Please complete or resolve active deliveries first.''))
        (thenM (modM (update_trip tid (\<lambda>t. t\<lparr>t_status := TripCancelled\<rparr>)))
        (thenM (whenM (t_safetyDepositPaid t \<and> truthy_num (t_safetyDepositAmount t))
           (thenM (modM (update_user usr (refund_wallet (the (t_safetyDepositAmount t)))))
              (modM (\<lambda>s. create_transaction W (new_transaction usr None Refund
                  (the (t_safetyDepositAmount t)) TxCompleted
                  (''Refund for cancelled trip '' @ tid) (clock s)) s))))
        (thenM (modM (appendOutboxEvents W
           [event_input topic_trip trip_cancelled ''trip'' tid (JObj
              [(''tripId'', JStr tid), (''carrierId'', JStr (t_carrier t)),
               (''status'', JStr ''cancelled'')])]))
        (retM (t\<lparr>t_status := TripCancelled\<rparr>))))))))"

section \<open>Deposits\<close>

definition createDepositOrder :: "world \<Rightarrow> oid \<Rightarrow> oid \<Rightarrow> (db, order_result) handler" where
  "createDepositOrder W usr tid = createTripDepositOrder W tid usr"

definition createPreTripDepositOrder :: "world \<Rightarrow> oid \<Rightarrow> (db, order_result) handler" where
  "createPreTripDepositOrder W usr =
     bindM (readM (\<lambda>s. newest (open_deposit usr ''draft_trip_deposit'') (transactions s))) (\<lambda>existing.
     if (case existing of None \<Rightarrow> False | Some (k, x) \<Rightarrow> truthy_str (x_razorpayOrderId x))
     then retM \<lparr> or_alreadyPaid = False, or_orderId = x_razorpayOrderId (snd (the existing)),
                 or_amount = Some (x_amount (snd (the existing))) \<rparr>
     else
       (let amount = DEFAULT_SAFETY_DEPOSIT_PAISE W in
        bindM (readM (\<lambda>s. ''draft_trip_dep_'' @ usr @ ''_'' @ int_str (clock s))) (\<lambda>rcpt.
        bindM (createStandaloneOrder W amount None (Some rcpt)) (\<lambda>order.
        thenM (modM (\<lambda>s. create_transaction W
            ((with_order (so_orderId order) (new_transaction usr None SafetyDeposit amount TxInitiated
                ''draft_trip_deposit'' (clock s)))\<lparr>x_currency := so_currency order\<rparr>) s))
        (retM \<lparr> or_alreadyPaid = False, or_orderId = Some (so_orderId order),
                or_amount = Some (so_amount order) \<rparr>)))))"

definition confirmDeposit :: "world \<Rightarrow> oid \<Rightarrow> oid \<Rightarrow> string \<Rightarrow> string \<Rightarrow> string \<Rightarrow> (db, confirmation) handler" where
  "confirmDeposit W usr tid orderId paymentId signature =
     bindM (confirmTripDeposit W tid usr orderId paymentId signature) (\<lambda>result.
     thenM (matchTripAgainstPendingRequests W tid) (retM result))"

section \<open>queues/reminderQueue\<close>

definition reminder_job :: "world \<Rightarrow> string \<Rightarrow> oid \<Rightarrow> db \<Rightarrow> db" where
  "reminder_job W name tid s =
     (case findById (trips s) tid of
        None \<Rightarrow> s
      | Some t \<Rightarrow>
          if name = ''trip-two-hour-reminder''
          then notifyUser W \<lparr> np_userId = t_carrier t, np_title = ''Trip Reminder'',
                 np_body = ''Your trip starts in 2 hours. Prepare pickup coordination.'',
                 np_type = ''reminder'', np_metadata = Some (trip_id_json tid) \<rparr> s
          else if name = ''trip-thirty-min-reminder''
          then fold (\<lambda>(rid, r). notifyUser W \<lparr> np_userId = r_sender r, np_title = ''Payment Pending'',
                 np_body = ''Trip departure is soon. Complete payment to avoid cancellation.'',
                 np_type = ''reminder'',
                 np_metadata = Some (JObj [(''tripId'', JStr tid), (''requestId'', JStr rid)]) \<rparr>)
               (findAll (\<lambda>r. (case r_match r of None \<Rightarrow> False | Some m \<Rightarrow> m \<in> set (t_matches t)) \<and>
                             r_paymentStatus r = Unpaid) (requests s)) s
          else s)"

section \<open>Facts about listings\<close>

lemma page_concat:
  assumes "0 < limit"
  shows "concat (map (\<lambda>p. page_of p limit xs) [1..<Suc n]) = take (n * limit) xs"
proof (induction n)
  case 0
  then show ?case by simp
next
  case (Suc n)
  have "[1..<Suc (Suc n)] = [1..<Suc n] @ [Suc n]" by simp
  then have "concat (map (\<lambda>p. page_of p limit xs) [1..<Suc (Suc n)]) =
      take (n * limit) xs @ page_of (Suc n) limit xs"
    by (simp only: map_append concat_append Suc.IH) simp
  also have "\<dots> = take (n * limit + limit) xs" by (simp add: page_of_def take_add)
  finally show ?case by (simp add: add.commute)
qed

lemma total_pages_cover: "0 < limit \<Longrightarrow> n \<le> total_pages n limit * limit"
proof -
  assume l: "0 < limit"
  have "n + limit - 1 = total_pages n limit * limit + (n + limit - 1) mod limit"
    unfolding total_pages_def by (simp add: mult.commute)
  moreover have "(n + limit - 1) mod limit \<le> limit - 1"
    using mod_less_divisor [OF l, of "n + limit - 1"] by linarith
  ultimately show ?thesis using l by linarith
qed

lemma pages_partition:
  "0 < limit \<Longrightarrow> concat (map (\<lambda>p. page_of p limit xs) [1..<Suc (total_pages (length xs) limit)]) = xs"
  by (simp only: page_concat total_pages_cover take_all)

lemma matching_trips_length: "length (matching_trips tz f s) = countDocuments (trip_query tz f) (trips s)"
  by (simp add: matching_trips_def countDocuments_def)

lemma hide_ticket_hidden:
  "t_transportDetails (hide_ticket t) = Some d \<Longrightarrow> td_pnr d = None \<and> td_seatNumber d = None"
  by (auto simp: hide_ticket_def)

lemma startOfDay_le: "startOfDay tz d \<le> d \<and> d \<le> endOfDay tz d"
proof -
  have "0 \<le> (d + tz) mod 86400000" "(d + tz) mod 86400000 < 86400000" by simp_all
  then show ?thesis by (simp add: startOfDay_def endOfDay_def)
qed

section \<open>Facts about edits and cancellations\<close>

lemma updateTrip_guarded:
  assumes "updateTrip W usr tid u body s = (Inr t', s')"
  obtains t where "findById (trips s) tid = Some t" "t_carrier t = usr" "t' = apply_update u t"
    "\<not> existsDoc (\<lambda>m. m_trip m = tid \<and> blocking_status (m_status m)) (matches s)"
    "trips s' = saveDoc tid t' (trips s)"
  using assms by (auto simp: updateTrip_def run_simps Let_def split: option.splits if_splits)

lemma apply_update_protected:
  "t_status (apply_update u t) = t_status t" "t_carrier (apply_update u t) = t_carrier t"
  "t_safetyDepositPaid (apply_update u t) = t_safetyDepositPaid t"
  "t_safetyDepositAmount (apply_update u t) = t_safetyDepositAmount t"
  "t_matches (apply_update u t) = t_matches t"
  by (simp_all add: apply_update_def)

lemma cancelTrip_refused:
  assumes "findById (trips s) tid = Some t" "t_status t \<noteq> TripCancelled"
    and "existsDoc (\<lambda>m. m_trip m = tid \<and> custody_status (m_status m)) (matches s)"
  shows "snd (cancelTrip W usr tid s) = s"
  using assms by (simp add: cancelTrip_def run_simps)

text \<open>What a cancellation does, whatever the trip's status before it.\<close>

lemma cancelTrip_effect:
  assumes "findById (trips s) tid = Some t" "t_carrier t = usr" "t_status t \<noteq> TripCancelled"
    and "\<not> existsDoc (\<lambda>m. m_trip m = tid \<and> custody_status (m_status m)) (matches s)"
    and "findById (users s) usr = Some u"
  shows "\<exists>s'. cancelTrip W usr tid s = (Inr (t\<lparr>t_status := TripCancelled\<rparr>), s') \<and>
     findById (trips s') tid = Some (t\<lparr>t_status := TripCancelled\<rparr>) \<and>
     findById (users s') usr = Some
       (if t_safetyDepositPaid t \<and> truthy_num (t_safetyDepositAmount t)
        then refund_wallet (the (t_safetyDepositAmount t)) u else u)"
  using assms by (simp add: cancelTrip_def run_simps)

lemma cancelTrip_idempotent:
  assumes "cancelTrip W usr tid s = (Inr t', s')"
  shows "cancelTrip W usr tid s' = (Inr t', s')"
proof -
  obtain t where t: "findById (trips s) tid = Some t" "t_carrier t = usr"
    using assms by (auto simp: cancelTrip_def run_simps split: option.splits if_splits)
  have "findById (trips s') tid = Some t'" "t_status t' = TripCancelled" "t_carrier t' = usr"
    using assms t by (auto simp: cancelTrip_def run_simps split: if_splits)
  then show ?thesis by (simp add: cancelTrip_def run_simps)
qed

end
