(* ===== verification/Deliveries.thy ===== *)
theory Deliveries
  imports Trips
begin

text \<open>
  \<open>services/delivery.service.ts\<close>: delivery requests from their creation, with a quote on the
  cheapest trip of the route, to their cancellation and refund.
\<close>

section \<open>createDeliveryRequest\<close>

record request_payload =
  rp_origin :: location
  rp_destination :: location
  rp_package :: package
  rp_recipient :: recipient
  rp_window :: time_window

definition new_request :: "oid \<Rightarrow> request_payload \<Rightarrow> int \<Rightarrow> delivery_request" where
  "new_request usr p now =
     \<lparr> r_sender = usr, r_origin = rp_origin p, r_destination = rp_destination p,
       r_package = rp_package p, r_recipient = rp_recipient p, r_window = rp_window p,
       r_status = ReqPending, r_quotedPrice = None, r_platformFee = None, r_totalCharge = None,
       r_match = None, r_paymentOrderId = None, r_paymentStatus = Unpaid,
       r_expiresAt = Some (now + 24 * 60 * 60 * 1000), r_createdAt = now \<rparr>"

definition insert_request :: "world \<Rightarrow> delivery_request \<Rightarrow> (db, oid) handler" where
  "insert_request W r s =
     (Inr (newId W (draws s)), next_draw (s\<lparr>requests := requests s @ [(newId W (draws s), r)]\<rparr>))"

definition candidate_trip :: "request_payload \<Rightarrow> trip \<Rightarrow> bool" where
  "candidate_trip p t =
     (city_matches (l_city (rp_origin p)) (l_city (t_origin t)) \<and>
      city_matches (l_city (rp_destination p)) (l_city (t_destination t)) \<and>
      t_status t = TripActive \<and> t_safetyDepositPaid t \<and>
      p_weightKg (rp_package p) \<le> c_weightKg (t_availableCapacity t) \<and>
      p_category (rp_package p) \<in> set (c_allowedCategories (t_availableCapacity t)))"

definition cheapest_trip :: "request_payload \<Rightarrow> db \<Rightarrow> trip option" where
  "cheapest_trip p s =
     (case sort_key (\<lambda>q. t_pricePerKg (snd q)) (findAll (candidate_trip p) (trips s)) of
        [] \<Rightarrow> None | q # _ \<Rightarrow> Some (snd q))"

definition put_quote :: "quote \<Rightarrow> delivery_request \<Rightarrow> delivery_request" where
  "put_quote q r =
     r\<lparr>r_quotedPrice := Some (qt_carrierEarning q), r_platformFee := Some (qt_platformFee q),
       r_totalCharge := Some (qt_totalCharge q)\<rparr>"

definition request_json :: "oid \<Rightarrow> delivery_request \<Rightarrow> (string \<times> json) list" where
  "request_json rid r =
     [(''requestId'', JStr rid), (''senderId'', JStr (r_sender r)),
      (''origin'', location_json (r_origin r)), (''destination'', location_json (r_destination r)),
      (''preferredDeliveryWindow'', window_json (r_window r)), (''package'', package_json (r_package r)),
      (''status'', JStr (request_status_str (r_status r))),
      (''paymentStatus'', JStr (payment_status_str (r_paymentStatus r)))]"

text \<open>The candidate trip is not populated, so its carrier's rating is not part of the quote.\<close>

definition persistDeliveryRequest ::
  "world \<Rightarrow> oid \<Rightarrow> request_payload \<Rightarrow> (db, oid \<times> delivery_request) handler" where
  "persistDeliveryRequest W usr p =
     bindM (readM clock) (\<lambda>now.
     bindM (insert_request W (new_request usr p now)) (\<lambda>rid.
     bindM (readM (cheapest_trip p)) (\<lambda>candidate.
     let r0 = new_request usr p now;
         r = (case candidate of None \<Rightarrow> r0
              | Some t \<Rightarrow> put_quote (calculateQuote W (quote_input_of (t_pricePerKg t) None
                           (r_package r0) (Some (r_window r0)))) r0)
     in thenM (whenM (candidate \<noteq> None) (modM (save_request rid r)))
        (thenM (modM (appendOutboxEvents W
           [event_input topic_delivery delivery_requested ''delivery_request'' rid
              (JObj (request_json rid r @
                 [(''totalCharge'', if truthy_num (r_totalCharge r) then JInt (the (r_totalCharge r))
                                    else JNull)]))]))
        (retM (rid, r))))))"

definition createDeliveryRequest ::
  "world \<Rightarrow> oid \<Rightarrow> request_payload \<Rightarrow> (db, oid \<times> delivery_request) handler" where
  "createDeliveryRequest W usr p = runInTransaction W (persistDeliveryRequest W usr p)"

section \<open>Reading\<close>

definition by_creation :: "(oid \<times> delivery_request) list \<Rightarrow> (oid \<times> delivery_request) list" where
  "by_creation = sort_key (\<lambda>p. - r_createdAt (snd p))"

definition listAllRequests :: "db \<Rightarrow> (oid \<times> delivery_request) list" where
  "listAllRequests s = by_creation (requests s)"

definition listMyRequests :: "oid \<Rightarrow> db \<Rightarrow> (oid \<times> delivery_request) list" where
  "listMyRequests usr s = by_creation (findAll (\<lambda>r. r_sender r = usr) (requests s))"

definition own_request :: "oid \<Rightarrow> oid \<Rightarrow> (db, delivery_request) handler" where
  "own_request usr rid =
     bindM (requireM (\<lambda>s. findById (requests s) rid) (ApiError 404 ''Delivery request not found'')) (\<lambda>r.
     thenM (unlessM (r_sender r = usr) (ApiError 403 ''Forbidden'')) (retM r))"

definition getRequestById :: "oid \<Rightarrow> oid \<Rightarrow> (db, delivery_request) handler" where
  "getRequestById usr rid = own_request usr rid"

section \<open>updateRequest\<close>

record request_update =
  ru_origin :: "location option"
  ru_destination :: "location option"
  ru_package :: "package option"
  ru_recipient :: "recipient option"
  ru_window :: "time_window option"

definition apply_request_update :: "request_update \<Rightarrow> delivery_request \<Rightarrow> delivery_request" where
  "apply_request_update u r =
     r\<lparr>r_origin := opt_or (ru_origin u) (r_origin r),
       r_destination := opt_or (ru_destination u) (r_destination r),
       r_package := opt_or (ru_package u) (r_package r),
       r_recipient := opt_or (ru_recipient u) (r_recipient r),
       r_window := opt_or (ru_window u) (r_window r)\<rparr>"

definition updateRequest :: "world \<Rightarrow> oid \<Rightarrow> oid \<Rightarrow> request_update \<Rightarrow> json \<Rightarrow> (db, delivery_request) handler" where
  "updateRequest W usr rid u body =
     bindM (own_request usr rid) (\<lambda>r.
     thenM (unlessM (r_status r = ReqPending)
              (ApiError 400 ''Only pending delivery requests can be updated''))
     (let r' = apply_request_update u r in
      thenM (modM (save_request rid r'))
      (thenM (modM (appendOutboxEvents W
         [event_input topic_delivery delivery_updated ''delivery_request'' rid
            (JObj (request_json rid r' @ [(''updates'', body)]))]))
      (retM r'))))"

section \<open>cancelRequest\<close>

definition cancellable_status :: "match_status \<Rightarrow> bool" where
  "cancellable_status st = (st \<in> {Proposed, CarrierAccepted, SenderConfirmed, Active, PickupPending})"

definition cancel_match_of :: "oid \<Rightarrow> int \<Rightarrow> match_doc \<Rightarrow> match_doc" where
  "cancel_match_of sender now m =
     m\<lparr>m_status := Cancelled,
       m_timeline := m_timeline m @ [\<lparr> te_event = EvCancelled, te_timestamp = now,
          te_actor = Some sender, te_metadata = JObj [(''reason'', JStr ''delivery_cancelled'')] \<rparr>]\<rparr>"

definition cancel_matches :: "oid \<Rightarrow> oid \<Rightarrow> db \<Rightarrow> db" where
  "cancel_matches rid sender s =
     s\<lparr>matches := updateMany (\<lambda>m. m_deliveryRequest m = rid \<and> cancellable_status (m_status m))
                    (cancel_match_of sender (clock s)) (matches s)\<rparr>"

definition cancelRequest :: "world \<Rightarrow> oid \<Rightarrow> oid \<Rightarrow> (db, delivery_request) handler" where
  "cancelRequest W usr rid =
     bindM (own_request usr rid) (\<lambda>r.
     if r_status r = ReqCancelled then retM r
     else
       (let refund = (r_paymentStatus r = Paid \<and> truthy_num (r_totalCharge r));
            r' = (r\<lparr>r_status := ReqCancelled,
                    r_paymentStatus := if refund then Refunded else r_paymentStatus r\<rparr>)
        in thenM (whenM refund (modM (update_user usr (refund_wallet (the (r_totalCharge r))))))
           (thenM (modM (save_request rid r'))
           (thenM (modM (cancel_matches rid (r_sender r)))
           (thenM (modM (appendOutboxEvents W
              [event_input topic_delivery delivery_cancelled ''delivery_request'' rid
                 (JObj (request_json rid r'))]))
           (retM r'))))))"

section \<open>Payments and matches\<close>

definition createDeliveryPaymentOrder :: "world \<Rightarrow> oid \<Rightarrow> oid \<Rightarrow> (db, order_result) handler" where
  "createDeliveryPaymentOrder W usr rid = createDeliveryOrder W rid usr"

definition confirmDeliveryPay ::
  "world \<Rightarrow> oid \<Rightarrow> oid \<Rightarrow> string \<Rightarrow> string \<Rightarrow> string \<Rightarrow> (db, confirmation) handler" where
  "confirmDeliveryPay W usr rid orderId paymentId signature =
     confirmDeliveryPayment W rid usr orderId paymentId signature"

definition matches_of :: "oid \<Rightarrow> db \<Rightarrow> (oid \<times> match_doc) list" where
  "matches_of rid s = findAll (\<lambda>m. m_deliveryRequest m = rid) (matches s)"

definition getRequestMatches :: "world \<Rightarrow> oid \<Rightarrow> oid \<Rightarrow> (db, (oid \<times> match_doc) list) handler" where
  "getRequestMatches W usr rid =
     thenM (own_request usr rid)
     (bindM (readM (matches_of rid)) (\<lambda>ms.
      if ms = [] then thenM (findMatches W rid) (readM (matches_of rid)) else retM ms))"

section \<open>Facts\<close>

lemma cheapest_trip_Some:
  assumes "cheapest_trip p s = Some t"
  obtains k where "(k, t) \<in> set (trips s)" "candidate_trip p t"
    "\<And>j u. (j, u) \<in> set (trips s) \<Longrightarrow> candidate_trip p u \<Longrightarrow> t_pricePerKg t \<le> t_pricePerKg u"
proof -
  let ?l = "sort_key (\<lambda>q. t_pricePerKg (snd q)) (findAll (candidate_trip p) (trips s))"
  obtain k ps where l: "?l = (k, t) # ps"
    using assms by (auto simp: cheapest_trip_def split: list.splits)
  then have "(k, t) \<in> set ?l" by simp
  then have m: "(k, t) \<in> set (trips s)" "candidate_trip p t" by (auto simp: set_findAll)
  have "sorted (map (\<lambda>q. t_pricePerKg (snd q)) ?l)" by simp
  then have le: "\<forall>q \<in> set ps. t_pricePerKg t \<le> t_pricePerKg (snd q)" unfolding l by simp
  have "t_pricePerKg t \<le> t_pricePerKg u" if "(j, u) \<in> set (trips s)" "candidate_trip p u" for j u
  proof -
    from that have "(j, u) \<in> set ?l" by (simp add: set_findAll)
    with le show ?thesis unfolding l by auto
  qed
  with m show thesis by (rule that)
qed

text \<open>A created request is pending and unpaid, and is quoted exactly if a trip fits.\<close>

lemma createDeliveryRequest_result:
  assumes "createDeliveryRequest W usr p s = (Inr (rid, r), s')"
  shows "r_status r = ReqPending \<and> r_paymentStatus r = Unpaid \<and> r_sender r = usr \<and>
     r_package r = rp_package p \<and>
     (r_totalCharge r = None \<longleftrightarrow> r_quotedPrice r = None) \<and>
     (\<forall>n. r_totalCharge r = Some n \<longrightarrow>
        (\<exists>e f. r_quotedPrice r = Some e \<and> r_platformFee r = Some f \<and> n = e + f \<and> 5900 \<le> e))"
proof -
  obtain t where "persistDeliveryRequest W usr p t = (Inr (rid, r), s')"
    using runInTransaction_result assms unfolding createDeliveryRequest_def by metis
  then have "r = new_request usr p (clock t) \<or>
      (\<exists>u. r = put_quote (calculateQuote W u) (new_request usr p (clock t)))"
    by (auto simp: persistDeliveryRequest_def insert_request_def run_simps Let_def split: option.splits)
  then show ?thesis
    by (auto simp: new_request_def put_quote_def quote_total quote_earning_pos)
qed

lemma cancel_matches_frames [simp]:
  "users (cancel_matches rid u s) = users s" "requests (cancel_matches rid u s) = requests s"
  "trips (cancel_matches rid u s) = trips s" "transactions (cancel_matches rid u s) = transactions s"
  "redis (cancel_matches rid u s) = redis s" "clock (cancel_matches rid u s) = clock s"
  by (simp_all add: cancel_matches_def)

lemma cancel_matches_done:
  assumes "findById (matches (cancel_matches rid u s)) k = Some m" "m_deliveryRequest m = rid"
  shows "\<not> cancellable_status (m_status m)"
proof -
  obtain m0 where m0: "findById (matches s) k = Some m0"
    and m: "m = (if m_deliveryRequest m0 = rid \<and> cancellable_status (m_status m0)
                 then cancel_match_of u (clock s) m0 else m0)"
    using assms(1) by (auto simp: cancel_matches_def)
  have "\<not> cancellable_status Cancelled" by (simp add: cancellable_status_def)
  with m assms(2) show ?thesis by (auto simp: cancel_match_of_def split: if_splits)
qed

text \<open>A first cancellation: the request, the wallet and the matches.\<close>

definition cancelled_request :: "delivery_request \<Rightarrow> delivery_request" where
  "cancelled_request r =
     r\<lparr>r_status := ReqCancelled,
       r_paymentStatus := if r_paymentStatus r = Paid \<and> truthy_num (r_totalCharge r)
         then Refunded else r_paymentStatus r\<rparr>"

lemma cancelRequest_effect:
  assumes "findById (requests s) rid = Some r" "r_sender r = usr" "r_status r \<noteq> ReqCancelled"
    and "findById (users s) usr = Some u"
  shows "\<exists>s'. cancelRequest W usr rid s = (Inr (cancelled_request r), s') \<and>
     findById (requests s') rid = Some (cancelled_request r) \<and>
     findById (users s') usr = Some
       (if r_paymentStatus r = Paid \<and> truthy_num (r_totalCharge r)
        then refund_wallet (the (r_totalCharge r)) u else u) \<and>
     (\<forall>k m. findById (matches s') k = Some m \<longrightarrow> m_deliveryRequest m = rid \<longrightarrow>
        \<not> cancellable_status (m_status m))"
proof -
  let ?refund = "r_paymentStatus r = Paid \<and> truthy_num (r_totalCharge r)"
  let ?s1 = "if ?refund then update_user usr (refund_wallet (the (r_totalCharge r))) s else s"
  let ?s2 = "cancel_matches rid usr (save_request rid (cancelled_request r) ?s1)"
  let ?s3 = "appendOutboxEvents W [event_input topic_delivery delivery_cancelled ''delivery_request'' rid
                 (JObj (request_json rid (cancelled_request r)))] ?s2"
  have "cancelRequest W usr rid s = (Inr (cancelled_request r), ?s3)"
    using assms(1-3)
    by (simp add: cancelRequest_def own_request_def run_simps Let_def cancelled_request_def)
  moreover have "matches ?s3 = matches ?s2" by simp
  ultimately show ?thesis
    using assms(4) cancel_matches_done [of rid usr] by (intro exI [of _ ?s3]) auto
qed

text \<open>A cancellation is refunded once.\<close>

lemma cancelRequest_idempotent:
  assumes "cancelRequest W usr rid s = (Inr r', s')"
  shows "cancelRequest W usr rid s' = (Inr r', s')"
proof -
  obtain r where r: "findById (requests s) rid = Some r" "r_sender r = usr"
    using assms by (auto simp: cancelRequest_def own_request_def run_simps split: option.splits if_splits)
  have "findById (requests s') rid = Some r'" "r_status r' = ReqCancelled" "r_sender r' = usr"
    using assms r by (auto simp: cancelRequest_def own_request_def run_simps Let_def split: if_splits)
  then show ?thesis by (simp add: cancelRequest_def own_request_def run_simps)
qed

lemma own_request_guard:
  assumes "findById (requests s) rid = Some r" "r_sender r \<noteq> usr"
  shows "own_request usr rid s = (Inl (ApiError 403 ''Forbidden''), s)"
  using assms by (simp add: own_request_def run_simps)

end
