(* ===== verification/Otp.thy ===== *)
theory Otp
  imports Redis
begin

text \<open>
  \<open>services/otp.service.ts\<close>: six-digit one-time passwords kept in Redis as a bcrypt hash with an
  attempt counter.  The facts count, over any sequence of verifications with any pauses, how many
  of them are compared with the hash: three at most, and at most one succeeds.
\<close>

section \<open>generateOTP and verifyOTP\<close>

definition OTP_TTL_SECONDS :: int where "OTP_TTL_SECONDS = 600"
definition MAX_ATTEMPTS :: int where "MAX_ATTEMPTS = 3"

definition otp_key :: "string \<Rightarrow> string" where
  "otp_key key = ''otp:'' @ key"

definition otpKeys_phone :: "string \<Rightarrow> string" where "otpKeys_phone phone = ''phone:'' @ phone"
definition otpKeys_pickup :: "string \<Rightarrow> string" where "otpKeys_pickup mid = ''pickup:'' @ mid"
definition otpKeys_delivery :: "string \<Rightarrow> string" where "otpKeys_delivery mid = ''delivery:'' @ mid"

text \<open>\<open>crypto.randomInt(100000, 999999)\<close> excludes its upper bound.\<close>

definition generateOTP :: "world \<Rightarrow> string \<Rightarrow> (db, string) handler" where
  "generateOTP W key s =
     (let otp = int_str (randomInt W (draws s) 100000 999999);
          s1 = next_draw s;
          hash = bcryptHash W (draws s1) otp
      in (Inr otp,
          redis_setex (otp_key key) OTP_TTL_SECONDS
            (RedisOtp \<lparr> otp_hash = hash, otp_attempts = 0, otp_createdAt = clock s \<rparr>)
            (next_draw s1)))"

definition invalid_otp :: "int \<Rightarrow> js_error" where
  "invalid_otp attempts =
     ApiError 400 (''Invalid OTP. '' @ int_str (MAX_ATTEMPTS - attempts - 1) @ '' attempts left'')"

definition verifyOTP :: "world \<Rightarrow> string \<Rightarrow> string \<Rightarrow> (db, bool) handler" where
  "verifyOTP W key inputOtp s =
     (case redis_get (otp_key key) s of
        None \<Rightarrow> (Inl (ApiError 400 ''OTP expired or not found''), s)
      | Some (RedisString _) \<Rightarrow> (Inl (LibError ''JSON.parse''), s)
      | Some (RedisOtp r) \<Rightarrow>
          if MAX_ATTEMPTS \<le> otp_attempts r
          then (Inl (ApiError 429 ''Too many attempts. Request new OTP''), s)
          else
            (let s1 = redis_setex (otp_key key) OTP_TTL_SECONDS
                   (RedisOtp \<lparr> otp_hash = otp_hash r, otp_attempts = otp_attempts r + 1,
                               otp_createdAt = clock s \<rparr>) s
             in if \<not> bcryptCompare W inputOtp (otp_hash r)
                then (Inl (invalid_otp (otp_attempts r)), s1)
                else (Inr True, redis_del (otp_key key) s1)))"

section \<open>The attempt budget\<close>

text \<open>How many comparisons the stored record still allows.\<close>

definition otp_budget :: "string \<Rightarrow> db \<Rightarrow> nat" where
  "otp_budget key s =
     (case redis_get (otp_key key) s of
        Some (RedisOtp r) \<Rightarrow> nat (MAX_ATTEMPTS - otp_attempts r) | _ \<Rightarrow> 0)"

text \<open>A result that reveals a comparison: success, or the \<open>Invalid OTP\<close> error.\<close>

definition compared :: "js_error + bool \<Rightarrow> bool" where
  "compared r = (case r of Inr _ \<Rightarrow> True | Inl e \<Rightarrow> \<exists>n. e = invalid_otp n)"

lemma otp_key_inj [simp]: "otp_key a = otp_key b \<longleftrightarrow> a = b"
  by (simp add: otp_key_def)

lemma otp_ttl_pos [simp]: "0 < OTP_TTL_SECONDS"
  by (simp add: OTP_TTL_SECONDS_def)

lemma compared_simps [simp]:
  "compared (Inr b)" "compared (Inl (invalid_otp n))"
  "\<not> compared (Inl (ApiError 400 ''OTP expired or not found''))"
  "\<not> compared (Inl (LibError e))"
  "\<not> compared (Inl (ApiError 429 m))"
  by (auto simp: compared_def invalid_otp_def)

lemma generateOTP_record:
  assumes "generateOTP W key s = (r, s')"
  shows "r = Inr (int_str (randomInt W (draws s) 100000 999999))"
    and "redis_get (otp_key k) s' =
      (if k = key then Some (RedisOtp \<lparr> otp_hash =
           bcryptHash W (Suc (draws s)) (int_str (randomInt W (draws s) 100000 999999)),
           otp_attempts = 0, otp_createdAt = clock s \<rparr>)
       else redis_get (otp_key k) s)"
  using assms by (auto simp: generateOTP_def Let_def redis_get_setex)

lemma generateOTP_budget: "generateOTP W key s = (r, s') \<Longrightarrow> otp_budget key s' = 3"
  by (frule generateOTP_record(2) [of _ _ _ _ _ key]) (simp add: otp_budget_def MAX_ATTEMPTS_def)

text \<open>The three outcomes of a verification.\<close>

lemma verifyOTP_cases:
  assumes "verifyOTP W key inp s = (r, s')"
  obtains
    (refused) e where "r = Inl e" "\<not> compared r" "s' = s"
  | (wrong) d where "r = Inl (invalid_otp (otp_attempts d))" "redis_get (otp_key key) s = Some (RedisOtp d)"
      "otp_attempts d < MAX_ATTEMPTS" "\<not> bcryptCompare W inp (otp_hash d)"
      "redis_get (otp_key key) s' = Some (RedisOtp \<lparr> otp_hash = otp_hash d,
         otp_attempts = otp_attempts d + 1, otp_createdAt = clock s \<rparr>)"
  | (right) d where "r = Inr True" "redis_get (otp_key key) s = Some (RedisOtp d)"
      "otp_attempts d < MAX_ATTEMPTS" "bcryptCompare W inp (otp_hash d)"
      "redis_get (otp_key key) s' = None"
proof (cases "redis_get (otp_key key) s")
  case None
  with assms show ?thesis by (intro refused) (auto simp: verifyOTP_def)
next
  case (Some v)
  show ?thesis
  proof (cases v)
    case (RedisString x)
    with Some assms show ?thesis by (intro refused) (auto simp: verifyOTP_def)
  next
    case (RedisOtp d)
    show ?thesis
    proof (cases "MAX_ATTEMPTS \<le> otp_attempts d")
      case True
      with Some RedisOtp assms show ?thesis by (intro refused) (auto simp: verifyOTP_def)
    next
      case lt: False
      show ?thesis
      proof (cases "bcryptCompare W inp (otp_hash d)")
        case True
        with Some RedisOtp lt assms show ?thesis
          by (intro right [of d]) (auto simp: verifyOTP_def Let_def)
      next
        case False
        with Some RedisOtp lt assms show ?thesis
          by (intro wrong [of d]) (auto simp: verifyOTP_def Let_def redis_get_setex)
      qed
    qed
  qed
qed

lemma verifyOTP_budget:
  assumes "verifyOTP W key inp s = (r, s')"
  shows "otp_budget key s' + (if compared r then 1 else 0) \<le> otp_budget key s"
  using assms by (cases rule: verifyOTP_cases) (auto simp: otp_budget_def)

lemma verifyOTP_success:
  assumes "verifyOTP W key inp s = (Inr b, s')"
  shows "otp_budget key s' = 0"
  using assms by (cases rule: verifyOTP_cases) (auto simp: otp_budget_def)

lemma otp_budget_wait:
  assumes "clock s \<le> c"
  shows "otp_budget key (s\<lparr>clock := c\<rparr>) \<le> otp_budget key s"
proof (cases "redis_get (otp_key key) (s\<lparr>clock := c\<rparr>)")
  case None
  then show ?thesis by (simp add: otp_budget_def)
next
  case (Some v)
  from redis_get_later [OF this assms] Some show ?thesis by (simp add: otp_budget_def)
qed

text \<open>A run: each verification waits some time first.\<close>

primrec verify_run :: "world \<Rightarrow> string \<Rightarrow> (nat \<times> string) list \<Rightarrow> db \<Rightarrow> (js_error + bool) list \<times> db" where
  "verify_run W key [] s = ([], s)"
| "verify_run W key (a # as) s =
     (let (r, s1) = verifyOTP W key (snd a) (s\<lparr>clock := clock s + int (fst a)\<rparr>);
          (rs, s2) = verify_run W key as s1
      in (r # rs, s2))"

lemma verify_run_budget:
  "verify_run W key as s = (rs, s') \<Longrightarrow>
     length (filter compared rs) + otp_budget key s' \<le> otp_budget key s"
proof (induction as arbitrary: s rs s')
  case Nil
  then show ?case by simp
next
  case (Cons a as)
  let ?s0 = "s\<lparr>clock := clock s + int (fst a)\<rparr>"
  obtain r s1 where v: "verifyOTP W key (snd a) ?s0 = (r, s1)" by fastforce
  obtain rs1 s2 where run: "verify_run W key as s1 = (rs1, s2)" by fastforce
  have eq: "rs = r # rs1" "s' = s2" using Cons.prems v run by auto
  have "otp_budget key ?s0 \<le> otp_budget key s" by (rule otp_budget_wait) simp
  with verifyOTP_budget [OF v] Cons.IH [OF run] show ?case by (auto simp: eq split: if_splits)
qed

text \<open>After a success nothing is compared any more, so a password is used once.\<close>

lemma verify_run_after_zero:
  "verify_run W key as s = (rs, s') \<Longrightarrow> otp_budget key s = 0 \<Longrightarrow> \<forall>r \<in> set rs. \<not> compared r"
  using verify_run_budget [of W key as s rs s'] by (auto simp: filter_empty_conv)

lemma verify_run_single_use:
  "verify_run W key as s = (rs, s') \<Longrightarrow> length (filter (\<lambda>r. \<exists>b. r = Inr b) rs) \<le> 1"
proof (induction as arbitrary: s rs s')
  case Nil
  then show ?case by simp
next
  case (Cons a as)
  obtain r s1 where v: "verifyOTP W key (snd a) (s\<lparr>clock := clock s + int (fst a)\<rparr>) = (r, s1)"
    by fastforce
  obtain rs1 s2 where run: "verify_run W key as s1 = (rs1, s2)" by fastforce
  have eq: "rs = r # rs1" using Cons.prems v run by auto
  show ?case
  proof (cases "\<exists>b. r = Inr b")
    case True
    then have "otp_budget key s1 = 0" using verifyOTP_success v by blast
    from verify_run_after_zero [OF run this] have "filter (\<lambda>r. \<exists>b. r = Inr b) rs1 = []"
      by (auto simp: filter_empty_conv)
    with True show ?thesis by (simp add: eq)
  next
    case False
    with Cons.IH [OF run] show ?thesis by (simp add: eq)
  qed
qed

text \<open>What the business handlers need: the OTP service touches only Redis.\<close>

lemma generateOTP_frame [simp]:
  "users (snd (generateOTP W key s)) = users s" "trips (snd (generateOTP W key s)) = trips s"
  "requests (snd (generateOTP W key s)) = requests s"
  "matches (snd (generateOTP W key s)) = matches s"
  "transactions (snd (generateOTP W key s)) = transactions s"
  "outbox (snd (generateOTP W key s)) = outbox s"
  "jobs (snd (generateOTP W key s)) = jobs s"
  "clock (snd (generateOTP W key s)) = clock s"
  by (simp_all add: generateOTP_def Let_def next_draw_def)

lemma verifyOTP_frame [simp]:
  "users (snd (verifyOTP W key i s)) = users s" "trips (snd (verifyOTP W key i s)) = trips s"
  "requests (snd (verifyOTP W key i s)) = requests s"
  "matches (snd (verifyOTP W key i s)) = matches s"
  "transactions (snd (verifyOTP W key i s)) = transactions s"
  "outbox (snd (verifyOTP W key i s)) = outbox s"
  "jobs (snd (verifyOTP W key i s)) = jobs s"
  "clock (snd (verifyOTP W key i s)) = clock s"
  by (simp_all add: verifyOTP_def Let_def split: option.splits redis_value.splits)

end
