(* ===== verification/Auth.thy ===== *)
theory Auth
  imports Users Otp
begin

text \<open>
  \<open>services/auth.service.ts\<close>, \<open>services/googleAuth.service.ts\<close> and \<open>middleware/auth.middleware.ts\<close>:
  logging in with a one-time password, registration, demo and Google logins, the rotation and
  revocation of refresh tokens, and the check of the access token and of the role.  JSON Web
  Tokens, bcrypt and the Google verification are parameters.
\<close>

section \<open>Tokens\<close>

fun role_str :: "role \<Rightarrow> string" where
  "role_str SenderRole = ''sender''"
| "role_str CarrierRole = ''carrier''"
| "role_str AdminRole = ''admin''"

definition token_payload :: "oid \<Rightarrow> user \<Rightarrow> json" where
  "token_payload usr u =
     JObj [(''id'', JStr usr), (''phone'', JStr (u_phone u)),
           (''roles'', JArr (map (JStr \<circ> role_str) (u_role u)))]"

text \<open>What \<open>sanitizeUser\<close> keeps of a user.\<close>

record session_user =
  su_id :: oid
  su_name :: string
  su_email :: string
  su_phone :: string
  su_phoneVerified :: bool
  su_emailVerified :: bool
  su_role :: "role list"
  su_rating :: "rat \<times> int"
  su_wallet :: "int \<times> int"
  su_profilePhoto :: "string option"
  su_totalDeliveries :: int
  su_totalTripsAsCarrier :: int

definition sanitizeUser :: "oid \<Rightarrow> user \<Rightarrow> session_user" where
  "sanitizeUser usr u =
     \<lparr> su_id = usr, su_name = u_name u, su_email = u_email u, su_phone = u_phone u,
       su_phoneVerified = u_phoneVerified u, su_emailVerified = u_emailVerified u,
       su_role = u_role u, su_rating = (u_ratingAverage u, u_ratingCount u),
       su_wallet = (u_balance u, u_escrowHeld u), su_profilePhoto = u_profilePhoto u,
       su_totalDeliveries = u_totalDeliveries u, su_totalTripsAsCarrier = u_totalTripsAsCarrier u \<rparr>"

record tokens =
  tk_accessToken :: string
  tk_refreshToken :: string
  tk_user :: session_user

definition issueTokens :: "world \<Rightarrow> oid \<Rightarrow> (db, tokens) handler" where
  "issueTokens W usr s =
     (case findById (users s) usr of
        None \<Rightarrow> (Inl user_missing, s)
      | Some u \<Rightarrow>
          (let payload = token_payload usr u;
               accessToken = jwtSign W (clock s) (JWT_ACCESS_SECRET W) payload;
               refreshToken = jwtSign W (clock s) (JWT_REFRESH_SECRET W) payload;
               u' = u\<lparr>u_refreshTokenHash := Some (bcryptHash W (draws s) refreshToken)\<rparr>
           in (Inr \<lparr> tk_accessToken = accessToken, tk_refreshToken = refreshToken,
                     tk_user = sanitizeUser usr u' \<rparr>,
               save_user usr u' (next_draw s))))"

section \<open>Creating users\<close>

text \<open>
  The schema trims the name and lower-cases the email, refuses an empty required field, and has
  unique indexes on the email and on the phone.
\<close>

definition contact_taken :: "string \<Rightarrow> string \<Rightarrow> user \<Rightarrow> bool" where
  "contact_taken email phone u = (u_email u = email \<or> u_phone u = phone)"

definition create_user :: "world \<Rightarrow> user \<Rightarrow> (db, oid \<times> user) handler" where
  "create_user W v s =
     (let u = v\<lparr>u_name := trim (u_name v), u_email := toLowerCase (u_email v)\<rparr>
      in if u_name u = [] \<or> u_email u = [] \<or> u_phone u = []
         then (Inl (LibError ''ValidationError''), s)
         else if existsDoc (contact_taken (u_email u) (u_phone u)) (users s)
         then (Inl email_taken, s)
         else (Inr (newId W (draws s), u),
               next_draw (s\<lparr>users := users s @ [(newId W (draws s), u)]\<rparr>)))"

section \<open>One-time passwords\<close>

definition sendSmsOTP :: "world \<Rightarrow> string \<Rightarrow> string \<Rightarrow> (db, unit) handler" where
  "sendSmsOTP W phone otp =
     (if truthy_str (MSG91_AUTH_KEY W) \<and> truthy_str (MSG91_TEMPLATE_ID W)
      then case msg91Post W phone otp of None \<Rightarrow> retM () | Some e \<Rightarrow> throwM e
      else retM ())"

definition sendOtp :: "world \<Rightarrow> string \<Rightarrow> (db, unit) handler" where
  "sendOtp W phone =
     bindM (generateOTP W (otpKeys_phone phone)) (\<lambda>otp. sendSmsOTP W phone otp)"

definition verifyOtpLogin :: "world \<Rightarrow> string \<Rightarrow> string \<Rightarrow> (db, tokens) handler" where
  "verifyOtpLogin W phone otp =
     bindM (verifyOTP W (otpKeys_phone phone) otp) (\<lambda>_.
     bindM (requireM (\<lambda>s. findOne (\<lambda>u. u_phone u = phone \<and> u_isActive u) (users s))
        (ApiError 404 ''User not found. Please register.'')) (\<lambda>(k, u).
     issueTokens W k))"

definition registered_user :: "string \<Rightarrow> string \<Rightarrow> string \<Rightarrow> int \<Rightarrow> user" where
  "registered_user name email phone now =
     (new_user name email phone [SenderRole] now)\<lparr>u_phoneVerified := True\<rparr>"

definition registerUser :: "world \<Rightarrow> string \<Rightarrow> string \<Rightarrow> string \<Rightarrow> string \<Rightarrow> (db, tokens) handler" where
  "registerUser W name email phone otp =
     bindM (verifyOTP W (otpKeys_phone phone) otp) (\<lambda>_.
     bindM (readM (\<lambda>s. existsDoc (contact_taken (toLowerCase email) phone) (users s))) (\<lambda>existing.
     thenM (unlessM (\<not> existing) (ApiError 409 ''User already exists with provided phone/email''))
     (bindM (readM clock) (\<lambda>now.
      bindM (create_user W (registered_user name email phone now)) (\<lambda>(k, u).
      issueTokens W k)))))"

section \<open>Demo logins\<close>

datatype demo_persona = DemoCarrier | DemoPriya | DemoRahul

fun demoProfiles :: "demo_persona \<Rightarrow> string \<times> string \<times> string \<times> role list" where
  "demoProfiles DemoCarrier =
     (''Arjun Rao'', ''arjun@hopdrop.demo'', ''9876500011'', [CarrierRole, SenderRole])"
| "demoProfiles DemoPriya = (''Priya Nair'', ''priya@hopdrop.demo'', ''9876500022'', [SenderRole])"
| "demoProfiles DemoRahul = (''Rahul Mehta'', ''rahul@hopdrop.demo'', ''9876500033'', [SenderRole])"

text \<open>\<open>Array.from(new Set(xs))\<close>: the first occurrence of each element.\<close>

definition dedup :: "'a list \<Rightarrow> 'a list" where
  "dedup xs = rev (remdups (rev xs))"

definition refresh_demo_user :: "role list \<Rightarrow> user \<Rightarrow> user" where
  "refresh_demo_user roles u =
     (let merged = dedup (u_role u @ roles)
      in u\<lparr>u_isActive := True, u_phoneVerified := True,
           u_role := (if length merged \<noteq> length (u_role u) then merged else u_role u)\<rparr>)"

definition ensureDemoUser :: "world \<Rightarrow> demo_persona \<Rightarrow> (db, oid) handler" where
  "ensureDemoUser W persona =
     (case demoProfiles persona of (name, email, phone, roles) \<Rightarrow>
      bindM (readM (\<lambda>s. findOne (\<lambda>u. u_phone u = phone) (users s))) (\<lambda>found.
      case found of
        None \<Rightarrow>
          bindM (readM clock) (\<lambda>now.
          bindM (create_user W ((new_user name email phone roles now)
                   \<lparr>u_phoneVerified := True, u_emailVerified := True\<rparr>)) (\<lambda>(k, u).
          retM k))
      | Some (k, u) \<Rightarrow> thenM (modM (update_user k (refresh_demo_user roles))) (retM k)))"

definition demoLogin :: "world \<Rightarrow> demo_persona option \<Rightarrow> (db, tokens) handler" where
  "demoLogin W persona =
     thenM (unlessM (DEMO_MODE W) (ApiError 403 ''Demo mode is disabled''))
     (bindM (ensureDemoUser W (case persona of None \<Rightarrow> DemoPriya | Some p \<Rightarrow> p)) (\<lambda>k.
      issueTokens W k))"

section \<open>Google logins\<close>

definition jstr_of :: "json \<Rightarrow> string option" where
  "jstr_of j = (case j of JStr t \<Rightarrow> Some t | _ \<Rightarrow> None)"

definition google_user :: "json \<Rightarrow> string \<Rightarrow> int \<Rightarrow> user" where
  "google_user payload email now =
     (new_user (case jstr_of (jget payload ''name'') of Some n \<Rightarrow> n | None \<Rightarrow> hd (split_on CHR ''@'' email))
        (toLowerCase email) (''google_'' @ js_text (jget payload ''sub'')) [SenderRole] now)
        \<lparr>u_emailVerified := True\<rparr>"

definition googleLogin :: "world \<Rightarrow> string \<Rightarrow> (db, tokens) handler" where
  "googleLogin W idToken =
     thenM (unlessM (truthy_str (GOOGLE_CLIENT_ID W)) (ApiError 503 ''Google login not configured''))
     (case verifyIdToken W idToken of
        None \<Rightarrow> throwM (ApiError 401 ''Invalid Google token'')
      | Some payload \<Rightarrow>
          thenM (unlessM (truthy (jget payload ''email'')) (ApiError 401 ''Google token missing email''))
          (let email = js_text (jget payload ''email'') in
           bindM (readM (\<lambda>s. findOne (\<lambda>u. u_email u = toLowerCase email) (users s))) (\<lambda>found.
           bindM (case found of
                    None \<Rightarrow> bindM (readM clock) (\<lambda>now.
                           bindM (create_user W (google_user payload email now)) (\<lambda>(k, u). retM k))
                  | Some (k, u) \<Rightarrow>
                      thenM (whenM (\<not> u_emailVerified u) (modM (update_user k (\<lambda>d. d\<lparr>u_emailVerified := True\<rparr>))))
                        (retM k)) (\<lambda>k.
           issueTokens W k))))"

section \<open>Refresh and logout\<close>

definition refreshAuthToken :: "world \<Rightarrow> string \<Rightarrow> (db, tokens) handler" where
  "refreshAuthToken W refreshToken s =
     (case jwtVerify W (clock s) (JWT_REFRESH_SECRET W) refreshToken of
        None \<Rightarrow> (Inl (ApiError 401 ''Invalid refresh token''), s)
      | Some payload \<Rightarrow>
          (let usr = js_text (jget payload ''id'') in
           case findById (users s) usr of
             None \<Rightarrow> (Inl (ApiError 401 ''Invalid refresh token''), s)
           | Some u \<Rightarrow>
               if \<not> truthy_str (u_refreshTokenHash u)
               then (Inl (ApiError 401 ''Invalid refresh token''), s)
               else if \<not> bcryptCompare W refreshToken (the (u_refreshTokenHash u))
               then (Inl (ApiError 401 ''Refresh token revoked''), s)
               else issueTokens W usr s))"

definition logoutUser :: "oid \<Rightarrow> (db, unit) handler" where
  "logoutUser usr = modM (update_user usr (\<lambda>u. u\<lparr>u_refreshTokenHash := None\<rparr>))"

section \<open>The access token and the role\<close>

record auth_user =
  au_id :: oid
  au_roles :: json

text \<open>The request part that the two checks read: the \<open>Authorization\<close> header.\<close>

definition bearer_token :: "string \<Rightarrow> string option" where
  "bearer_token header =
     (if startsWith header ''Bearer '' then Some (drop (length ''Bearer '') header) else None)"

definition auth_user_of :: "json \<Rightarrow> auth_user" where
  "auth_user_of p =
     \<lparr> au_id = js_text (jget p ''id''),
       au_roles = jget p ''roles'' \<rparr>"

text \<open>Every failure inside the \<open>try\<close> ends in the same error.\<close>

definition requireAuth :: "world \<Rightarrow> int \<Rightarrow> string option \<Rightarrow> js_error + auth_user" where
  "requireAuth W now authorization =
     (case authorization of
        None \<Rightarrow> Inl (ApiError 401 ''Invalid or expired token'')
      | Some header \<Rightarrow>
          (case bearer_token header of
             None \<Rightarrow> Inl (ApiError 401 ''Invalid or expired token'')
           | Some token \<Rightarrow>
               (case jwtVerify W now (JWT_ACCESS_SECRET W) token of
                  None \<Rightarrow> Inl (ApiError 401 ''Invalid or expired token'')
                | Some p \<Rightarrow> Inr (auth_user_of p))))"

text \<open>\<open>roles.includes(role)\<close>: a member of an array, a part of a string, no such method elsewhere.\<close>

definition roles_include :: "json \<Rightarrow> string \<Rightarrow> bool option" where
  "roles_include roles r =
     (case roles of JArr vs \<Rightarrow> Some (JStr r \<in> set vs) | JStr t \<Rightarrow> Some (strIncludes t r) | _ \<Rightarrow> None)"

definition requireRole :: "string \<Rightarrow> auth_user option \<Rightarrow> js_error option" where
  "requireRole r user =
     (case user of
        None \<Rightarrow> Some (ApiError 401 ''Unauthorized'')
      | Some a \<Rightarrow>
          (case (roles_include (au_roles a) r, roles_include (au_roles a) ''admin'') of
             (Some has, Some admin) \<Rightarrow> if \<not> has \<and> \<not> admin then Some (ApiError 403 ''Forbidden'') else None
           | _ \<Rightarrow> Some (LibError ''TypeError'')))"

lemmas auth_handler_defs =
  sendOtp_def verifyOtpLogin_def registerUser_def demoLogin_def googleLogin_def logoutUser_def

section \<open>Sessions\<close>

text \<open>A user has a session while a hash of a refresh token is stored.\<close>

definition has_session :: "oid \<Rightarrow> db \<Rightarrow> bool" where
  "has_session usr s =
     (case findById (users s) usr of None \<Rightarrow> False | Some u \<Rightarrow> truthy_str (u_refreshTokenHash u))"

text \<open>The two tokens a user is given at a time.\<close>

definition refresh_token_of :: "world \<Rightarrow> db \<Rightarrow> oid \<Rightarrow> user \<Rightarrow> string" where
  "refresh_token_of W s usr u = jwtSign W (clock s) (JWT_REFRESH_SECRET W) (token_payload usr u)"

lemma issueTokens_found:
  assumes "findById (users s) usr = Some u"
  shows "\<exists>tk. issueTokens W usr s = (Inr tk,
      save_user usr (u\<lparr>u_refreshTokenHash := Some (bcryptHash W (draws s) (refresh_token_of W s usr u))\<rparr>) (next_draw s))
    \<and> tk_refreshToken tk = refresh_token_of W s usr u"
  using assms by (simp add: issueTokens_def Let_def refresh_token_of_def)

lemma issueTokens_Inr:
  assumes "issueTokens W usr s = (Inr tk, s')"
  obtains u where "findById (users s) usr = Some u" "tk_refreshToken tk = refresh_token_of W s usr u"
    "s' = save_user usr (u\<lparr>u_refreshTokenHash := Some (bcryptHash W (draws s) (tk_refreshToken tk))\<rparr>) (next_draw s)"
proof (cases "findById (users s) usr")
  case None
  with assms show ?thesis by (simp add: issueTokens_def)
next
  case (Some u)
  from issueTokens_found [OF this, of W] assms Some show ?thesis by (intro that [of u]) auto
qed

lemma refresh_without_session:
  assumes "\<not> has_session (js_text (jget payload ''id'')) s"
    and "jwtVerify W (clock s) (JWT_REFRESH_SECRET W) t = Some payload"
  shows "refreshAuthToken W t s = (Inl (ApiError 401 ''Invalid refresh token''), s)"
  using assms by (auto simp: refreshAuthToken_def has_session_def split: option.splits)

lemma refresh_Inr:
  assumes "refreshAuthToken W t s = (Inr tk, s')"
  obtains payload u h where
    "jwtVerify W (clock s) (JWT_REFRESH_SECRET W) t = Some payload"
    "findById (users s) (js_text (jget payload ''id'')) = Some u"
    "u_refreshTokenHash u = Some h" "h \<noteq> []" "bcryptCompare W t h"
    "issueTokens W (js_text (jget payload ''id'')) s = (Inr tk, s')"
proof -
  obtain payload where p: "jwtVerify W (clock s) (JWT_REFRESH_SECRET W) t = Some payload"
    using assms by (auto simp: refreshAuthToken_def split: option.splits)
  then obtain u where u: "findById (users s) (js_text (jget payload ''id'')) = Some u"
    using assms by (auto simp: refreshAuthToken_def Let_def split: option.splits)
  with p assms have "truthy_str (u_refreshTokenHash u)"
    "bcryptCompare W t (the (u_refreshTokenHash u))"
    "issueTokens W (js_text (jget payload ''id'')) s = (Inr tk, s')"
    by (auto simp: refreshAuthToken_def Let_def split: if_splits)
  with p u show ?thesis by (cases "u_refreshTokenHash u") (auto intro: that)
qed

lemma logout_no_session: "\<not> has_session usr (snd (logoutUser usr s))"
  by (auto simp: logoutUser_def has_session_def split: option.splits)

lemma delete_no_session:
  assumes "deleteMyAccount usr s = (Inr (), s')"
  shows "\<not> has_session usr s'"
  using assms
  by (auto simp: deleteMyAccount_def find_user_def run_simps has_session_def deactivated_def
      split: option.splits if_splits)

section \<open>One account per email and per phone\<close>

definition unique_contacts :: "db \<Rightarrow> bool" where
  "unique_contacts s =
     (\<forall>k u k' u'. findById (users s) k = Some u \<longrightarrow> findById (users s) k' = Some u' \<longrightarrow> k \<noteq> k' \<longrightarrow>
        u_email u \<noteq> u_email u' \<and> u_phone u \<noteq> u_phone u')"

lemma unique_contactsD:
  "unique_contacts s \<Longrightarrow> findById (users s) k = Some u \<Longrightarrow> findById (users s) k' = Some u' \<Longrightarrow> k \<noteq> k' \<Longrightarrow>
     u_email u \<noteq> u_email u' \<and> u_phone u \<noteq> u_phone u'"
  by (simp add: unique_contacts_def)

lemma unique_contacts_cong: "users s = users t \<Longrightarrow> unique_contacts s = unique_contacts t"
  by (simp add: unique_contacts_def)

lemma unique_contacts_save:
  assumes "unique_contacts s" "findById (users s) k = Some u" "u_email v = u_email u" "u_phone v = u_phone u"
  shows "unique_contacts (save_user k v s)"
  using assms unfolding unique_contacts_def by (auto split: if_splits)

lemma not_taken:
  assumes "\<not> existsDoc (contact_taken e p) c" "findById c k = Some u"
  shows "u_email u \<noteq> e \<and> u_phone u \<noteq> p"
  using assms findById_in_set [OF assms(2)] by (auto simp: existsDoc_iff contact_taken_def)

lemma create_user_contacts:
  assumes "unique_contacts s"
  shows "unique_contacts (snd (create_user W v s))"
proof (cases "\<exists>r. create_user W v s = (Inr r, snd (create_user W v s))")
  case False
  then have "snd (create_user W v s) = s" by (auto simp: create_user_def Let_def)
  with assms show ?thesis by simp
next
  case True
  let ?u = "v\<lparr>u_name := trim (u_name v), u_email := toLowerCase (u_email v)\<rparr>"
  from True have free: "\<not> existsDoc (contact_taken (u_email ?u) (u_phone ?u)) (users s)"
    and us: "users (snd (create_user W v s)) = users s @ [(newId W (draws s), ?u)]"
    by (auto simp: create_user_def Let_def split: if_splits)
  show ?thesis
    unfolding unique_contacts_def us
    using assms not_taken [OF free] by (fastforce simp: unique_contacts_def split: option.splits if_splits)
qed

lemma unique_contacts_update:
  assumes "unique_contacts s" "\<And>u. u_email (f u) = u_email u \<and> u_phone (f u) = u_phone u"
  shows "unique_contacts (update_user k f s)"
  using assms unfolding unique_contacts_def by (auto split: if_splits)

lemma keeps_contacts_update [keeps_intros]:
  "(\<And>u. u_email (f u) = u_email u \<and> u_phone (f u) = u_phone u) \<Longrightarrow> keeps unique_contacts (modM (update_user k f))"
  by (rule keeps_modM) (rule unique_contacts_update)

lemma keeps_contacts_create [keeps_intros]: "keeps unique_contacts (create_user W v)"
  by (simp add: keeps_def create_user_contacts)

lemma keeps_contacts_issue [keeps_intros]: "keeps unique_contacts (issueTokens W usr)"
  by (auto simp: keeps_def issueTokens_def Let_def unique_contacts_cong [OF next_draw_frames(1)]
      intro!: unique_contacts_save split: option.splits)

lemma keeps_contacts_otp [keeps_intros]:
  "keeps unique_contacts (generateOTP W key)" "keeps unique_contacts (verifyOTP W key otp)"
  by (simp_all add: keeps_def unique_contacts_def)

lemma keeps_contacts_sms [keeps_intros]: "keeps unique_contacts (sendSmsOTP W phone otp)"
  unfolding sendSmsOTP_def by (intro keeps_intros)

text \<open>The operations of the two services.\<close>

datatype auth_op =
    SendOtp string
  | VerifyOtpLogin string string
  | Register string string string string
  | DemoLogin "demo_persona option"
  | GoogleLogin string
  | Refresh string
  | Logout oid

fun run_auth_op :: "world \<Rightarrow> auth_op \<Rightarrow> db \<Rightarrow> db" where
  "run_auth_op W (SendOtp phone) s = snd (sendOtp W phone s)"
| "run_auth_op W (VerifyOtpLogin phone otp) s = snd (verifyOtpLogin W phone otp s)"
| "run_auth_op W (Register name email phone otp) s = snd (registerUser W name email phone otp s)"
| "run_auth_op W (DemoLogin p) s = snd (demoLogin W p s)"
| "run_auth_op W (GoogleLogin t) s = snd (googleLogin W t s)"
| "run_auth_op W (Refresh t) s = snd (refreshAuthToken W t s)"
| "run_auth_op W (Logout usr) s = snd (logoutUser usr s)"

lemma refresh_demo_contacts [simp]:
  "u_email (refresh_demo_user roles u) = u_email u" "u_phone (refresh_demo_user roles u) = u_phone u"
  by (simp_all add: refresh_demo_user_def Let_def)

lemma keeps_contacts_demo_user [keeps_intros]: "keeps unique_contacts (ensureDemoUser W p)"
  unfolding ensureDemoUser_def by (intro keeps_intros) simp

lemma keeps_contacts_refresh: "keeps unique_contacts (refreshAuthToken W t)"
  by (auto simp: keeps_def refreshAuthToken_def Let_def keepsD [OF keeps_contacts_issue] split: option.splits)

lemma keeps_contacts_logins:
  "keeps unique_contacts (sendOtp W phone)" "keeps unique_contacts (verifyOtpLogin W phone otp)"
  "keeps unique_contacts (registerUser W name email phone otp)"
  "keeps unique_contacts (demoLogin W p)" "keeps unique_contacts (googleLogin W t)"
  "keeps unique_contacts (logoutUser usr)"
  unfolding auth_handler_defs by (intro keeps_intros; simp)+

lemma auth_op_contacts: "unique_contacts s \<Longrightarrow> unique_contacts (run_auth_op W op s)"
  by (cases op) (simp_all add: keepsD [OF keeps_contacts_refresh] keepsD [OF keeps_contacts_logins(1)]
      keepsD [OF keeps_contacts_logins(2)] keepsD [OF keeps_contacts_logins(3)]
      keepsD [OF keeps_contacts_logins(4)] keepsD [OF keeps_contacts_logins(5)]
      keepsD [OF keeps_contacts_logins(6)])

lemma other_email_free:
  "\<not> other_has_email usr e s \<Longrightarrow> findById (users s) k = Some u \<Longrightarrow> k \<noteq> usr \<Longrightarrow> u_email u \<noteq> e"
  by (drule findById_in_set) (auto simp: other_has_email_def list_ex_iff)

lemma user_op_contacts:
  assumes "unique_contacts s"
  shows "unique_contacts (run_user_op W usr op s)"
proof (cases "run_user_op W usr op s = s")
  case False
  then obtain u v where f: "findById (users s) usr = Some u" and r: "run_user_op W usr op s = save_user usr v s"
    and p: "u_phone v = u_phone u" and e: "u_email v = u_email u \<or> \<not> other_has_email usr (u_email v) s"
    by (rule user_op_cases)
  have "u_email d \<noteq> u_email v \<and> u_phone d \<noteq> u_phone v" if "findById (users s) k = Some d" "k \<noteq> usr" for k d
    using e p unique_contactsD [OF assms that(1) f that(2)] other_email_free [OF _ that] by auto
  then show ?thesis
    using assms unfolding r unique_contacts_def by (fastforce split: if_splits)
qed (use assms in simp)

section \<open>A session is opened by an identity that was checked\<close>

text \<open>The one-time password under a key is live and is the one given.\<close>

definition otp_correct :: "world \<Rightarrow> string \<Rightarrow> string \<Rightarrow> db \<Rightarrow> bool" where
  "otp_correct W key otp s =
     (case redis_get (otp_key key) s of
        Some (RedisOtp d) \<Rightarrow> otp_attempts d < MAX_ATTEMPTS \<and> bcryptCompare W otp (otp_hash d) | _ \<Rightarrow> False)"

fun identity_checked :: "world \<Rightarrow> auth_op \<Rightarrow> db \<Rightarrow> oid \<Rightarrow> bool" where
  "identity_checked W (VerifyOtpLogin phone otp) s usr =
     (otp_correct W (otpKeys_phone phone) otp s \<and>
      (case findById (users s) usr of None \<Rightarrow> False | Some u \<Rightarrow> u_phone u = phone \<and> u_isActive u))"
| "identity_checked W (Register name email phone otp) s usr = otp_correct W (otpKeys_phone phone) otp s"
| "identity_checked W (DemoLogin p) s usr = DEMO_MODE W"
| "identity_checked W (GoogleLogin t) s usr =
     (case verifyIdToken W t of None \<Rightarrow> False | Some p \<Rightarrow> truthy (jget p ''email''))"
| "identity_checked W _ s usr = False"

lemma verifyOTP_correct: "verifyOTP W key otp s = (Inr b, s') \<Longrightarrow> otp_correct W key otp s"
  by (erule verifyOTP_cases) (auto simp: otp_correct_def)

lemma has_session_cong: "users s = users t \<Longrightarrow> has_session usr s = has_session usr t"
  by (simp add: has_session_def)

lemma issueTokens_other: "usr \<noteq> k \<Longrightarrow> has_session usr (snd (issueTokens W k s)) = has_session usr s"
  by (simp add: issueTokens_def Let_def has_session_def split: option.splits)

lemma findOne_by_id:
  assumes "findOne P c = Some (k, d)" "distinct (map fst c)"
  shows "findById c k = Some d" "P d"
  using assms findOne_SomeD [OF assms(1)] by (auto simp: findById_def)

lemma verify_login_session:
  assumes "distinct (map fst (users s))" "\<not> has_session usr s"
    and "has_session usr (snd (verifyOtpLogin W phone otp s))"
  shows "identity_checked W (VerifyOtpLogin phone otp) s usr"
proof -
  obtain r s1 where v: "verifyOTP W (otpKeys_phone phone) otp s = (r, s1)" by fastforce
  have us: "users s1 = users s" using verifyOTP_frame(1) [of W "otpKeys_phone phone" otp s] v by simp
  obtain b where r: "r = Inr b"
    using assms v by (cases r) (auto simp: verifyOtpLogin_def run_simps has_session_cong [OF us])
  then obtain k u where f: "findOne (\<lambda>u. u_phone u = phone \<and> u_isActive u) (users s) = Some (k, u)"
    using assms v us
    by (auto simp: verifyOtpLogin_def run_simps has_session_cong [OF us] split: option.splits)
  then have "snd (verifyOtpLogin W phone otp s) = snd (issueTokens W k s1)"
    using v r us by (simp add: verifyOtpLogin_def run_simps)
  then have "usr = k"
    using assms issueTokens_other [of usr k W s1] has_session_cong [OF us] by auto
  with v r findOne_by_id [OF f assms(1)] show ?thesis by (simp add: verifyOTP_correct)
qed

lemma register_session:
  assumes "\<not> has_session usr s" "has_session usr (snd (registerUser W name email phone otp s))"
  shows "otp_correct W (otpKeys_phone phone) otp s"
proof -
  obtain r s1 where v: "verifyOTP W (otpKeys_phone phone) otp s = (r, s1)" by fastforce
  have us: "users s1 = users s" using verifyOTP_frame(1) [of W "otpKeys_phone phone" otp s] v by simp
  show ?thesis
    using assms v by (cases r) (auto simp: registerUser_def run_simps has_session_cong [OF us] verifyOTP_correct)
qed

lemma refresh_session:
  assumes "\<not> has_session usr s" "has_session usr (snd (refreshAuthToken W t s))"
  shows False
proof (cases "refreshAuthToken W t s")
  case (Pair r s')
  show False
  proof (cases r)
    case (Inl e)
    with assms Pair show False
      by (auto simp: refreshAuthToken_def Let_def issueTokens_def split: option.splits if_splits)
  next
    case (Inr tk)
    with Pair obtain k u h where "findById (users s) k = Some u" "u_refreshTokenHash u = Some h" "h \<noteq> []"
      "issueTokens W k s = (Inr tk, s')"
      by (auto elim: refresh_Inr)
    then show False
      using assms Pair issueTokens_other [of usr k W s] by (cases "usr = k") (auto simp: has_session_def)
  qed
qed

lemma logout_session: "has_session usr (snd (logoutUser k s)) \<Longrightarrow> has_session usr s"
  by (auto simp: logoutUser_def has_session_def split: option.splits if_splits)

lemma sendOtp_users: "users (snd (sendOtp W p s)) = users s"
proof -
  have otp: "keeps (\<lambda>t. users t = users s) (generateOTP W (otpKeys_phone p))" by (simp add: keeps_def)
  have "keeps (\<lambda>t. users t = users s) (sendOtp W p)"
    unfolding sendOtp_def sendSmsOTP_def by (intro keeps_intros otp)
  from keepsD [OF this] show ?thesis by simp
qed

lemma session_needs_identity:
  assumes "distinct (map fst (users s))" "\<not> has_session usr s" "has_session usr (run_auth_op W op s)"
  shows "identity_checked W op s usr"
proof (cases op)
  case (SendOtp p)
  then have "users (run_auth_op W op s) = users s"
    by (simp add: sendOtp_users)
  with assms show ?thesis by (simp add: has_session_def)
next
  case (VerifyOtpLogin p x)
  with assms verify_login_session [OF assms(1,2)] show ?thesis by simp
next
  case (Register n e p x)
  with assms register_session [OF assms(2)] show ?thesis by simp
next
  case (DemoLogin p)
  with assms show ?thesis by (auto simp: demoLogin_def run_simps split: if_splits)
next
  case (GoogleLogin t)
  with assms show ?thesis by (auto simp: googleLogin_def run_simps Let_def split: if_splits option.splits)
next
  case (Refresh t)
  with assms refresh_session [OF assms(2)] show ?thesis by auto
next
  case (Logout k)
  with assms logout_session show ?thesis by auto
qed

section \<open>bcrypt reads 72 bytes\<close>

text \<open>
  The documented behaviour of \<open>bcryptjs\<close>: only the first 72 bytes of a password count.  The
  header and the first fields of a payload fill them in every refresh token of a user.
\<close>

definition bcrypt_truncates :: "world \<Rightarrow> bool" where
  "bcrypt_truncates W = (\<forall>n p q. bcryptCompare W p (bcryptHash W n q) = (take 72 p = take 72 q))"

lemma rotated_token_still_accepted:
  assumes "bcrypt_truncates W" "issueTokens W usr s = (Inr tk, s')"
    and "jwtVerify W (clock s') (JWT_REFRESH_SECRET W) old = Some payload" "js_text (jget payload ''id'') = usr"
    and "take 72 old = take 72 (tk_refreshToken tk)" "\<forall>n q. bcryptHash W n q \<noteq> []"
  shows "\<exists>tk' s''. refreshAuthToken W old s' = (Inr tk', s'')"
proof -
  from assms(2) obtain u where u: "findById (users s) usr = Some u"
    "s' = save_user usr (u\<lparr>u_refreshTokenHash := Some (bcryptHash W (draws s) (tk_refreshToken tk))\<rparr>) (next_draw s)"
    by (rule issueTokens_Inr)
  then have f: "findById (users s') usr = Some (u\<lparr>u_refreshTokenHash := Some (bcryptHash W (draws s) (tk_refreshToken tk))\<rparr>)"
    by simp
  from issueTokens_found [OF f, of W] obtain tk' s'' where "issueTokens W usr s' = (Inr tk', s'')" by auto
  then show ?thesis
    using assms f by (auto simp: refreshAuthToken_def Let_def bcrypt_truncates_def)
qed

end
