(* ===== verification/Decode.thy ===== *)
theory Decode
  imports Schemas Trips Deliveries PricingService Auth
begin

text \<open>
  How a parsed request body is read: the typed payloads of the services, from the JSON that a
  schema let through.  A key the schema strips cannot be read back, so no body sets a field that
  its schema does not name.
\<close>

section \<open>Enumerations\<close>

definition enum_decode :: "('a \<Rightarrow> string) \<Rightarrow> 'a list \<Rightarrow> 'a \<Rightarrow> json \<Rightarrow> 'a" where
  "enum_decode str vals dflt v =
     (case v of JStr t \<Rightarrow> (case List.find (\<lambda>x. str x = t) vals of None \<Rightarrow> dflt | Some x \<Rightarrow> x) | _ \<Rightarrow> dflt)"

definition all_categories :: "category list" where
  "all_categories = [Documents, Clothing, Electronics, Food, Fragile, Medicine, OtherCategory]"

definition decode_category :: "json \<Rightarrow> category" where
  "decode_category = enum_decode category_str all_categories OtherCategory"

fun transport_mode_str :: "transport_mode \<Rightarrow> string" where
  "transport_mode_str Bus = ''bus''"
| "transport_mode_str Train = ''train''"
| "transport_mode_str Car = ''car''"
| "transport_mode_str Bike = ''bike''"
| "transport_mode_str Flight = ''flight''"
| "transport_mode_str OtherMode = ''other''"

definition decode_mode :: "json \<Rightarrow> transport_mode" where
  "decode_mode = enum_decode transport_mode_str [Bus, Train, Car, Bike, Flight, OtherMode] OtherMode"

fun government_id_str :: "government_id \<Rightarrow> string" where
  "government_id_str Aadhaar = ''aadhaar''"
| "government_id_str Pan = ''pan''"
| "government_id_str Passport = ''passport''"
| "government_id_str DrivingLicence = ''dl''"

definition decode_government_id :: "json \<Rightarrow> government_id" where
  "decode_government_id = enum_decode government_id_str [Aadhaar, Pan, Passport, DrivingLicence] Aadhaar"

fun persona_str :: "demo_persona \<Rightarrow> string" where
  "persona_str DemoCarrier = ''carrier''"
| "persona_str DemoPriya = ''sender_priya''"
| "persona_str DemoRahul = ''sender_rahul''"

definition decode_persona :: "json \<Rightarrow> demo_persona option" where
  "decode_persona v =
     (if v = JUndef then None
      else Some (enum_decode persona_str [DemoCarrier, DemoPriya, DemoRahul] DemoPriya v))"

section \<open>Fields\<close>

definition decode_num :: "json \<Rightarrow> rat" where
  "decode_num v = (case v of JNum x \<Rightarrow> x | _ \<Rightarrow> 0)"

definition decode_opt :: "(json \<Rightarrow> 'a) \<Rightarrow> json \<Rightarrow> 'a option" where
  "decode_opt f v = (if v = JUndef then None else Some (f v))"

definition decode_date :: "json \<Rightarrow> int" where
  "decode_date v = (case v of JDate d \<Rightarrow> d | _ \<Rightarrow> 0)"

definition decode_list :: "(json \<Rightarrow> 'a) \<Rightarrow> json \<Rightarrow> 'a list" where
  "decode_list f v = (case v of JArr vs \<Rightarrow> map f vs | _ \<Rightarrow> [])"

definition decode_pair :: "json \<Rightarrow> rat \<times> rat" where
  "decode_pair v = (case v of JArr [a, b] \<Rightarrow> (decode_num a, decode_num b) | _ \<Rightarrow> (0, 0))"

section \<open>Payloads\<close>

definition decode_location :: "json \<Rightarrow> location" where
  "decode_location v =
     \<lparr> l_city = js_text (jget v ''city''), l_state = decode_opt js_text (jget v ''state''),
       l_coordinates = decode_opt (\<lambda>c. decode_pair (jget c ''coordinates'')) (jget v ''coordinates''),
       l_placeId = decode_opt js_text (jget v ''placeId''),
       l_fullAddress = decode_opt js_text (jget v ''fullAddress'') \<rparr>"

definition decode_dimensions :: "json \<Rightarrow> dimensions" where
  "decode_dimensions v =
     \<lparr> d_length = decode_opt decode_num (jget v ''length''), d_width = decode_opt decode_num (jget v ''width''),
       d_height = decode_opt decode_num (jget v ''height'') \<rparr>"

definition decode_package :: "json \<Rightarrow> package" where
  "decode_package v =
     \<lparr> p_description = js_text (jget v ''description''), p_category = decode_category (jget v ''category''),
       p_weightKg = decode_num (jget v ''weightKg''),
       p_dimensionsCm = decode_opt decode_dimensions (jget v ''dimensionsCm''),
       p_isFragile = (jget v ''isFragile'' = JBool True),
       p_declaredValue = decode_opt decode_num (jget v ''declaredValue''),
       p_photoUrl = decode_opt js_text (jget v ''photoUrl'') \<rparr>"

definition decode_recipient :: "json \<Rightarrow> recipient" where
  "decode_recipient v =
     \<lparr> rc_name = js_text (jget v ''name''), rc_phone = js_text (jget v ''phone''),
       rc_address = js_text (jget v ''address'') \<rparr>"

definition decode_window :: "json \<Rightarrow> time_window" where
  "decode_window v =
     \<lparr> w_earliest = decode_date (jget v ''earliest''), w_latest = decode_date (jget v ''latest'') \<rparr>"

definition decode_capacity :: "json \<Rightarrow> capacity" where
  "decode_capacity v =
     \<lparr> c_weightKg = decode_num (jget v ''weightKg''),
       c_dimensionsCm = decode_opt decode_dimensions (jget v ''dimensionsCm''),
       c_allowedCategories = decode_list decode_category (jget v ''allowedCategories'') \<rparr>"

definition decode_details :: "json \<Rightarrow> transport_details" where
  "decode_details v =
     \<lparr> td_name = decode_opt js_text (jget v ''name''), td_pnr = decode_opt js_text (jget v ''pnr''),
       td_seatNumber = decode_opt js_text (jget v ''seatNumber'') \<rparr>"

definition decode_trip :: "json \<Rightarrow> trip_payload" where
  "decode_trip v =
     \<lparr> tp_origin = decode_location (jget v ''origin''),
       tp_destination = decode_location (jget v ''destination''),
       tp_departureTime = decode_date (jget v ''departureTime''),
       tp_estimatedArrivalTime = decode_opt decode_date (jget v ''estimatedArrivalTime''),
       tp_modeOfTransport = decode_mode (jget v ''modeOfTransport''),
       tp_transportDetails = decode_opt decode_details (jget v ''transportDetails''),
       tp_availableCapacity = decode_capacity (jget v ''availableCapacity''),
       tp_pricePerKg = decode_num (jget v ''pricePerKg''),
       tp_pickupInstructions = decode_opt js_text (jget v ''pickupInstructions''),
       tp_dropoffInstructions = decode_opt js_text (jget v ''dropoffInstructions''),
       tp_safetyDepositPaid = truthy (jget v ''safetyDepositPaid'') \<rparr>"

definition decode_trip_update :: "json \<Rightarrow> trip_update" where
  "decode_trip_update v =
     \<lparr> tu_origin = decode_opt decode_location (jget v ''origin''),
       tu_destination = decode_opt decode_location (jget v ''destination''),
       tu_departureTime = decode_opt decode_date (jget v ''departureTime''),
       tu_estimatedArrivalTime = decode_opt decode_date (jget v ''estimatedArrivalTime''),
       tu_modeOfTransport = decode_opt decode_mode (jget v ''modeOfTransport''),
       tu_transportDetails = decode_opt decode_details (jget v ''transportDetails''),
       tu_availableCapacity = decode_opt decode_capacity (jget v ''availableCapacity''),
       tu_pricePerKg = decode_opt decode_num (jget v ''pricePerKg''),
       tu_pickupInstructions = decode_opt js_text (jget v ''pickupInstructions''),
       tu_dropoffInstructions = decode_opt js_text (jget v ''dropoffInstructions'') \<rparr>"

definition decode_request :: "json \<Rightarrow> request_payload" where
  "decode_request v =
     \<lparr> rp_origin = decode_location (jget v ''origin''),
       rp_destination = decode_location (jget v ''destination''),
       rp_package = decode_package (jget v ''package''),
       rp_recipient = decode_recipient (jget v ''recipient''),
       rp_window = decode_window (jget v ''preferredDeliveryWindow'') \<rparr>"

definition decode_request_update :: "json \<Rightarrow> request_update" where
  "decode_request_update v =
     \<lparr> ru_origin = decode_opt decode_location (jget v ''origin''),
       ru_destination = decode_opt decode_location (jget v ''destination''),
       ru_package = decode_opt decode_package (jget v ''package''),
       ru_recipient = decode_opt decode_recipient (jget v ''recipient''),
       ru_window = decode_opt decode_window (jget v ''preferredDeliveryWindow'') \<rparr>"

definition decode_payout :: "json \<Rightarrow> payout_payload" where
  "decode_payout v =
     \<lparr> pm_method = js_text (jget v ''method''), pm_upiId = decode_opt js_text (jget v ''upiId''),
       pm_accountNumber = decode_opt js_text (jget v ''accountNumber''),
       pm_ifsc = decode_opt js_text (jget v ''ifsc''),
       pm_holderName = decode_opt js_text (jget v ''holderName'') \<rparr>"

definition decode_estimate :: "json \<Rightarrow> estimate_input" where
  "decode_estimate v =
     \<lparr> ei_originCity = js_text (jget v ''originCity''), ei_destinationCity = js_text (jget v ''destinationCity''),
       ei_weightKg = decode_num (jget v ''weightKg''), ei_category = decode_category (jget v ''category''),
       ei_isFragile = (jget v ''isFragile'' = JBool True),
       ei_declaredValue = decode_opt decode_num (jget v ''declaredValue'') \<rparr>"

definition decode_guidance :: "json \<Rightarrow> guidance_input" where
  "decode_guidance v =
     \<lparr> gi_originCity = js_text (jget v ''originCity''), gi_destinationCity = js_text (jget v ''destinationCity''),
       gi_capacityKg = decode_num (jget v ''capacityKg''),
       gi_categories = decode_list decode_category (jget v ''categories''),
       gi_pricePerKg = decode_opt decode_num (jget v ''pricePerKg''),
       gi_modeOfTransport = decode_opt decode_mode (jget v ''modeOfTransport''),
       gi_departureTime = decode_opt decode_date (jget v ''departureTime'') \<rparr>"

section \<open>Round trips\<close>

lemma decode_opt_jopt [simp]: "(\<And>x. f x \<noteq> JUndef \<and> g (f x) = x) \<Longrightarrow> decode_opt g (jopt f o') = o'"
  by (cases o') (auto simp: decode_opt_def jopt_def)

lemma decode_leaves [simp]:
  "decode_num (JNum x) = x" "decode_date (JDate d) = d" "js_text (JStr t) = t"
  "decode_category (JStr (category_str c)) = c" "decode_pair (JArr [JNum x, JNum y]) = (x, y)"
  "decode_list f (JArr vs) = map f vs"
  by (simp_all add: decode_num_def decode_date_def js_text_def decode_pair_def decode_list_def)
     (cases c; simp add: decode_category_def enum_decode_def all_categories_def)

lemma decode_location_json: "decode_location (location_json l) = l"
proof -
  have "decode_opt (\<lambda>c. decode_pair (jget c ''coordinates''))
      (jopt (\<lambda>(lng, lat). JObj [(''type'', JStr ''Point''), (''coordinates'', JArr [JNum lng, JNum lat])]) p) = p" for p
    by (rule decode_opt_jopt) auto
  then show ?thesis by (simp add: decode_location_def location_json_def)
qed

lemma decode_dimensions_json: "decode_dimensions (dimensions_json d) = d"
  by (simp add: decode_dimensions_def dimensions_json_def)

lemma dimensions_json_object: "dimensions_json d \<noteq> JUndef"
  by (simp add: dimensions_json_def)

lemma decode_package_json: "decode_package (package_json p) = p"
  by (simp add: decode_package_def package_json_def decode_dimensions_json dimensions_json_object)

lemma decode_window_json: "decode_window (window_json w) = w"
  by (simp add: decode_window_def window_json_def)

lemma decode_capacity_json: "decode_capacity (capacity_json c) = c"
  by (simp add: decode_capacity_def capacity_json_def decode_dimensions_json dimensions_json_object comp_def)

text \<open>A body that the schema let through never sets the deposit.\<close>

lemma no_deposit_in_body:
  assumes "zparse W createTripSchema v = Some w"
  shows "\<not> tp_safetyDepositPaid (decode_trip w)"
proof -
  from assms obtain kvs where w: "w = JObj kvs" and z: "zfields W (case createTripSchema of ZObject fs \<Rightarrow> fs) v = Some kvs"
    by (auto simp: createTripSchema_def split: json.splits)
  have "''safetyDepositPaid'' \<notin> fst ` set kvs"
    using zfields_keys [OF z] by (auto simp: createTripSchema_def)
  then show ?thesis by (simp only: decode_trip_def w absent_key trip_payload.simps truthy.simps not_False_eq_True)
qed

end
