(* ===== verification/CarrierSetup.thy ===== *)
theory CarrierSetup
  imports TripWizard Decode
begin

text \<open>
  \<open>carrier-portal/src/pages/CarrierSetup.tsx\<close>: the page on which a carrier proves who they are and
  says where to be paid.  The requests of the page run against the schemas and the services of the
  server, so that what the page lets through can be followed to the record of the user.
\<close>

section \<open>The page\<close>

datatype setup_tab = AadhaarTab | PayoutTab | PreferencesTab | IdCardTab

record carrier_setup =
  cu_tab :: setup_tab
  cu_aadhaarInput :: string
  cu_aadhaarOtp :: string
  cu_otpStep :: bool
  cu_payoutMethod :: string
  cu_upiId :: string
  cu_accountNumber :: string
  cu_ifsc :: string
  cu_holderName :: string
  cu_selectedModes :: "string list"
  cu_maxWeight :: rat
  cu_selectedCategories :: "string list"
  cu_bio :: string
  cu_emergencyContact :: string

definition AVAILABLE_MODES :: "string list" where
  "AVAILABLE_MODES = [''train'', ''flight'', ''car'', ''bus'']"

definition AVAILABLE_CATEGORIES :: "string list" where
  "AVAILABLE_CATEGORIES = [''documents'', ''electronics'', ''clothing'', ''medicine'', ''gifts'']"

definition setup_start :: carrier_setup where
  "setup_start =
     \<lparr> cu_tab = AadhaarTab, cu_aadhaarInput = [], cu_aadhaarOtp = [], cu_otpStep = False,
       cu_payoutMethod = ''upi'', cu_upiId = [], cu_accountNumber = [], cu_ifsc = [], cu_holderName = [],
       cu_selectedModes = [''train'', ''car''], cu_maxWeight = 10,
       cu_selectedCategories = [''documents'', ''electronics'', ''clothing''], cu_bio = [],
       cu_emergencyContact = [] \<rparr>"

text \<open>The status of the server, put into the form: only what is truthy is taken over.\<close>

definition load_status :: "setup_status \<Rightarrow> carrier_setup \<Rightarrow> carrier_setup" where
  "load_status st s =
     (let p = ss_preferences st in
      s\<lparr>cu_upiId := str_or (ss_upiId st) (cu_upiId s), cu_selectedModes := cp_preferredModes p,
        cu_maxWeight := (if cp_maxCapacityKg p \<noteq> 0 then cp_maxCapacityKg p else cu_maxWeight s),
        cu_selectedCategories := cp_allowedCategories p, cu_bio := str_or (cp_bio p) (cu_bio s),
        cu_emergencyContact := str_or (cp_emergencyContact p) (cu_emergencyContact s)\<rparr>)"

text \<open>The field of the number: digits only, at most twelve, a space after each group of four.\<close>

function groups_of_four :: "string \<Rightarrow> string" where
  "groups_of_four s = (if length s \<le> 4 then s else take 4 s @ '' '' @ groups_of_four (drop 4 s))"
  by pat_completeness auto
termination by (relation "measure length") auto

declare groups_of_four.simps [simp del]

definition aadhaar_typed :: "string \<Rightarrow> carrier_setup \<Rightarrow> carrier_setup" where
  "aadhaar_typed t s =
     (if cu_otpStep s then s else s\<lparr>cu_aadhaarInput := groups_of_four (take 12 (filter is_digit t))\<rparr>)"

definition otp_typed :: "string \<Rightarrow> carrier_setup \<Rightarrow> carrier_setup" where
  "otp_typed t s = s\<lparr>cu_aadhaarOtp := filter is_digit (take 6 t)\<rparr>"

definition ifsc_typed :: "string \<Rightarrow> carrier_setup \<Rightarrow> carrier_setup" where
  "ifsc_typed t s = s\<lparr>cu_ifsc := toUpperCase t\<rparr>"

definition toggleMode :: "string \<Rightarrow> carrier_setup \<Rightarrow> carrier_setup" where
  "toggleMode m s = s\<lparr>cu_selectedModes := toggled m (cu_selectedModes s)\<rparr>"

definition toggleCategory :: "string \<Rightarrow> carrier_setup \<Rightarrow> carrier_setup" where
  "toggleCategory c s = s\<lparr>cu_selectedCategories := toggled c (cu_selectedCategories s)\<rparr>"

section \<open>Submitting\<close>

text \<open>A submission gives a note to the user, or a request.\<close>

datatype submission = Told string | Noted string | Sent json

definition handleAadhaarSubmit :: "carrier_setup \<Rightarrow> submission \<times> carrier_setup" where
  "handleAadhaarSubmit s =
     (if \<not> cu_otpStep s then
        (if length (filter (\<lambda>c. \<not> is_space c) (cu_aadhaarInput s)) \<noteq> 12
         then (Told ''Please enter a valid 12-digit Aadhaar number'', s)
         else (Noted ''DigiLocker OTP sent to registered mobile'', s\<lparr>cu_otpStep := True\<rparr>))
      else if length (cu_aadhaarOtp s) < 4 then (Told ''Please enter the 6-digit OTP'', s)
      else (Sent (JObj [(''aadhaarNumber'', JStr (cu_aadhaarInput s)), (''otp'', JStr (cu_aadhaarOtp s))]), s))"

definition handlePayoutSubmit :: "carrier_setup \<Rightarrow> submission" where
  "handlePayoutSubmit s =
     (if cu_payoutMethod s = ''upi'' then
        (if CHR ''@'' \<notin> set (cu_upiId s) then Told ''Please enter a valid UPI ID (e.g. name@okhdfcbank)''
         else Sent (JObj [(''method'', JStr ''upi''), (''upiId'', JStr (cu_upiId s))]))
      else if cu_accountNumber s = [] \<or> cu_ifsc s = [] then Told ''Account number and IFSC code are required''
      else Sent (JObj [(''method'', JStr ''bank''), (''accountNumber'', JStr (cu_accountNumber s)),
                       (''ifsc'', JStr (cu_ifsc s)), (''holderName'', JStr (cu_holderName s))]))"

definition handlePrefSubmit :: "carrier_setup \<Rightarrow> submission" where
  "handlePrefSubmit s =
     Sent (JObj [(''preferredModes'', JArr (map JStr (cu_selectedModes s))),
                 (''maxCapacityKg'', JNum (cu_maxWeight s)),
                 (''allowedCategories'', JArr (map JStr (cu_selectedCategories s))),
                 (''instantBooking'', JBool True), (''bio'', JStr (cu_bio s)),
                 (''emergencyContact'', JStr (cu_emergencyContact s))])"

definition aadhaar_done :: "carrier_setup \<Rightarrow> carrier_setup" where
  "aadhaar_done s = s\<lparr>cu_otpStep := False, cu_aadhaarInput := [], cu_aadhaarOtp := [], cu_tab := PayoutTab\<rparr>"

definition payout_done :: "carrier_setup \<Rightarrow> carrier_setup" where
  "payout_done s = s\<lparr>cu_tab := PreferencesTab\<rparr>"

definition preferences_done :: "carrier_setup \<Rightarrow> carrier_setup" where
  "preferences_done s = s\<lparr>cu_tab := IdCardTab\<rparr>"

text \<open>A request at the server: the schema of its route, then the service.\<close>

definition post_with :: "world \<Rightarrow> zschema \<Rightarrow> (json \<Rightarrow> (db, 'a) handler) \<Rightarrow> json \<Rightarrow> (db, 'a) handler" where
  "post_with W schema serve body s =
     (case zparse W schema body of
        None \<Rightarrow> (Inl (ApiError 400 ''Validation failed''), s)
      | Some v \<Rightarrow> serve v s)"

definition post_aadhaar :: "world \<Rightarrow> oid \<Rightarrow> json \<Rightarrow> (db, aadhaar_result) handler" where
  "post_aadhaar W usr = post_with W verifyCarrierAadhaarSchema
     (\<lambda>b. verifyCarrierAadhaarDigiLocker W usr (js_text (jget b ''aadhaarNumber'')))"

definition post_payout :: "world \<Rightarrow> oid \<Rightarrow> json \<Rightarrow> (db, payout_result) handler" where
  "post_payout W usr = post_with W saveCarrierPayoutSchema (\<lambda>b. saveCarrierPayoutMethod usr (decode_payout b))"

definition post_preferences :: "world \<Rightarrow> oid \<Rightarrow> json \<Rightarrow> (db, carrier_preferences) handler" where
  "post_preferences W usr = post_with W saveCarrierPreferencesSchema (saveCarrierPreferences usr)"

text \<open>The submission of the first tab, with the answer of the server.\<close>

definition submit_aadhaar :: "world \<Rightarrow> oid \<Rightarrow> carrier_setup \<times> db \<Rightarrow> carrier_setup \<times> db" where
  "submit_aadhaar W usr = (\<lambda>(s, d).
     case handleAadhaarSubmit s of
       (Sent body, s1) \<Rightarrow>
         (case post_aadhaar W usr body d of
            (Inr r, d') \<Rightarrow> (aadhaar_done s1, d')
          | (Inl e, d') \<Rightarrow> (s1, d'))
     | (_, s1) \<Rightarrow> (s1, d))"

section \<open>The identity card\<close>

definition trust_level :: "setup_status \<Rightarrow> string" where
  "trust_level st =
     (if ss_kycTier st = Tier3Pro then ''Pro Carrier (Unlocked)''
      else if ss_kycTier st = Tier2Verified then ''Verified Traveler'' else ''Level 1 Basic'')"

text \<open>An absent number of an account is shown as \<open>undefined\<close>: the account itself is always there.\<close>

definition payout_destination :: "setup_status \<Rightarrow> string" where
  "payout_destination st =
     str_or (ss_upiId st)
       (''A/C '' @ (case pb_accountNumberMasked (ss_bank st) of None \<Rightarrow> ''undefined'' | Some n \<Rightarrow> n))"

definition govt_badge :: "setup_status \<Rightarrow> string" where
  "govt_badge st = (if ss_aadhaarVerified st then ''GOVT VERIFIED'' else ''UNVERIFIED'')"

section \<open>From the page to the record of the user\<close>

datatype setup_event = NumberTyped string | OtpTyped string | ChangeNumber | SubmitIdentity

fun setup_step :: "world \<Rightarrow> oid \<Rightarrow> setup_event \<Rightarrow> carrier_setup \<times> db \<Rightarrow> carrier_setup \<times> db" where
  "setup_step W usr (NumberTyped t) (s, d) = (aadhaar_typed t s, d)"
| "setup_step W usr (OtpTyped t) (s, d) = (otp_typed t s, d)"
| "setup_step W usr ChangeNumber (s, d) = (s\<lparr>cu_otpStep := False\<rparr>, d)"
| "setup_step W usr SubmitIdentity (s, d) = submit_aadhaar W usr (s, d)"

lemma digit_not_space: "is_digit c \<Longrightarrow> \<not> is_space c"
  by (auto simp: is_digit_def is_space_def char_code_def)

lemma strip_groups: "list_all is_digit s \<Longrightarrow> filter (\<lambda>c. \<not> is_space c) (groups_of_four s) = s"
proof (induction s rule: groups_of_four.induct)
  case (1 s)
  have plain: "filter (\<lambda>c. \<not> is_space c) ds = ds" if "list_all is_digit ds" for ds
    using that by (auto simp: filter_id_conv list_all_iff digit_not_space)
  have parts: "list_all is_digit (take 4 s)" "list_all is_digit (drop 4 s)"
    using "1.prems" by (auto simp: list_all_iff dest: in_set_takeD in_set_dropD)
  show ?case
  proof (cases "length s \<le> 4")
    case True
    with "1.prems" show ?thesis by (simp add: groups_of_four.simps [of s] plain)
  next
    case False
    have "is_space (CHR '' '')" by (simp add: is_space_def)
    with False "1.IH" parts show ?thesis by (simp add: groups_of_four.simps [of s] plain)
  qed
qed

lemma length_groups_12: "length s = 12 \<Longrightarrow> length (groups_of_four s) = 14"
  by (simp add: groups_of_four.simps [of s] groups_of_four.simps [of "drop 4 s"] groups_of_four.simps [of "drop 8 s"])

definition setup_ok :: "carrier_setup \<Rightarrow> bool" where
  "setup_ok s =
     (list_all is_digit (filter (\<lambda>c. \<not> is_space c) (cu_aadhaarInput s)) \<and>
      (length (filter (\<lambda>c. \<not> is_space c) (cu_aadhaarInput s)) = 12 \<longrightarrow> length (cu_aadhaarInput s) = 14) \<and>
      (cu_otpStep s \<longrightarrow> length (filter (\<lambda>c. \<not> is_space c) (cu_aadhaarInput s)) = 12))"

lemma typed_ok: "setup_ok s \<Longrightarrow> setup_ok (aadhaar_typed t s)"
proof -
  assume s: "setup_ok s"
  let ?ds = "take 12 (filter is_digit t)"
  have "list_all is_digit ?ds" by (auto simp: list_all_iff dest: in_set_takeD)
  with s strip_groups [of ?ds] length_groups_12 [of ?ds] show ?thesis
    by (simp add: setup_ok_def aadhaar_typed_def del: length_take)
qed

lemma submitted_ok: "setup_ok s \<Longrightarrow> setup_ok (fst (submit_aadhaar W usr (s, d)))"
  by (auto simp: submit_aadhaar_def handleAadhaarSubmit_def setup_ok_def aadhaar_done_def
      split: submission.splits sum.splits prod.splits if_splits)

interpretation setup_page: kept_run "setup_step W usr" "\<lambda>(s, d). setup_ok s" "\<lambda>_. True" for W usr
proof
  fix p :: "carrier_setup \<times> db" and e
  assume p: "case p of (s, d) \<Rightarrow> setup_ok s"
  obtain s d where sd: "p = (s, d)" by (cases p)
  with p have s: "setup_ok s" by simp
  show "case setup_step W usr e p of (s', d') \<Rightarrow> setup_ok s'"
    using typed_ok [OF s] submitted_ok [OF s, of W usr d] s
    by (cases e) (auto simp: sd otp_typed_def setup_ok_def split: prod.splits)
qed

lemma setup_runs_ok: "setup_ok (fst (fold (setup_step W usr) es (setup_start, d)))"
  using setup_page.admitted_run [of "(setup_start, d)" es W usr]
  by (simp add: list_all_iff case_prod_beta setup_start_def setup_ok_def)

lemma aadhaar_body_accepted:
  assumes "length n = 14"
  shows "zparse W verifyCarrierAadhaarSchema (JObj [(''aadhaarNumber'', JStr n), (''otp'', JStr o')]) =
     Some (JObj [(''aadhaarNumber'', JStr n), (''otp'', JStr o')])"
  using assms by (simp add: verifyCarrierAadhaarSchema_def text_ok_def)

text \<open>
  Submitting from the second stage verifies the carrier, whatever the code: no code has been sent,
  and the one typed is not looked at.
\<close>

lemma any_otp_verifies:
  assumes "setup_ok s" and "cu_otpStep s" and "4 \<le> length (cu_aadhaarOtp s)"
    and "findById (users d) usr = Some u"
  shows "submit_aadhaar W usr (s, d) =
    (aadhaar_done s, save_user usr (put_aadhaar W (filter (\<lambda>c. \<not> is_space c) (cu_aadhaarInput s)) u) d)"
proof -
  have n: "valid_aadhaar (filter (\<lambda>c. \<not> is_space c) (cu_aadhaarInput s))" "length (cu_aadhaarInput s) = 14"
    using assms(1,2) by (simp_all add: setup_ok_def valid_aadhaar_def)
  then show ?thesis
    using assms(2-4)
    by (simp add: submit_aadhaar_def handleAadhaarSubmit_def post_aadhaar_def post_with_def aadhaar_body_accepted
        verifyCarrierAadhaarDigiLocker_def find_user_def js_text_def run_simps Let_def)
qed

lemma payout_crosses:
  "handlePayoutSubmit s = Sent body \<Longrightarrow> cu_payoutMethod s \<in> {''upi'', ''bank''} \<Longrightarrow>
     findById (users d) usr = Some u \<Longrightarrow> \<exists>r d'. post_payout W usr body d = (Inr r, d')"
  by (auto simp: handlePayoutSubmit_def post_payout_def post_with_def saveCarrierPayoutSchema_def text_ok_def
      decode_payout_def decode_opt_def js_text_def saveCarrierPayoutMethod_def find_user_def put_payout_def run_simps Let_def
      split: if_splits)

end
