(* ===== verification/Lock.thy ===== *)
theory Lock
  imports Redis
begin

text \<open>
  \<open>utils/distributedLock.ts\<close>: the lock of a key is a Redis string with a time to live, set with
  NX and deleted only by the holder's token.  The second half is the concurrent picture: any
  number of processes acquire, work and release in any order while time passes, as the inductive
  relation \<open>lock_step\<close>; the invariant \<open>lock_ok\<close> gives mutual exclusion within the time to live.
\<close>

section \<open>The operations\<close>

definition LOCK_TTL_SECONDS :: int where "LOCK_TTL_SECONDS = 10"

definition lock_token :: "world \<Rightarrow> db \<Rightarrow> string" where
  "lock_token W s = int_str (clock s) @ ''_'' @ randomToken W (draws s)"

definition acquireLock :: "world \<Rightarrow> string \<Rightarrow> int \<Rightarrow> db \<Rightarrow> string option \<times> db" where
  "acquireLock W key ttl s =
     (let token = lock_token W s;
          (ok, s') = redis_set_nx_ex key token ttl (next_draw s)
      in (if ok then Some token else None, s'))"

definition releaseLock :: "string \<Rightarrow> string \<Rightarrow> db \<Rightarrow> db" where
  "releaseLock key token s = redis_del_if_equal key token s"

definition lock_conflict :: "string \<Rightarrow> js_error" where
  "lock_conflict key =
     HttpError 409 (''Resource is being processed. Try again in a moment. [lock:'' @ key @ '']'')"

definition withLock :: "world \<Rightarrow> string \<Rightarrow> (db, 'a) handler \<Rightarrow> int \<Rightarrow> (db, 'a) handler" where
  "withLock W key fn ttl s =
     (case acquireLock W key ttl s of
        (None, s1) \<Rightarrow> (Inl (lock_conflict key), s1)
      | (Some token, s1) \<Rightarrow>
          if token = [] then (Inl (lock_conflict key), s1)
          else (let (r, s2) = fn s1 in (r, releaseLock key token s2)))"

lemma lock_token_nonempty [simp]: "lock_token W s \<noteq> []"
  by (simp add: lock_token_def)

text \<open>What the business data sees: only what the body of the lock does to it.\<close>

lemma lock_frames [simp]:
  "clock (releaseLock key tok s) = clock s"
  "matches (releaseLock key tok s) = matches s" "requests (releaseLock key tok s) = requests s"
  "users (releaseLock key tok s) = users s" "trips (releaseLock key tok s) = trips s"
  "transactions (releaseLock key tok s) = transactions s"
  "outbox (releaseLock key tok s) = outbox s"
  "jobs (releaseLock key tok s) = jobs s"
  by (simp_all add: releaseLock_def redis_del_if_equal_def)

lemma acquireLock_cases:
  assumes "acquireLock W key ttl s = (t, s')" and "0 < ttl"
  obtains
    (busy) v where "redis_get key s = Some v" "t = None" "s' = next_draw s"
  | (got) "redis_get key s = None" "t = Some (lock_token W s)"
      "s' = redis_setex key ttl (RedisString (lock_token W s)) (next_draw s)"
  using assms
  by (cases "redis_get key s") (auto simp: acquireLock_def redis_set_nx_ex_def Let_def)

lemma keeps_withLock:
  assumes I: "\<And>s t. users s = users t \<Longrightarrow> trips s = trips t \<Longrightarrow> requests s = requests t \<Longrightarrow>
      matches s = matches t \<Longrightarrow> transactions s = transactions t \<Longrightarrow> I t \<Longrightarrow> I s"
    and fn: "keeps I fn"
  shows "keeps I (withLock W key fn ttl)"
proof -
  have "I (snd (withLock W key fn ttl s))" if s: "I s" for s
  proof -
    obtain t s1 where a: "acquireLock W key ttl s = (t, s1)" by fastforce
    then have "s1 = next_draw s \<or> (\<exists>v. s1 = redis_setex key ttl v (next_draw s))"
      by (auto simp: acquireLock_def redis_set_nx_ex_def Let_def split: if_splits)
    then have "I s1" using s by (auto intro: I [of _ s] simp: next_draw_def)
    with fn have "I (snd (fn s1))" by (rule keepsD)
    then have "I (releaseLock key tok (snd (fn s1)))" for tok
      by (rule I [rotated -1]) simp_all
    with \<open>I s1\<close> show ?thesis
      by (auto simp: withLock_def a split: option.splits prod.splits)
  qed
  then show ?thesis by (simp add: keeps_def)
qed

text \<open>A run under the lock: refused, or the body from a state with the same business data.\<close>

definition same_data :: "db \<Rightarrow> db \<Rightarrow> bool" where
  "same_data s t \<longleftrightarrow>
     users s = users t \<and> trips s = trips t \<and> requests s = requests t \<and> matches s = matches t \<and>
     transactions s = transactions t \<and> outbox s = outbox t \<and> jobs s = jobs t \<and> clock s = clock t"

lemma withLock_cases:
  assumes "0 < ttl"
  obtains
    (refused) s1 where "withLock W key fn ttl s = (Inl (lock_conflict key), s1)" "same_data s1 s"
      "redis s1 = redis s" "redis_get key s \<noteq> None"
  | (ran) s1 where "same_data s1 s" "redis_get key s = None"
      "\<forall>k. k \<noteq> key \<longrightarrow> map_of (redis s1) k = map_of (redis s) k"
      "withLock W key fn ttl s =
         (fst (fn s1), releaseLock key (lock_token W s) (snd (fn s1)))"
proof -
  obtain t s1 where a: "acquireLock W key ttl s = (t, s1)" by fastforce
  from a assms show thesis
  proof (cases rule: acquireLock_cases)
    case (busy v)
    with a show thesis by (intro refused [of s1]) (simp_all add: withLock_def same_data_def)
  next
    case got
    with a show thesis
      by (intro ran [of s1])
        (simp_all add: withLock_def same_data_def redis_setex_def update_conv' split: prod.split)
  qed
qed

text \<open>A run under the lock leaves it free, whatever the body returned or threw.\<close>

lemma withLock_released:
  assumes "withLock W key fn ttl s = (r, s')" and "redis_get key s = None" and "0 < ttl"
    and "\<And>t. redis_get key (snd (fn t)) = redis_get key t"
  shows "redis_get key s' = None"
proof -
  let ?tok = "lock_token W s"
  let ?s1 = "redis_setex key ttl (RedisString ?tok) (next_draw s)"
  have "acquireLock W key ttl s = (Some ?tok, ?s1)"
    using assms(2) by (simp add: acquireLock_def redis_set_nx_ex_def Let_def)
  moreover obtain q s2 where fn: "fn ?s1 = (q, s2)" by fastforce
  ultimately have "s' = releaseLock key ?tok s2"
    using assms(1) by (simp add: withLock_def)
  moreover have "redis_get key s2 = Some (RedisString ?tok)"
    using assms(4) [of ?s1] fn assms(3) by (simp add: redis_get_setex)
  ultimately show ?thesis by (simp add: releaseLock_def redis_del_if_equal_def)
qed

section \<open>Processes competing for one lock\<close>

text \<open>A process is outside, inside the body (its token and when it acquired), or done.\<close>

datatype phase = Outside | Inside string int | Refused | Finished

type_synonym lock_state = "db \<times> (nat \<Rightarrow> phase)"

text \<open>
  Concurrent holders draw different tokens (time and a random string).  The body of a process
  may change anything but the lock's own key.
\<close>

inductive lock_step :: "world \<Rightarrow> string \<Rightarrow> int \<Rightarrow> lock_state \<Rightarrow> lock_state \<Rightarrow> bool"
  for W key ttl where
  acquire: "ph i = Outside \<Longrightarrow> acquireLock W key ttl s = (Some tok, s') \<Longrightarrow>
     (\<forall>j u t. ph j = Inside u t \<longrightarrow> u \<noteq> tok) \<Longrightarrow>
     lock_step W key ttl (s, ph) (s', ph(i := Inside tok (clock s)))"
| refuse: "ph i = Outside \<Longrightarrow> acquireLock W key ttl s = (None, s') \<Longrightarrow>
     lock_step W key ttl (s, ph) (s', ph(i := Refused))"
| body: "ph i = Inside tok t \<Longrightarrow> clock s' = clock s \<Longrightarrow> redis_get key s' = redis_get key s \<Longrightarrow>
     map_of (redis s') key = map_of (redis s) key \<Longrightarrow>
     lock_step W key ttl (s, ph) (s', ph)"
| release: "ph i = Inside tok t \<Longrightarrow>
     lock_step W key ttl (s, ph) (releaseLock key tok s, ph(i := Finished))"
| wait: "0 \<le> d \<Longrightarrow> lock_step W key ttl (s, ph) (s\<lparr>clock := clock s + d\<rparr>, ph)"

inductive_cases lock_stepE: "lock_step W key ttl st st'"

inductive lock_reachable :: "world \<Rightarrow> string \<Rightarrow> int \<Rightarrow> db \<Rightarrow> lock_state \<Rightarrow> bool"
  for W key ttl s0 where
  start: "lock_reachable W key ttl s0 (s0, \<lambda>_. Outside)"
| step: "lock_reachable W key ttl s0 st \<Longrightarrow> lock_step W key ttl st st' \<Longrightarrow>
     lock_reachable W key ttl s0 st'"

text \<open>
  A process that has been inside for less than the time to live owns the key: Redis holds its
  token until its time is up.
\<close>

definition holds :: "string \<Rightarrow> int \<Rightarrow> db \<Rightarrow> string \<Rightarrow> int \<Rightarrow> bool" where
  "holds key ttl s tok t \<longleftrightarrow> map_of (redis s) key = Some (RedisString tok, Some (t + ttl * 1000))"

definition lock_ok :: "string \<Rightarrow> int \<Rightarrow> lock_state \<Rightarrow> bool" where
  "lock_ok key ttl = (\<lambda>(s, ph).
     (\<forall>i tok t. ph i = Inside tok t \<longrightarrow> clock s < t + ttl * 1000 \<longrightarrow> holds key ttl s tok t) \<and>
     (\<forall>i j tok t u. ph i = Inside tok t \<longrightarrow> ph j = Inside tok u \<longrightarrow> i = j))"

lemma holds_get: "holds key ttl s tok t \<Longrightarrow> clock s < t + ttl * 1000 \<Longrightarrow>
    redis_get key s = Some (RedisString tok)"
  by (simp add: holds_def redis_get_def live_def)

lemma lock_step_ok:
  assumes "lock_step W key ttl st st'" and "lock_ok key ttl st" and "0 < ttl"
  shows "lock_ok key ttl st'"
  using assms(1)
proof (cases rule: lock_step.cases)
  case (acquire ph i s tok s')
  from acquire(4) assms(3) have free: "redis_get key s = None" and tok: "tok = lock_token W s"
    and s': "s' = redis_setex key ttl (RedisString tok) (next_draw s)"
    by (auto elim: acquireLock_cases)
  have own: "holds key ttl s' tok (clock s)"
    by (simp add: holds_def s' redis_setex_def next_draw_def update_conv')
  have late: "\<not> clock s < t + ttl * 1000" if "ph j = Inside u t" for j u t
    using assms(2) that free holds_get [of key ttl s u t] acquire(1) by (auto simp: lock_ok_def)
  have ck: "clock s' = clock s" by (simp add: s' next_draw_def)
  have fresh: "ph j \<noteq> Inside tok t" for j t using acquire(5) by blast
  show ?thesis
    using own late assms(2) unfolding acquire(1,2) by (auto simp: lock_ok_def ck fresh)
next
  case (refuse ph i s s')
  then have s': "s' = next_draw s" using assms(3) by (auto elim: acquireLock_cases)
  with refuse assms(2) show ?thesis by (auto simp: lock_ok_def holds_def next_draw_def)
next
  case (body ph i tok t s' s)
  with assms(2) show ?thesis by (auto simp: lock_ok_def holds_def)
next
  case (release ph i tok t s)
  have other: "holds key ttl (releaseLock key tok s) u v"
    if "ph j = Inside u v" "j \<noteq> i" "clock s < v + ttl * 1000" for j u v
  proof -
    have h: "holds key ttl s u v" and "u \<noteq> tok"
      using assms(2) release that by (auto simp: lock_ok_def)
    then have "redis_get key s \<noteq> Some (RedisString tok)" using holds_get [OF h that(3)] by simp
    with h show ?thesis by (simp add: releaseLock_def redis_del_if_equal_def)
  qed
  have ph': "(ph(i := Finished)) j = Inside u v \<longleftrightarrow> ph j = Inside u v \<and> j \<noteq> i" for j u v by simp
  show ?thesis
    using other assms(2) unfolding release(2) lock_ok_def by (simp add: ph' release(1))
next
  case (wait d s ph)
  with assms(2) show ?thesis by (fastforce simp: lock_ok_def holds_def)
qed

lemma lock_reachable_ok:
  "lock_reachable W key ttl s0 st \<Longrightarrow> 0 < ttl \<Longrightarrow> lock_ok key ttl st"
  by (induction rule: lock_reachable.induct) (simp add: lock_ok_def, blast intro: lock_step_ok)

lemma lock_ok_exclusive:
  assumes "lock_ok key ttl (s, ph)" "ph i = Inside u t" "ph j = Inside v t'"
    and "clock s < t + ttl * 1000" "clock s < t' + ttl * 1000"
  shows "i = j"
proof -
  have "holds key ttl s u t" "holds key ttl s v t'" using assms by (auto simp: lock_ok_def)
  then have "u = v" by (simp add: holds_def)
  with assms show ?thesis by (auto simp: lock_ok_def)
qed

end
