(* ===== verification/Matches.thy ===== *)
theory Matches
  imports Notify Otp Lock Escrow
begin

text \<open>
  \<open>services/match.service.ts\<close>: the life of a match from the carrier's acceptance to the verified
  delivery, as handlers over the whole database.  Documents loaded once and saved later are saved
  with the fields the code assigned.  The theory Lifecycle states what the handlers allow.
\<close>

section \<open>Status maps\<close>

fun mapMatchStatusToDeliveryStatus :: "match_status \<Rightarrow> request_status" where
  "mapMatchStatusToDeliveryStatus Proposed = ReqMatched"
| "mapMatchStatusToDeliveryStatus CarrierAccepted = ReqMatched"
| "mapMatchStatusToDeliveryStatus SenderConfirmed = ReqMatched"
| "mapMatchStatusToDeliveryStatus Active = ReqMatched"
| "mapMatchStatusToDeliveryStatus PickupPending = ReqPickupOtpSent"
| "mapMatchStatusToDeliveryStatus PickedUp = ReqPickedUp"
| "mapMatchStatusToDeliveryStatus InTransit = ReqInTransit"
| "mapMatchStatusToDeliveryStatus DeliveryPending = ReqDeliveryOtpSent"
| "mapMatchStatusToDeliveryStatus Delivered = ReqDelivered"
| "mapMatchStatusToDeliveryStatus Cancelled = ReqCancelled"
| "mapMatchStatusToDeliveryStatus Disputed = ReqPending"

fun timelineEventMap :: "match_status \<Rightarrow> timeline_event" where
  "timelineEventMap Proposed = EvMatchProposed"
| "timelineEventMap CarrierAccepted = EvCarrierAccepted"
| "timelineEventMap SenderConfirmed = EvSenderConfirmed"
| "timelineEventMap Active = EvPaymentDone"
| "timelineEventMap PickupPending = EvPickupOtpGenerated"
| "timelineEventMap PickedUp = EvPickupVerified"
| "timelineEventMap InTransit = EvPickupVerified"
| "timelineEventMap DeliveryPending = EvDeliveryOtpGenerated"
| "timelineEventMap Delivered = EvDeliveryVerified"
| "timelineEventMap Cancelled = EvCancelled"
| "timelineEventMap Disputed = EvDisputed"

section \<open>updateMatchStatus\<close>

definition push_timeline :: "timeline_event \<Rightarrow> int \<Rightarrow> oid \<Rightarrow> json \<Rightarrow> match_doc \<Rightarrow> match_doc" where
  "push_timeline ev now actor meta mat =
     mat\<lparr>m_timeline := m_timeline mat @
       [\<lparr> te_event = ev, te_timestamp = now, te_actor = Some actor, te_metadata = meta \<rparr>]\<rparr>"

definition set_status :: "match_status \<Rightarrow> int \<Rightarrow> oid \<Rightarrow> (string \<times> json) list \<Rightarrow> match_doc \<Rightarrow> match_doc" where
  "set_status st now actor meta mat =
     push_timeline (timelineEventMap st) now actor
       (JObj (AList.update ''status'' (JStr (match_status_str st)) meta)) (mat\<lparr>m_status := st\<rparr>)"

definition status_payload :: "oid \<Rightarrow> match_status \<Rightarrow> int \<Rightarrow> json" where
  "status_payload mid st now =
     JObj [(''matchId'', JStr mid), (''status'', JStr (match_status_str st)), (''at'', JDate now)]"

definition status_event ::
  "oid \<Rightarrow> match_doc \<Rightarrow> match_status \<Rightarrow> match_status \<Rightarrow> oid \<Rightarrow> (string \<times> json) list \<Rightarrow> outbox_input" where
  "status_event mid mat previous st actor meta =
     event_input topic_match (getMatchStatusEventType (match_status_str st)) ''match'' mid
       (JObj [(''matchId'', JStr mid), (''tripId'', JStr (m_trip mat)),
              (''deliveryRequestId'', JStr (m_deliveryRequest mat)),
              (''carrierId'', JStr (m_carrier mat)), (''senderId'', JStr (m_sender mat)),
              (''previousStatus'', JStr (match_status_str previous)),
              (''status'', JStr (match_status_str st)), (''actorId'', JStr actor),
              (''metadata'', JObj meta)])"

definition announce_status ::
  "world \<Rightarrow> oid \<Rightarrow> match_doc \<Rightarrow> match_status \<Rightarrow> match_status \<Rightarrow> oid \<Rightarrow> (string \<times> json) list \<Rightarrow> db \<Rightarrow> db" where
  "announce_status W mid mat previous st actor meta s =
     (let payload = status_payload mid st (clock s)
      in appendOutboxEvents W [status_event mid mat previous st actor meta]
           (emitToMatch W mid ''match:status_changed'' payload
             (emitToUser W (m_sender mat) ''match:status_changed'' payload
               (emitToUser W (m_carrier mat) ''match:status_changed'' payload s))))"

definition set_request_status :: "request_status \<Rightarrow> delivery_request \<Rightarrow> delivery_request" where
  "set_request_status st r = r\<lparr>r_status := st\<rparr>"

definition updateMatchStatus ::
  "world \<Rightarrow> oid \<Rightarrow> match_status \<Rightarrow> oid \<Rightarrow> (string \<times> json) list \<Rightarrow> (db, match_doc) handler" where
  "updateMatchStatus W mid st actor meta s =
     (case findById (matches s) mid of
        None \<Rightarrow> (Inl (ApiError 404 ''Match not found''), s)
      | Some current \<Rightarrow>
          (let mat = set_status st (clock s) actor meta current;
               s1 = save_match mid mat s;
               s2 = update_request (m_deliveryRequest mat)
                      (set_request_status (mapMatchStatusToDeliveryStatus st)) s1
           in (Inr mat, announce_status W mid mat (m_status current) st actor meta s2)))"

section \<open>Shared guards\<close>

definition findMatch :: "oid \<Rightarrow> (db, match_doc) handler" where
  "findMatch mid = requireM (\<lambda>s. findById (matches s) mid) (ApiError 404 ''Match not found'')"

text \<open>
  The populated carrier and sender: a populated reference whose user is gone is null, and reading
  \<open>_id\<close> of it throws.
\<close>

definition ensureInvolved :: "oid \<Rightarrow> oid \<Rightarrow> (db, match_doc) handler" where
  "ensureInvolved mid usr =
     bindM (findMatch mid) (\<lambda>mat.
     thenM (requireM (\<lambda>s. findById (users s) (m_carrier mat)) (LibError ''TypeError''))
     (thenM (requireM (\<lambda>s. findById (users s) (m_sender mat)) (LibError ''TypeError''))
     (thenM (unlessM (m_carrier mat = usr \<or> m_sender mat = usr) (ApiError 403 ''Forbidden''))
     (retM mat))))"

definition getMatchById :: "oid \<Rightarrow> oid \<Rightarrow> (db, match_doc) handler" where
  "getMatchById mid usr = ensureInvolved mid usr"

definition match_id_json :: "oid \<Rightarrow> json" where
  "match_id_json mid = JObj [(''matchId'', JStr mid)]"

definition notify_match :: "world \<Rightarrow> oid \<Rightarrow> string \<Rightarrow> string \<Rightarrow> string \<Rightarrow> oid \<Rightarrow> (db, unit) handler" where
  "notify_match W usr title body ty mid =
     modM (notifyUser W \<lparr> np_userId = usr, np_title = title, np_body = body, np_type = ty,
                           np_metadata = Some (match_id_json mid) \<rparr>)"

section \<open>Acceptance, confirmation and rejection\<close>

definition carrierAccept_body :: "world \<Rightarrow> oid \<Rightarrow> oid \<Rightarrow> (db, match_doc) handler" where
  "carrierAccept_body W mid usr =
     bindM (findMatch mid) (\<lambda>mat.
     thenM (unlessM (m_carrier mat = usr) (ApiError 403 ''Forbidden''))
     (thenM (unlessM (m_status mat = Proposed) (ApiError 400 ''Match already processed''))
     (bindM (updateMatchStatus W mid CarrierAccepted (m_carrier mat) []) (\<lambda>updated.
     thenM (notify_match W (m_sender mat) ''Carrier Accepted''
              ''A carrier accepted your delivery request. Confirm to proceed.'' ''match'' mid)
     (thenM (modM (emitToUser W (m_sender mat) ''match:carrier_accepted'' (match_id_json mid)))
     (thenM (modM (emitToMatch W mid ''match:carrier_accepted'' (match_id_json mid)))
     (retM updated)))))))"

definition carrierAccept :: "world \<Rightarrow> oid \<Rightarrow> oid \<Rightarrow> (db, match_doc) handler" where
  "carrierAccept W mid usr =
     withLock W (''match:accept:'' @ mid) (carrierAccept_body W mid usr) LOCK_TTL_SECONDS"

definition carrierReject :: "world \<Rightarrow> oid \<Rightarrow> oid \<Rightarrow> (db, match_doc) handler" where
  "carrierReject W mid usr =
     bindM (findMatch mid) (\<lambda>mat.
     thenM (unlessM (m_carrier mat = usr) (ApiError 403 ''Forbidden''))
     (updateMatchStatus W mid Cancelled (m_carrier mat) [(''reason'', JStr ''carrier_rejected'')]))"

definition senderReject :: "world \<Rightarrow> oid \<Rightarrow> oid \<Rightarrow> (db, match_doc) handler" where
  "senderReject W mid usr =
     bindM (findMatch mid) (\<lambda>mat.
     thenM (unlessM (m_sender mat = usr) (ApiError 403 ''Forbidden''))
     (updateMatchStatus W mid Cancelled (m_sender mat) [(''reason'', JStr ''sender_rejected'')]))"

definition saveMatch :: "oid \<Rightarrow> match_doc \<Rightarrow> (db, unit) handler" where
  "saveMatch mid mat = modM (save_match mid mat)"

record confirm_result =
  cf_match :: match_doc
  cf_paymentRequired :: bool

text \<open>\<open>senderConfirm\<close> after its guards, with the request it loaded.\<close>

definition confirm_with :: "world \<Rightarrow> oid \<Rightarrow> match_doc \<Rightarrow> delivery_request \<Rightarrow> (db, confirm_result) handler" where
  "confirm_with W mid mat req =
     (let paid = (r_paymentStatus req = Paid) in
      bindM (updateMatchStatus W mid (if paid then Active else SenderConfirmed) (m_sender mat) []) (\<lambda>u0.
      bindM (readM clock) (\<lambda>now.
      let u1 = push_timeline EvSenderConfirmed now (m_sender mat) JUndef u0;
          updated = (if paid then push_timeline EvPaymentDone now (m_sender mat) JUndef u1 else u1)
      in thenM (whenM paid
           (bindM (readM (\<lambda>s. existsDoc (\<lambda>x. x_match x = Some mid \<and> x_type x = EscrowHold) (transactions s)))
             (\<lambda>existing. whenM (\<not> existing)
               (holdFunds W mid (num_or (r_totalCharge req) (m_agreedPrice mat)) SenderPayment))))
         (thenM (saveMatch mid updated)
         (thenM (modM (update_request (m_deliveryRequest mat) (\<lambda>r. r\<lparr>r_match := Some mid\<rparr>)))
         (thenM (notify_match W (m_carrier mat) ''Sender Confirmed Match''
             (if paid then ''Sender confirmed and paid. You can start pickup.''
              else ''Sender confirmed. Awaiting payment.'') ''match'' mid)
         (thenM (whenM paid
             (modM (emitToUser W (m_carrier mat) ''match:payment_received'' (match_id_json mid))))
         (thenM (modM (emitToMatch W mid
             (if paid then ''match:payment_received'' else ''notification:new'')
             (JObj [(''matchId'', JStr mid),
                    (''paymentStatus'', JStr (payment_status_str (r_paymentStatus req)))])))
         (retM \<lparr> cf_match = updated, cf_paymentRequired = (\<not> paid) \<rparr>)))))))))"

definition senderConfirm :: "world \<Rightarrow> oid \<Rightarrow> oid \<Rightarrow> (db, confirm_result) handler" where
  "senderConfirm W mid usr =
     bindM (findMatch mid) (\<lambda>mat.
     thenM (unlessM (m_sender mat = usr) (ApiError 403 ''Forbidden''))
     (thenM (unlessM (m_status mat = CarrierAccepted)
               (ApiError 400 ''Match must be accepted by carrier first''))
     (bindM (requireM (\<lambda>s. findById (requests s) (m_deliveryRequest mat))
               (ApiError 404 ''Delivery request missing'')) (\<lambda>req.
     confirm_with W mid mat req))))"

section \<open>Pickup\<close>

record otp_issued =
  oi_otp :: string
  oi_ttlSeconds :: int

definition generatePickupOtp :: "world \<Rightarrow> oid \<Rightarrow> oid \<Rightarrow> (db, otp_issued) handler" where
  "generatePickupOtp W mid usr =
     bindM (findMatch mid) (\<lambda>mat.
     thenM (unlessM (m_carrier mat = usr) (ApiError 403 ''Forbidden''))
     (bindM (requireM (\<lambda>s. findById (requests s) (m_deliveryRequest mat))
               (ApiError 404 ''Delivery request not found'')) (\<lambda>req.
     thenM (unlessM (r_paymentStatus req = Paid)
               (ApiError 400 ''Payment pending. Cannot generate pickup OTP yet.''))
     (bindM (generateOTP W (otpKeys_pickup mid)) (\<lambda>otp.
     bindM (updateMatchStatus W mid PickupPending (m_carrier mat) []) (\<lambda>u0.
     bindM (readM clock) (\<lambda>now.
     let updated = push_timeline EvPickupOtpGenerated now (m_carrier mat) JUndef
           (u0\<lparr>m_otpPickup := (m_otpPickup u0)\<lparr>os_generatedAt := Some now\<rparr>\<rparr>)
     in thenM (saveMatch mid updated)
        (thenM (modM (update_request (m_deliveryRequest mat) (set_request_status ReqPickupOtpSent)))
        (thenM (notify_match W (m_sender mat) ''Pickup OTP Generated''
            ''Carrier has generated pickup OTP. Verify to hand over package.'' ''otp'' mid)
        (thenM (modM (emitToUser W (m_carrier mat) ''otp:pickup_generated'' (match_id_json mid)))
        (thenM (modM (emitToMatch W mid ''otp:pickup_generated'' (match_id_json mid)))
        (retM \<lparr> oi_otp = otp, oi_ttlSeconds = 600 \<rparr>))))))))))))"

definition trip_status_json :: "oid \<Rightarrow> trip_status \<Rightarrow> json" where
  "trip_status_json tid st = JObj [(''tripId'', JStr tid), (''status'', JStr (trip_status_str st))]"

definition set_trip_status :: "trip_status \<Rightarrow> trip \<Rightarrow> trip" where
  "set_trip_status st t = t\<lparr>t_status := st\<rparr>"

definition emit_both :: "world \<Rightarrow> match_doc \<Rightarrow> string \<Rightarrow> json \<Rightarrow> (db, unit) handler" where
  "emit_both W mat ev payload =
     thenM (modM (emitToUser W (m_sender mat) ev payload))
       (modM (emitToUser W (m_carrier mat) ev payload))"

definition verifyPickupOtpForMatch :: "world \<Rightarrow> oid \<Rightarrow> oid \<Rightarrow> string \<Rightarrow> (db, match_doc) handler" where
  "verifyPickupOtpForMatch W mid usr otp =
     bindM (findMatch mid) (\<lambda>mat.
     thenM (unlessM (m_sender mat = usr) (ApiError 403 ''Only sender can verify pickup OTP''))
     (bindM (verifyOTP W (otpKeys_pickup mid) otp) (\<lambda>_.
     bindM (updateMatchStatus W mid PickedUp (m_sender mat) []) (\<lambda>u0.
     bindM (readM clock) (\<lambda>now.
     let updated = push_timeline EvPickupVerified now (m_sender mat) JUndef
           (u0\<lparr>m_otpPickup := (m_otpPickup u0)\<lparr>os_verifiedAt := Some now\<rparr>\<rparr>)
     in thenM (saveMatch mid updated)
        (thenM (modM (update_request (m_deliveryRequest mat) (set_request_status ReqPickedUp)))
        (thenM (modM (update_trip (m_trip mat) (set_trip_status TripInTransit)))
        (thenM (updateMatchStatus W mid InTransit (m_carrier mat) [])
        (thenM (emit_both W mat ''trip:status_changed'' (trip_status_json (m_trip mat) TripInTransit))
        (thenM (notify_match W (m_carrier mat) ''Pickup Verified''
            ''Package pickup verified. You are now in transit.'' ''otp'' mid)
        (thenM (emit_both W mat ''otp:pickup_verified'' (match_id_json mid))
        (thenM (modM (emitToMatch W mid ''otp:pickup_verified'' (match_id_json mid)))
        (retM updated)))))))))))))"

section \<open>Delivery\<close>

definition generateDeliveryOtp :: "world \<Rightarrow> oid \<Rightarrow> oid \<Rightarrow> (db, otp_issued) handler" where
  "generateDeliveryOtp W mid usr =
     bindM (findMatch mid) (\<lambda>mat.
     thenM (unlessM (m_carrier mat = usr) (ApiError 403 ''Forbidden''))
     (thenM (unlessM (m_status mat \<in> {PickedUp, InTransit, DeliveryPending})
               (ApiError 400 ''Delivery OTP can be generated only when in transit''))
     (bindM (generateOTP W (otpKeys_delivery mid)) (\<lambda>otp.
     bindM (updateMatchStatus W mid DeliveryPending (m_carrier mat) []) (\<lambda>u0.
     bindM (readM clock) (\<lambda>now.
     let updated = push_timeline EvDeliveryOtpGenerated now (m_carrier mat) JUndef
           (u0\<lparr>m_otpDelivery := (m_otpDelivery u0)\<lparr>os_generatedAt := Some now\<rparr>\<rparr>)
     in thenM (saveMatch mid updated)
        (thenM (modM (update_request (m_deliveryRequest mat) (set_request_status ReqDeliveryOtpSent)))
        (thenM (modM (emitToUser W (m_carrier mat) ''otp:delivery_generated'' (match_id_json mid)))
        (thenM (modM (emitToMatch W mid ''otp:delivery_generated'' (match_id_json mid)))
        (retM \<lparr> oi_otp = otp, oi_ttlSeconds = 600 \<rparr>))))))))))"

definition pending_on_trip :: "oid \<Rightarrow> match_doc \<Rightarrow> bool" where
  "pending_on_trip tid mat = (m_trip mat = tid \<and> m_status mat \<notin> {Delivered, Cancelled, Disputed})"

definition verifyDeliveryOtpForMatch :: "world \<Rightarrow> oid \<Rightarrow> oid \<Rightarrow> string \<Rightarrow> (db, match_doc) handler" where
  "verifyDeliveryOtpForMatch W mid usr otp =
     bindM (findMatch mid) (\<lambda>mat.
     thenM (unlessM (m_sender mat = usr)
       (ApiError 403 ''Forbidden: Only the sender or designated recipient can verify the delivery OTP''))
     (bindM (verifyOTP W (otpKeys_delivery mid) otp) (\<lambda>_.
     bindM (updateMatchStatus W mid Delivered usr []) (\<lambda>u0.
     bindM (readM clock) (\<lambda>now.
     let updated =
           push_timeline EvCompleted now (m_carrier mat) JUndef
             (push_timeline EvDeliveryVerified now (m_sender mat) JUndef
               (u0\<lparr>m_otpDelivery := (m_otpDelivery u0)\<lparr>os_verifiedAt := Some now\<rparr>\<rparr>))
     in thenM (saveMatch mid updated)
        (thenM (modM (update_request (m_deliveryRequest mat) (set_request_status ReqDelivered)))
        (bindM (readM (\<lambda>s. countDocuments (pending_on_trip (m_trip mat)) (matches s))) (\<lambda>pending.
         thenM (whenM (pending = 0)
           (thenM (modM (update_trip (m_trip mat) (set_trip_status TripCompleted)))
             (emit_both W mat ''trip:status_changed'' (trip_status_json (m_trip mat) TripCompleted))))
        (thenM (modM (add_job ''payoutQueue'' ''release-payout'' (match_id_json mid)
                       (ESCROW_RELEASE_DELAY_MS W)))
        (thenM (emit_both W mat ''otp:delivery_verified'' (match_id_json mid))
        (thenM (modM (emitToMatch W mid ''otp:delivery_verified'' (match_id_json mid)))
        (retM updated))))))))))))"

section \<open>Rating, dispute, Rapido\<close>

definition put_rating :: "bool \<Rightarrow> rating_entry \<Rightarrow> match_doc \<Rightarrow> match_doc" where
  "put_rating isSender e mat =
     (if isSender then mat\<lparr>m_senderRatedCarrier := Some e\<rparr> else mat\<lparr>m_carrierRatedSender := Some e\<rparr>)"

definition upsert_review :: "world \<Rightarrow> oid \<Rightarrow> oid \<Rightarrow> oid \<Rightarrow> int \<Rightarrow> string option \<Rightarrow> db \<Rightarrow> db" where
  "upsert_review W mid frm to score comment s =
     (case findOne (\<lambda>v. rv_match v = mid \<and> rv_from v = frm \<and> rv_to v = to) (reviews s) of
        Some (k, _) \<Rightarrow>
          s\<lparr>reviews := findByIdAndUpdate k (\<lambda>v. v\<lparr>rv_score := score, rv_comment := comment\<rparr>) (reviews s)\<rparr>
      | None \<Rightarrow>
          next_draw (s\<lparr>reviews := reviews s @
            [(newId W (draws s),
              \<lparr> rv_match = mid, rv_from = frm, rv_to = to, rv_score = score, rv_comment = comment \<rparr>)]\<rparr>))"

definition new_average :: "rat \<Rightarrow> int \<Rightarrow> int \<Rightarrow> rat" where
  "new_average avg cnt score =
     to_fixed 2 (jdiv (jadd (jmul (if avg = 0 then 5 else avg) (of_int cnt)) (of_int score))
                      (of_int (cnt + 1)))"

definition add_rating :: "int \<Rightarrow> user \<Rightarrow> user" where
  "add_rating score u =
     u\<lparr>u_ratingCount := u_ratingCount u + 1,
       u_ratingAverage := new_average (u_ratingAverage u) (u_ratingCount u) score\<rparr>"

definition rateMatch :: "world \<Rightarrow> oid \<Rightarrow> oid \<Rightarrow> int \<Rightarrow> string option \<Rightarrow> (db, match_doc) handler" where
  "rateMatch W mid usr score comment =
     bindM (findMatch mid) (\<lambda>mat.
     thenM (unlessM (m_status mat = Delivered) (ApiError 400 ''Rating allowed only after delivery''))
     (let isSender = (m_sender mat = usr);
          isCarrier = (m_carrier mat = usr);
          rated = (if isSender then m_carrier mat else m_sender mat)
      in thenM (unlessM (isSender \<or> isCarrier) (ApiError 403 ''Forbidden''))
         (thenM (unlessM (\<not> (isSender \<and> m_senderRatedCarrier mat \<noteq> None))
            (ApiError 400 ''You have already submitted a rating for this delivery''))
         (thenM (unlessM (\<not> (isCarrier \<and> m_carrierRatedSender mat \<noteq> None))
            (ApiError 400 ''You have already submitted a rating for this sender''))
         (bindM (readM clock) (\<lambda>now.
          let updated = put_rating isSender
                \<lparr> re_score = score, re_comment = comment, re_at = now \<rparr> mat
          in thenM (saveMatch mid updated)
             (thenM (modM (upsert_review W mid usr rated score comment))
             (thenM (modM (update_user rated (add_rating score)))
             (retM updated)))))))))"

definition disputeMatch :: "world \<Rightarrow> oid \<Rightarrow> oid \<Rightarrow> string \<Rightarrow> string \<Rightarrow> (db, match_doc) handler" where
  "disputeMatch W mid usr reason description =
     bindM (ensureInvolved mid usr) (\<lambda>mat.
     bindM (updateMatchStatus W mid Disputed (if usr = m_carrier mat then m_carrier mat else m_sender mat)
              [(''reason'', JStr reason), (''description'', JStr description)]) (\<lambda>updated.
     thenM (modM (emitToMatch W mid ''notification:new''
              (JObj [(''type'', JStr ''dispute''), (''matchId'', JStr mid), (''reason'', JStr reason)])))
     (retM updated)))"

text \<open>The JSON body posted to the Rapido API; the answer is the API's.\<close>

definition bookRapido ::
  "world \<Rightarrow> oid \<Rightarrow> rat \<times> rat \<Rightarrow> string \<Rightarrow>
     (db, string option \<times> string option \<times> string option) handler" where
  "bookRapido W mid coords dropAddress s =
     (case rapidoBook W mid
         (JObj [(''pickup'', JObj [(''lat'', JNum (snd coords)), (''lng'', JNum (fst coords))]),
                (''drop'', JObj [(''address'', JStr dropAddress)]), (''vehicleType'', JStr ''auto''),
                (''metadata'', JObj [(''hopdrop_match_id'', JStr mid)])]) dropAddress of
        Inl e \<Rightarrow> (Inl e, s) | Inr a \<Rightarrow> (Inr a, s))"

definition requestRapidoForMatch ::
  "world \<Rightarrow> oid \<Rightarrow> oid \<Rightarrow> rat \<times> rat \<Rightarrow> string \<Rightarrow> (db, match_doc) handler" where
  "requestRapidoForMatch W mid usr coords dropAddress =
     bindM (findMatch mid) (\<lambda>mat.
     thenM (unlessM (m_carrier mat = usr) (ApiError 403 ''Only carrier can request Rapido''))
     (bindM (bookRapido W mid coords dropAddress) (\<lambda>(bookingId, rid, status).
      bindM (readM clock) (\<lambda>now.
      let bid = (if truthy_str bookingId then bookingId else rid);
          updated = push_timeline EvRapidoBooked now (m_carrier mat)
            (JObj [(''bookingId'', jopt JStr bid)])
            (mat\<lparr>m_rapido := \<lparr> ra_requested = True, ra_bookingId = bid,
                               ra_status = Some (str_or status ''booked'') \<rparr>\<rparr>)
      in thenM (saveMatch mid updated)
         (thenM (modM (emitToMatch W mid ''notification:new''
            (JObj [(''type'', JStr ''rapido''), (''matchId'', JStr mid), (''bookingId'', jopt JStr bid)])))
         (retM updated))))))"

section \<open>queues/payoutQueue\<close>

definition payout_job :: "world \<Rightarrow> string \<Rightarrow> oid \<Rightarrow> (db, unit) handler" where
  "payout_job W name mid s =
     (if name \<noteq> ''release-payout'' then (Inr (), s)
      else case findById (matches s) mid of
             None \<Rightarrow> (Inr (), s)
           | Some mat \<Rightarrow>
               if m_status mat = Disputed then (Inr (), s)
               else thenM (releaseFunds W mid) (retM ()) s)"

end
