(* ===== verification/Lifecycle.thy ===== *)
theory Lifecycle
  imports Matches
begin

text \<open>
  The state machine of a match.  \<open>match_op\<close> names every handler of match.service with its
  arguments and \<open>exec\<close> runs it; \<open>allowed\<close> is the table of the status changes the handlers may
  make, with the party that may make them.  The facts: every handler follows the table
  (refinement), no handler touches another match or the identity of one, timelines only grow, and
  a match is never delivered unless its pickup has been verified.
\<close>

section \<open>Operations\<close>

datatype match_op =
    CarrierAccept oid oid
  | CarrierReject oid oid
  | SenderConfirm oid oid
  | SenderReject oid oid
  | GeneratePickupOtp oid oid
  | VerifyPickupOtp oid oid string
  | GenerateDeliveryOtp oid oid
  | VerifyDeliveryOtp oid oid string
  | RateMatch oid oid int "string option"
  | DisputeMatch oid oid string string
  | RequestRapido oid oid "rat \<times> rat" string
  | PayoutJob string oid

fun exec :: "world \<Rightarrow> match_op \<Rightarrow> db \<Rightarrow> db" where
  "exec W (CarrierAccept mid usr) s = snd (carrierAccept W mid usr s)"
| "exec W (CarrierReject mid usr) s = snd (carrierReject W mid usr s)"
| "exec W (SenderConfirm mid usr) s = snd (senderConfirm W mid usr s)"
| "exec W (SenderReject mid usr) s = snd (senderReject W mid usr s)"
| "exec W (GeneratePickupOtp mid usr) s = snd (generatePickupOtp W mid usr s)"
| "exec W (VerifyPickupOtp mid usr otp) s = snd (verifyPickupOtpForMatch W mid usr otp s)"
| "exec W (GenerateDeliveryOtp mid usr) s = snd (generateDeliveryOtp W mid usr s)"
| "exec W (VerifyDeliveryOtp mid usr otp) s = snd (verifyDeliveryOtpForMatch W mid usr otp s)"
| "exec W (RateMatch mid usr score c) s = snd (rateMatch W mid usr score c s)"
| "exec W (DisputeMatch mid usr reason d) s = snd (disputeMatch W mid usr reason d s)"
| "exec W (RequestRapido mid usr coords a) s = snd (requestRapidoForMatch W mid usr coords a s)"
| "exec W (PayoutJob name mid) s = snd (payout_job W name mid s)"

fun op_match :: "match_op \<Rightarrow> oid" where
  "op_match (CarrierAccept mid _) = mid"
| "op_match (CarrierReject mid _) = mid"
| "op_match (SenderConfirm mid _) = mid"
| "op_match (SenderReject mid _) = mid"
| "op_match (GeneratePickupOtp mid _) = mid"
| "op_match (VerifyPickupOtp mid _ _) = mid"
| "op_match (GenerateDeliveryOtp mid _) = mid"
| "op_match (VerifyDeliveryOtp mid _ _) = mid"
| "op_match (RateMatch mid _ _ _) = mid"
| "op_match (DisputeMatch mid _ _ _) = mid"
| "op_match (RequestRapido mid _ _ _) = mid"
| "op_match (PayoutJob _ mid) = mid"

text \<open>The table: the party allowed, the status left and the status reached.\<close>

fun allowed :: "match_op \<Rightarrow> match_doc \<Rightarrow> match_status \<Rightarrow> bool" where
  "allowed (CarrierAccept _ usr) m st = (m_carrier m = usr \<and> m_status m = Proposed \<and> st = CarrierAccepted)"
| "allowed (CarrierReject _ usr) m st = (m_carrier m = usr \<and> st = Cancelled)"
| "allowed (SenderConfirm _ usr) m st =
     (m_sender m = usr \<and> m_status m = CarrierAccepted \<and> (st = SenderConfirmed \<or> st = Active))"
| "allowed (SenderReject _ usr) m st = (m_sender m = usr \<and> st = Cancelled)"
| "allowed (GeneratePickupOtp _ usr) m st = (m_carrier m = usr \<and> st = PickupPending)"
| "allowed (VerifyPickupOtp _ usr _) m st = (m_sender m = usr \<and> st = InTransit)"
| "allowed (GenerateDeliveryOtp _ usr) m st =
     (m_carrier m = usr \<and> m_status m \<in> {PickedUp, InTransit, DeliveryPending} \<and> st = DeliveryPending)"
| "allowed (VerifyDeliveryOtp _ usr _) m st = (m_sender m = usr \<and> st = Delivered)"
| "allowed (DisputeMatch _ usr _ _) m st = ((m_carrier m = usr \<or> m_sender m = usr) \<and> st = Disputed)"
| "allowed _ m st = False"

section \<open>How the announcements compose\<close>

lemma chain_events:
  "\<exists>es. b = a @ es \<and> fresh_pending es \<Longrightarrow> \<exists>es. c = b @ es \<and> fresh_pending es \<Longrightarrow>
   \<exists>es. c = a @ es \<and> fresh_pending es"
  by (auto simp: fresh_pending_def)

interpretation announce_status: announcer "announce_status W mid mat p st a meta"
  for W mid mat p st a meta
proof (unfold_locales, simp_all add: announce_status_def Let_def, rule chain_events)
  fix s :: db
  let ?p = "status_payload mid st (clock s)" and ?ev = "''match:status_changed''"
  let ?t = "emitToUser W (m_sender mat) ?ev ?p (emitToUser W (m_carrier mat) ?ev ?p s)"
  show "\<exists>es. outbox (emitToMatch W mid ?ev ?p ?t) = outbox s @ es \<and> fresh_pending es"
    by (rule chain_events [OF chain_events [OF emitToUser.appends emitToUser.appends]
          emitToMatch.appends])
qed (rule append.appends)

section \<open>What a handler may do to the matches\<close>

definition match_kept :: "match_doc \<Rightarrow> match_doc \<Rightarrow> bool" where
  "match_kept m m' \<longleftrightarrow>
     m_trip m' = m_trip m \<and> m_deliveryRequest m' = m_deliveryRequest m \<and>
     m_carrier m' = m_carrier m \<and> m_sender m' = m_sender m \<and>
     m_agreedPrice m' = m_agreedPrice m \<and> m_createdAt m' = m_createdAt m \<and>
     (\<exists>new. m_timeline m' = m_timeline m @ new)"

lemma match_kept_refl [simp]: "match_kept m m"
  by (simp add: match_kept_def)

lemma match_kept_trans: "match_kept m m' \<Longrightarrow> match_kept m' m'' \<Longrightarrow> match_kept m m''"
  by (auto simp: match_kept_def)

definition follows :: "(match_doc \<Rightarrow> match_status \<Rightarrow> bool) \<Rightarrow> oid \<Rightarrow> db \<Rightarrow> db \<Rightarrow> bool" where
  "follows R mid s s' \<longleftrightarrow>
     (\<forall>k. k \<noteq> mid \<longrightarrow> findById (matches s') k = findById (matches s) k) \<and>
     (\<forall>m. findById (matches s) mid = Some m \<longrightarrow>
        (\<exists>m'. findById (matches s') mid = Some m' \<and> match_kept m m' \<and>
           (m_status m' = m_status m \<or> R m (m_status m')))) \<and>
     (findById (matches s) mid = None \<longrightarrow> findById (matches s') mid = None)"

lemma follows_same: "matches s' = matches s \<Longrightarrow> follows R mid s s'"
  by (simp add: follows_def)

lemma status_set_status [simp]: "m_status (set_status st now a meta m) = st"
  by (simp add: set_status_def push_timeline_def)

lemma status_push [simp]: "m_status (push_timeline ev now a j m) = m_status m"
  by (simp add: push_timeline_def)

lemmas doc_defs = match_kept_def set_status_def push_timeline_def

lemmas handler_defs =
  findMatch_def notify_match_def saveMatch_def emit_both_def Let_def updateMatchStatus_def

lemmas handler_splits = option.splits prod.splits sum.splits if_splits

lemma carrierAccept_body_follows:
  "follows (allowed (CarrierAccept mid usr)) mid s (snd (carrierAccept_body W mid usr s))"
  by (auto simp: carrierAccept_body_def handler_defs run_simps follows_def doc_defs split: option.splits)

lemma carrierReject_follows:
  "follows (allowed (CarrierReject mid usr)) mid s (snd (carrierReject W mid usr s))"
  by (auto simp: carrierReject_def handler_defs run_simps follows_def doc_defs split: option.splits)

lemma senderReject_follows:
  "follows (allowed (SenderReject mid usr)) mid s (snd (senderReject W mid usr s))"
  by (auto simp: senderReject_def handler_defs run_simps follows_def doc_defs split: option.splits)

lemma disputeMatch_follows:
  "follows (allowed (DisputeMatch mid usr r d)) mid s (snd (disputeMatch W mid usr r d s))"
  by (auto simp: disputeMatch_def ensureInvolved_def handler_defs run_simps follows_def doc_defs
      split: option.splits)

lemma upsert_review_frames [simp]:
  "matches (upsert_review W mid f to sc c s) = matches s"
  "requests (upsert_review W mid f to sc c s) = requests s"
  "transactions (upsert_review W mid f to sc c s) = transactions s"
  "users (upsert_review W mid f to sc c s) = users s"
  "trips (upsert_review W mid f to sc c s) = trips s"
  "redis (upsert_review W mid f to sc c s) = redis s"
  "clock (upsert_review W mid f to sc c s) = clock s"
  by (simp_all add: upsert_review_def split: option.splits)

lemma rateMatch_matches:
  "snd (rateMatch W mid usr sc c s) = s \<or>
   (\<exists>m e b. findById (matches s) mid = Some m \<and>
     matches (snd (rateMatch W mid usr sc c s)) = saveDoc mid (put_rating b e m) (matches s))"
proof (cases "findById (matches s) mid")
  case None
  then show ?thesis by (simp add: rateMatch_def findMatch_def run_simps)
next
  case (Some m)
  let ?g = "m_status m = Delivered \<and> (m_sender m = usr \<or> m_carrier m = usr) \<and>
     \<not> (m_sender m = usr \<and> m_senderRatedCarrier m \<noteq> None) \<and>
     \<not> (m_carrier m = usr \<and> m_carrierRatedSender m \<noteq> None)"
  show ?thesis
  proof (cases ?g)
    case True
    let ?m = "put_rating (m_sender m = usr) \<lparr> re_score = sc, re_comment = c, re_at = clock s \<rparr> m"
    from True Some have "matches (snd (rateMatch W mid usr sc c s)) = saveDoc mid ?m (matches s)"
      by (auto simp: rateMatch_def findMatch_def saveMatch_def Let_def run_simps)
    with Some show ?thesis by blast
  next
    case False
    with Some have "snd (rateMatch W mid usr sc c s) = s"
      by (auto simp: rateMatch_def findMatch_def Let_def run_simps)
    then show ?thesis ..
  qed
qed

lemma rateMatch_follows: "follows (allowed (RateMatch mid usr sc c)) mid s (snd (rateMatch W mid usr sc c s))"
  using rateMatch_matches [of W mid usr sc c s]
  by (auto simp: follows_same) (auto simp: follows_def match_kept_def put_rating_def)

lemma requestRapido_follows:
  "follows (allowed (RequestRapido mid usr co a)) mid s (snd (requestRapidoForMatch W mid usr co a s))"
  by (auto simp: requestRapidoForMatch_def bookRapido_def handler_defs run_simps follows_def doc_defs
      split: option.splits sum.splits)

lemma generatePickupOtp_follows:
  "follows (allowed (GeneratePickupOtp mid usr)) mid s (snd (generatePickupOtp W mid usr s))"
  by (auto simp: generatePickupOtp_def handler_defs run_simps follows_def doc_defs generateOTP_def
      split: option.splits)

lemma generateDeliveryOtp_follows:
  "follows (allowed (GenerateDeliveryOtp mid usr)) mid s (snd (generateDeliveryOtp W mid usr s))"
  by (auto simp: generateDeliveryOtp_def handler_defs run_simps follows_def doc_defs generateOTP_def
      split: option.splits)

text \<open>The two verifications, after the guards and the OTP.\<close>

lemma verifyPickup_refused:
  assumes "findById (matches s) mid = None \<or>
     (\<exists>m. findById (matches s) mid = Some m \<and>
        (m_sender m \<noteq> usr \<or> (\<exists>e s1. verifyOTP W (otpKeys_pickup mid) otp s = (Inl e, s1))))"
  shows "matches (snd (verifyPickupOtpForMatch W mid usr otp s)) = matches s"
proof -
  obtain r s1 where v: "verifyOTP W (otpKeys_pickup mid) otp s = (r, s1)" by fastforce
  moreover have "matches s1 = matches s" using verifyOTP_frame(4) [of W "otpKeys_pickup mid" otp s] v by simp
  ultimately show ?thesis
    using assms by (auto simp: verifyPickupOtpForMatch_def findMatch_def run_simps)
qed

lemma verifyDelivery_refused:
  assumes "findById (matches s) mid = None \<or>
     (\<exists>m. findById (matches s) mid = Some m \<and>
        (m_sender m \<noteq> usr \<or> (\<exists>e s1. verifyOTP W (otpKeys_delivery mid) otp s = (Inl e, s1))))"
  shows "matches (snd (verifyDeliveryOtpForMatch W mid usr otp s)) = matches s"
proof -
  obtain r s1 where v: "verifyOTP W (otpKeys_delivery mid) otp s = (r, s1)" by fastforce
  moreover have "matches s1 = matches s" using verifyOTP_frame(4) [of W "otpKeys_delivery mid" otp s] v by simp
  ultimately show ?thesis
    using assms by (auto simp: verifyDeliveryOtpForMatch_def findMatch_def run_simps)
qed

definition picked_up_doc :: "int \<Rightarrow> match_doc \<Rightarrow> match_doc" where
  "picked_up_doc now m =
     (let u0 = set_status PickedUp now (m_sender m) [] m in
      set_status InTransit now (m_carrier m) []
        (push_timeline EvPickupVerified now (m_sender m) JUndef
          (u0\<lparr>m_otpPickup := (m_otpPickup u0)\<lparr>os_verifiedAt := Some now\<rparr>\<rparr>)))"

lemma verifyPickup_accepted:
  assumes "findById (matches s) mid = Some m" "m_sender m = usr"
    and "verifyOTP W (otpKeys_pickup mid) otp s = (Inr b, s1)"
  shows "matches (snd (verifyPickupOtpForMatch W mid usr otp s)) =
      saveDoc mid (picked_up_doc (clock s) m) (matches s)"
    and "redis (snd (verifyPickupOtpForMatch W mid usr otp s)) = redis s1"
    and "clock (snd (verifyPickupOtpForMatch W mid usr otp s)) = clock s"
proof -
  have f: "matches s1 = matches s" "clock s1 = clock s"
    using verifyOTP_frame(4,8) [of W "otpKeys_pickup mid" otp s] assms(3) by simp_all
  show "matches (snd (verifyPickupOtpForMatch W mid usr otp s)) =
      saveDoc mid (picked_up_doc (clock s) m) (matches s)"
    "redis (snd (verifyPickupOtpForMatch W mid usr otp s)) = redis s1"
    "clock (snd (verifyPickupOtpForMatch W mid usr otp s)) = clock s"
    using assms f
    by (simp_all add: verifyPickupOtpForMatch_def handler_defs run_simps picked_up_doc_def)
qed

definition delivered_doc :: "int \<Rightarrow> oid \<Rightarrow> match_doc \<Rightarrow> match_doc" where
  "delivered_doc now usr m =
     (let u0 = set_status Delivered now usr [] m in
      push_timeline EvCompleted now (m_carrier m) JUndef
        (push_timeline EvDeliveryVerified now (m_sender m) JUndef
          (u0\<lparr>m_otpDelivery := (m_otpDelivery u0)\<lparr>os_verifiedAt := Some now\<rparr>\<rparr>)))"

lemma verifyDelivery_accepted:
  assumes "findById (matches s) mid = Some m" "m_sender m = usr"
    and "verifyOTP W (otpKeys_delivery mid) otp s = (Inr b, s1)"
  shows "matches (snd (verifyDeliveryOtpForMatch W mid usr otp s)) =
      saveDoc mid (delivered_doc (clock s) usr m) (matches s)"
    and "redis (snd (verifyDeliveryOtpForMatch W mid usr otp s)) = redis s1"
    and "clock (snd (verifyDeliveryOtpForMatch W mid usr otp s)) = clock s"
    and "jobs (snd (verifyDeliveryOtpForMatch W mid usr otp s)) =
      jobs s @ [\<lparr> j_queue = ''payoutQueue'', j_name = ''release-payout'',
                  j_data = match_id_json mid, j_delay = ESCROW_RELEASE_DELAY_MS W \<rparr>]"
proof -
  have f: "matches s1 = matches s" "clock s1 = clock s" "jobs s1 = jobs s"
    using verifyOTP_frame(4,7,8) [of W "otpKeys_delivery mid" otp s] assms(3) by simp_all
  show "matches (snd (verifyDeliveryOtpForMatch W mid usr otp s)) =
      saveDoc mid (delivered_doc (clock s) usr m) (matches s)"
    "redis (snd (verifyDeliveryOtpForMatch W mid usr otp s)) = redis s1"
    "clock (snd (verifyDeliveryOtpForMatch W mid usr otp s)) = clock s"
    "jobs (snd (verifyDeliveryOtpForMatch W mid usr otp s)) =
      jobs s @ [\<lparr> j_queue = ''payoutQueue'', j_name = ''release-payout'',
                  j_data = match_id_json mid, j_delay = ESCROW_RELEASE_DELAY_MS W \<rparr>]"
    using assms f
    by (simp_all add: verifyDeliveryOtpForMatch_def handler_defs run_simps delivered_doc_def)
qed

lemma verifyPickup_follows:
  "follows (allowed (VerifyPickupOtp mid usr otp)) mid s (snd (verifyPickupOtpForMatch W mid usr otp s))"
proof -
  obtain r s1 where v: "verifyOTP W (otpKeys_pickup mid) otp s = (r, s1)" by fastforce
  show ?thesis
  proof (cases "\<exists>m b. findById (matches s) mid = Some m \<and> m_sender m = usr \<and> r = Inr b")
    case True
    then obtain m b where m: "findById (matches s) mid = Some m" "m_sender m = usr" and "r = Inr b" by blast
    with verifyPickup_accepted(1) [OF m, of W otp b s1] v show ?thesis
      by (simp add: follows_def picked_up_doc_def doc_defs Let_def)
  next
    case False
    then show ?thesis
      using v by (intro follows_same verifyPickup_refused) (cases r; cases "findById (matches s) mid"; auto)
  qed
qed

lemma verifyDelivery_follows:
  "follows (allowed (VerifyDeliveryOtp mid usr otp)) mid s (snd (verifyDeliveryOtpForMatch W mid usr otp s))"
proof -
  obtain r s1 where v: "verifyOTP W (otpKeys_delivery mid) otp s = (r, s1)" by fastforce
  show ?thesis
  proof (cases "\<exists>m b. findById (matches s) mid = Some m \<and> m_sender m = usr \<and> r = Inr b")
    case True
    then obtain m b where m: "findById (matches s) mid = Some m" "m_sender m = usr" and "r = Inr b" by blast
    with verifyDelivery_accepted(1) [OF m, of W otp b s1] v show ?thesis
      by (simp add: follows_def delivered_doc_def doc_defs Let_def)
  next
    case False
    then show ?thesis
      using v by (intro follows_same verifyDelivery_refused) (cases r; cases "findById (matches s) mid"; auto)
  qed
qed

text \<open>A confirmation writes one of two documents, and stops early only if the hold fails.\<close>

lemma confirm_with_cases:
  assumes "findById (matches s) mid = Some m"
  obtains m' where "matches (snd (confirm_with W mid m req s)) = saveDoc mid m' (matches s)"
    "match_kept m m'" "m_status m' = (if r_paymentStatus req = Paid then Active else SenderConfirmed)"
    "redis (snd (confirm_with W mid m req s)) = redis s"
proof -
  let ?st = "if r_paymentStatus req = Paid then Active else SenderConfirmed"
  let ?u0 = "set_status ?st (clock s) (m_sender m) [] m"
  let ?u1 = "push_timeline EvSenderConfirmed (clock s) (m_sender m) JUndef ?u0"
  let ?u2 = "push_timeline EvPaymentDone (clock s) (m_sender m) JUndef ?u1"
  obtain s1 where u: "updateMatchStatus W mid ?st (m_sender m) [] s = (Inr ?u0, s1)"
    and f: "matches s1 = saveDoc mid ?u0 (matches s)" "redis s1 = redis s" "clock s1 = clock s"
    using assms by (simp add: updateMatchStatus_def Let_def)
  let ?h = "holdFunds W mid (num_or (r_totalCharge req) (m_agreedPrice m)) SenderPayment s1"
  obtain q h where h: "?h = (q, h)" by fastforce
  have hf: "matches h = matches s1" "redis h = redis s1" "clock h = clock s1"
    using holdFunds_frame [of W mid "num_or (r_totalCharge req) (m_agreedPrice m)" SenderPayment s1] h
    by simp_all
  have k: "match_kept m ?u0" "match_kept m ?u1" "match_kept m ?u2" by (simp_all add: doc_defs)
  have "(\<exists>m' \<in> {?u0, ?u1, ?u2}.
      matches (snd (confirm_with W mid m req s)) = saveDoc mid m' (matches s)) \<and>
      redis (snd (confirm_with W mid m req s)) = redis s"
    using u f hf h
    by (cases q; cases "r_paymentStatus req = Paid")
       (simp_all add: confirm_with_def notify_match_def saveMatch_def Let_def run_simps)
  with k show thesis by (elim bexE conjE) (auto intro!: that)
qed

lemma senderConfirm_follows:
  "follows (allowed (SenderConfirm mid usr)) mid s (snd (senderConfirm W mid usr s))"
proof (cases "findById (matches s) mid")
  case None
  then show ?thesis by (intro follows_same) (simp add: senderConfirm_def findMatch_def run_simps)
next
  case (Some m)
  let ?g = "m_sender m = usr \<and> m_status m = CarrierAccepted"
  show ?thesis
  proof (cases "findById (requests s) (m_deliveryRequest m)")
    case None
    with Some show ?thesis
      by (intro follows_same) (simp add: senderConfirm_def findMatch_def run_simps)
  next
    case req: (Some req)
    show ?thesis
    proof (cases ?g)
      case True
      have eq: "senderConfirm W mid usr s = confirm_with W mid m req s"
        using Some req True by (simp add: senderConfirm_def findMatch_def run_simps)
      show ?thesis
        by (rule confirm_with_cases [OF Some, of W req]) (simp add: eq follows_def Some True)
    next
      case False
      with Some req show ?thesis
        by (intro follows_same) (auto simp: senderConfirm_def findMatch_def run_simps)
    qed
  qed
qed

lemma release_follows: "release_frame mid s t \<Longrightarrow> follows R mid s t"
  by (auto simp: release_frame_def follows_def match_kept_def elim!: option.rel_cases)

lemma payout_job_state:
  "snd (payout_job W n mid s) = s \<or> snd (payout_job W n mid s) = snd (releaseFunds W mid s)"
  by (auto simp: payout_job_def thenM_run split: option.splits prod.splits sum.splits)

lemma payout_job_follows: "follows (allowed (PayoutJob n mid)) mid s (snd (payout_job W n mid s))"
  using payout_job_state [of W n mid s] release_follows [OF releaseFunds_frame]
  by (auto simp: follows_same)

lemma carrierAccept_follows:
  "follows (allowed (CarrierAccept mid usr)) mid s (snd (carrierAccept W mid usr s))"
proof -
  have ttl: "0 < LOCK_TTL_SECONDS" by (simp add: LOCK_TTL_SECONDS_def)
  from ttl show ?thesis
  proof (cases rule: withLock_cases [where W = W and key = "''match:accept:'' @ mid"
        and fn = "carrierAccept_body W mid usr" and s = s])
    case (refused s1)
    then show ?thesis by (intro follows_same) (simp add: carrierAccept_def same_data_def)
  next
    case (ran s1)
    with carrierAccept_body_follows [of mid usr s1 W] show ?thesis
      by (simp add: carrierAccept_def follows_def same_data_def)
  qed
qed

section \<open>Every handler follows the table\<close>

lemma exec_follows: "follows (allowed op) (op_match op) s (exec W op s)"
  by (cases op)
     (simp_all only: exec.simps op_match.simps carrierAccept_follows carrierReject_follows
        senderConfirm_follows senderReject_follows generatePickupOtp_follows verifyPickup_follows
        generateDeliveryOtp_follows verifyDelivery_follows rateMatch_follows disputeMatch_follows
        requestRapido_follows payout_job_follows)

section \<open>No delivery without a verified pickup\<close>

definition pickup_verified :: "match_doc \<Rightarrow> bool" where
  "pickup_verified m \<longleftrightarrow> EvPickupVerified \<in> te_event ` set (m_timeline m)"

definition after_pickup :: "match_status \<Rightarrow> bool" where
  "after_pickup st = (st \<in> {PickedUp, InTransit, DeliveryPending, Delivered})"

definition delivery_key :: "oid \<Rightarrow> string" where
  "delivery_key mid = otp_key (otpKeys_delivery mid)"

definition journey :: "db \<Rightarrow> bool" where
  "journey s \<longleftrightarrow>
     (\<forall>mid m. findById (matches s) mid = Some m \<longrightarrow> after_pickup (m_status m) \<longrightarrow> pickup_verified m) \<and>
     (\<forall>mid. map_of (redis s) (delivery_key mid) \<noteq> None \<longrightarrow>
        (\<exists>m. findById (matches s) mid = Some m \<and> pickup_verified m))"

lemma pickup_verified_kept: "match_kept m m' \<Longrightarrow> pickup_verified m \<Longrightarrow> pickup_verified m'"
  by (auto simp: match_kept_def pickup_verified_def)

text \<open>A step that follows a table without late states and issues no delivery OTP keeps it.\<close>

definition no_new_otp :: "db \<Rightarrow> db \<Rightarrow> bool" where
  "no_new_otp s s' \<longleftrightarrow>
     (\<forall>d. map_of (redis s') (delivery_key d) \<noteq> None \<longrightarrow> map_of (redis s) (delivery_key d) \<noteq> None)"

lemma journey_follows:
  assumes J: "journey s" and F: "follows R mid s s'"
    and O: "\<And>d. map_of (redis s') (delivery_key d) \<noteq> None \<Longrightarrow>
      map_of (redis s) (delivery_key d) \<noteq> None \<or>
      (\<exists>m'. findById (matches s') d = Some m' \<and> pickup_verified m')"
    and R: "\<And>m m'. findById (matches s) mid = Some m \<Longrightarrow> findById (matches s') mid = Some m' \<Longrightarrow>
      match_kept m m' \<Longrightarrow> R m (m_status m') \<Longrightarrow> after_pickup (m_status m') \<Longrightarrow> pickup_verified m'"
  shows "journey s'"
  unfolding journey_def
proof (intro conjI allI impI)
  have grow: "\<exists>m'. findById (matches s') k = Some m' \<and> pickup_verified m'"
    if "findById (matches s) k = Some m" "pickup_verified m" for k m
    using that F by (cases "k = mid") (auto simp: follows_def intro: pickup_verified_kept)
  fix k
  assume "map_of (redis s') (delivery_key k) \<noteq> None"
  from O [OF this] show "\<exists>m. findById (matches s') k = Some m \<and> pickup_verified m"
  proof
    assume "map_of (redis s) (delivery_key k) \<noteq> None"
    with J obtain m where "findById (matches s) k = Some m" "pickup_verified m"
      unfolding journey_def by blast
    then show ?thesis by (rule grow)
  qed
next
  fix k m'
  assume m': "findById (matches s') k = Some m'" "after_pickup (m_status m')"
  then obtain m where m: "findById (matches s) k = Some m" "match_kept m m'"
    and c: "k \<noteq> mid \<and> m' = m \<or> k = mid \<and> (m_status m' = m_status m \<or> R m (m_status m'))"
    using F by (cases "k = mid"; cases "findById (matches s) k") (auto simp: follows_def)
  show "pickup_verified m'"
  proof (cases "m_status m' = m_status m")
    case True
    with J m m' have "pickup_verified m" by (auto simp: journey_def)
    with m(2) show ?thesis by (rule pickup_verified_kept)
  next
    case False
    with c m m' R show ?thesis by auto
  qed
qed

lemma no_new_otp_redis: "redis s' = redis s \<Longrightarrow> no_new_otp s s'"
  by (simp add: no_new_otp_def)

lemma delivery_key_simps [simp]:
  "delivery_key d \<noteq> otp_key (otpKeys_pickup m)" "delivery_key d \<noteq> otp_key (otpKeys_phone m)"
  "delivery_key d \<noteq> ''match:accept:'' @ m"
  "otp_key (otpKeys_delivery m) = delivery_key d \<longleftrightarrow> m = d"
  "delivery_key d = otp_key (otpKeys_delivery m) \<longleftrightarrow> d = m"
  by (auto simp: delivery_key_def otp_key_def otpKeys_delivery_def otpKeys_pickup_def otpKeys_phone_def)

lemma verifyOTP_no_new: "no_new_otp s (snd (verifyOTP W key otp s))"
proof -
  have "map_of (redis (snd (verifyOTP W key otp s))) k \<noteq> None \<Longrightarrow> map_of (redis s) k \<noteq> None" for k
    by (auto simp: verifyOTP_def Let_def redis_setex_def redis_del_def redis_get_def update_conv'
        delete_conv' split: option.splits redis_value.splits if_splits)
  then show ?thesis by (auto simp: no_new_otp_def)
qed

lemma carrierAccept_no_new: "no_new_otp s (snd (carrierAccept W mid usr s))"
proof -
  have ttl: "0 < LOCK_TTL_SECONDS" by (simp add: LOCK_TTL_SECONDS_def)
  have body: "redis (snd (carrierAccept_body W mid usr t)) = redis t" for t
    by (simp add: carrierAccept_body_def handler_defs run_simps split: option.splits)
  have rel: "map_of (redis (releaseLock key tok t)) k \<noteq> None \<Longrightarrow> map_of (redis t) k \<noteq> None" for key tok t k
    by (auto simp: releaseLock_def redis_del_if_equal_def redis_del_def delete_conv' split: if_splits)
  from ttl show ?thesis
  proof (cases rule: withLock_cases [where W = W and key = "''match:accept:'' @ mid"
        and fn = "carrierAccept_body W mid usr" and s = s])
    case (refused s1)
    then show ?thesis by (intro no_new_otp_redis) (simp add: carrierAccept_def)
  next
    case (ran s1)
    have same: "map_of (redis s1) (delivery_key d) = map_of (redis s) (delivery_key d)" for d
      using ran(3) delivery_key_simps(3) by metis
    show ?thesis
      unfolding no_new_otp_def carrierAccept_def ran(4)
      using rel [of _ _ "snd (carrierAccept_body W mid usr s1)"] by (auto simp: body same [symmetric])
  qed
qed

lemma no_new_redis:
  "snd (carrierReject W mid usr s) = s1 \<Longrightarrow> redis s1 = redis s"
  "snd (senderReject W mid usr s) = s2 \<Longrightarrow> redis s2 = redis s"
  "snd (disputeMatch W mid usr r d s) = s3 \<Longrightarrow> redis s3 = redis s"
  "snd (requestRapidoForMatch W mid usr co ad s) = s4 \<Longrightarrow> redis s4 = redis s"
  by (auto simp: carrierReject_def senderReject_def disputeMatch_def ensureInvolved_def
      requestRapidoForMatch_def bookRapido_def handler_defs run_simps split: option.splits sum.splits)

lemma rateMatch_redis: "redis (snd (rateMatch W mid usr sc c s)) = redis s"
proof -
  have "keeps (\<lambda>t. redis t = redis s) (rateMatch W mid usr sc c)"
    unfolding rateMatch_def findMatch_def saveMatch_def by (intro keeps_intros keeps_modM) simp_all
  from keepsD [OF this] show ?thesis by simp
qed

lemma senderConfirm_redis: "redis (snd (senderConfirm W mid usr s)) = redis s"
proof -
  have "keeps (\<lambda>t. redis t = redis s) (holdFunds W m n k)" for m n k
    by (auto simp: keeps_def)
  moreover have "keeps (\<lambda>t. redis t = redis s) (updateMatchStatus W m st a me)" for m st a me
    by (auto simp: keeps_def updateMatchStatus_def Let_def split: option.splits)
  ultimately have "keeps (\<lambda>t. redis t = redis s) (senderConfirm W mid usr)"
    unfolding senderConfirm_def confirm_with_def findMatch_def saveMatch_def notify_match_def
    by (intro keeps_intros keeps_modM) (simp_all add: keeps_def)
  from keepsD [OF this] show ?thesis by simp
qed

lemma payout_job_redis: "redis (snd (payout_job W n mid s)) = redis s"
  using payout_job_state [of W n mid s] releaseFunds_frame [of mid s W]
  by (auto simp: release_frame_def)

text \<open>The handlers that reach no late state and issue no delivery OTP.\<close>

lemma journey_quiet:
  assumes "journey s" and "follows R mid s s'" and "no_new_otp s s'"
    and "\<And>m st. R m st \<Longrightarrow> \<not> after_pickup st"
  shows "journey s'"
  by (rule journey_follows [OF assms(1,2)]) (use assms(3,4) in \<open>auto simp: no_new_otp_def\<close>)

lemma generatePickupOtp_no_new: "no_new_otp s (snd (generatePickupOtp W mid usr s))"
  unfolding no_new_otp_def
  by (auto simp: generatePickupOtp_def generateOTP_def redis_setex_def update_conv' handler_defs run_simps
      split: option.splits)

lemma generateDeliveryOtp_journey:
  assumes "journey s"
  shows "journey (snd (generateDeliveryOtp W mid usr s))"
proof -
  let ?s' = "snd (generateDeliveryOtp W mid usr s)"
  show ?thesis
  proof (rule journey_follows [OF assms generateDeliveryOtp_follows])
    fix m m'
    assume "findById (matches s) mid = Some m" "match_kept m m'"
      and "allowed (GenerateDeliveryOtp mid usr) m (m_status m')"
    with assms have "pickup_verified m" by (auto simp: journey_def after_pickup_def)
    with \<open>match_kept m m'\<close> show "pickup_verified m'" by (rule pickup_verified_kept)
  next
    fix d
    assume new: "map_of (redis ?s') (delivery_key d) \<noteq> None"
    show "map_of (redis s) (delivery_key d) \<noteq> None \<or>
        (\<exists>m'. findById (matches ?s') d = Some m' \<and> pickup_verified m')"
    proof (cases "map_of (redis s) (delivery_key d)")
      case None
      with new obtain m where m: "d = mid" "findById (matches s) mid = Some m"
        "m_status m \<in> {PickedUp, InTransit, DeliveryPending}"
        by (auto simp: generateDeliveryOtp_def generateOTP_def redis_setex_def update_conv' handler_defs
            run_simps split: option.splits if_splits)
      then have "pickup_verified m" using assms by (auto simp: journey_def after_pickup_def)
      moreover obtain m' where "findById (matches ?s') mid = Some m'" "match_kept m m'"
        using generateDeliveryOtp_follows [of mid usr s W] m(2) by (auto simp: follows_def)
      ultimately show ?thesis using m(1) by (auto intro: pickup_verified_kept)
    qed simp
  qed
qed

lemma verifyPickup_journey:
  assumes "journey s"
  shows "journey (snd (verifyPickupOtpForMatch W mid usr otp s))"
proof -
  let ?s' = "snd (verifyPickupOtpForMatch W mid usr otp s)"
  obtain r s1 where v: "verifyOTP W (otpKeys_pickup mid) otp s = (r, s1)" by fastforce
  have red: "no_new_otp s s1" using verifyOTP_no_new [of s W "otpKeys_pickup mid" otp] v by simp
  show ?thesis
  proof (cases "\<exists>m b. findById (matches s) mid = Some m \<and> m_sender m = usr \<and> r = Inr b")
    case True
    then obtain m b where m: "findById (matches s) mid = Some m" "m_sender m = usr"
      and "verifyOTP W (otpKeys_pickup mid) otp s = (Inr b, s1)" using v by blast
    note acc = verifyPickup_accepted [OF m this(3)]
    have "pickup_verified (picked_up_doc (clock s) m)"
      by (simp add: picked_up_doc_def pickup_verified_def doc_defs Let_def)
    then show ?thesis
      using red by (intro journey_follows [OF assms verifyPickup_follows]) (auto simp: acc no_new_otp_def)
  next
    case False
    then have m: "matches ?s' = matches s"
      using v by (intro verifyPickup_refused) (cases r; cases "findById (matches s) mid"; auto)
    have "redis ?s' = redis s \<or> redis ?s' = redis s1"
      using v False
      by (cases r; cases "findById (matches s) mid")
         (auto simp: verifyPickupOtpForMatch_def findMatch_def run_simps)
    with red have "no_new_otp s ?s'" by (auto simp: no_new_otp_def)
    with m show ?thesis
      by (intro journey_quiet [OF assms follows_same [of _ _ "\<lambda>_ _. False" mid]]) auto
  qed
qed

lemma verifyDelivery_journey:
  assumes "journey s"
  shows "journey (snd (verifyDeliveryOtpForMatch W mid usr otp s))"
proof -
  let ?s' = "snd (verifyDeliveryOtpForMatch W mid usr otp s)"
  obtain r s1 where v: "verifyOTP W (otpKeys_delivery mid) otp s = (r, s1)" by fastforce
  have red: "no_new_otp s s1" using verifyOTP_no_new [of s W "otpKeys_delivery mid" otp] v by simp
  show ?thesis
  proof (cases "\<exists>m b. findById (matches s) mid = Some m \<and> m_sender m = usr \<and> r = Inr b")
    case True
    then obtain m b where m: "findById (matches s) mid = Some m" "m_sender m = usr"
      and ok: "verifyOTP W (otpKeys_delivery mid) otp s = (Inr b, s1)" using v by blast
    note acc = verifyDelivery_accepted [OF m ok]
    from ok have "redis_get (delivery_key mid) s \<noteq> None"
      by (cases rule: verifyOTP_cases) (auto simp: delivery_key_def)
    then have "map_of (redis s) (delivery_key mid) \<noteq> None"
      by (auto simp: redis_get_def split: option.splits)
    with assms m(1) have "pickup_verified m" unfolding journey_def by fastforce
    then have "pickup_verified (delivered_doc (clock s) usr m)"
      by (simp add: delivered_doc_def pickup_verified_def doc_defs Let_def)
    then show ?thesis
      using red by (intro journey_follows [OF assms verifyDelivery_follows]) (auto simp: acc no_new_otp_def)
  next
    case False
    then have m: "matches ?s' = matches s"
      using v by (intro verifyDelivery_refused) (cases r; cases "findById (matches s) mid"; auto)
    have "redis ?s' = redis s \<or> redis ?s' = redis s1"
      using v False
      by (cases r; cases "findById (matches s) mid")
         (auto simp: verifyDeliveryOtpForMatch_def findMatch_def run_simps)
    with red have "no_new_otp s ?s'" by (auto simp: no_new_otp_def)
    with m show ?thesis
      by (intro journey_quiet [OF assms follows_same [of _ _ "\<lambda>_ _. False" mid]]) auto
  qed
qed

lemma exec_journey: "journey s \<Longrightarrow> journey (exec W op s)"
proof -
  assume J: "journey s"
  have quiet: "no_new_otp s (exec W op s) \<Longrightarrow> (\<And>m st. allowed op m st \<Longrightarrow> \<not> after_pickup st) \<Longrightarrow>
      journey (exec W op s)"
    by (rule journey_quiet [OF J exec_follows])
  show ?thesis
  proof (cases op)
    case (CarrierAccept mid usr)
    with carrierAccept_no_new show ?thesis
      by (intro quiet) (auto simp: after_pickup_def)
  next
    case (CarrierReject mid usr)
    then show ?thesis
      by (intro quiet no_new_otp_redis) (auto simp: after_pickup_def no_new_redis [OF refl])
  next
    case (SenderReject mid usr)
    then show ?thesis
      by (intro quiet no_new_otp_redis) (auto simp: after_pickup_def no_new_redis [OF refl])
  next
    case (DisputeMatch mid usr r d)
    then show ?thesis
      by (intro quiet no_new_otp_redis) (auto simp: after_pickup_def no_new_redis [OF refl])
  next
    case (RequestRapido mid usr co ad)
    then show ?thesis
      by (intro quiet no_new_otp_redis) (auto simp: after_pickup_def no_new_redis [OF refl])
  next
    case (SenderConfirm mid usr)
    with senderConfirm_redis show ?thesis
      by (intro quiet no_new_otp_redis) (auto simp: after_pickup_def)
  next
    case (GeneratePickupOtp mid usr)
    with generatePickupOtp_no_new show ?thesis
      by (intro quiet) (auto simp: after_pickup_def)
  next
    case (RateMatch mid usr sc c)
    with rateMatch_redis show ?thesis
      by (intro quiet no_new_otp_redis) (auto simp: after_pickup_def)
  next
    case (PayoutJob n mid)
    with payout_job_redis show ?thesis
      by (intro quiet no_new_otp_redis) (auto simp: after_pickup_def)
  qed (use J in \<open>simp_all add: generateDeliveryOtp_journey verifyPickup_journey verifyDelivery_journey\<close>)
qed

text \<open>So every sequence of handlers keeps the journey invariant.\<close>

interpretation handlers: kept_run "exec W" journey "\<lambda>_. True" for W
  by unfold_locales (rule exec_journey)

text \<open>Only a sender whose OTP was accepted makes a match delivered.\<close>

lemma delivered_by_otp:
  assumes "findById (matches s) mid = Some m" "m_status m \<noteq> Delivered"
    and "findById (matches (exec W op s)) mid = Some m'" "m_status m' = Delivered"
  shows "\<exists>otp. op = VerifyDeliveryOtp mid (m_sender m) otp \<and>
     (\<exists>r. redis_get (delivery_key mid) s = Some (RedisOtp r) \<and>
        otp_attempts r < MAX_ATTEMPTS \<and> bcryptCompare W otp (otp_hash r))"
proof -
  have F: "follows (allowed op) (op_match op) s (exec W op s)" by (rule exec_follows)
  have mid: "mid = op_match op" using F assms by (cases "mid = op_match op") (auto simp: follows_def)
  with F assms have "allowed op m Delivered" by (auto simp: follows_def)
  then obtain otp where op: "op = VerifyDeliveryOtp mid (m_sender m) otp"
    using mid by (cases op) auto
  obtain q s1 where v: "verifyOTP W (otpKeys_delivery mid) otp s = (q, s1)" by fastforce
  have "\<exists>b. q = Inr b"
  proof (rule ccontr)
    assume "\<not> ?thesis"
    then have "matches (exec W op s) = matches s"
      using v assms(1) by (cases q) (auto simp: op intro!: verifyDelivery_refused)
    with assms show False by simp
  qed
  with v have "\<exists>r. redis_get (delivery_key mid) s = Some (RedisOtp r) \<and>
        otp_attempts r < MAX_ATTEMPTS \<and> bcryptCompare W otp (otp_hash r)"
    by (auto simp: delivery_key_def elim: verifyOTP_cases)
  with op show ?thesis by blast
qed

end
