(* ===== verification/Status.thy ===== *)
theory Status
  imports Lifecycle Users
begin

text \<open>
  \<open>shared/src/status/index.tsx\<close>: how both portals present a match and a request: the tables of
  stages and progress, and the two status bars as state machines fed by their property and by the
  socket.  Icons are left out.  A table is an association list; a status is any string the server
  may send.
\<close>

section \<open>Tables\<close>

record workflow_stage =
  ws_key :: string
  ws_label :: string
  ws_sublabel :: string
  ws_statuses :: "string list"
  ws_events :: "string list"

definition MATCH_PENDING_STATUSES :: "string list" where
  "MATCH_PENDING_STATUSES = [''proposed'']"

definition MATCH_ACTIVE_STATUSES :: "string list" where
  "MATCH_ACTIVE_STATUSES =
     [''carrier_accepted'', ''sender_confirmed'', ''active'', ''pickup_pending'', ''picked_up'',
      ''in_transit'', ''delivery_pending'']"

definition MATCH_COMPLETED_STATUSES :: "string list" where
  "MATCH_COMPLETED_STATUSES = [''delivered'', ''completed'']"

definition MATCH_LOCATION_TRACKING_STATUSES :: "string list" where
  "MATCH_LOCATION_TRACKING_STATUSES = [''picked_up'', ''in_transit'', ''delivery_pending'', ''delivered'']"

definition DELIVERY_REQUEST_ACTIVE_STATUSES :: "string list" where
  "DELIVERY_REQUEST_ACTIVE_STATUSES =
     [''matched'', ''pickup_otp_sent'', ''picked_up'', ''in_transit'', ''delivery_otp_sent'', ''delivered'']"

definition MATCH_TIMELINE_STEPS :: "string list" where
  "MATCH_TIMELINE_STEPS =
     [''Matched'', ''Payment Done'', ''Pickup OTP'', ''Picked Up'', ''In Transit'', ''Delivered'']"

definition MATCH_TIMELINE_STATUS_INDEX :: "(string \<times> nat) list" where
  "MATCH_TIMELINE_STATUS_INDEX =
     [(''proposed'', 0), (''carrier_accepted'', 0), (''sender_confirmed'', 1), (''active'', 1),
      (''pickup_pending'', 2), (''picked_up'', 3), (''in_transit'', 4), (''delivery_pending'', 4),
      (''delivered'', 5), (''completed'', 5)]"

definition DELIVERY_REQUEST_PROGRESS_BY_STATUS :: "(string \<times> nat) list" where
  "DELIVERY_REQUEST_PROGRESS_BY_STATUS =
     [(''pending'', 12), (''matched'', 28), (''pickup_otp_sent'', 44), (''picked_up'', 62),
      (''in_transit'', 78), (''delivery_otp_sent'', 90), (''delivered'', 100)]"

definition CARRIER_STATUS_GUIDANCE :: "(string \<times> string) list" where
  "CARRIER_STATUS_GUIDANCE =
     [(''proposed'', ''Review the package request and accept it to open the sender confirmation step.''),
      (''carrier_accepted'', ''You accepted the request. The sender now needs to confirm and complete payment.''),
      (''sender_confirmed'', ''Sender confirmed. Once payment is marked active you can generate the pickup OTP.''),
      (''active'', ''Payment is secured. Generate the pickup OTP when you meet the sender.''),
      (''pickup_pending'', ''Pickup OTP is live. Keep this screen open and ask the sender to verify at handoff.''),
      (''picked_up'', ''Package is now in your care. Live tracking is broadcasting while you travel.''),
      (''in_transit'', ''Keep moving toward the destination. Generate the delivery OTP once you arrive.''),
      (''delivery_pending'', ''Delivery OTP is ready. Have the recipient verify it to complete the handoff.''),
      (''delivered'', ''Delivery is complete. Payout and review events will follow automatically.'')]"

definition stage_of :: "string \<Rightarrow> string \<Rightarrow> string \<Rightarrow> string list \<Rightarrow> string list \<Rightarrow> workflow_stage" where
  "stage_of key label sublabel sts evs =
     \<lparr> ws_key = key, ws_label = label, ws_sublabel = sublabel, ws_statuses = sts, ws_events = evs \<rparr>"

definition SENDER_DELIVERY_STAGES :: "workflow_stage list" where
  "SENDER_DELIVERY_STAGES =
     [stage_of ''REQUEST_SENT'' ''Requested'' ''Package details submitted'' [''proposed''] [''match_proposed''],
      stage_of ''CARRIER_MATCHED'' ''Matched'' ''Carrier found for your route''
        [''carrier_accepted'', ''sender_confirmed''] [''carrier_accepted'', ''sender_confirmed''],
      stage_of ''PAYMENT_CONFIRMED'' ''Payment Done'' ''Funds secured in escrow''
        [''active'', ''pickup_pending''] [''payment_done'', ''pickup_otp_generated''],
      stage_of ''PICKED_UP'' ''Picked Up'' ''OTP verified at handoff'' [''picked_up''] [''pickup_verified''],
      stage_of ''IN_TRANSIT'' ''In Transit'' ''Carrier en route'' [''in_transit'', ''delivery_pending'']
        [''delivery_otp_generated''],
      stage_of ''DELIVERED'' ''Delivered'' ''Package delivered to recipient'' [''delivered'', ''completed'']
        [''delivery_verified'', ''completed'']]"

definition CARRIER_TRIP_STAGES :: "workflow_stage list" where
  "CARRIER_TRIP_STAGES =
     [stage_of ''TRIP_POSTED'' ''Trip Live'' ''Your trip is visible to senders'' [] [],
      stage_of ''MATCH_RECEIVED'' ''Match Found'' ''A package is available on this route'' [''proposed'']
        [''match_proposed''],
      stage_of ''MATCH_ACCEPTED'' ''Accepted'' ''Waiting for sender confirmation''
        [''carrier_accepted'', ''sender_confirmed''] [''carrier_accepted'', ''sender_confirmed''],
      stage_of ''PAYMENT_RECEIVED'' ''Payment'' ''Escrow secured for this delivery'' [''active''] [''payment_done''],
      stage_of ''PICKUP_OTP_READY'' ''Pickup OTP'' ''Show the OTP to collect the parcel'' [''pickup_pending'']
        [''pickup_otp_generated''],
      stage_of ''PACKAGE_COLLECTED'' ''Collected'' ''Package is now in your care'' [''picked_up''] [''pickup_verified''],
      stage_of ''TRAVELLING'' ''Travelling'' ''En route to the destination city'' [''in_transit''] [],
      stage_of ''DELIVERY_OTP_READY'' ''Delivery OTP'' ''Recipient handoff verification is ready''
        [''delivery_pending''] [''delivery_otp_generated''],
      stage_of ''DELIVERED_COMPLETE'' ''Delivered'' ''Package handed over successfully'' [''delivered'']
        [''delivery_verified''],
      stage_of ''PAYOUT_DONE'' ''Payout'' ''Earnings released to your wallet'' [''completed''] [''completed'']]"

section \<open>Presentation of a status\<close>

definition capitalise :: "string \<Rightarrow> string" where
  "capitalise part = toUpperCase (take 1 part) @ drop 1 part"

definition formatWorkflowStatus :: "string option \<Rightarrow> string" where
  "formatWorkflowStatus st =
     (if \<not> truthy_str st then ''Awaiting updates''
      else join_with '' '' (map capitalise (split_on (CHR ''_'') (the st))))"

definition getDeliveryRequestProgressPercent :: "string option \<Rightarrow> nat" where
  "getDeliveryRequestProgressPercent st =
     (if \<not> truthy_str st then 12
      else case map_of DELIVERY_REQUEST_PROGRESS_BY_STATUS (the st) of None \<Rightarrow> 18 | Some n \<Rightarrow> n)"

definition status_or :: "string \<Rightarrow> string option \<Rightarrow> string" where
  "status_or d st = (if truthy_str st then the st else d)"

definition getMatchTimelineIndex :: "string option \<Rightarrow> nat" where
  "getMatchTimelineIndex st =
     (case map_of MATCH_TIMELINE_STATUS_INDEX (status_or ''proposed'' st) of None \<Rightarrow> 0 | Some n \<Rightarrow> n)"

definition sender_stage_map :: "(string \<times> string) list" where
  "sender_stage_map =
     [(''pending'', ''REQUEST_SENT''), (''proposed'', ''REQUEST_SENT''),
      (''carrier_accepted'', ''CARRIER_MATCHED''), (''sender_confirmed'', ''CARRIER_MATCHED''),
      (''active'', ''PAYMENT_CONFIRMED''), (''pickup_pending'', ''PAYMENT_CONFIRMED''),
      (''picked_up'', ''PICKED_UP''), (''in_transit'', ''IN_TRANSIT''),
      (''delivery_pending'', ''IN_TRANSIT''), (''delivered'', ''DELIVERED''), (''completed'', ''DELIVERED'')]"

definition mapMatchStatusToSenderStage :: "string option \<Rightarrow> string" where
  "mapMatchStatusToSenderStage st =
     (case map_of sender_stage_map (status_or [] st) of None \<Rightarrow> ''REQUEST_SENT'' | Some k \<Rightarrow> k)"

definition carrier_stage_map :: "(string \<times> string) list" where
  "carrier_stage_map =
     [(''proposed'', ''MATCH_RECEIVED''), (''carrier_accepted'', ''MATCH_ACCEPTED''),
      (''sender_confirmed'', ''MATCH_ACCEPTED''), (''active'', ''PAYMENT_RECEIVED''),
      (''pickup_pending'', ''PICKUP_OTP_READY''), (''picked_up'', ''PACKAGE_COLLECTED''),
      (''in_transit'', ''TRAVELLING''), (''delivery_pending'', ''DELIVERY_OTP_READY''),
      (''delivered'', ''DELIVERED_COMPLETE''), (''completed'', ''PAYOUT_DONE'')]"

definition mapMatchStatusToCarrierStage :: "string option \<Rightarrow> string" where
  "mapMatchStatusToCarrierStage st =
     (case map_of carrier_stage_map (status_or [] st) of None \<Rightarrow> ''TRIP_POSTED'' | Some k \<Rightarrow> k)"

section \<open>The timeline of a match as the portals see it\<close>

fun timeline_event_str :: "timeline_event \<Rightarrow> string" where
  "timeline_event_str EvMatchProposed = ''match_proposed''"
| "timeline_event_str EvCarrierAccepted = ''carrier_accepted''"
| "timeline_event_str EvSenderConfirmed = ''sender_confirmed''"
| "timeline_event_str EvPaymentDone = ''payment_done''"
| "timeline_event_str EvPickupOtpGenerated = ''pickup_otp_generated''"
| "timeline_event_str EvPickupVerified = ''pickup_verified''"
| "timeline_event_str EvDeliveryOtpGenerated = ''delivery_otp_generated''"
| "timeline_event_str EvDeliveryVerified = ''delivery_verified''"
| "timeline_event_str EvCompleted = ''completed''"
| "timeline_event_str EvCancelled = ''cancelled''"
| "timeline_event_str EvDisputed = ''disputed''"
| "timeline_event_str EvRapidoBooked = ''rapido_booked''"

record timeline_item =
  ti_event :: string
  ti_timestamp :: int
  ti_status :: "string option"

definition item_of :: "timeline_entry \<Rightarrow> timeline_item" where
  "item_of e =
     \<lparr> ti_event = timeline_event_str (te_event e), ti_timestamp = te_timestamp e,
       ti_status = (case jget (te_metadata e) ''status'' of JStr s \<Rightarrow> Some s | _ \<Rightarrow> None) \<rparr>"

definition stage_has :: "workflow_stage \<Rightarrow> timeline_item \<Rightarrow> bool" where
  "stage_has stage e \<longleftrightarrow>
     (if truthy_str (ti_status e) then the (ti_status e) \<in> set (ws_statuses stage) else False) \<or>
     ti_event e \<in> set (ws_events stage)"

definition findTimelineEntry :: "workflow_stage \<Rightarrow> timeline_item list \<Rightarrow> timeline_item option" where
  "findTimelineEntry stage timeline = find (stage_has stage) (rev timeline)"

section \<open>The status bars\<close>

text \<open>
  A bar keeps a status: React sets it when the property changes, the socket when a
  \<open>match:status_changed\<close> arrives.
\<close>

record status_bar =
  sb_matchId :: string
  sb_status :: "string option"

datatype bar_event = PropStatus string | SocketStatus json

fun bar_step :: "bar_event \<Rightarrow> status_bar \<Rightarrow> status_bar" where
  "bar_step (PropStatus st) b = b\<lparr>sb_status := Some st\<rparr>"
| "bar_step (SocketStatus payload) b =
     b\<lparr>sb_status := (case jget payload ''status'' of JStr st \<Rightarrow> Some st | _ \<Rightarrow> None)\<rparr>"

fun findIndex :: "('a \<Rightarrow> bool) \<Rightarrow> 'a list \<Rightarrow> int" where
  "findIndex P [] = -1"
| "findIndex P (x # xs) = (if P x then 0 else let i = findIndex P xs in if i < 0 then -1 else i + 1)"

definition sender_active_index :: "string option \<Rightarrow> int" where
  "sender_active_index st =
     max (findIndex (\<lambda>stage. ws_key stage = mapMatchStatusToSenderStage st) SENDER_DELIVERY_STAGES) 0"

definition carrier_active_index :: "string option \<Rightarrow> int" where
  "carrier_active_index st =
     findIndex (\<lambda>stage. ws_key stage = mapMatchStatusToCarrierStage st) CARRIER_TRIP_STAGES"

datatype stage_look = StageDone | StageActive | StageAhead

definition stage_looks :: "int \<Rightarrow> workflow_stage list \<Rightarrow> stage_look list" where
  "stage_looks active stages =
     map (\<lambda>i. if int i < active then StageDone else if int i = active then StageActive else StageAhead)
       [0..<length stages]"

record bar_view =
  bv_badge :: string
  bv_active :: "workflow_stage"
  bv_looks :: "stage_look list"
  bv_dated :: "timeline_item option list"

definition sender_bar_view :: "status_bar \<Rightarrow> timeline_item list \<Rightarrow> bar_view" where
  "sender_bar_view b timeline =
     (let i = sender_active_index (sb_status b)
      in \<lparr> bv_badge = (if i \<ge> int (length SENDER_DELIVERY_STAGES) - 1 then ''Delivered'' else ''In Progress''),
           bv_active = SENDER_DELIVERY_STAGES ! nat i,
           bv_looks = stage_looks i SENDER_DELIVERY_STAGES,
           bv_dated = map (\<lambda>stage. findTimelineEntry stage timeline) SENDER_DELIVERY_STAGES \<rparr>)"

definition carrier_bar_view :: "status_bar \<Rightarrow> timeline_item list \<Rightarrow> bar_view" where
  "carrier_bar_view b timeline =
     (let i = carrier_active_index (sb_status b)
      in \<lparr> bv_badge = (if i \<ge> int (length CARRIER_TRIP_STAGES) - 2 then ''Near Complete'' else ''In Progress''),
           bv_active = CARRIER_TRIP_STAGES ! nat (max i 0),
           bv_looks = stage_looks i CARRIER_TRIP_STAGES,
           bv_dated = map (\<lambda>stage. findTimelineEntry stage timeline) CARRIER_TRIP_STAGES \<rparr>)"

section \<open>The tables agree with the life of a match\<close>

definition shown_status :: "match_status \<Rightarrow> bool" where
  "shown_status st \<longleftrightarrow> st \<noteq> Cancelled \<and> st \<noteq> Disputed"

lemmas status_tables = SENDER_DELIVERY_STAGES_def CARRIER_TRIP_STAGES_def stage_of_def sender_stage_map_def
  carrier_stage_map_def mapMatchStatusToSenderStage_def mapMatchStatusToCarrierStage_def status_or_def
  MATCH_TIMELINE_STATUS_INDEX_def getMatchTimelineIndex_def sender_active_index_def carrier_active_index_def
  DELIVERY_REQUEST_PROGRESS_BY_STATUS_def getDeliveryRequestProgressPercent_def shown_status_def

lemma match_status_str_truthy [simp]: "truthy_str (Some (match_status_str st))"
  by (cases st) simp_all

text \<open>The stage a bar shows as active is the one that lists the status.\<close>

lemma sender_stage_lists:
  "shown_status st \<Longrightarrow> match_status_str st \<in> set (ws_statuses stage) \<and> stage \<in> set SENDER_DELIVERY_STAGES \<longleftrightarrow>
     stage \<in> set SENDER_DELIVERY_STAGES \<and> ws_key stage = mapMatchStatusToSenderStage (Some (match_status_str st))"
  by (cases st) (auto simp: status_tables)

lemma carrier_stage_lists:
  "shown_status st \<Longrightarrow> match_status_str st \<in> set (ws_statuses stage) \<and> stage \<in> set CARRIER_TRIP_STAGES \<longleftrightarrow>
     stage \<in> set CARRIER_TRIP_STAGES \<and> ws_key stage = mapMatchStatusToCarrierStage (Some (match_status_str st))"
  by (cases st) (auto simp: status_tables)

lemma findIndex_bounds: "-1 \<le> findIndex P xs" "findIndex P xs < int (length xs)"
  by (induction xs) (auto simp: Let_def)

lemma findIndex_found: "x \<in> set xs \<Longrightarrow> P x \<Longrightarrow> 0 \<le> findIndex P xs"
  by (induction xs) (auto simp: Let_def)

lemma findIndex_nth: "0 \<le> findIndex P xs \<Longrightarrow> P (xs ! nat (findIndex P xs))"
  by (induction xs) (auto simp: Let_def nat_add_distrib split: if_splits)

lemma map_of_value: "(case map_of xs k of None \<Rightarrow> d | Some v \<Rightarrow> v) \<in> insert d (snd ` set xs)"
  by (auto split: option.splits dest: map_of_SomeD intro: rev_image_eqI)

lemma sender_key_known: "\<exists>stage \<in> set SENDER_DELIVERY_STAGES. ws_key stage = mapMatchStatusToSenderStage st"
proof -
  have "mapMatchStatusToSenderStage st \<in> insert ''REQUEST_SENT'' (snd ` set sender_stage_map)"
    unfolding mapMatchStatusToSenderStage_def by (rule map_of_value)
  then show ?thesis by (auto simp: sender_stage_map_def SENDER_DELIVERY_STAGES_def stage_of_def)
qed

lemma carrier_key_known: "\<exists>stage \<in> set CARRIER_TRIP_STAGES. ws_key stage = mapMatchStatusToCarrierStage st"
proof -
  have "mapMatchStatusToCarrierStage st \<in> insert ''TRIP_POSTED'' (snd ` set carrier_stage_map)"
    unfolding mapMatchStatusToCarrierStage_def by (rule map_of_value)
  then show ?thesis by (auto simp: carrier_stage_map_def CARRIER_TRIP_STAGES_def stage_of_def)
qed

lemma sender_index_range: "0 \<le> sender_active_index st" "sender_active_index st < 6"
  using findIndex_bounds(2) [of "\<lambda>stage. ws_key stage = mapMatchStatusToSenderStage st" SENDER_DELIVERY_STAGES]
  by (simp_all add: sender_active_index_def) (simp add: SENDER_DELIVERY_STAGES_def)

lemma carrier_index_range: "0 \<le> carrier_active_index st" "carrier_active_index st < 10"
proof -
  show "0 \<le> carrier_active_index st"
    using carrier_key_known [of st] by (auto simp: carrier_active_index_def intro: findIndex_found)
  show "carrier_active_index st < 10"
    using findIndex_bounds(2) [of "\<lambda>stage. ws_key stage = mapMatchStatusToCarrierStage st" CARRIER_TRIP_STAGES]
    by (simp add: carrier_active_index_def CARRIER_TRIP_STAGES_def)
qed

text \<open>Whatever the server sends, exactly one stage of a bar is active: the one the status maps to.\<close>

lemma sender_active_stage:
  "ws_key (bv_active (sender_bar_view b tl')) = mapMatchStatusToSenderStage (sb_status b)"
proof -
  let ?P = "\<lambda>stage. ws_key stage = mapMatchStatusToSenderStage (sb_status b)"
  have "0 \<le> findIndex ?P SENDER_DELIVERY_STAGES"
    using sender_key_known [of "sb_status b"] by (auto intro: findIndex_found)
  from findIndex_nth [OF this] this show ?thesis
    by (simp add: sender_bar_view_def Let_def sender_active_index_def)
qed

lemma carrier_active_stage:
  "ws_key (bv_active (carrier_bar_view b tl')) = mapMatchStatusToCarrierStage (sb_status b)"
  using carrier_index_range(1) [of "sb_status b"]
    findIndex_nth [of "\<lambda>stage. ws_key stage = mapMatchStatusToCarrierStage (sb_status b)" CARRIER_TRIP_STAGES]
  by (simp add: carrier_bar_view_def Let_def carrier_active_index_def)

lemma one_active_look:
  assumes "0 \<le> i" "i < int (length stages)"
  shows "length (filter (\<lambda>l. l = StageActive) (stage_looks i stages)) = 1"
proof -
  have "length (filter (\<lambda>l. l = StageActive) (stage_looks i stages)) =
      length (filter (\<lambda>j. j = nat i) [0..<length stages])"
    using assms(1) by (auto simp: stage_looks_def filter_map comp_def intro!: arg_cong [where f = length] filter_cong)
  also have "filter (\<lambda>j. j = nat i) [0..<length stages] = [nat i]"
    using assms distinct_filter [OF distinct_upt]
    by (induction stages rule: rev_induct) auto
  finally show ?thesis by simp
qed

section \<open>Progress along the life of a match\<close>

text \<open>The steps of the regular course, as \<open>allowed\<close> has them with the status they leave.\<close>

fun forward_step :: "match_op \<Rightarrow> bool" where
  "forward_step (CarrierAccept _ _) = True"
| "forward_step (SenderConfirm _ _) = True"
| "forward_step (GenerateDeliveryOtp _ _) = True"
| "forward_step (VerifyDeliveryOtp _ _ _) = True"
| "forward_step _ = False"

lemma sender_index_of [simp]:
  "sender_active_index (Some (match_status_str st)) =
     (case st of CarrierAccepted \<Rightarrow> 1 | SenderConfirmed \<Rightarrow> 1 | Active \<Rightarrow> 2 | PickupPending \<Rightarrow> 2 | PickedUp \<Rightarrow> 3
      | InTransit \<Rightarrow> 4 | DeliveryPending \<Rightarrow> 4 | Delivered \<Rightarrow> 5 | _ \<Rightarrow> 0)"
  by (cases st) (simp_all add: status_tables)

lemma carrier_index_of [simp]:
  "carrier_active_index (Some (match_status_str st)) =
     (case st of Proposed \<Rightarrow> 1 | CarrierAccepted \<Rightarrow> 2 | SenderConfirmed \<Rightarrow> 2 | Active \<Rightarrow> 3 | PickupPending \<Rightarrow> 4
      | PickedUp \<Rightarrow> 5 | InTransit \<Rightarrow> 6 | DeliveryPending \<Rightarrow> 7 | Delivered \<Rightarrow> 8 | _ \<Rightarrow> 0)"
  by (cases st) (simp_all add: status_tables)

lemma timeline_index_of [simp]:
  "getMatchTimelineIndex (Some (match_status_str st)) =
     (case st of SenderConfirmed \<Rightarrow> 1 | Active \<Rightarrow> 1 | PickupPending \<Rightarrow> 2 | PickedUp \<Rightarrow> 3
      | InTransit \<Rightarrow> 4 | DeliveryPending \<Rightarrow> 4 | Delivered \<Rightarrow> 5 | _ \<Rightarrow> 0)"
  by (cases st) (simp_all add: status_tables)

lemma progress_of [simp]:
  "getDeliveryRequestProgressPercent (Some (request_status_str (mapMatchStatusToDeliveryStatus st))) =
     (case st of PickupPending \<Rightarrow> 44 | PickedUp \<Rightarrow> 62 | InTransit \<Rightarrow> 78 | DeliveryPending \<Rightarrow> 90 | Delivered \<Rightarrow> 100
      | Cancelled \<Rightarrow> 18 | Disputed \<Rightarrow> 12 | _ \<Rightarrow> 28)"
  by (cases st) (simp_all add: status_tables)

lemma forward_indices:
  assumes "forward_step op" "allowed op m st"
  shows "sender_active_index (Some (match_status_str (m_status m))) \<le> sender_active_index (Some (match_status_str st))
    \<and> carrier_active_index (Some (match_status_str (m_status m))) \<le> carrier_active_index (Some (match_status_str st))
    \<and> getMatchTimelineIndex (Some (match_status_str (m_status m))) \<le> getMatchTimelineIndex (Some (match_status_str st))"
  using assms by (cases op) (auto simp del: match_status_str.simps split: match_status.splits)

text \<open>The two progress indicators agree: a later step of the match is a larger percentage of its request.\<close>

lemma progress_agree:
  assumes "shown_status st" "shown_status st'"
    and "getMatchTimelineIndex (Some (match_status_str st)) < getMatchTimelineIndex (Some (match_status_str st'))"
  shows "getDeliveryRequestProgressPercent (Some (request_status_str (mapMatchStatusToDeliveryStatus st)))
    \<le> getDeliveryRequestProgressPercent (Some (request_status_str (mapMatchStatusToDeliveryStatus st')))"
  using assms by (simp add: shown_status_def split: match_status.splits)

text \<open>The stage of a new status is dated by the entry that \<open>updateMatchStatus\<close> pushes for it.\<close>

lemma item_of_status:
  "item_of (last (m_timeline (set_status st now actor meta mat))) =
     \<lparr> ti_event = timeline_event_str (timelineEventMap st), ti_timestamp = now,
       ti_status = Some (match_status_str st) \<rparr>"
  by (simp add: set_status_def push_timeline_def item_of_def update_conv')

lemma active_stage_dated:
  assumes "shown_status st" "stage \<in> set SENDER_DELIVERY_STAGES \<union> set CARRIER_TRIP_STAGES"
    and "match_status_str st \<in> set (ws_statuses stage)"
  shows "\<exists>e. findTimelineEntry stage (map item_of (m_timeline (set_status st now actor meta mat))) = Some e \<and>
     ti_timestamp e = now"
proof -
  obtain tl' e where t: "m_timeline (set_status st now actor meta mat) = tl' @ [e]"
    by (simp add: set_status_def push_timeline_def)
  have "item_of e = \<lparr> ti_event = timeline_event_str (timelineEventMap st), ti_timestamp = now,
       ti_status = Some (match_status_str st) \<rparr>"
    using item_of_status [of st now actor meta mat] by (simp add: t)
  with assms(3) match_status_str_truthy [of st] show ?thesis
    by (simp add: t findTimelineEntry_def stage_has_def del: match_status_str_truthy)
qed

text \<open>A bar believes every status it is sent: the message of another match changes it too.\<close>

lemma bar_takes_any_match:
  "sb_status (bar_step (SocketStatus (status_payload mid st now)) b) = Some (match_status_str st)"
  by (simp add: status_payload_def)

end
