(* ===== verification/MatchPage.thy ===== *)
theory MatchPage
  imports CarrierSetup Lifecycle Status
begin

text \<open>
  The pages on which a match is followed: \<open>pages/MatchDetail.tsx\<close> of both portals and
  \<open>pages/TrackDelivery.tsx\<close> of the sender.  The buttons that a page offers call the handlers of
  match.service; shown here is that a page never offers a user what the server refuses for want of
  rights, or because the match is not in the status for it.
\<close>

section \<open>The page\<close>

record match_page =
  mp_user :: oid
  mp_match :: "match_doc option"
  mp_pickupOtpInput :: string
  mp_deliveryOtpInput :: string
  mp_generatedPickupOtp :: "string option"
  mp_generatedDeliveryOtp :: "string option"
  mp_lat :: rat
  mp_lng :: rat

definition page_start :: "oid \<Rightarrow> match_page" where
  "page_start usr =
     \<lparr> mp_user = usr, mp_match = None, mp_pickupOtpInput = [], mp_deliveryOtpInput = [],
       mp_generatedPickupOtp = None, mp_generatedDeliveryOtp = None,
       mp_lat = fl (129716 / 10000), mp_lng = fl (775946 / 10000) \<rparr>"

definition isCarrier :: "match_page \<Rightarrow> bool" where
  "isCarrier p = (case mp_match p of None \<Rightarrow> False | Some m \<Rightarrow> m_carrier m = mp_user p)"

definition isSender :: "match_page \<Rightarrow> bool" where
  "isSender p = (case mp_match p of None \<Rightarrow> False | Some m \<Rightarrow> m_sender m = mp_user p)"

definition status_is :: "match_status \<Rightarrow> match_page \<Rightarrow> bool" where
  "status_is st p = (case mp_match p of None \<Rightarrow> False | Some m \<Rightarrow> m_status m = st)"

text \<open>\<open>location:update\<close>: a position without zero coordinates is taken over.\<close>

definition location_update :: "rat \<Rightarrow> rat \<Rightarrow> match_page \<Rightarrow> match_page" where
  "location_update lat lng p = (if lat \<noteq> 0 \<and> lng \<noteq> 0 then p\<lparr>mp_lat := lat, mp_lng := lng\<rparr> else p)"

datatype page_button =
    AcceptButton | RejectButton | ConfirmButton | DeclineButton
  | PickupOtpButton | VerifyPickupButton | DeliveryOtpButton | VerifyDeliveryButton
  | RapidoButton string | RateButton int "string option"

fun offered :: "match_page \<Rightarrow> page_button \<Rightarrow> bool" where
  "offered p AcceptButton = (isCarrier p \<and> status_is Proposed p)"
| "offered p RejectButton = (isCarrier p \<and> status_is Proposed p)"
| "offered p ConfirmButton = (isSender p \<and> status_is CarrierAccepted p)"
| "offered p DeclineButton = (isSender p \<and> status_is CarrierAccepted p)"
| "offered p PickupOtpButton = isCarrier p"
| "offered p VerifyPickupButton = isSender p"
| "offered p DeliveryOtpButton = isCarrier p"
| "offered p VerifyDeliveryButton = isSender p"
| "offered p (RapidoButton a) = isCarrier p"
| "offered p (RateButton n c) = status_is Delivered p"

text \<open>The answer is the one-time password that the page then shows, if any.\<close>

fun serve_button :: "world \<Rightarrow> oid \<Rightarrow> match_page \<Rightarrow> page_button \<Rightarrow> (db, string option) handler" where
  "serve_button W mid p AcceptButton = bindM (carrierAccept W mid (mp_user p)) (\<lambda>_. retM None)"
| "serve_button W mid p RejectButton = bindM (carrierReject W mid (mp_user p)) (\<lambda>_. retM None)"
| "serve_button W mid p ConfirmButton = bindM (senderConfirm W mid (mp_user p)) (\<lambda>_. retM None)"
| "serve_button W mid p DeclineButton = bindM (senderReject W mid (mp_user p)) (\<lambda>_. retM None)"
| "serve_button W mid p PickupOtpButton =
     bindM (generatePickupOtp W mid (mp_user p)) (\<lambda>o'. retM (Some (oi_otp o')))"
| "serve_button W mid p VerifyPickupButton =
     bindM (verifyPickupOtpForMatch W mid (mp_user p) (mp_pickupOtpInput p)) (\<lambda>_. retM None)"
| "serve_button W mid p DeliveryOtpButton =
     bindM (generateDeliveryOtp W mid (mp_user p)) (\<lambda>o'. retM (Some (oi_otp o')))"
| "serve_button W mid p VerifyDeliveryButton =
     bindM (verifyDeliveryOtpForMatch W mid (mp_user p) (mp_deliveryOtpInput p)) (\<lambda>_. retM None)"
| "serve_button W mid p (RapidoButton a) =
     bindM (requestRapidoForMatch W mid (mp_user p) (mp_lng p, mp_lat p) a) (\<lambda>_. retM None)"
| "serve_button W mid p (RateButton n c) = bindM (rateMatch W mid (mp_user p) n c) (\<lambda>_. retM None)"

text \<open>\<open>getMatch\<close>, as the page's query runs it.\<close>

definition fetch_match :: "oid \<Rightarrow> db \<Rightarrow> match_page \<Rightarrow> match_page" where
  "fetch_match mid d p =
     p\<lparr>mp_match := (case fst (getMatchById mid (mp_user p) d) of Inr m \<Rightarrow> Some m | Inl e \<Rightarrow> mp_match p)\<rparr>"

definition keep_otp :: "page_button \<Rightarrow> string option \<Rightarrow> match_page \<Rightarrow> match_page" where
  "keep_otp b o' p =
     (if b = PickupOtpButton then p\<lparr>mp_generatedPickupOtp := o'\<rparr>
      else if b = DeliveryOtpButton then p\<lparr>mp_generatedDeliveryOtp := o'\<rparr> else p)"

text \<open>\<open>runMutation\<close>: a success is told and the match is fetched again, a failure is told.\<close>

definition press_button :: "world \<Rightarrow> oid \<Rightarrow> page_button \<Rightarrow> match_page \<times> db \<Rightarrow> bool \<times> match_page \<times> db" where
  "press_button W mid b = (\<lambda>(p, d).
     case serve_button W mid p b d of
       (Inr o', d') \<Rightarrow> (True, fetch_match mid d' (keep_otp b o' p), d')
     | (Inl e, d') \<Rightarrow> (False, p, d'))"

section \<open>The tracking page\<close>

datatype track_payload = TrackPickup | TrackDelivery | TrackConfirm | TrackReject

definition track_offers :: "match_status \<Rightarrow> track_payload \<Rightarrow> bool" where
  "track_offers st t =
     (case t of TrackConfirm \<Rightarrow> st = CarrierAccepted | TrackReject \<Rightarrow> st = CarrierAccepted
      | TrackPickup \<Rightarrow> st = PickupPending | TrackDelivery \<Rightarrow> st = DeliveryPending)"

definition track_success :: "track_payload \<Rightarrow> string" where
  "track_success t =
     (case t of TrackConfirm \<Rightarrow> ''Carrier confirmed and delivery activated''
      | TrackReject \<Rightarrow> ''Carrier option declined'' | _ \<Rightarrow> ''OTP verified'')"

definition track_failure :: "track_payload \<Rightarrow> string option \<Rightarrow> string" where
  "track_failure t message =
     str_or message (case t of TrackConfirm \<Rightarrow> ''Unable to update this match right now.''
       | TrackReject \<Rightarrow> ''Unable to update this match right now.'' | _ \<Rightarrow> ''OTP verification failed'')"

definition track_call :: "world \<Rightarrow> oid \<Rightarrow> oid \<Rightarrow> string \<Rightarrow> string \<Rightarrow> track_payload \<Rightarrow> (db, unit) handler" where
  "track_call W mid usr pickupOtp deliveryOtp t =
     (case t of
        TrackConfirm \<Rightarrow> bindM (senderConfirm W mid usr) (\<lambda>_. retM ())
      | TrackReject \<Rightarrow> bindM (senderReject W mid usr) (\<lambda>_. retM ())
      | TrackPickup \<Rightarrow> bindM (verifyPickupOtpForMatch W mid usr pickupOtp) (\<lambda>_. retM ())
      | TrackDelivery \<Rightarrow> bindM (verifyDeliveryOtpForMatch W mid usr deliveryOtp) (\<lambda>_. retM ()))"

section \<open>Errors that a handler never gives\<close>

definition never :: "(js_error \<Rightarrow> bool) \<Rightarrow> ('s, 'a) handler \<Rightarrow> bool" where
  "never P m = (\<forall>s e. fst (m s) = Inl e \<longrightarrow> \<not> P e)"

named_theorems never_intros

lemma never_retM [never_intros]: "never P (retM x)"
  by (simp add: never_def)

lemma never_readM [never_intros]: "never P (readM f)"
  by (simp add: never_def)

lemma never_modM [never_intros]: "never P (modM f)"
  by (simp add: never_def)

lemma never_unlessM [never_intros]: "\<not> P e \<Longrightarrow> never P (unlessM c e)"
  by (simp add: never_def unlessM_run)

lemma never_requireM [never_intros]: "\<not> P e \<Longrightarrow> never P (requireM f e)"
  by (simp add: never_def requireM_run split: option.splits)

lemma never_bindM [never_intros]: "never P m \<Longrightarrow> (\<And>x. never P (f x)) \<Longrightarrow> never P (bindM m f)"
  by (auto simp: never_def bindM_run split: prod.splits sum.splits) (metis fst_conv)+

lemma never_thenM [never_intros]: "never P m \<Longrightarrow> never P k \<Longrightarrow> never P (thenM m k)"
  by (auto simp: never_def thenM_run split: prod.splits sum.splits) (metis fst_conv)+

lemma never_whenM [never_intros]: "never P m \<Longrightarrow> never P (whenM c m)"
  by (simp add: never_def whenM_run)

lemma never_Let [never_intros]: "(\<And>y. never P (f y)) \<Longrightarrow> never P (let y = x in f y)"
  by simp

lemma never_if [never_intros]: "never P m \<Longrightarrow> never P k \<Longrightarrow> never P (if c then m else k)"
  by simp

lemma never_at: "never P m \<Longrightarrow> fst (m s) = Inl e \<Longrightarrow> \<not> P e"
  by (simp add: never_def)

text \<open>A transaction adds the errors of the driver.\<close>

lemma never_tx_loop:
  assumes "never P fn" and "\<not> P (LibError ''Transaction max retries exceeded'')"
    and "\<And>n e b. commitTransaction W n = Some (e, b) \<Longrightarrow> \<not> P e"
  shows "fst (tx_loop W fn left attempt s) = Inl e \<Longrightarrow> \<not> P e"
proof (induction left arbitrary: attempt s)
  case 0
  then show ?case using assms(2) by auto
next
  case (Suc left)
  show ?case
  proof (cases "fn s")
    case (Pair r s')
    have here: "\<not> P e'" if "r = Inl e'" for e'
      using never_at [OF assms(1), of s] Pair that by simp
    show ?thesis
      using Suc.prems Suc.IH never_at [OF assms(1)] here assms(3) Pair
      by (auto simp: tx_loop.simps(2) Let_def split: sum.splits option.splits prod.splits if_splits)
  qed
qed

lemma never_runInTransaction:
  assumes "never P fn" and "\<not> P (LibError ''Transaction max retries exceeded'')"
    and "\<And>n e b. commitTransaction W n = Some (e, b) \<Longrightarrow> \<not> P e" and "\<And>e. startSession W = Some e \<Longrightarrow> \<not> P e"
  shows "never P (runInTransaction W fn)"
  unfolding never_def runInTransaction_def
  using assms(4) never_at [OF assms(1)] never_tx_loop [OF assms(1-3)] by (auto split: option.splits)

section \<open>The server does not refuse what a page offers\<close>

text \<open>A refusal for want of rights, or because the match is not in the status for it.\<close>

definition refused :: "js_error \<Rightarrow> bool" where
  "refused e =
     (case e of
        ApiError n msg \<Rightarrow>
          n = 403 \<or> n = 400 \<and> (msg = ''Match already processed'' \<or> msg = ''Match must be accepted by carrier first'' \<or>
            msg = ''Rating allowed only after delivery'')
      | _ \<Rightarrow> False)"

text \<open>The errors of the database driver and of Rapido's API are none of the server's own.\<close>

definition driver_errors :: "world \<Rightarrow> bool" where
  "driver_errors W \<longleftrightarrow>
     (\<forall>e. startSession W = Some e \<longrightarrow> \<not> refused e) \<and>
     (\<forall>n e b. commitTransaction W n = Some (e, b) \<longrightarrow> \<not> refused e) \<and>
     (\<forall>mid body a e. rapidoBook W mid body a = Inl e \<longrightarrow> \<not> refused e)"

lemma refused_simps [simp]:
  "refused (ApiError n msg) \<longleftrightarrow> n = 403 \<or> n = 400 \<and> (msg = ''Match already processed'' \<or>
     msg = ''Match must be accepted by carrier first'' \<or> msg = ''Rating allowed only after delivery'')"
  "\<not> refused (LibError x)" "\<not> refused (HttpError n x)"
  by (simp_all add: refused_def)

lemma never_updateMatchStatus [never_intros]: "never refused (updateMatchStatus W mid st actor meta)"
  by (auto simp: never_def updateMatchStatus_def Let_def split: option.splits)

lemma never_verifyOTP [never_intros]: "never refused (verifyOTP W key otp)"
  by (auto simp: never_def verifyOTP_def invalid_otp_def Let_def split: option.splits redis_value.splits if_splits)

lemma never_generateOTP [never_intros]: "never refused (generateOTP W key)"
  by (auto simp: never_def generateOTP_def Let_def)

lemma never_saveMatch [never_intros]: "never refused (saveMatch mid mat)"
  unfolding saveMatch_def by (rule never_intros)

lemma never_notify [never_intros]: "never refused (notify_match W usr title body ty mid)"
  unfolding notify_match_def by (rule never_intros)

lemma never_emit_both [never_intros]: "never refused (emit_both W mat ev payload)"
  unfolding emit_both_def by (intro never_intros)

lemma never_holdFunds: "driver_errors W \<Longrightarrow> never refused (holdFunds W mid amount kind)"
  unfolding holdFunds_def hold_body_def driver_errors_def
  by (intro never_intros never_runInTransaction) auto

lemma never_bookRapido: "driver_errors W \<Longrightarrow> never refused (bookRapido W mid coords a)"
  unfolding never_def bookRapido_def driver_errors_def by (auto split: sum.splits)

lemma never_confirm_with: "driver_errors W \<Longrightarrow> never refused (confirm_with W mid mat req)"
  unfolding confirm_with_def Let_def by (intro never_intros never_holdFunds) auto

lemma never_withLock: "never refused fn \<Longrightarrow> never refused (withLock W key fn ttl)"
  by (auto simp: never_def withLock_def lock_conflict_def split: prod.splits option.splits) (metis fst_conv)

text \<open>A run from one state: the match is found there, and the guard on the role holds.\<close>

definition safe_run :: "(js_error \<Rightarrow> bool) \<Rightarrow> ('s, 'a) handler \<Rightarrow> 's \<Rightarrow> bool" where
  "safe_run P m s = (\<forall>e. fst (m s) = Inl e \<longrightarrow> \<not> P e)"

lemma safe_never: "never P m \<Longrightarrow> safe_run P m s"
  by (simp add: never_def safe_run_def)

lemma safe_found:
  "findById (matches s) mid = Some m \<Longrightarrow> safe_run P (k m) s \<Longrightarrow> safe_run P (bindM (findMatch mid) k) s"
  by (simp add: safe_run_def findMatch_def bindM_run requireM_run)

lemma safe_guard: "c \<Longrightarrow> safe_run P k s \<Longrightarrow> safe_run P (thenM (unlessM c e) k) s"
  by (simp add: safe_run_def thenM_run unlessM_run)

lemma safe_bindM: "safe_run P m s \<Longrightarrow> (\<And>x. never P (f x)) \<Longrightarrow> safe_run P (bindM m f) s"
  by (auto simp: safe_run_def never_def bindM_run split: prod.splits sum.splits)

lemma safe_Let: "safe_run P (f x) s \<Longrightarrow> safe_run P (let y = x in f y) s"
  by simp

lemma never_case_prod [never_intros]: "(\<And>a b. never P (f a b)) \<Longrightarrow> never P (case x of (a, b) \<Rightarrow> f a b)"
  by (cases x) simp

lemma carrierReject_safe:
  "findById (matches s) mid = Some m \<Longrightarrow> m_carrier m = usr \<Longrightarrow> safe_run refused (carrierReject W mid usr) s"
  unfolding carrierReject_def by (rule safe_found, assumption, rule safe_guard, assumption) (intro safe_never never_intros)

lemma senderReject_safe:
  "findById (matches s) mid = Some m \<Longrightarrow> m_sender m = usr \<Longrightarrow> safe_run refused (senderReject W mid usr) s"
  unfolding senderReject_def by (rule safe_found, assumption, rule safe_guard, assumption) (intro safe_never never_intros)

lemma senderConfirm_safe:
  "findById (matches s) mid = Some m \<Longrightarrow> m_sender m = usr \<Longrightarrow> m_status m = CarrierAccepted \<Longrightarrow> driver_errors W \<Longrightarrow>
     safe_run refused (senderConfirm W mid usr) s"
  unfolding senderConfirm_def
  by (rule safe_found, assumption, rule safe_guard, assumption, rule safe_guard, assumption)
    (intro safe_never never_intros never_confirm_with; simp)

lemma generatePickupOtp_safe:
  "findById (matches s) mid = Some m \<Longrightarrow> m_carrier m = usr \<Longrightarrow> safe_run refused (generatePickupOtp W mid usr) s"
  unfolding generatePickupOtp_def Let_def
  by (rule safe_found, assumption, rule safe_guard, assumption) (intro safe_never never_intros, simp_all)

lemma generateDeliveryOtp_safe:
  "findById (matches s) mid = Some m \<Longrightarrow> m_carrier m = usr \<Longrightarrow> safe_run refused (generateDeliveryOtp W mid usr) s"
  unfolding generateDeliveryOtp_def Let_def
  by (rule safe_found, assumption, rule safe_guard, assumption) (intro safe_never never_intros, simp_all)

lemma verifyPickup_safe:
  "findById (matches s) mid = Some m \<Longrightarrow> m_sender m = usr \<Longrightarrow> safe_run refused (verifyPickupOtpForMatch W mid usr otp) s"
  unfolding verifyPickupOtpForMatch_def Let_def
  by (rule safe_found, assumption, rule safe_guard, assumption) (intro safe_never never_intros)

lemma verifyDelivery_safe:
  "findById (matches s) mid = Some m \<Longrightarrow> m_sender m = usr \<Longrightarrow> safe_run refused (verifyDeliveryOtpForMatch W mid usr otp) s"
  unfolding verifyDeliveryOtpForMatch_def Let_def
  by (rule safe_found, assumption, rule safe_guard, assumption) (intro safe_never never_intros)

lemma requestRapido_safe:
  "findById (matches s) mid = Some m \<Longrightarrow> m_carrier m = usr \<Longrightarrow> driver_errors W \<Longrightarrow>
     safe_run refused (requestRapidoForMatch W mid usr xy a) s"
  unfolding requestRapidoForMatch_def Let_def
  by (rule safe_found, assumption, rule safe_guard, assumption) (intro safe_never never_intros never_bookRapido)

lemma rateMatch_safe:
  "findById (matches s) mid = Some m \<Longrightarrow> m_sender m = usr \<or> m_carrier m = usr \<Longrightarrow> m_status m = Delivered \<Longrightarrow>
     safe_run refused (rateMatch W mid usr n c) s"
  unfolding rateMatch_def Let_def
  by (rule safe_found, assumption, rule safe_guard, assumption, rule safe_guard, simp) (intro safe_never never_intros; simp)

text \<open>The lock of an acceptance gives its body the matches as they are.\<close>

lemma acquireLock_matches: "acquireLock W key ttl s = (r, s1) \<Longrightarrow> matches s1 = matches s"
  by (auto simp: acquireLock_def redis_set_nx_ex_def redis_setex_def next_draw_def Let_def split: if_splits)

lemma carrierAccept_safe:
  assumes "findById (matches s) mid = Some m" and "m_carrier m = usr" and "m_status m = Proposed"
  shows "safe_run refused (carrierAccept W mid usr) s"
proof -
  have "safe_run refused (carrierAccept_body W mid usr) s1" if "matches s1 = matches s" for s1
  proof -
    from assms(1) that have m: "findById (matches s1) mid = Some m" by simp
    show ?thesis
      unfolding carrierAccept_body_def
      by (intro safe_found [OF m] safe_guard [OF assms(2)] safe_guard [OF assms(3)] safe_never never_intros)
  qed
  then show ?thesis
    unfolding safe_run_def carrierAccept_def withLock_def
    by (auto simp: lock_conflict_def dest!: acquireLock_matches split: prod.splits option.splits if_splits)
qed

lemma fetched_match:
  assumes "fst (getMatchById mid usr d) = Inr m"
  shows "findById (matches d) mid = Some m \<and> (m_carrier m = usr \<or> m_sender m = usr)"
  using assms
  by (auto simp: getMatchById_def ensureInvolved_def findMatch_def run_simps split: option.splits if_splits)

text \<open>What a page with the match as it is offers is not refused.\<close>

lemma offered_safe:
  assumes "fst (getMatchById mid (mp_user p) d) = Inr m" and "mp_match p = Some m"
    and "offered p b" and "driver_errors W"
  shows "safe_run refused (serve_button W mid p b) d"
proof -
  note m = fetched_match [OF assms(1), THEN conjunct1] and role = fetched_match [OF assms(1), THEN conjunct2]
  show ?thesis
    using assms(2-4) m role
    by (cases b)
      (auto simp: isCarrier_def isSender_def status_is_def intro!: safe_bindM never_retM carrierAccept_safe carrierReject_safe
        senderConfirm_safe senderReject_safe generatePickupOtp_safe verifyPickup_safe generateDeliveryOtp_safe
        verifyDelivery_safe requestRapido_safe rateMatch_safe)
qed

end
