(* ===== verification/Widgets.thy ===== *)
theory Widgets
  imports MatchPage Schemas
begin

text \<open>
  Parts of the pages with a state of their own: the socket of a page (\<open>shared/src/realtime\<close>), the map
  that follows a carrier (\<open>TrackingMap.tsx\<close>), the loader of its script (\<open>useMMI.ts\<close>), and the form of a
  rating (\<open>StarRating.tsx\<close>).
\<close>

section \<open>The socket of a page\<close>

text \<open>
  \<open>useSocket\<close> runs at every rendering with the token and the user of the store and the match of the
  page.  A user is compared by reference: the store makes a new object at every change.  A socket
  that \<open>disconnect\<close> has closed stays closed, and what is emitted on it is never sent.
\<close>

datatype join_message = JoinUser oid | JoinMatch string

record page_socket =
  ps_open :: bool
  ps_sent :: "join_message list"

record socket_props =
  pr_token :: string
  pr_user :: "(nat \<times> oid) option"
  pr_match :: string

record socket_hook =
  sk_sockets :: "page_socket list"
  sk_token :: string
  sk_socket :: "nat option"
  sk_deps :: "(nat option \<times> (nat \<times> oid) option \<times> string) option"
  sk_cleanup :: "nat option"

definition socket_start :: socket_hook where
  "socket_start = \<lparr> sk_sockets = [], sk_token = [], sk_socket = None, sk_deps = None, sk_cleanup = None \<rparr>"

definition emit_on :: "nat \<Rightarrow> join_message list \<Rightarrow> socket_hook \<Rightarrow> socket_hook" where
  "emit_on i ms h =
     h\<lparr>sk_sockets := (sk_sockets h)[i := (let s = sk_sockets h ! i in if ps_open s then s\<lparr>ps_sent := ps_sent s @ ms\<rparr> else s)]\<rparr>"

definition close_socket :: "nat \<Rightarrow> socket_hook \<Rightarrow> socket_hook" where
  "close_socket i h = h\<lparr>sk_sockets := (sk_sockets h)[i := (sk_sockets h ! i)\<lparr>ps_open := False\<rparr>]\<rparr>"

text \<open>The \<open>useMemo\<close>: a new socket for a new token, none for an empty one.\<close>

definition memo_socket :: "socket_props \<Rightarrow> socket_hook \<Rightarrow> socket_hook" where
  "memo_socket pr h =
     (if pr_token pr = sk_token h then h
      else if pr_token pr = [] then h\<lparr>sk_token := [], sk_socket := None\<rparr>
      else h\<lparr>sk_token := pr_token pr, sk_socket := Some (length (sk_sockets h)),
             sk_sockets := sk_sockets h @ [\<lparr> ps_open = True, ps_sent = [] \<rparr>]\<rparr>)"

text \<open>The \<open>useEffect\<close>, with the cleanup of the run before.\<close>

definition socket_effect :: "socket_props \<Rightarrow> socket_hook \<Rightarrow> socket_hook" where
  "socket_effect pr h =
     (let deps = (sk_socket h, pr_user pr, pr_match pr) in
      if sk_deps h = Some deps then h
      else
        let h1 = (case sk_cleanup h of None \<Rightarrow> h | Some i \<Rightarrow> close_socket i h);
            h2 = h1\<lparr>sk_deps := Some deps, sk_cleanup := None\<rparr>
        in case (sk_socket h2, pr_user pr) of
             (Some i, Some (v, usr)) \<Rightarrow>
               (emit_on i (JoinUser usr # (if pr_match pr = [] then [] else [JoinMatch (pr_match pr)])) h2)\<lparr>sk_cleanup := Some i\<rparr>
           | _ \<Rightarrow> h2)"

definition useSocket :: "socket_props \<Rightarrow> socket_hook \<Rightarrow> socket_hook" where
  "useSocket pr h = socket_effect pr (memo_socket pr h)"

section \<open>The map of a delivery\<close>

record tracking =
  tr_lat :: rat
  tr_lng :: rat
  tr_speed :: rat
  tr_progress :: int
  tr_marker :: "(rat \<times> rat) option"

definition tracking_start :: tracking where
  "tracking_start =
     \<lparr> tr_lat = fl (130827 / 10000), tr_lng = fl (778542 / 10000), tr_speed = 58, tr_progress = 48, tr_marker = None \<rparr>"

text \<open>\<open>onCarrierLocation\<close>; \<open>shown\<close> is whether there is a map of Mappls.\<close>

definition onCarrierLocation :: "bool \<Rightarrow> rat \<Rightarrow> rat \<Rightarrow> rat option \<Rightarrow> tracking \<Rightarrow> tracking" where
  "onCarrierLocation shown lat lng speed t =
     t\<lparr>tr_lat := lat, tr_lng := lng,
       tr_speed := (case speed of None \<Rightarrow> 62 | Some v \<Rightarrow> if v = 0 then 62 else v),
       tr_progress := min (tr_progress t + 5) 95,
       tr_marker := (if shown then Some (lat, lng) else tr_marker t)\<rparr>"

section \<open>The loader of the map's script\<close>

datatype loader_status = LoaderIdle | LoaderLoading | LoaderReady | LoaderMissingKey | LoaderError

text \<open>
  The page has one script element, which says once whether it has loaded (\<open>lw_settled\<close>); the event
  reaches the listeners that are there when it happens.  \<open>lw_library\<close> is \<open>window.mappls\<close>.
\<close>

record loader_world =
  lw_library :: bool
  lw_script :: bool
  lw_settled :: bool
  lw_loaders :: "loader_status list"

datatype loader_event = MountLoader | ScriptLoads | ScriptFails

fun loader_step :: "string \<Rightarrow> loader_event \<Rightarrow> loader_world \<Rightarrow> loader_world" where
  "loader_step key MountLoader w =
     (if lw_library w then w\<lparr>lw_loaders := lw_loaders w @ [LoaderReady]\<rparr>
      else if trim key = [] then w\<lparr>lw_loaders := lw_loaders w @ [LoaderMissingKey]\<rparr>
      else w\<lparr>lw_loaders := lw_loaders w @ [LoaderLoading], lw_script := True\<rparr>)"
| "loader_step key ScriptLoads w =
     (if lw_script w \<and> \<not> lw_settled w
      then w\<lparr>lw_library := True, lw_settled := True, lw_loaders := map (\<lambda>s. if s = LoaderMissingKey \<or> s = LoaderIdle then s else LoaderReady) (lw_loaders w)\<rparr>
      else w)"
| "loader_step key ScriptFails w =
     (if lw_script w \<and> \<not> lw_settled w
      then w\<lparr>lw_settled := True, lw_loaders := map (\<lambda>s. if s = LoaderLoading then LoaderError else s) (lw_loaders w)\<rparr> else w)"

section \<open>Rating\<close>

record star_form =
  sf_score :: int
  sf_hover :: "int option"
  sf_tags :: "string list"
  sf_comment :: string
  sf_submitted :: bool

definition star_start :: star_form where
  "star_start = \<lparr> sf_score = 5, sf_hover = None, sf_tags = [], sf_comment = [], sf_submitted = False \<rparr>"

definition toggleTag :: "string \<Rightarrow> star_form \<Rightarrow> star_form" where
  "toggleTag tag f = f\<lparr>sf_tags := (if tag \<in> set (sf_tags f) then filter (\<lambda>t. t \<noteq> tag) (sf_tags f) else sf_tags f @ [tag])\<rparr>"

text \<open>\<open>sep\<close> is the bullet between the parts of a comment.\<close>

definition fullComment :: "string \<Rightarrow> star_form \<Rightarrow> string" where
  "fullComment sep f = join_with sep (filter (\<lambda>t. t \<noteq> []) (sf_tags f @ [trim (sf_comment f)]))"

datatype star_event = ClickStar nat | HoverStar nat | LeaveStar | ToggleTag string | TypeComment string

fun star_step :: "star_event \<Rightarrow> star_form \<Rightarrow> star_form" where
  "star_step (ClickStar n) f = (if n \<in> set [1, 2, 3, 4, 5] then f\<lparr>sf_score := int n\<rparr> else f)"
| "star_step (HoverStar n) f = (if n \<in> set [1, 2, 3, 4, 5] then f\<lparr>sf_hover := Some (int n)\<rparr> else f)"
| "star_step LeaveStar f = f\<lparr>sf_hover := None\<rparr>"
| "star_step (ToggleTag t) f = toggleTag t f"
| "star_step (TypeComment t) f = f\<lparr>sf_comment := t\<rparr>"

definition activeRating :: "star_form \<Rightarrow> int" where
  "activeRating f = (case sf_hover f of Some n \<Rightarrow> n | None \<Rightarrow> sf_score f)"

definition rating_body :: "string \<Rightarrow> star_form \<Rightarrow> json" where
  "rating_body sep f = JObj [(''score'', JNum (of_int (sf_score f))), (''comment'', JStr (fullComment sep f))]"

definition submit_rating :: "world \<Rightarrow> string \<Rightarrow> oid \<Rightarrow> oid \<Rightarrow> star_form \<times> db \<Rightarrow> star_form \<times> db" where
  "submit_rating W sep mid usr = (\<lambda>(f, d).
     case rateMatch W mid usr (sf_score f) (Some (fullComment sep f)) d of
       (Inr _, d') \<Rightarrow> (f\<lparr>sf_submitted := True\<rparr>, d')
     | (Inl _, d') \<Rightarrow> (f, d'))"

section \<open>A page keeps a socket that has been closed\<close>

definition socket_ok :: "socket_hook \<Rightarrow> bool" where
  "socket_ok h \<longleftrightarrow>
     (case sk_socket h of None \<Rightarrow> sk_token h = [] | Some i \<Rightarrow> sk_token h \<noteq> [] \<and> i < length (sk_sockets h)) \<and>
     (case sk_cleanup h of None \<Rightarrow> True | Some i \<Rightarrow> i < length (sk_sockets h)) \<and>
     (case sk_deps h of None \<Rightarrow> sk_cleanup h = None
      | Some (so, u, m) \<Rightarrow> sk_cleanup h = (if u = None then None else so))"

lemma memo_ok: "socket_ok h \<Longrightarrow> socket_ok (memo_socket pr h)"
  by (auto simp: socket_ok_def memo_socket_def split: option.splits)

lemma effect_ok: "socket_ok h \<Longrightarrow> socket_ok (socket_effect pr h)"
  by (auto simp: socket_ok_def socket_effect_def emit_on_def close_socket_def Let_def split: option.splits prod.splits)
    (metis not_None_eq surj_pair)+

lemma useSocket_ok: "socket_ok h \<Longrightarrow> socket_ok (useSocket pr h)"
  by (simp add: useSocket_def memo_ok effect_ok)

interpretation socket_renderings: kept_run useSocket socket_ok "\<lambda>_. True"
  by unfold_locales (rule useSocket_ok)

lemma renderings_ok: "socket_ok (fold useSocket prs socket_start)"
  by (rule socket_renderings.admitted_run) (simp_all add: socket_ok_def socket_start_def list_all_iff)

definition socket_open :: "nat \<Rightarrow> socket_hook \<Rightarrow> bool" where
  "socket_open i h \<longleftrightarrow> i < length (sk_sockets h) \<and> ps_open (sk_sockets h ! i)"

lemma open_steps [simp]:
  "socket_open i (emit_on j ms h) = socket_open i h"
  "socket_open i (close_socket j h) = (i \<noteq> j \<and> socket_open i h)"
  "socket_open i (h\<lparr>sk_deps := d\<rparr>) = socket_open i h"
  "socket_open i (h\<lparr>sk_cleanup := c\<rparr>) = socket_open i h"
  by (cases "i = j"; auto simp: socket_open_def emit_on_def close_socket_def Let_def)+

lemma open_memo: "i < length (sk_sockets h) \<Longrightarrow> socket_open i (memo_socket pr h) = socket_open i h"
  by (auto simp: memo_socket_def socket_open_def nth_append)

lemma open_effect:
  "socket_open i (socket_effect pr h) \<longleftrightarrow>
     socket_open i h \<and> (sk_deps h = Some (sk_socket h, pr_user pr, pr_match pr) \<or> sk_cleanup h \<noteq> Some i)"
  by (auto simp: socket_effect_def Let_def split: option.splits prod.splits)

text \<open>No rendering opens a socket again.\<close>

lemma closed_stays_closed:
  "i < length (sk_sockets h) \<Longrightarrow> \<not> socket_open i h \<Longrightarrow> \<not> socket_open i (useSocket pr h)"
  by (simp add: useSocket_def open_effect open_memo)

lemma effect_keeps [simp]:
  "sk_socket (socket_effect pr h) = sk_socket h" "sk_token (socket_effect pr h) = sk_token h"
  "length (sk_sockets (socket_effect pr h)) = length (sk_sockets h)"
  by (auto simp: socket_effect_def emit_on_def close_socket_def Let_def split: option.splits prod.splits)

lemma effect_deps: "sk_deps (socket_effect pr h) = Some (sk_socket h, pr_user pr, pr_match pr)"
  by (auto simp: socket_effect_def emit_on_def close_socket_def Let_def split: option.splits prod.splits)

lemma same_token: "pr_token pr = sk_token h \<Longrightarrow> memo_socket pr h = h"
  by (simp add: memo_socket_def)

lemma memo_token [simp]: "sk_token (memo_socket pr h) = pr_token pr"
  by (simp add: memo_socket_def)

text \<open>
  A user or a match that changes under the same token closes the page's socket, and from then on the
  page has no open socket until the token changes: after a change of the profile, or on the page of
  another match, there are no messages in real time.
\<close>

lemma change_kills_socket:
  assumes "socket_ok h" and "h1 = useSocket pr h" and "pr_token pr \<noteq> []" "pr_user pr \<noteq> None"
    and "pr_token pr' = pr_token pr" and "(pr_user pr', pr_match pr') \<noteq> (pr_user pr, pr_match pr)"
  shows "sk_socket (useSocket pr' h1) = sk_socket h1 \<and> \<not> socket_open (the (sk_socket h1)) (useSocket pr' h1)"
proof -
  have ok: "socket_ok h1" using assms(1,2) useSocket_ok by simp
  have tok: "sk_token h1 = pr_token pr" by (simp add: assms(2) useSocket_def)
  then obtain i where i: "sk_socket h1 = Some i" using ok assms(3) by (auto simp: socket_ok_def split: option.splits)
  have deps: "sk_deps h1 = Some (Some i, pr_user pr, pr_match pr)"
    using i by (simp add: assms(2) useSocket_def effect_deps)
  then have "sk_cleanup h1 = Some i" using ok assms(4) by (simp add: socket_ok_def)
  moreover have "memo_socket pr' h1 = h1" using tok assms(5) by (simp add: same_token)
  ultimately show ?thesis using i deps assms(6) by (auto simp: useSocket_def open_effect)
qed

lemma dead_until_new_token:
  assumes "socket_ok h" "sk_socket h = Some i" "\<not> socket_open i h" "list_all (\<lambda>pr. pr_token pr = sk_token h) prs"
  shows "sk_socket (fold useSocket prs h) = Some i \<and> \<not> socket_open i (fold useSocket prs h)"
  using assms
proof (induction prs arbitrary: h)
  case (Cons pr prs)
  then have same: "memo_socket pr h = h" by (simp add: same_token)
  have "i < length (sk_sockets h)" using Cons.prems(1,2) by (simp add: socket_ok_def)
  then have "\<not> socket_open i (useSocket pr h)" using Cons.prems(3) by (rule closed_stays_closed)
  moreover have "sk_socket (useSocket pr h) = Some i" "sk_token (useSocket pr h) = sk_token h"
    using Cons.prems(2) by (simp_all add: useSocket_def same)
  ultimately show ?case using Cons.prems(4) Cons.IH [OF useSocket_ok [OF Cons.prems(1)], of pr] by simp
qed simp

text \<open>A new token opens a socket that has joined the rooms of the user and of the match.\<close>

lemma new_token_joins:
  assumes "socket_ok h" and "pr_token pr \<noteq> sk_token h" "pr_token pr \<noteq> []" and "pr_user pr = Some (v, usr)"
  shows "\<exists>i. sk_socket (useSocket pr h) = Some i \<and> socket_open i (useSocket pr h) \<and>
    ps_sent (sk_sockets (useSocket pr h) ! i) = JoinUser usr # (if pr_match pr = [] then [] else [JoinMatch (pr_match pr)])"
proof -
  let ?i = "length (sk_sockets h)"
  let ?h = "memo_socket pr h"
  have memo: "sk_socket ?h = Some ?i" "sk_sockets ?h = sk_sockets h @ [\<lparr> ps_open = True, ps_sent = [] \<rparr>]"
    "sk_cleanup ?h = sk_cleanup h" "sk_deps ?h = sk_deps h"
    using assms(2,3) by (simp_all add: memo_socket_def)
  have clean: "sk_cleanup h \<noteq> Some ?i" using assms(1) by (auto simp: socket_ok_def)
  have fresh: "sk_deps h \<noteq> Some (Some ?i, pr_user pr, pr_match pr)"
    using assms(1,4) by (auto simp: socket_ok_def split: option.splits if_splits)
  have "socket_open ?i ?h" by (simp add: socket_open_def memo)
  then have "socket_open ?i (useSocket pr h)" using clean by (simp add: useSocket_def open_effect memo)
  moreover have "ps_sent (sk_sockets (useSocket pr h) ! ?i) = JoinUser usr # (if pr_match pr = [] then [] else [JoinMatch (pr_match pr)])"
    using clean fresh assms(4)
    by (auto simp: useSocket_def socket_effect_def memo emit_on_def close_socket_def Let_def nth_append split: option.splits)
  ultimately show ?thesis by (simp add: useSocket_def memo)
qed

section \<open>The map: figures that do not depend on the carrier\<close>

text \<open>The progress is a count of the messages, whatever the positions are, and never reaches the end.\<close>

lemma progress_counts:
  "tr_progress (fold (\<lambda>(lat, lng, v). onCarrierLocation shown lat lng v) ps tracking_start) = min (48 + 5 * int (length ps)) 95"
proof -
  have "tr_progress t \<le> 95 \<Longrightarrow>
      tr_progress (fold (\<lambda>(lat, lng, v). onCarrierLocation shown lat lng v) ps t) = min (tr_progress t + 5 * int (length ps)) 95" for t
  proof (induction ps arbitrary: t)
    case (Cons q ps)
    obtain lat lng v where q: "q = (lat, lng, v)" by (cases q)
    have "tr_progress (onCarrierLocation shown lat lng v t) = min (tr_progress t + 5) 95" by (simp add: onCarrierLocation_def)
    with Cons.IH [of "onCarrierLocation shown lat lng v t"] show ?case by (simp add: q min_def)
  qed simp
  from this [of tracking_start] show ?thesis by (simp add: tracking_start_def)
qed

section \<open>The loader: waiting for an event that has been\<close>

text \<open>A component that is mounted after the script has failed waits for ever: the element is there and says nothing again.\<close>

lemma loader_waits_after_failure:
  assumes "trim key \<noteq> []" "\<not> lw_library w" "lw_script w" "lw_settled w"
  shows "lw_loaders (fold (loader_step key) (MountLoader # es) w) ! length (lw_loaders w) = LoaderLoading"
proof -
  have "\<not> lw_library v \<and> lw_script v \<and> lw_settled v \<and> i < length (lw_loaders v) \<Longrightarrow> lw_loaders v ! i = LoaderLoading \<Longrightarrow>
      lw_loaders (fold (loader_step key) es v) ! i = LoaderLoading" for v i
  proof (induction es arbitrary: v)
    case (Cons e es)
    have "lw_loaders (loader_step key e v) ! i = LoaderLoading \<and> \<not> lw_library (loader_step key e v) \<and>
        lw_script (loader_step key e v) \<and> lw_settled (loader_step key e v) \<and> i < length (lw_loaders (loader_step key e v))"
      using Cons.prems assms(1) by (cases e) (auto simp: nth_append)
    with Cons.IH show ?case by simp
  qed simp
  from this [of "loader_step key MountLoader w" "length (lw_loaders w)"] assms show ?thesis by simp
qed

text \<open>A component is ready only when the library is there.\<close>

definition ready_has_library :: "loader_world \<Rightarrow> bool" where
  "ready_has_library w = (LoaderReady \<in> set (lw_loaders w) \<longrightarrow> lw_library w)"

lemma loader_step_ready: "ready_has_library w \<Longrightarrow> ready_has_library (loader_step key e w)"
  by (cases e) (auto simp: ready_has_library_def split: if_splits)

interpretation loader_steps: kept_run "loader_step key" ready_has_library "\<lambda>_. True" for key
  by unfold_locales (rule loader_step_ready)

lemma ready_needs_library:
  "ready_has_library (fold (loader_step key) es \<lparr> lw_library = b, lw_script = False, lw_settled = False, lw_loaders = [] \<rparr>)"
  by (rule loader_steps.admitted_run) (simp_all add: ready_has_library_def list_all_iff)

section \<open>The form of a rating\<close>

lemma star_score: "1 \<le> sf_score f \<and> sf_score f \<le> 5 \<Longrightarrow> 1 \<le> sf_score (star_step e f) \<and> sf_score (star_step e f) \<le> 5"
  by (cases e) (auto simp: toggleTag_def)

interpretation star_clicks: kept_run star_step "\<lambda>f. 1 \<le> sf_score f \<and> sf_score f \<le> 5" "\<lambda>_. True"
  by unfold_locales (rule star_score)

lemma stars_score: "1 \<le> sf_score (fold star_step es star_start) \<and> sf_score (fold star_step es star_start) \<le> 5"
  by (rule star_clicks.admitted_run) (simp_all add: star_start_def list_all_iff)

text \<open>Whatever was clicked and typed, the server's schema takes the rating exactly when the comment has at most 500 characters.\<close>

lemma rating_accepted:
  "zparse W rateMatchSchema (rating_body sep (fold star_step es star_start)) \<noteq> None \<longleftrightarrow>
     length (fullComment sep (fold star_step es star_start)) \<le> 500"
  using stars_score [of es]
  by (auto simp: rateMatchSchema_def rating_body_def number_ok_def text_ok_def split: if_splits)

text \<open>Pressing a tag twice gives it back.\<close>

lemma toggle_twice:
  assumes "tag \<notin> set (sf_tags f)" shows "toggleTag tag (toggleTag tag f) = f"
proof -
  have "filter (\<lambda>t. t \<noteq> tag) (sf_tags f) = sf_tags f" using assms by (intro filter_True) auto
  with assms show ?thesis by (simp add: toggleTag_def)
qed

end
