(* ===== verification/SendWizard.thy ===== *)
theory SendWizard
  imports TripWizard
begin

text \<open>
  \<open>sender-portal/src/pages/SendPackage.tsx\<close>: the form in three steps with which a sender asks for a
  delivery, and the schemas of the portals' forms, \<open>validators/forms.ts\<close>.  What a form lets through
  is compared with what the server's schema accepts.
\<close>

section \<open>The schemas of the forms\<close>

text \<open>
  Some fields use combinators that the server's schemas do not: a parser is given for them, and
  \<open>object_of\<close> puts parsers together as \<open>z.object\<close> does.
\<close>

type_synonym parser = "json \<Rightarrow> json option"

fun object_fields :: "(string \<times> parser) list \<Rightarrow> json \<Rightarrow> (string \<times> json) list option" where
  "object_fields [] v = Some []"
| "object_fields ((k, p) # ps) v =
     (case p (jget v k) of None \<Rightarrow> None | Some x \<Rightarrow>
        (case object_fields ps v of None \<Rightarrow> None | Some kvs \<Rightarrow>
           Some (if x = JUndef then kvs else (k, x) # kvs)))"

definition object_of :: "(string \<times> parser) list \<Rightarrow> parser" where
  "object_of ps v = (case v of JObj kvs \<Rightarrow> map_option JObj (object_fields ps v) | _ \<Rightarrow> None)"

definition optionalCoercedNumber :: parser where
  "optionalCoercedNumber v = (if v = JStr [] then Some JUndef else map_option JNum (to_number v))"

definition or_absent :: "parser \<Rightarrow> parser" where
  "or_absent p v = (if v = JUndef then Some JUndef else p v)"

definition weight_field :: parser where
  "weight_field v =
     (if v = JStr [] \<or> v = JNull \<or> v = JUndef then None
      else case to_number v of None \<Rightarrow> None | Some x \<Rightarrow> number_ok [NMin (fl (1 / 10)), NMax 30] x)"

definition pickupWindowSchema :: "world \<Rightarrow> parser" where
  "pickupWindowSchema W v =
     (case zparse W (ZObject [(''earliest'', ZString [SMin 1]), (''latest'', ZString [SMin 1])]) v of
        None \<Rightarrow> None
      | Some w \<Rightarrow>
          (case (to_date W (jget w ''earliest''), to_date W (jget w ''latest'')) of
             (Some e, Some l) \<Rightarrow> if l \<le> e then None else Some w
           | _ \<Rightarrow> None))"

definition form_locationSchema :: zschema where
  "form_locationSchema = ZObject
     [(''city'', ZString [SMin 2]), (''state'', ZOptional (ZString [])), (''placeId'', ZOptional (ZString [])),
      (''coordinates'', ZOptional (ZObject
         [(''type'', ZDefault (ZEnum [''Point'']) (JStr ''Point'')),
          (''coordinates'', ZTuple [ZNumber [], ZNumber []])])),
      (''fullAddress'', ZOptional (ZString []))]"

definition form_loginSchema :: zschema where
  "form_loginSchema = ZObject [(''phone'', ZString [SMin 10]), (''otp'', ZString [SLength 6])]"

definition form_registerSchema :: zschema where
  "form_registerSchema = ZObject
     [(''name'', ZString [SMin 2]), (''email'', ZString [SEmail]), (''phone'', ZString [SMin 10]),
      (''otp'', ZString [SLength 6])]"

definition form_categories :: "string list" where
  "form_categories = [''documents'', ''clothing'', ''electronics'', ''food'', ''fragile'', ''medicine'', ''other'']"

definition form_dimensions :: zschema where
  "form_dimensions = ZOptional (ZObject
     [(''length'', ZOptional (ZCoerceNumber [])), (''width'', ZOptional (ZCoerceNumber [])),
      (''height'', ZOptional (ZCoerceNumber []))])"

definition tripFormSchema :: zschema where
  "tripFormSchema = ZObject
     [(''origin'', form_locationSchema), (''destination'', form_locationSchema),
      (''departureTime'', ZString [SMin 1]), (''estimatedArrivalTime'', ZOptional (ZString [])),
      (''modeOfTransport'', ZEnum [''bus'', ''train'', ''car'', ''bike'', ''flight'', ''other'']),
      (''transportDetails'', ZObject
         [(''name'', ZOptional (ZString [])), (''pnr'', ZOptional (ZString [])),
          (''seatNumber'', ZOptional (ZString []))]),
      (''availableCapacity'', ZObject
         [(''weightKg'', ZCoerceNumber [NMin 1, NMax 30]), (''dimensionsCm'', form_dimensions),
          (''allowedCategories'', ZArray (ZEnum form_categories) 1)]),
      (''pricePerKg'', ZCoerceNumber [NMin 1]), (''pickupInstructions'', ZOptional (ZString [])),
      (''dropoffInstructions'', ZOptional (ZString []))]"

definition ratingSchema :: zschema where
  "ratingSchema = ZObject [(''score'', ZCoerceNumber [NInt, NMin 1, NMax 5]), (''comment'', ZOptional (ZString []))]"

definition package_fields :: "world \<Rightarrow> (string \<times> parser) list" where
  "package_fields W =
     [(''description'', zparse W (ZTrimmed [SMin 1, SMin 3])),
      (''category'', zparse W (ZEnum form_categories)),
      (''weightKg'', weight_field),
      (''dimensionsCm'', zparse W form_dimensions),
      (''isFragile'', zparse W (ZDefault ZBoolean (JBool False))),
      (''declaredValue'', or_absent optionalCoercedNumber),
      (''photoUrl'', zparse W (ZBlankText [SUrl]))]"

definition recipient_fields :: "world \<Rightarrow> (string \<times> parser) list" where
  "recipient_fields W =
     [(''name'', zparse W (ZString [SMin 2])), (''phone'', zparse W (ZString [SMin 10])),
      (''address'', zparse W (ZString [SMin 5]))]"

definition deliveryFormSchema :: "world \<Rightarrow> parser" where
  "deliveryFormSchema W = object_of
     [(''origin'', zparse W form_locationSchema), (''destination'', zparse W form_locationSchema),
      (''package'', object_of (package_fields W)), (''recipient'', object_of (recipient_fields W)),
      (''preferredDeliveryWindow'', pickupWindowSchema W)]"

section \<open>The form of the sender\<close>

record send_place =
  sp_city :: "string option"
  sp_placeId :: "string option"
  sp_coords :: "(rat \<times> rat) option"
  sp_fullAddress :: "string option"

record send_form =
  sf_description :: string
  sf_category :: string
  sf_weightKg :: "rat option"
  sf_declaredValue :: string
  sf_photoUrl :: string
  sf_isFragile :: bool
  sf_origin :: send_place
  sf_destination :: send_place
  sf_name :: string
  sf_phone :: string
  sf_address :: string
  sf_earliest :: string
  sf_latest :: string

record send_package =
  sw_step :: nat
  sw_form :: send_form
  sw_originPoint :: "(string \<times> string \<times> rat \<times> rat) option"
  sw_destinationPoint :: "(string \<times> string \<times> rat \<times> rat) option"

definition place_values :: "send_place \<Rightarrow> json" where
  "place_values p = JObj
     [(''city'', jopt JStr (sp_city p)), (''placeId'', jopt JStr (sp_placeId p)),
      (''coordinates'', jopt (\<lambda>(x, y). JObj [(''type'', JStr ''Point''), (''coordinates'', JArr [JNum x, JNum y])]) (sp_coords p)),
      (''fullAddress'', jopt JStr (sp_fullAddress p))]"

definition package_values :: "send_form \<Rightarrow> json" where
  "package_values f = JObj
     [(''category'', JStr (sf_category f)),
      (''weightKg'', (case sf_weightKg f of None \<Rightarrow> JStr [] | Some x \<Rightarrow> JNum x)),
      (''description'', JStr (sf_description f)), (''declaredValue'', JStr (sf_declaredValue f)),
      (''isFragile'', JBool (sf_isFragile f)), (''photoUrl'', JStr (sf_photoUrl f))]"

definition recipient_values :: "send_form \<Rightarrow> json" where
  "recipient_values f = JObj
     [(''name'', JStr (sf_name f)), (''phone'', JStr (sf_phone f)), (''address'', JStr (sf_address f))]"

definition window_values :: "send_form \<Rightarrow> json" where
  "window_values f = JObj [(''earliest'', JStr (sf_earliest f)), (''latest'', JStr (sf_latest f))]"

definition send_values :: "send_form \<Rightarrow> json" where
  "send_values f = JObj
     [(''package'', package_values f), (''origin'', place_values (sf_origin f)),
      (''destination'', place_values (sf_destination f)), (''recipient'', recipient_values f),
      (''preferredDeliveryWindow'', window_values f)]"

definition unset_place :: send_place where
  "unset_place = \<lparr> sp_city = None, sp_placeId = None, sp_coords = None, sp_fullAddress = None \<rparr>"

definition send_start :: send_package where
  "send_start =
     \<lparr> sw_step = 0,
       sw_form = \<lparr> sf_description = [], sf_category = ''documents'', sf_weightKg = None, sf_declaredValue = [],
         sf_photoUrl = [], sf_isFragile = False, sf_origin = unset_place, sf_destination = unset_place,
         sf_name = [], sf_phone = [], sf_address = [], sf_earliest = [], sf_latest = [] \<rparr>,
       sw_originPoint = None, sw_destinationPoint = None \<rparr>"

section \<open>Prefilling from the address of the page\<close>

definition prefill_placeId :: "string \<Rightarrow> string" where
  "prefill_placeId city' = ''DEMO_'' @ toUpperCase (take 3 city')"

definition prefill_place :: "string \<Rightarrow> send_place" where
  "prefill_place city' =
     \<lparr> sp_city = Some city', sp_placeId = Some (prefill_placeId city'), sp_coords = None,
       sp_fullAddress = Some (city' @ '', India'') \<rparr>"

definition prefill :: "string \<Rightarrow> string \<Rightarrow> send_package \<Rightarrow> send_package" where
  "prefill origin destination s =
     (let s1 = (if origin = [] then s
                else s\<lparr>sw_form := (sw_form s)\<lparr>sf_origin := prefill_place origin\<rparr>,
                       sw_originPoint := Some (origin, prefill_placeId origin, fl (775946 / 10000), fl (129716 / 10000))\<rparr>)
      in if destination = [] then s1
         else s1\<lparr>sw_form := (sw_form s1)\<lparr>sf_destination := prefill_place destination\<rparr>,
                 sw_destinationPoint := Some (destination, prefill_placeId destination, fl (728777 / 10000), fl (19076 / 1000))\<rparr>)"

section \<open>The steps\<close>

datatype sp_event =
    DescriptionSet string
  | CategoryChosen string
  | WeightSet "rat option"
  | DeclaredSet string
  | PhotoSet string
  | FragileToggled
  | CityTyped bool string
  | CityChosen bool string string "rat \<times> rat"
  | NameSet string
  | PhoneSet string
  | AddressSet string
  | EarliestSet string
  | LatestSet string
  | NextStep
  | PreviousStep

fun sp_page :: "nat \<Rightarrow> sp_event \<Rightarrow> bool" where
  "sp_page n (DescriptionSet _) = (n = 0)"
| "sp_page n (CategoryChosen _) = (n = 0)"
| "sp_page n (WeightSet _) = (n = 0)"
| "sp_page n (DeclaredSet _) = (n = 0)"
| "sp_page n (PhotoSet _) = (n = 0)"
| "sp_page n FragileToggled = (n = 0)"
| "sp_page n NextStep = (n < 2)"
| "sp_page n PreviousStep = (0 < n)"
| "sp_page n _ = (n = 1)"

definition set_city :: "bool \<Rightarrow> send_place \<Rightarrow> (string \<times> string \<times> rat \<times> rat) option \<Rightarrow> send_package \<Rightarrow> send_package" where
  "set_city isOrigin p pt s =
     (if isOrigin then s\<lparr>sw_form := (sw_form s)\<lparr>sf_origin := p\<rparr>, sw_originPoint := pt\<rparr>
      else s\<lparr>sw_form := (sw_form s)\<lparr>sf_destination := p\<rparr>, sw_destinationPoint := pt\<rparr>)"

definition place_at :: "bool \<Rightarrow> send_package \<Rightarrow> send_place" where
  "place_at isOrigin s = (if isOrigin then sf_origin (sw_form s) else sf_destination (sw_form s))"

definition edit_send :: "(send_form \<Rightarrow> send_form) \<Rightarrow> send_package \<Rightarrow> send_package" where
  "edit_send g s = s\<lparr>sw_form := g (sw_form s)\<rparr>"

text \<open>The fields that \<open>trigger\<close> checks before a step is left.\<close>

definition step_valid :: "world \<Rightarrow> nat \<Rightarrow> send_form \<Rightarrow> bool" where
  "step_valid W n f =
     (if n = 0 then
        zparse W (ZEnum form_categories) (JStr (sf_category f)) \<noteq> None \<and>
        zparse W (ZTrimmed [SMin 1, SMin 3]) (JStr (sf_description f)) \<noteq> None \<and>
        weight_field (jget (package_values f) ''weightKg'') \<noteq> None
      else if n = 1 then
        zparse W (ZString [SMin 2]) (jopt JStr (sp_city (sf_origin f))) \<noteq> None \<and>
        zparse W (ZString [SMin 2]) (jopt JStr (sp_city (sf_destination f))) \<noteq> None \<and>
        object_of (recipient_fields W) (recipient_values f) \<noteq> None \<and>
        pickupWindowSchema W (window_values f) \<noteq> None
      else True)"

definition has_place :: "(string \<times> string \<times> rat \<times> rat) option \<Rightarrow> bool" where
  "has_place pt = (case pt of None \<Rightarrow> False | Some (_, i, _, _) \<Rightarrow> i \<noteq> [])"

definition nextStep :: "world \<Rightarrow> send_package \<Rightarrow> string option \<times> send_package" where
  "nextStep W s =
     (if sw_step s = 1 \<and> \<not> (has_place (sw_originPoint s) \<and> has_place (sw_destinationPoint s))
      then (Some ''Please select both cities from the suggestions list.'', s)
      else if \<not> step_valid W (sw_step s) (sw_form s)
      then (Some ''Please fix the highlighted fields before continuing.'', s)
      else (None, s\<lparr>sw_step := min (sw_step s + 1) 2\<rparr>))"

fun sp_edit :: "world \<Rightarrow> sp_event \<Rightarrow> send_package \<Rightarrow> send_package" where
  "sp_edit W (DescriptionSet t) s = edit_send (\<lambda>f. f\<lparr>sf_description := t\<rparr>) s"
| "sp_edit W (CategoryChosen c) s = edit_send (\<lambda>f. f\<lparr>sf_category := c\<rparr>) s"
| "sp_edit W (WeightSet x) s = edit_send (\<lambda>f. f\<lparr>sf_weightKg := x\<rparr>) s"
| "sp_edit W (DeclaredSet t) s = edit_send (\<lambda>f. f\<lparr>sf_declaredValue := t\<rparr>) s"
| "sp_edit W (PhotoSet t) s = edit_send (\<lambda>f. f\<lparr>sf_photoUrl := t\<rparr>) s"
| "sp_edit W FragileToggled s = edit_send (\<lambda>f. f\<lparr>sf_isFragile := \<not> sf_isFragile f\<rparr>) s"
| "sp_edit W (CityTyped o' t) s =
     set_city o' ((place_at o' s)\<lparr>sp_city := Some t, sp_placeId := Some [], sp_coords := None\<rparr>) None s"
| "sp_edit W (CityChosen o' t i xy) s =
     set_city o' ((place_at o' s)\<lparr>sp_city := Some t, sp_placeId := Some i, sp_coords := Some xy\<rparr>)
       (Some (t, i, fst xy, snd xy)) s"
| "sp_edit W (NameSet t) s = edit_send (\<lambda>f. f\<lparr>sf_name := t\<rparr>) s"
| "sp_edit W (PhoneSet t) s = edit_send (\<lambda>f. f\<lparr>sf_phone := t\<rparr>) s"
| "sp_edit W (AddressSet t) s = edit_send (\<lambda>f. f\<lparr>sf_address := t\<rparr>) s"
| "sp_edit W (EarliestSet t) s = edit_send (\<lambda>f. f\<lparr>sf_earliest := t\<rparr>) s"
| "sp_edit W (LatestSet t) s = edit_send (\<lambda>f. f\<lparr>sf_latest := t\<rparr>) s"
| "sp_edit W NextStep s = snd (nextStep W s)"
| "sp_edit W PreviousStep s = s\<lparr>sw_step := sw_step s - 1\<rparr>"

definition sp_step :: "world \<Rightarrow> sp_event \<Rightarrow> send_package \<Rightarrow> send_package" where
  "sp_step W e s = (if sp_page (sw_step s) e then sp_edit W e s else s)"

text \<open>The request that \<open>handleSubmit\<close> sends: the values as the schema gives them back.\<close>

definition submitted :: "world \<Rightarrow> send_package \<Rightarrow> json option" where
  "submitted W s = (if sw_step s = 2 then deliveryFormSchema W (send_values (sw_form s)) else None)"

section \<open>What is shown of the route\<close>

definition packageWeight :: "send_form \<Rightarrow> rat" where
  "packageWeight f = (case sf_weightKg f of None \<Rightarrow> 0 | Some x \<Rightarrow> x)"

text \<open>\<open>Number(trip.pricePerKg) || Infinity\<close>, and the smallest of them; \<open>None\<close> is \<open>Infinity\<close>.\<close>

definition lowestRate :: "rat list \<Rightarrow> rat option" where
  "lowestRate prices =
     (let ps = filter (\<lambda>p. p \<noteq> 0) prices in if ps = [] then None else Some (foldr min (tl ps) (hd ps)))"

definition liveEstimate :: "rat list \<Rightarrow> send_form \<Rightarrow> int option" where
  "liveEstimate prices f =
     map_option (\<lambda>r. js_round (jmul (jmul r (packageWeight f)) (fl (112 / 100)))) (lowestRate prices)"

definition requestReadyForSubmit :: "send_package \<Rightarrow> bool" where
  "requestReadyForSubmit s =
     (has_place (sw_originPoint s) \<and> has_place (sw_destinationPoint s) \<and> sf_name (sw_form s) \<noteq> [] \<and>
      0 < packageWeight (sw_form s))"

definition selectedRouteLabel :: "send_package \<Rightarrow> string" where
  "selectedRouteLabel s =
     (case (sw_originPoint s, sw_destinationPoint s) of
        (Some (a, _), Some (b, _)) \<Rightarrow> a @ '' -> '' @ b
      | _ \<Rightarrow> ''Route pending'')"

text \<open>
  \<open>getFirstErrorMessage\<close>: the first message in a tree of errors.  An error may hold a message, and
  the errors of its fields.
\<close>

datatype form_error = NoError | FormError "string option" "form_error list"

fun first_message :: "form_error \<Rightarrow> string option"
  and first_of :: "form_error list \<Rightarrow> string option" where
  "first_message NoError = None"
| "first_message (FormError m es) =
     (case m of Some t \<Rightarrow> if t \<noteq> [] then Some t else first_of es | None \<Rightarrow> first_of es)"
| "first_of [] = None"
| "first_of (e # es) = (case first_message e of Some t \<Rightarrow> Some t | None \<Rightarrow> first_of es)"

section \<open>Objects\<close>

lemma object_fields_ok: "object_fields ps v \<noteq> None \<longleftrightarrow> list_all (\<lambda>(k, p). p (jget v k) \<noteq> None) ps"
  by (induction ps) (auto split: option.splits)

lemma object_fields_keys: "object_fields ps v = Some kvs \<Longrightarrow> fst ` set kvs \<subseteq> fst ` set ps"
proof (induction ps arbitrary: kvs)
  case (Cons q ps)
  obtain k p where q: "q = (k, p)" by (cases q)
  show ?case
  proof (cases "object_fields ps v")
    case None
    with Cons.prems q show ?thesis by (auto split: option.splits)
  next
    case (Some rest)
    then obtain x where "kvs = rest \<or> kvs = (k, x) # rest"
      using Cons.prems q by (auto split: option.splits if_splits)
    then have "fst ` set kvs \<subseteq> insert k (fst ` set rest)" by auto
    with Cons.IH [OF Some] show ?thesis unfolding q by (simp del: image_subset_iff) blast
  qed
qed simp

lemma object_fields_get:
  assumes "object_fields ps v = Some kvs" and "distinct (map fst ps)" and "(k, p) \<in> set ps"
  shows "p (jget v k) = Some (jget (JObj kvs) k)"
  using assms
proof (induction ps arbitrary: kvs)
  case (Cons q ps)
  obtain k' p' where q: "q = (k', p')" by (cases q)
  from Cons.prems(1) q obtain x rest where parts: "p' (jget v k') = Some x" "object_fields ps v = Some rest"
    "kvs = (if x = JUndef then rest else (k', x) # rest)"
    by (auto split: option.splits)
  have "k' \<notin> fst ` set rest"
    using object_fields_keys [OF parts(2)] Cons.prems(2) q by auto
  then have absent: "map_of rest k' = None" by (simp add: map_of_eq_None_iff)
  show ?case
  proof (cases "k = k'")
    case True
    then have "p = p'" using Cons.prems(2,3) q by (auto simp: image_iff)
    with True parts absent show ?thesis by simp
  next
    case False
    then have "p (jget v k) = Some (jget (JObj rest) k)"
      using Cons.prems q by (intro Cons.IH [OF parts(2)]) auto
    with False parts show ?thesis by simp
  qed
qed simp

text \<open>The fields of a schema of the server, as parsers.\<close>

lemma zfields_object: "zfields W fs v = object_fields (map (\<lambda>(k, s). (k, zparse W s)) fs) v"
  by (induction fs) (auto split: option.splits)

lemma zobject_ok:
  "zparse W (ZObject fs) v \<noteq> None \<longleftrightarrow>
     (\<exists>kvs. v = JObj kvs) \<and> list_all (\<lambda>(k, s). zparse W s (jget v k) \<noteq> None) fs"
proof (cases v)
  case (JObj kvs)
  have "zparse W (ZObject fs) v \<noteq> None \<longleftrightarrow> zfields W fs v \<noteq> None" by (simp add: JObj)
  also have "\<dots> \<longleftrightarrow> list_all (\<lambda>(k, s). zparse W s (jget v k) \<noteq> None) fs"
    unfolding zfields_object object_fields_ok by (simp add: list_all_iff case_prod_beta)
  finally show ?thesis by (simp add: JObj)
qed simp_all

lemma zobject_get:
  assumes "zparse W (ZObject fs) v = Some w" and "distinct (map fst fs)" and "(k, s) \<in> set fs"
  shows "zparse W s (jget v k) = Some (jget w k)"
proof -
  from assms(1) obtain kvs where "zfields W fs v = Some kvs" "w = JObj kvs"
    by (auto split: json.splits)
  then show ?thesis
    using object_fields_get [of _ v kvs k "zparse W s"] assms(2,3)
    by (force simp: zfields_object comp_def case_prod_beta)
qed

lemma object_of_ok:
  "object_of ps v \<noteq> None \<longleftrightarrow> (\<exists>kvs. v = JObj kvs) \<and> list_all (\<lambda>(k, p). p (jget v k) \<noteq> None) ps"
  using object_fields_ok [of ps v] by (cases v) (simp_all add: object_of_def del: jget.simps)

lemma object_of_get:
  "object_of ps v = Some w \<Longrightarrow> distinct (map fst ps) \<Longrightarrow> (k, p) \<in> set ps \<Longrightarrow> p (jget v k) = Some (jget w k)"
  by (auto simp: object_of_def simp del: jget.simps split: json.splits intro: object_fields_get)

lemma object_of_object: "object_of ps v = Some w \<Longrightarrow> \<exists>kvs. w = JObj kvs"
  by (auto simp: object_of_def split: json.splits)

section \<open>What the form lets through, and what the server accepts\<close>

lemma accepted_text: "zparse W (ZString cs) v = Some w \<longleftrightarrow> (\<exists>t. v = JStr t \<and> w = v \<and> list_all (\<lambda>c. scheck_ok W c t) cs)"
  by (auto simp: text_ok_def split: json.splits if_splits)

lemma accepted_again: "zparse W s v = Some w \<Longrightarrow> schema_ok s \<Longrightarrow> zparse W s w \<noteq> None"
  using zparse_idem by blast

lemma location_crosses:
  assumes "zparse W form_locationSchema v = Some w"
  shows "zparse W locationSchema w \<noteq> None"
proof -
  note get = zobject_get [OF assms [unfolded form_locationSchema_def]]
  have "zparse W (ZString [SMin 2]) (jget v ''city'') = Some (jget w ''city'')" by (rule get) simp_all
  then have "zparse W (ZString [SMin 1]) (jget w ''city'') \<noteq> None" by (auto simp: text_ok_def split: json.splits if_splits)
  moreover have "zparse W (ZOptional (ZString [])) (jget w k) \<noteq> None" if "k \<in> {''state'', ''placeId'', ''fullAddress''}" for k
  proof -
    have "zparse W (ZOptional (ZString [])) (jget v k) = Some (jget w k)"
      using that by (intro get) auto
    then show ?thesis by (rule accepted_again) simp
  qed
  moreover have "zparse W (ZOptional coordinatesSchema) (jget v ''coordinates'') = Some (jget w ''coordinates'')"
    unfolding coordinatesSchema_def by (rule get) simp_all
  then have "zparse W (ZOptional coordinatesSchema) (jget w ''coordinates'') \<noteq> None"
    by (rule accepted_again) (simp add: coordinatesSchema_def operator_key_def)
  moreover have "\<exists>kvs. w = JObj kvs" using assms by (auto simp: form_locationSchema_def split: json.splits)
  ultimately show ?thesis
    unfolding locationSchema_def zobject_ok by simp
qed

lemma tenth_positive: "0 < fl (1 / 10)"
  by code_simp

definition declared_whole :: "send_form \<Rightarrow> bool" where
  "declared_whole f =
     (sf_declaredValue f = [] \<or>
      (case text_number (sf_declaredValue f) of None \<Rightarrow> False | Some x \<Rightarrow> x = of_int \<lfloor>x\<rfloor> \<and> 0 \<le> x))"

lemma package_crosses:
  assumes "object_of (package_fields W) (package_values f) = Some w"
  shows "zparse W packageSchema w \<noteq> None \<longleftrightarrow> declared_whole f"
proof -
  have get: "p (jget (package_values f) k) = Some (jget w k)" if "(k, p) \<in> set (package_fields W)" for k p
    by (rule object_of_get [OF assms _ that]) (simp add: package_fields_def)
  have "zparse W (ZTrimmed [SMin 1, SMin 3]) (jget (package_values f) ''description'') = Some (jget w ''description'')"
    by (rule get) (simp add: package_fields_def del: zparse.simps)
  then have 1: "zparse W (ZString [SMin 3]) (jget w ''description'') \<noteq> None"
    by (auto simp: package_values_def text_ok_def dest!: sym [of "JStr _"] split: if_splits)
  have "zparse W (ZEnum form_categories) (jget (package_values f) ''category'') = Some (jget w ''category'')"
    by (rule get) (simp add: package_fields_def del: zparse.simps)
  then have 2: "zparse W categorySchema (jget w ''category'') \<noteq> None"
    by (auto simp: package_values_def categorySchema_def categories_def form_categories_def
        dest!: sym [of "JStr _"] split: if_splits)
  have "weight_field (jget (package_values f) ''weightKg'') = Some (jget w ''weightKg'')"
    by (rule get) (simp add: package_fields_def del: zparse.simps)
  then have 3: "zparse W (ZNumber [NPositive]) (jget w ''weightKg'') \<noteq> None"
    using tenth_positive
    by (auto simp: weight_field_def number_ok_def dest!: sym [of "JNum _"] split: if_splits option.splits)
  have "zparse W form_dimensions (jget (package_values f) ''dimensionsCm'') = Some (jget w ''dimensionsCm'')"
    by (rule get) (simp add: package_fields_def del: zparse.simps)
  then have 4: "zparse W (ZOptional dimensionsSchema) (jget w ''dimensionsCm'') \<noteq> None"
    by (simp add: package_values_def form_dimensions_def)
  have "zparse W (ZDefault ZBoolean (JBool False)) (jget (package_values f) ''isFragile'') = Some (jget w ''isFragile'')"
    by (rule get) (simp add: package_fields_def del: zparse.simps)
  then have 5: "zparse W (ZDefault ZBoolean (JBool False)) (jget w ''isFragile'') \<noteq> None"
    by (rule accepted_again) simp
  have "or_absent optionalCoercedNumber (jget (package_values f) ''declaredValue'') = Some (jget w ''declaredValue'')"
    by (rule get) (simp add: package_fields_def del: zparse.simps)
  then have 6: "zparse W (ZOptional (ZNumber [NInt, NNonnegative])) (jget w ''declaredValue'') \<noteq> None \<longleftrightarrow> declared_whole f"
    by (auto simp: package_values_def or_absent_def optionalCoercedNumber_def declared_whole_def number_ok_def
        dest!: sym [of "JNum _"] sym [of JUndef] split: if_splits option.splits)
  have "zparse W (ZBlankText [SUrl]) (jget (package_values f) ''photoUrl'') = Some (jget w ''photoUrl'')"
    by (rule get) (simp add: package_fields_def del: zparse.simps)
  then have 7: "zparse W (ZOptional (ZString [SUrl])) (jget w ''photoUrl'') \<noteq> None"
    by (auto simp: package_values_def text_ok_def dest!: sym [of "JStr _"] sym [of JUndef] split: if_splits)
  from object_of_object [OF assms] show ?thesis
    using 1 2 3 4 5 6 7 unfolding packageSchema_def zobject_ok by simp
qed

lemma recipient_crosses:
  assumes "object_of (recipient_fields W) (recipient_values f) = Some w"
  shows "zparse W recipientSchema w \<noteq> None \<longleftrightarrow> length (sf_phone f) \<le> 15"
proof -
  have get: "p (jget (recipient_values f) k) = Some (jget w k)" if "(k, p) \<in> set (recipient_fields W)" for k p
    by (rule object_of_get [OF assms _ that]) (simp add: recipient_fields_def)
  have n: "zparse W (ZString [SMin 2]) (jget (recipient_values f) ''name'') = Some (jget w ''name'')"
    by (rule get) (simp add: recipient_fields_def del: zparse.simps)
  have a: "zparse W (ZString [SMin 5]) (jget (recipient_values f) ''address'') = Some (jget w ''address'')"
    by (rule get) (simp add: recipient_fields_def del: zparse.simps)
  have "zparse W (ZString [SMin 10]) (jget (recipient_values f) ''phone'') = Some (jget w ''phone'')"
    by (rule get) (simp add: recipient_fields_def del: zparse.simps)
  then have "zparse W phoneSchema (jget w ''phone'') \<noteq> None \<longleftrightarrow> length (sf_phone f) \<le> 15"
    by (auto simp: recipient_values_def phoneSchema_def text_ok_def dest!: sym [of "JStr _"] split: if_splits)
  moreover have "zparse W (ZString [SMin 2]) (jget w ''name'') \<noteq> None" by (rule accepted_again [OF n]) simp
  moreover have "zparse W (ZString [SMin 5]) (jget w ''address'') \<noteq> None" by (rule accepted_again [OF a]) simp
  ultimately show ?thesis
    using object_of_object [OF assms] unfolding recipientSchema_def zobject_ok by simp
qed

lemma window_crosses:
  assumes "pickupWindowSchema W v = Some w"
  shows "zparse W windowSchema w \<noteq> None"
proof -
  from assms have parsed: "zparse W (ZObject [(''earliest'', ZString [SMin 1]), (''latest'', ZString [SMin 1])]) v = Some w"
    and dates: "to_date W (jget w ''earliest'') \<noteq> None" "to_date W (jget w ''latest'') \<noteq> None"
    by (auto simp: pickupWindowSchema_def simp del: zparse.simps split: option.splits if_splits)
  from parsed have "\<exists>kvs. w = JObj kvs" by (auto split: json.splits)
  with dates show ?thesis unfolding windowSchema_def zobject_ok by simp
qed

text \<open>
  A form that passes its schema is accepted by the server exactly when the declared value is a
  whole number that is not negative, and the phone number has at most fifteen characters.
\<close>

lemma delivery_crosses:
  assumes "deliveryFormSchema W (send_values f) = Some w"
  shows "zparse W createDeliverySchema w \<noteq> None \<longleftrightarrow> declared_whole f \<and> length (sf_phone f) \<le> 15"
proof -
  note get = object_of_get [OF assms [unfolded deliveryFormSchema_def]]
  have o': "zparse W form_locationSchema (jget (send_values f) ''origin'') = Some (jget w ''origin'')"
    by (rule get) simp_all
  have d: "zparse W form_locationSchema (jget (send_values f) ''destination'') = Some (jget w ''destination'')"
    by (rule get) simp_all
  have "object_of (package_fields W) (jget (send_values f) ''package'') = Some (jget w ''package'')"
    by (rule get) simp_all
  then have p: "object_of (package_fields W) (package_values f) = Some (jget w ''package'')"
    by (simp add: send_values_def)
  have "object_of (recipient_fields W) (jget (send_values f) ''recipient'') = Some (jget w ''recipient'')"
    by (rule get) simp_all
  then have r: "object_of (recipient_fields W) (recipient_values f) = Some (jget w ''recipient'')"
    by (simp add: send_values_def)
  have "pickupWindowSchema W (jget (send_values f) ''preferredDeliveryWindow'') = Some (jget w ''preferredDeliveryWindow'')"
    by (rule get) simp_all
  note w = window_crosses [OF this]
  show ?thesis
    using object_of_object [OF assms [unfolded deliveryFormSchema_def]]
      location_crosses [OF o'] location_crosses [OF d] package_crosses [OF p] recipient_crosses [OF r] w
    unfolding createDeliverySchema_def zobject_ok by simp
qed

section \<open>The way through the form\<close>

text \<open>What the schema asks of the fields, by the pages that check them.\<close>

definition photo_ok :: "world \<Rightarrow> send_form \<Rightarrow> bool" where
  "photo_ok W f = (sf_photoUrl f = [] \<or> zodUrl W (sf_photoUrl f))"

definition declared_number :: "send_form \<Rightarrow> bool" where
  "declared_number f = (sf_declaredValue f = [] \<or> text_number (sf_declaredValue f) \<noteq> None)"

lemma place_passes:
  "zparse W form_locationSchema (place_values p) \<noteq> None \<longleftrightarrow> zparse W (ZString [SMin 2]) (jopt JStr (sp_city p)) \<noteq> None"
  unfolding form_locationSchema_def zobject_ok
  by (cases "sp_coords p"; cases "sp_placeId p"; cases "sp_fullAddress p")
    (auto simp: place_values_def jopt_def text_ok_def number_ok_def)

lemma package_passes:
  "object_of (package_fields W) (package_values f) \<noteq> None \<longleftrightarrow>
     step_valid W 0 f \<and> declared_number f \<and> photo_ok W f"
  unfolding object_of_ok package_fields_def step_valid_def
  by (auto simp: package_values_def form_dimensions_def or_absent_def optionalCoercedNumber_def declared_number_def
      photo_ok_def text_ok_def split: option.splits if_splits)

lemma form_passes:
  assumes "step_valid W 0 f" and "step_valid W 1 f"
  shows "deliveryFormSchema W (send_values f) \<noteq> None \<longleftrightarrow> declared_number f \<and> photo_ok W f"
proof -
  have "zparse W form_locationSchema (place_values (sf_origin f)) \<noteq> None"
    "zparse W form_locationSchema (place_values (sf_destination f)) \<noteq> None"
    using assms(2) unfolding place_passes step_valid_def by simp_all
  moreover have "object_of (recipient_fields W) (recipient_values f) \<noteq> None" "pickupWindowSchema W (window_values f) \<noteq> None"
    using assms(2) by (simp_all add: step_valid_def)
  ultimately show ?thesis
    using package_passes [of W f] assms(1) unfolding deliveryFormSchema_def object_of_ok [of _ "send_values f"]
    by (simp add: send_values_def del: not_None_eq)
qed

text \<open>The pages behind the sender are valid, and from the last page both places have been chosen.\<close>

definition point_ok :: "(string \<times> string \<times> rat \<times> rat) option \<Rightarrow> send_place \<Rightarrow> bool" where
  "point_ok pt p =
     (case pt of None \<Rightarrow> True | Some (c, i, _, _) \<Rightarrow> sp_city p = Some c \<and> sp_placeId p = Some i)"

definition sp_ok :: "world \<Rightarrow> send_package \<Rightarrow> bool" where
  "sp_ok W s =
     (sw_step s \<le> 2 \<and> point_ok (sw_originPoint s) (sf_origin (sw_form s)) \<and>
      point_ok (sw_destinationPoint s) (sf_destination (sw_form s)) \<and>
      (1 \<le> sw_step s \<longrightarrow> step_valid W 0 (sw_form s)) \<and>
      (2 \<le> sw_step s \<longrightarrow> step_valid W 1 (sw_form s) \<and> has_place (sw_originPoint s) \<and> has_place (sw_destinationPoint s)))"

lemma first_page_only:
  assumes "sf_category g = sf_category f" "sf_description g = sf_description f" "sf_weightKg g = sf_weightKg f"
  shows "step_valid W 0 g = step_valid W 0 f"
  using assms by (simp add: step_valid_def package_values_def)

lemma start_sp_ok: "sp_ok W (prefill origin destination send_start)"
  by (simp add: sp_ok_def prefill_def send_start_def point_ok_def prefill_place_def unset_place_def Let_def)

lemma next_ok: "sp_ok W s \<Longrightarrow> sw_step s < 2 \<Longrightarrow> sp_ok W (snd (nextStep W s))"
  by (cases "sw_step s") (auto simp: sp_ok_def nextStep_def)

lemma point_ok_simps [simp]:
  "point_ok None p" "point_ok (Some (c, i, xy)) p \<longleftrightarrow> sp_city p = Some c \<and> sp_placeId p = Some i"
  by (simp_all add: point_ok_def split: prod.splits)

lemma set_city_fields [simp]:
  "sw_originPoint (set_city o' p pt s) = (if o' then pt else sw_originPoint s)"
  "sw_destinationPoint (set_city o' p pt s) = (if o' then sw_destinationPoint s else pt)"
  "sf_origin (sw_form (set_city o' p pt s)) = (if o' then p else sf_origin (sw_form s))"
  "sf_destination (sw_form (set_city o' p pt s)) = (if o' then sf_destination (sw_form s) else p)"
  "sw_step (set_city o' p pt s) = sw_step s"
  "sf_category (sw_form (set_city o' p pt s)) = sf_category (sw_form s)"
  "sf_description (sw_form (set_city o' p pt s)) = sf_description (sw_form s)"
  "sf_weightKg (sw_form (set_city o' p pt s)) = sf_weightKg (sw_form s)"
  by (simp_all add: set_city_def)

lemma sp_step_ok: "sp_ok W s \<Longrightarrow> sp_ok W (sp_step W e s)"
proof (cases e)
  case NextStep
  moreover assume "sp_ok W s"
  ultimately show ?thesis using next_ok [of W s] by (simp add: sp_step_def)
next
  case PreviousStep
  moreover assume "sp_ok W s"
  ultimately show ?thesis by (auto simp: sp_step_def sp_ok_def)
next
  case (CityTyped o' t)
  moreover assume "sp_ok W s"
  ultimately show ?thesis
    by (cases o') (auto simp: sp_step_def sp_ok_def place_at_def cong: first_page_only)
next
  case (CityChosen o' t i xy)
  moreover assume "sp_ok W s"
  ultimately show ?thesis
    by (cases o') (auto simp: sp_step_def sp_ok_def place_at_def cong: first_page_only)
qed (auto simp: sp_step_def sp_ok_def edit_send_def cong: first_page_only)

interpretation send_wizard: kept_run "sp_step W" "sp_ok W" "\<lambda>_. True" for W
  by unfold_locales (rule sp_step_ok)

lemma send_wizard_ok: "sp_ok W (fold (sp_step W) es (prefill origin destination send_start))"
  by (rule send_wizard.admitted_run [OF start_sp_ok]) (simp add: list_all_iff)

lemma last_step_submits:
  assumes "sp_ok W s" and "sw_step s = 2"
  shows "submitted W s \<noteq> None \<longleftrightarrow> declared_number (sw_form s) \<and> photo_ok W (sw_form s)"
  using assms form_passes [of W "sw_form s"] by (simp add: submitted_def sp_ok_def)

section \<open>What prefilling gets wrong\<close>

text \<open>The point of a prefilled origin is that of Bengaluru, whatever the city.\<close>

lemma prefilled_origin:
  "origin \<noteq> [] \<Longrightarrow> sw_originPoint (prefill origin destination s) =
     Some (origin, prefill_placeId origin, fl (775946 / 10000), fl (129716 / 10000))"
  by (simp add: prefill_def Let_def)

lemma prefilled_Patiala: "prefill_placeId ''Patiala'' = ''DEMO_PAT''"
  by code_simp

lemma DEMO_PAT_is_Patna: "list_ex (\<lambda>c. ct_placeName c = ''Patna'' \<and> ct_eLoc c = ''DEMO_PAT'') bihar_jharkhand_cities"
  by (simp add: bihar_jharkhand_cities_def)

lemma prefilled_id_of_another:
  "list_ex (\<lambda>c. ct_placeName c = ''Patna'' \<and> ct_eLoc c = prefill_placeId ''Patiala'') ALL_INDIAN_CITIES"
  using DEMO_PAT_is_Patna by (simp add: prefilled_Patiala ALL_INDIAN_CITIES_def)

text \<open>Choosing another city leaves the full address of the prefilled one.\<close>

lemma stale_full_address:
  assumes "origin \<noteq> []" and "sw_step s = 1" and "s = (prefill origin destination send_start)\<lparr>sw_step := 1\<rparr>"
  shows "sp_fullAddress (sf_origin (sw_form (sp_step W (CityChosen True city' i xy) s))) = Some (origin @ '', India'') \<and>
    sp_city (sf_origin (sw_form (sp_step W (CityChosen True city' i xy) s))) = Some city'"
  using assms by (simp add: sp_step_def set_city_def place_at_def prefill_def Let_def prefill_place_def)

end
