(* ===== verification/Reports.thy ===== *)
theory Reports
  imports Schemas Trips "HOL-Library.Multiset"
begin

text \<open>
  The read-only reports: a carrier's jobs (\<open>job.service.ts\<close>), and the counts, the funnel, the dwell
  times and the sign-ups of \<open>analytics.service.ts\<close> with the beacon that records a dwell time.
\<close>

section \<open>Jobs of a carrier\<close>

definition AVAILABLE_JOB_STATUSES :: "string list" where
  "AVAILABLE_JOB_STATUSES =
     [''proposed'', ''carrier_accepted'', ''sender_confirmed'', ''active'', ''pickup_pending'', ''picked_up'',
      ''in_transit'', ''delivery_pending'']"

record financials =
  fi_payoutToCarrier :: int
  fi_totalCharge :: int
  fi_platformFee :: int
  fi_payoutPerKg :: int
  fi_packageWeightKg :: rat

definition financials_of :: "match_doc \<Rightarrow> delivery_request option \<Rightarrow> financials" where
  "financials_of m r =
     (let payoutToCarrier = num_or (m_payoutToCarrier m) 0;
          totalCharge = num_or (Some (m_agreedPrice m)) (case r of None \<Rightarrow> 0 | Some q \<Rightarrow> num_or (r_totalCharge q) 0);
          weight = (case r of None \<Rightarrow> 0 | Some q \<Rightarrow> p_weightKg (r_package q))
      in \<lparr> fi_payoutToCarrier = payoutToCarrier, fi_totalCharge = totalCharge,
           fi_platformFee = max (totalCharge - payoutToCarrier) 0,
           fi_payoutPerKg = (if 0 < weight then js_round (jdiv (of_int payoutToCarrier) weight) else 0),
           fi_packageWeightKg = weight \<rparr>)"

text \<open>The populated request, sender (name, phone, rating) and trip of a job.\<close>

record job_view =
  jb_match :: "oid \<times> match_doc"
  jb_request :: "delivery_request option"
  jb_sender :: "(string \<times> string \<times> rat \<times> int) option"
  jb_trip :: "trip option"
  jb_financials :: financials

definition listAvailableJobs :: "oid \<Rightarrow> db \<Rightarrow> job_view list" where
  "listAvailableJobs carrierId s =
     map (\<lambda>(k, m).
        let r = findById (requests s) (m_deliveryRequest m)
        in \<lparr> jb_match = (k, m), jb_request = r,
             jb_sender = map_option (\<lambda>u. (u_name u, u_phone u, u_ratingAverage u, u_ratingCount u))
               (findById (users s) (m_sender m)),
             jb_trip = findById (trips s) (m_trip m), jb_financials = financials_of m r \<rparr>)
       (sort_key (\<lambda>(k, m). - m_createdAt m)
         (filter (\<lambda>(k, m). m_carrier m = carrierId \<and> match_status_str (m_status m) \<in> set AVAILABLE_JOB_STATUSES)
           (matches s)))"

section \<open>Counts\<close>

record summary =
  su_users :: "nat \<times> nat \<times> nat \<times> nat"
  su_trips :: "nat \<times> nat"
  su_deliveries :: "nat \<times> nat"
  su_matches :: "nat \<times> nat \<times> nat"
  su_conversionRate :: rat

definition day_ms :: int where
  "day_ms = 24 * 60 * 60 * 1000"

definition getAnalyticsSummary :: "db \<Rightarrow> summary" where
  "getAnalyticsSummary s =
     (let now = clock s;
          totalMatches = countDocuments (\<lambda>_. True) (matches s);
          completedMatches = countDocuments (\<lambda>m. match_status_str (m_status m) = ''delivered'') (matches s)
      in \<lparr> su_users = (countDocuments (\<lambda>_. True) (users s),
             countDocuments (\<lambda>u. now - day_ms \<le> u_createdAt u) (users s),
             countDocuments (\<lambda>u. now - 7 * day_ms \<le> u_createdAt u) (users s),
             countDocuments (\<lambda>u. now - 30 * day_ms \<le> u_createdAt u) (users s)),
           su_trips = (countDocuments (\<lambda>_. True) (trips s),
             countDocuments (\<lambda>t. trip_status_str (t_status t) \<in> set [''upcoming'', ''active'']) (trips s)),
           su_deliveries = (countDocuments (\<lambda>_. True) (requests s),
             countDocuments (\<lambda>r. request_status_str (r_status r) = ''pending'') (requests s)),
           su_matches = (totalMatches, completedMatches,
             countDocuments (\<lambda>m. match_status_str (m_status m) \<in> set [''proposed'', ''accepted'', ''in_transit'']) (matches s)),
           su_conversionRate =
             (if 0 < totalMatches then to_fixed 1 (jmul (jdiv (of_nat completedMatches) (of_nat totalMatches)) 100) else 0) \<rparr>)"

definition getMatchFunnel :: "db \<Rightarrow> (string \<times> nat) list" where
  "getMatchFunnel s =
     (let status = (\<lambda>t. countDocuments (\<lambda>m. match_status_str (m_status m) = t) (matches s))
      in [(''Delivery Requested'', countDocuments (\<lambda>_. True) (requests s)),
          (''Match Found'', countDocuments (\<lambda>_. True) (matches s)),
          (''Carrier Accepted'', status ''accepted''), (''In Transit'', status ''in_transit''),
          (''Delivered'', status ''delivered''), (''Cancelled'', status ''cancelled'')])"

section \<open>Groups\<close>

text \<open>
  \<open>$group\<close> with a count: the groups in the order in which their keys first appear (MongoDB leaves
  the order open; a \<open>$sort\<close> follows).
\<close>

definition group_by :: "('a \<Rightarrow> 'k) \<Rightarrow> 'a list \<Rightarrow> ('k \<times> 'a list) list" where
  "group_by key xs = map (\<lambda>k. (k, filter (\<lambda>x. key x = k) xs)) (rev (remdups (rev (map key xs))))"

record analytics_event =
  ae_userId :: "string option"
  ae_sessionId :: string
  ae_page :: string
  ae_event :: string
  ae_durationMs :: "rat option"
  ae_createdAt :: int

record page_dwell =
  pd_page :: string
  pd_avgDwellSec :: int
  pd_sessions :: nat

definition is_dwell :: "analytics_event \<Rightarrow> bool" where
  "is_dwell e = (ae_event e = ''dwell'' \<and> (case ae_durationMs e of None \<Rightarrow> False | Some d \<Rightarrow> 0 < d))"

definition average :: "rat list \<Rightarrow> rat" where
  "average ds = jdiv (fold (\<lambda>d acc. jadd acc d) ds 0) (of_nat (length ds))"

definition getDwellByPage :: "analytics_event list \<Rightarrow> page_dwell list" where
  "getDwellByPage es =
     map (\<lambda>(avg, page, n). \<lparr> pd_page = page, pd_avgDwellSec = js_round (jdiv avg 1000), pd_sessions = n \<rparr>)
       (take 20 (sort_key (\<lambda>(avg, _, _). - avg)
         (map (\<lambda>(page, g). (average (map (the \<circ> ae_durationMs) g), page, length g))
           (group_by ae_page (filter is_dwell es)))))"

text \<open>The key of a day is its number; the dates \<open>%Y-%m-%d\<close> are sorted as their days are.\<close>

definition getSignupTrend :: "int \<Rightarrow> db \<Rightarrow> (int \<times> nat) list" where
  "getSignupTrend days s =
     sort_key fst (map (\<lambda>(d, g). (d, length g))
       (group_by (\<lambda>u. u_createdAt u div day_ms)
         (filter (\<lambda>u. clock s - days * day_ms \<le> u_createdAt u) (map snd (users s)))))"

text \<open>
  The beacon: 400 without its fields, else the event with the time capped at an hour.  mongoose
  writes a number or a boolean as its text (\<open>txt\<close>) into a field of type String and refuses an object
  or an array; without a body the destructuring throws.
\<close>

definition cast_text :: "(json \<Rightarrow> string) \<Rightarrow> json \<Rightarrow> string option" where
  "cast_text txt v =
     (case v of JStr t \<Rightarrow> Some t | JNum _ \<Rightarrow> Some (txt v) | JBool _ \<Rightarrow> Some (txt v) | JDate _ \<Rightarrow> Some (txt v) | _ \<Rightarrow> None)"

definition cast_absent :: "(json \<Rightarrow> string) \<Rightarrow> json \<Rightarrow> string option option" where
  "cast_absent txt v = (if v = JUndef \<or> v = JNull then Some None else map_option Some (cast_text txt v))"

definition recordDwellController ::
  "(json \<Rightarrow> string) \<Rightarrow> json \<Rightarrow> int \<Rightarrow> analytics_event list \<Rightarrow> (js_error + int) \<times> analytics_event list" where
  "recordDwellController txt body now es =
     (if body = JUndef \<or> body = JNull then (Inl (LibError ''TypeError''), es)
      else if \<not> truthy (jget body ''sessionId'') \<or> \<not> truthy (jget body ''page'') then (Inr 400, es)
      else case jget body ''durationMs'' of
        JNum d \<Rightarrow>
          (case (cast_text txt (jget body ''sessionId''), cast_text txt (jget body ''page''),
                 cast_absent txt (jget body ''userId'')) of
             (Some session, Some page, Some usr) \<Rightarrow>
               (Inr 204, es @ [\<lparr> ae_userId = usr, ae_sessionId = session, ae_page = page, ae_event = ''dwell'',
                                 ae_durationMs = Some (min d 3600000), ae_createdAt = now \<rparr>])
           | _ \<Rightarrow> (Inl (LibError ''ValidationError''), es))
      | _ \<Rightarrow> (Inr 400, es))"

section \<open>Lemmas\<close>

text \<open>A carrier sees every match that is not over, newest first, and never a negative fee.\<close>

lemma open_status: "match_status_str st \<in> set AVAILABLE_JOB_STATUSES \<longleftrightarrow> st \<notin> {Delivered, Cancelled, Disputed}"
  by (cases st) (simp_all add: AVAILABLE_JOB_STATUSES_def)

lemma jobs_complete:
  "jb_match ` set (listAvailableJobs c s) =
     {(k, m). (k, m) \<in> set (matches s) \<and> m_carrier m = c \<and> m_status m \<notin> {Delivered, Cancelled, Disputed}}"
  unfolding listAvailableJobs_def Let_def
  by (force simp: open_status image_iff split: prod.splits)

lemma jobs_newest_first: "sorted_wrt (\<lambda>a b. m_createdAt (snd (jb_match b)) \<le> m_createdAt (snd (jb_match a))) (listAvailableJobs c s)"
proof -
  let ?ms = "filter (\<lambda>(k, m). m_carrier m = c \<and> match_status_str (m_status m) \<in> set AVAILABLE_JOB_STATUSES) (matches s)"
  have "sorted (map (\<lambda>(k, m). - m_createdAt m) (sort_key (\<lambda>(k, m). - m_createdAt m) ?ms))" by (rule sorted_sort_key)
  then show ?thesis by (simp add: listAvailableJobs_def Let_def sorted_wrt_map split_def)
qed

lemma fee_nonneg: "j \<in> set (listAvailableJobs c s) \<Longrightarrow> 0 \<le> fi_platformFee (jb_financials j)"
  by (auto simp: listAvailableJobs_def financials_of_def Let_def)

text \<open>A beacon appends at most one event, and no recorded stay is longer than an hour.\<close>

lemma dwell_recorded:
  assumes "\<forall>e \<in> set es. case ae_durationMs e of None \<Rightarrow> True | Some d \<Rightarrow> d \<le> 3600000"
  shows "(\<forall>e \<in> set (snd (recordDwellController txt body now es)). case ae_durationMs e of None \<Rightarrow> True | Some d \<Rightarrow> d \<le> 3600000) \<and>
    length (snd (recordDwellController txt body now es)) =
      length es + (if fst (recordDwellController txt body now es) = Inr 204 then 1 else 0)"
  using assms by (auto simp: recordDwellController_def split: json.splits option.splits)

text \<open>The funnel counts a status that no match can have.\<close>

lemma funnel_accepts_nobody: "(''Carrier Accepted'', 0) \<in> set (getMatchFunnel s)"
proof -
  have "match_status_str st \<noteq> ''accepted''" for st by (cases st) simp_all
  then show ?thesis by (simp add: getMatchFunnel_def countDocuments_def findAll_def)
qed

text \<open>Every sign-up of the period is counted once.\<close>

lemma group_sizes: "sum_list (map (\<lambda>(k, g). length g) (group_by key xs)) = length xs"
proof -
  have "sum_list (map (\<lambda>k. length (filter (\<lambda>x. key x = k) xs)) ks) = length (filter (\<lambda>x. key x \<in> set ks) xs)"
    if "distinct ks" for ks
    using that
  proof (induction ks)
    case (Cons k ks)
    have "length (filter (\<lambda>x. key x \<in> set (k # ks)) xs) =
        length (filter (\<lambda>x. key x = k) xs) + length (filter (\<lambda>x. key x \<in> set ks) xs)"
      using Cons.prems by (induction xs) auto
    with Cons show ?case by simp
  qed simp
  from this [of "rev (remdups (rev (map key xs)))"] show ?thesis
    by (simp add: group_by_def comp_def)
qed

lemma trend_counts_all:
  "sum_list (map snd (getSignupTrend days s)) =
     length (filter (\<lambda>u. clock s - days * day_ms \<le> u_createdAt u) (map snd (users s)))"
proof -
  have "sum_list (map snd (sort_key fst ps)) = sum_list (map snd ps)" for ps :: "(int \<times> nat) list"
    by (metis mset_map mset_sort sum_mset_sum_list)
  then have "sum_list (map snd (getSignupTrend days s)) =
      sum_list (map (\<lambda>(d, g). length g) (group_by (\<lambda>u. u_createdAt u div day_ms)
        (filter (\<lambda>u. clock s - days * day_ms \<le> u_createdAt u) (map snd (users s)))))"
    by (simp add: getSignupTrend_def comp_def split_def)
  then show ?thesis by (simp only: group_sizes)
qed

end
