(* ===== verification/Accounts.thy ===== *)
theory Accounts
  imports Checkout TripWizard SendWizard Decode Reports
begin

text \<open>
  The pages about an account: the profile with the identity document (\<open>Profile.tsx\<close>, the same in both
  portals), the wallet with its top-up (\<open>Wallet.tsx\<close>), the trips of a carrier (\<open>MyTrips.tsx\<close>), the
  dashboard of a sender, the cards and the start pages (\<open>Dashboard.tsx\<close>, \<open>TripCard.tsx\<close>,
  \<open>DeliveryCard.tsx\<close>, \<open>Home.tsx\<close>, \<open>CarrierHome.tsx\<close>), and the admin portal (\<open>App.tsx\<close>, \<open>Dashboard.tsx\<close>).
\<close>

section \<open>The profile\<close>

record profile_form =
  pf_name :: string
  pf_email :: string
  pf_profilePhoto :: string

definition profile_reset :: "user \<Rightarrow> profile_form" where
  "profile_reset u = \<lparr> pf_name = u_name u, pf_email = u_email u, pf_profilePhoto = str_or (u_profilePhoto u) [] \<rparr>"

definition photo_field :: "world \<Rightarrow> parser" where
  "photo_field W v =
     (if v = JUndef then Some JUndef
      else case zparse W (ZString [SUrl]) v of Some x \<Rightarrow> Some x
           | None \<Rightarrow> if v = JStr [] then Some v else None)"

definition profileSchema :: "world \<Rightarrow> parser" where
  "profileSchema W = object_of
     [(''name'', zparse W (ZString [SMin 2])), (''email'', zparse W (ZString [SEmail])),
      (''profilePhoto'', photo_field W)]"

definition profile_values :: "profile_form \<Rightarrow> json" where
  "profile_values f =
     JObj [(''name'', JStr (pf_name f)), (''email'', JStr (pf_email f)), (''profilePhoto'', JStr (pf_profilePhoto f))]"

text \<open>What becomes of a form: refused by the page, by the schema of the route, or answered by the service.\<close>

datatype form_outcome = FormRefuses | SchemaRefuses | Served "js_error + user"

definition save_profile :: "world \<Rightarrow> oid \<Rightarrow> profile_form \<Rightarrow> db \<Rightarrow> form_outcome \<times> db" where
  "save_profile W usr f s =
     (case profileSchema W (profile_values f) of
        None \<Rightarrow> (FormRefuses, s)
      | Some v \<Rightarrow>
          (case zparse W updateMeSchema v of
             None \<Rightarrow> (SchemaRefuses, s)
           | Some b \<Rightarrow> map_prod Served id (updateMyProfile usr b s)))"

section \<open>The identity document\<close>

definition form_verifyIdSchema :: zschema where
  "form_verifyIdSchema = ZObject
     [(''governmentIdType'', ZEnum [''aadhaar'', ''pan'', ''passport'', ''dl'']),
      (''governmentIdNumber'', ZString [SMin 6])]"

definition identity_values :: "string \<Rightarrow> string \<Rightarrow> json" where
  "identity_values ty number = JObj [(''governmentIdType'', JStr ty), (''governmentIdNumber'', JStr number)]"

definition submit_identity :: "world \<Rightarrow> oid \<Rightarrow> string \<Rightarrow> string \<Rightarrow> db \<Rightarrow> form_outcome \<times> db" where
  "submit_identity W usr ty number s =
     (case zparse W form_verifyIdSchema (identity_values ty number) of
        None \<Rightarrow> (FormRefuses, s)
      | Some v \<Rightarrow>
          (case zparse W verifyIdSchema v of
             None \<Rightarrow> (SchemaRefuses, s)
           | Some b \<Rightarrow>
               map_prod Served id
                 (verifyGovernmentId W usr (decode_government_id (jget b ''governmentIdType'')) (js_text (jget b ''governmentIdNumber'')) s)))"

section \<open>The wallet\<close>

text \<open>\<open>Math.max(1, Number(text))\<close>; \<open>None\<close> is NaN.\<close>

definition depositAmount :: "string \<Rightarrow> rat option" where
  "depositAmount t = map_option (max 1) (to_number (JStr t))"

definition deposit_paise :: "rat \<Rightarrow> rat" where
  "deposit_paise d = jmul d 100"

text \<open>
  A top-up as the button carries it out (\<open>Checkout\<close>): an order without a trip or a request, and the
  verification of its signature.
\<close>

definition top_up :: "world \<Rightarrow> int \<Rightarrow> string \<Rightarrow> string \<Rightarrow> string \<Rightarrow> (db, standalone_order) handler" where
  "top_up W amount receipt pid sig =
     bindM (createStandaloneOrder W amount (Some ''INR'') (Some receipt)) (\<lambda>ord.
     thenM (verifyStandalonePayment W (so_orderId ord) pid sig)
     (retM ord))"

section \<open>The trips of a carrier\<close>

text \<open>The answer of the server, or \<open>None\<close> when the call fails; what is no array is no trip.\<close>

definition remoteTrips :: "json option \<Rightarrow> json list" where
  "remoteTrips a = (case a of Some (JArr ts) \<Rightarrow> ts | _ \<Rightarrow> [])"

definition trip_id :: "json \<Rightarrow> json" where
  "trip_id t = jget t ''_id''"

definition my_trips :: "json list \<Rightarrow> json option \<Rightarrow> json list" where
  "my_trips localTrips a =
     localTrips @ filter (\<lambda>rt. \<not> list_ex (\<lambda>lt. trip_id lt = trip_id rt) localTrips) (remoteTrips a)"

section \<open>The dashboard of a sender\<close>

text \<open>A request as the figures read it: its status and its quoted price.\<close>

type_synonym dash_item = "string \<times> int option"

definition DEMO_DELIVERIES :: "dash_item list" where
  "DEMO_DELIVERIES = [(''in_transit'', Some 185000), (''delivered'', Some 95000)]"

definition dash_deliveries :: "dash_item list option \<Rightarrow> dash_item list" where
  "dash_deliveries a = (case a of Some (d # ds) \<Rightarrow> d # ds | _ \<Rightarrow> DEMO_DELIVERIES)"

record dash_stats =
  ds_requests :: nat
  ds_inTransit :: nat
  ds_total :: int
  ds_month :: int

definition dashboard_stats :: "dash_item list option \<Rightarrow> dash_stats" where
  "dashboard_stats a =
     (let ds = dash_deliveries a;
          sum = fold (\<lambda>(st, p) acc. acc + (case p of None \<Rightarrow> 0 | Some v \<Rightarrow> v)) (filter (\<lambda>(st, p). st = ''delivered'') ds) 0
      in \<lparr> ds_requests = length ds, ds_inTransit = length (filter (\<lambda>(st, p). st = ''in_transit'') ds),
           ds_total = sum, ds_month = js_round (jmul (of_int sum) (fl (6 / 10))) \<rparr>)"

section \<open>The start pages\<close>

definition recentItems :: "(string \<times> string) list option \<Rightarrow> (string \<times> string) list" where
  "recentItems a = take 6 (case a of None \<Rightarrow> [] | Some ds \<Rightarrow> ds)"

text \<open>\<open>stock\<close> are the six lines of \<open>TICKER_ITEMS\<close>.\<close>

definition tickerItems :: "(string \<times> string) list \<Rightarrow> (string \<times> string) list option \<Rightarrow> (string \<times> string) list" where
  "tickerItems stock a =
     (let items = (if 3 \<le> length (recentItems a) then recentItems a else stock) in items @ items)"

definition earnings_estimate :: "int \<Rightarrow> int" where
  "earnings_estimate kg = (if kg \<le> 2 then 350 else if kg \<le> 5 then 550 else if kg \<le> 10 then 750 else 950)"

section \<open>The cards of the lists\<close>

datatype badge_tone = SuccessTone | DangerTone | WarningTone | NeutralTone

definition statusTone :: "string \<Rightarrow> badge_tone" where
  "statusTone st =
     (if st = ''delivered'' then SuccessTone else if st = ''cancelled'' then DangerTone
      else if st = ''pending'' then WarningTone else NeutralTone)"

text \<open>The rating on the card of a trip; the argument is the carrier's average, if there is one.\<close>

definition card_rating :: "rat option \<Rightarrow> rat" where
  "card_rating avg = (case avg of None \<Rightarrow> 5 | Some r \<Rightarrow> if r = 0 then 5 else to_fixed 1 r)"

text \<open>The charge on the card of a request in rupees; \<open>None\<close> is a price that is pending.\<close>

definition card_charge :: "int option \<Rightarrow> rat option" where
  "card_charge c = (case c of None \<Rightarrow> None | Some v \<Rightarrow> if v = 0 then None else Some (to_fixed 2 (jdiv (of_int v) 100)))"

section \<open>The admin portal\<close>

record pin_gate =
  pg_unlocked :: bool
  pg_pin :: string
  pg_error :: bool

datatype gate_event = TypePin string | SubmitPin | ErrorFades

definition ADMIN_PIN :: "string option \<Rightarrow> string" where
  "ADMIN_PIN configured = (case configured of Some p \<Rightarrow> p | None \<Rightarrow> ''hitchadmin2024'')"

fun gate_step :: "string option \<Rightarrow> gate_event \<Rightarrow> pin_gate \<Rightarrow> pin_gate" where
  "gate_step c (TypePin t) g = (if pg_unlocked g then g else g\<lparr>pg_pin := t\<rparr>)"
| "gate_step c SubmitPin g =
     (if pg_unlocked g then g
      else if pg_pin g = ADMIN_PIN c then g\<lparr>pg_unlocked := True\<rparr>
      else g\<lparr>pg_error := True, pg_pin := []\<rparr>)"
| "gate_step c ErrorFades g = g\<lparr>pg_error := False\<rparr>"

text \<open>The width of the bar of a row, and the minutes and seconds of a time of a minute or more.\<close>

definition dwell_percent :: "page_dwell list \<Rightarrow> page_dwell \<Rightarrow> rat" where
  "dwell_percent rows r =
     (let m = (case rows of [] \<Rightarrow> 1 | q # _ \<Rightarrow> if pd_avgDwellSec q = 0 then 1 else pd_avgDwellSec q)
      in jmul (jdiv (of_int (pd_avgDwellSec r)) (of_int m)) 100)"

definition dwell_minutes :: "page_dwell \<Rightarrow> (int \<times> int) option" where
  "dwell_minutes r =
     (if 60 \<le> pd_avgDwellSec r then Some (pd_avgDwellSec r div 60, pd_avgDwellSec r mod 60) else None)"

section \<open>What the profile page can save\<close>

lemma profile_schema_iff:
  "profileSchema W (profile_values f) =
     (if 2 \<le> length (pf_name f) \<and> zodEmail W (pf_email f) \<and> (zodUrl W (pf_profilePhoto f) \<or> pf_profilePhoto f = [])
      then Some (profile_values f) else None)"
  by (simp add: profileSchema_def profile_values_def object_of_def photo_field_def text_ok_def)

lemma update_schema_iff:
  "zparse W updateMeSchema (profile_values f) =
     (if 2 \<le> length (pf_name f) \<and> zodEmail W (pf_email f) \<and> zodUrl W (pf_profilePhoto f)
      then Some (profile_values f) else None)"
  by (simp add: updateMeSchema_def profile_values_def text_ok_def)

text \<open>
  The form accepts an empty photo and sends it, the route does not: who has no photo cannot save a
  profile at all, whatever the name and the email are.
\<close>

theorem no_photo_no_profile:
  assumes "\<not> zodUrl W []" and "pf_profilePhoto f = []" and "profileSchema W (profile_values f) \<noteq> None"
  shows "save_profile W usr f s = (SchemaRefuses, s)"
  using assms by (simp add: save_profile_def profile_schema_iff update_schema_iff split: if_splits)

lemma loaded_without_photo: "u_profilePhoto u = None \<Longrightarrow> pf_profilePhoto (profile_reset u) = []"
  by (simp add: profile_reset_def str_or_def)

text \<open>With a photo the page asks for exactly what the service takes.\<close>

lemma profile_reaches_service:
  assumes "profileSchema W (profile_values f) = Some v" "pf_profilePhoto f \<noteq> []"
  shows "save_profile W usr f s = map_prod Served id (updateMyProfile usr (profile_values f) s)"
proof -
  from assms have "v = profile_values f" "zparse W updateMeSchema (profile_values f) = Some (profile_values f)"
    by (simp_all add: profile_schema_iff update_schema_iff split: if_splits)
  with assms(1) show ?thesis by (simp add: save_profile_def)
qed

theorem profile_saved:
  assumes "profileSchema W (profile_values f) = Some v" "pf_profilePhoto f \<noteq> []"
    and "findById (users s) usr = Some u" "trim (pf_name f) \<noteq> []" "trim (pf_email f) \<noteq> []"
    and "\<not> other_has_email usr (toLowerCase (trim (pf_email f))) s"
  shows "\<exists>u' s'. save_profile W usr f s = (Served (Inr u'), s') \<and>
    u_name u' = trim (pf_name f) \<and> u_email u' = toLowerCase (trim (pf_email f)) \<and>
    u_profilePhoto u' = Some (trim (pf_profilePhoto f)) \<and> u_balance u' = u_balance u"
  using assms(3-6)
  by (simp add: profile_reaches_service [OF assms(1,2)] updateMyProfile_def text_update_def profile_values_def
      put_profile_def Let_def without_refresh_def toLowerCase_def)

section \<open>Which documents are taken\<close>

lemma identity_outcome:
  "fst (submit_identity W usr ty number s) = SchemaRefuses \<longleftrightarrow>
     ty \<in> set [''aadhaar'', ''pan'', ''passport'', ''dl''] \<and> 30 < length number"
  by (auto simp: submit_identity_def form_verifyIdSchema_def verifyIdSchema_def identity_values_def text_ok_def
      split: if_splits)

text \<open>Any six characters verify the identity of a user, and a carrier of the highest tier falls back to the second.\<close>

theorem six_characters_verify:
  assumes "ty \<in> set [''aadhaar'', ''pan'', ''passport'', ''dl'']" "6 \<le> length number" "length number \<le> 30"
    and "findById (users s) usr = Some u"
  shows "\<exists>u' s'. submit_identity W usr ty number s = (Served (Inr u'), s') \<and>
    u_governmentIdVerified u' \<and> u_kycTier u' = Tier2Verified"
  using assms
  by (auto simp: submit_identity_def form_verifyIdSchema_def verifyIdSchema_def identity_values_def text_ok_def
      verifyGovernmentId_def find_user_def run_simps put_government_id_def without_refresh_def)

section \<open>A top-up adds nothing\<close>

lemma order_frames:
  "users (snd (createStandaloneOrder W a c r s)) = users s"
  "transactions (snd (createStandaloneOrder W a c r s)) = transactions s"
  by (simp_all add: createStandaloneOrder_def createOrder_def run_simps next_draw_def split: sum.splits)

lemma verify_frames: "snd (verifyStandalonePayment W i pid sig s) = s"
  by (simp add: verifyStandalonePayment_def run_simps)

lemma top_up_frames:
  "users (snd (top_up W a r pid sig s)) = users s" "transactions (snd (top_up W a r pid sig s)) = transactions s"
  using order_frames [of W a "Some ''INR''" "Some r" s]
  by (auto simp: top_up_def run_simps verify_frames split: sum.splits prod.splits)
    (metis snd_conv verify_frames)+

text \<open>
  The button reports the payment to the page, which says that the amount has been added; the wallet
  that the page then loads is the one from before.
\<close>

theorem top_up_adds_nothing:
  "fst (getWallet usr (snd (top_up W a r pid sig s))) = fst (getWallet usr s)"
  by (cases "findById (users s) usr") (simp_all add: getWallet_def find_user_def run_simps getTransactions_def top_up_frames)

lemma top_up_announced:
  assumes "100 \<le> pe_amount E" "loadRazorpayScript E" "pe_opens E" "pe_events E = [PaymentDone pid i sg v]"
  shows "success_calls (handlePay E pay_start) = 1"
proof -
  have "success_calls pay_start = 0" by (simp add: success_calls_def pay_start_def)
  with assms show ?thesis by (simp add: handlePay_successes paid_events_def)
qed

lemma deposit_at_least_one: "depositAmount t = Some d \<Longrightarrow> 1 \<le> d \<and> 100 \<le> deposit_paise d"
proof -
  assume "depositAmount t = Some d"
  then have "1 \<le> d" by (auto simp: depositAmount_def)
  moreover from this have "fl 100 \<le> fl (d * 100)" by (intro fl_mono) simp
  moreover have "fl 100 = 100" using fl_of_int [of 100] by simp
  ultimately show ?thesis by (simp add: deposit_paise_def jmul_def)
qed

section \<open>The list of trips\<close>

lemma my_trips_ids: "set (map trip_id (my_trips ls a)) = set (map trip_id ls) \<union> set (map trip_id (remoteTrips a))"
proof -
  have "my_trips ls a = ls @ filter (\<lambda>rt. trip_id rt \<notin> trip_id ` set ls) (remoteTrips a)"
    by (auto simp: my_trips_def list_ex_iff image_iff intro!: filter_cong)
  then show ?thesis by auto
qed

lemma my_trips_distinct:
  assumes "distinct (map trip_id ls)" "distinct (map trip_id (remoteTrips a))"
  shows "distinct (map trip_id (my_trips ls a))"
proof -
  have "distinct (map trip_id (filter P (remoteTrips a)))" for P using assms(2) by (rule distinct_map_filter)
  with assms(1) show ?thesis by (auto simp: my_trips_def list_ex_iff)
qed

text \<open>
  A trip that the server refused is the first of the list for good: active, with its deposit paid.
\<close>

theorem refused_trip_is_listed:
  assumes "se_created E = CreateFailed" "se_local E = Some ts" "se_writable E"
    and "pp_coords (tf_origin f) \<noteq> None" "pp_coords (tf_destination f) \<noteq> None"
  shows "\<exists>t ts'. sr_local (submitTrip E pid oid sig f) = Some ts' \<and> my_trips ts' a ! 0 = t \<and>
    jget t ''status'' = JStr ''active'' \<and> jget t ''depositPaid'' = JBool True"
proof -
  have "sr_local (submitTrip E pid oid sig f) = Some (local_trip E pid f # ts)"
    using assms by (simp add: submitTrip_def Let_def stored_locally_def)
  moreover have "my_trips (local_trip E pid f # ts) a ! 0 = local_trip E pid f" by (simp add: my_trips_def)
  moreover have "jget (local_trip E pid f) ''status'' = JStr ''active''" "jget (local_trip E pid f) ''depositPaid'' = JBool True"
    by (simp_all add: local_trip_def trip_payload_def)
  ultimately show ?thesis by blast
qed

section \<open>What the figures are\<close>

text \<open>A sender without a request, or whose requests cannot be loaded, is shown the two made-up ones.\<close>

lemma demo_figures:
  "a = None \<or> a = Some [] \<Longrightarrow>
     dashboard_stats a = \<lparr> ds_requests = 2, ds_inTransit = 1, ds_total = 95000, ds_month = 57000 \<rparr>"
proof -
  have "dashboard_stats None = \<lparr> ds_requests = 2, ds_inTransit = 1, ds_total = 95000, ds_month = 57000 \<rparr>"
    by code_simp
  moreover have "dashboard_stats (Some []) = dashboard_stats None" by (simp add: dashboard_stats_def dash_deliveries_def)
  ultimately show "a = None \<or> a = Some [] \<Longrightarrow> ?thesis" by auto
qed

lemma sum_fold: "fold (\<lambda>x acc. acc + h x) xs (n::int) = n + sum_list (map h xs)"
  by (induction xs arbitrary: n) simp_all

lemma real_figures:
  assumes "ds \<noteq> []"
  shows "ds_requests (dashboard_stats (Some ds)) = length ds"
    "ds_inTransit (dashboard_stats (Some ds)) = count_list (map fst ds) ''in_transit''"
    "ds_total (dashboard_stats (Some ds)) =
       sum_list (map (\<lambda>(st, p). case p of None \<Rightarrow> 0 | Some v \<Rightarrow> v) (filter (\<lambda>(st, p). st = ''delivered'') ds))"
proof -
  have d: "dash_deliveries (Some ds) = ds" using assms by (auto simp: dash_deliveries_def neq_Nil_conv)
  show "ds_requests (dashboard_stats (Some ds)) = length ds" by (simp add: dashboard_stats_def d Let_def)
  have "length (filter (\<lambda>(st, p). st = w) xs) = count_list (map fst xs) w" for w :: string and xs :: "dash_item list"
    by (induction xs) auto
  then show "ds_inTransit (dashboard_stats (Some ds)) = count_list (map fst ds) ''in_transit''"
    by (simp add: dashboard_stats_def d Let_def)
  show "ds_total (dashboard_stats (Some ds)) =
       sum_list (map (\<lambda>(st, p). case p of None \<Rightarrow> 0 | Some v \<Rightarrow> v) (filter (\<lambda>(st, p). st = ''delivered'') ds))"
    by (simp add: dashboard_stats_def d Let_def case_prod_unfold sum_fold)
qed

lemma ticker_length: "length stock = 6 \<Longrightarrow> 6 \<le> length (tickerItems stock a) \<and> length (tickerItems stock a) \<le> 12"
  by (auto simp: tickerItems_def recentItems_def Let_def)

lemma estimate_mono: "a \<le> b \<Longrightarrow> earnings_estimate a \<le> earnings_estimate b"
  by (simp add: earnings_estimate_def)

text \<open>Who has never been rated is shown with the best rating there is.\<close>

lemma unrated_is_best: "card_rating None = 5" "card_rating (Some 0) = 5"
  by (simp_all add: card_rating_def)

section \<open>Who gets into the admin portal\<close>

lemma gate_opens_with_pin:
  "pg_unlocked (gate_step c e g) \<Longrightarrow> \<not> pg_unlocked g \<Longrightarrow> e = SubmitPin \<and> pg_pin g = ADMIN_PIN c"
  by (cases e) (auto split: if_splits)

text \<open>Nothing counts the attempts: after any number of wrong ones the right PIN still opens.\<close>

lemma gate_never_locks:
  "\<not> pg_unlocked g \<Longrightarrow> pg_unlocked (fold (gate_step c) (es @ [TypePin (ADMIN_PIN c), SubmitPin]) g)"
  by simp

lemma average_nonneg: "list_all (\<lambda>d. 0 \<le> d) ds \<Longrightarrow> 0 \<le> average ds"
proof -
  have "list_all (\<lambda>d. 0 \<le> d) ds \<Longrightarrow> 0 \<le> acc \<Longrightarrow> 0 \<le> fold (\<lambda>d acc. jadd acc d) ds acc" for acc
    by (induction ds arbitrary: acc) (simp_all add: jadd_def fl.rnd_nonneg)
  then show "list_all (\<lambda>d. 0 \<le> d) ds \<Longrightarrow> ?thesis" by (simp add: average_def jdiv_def fl.rnd_nonneg)
qed

lemma bar_bound:
  assumes "sorted_wrt (\<ge>) (map pd_avgDwellSec rows)" "\<forall>r \<in> set rows. 0 \<le> pd_avgDwellSec r" "r \<in> set rows"
  shows "0 \<le> dwell_percent rows r" "dwell_percent rows r \<le> 100"
proof -
  obtain q qs where rows: "rows = q # qs" using assms(3) by (cases rows) auto
  define m where "m = (if pd_avgDwellSec q = 0 then 1 else pd_avgDwellSec q)"
  have le: "pd_avgDwellSec r \<le> m" "0 < m" "0 \<le> pd_avgDwellSec r" using assms by (auto simp: rows m_def)
  have one: "fl 1 = 1" "fl 100 = 100" using fl_of_int [of 1] fl_of_int [of 100] by simp_all
  have "of_int (pd_avgDwellSec r) / of_int m \<le> (1 :: rat)" "(0 :: rat) \<le> of_int (pd_avgDwellSec r) / of_int m"
    using le by simp_all
  then have q: "fl (of_int (pd_avgDwellSec r) / of_int m) \<le> 1" "0 \<le> fl (of_int (pd_avgDwellSec r) / of_int m)"
    using fl_mono one(1) fl.rnd_nonneg by metis+
  have pct: "dwell_percent rows r = fl (fl (of_int (pd_avgDwellSec r) / of_int m) * 100)"
    by (simp add: dwell_percent_def rows m_def Let_def jmul_def jdiv_def)
  show "0 \<le> dwell_percent rows r" using q by (simp add: pct fl.rnd_nonneg)
  have "fl (of_int (pd_avgDwellSec r) / of_int m) * 100 \<le> 100" using q by simp
  then show "dwell_percent rows r \<le> 100" using fl_mono [of _ 100] one(2) by (simp add: pct)
qed

lemma sorted_take: "sorted (map f (take n (sort_key f xs)))"
  by (simp add: sorted_wrt_take flip: take_map)

lemma dwell_rows:
  "sorted_wrt (\<ge>) (map pd_avgDwellSec (getDwellByPage es))" "\<forall>r \<in> set (getDwellByPage es). 0 \<le> pd_avgDwellSec r"
proof -
  let ?rows = "map (\<lambda>(page, g). (average (map (the \<circ> ae_durationMs) g), page, length g)) (group_by ae_page (filter is_dwell es))"
  let ?top = "take 20 (sort_key (\<lambda>(avg, _, _). - avg) ?rows)"
  have avgs: "map pd_avgDwellSec (getDwellByPage es) = map (\<lambda>(avg, _, _). js_round (jdiv avg 1000)) ?top"
    by (simp add: getDwellByPage_def case_prod_unfold)
  have "sorted (map (\<lambda>(avg, _, _). - avg) ?top)"
    by (rule sorted_take)
  then have "sorted_wrt (\<lambda>x y. js_round (jdiv y 1000) \<le> js_round (jdiv x 1000)) (map fst ?top)"
    by (auto simp: sorted_wrt_map case_prod_unfold jdiv_def intro!: js_round_mono fl_mono divide_right_mono elim!: sorted_wrt_mono_rel [rotated])
  then show "sorted_wrt (\<ge>) (map pd_avgDwellSec (getDwellByPage es))"
    by (simp add: avgs sorted_wrt_map case_prod_unfold)
  have pos: "0 \<le> average (map (the \<circ> ae_durationMs) g)" if "(page, g) \<in> set (group_by ae_page (filter is_dwell es))" for page g
  proof (rule average_nonneg)
    from that have "set g \<subseteq> set (filter is_dwell es)" by (auto simp: group_by_def)
    then show "list_all (\<lambda>d. 0 \<le> d) (map (the \<circ> ae_durationMs) g)"
      by (fastforce simp: list_all_iff is_dwell_def split: option.splits)
  qed
  show "\<forall>r \<in> set (getDwellByPage es). 0 \<le> pd_avgDwellSec r"
  proof
    fix r assume "r \<in> set (getDwellByPage es)"
    then obtain page g where pg: "(page, g) \<in> set (group_by ae_page (filter is_dwell es))"
      and r: "pd_avgDwellSec r = js_round (jdiv (average (map (the \<circ> ae_durationMs) g)) 1000)"
      by (fastforce simp: getDwellByPage_def dest: in_set_takeD)
    have "0 \<le> average (map (the \<circ> ae_durationMs) g) / 1000" using pos [OF pg] by simp
    then have "0 \<le> jdiv (average (map (the \<circ> ae_durationMs) g)) 1000" by (simp add: jdiv_def fl.rnd_nonneg)
    then have "js_round 0 \<le> pd_avgDwellSec r" unfolding r by (rule js_round_mono)
    moreover have "js_round 0 = 0" by (simp add: js_round_def floor_eq_iff)
    ultimately show "0 \<le> pd_avgDwellSec r" by simp
  qed
qed

text \<open>So no bar of the dashboard is longer than its row.\<close>

theorem bars_fit:
  assumes "r \<in> set (getDwellByPage es)"
  shows "0 \<le> dwell_percent (getDwellByPage es) r \<and> dwell_percent (getDwellByPage es) r \<le> 100"
  using bar_bound [OF dwell_rows assms] by simp

lemma minutes_exact: "dwell_minutes r = Some (m, sec) \<Longrightarrow> 60 * m + sec = pd_avgDwellSec r \<and> 0 \<le> sec \<and> sec < 60"
  by (auto simp: dwell_minutes_def split: if_splits)

end
