(* ===== verification/Config.thy ===== *)
theory Config
  imports Schemas Auth
begin

text \<open>
  \<open>config/env.ts\<close>: the schema of the environment variables, its fall-back, and the origins that
  \<open>app.ts\<close> lets through.  The \<open>URL\<close> class is a parameter.
\<close>

section \<open>The environment\<close>

text \<open>\<open>demo\<close> is the default of \<open>DEMO_MODE\<close>, \<open>process.env.NODE_ENV !== 'production'\<close>.\<close>

definition dev_access_secret :: string where
  "dev_access_secret = ''hopdrop-dev-jwt-access-secret-key-at-least-64-characters-long-for-security-001''"

definition dev_refresh_secret :: string where
  "dev_refresh_secret = ''hopdrop-dev-jwt-refresh-secret-key-at-least-64-characters-long-for-security-002''"

definition timeout_schema :: "rat \<Rightarrow> zschema" where
  "timeout_schema d = ZDefault (ZCoerceNumber [NInt, NMin 1000, NMax 120000]) (JNum d)"

definition limit_schema :: "rat \<Rightarrow> zschema" where
  "limit_schema d = ZDefault (ZCoerceNumber [NInt, NMin 100, NMax 100000]) (JNum d)"

definition text_schema :: "string \<Rightarrow> zschema" where
  "text_schema d = ZDefault (ZString []) (JStr d)"

definition number_schema :: "rat \<Rightarrow> zschema" where
  "number_schema d = ZDefault (ZCoerceNumber []) (JNum d)"

definition opt_text :: zschema where
  "opt_text = ZOptional (ZString [])"

definition env_fields :: "bool \<Rightarrow> (string \<times> zschema) list" where
  "env_fields demo =
     [(''NODE_ENV'', ZDefault (ZEnum [''development'', ''test'', ''production'']) (JStr ''development'')),
      (''PORT'', number_schema 5000),
      (''REQUEST_TIMEOUT_MS'', timeout_schema 30000),
      (''HEADERS_TIMEOUT_MS'', timeout_schema 10000),
      (''KEEP_ALIVE_TIMEOUT_MS'', timeout_schema 5000),
      (''MAX_CONNECTIONS'', limit_schema 2000),
      (''MAX_IN_FLIGHT_REQUESTS'', limit_schema 1000),
      (''FRONTEND_URL'', text_schema ''http://localhost''),
      (''INTERNAL_API_TOKEN'', ZDefault (ZString [SMin 16]) (JStr ''hopdrop-local-internal-token'')),
      (''MONGODB_URI'', text_schema ''mongodb://127.0.0.1:27017/hopdrop''),
      (''REDIS_URL'', opt_text), (''REDIS_CACHE_URL'', opt_text), (''REDIS_QUEUE_URL'', opt_text),
      (''REALTIME_EVENT_CHANNEL'', text_schema ''hopdrop:realtime:events''),
      (''BULL_BOARD_PASSWORD'', ZBlankText [SMin 8]),
      (''ROUTING_SEARCH_URL'', ZBlankText [SUrl]),
      (''LOG_LEVEL'', ZDefault (ZEnum [''fatal'', ''error'', ''warn'', ''info'', ''debug'', ''trace'', ''silent''])
         (JStr ''info'')),
      (''REQUIRE_HTTPS'', ZEnvBool False),
      (''SENTRY_DSN'', ZBlankText [SUrl]),
      (''SENTRY_TRACES_SAMPLE_RATE'', number_schema (1/10)),
      (''OTEL_ENABLED'', ZEnvBool False),
      (''OTEL_SERVICE_NAME'', text_schema ''hopdrop-core-api''),
      (''KAFKA_BROKERS'', opt_text),
      (''KAFKA_CLIENT_ID'', text_schema ''hopdrop-core-api''),
      (''KAFKA_TOPIC_PREFIX'', text_schema ''hopdrop''),
      (''KAFKA_SSL'', ZEnvBool False),
      (''KAFKA_SASL_USERNAME'', opt_text), (''KAFKA_SASL_PASSWORD'', opt_text),
      (''OUTBOX_RELAY_ENABLED'', ZEnvBool False),
      (''OUTBOX_POLL_INTERVAL_MS'', number_schema 3000),
      (''OUTBOX_BATCH_SIZE'', number_schema 25),
      (''OUTBOX_MAX_ATTEMPTS'', number_schema 8),
      (''JWT_ACCESS_SECRET'', ZDefault (ZString [SMin 64]) (JStr dev_access_secret)),
      (''JWT_REFRESH_SECRET'', ZDefault (ZString [SMin 64]) (JStr dev_refresh_secret)),
      (''JWT_ACCESS_EXPIRY'', text_schema ''15m''),
      (''JWT_REFRESH_EXPIRY'', text_schema ''7d''),
      (''DEMO_MODE'', ZEnvBool demo),
      (''MSG91_AUTH_KEY'', opt_text), (''MSG91_TEMPLATE_ID'', opt_text),
      (''MMI_CLIENT_ID'', text_schema ''dummy-client-id''),
      (''MMI_CLIENT_SECRET'', text_schema ''dummy-client-secret''),
      (''MMI_REST_API_KEY'', text_schema ''zpsgumkpgmwsznqbwbisclhjcgiavrtpjobj''),
      (''RAZORPAY_KEY_ID'', text_schema ''rzp_test_placeholder''),
      (''RAZORPAY_KEY_SECRET'', text_schema ''placeholder_secret''),
      (''RAZORPAY_WEBHOOK_SECRET'', text_schema ''placeholder_webhook_secret''),
      (''ESCROW_AUTO_RELEASE_HOURS'', number_schema 24),
      (''SAFETY_DEPOSIT_MULTIPLIER'', number_schema (3/2)),
      (''MIN_SAFETY_DEPOSIT_PAISE'', number_schema 50000),
      (''GOOGLE_CLIENT_ID'', opt_text),
      (''ADMIN_PIN'', text_schema ''hitchadmin2024''),
      (''RAPIDO_API_KEY'', opt_text),
      (''RAPIDO_BASE_URL'', text_schema ''https://api.rapido.bike/v1''),
      (''CLOUDINARY_CLOUD_NAME'', opt_text), (''CLOUDINARY_API_KEY'', opt_text),
      (''CLOUDINARY_API_SECRET'', opt_text),
      (''PLATFORM_FEE_PERCENT'', number_schema 12),
      (''DEFAULT_SAFETY_DEPOSIT_PAISE'', number_schema 50000),
      (''ESCROW_RELEASE_DELAY_MS'', number_schema 7200000)]"

definition envSchema :: "bool \<Rightarrow> zschema" where
  "envSchema demo = ZObject (env_fields demo)"

definition env_fallback :: "(string \<times> json) list" where
  "env_fallback =
     [(''MONGODB_URI'', JStr ''mongodb://127.0.0.1:27017/hopdrop''),
      (''JWT_ACCESS_SECRET'', JStr dev_access_secret), (''JWT_REFRESH_SECRET'', JStr dev_refresh_secret),
      (''MMI_CLIENT_ID'', JStr ''dummy-client-id''), (''MMI_CLIENT_SECRET'', JStr ''dummy-client-secret''),
      (''RAZORPAY_KEY_ID'', JStr ''rzp_test_placeholder''), (''RAZORPAY_KEY_SECRET'', JStr ''placeholder_secret''),
      (''RAZORPAY_WEBHOOK_SECRET'', JStr ''placeholder_webhook_secret'')]"

text \<open>
  The object \<open>{ ...fallback, ...process.env }\<close>: a key of \<open>process.env\<close> wins.  \<open>load_env\<close> is what
  the module exports; \<open>None\<close> is the exception that stops the process while it loads.
\<close>

definition load_env :: "world \<Rightarrow> (string \<times> json) list \<Rightarrow> json option" where
  "load_env W penv =
     (let demo = (jget (JObj penv) ''NODE_ENV'' \<noteq> JStr ''production'')
      in case zparse W (envSchema demo) (JObj penv) of
           Some e \<Rightarrow> Some e
         | None \<Rightarrow> zparse W (envSchema demo) (JObj (penv @ env_fallback)))"

lemma zfields_None: "zfields W fs v = None \<longleftrightarrow> (\<exists>(k, s)\<in>set fs. zparse W s (jget v k) = None)"
  by (induction fs) (auto split: option.splits)

lemma env_defaults: "list_all (\<lambda>(k, s). zparse W s JUndef \<noteq> None) (env_fields demo)"
  by (simp add: env_fields_def number_schema_def timeout_schema_def limit_schema_def text_schema_def
      opt_text_def dev_access_secret_def dev_refresh_secret_def number_ok_def text_ok_def env_bool_def)

lemma jget_append: "jget (JObj (xs @ ys)) k = (if k \<in> fst ` set xs then jget (JObj xs) k else jget (JObj ys) k)"
proof (cases "map_of xs k")
  case None
  then have "k \<notin> fst ` set xs" by (simp add: map_of_eq_None_iff)
  with None show ?thesis by (simp add: map_add_def)
next
  case (Some v)
  then have "k \<in> fst ` set xs" by (force dest: map_of_SomeD)
  with Some show ?thesis by (simp add: map_add_def)
qed

text \<open>The fall-back never repairs an environment: what was refused is refused again.\<close>

lemma fallback_repairs_nothing:
  assumes "zparse W (envSchema demo) (JObj penv) = None"
  shows "zparse W (envSchema demo) (JObj (penv @ env_fallback)) = None"
proof -
  from assms obtain k s where f: "(k, s) \<in> set (env_fields demo)" and n: "zparse W s (jget (JObj penv) k) = None"
    by (auto simp: envSchema_def zfields_None)
  have "zparse W s JUndef \<noteq> None" using env_defaults [of W demo] f by (auto simp: list_all_iff)
  with n have "k \<in> fst ` set penv" by (metis absent_key)
  then have "jget (JObj (penv @ env_fallback)) k = jget (JObj penv) k" by (simp only: jget_append if_True)
  with n have "zparse W s (jget (JObj (penv @ env_fallback)) k) = None" by argo
  with f have "zfields W (env_fields demo) (JObj (penv @ env_fallback)) = None"
    unfolding zfields_None by blast
  then show ?thesis by (simp add: envSchema_def)
qed

lemma load_env_refused:
  assumes "zparse W (envSchema (jget (JObj penv) ''NODE_ENV'' \<noteq> JStr ''production'')) (JObj penv) = None"
  shows "load_env W penv = None"
  using assms fallback_repairs_nothing [OF assms] by (simp add: load_env_def Let_def)

section \<open>Origins\<close>

text \<open>\<open>url origin\<close> is the host name, and the origin with another host name; \<open>None\<close> is an exception.\<close>

definition expandLoopbackOrigin :: "(string \<Rightarrow> (string \<times> (string \<Rightarrow> string)) option) \<Rightarrow> string \<Rightarrow> string list" where
  "expandLoopbackOrigin url origin =
     (case url origin of
        None \<Rightarrow> [origin]
      | Some (hostname, with_host) \<Rightarrow>
          if hostname \<noteq> ''localhost'' \<and> hostname \<noteq> ''127.0.0.1'' then [origin]
          else [origin, with_host (if hostname = ''localhost'' then ''127.0.0.1'' else ''localhost'')])"

definition allowedOrigins :: "(string \<Rightarrow> (string \<times> (string \<Rightarrow> string)) option) \<Rightarrow> string \<Rightarrow> string list" where
  "allowedOrigins url frontend =
     dedup (concat (map (expandLoopbackOrigin url) (filter (\<lambda>x. x \<noteq> []) (map trim (split_on CHR '','' frontend)))))"

text \<open>The \<open>origin\<close> option of the CORS middleware in \<open>app.ts\<close>.\<close>

definition cors_allows :: "world \<Rightarrow> string list \<Rightarrow> string option \<Rightarrow> bool" where
  "cors_allows W allowed origin =
     (case origin of
        None \<Rightarrow> True
      | Some og \<Rightarrow> og = [] \<or> DEMO_MODE W \<or> ''*'' \<in> set allowed \<or> og \<in> set allowed
          \<or> strIncludes og ''vercel.app'' \<or> strIncludes og ''localhost'' \<or> strIncludes og ''127.0.0.1'')"

text \<open>An origin of any host is let through, with credentials, when its name holds one of the three texts.\<close>

lemma cors_substring: "cors_allows W allowed (Some (a @ ''vercel.app'' @ b))"
  unfolding cors_allows_def option.case strIncludes_iff by blast

end
