(* ===== verification/Http.thy ===== *)
theory Http
  imports Auth Redis
begin

text \<open>
  The HTTP middleware of \<open>middleware/*.ts\<close>, apart from authentication, validation and sanitising:
  the error handler, the basic authentication of the queue board, the internal-service token, the
  response cache, the load shedder, the HTTPS check, request ids and the rate-limit keys.
\<close>

section \<open>errorHandler\<close>

record error_response =
  er_status :: int
  er_message :: string
  er_errors :: bool
  er_stack :: bool

fun err_statusCode :: "js_error \<Rightarrow> int option" where
  "err_statusCode (ApiError n m) = Some n"
| "err_statusCode (HttpError n m) = Some n"
| "err_statusCode (MongoError c m ls) = None"
| "err_statusCode (LibError m) = None"

definition is_zod_error :: "js_error \<Rightarrow> bool" where
  "is_zod_error e = (e = LibError ''ZodError'')"

definition errorHandler :: "world \<Rightarrow> js_error \<Rightarrow> error_response" where
  "errorHandler W err =
     (let status = num_or (err_statusCode err) (if is_zod_error err then 400 else 500)
      in \<lparr> er_status = status,
           er_message =
             (if is_zod_error err then ''Validation failed''
              else if 500 \<le> status \<and> NODE_ENV W = ''production'' then ''Internal server error''
              else if err_message err = [] then ''Internal server error'' else err_message err),
           er_errors = is_zod_error err,
           er_stack = (NODE_ENV W = ''development'' \<and> \<not> is_zod_error err) \<rparr>)"

lemma errorHandler_status:
  "er_status (errorHandler W (ApiError n m)) = (if n = 0 then 500 else n)"
  "er_status (errorHandler W (LibError ''ZodError'')) = 400"
  "e \<noteq> ''ZodError'' \<Longrightarrow> er_status (errorHandler W (LibError e)) = 500"
  "er_status (errorHandler W (MongoError c t ls)) = 500"
  by (simp_all add: errorHandler_def is_zod_error_def Let_def)

text \<open>In production the text of an internal error does not leave the server, nor does a stack.\<close>

lemma errorHandler_discloses:
  assumes "NODE_ENV W = ''production''"
  shows "\<not> er_stack (errorHandler W e)"
    "500 \<le> er_status (errorHandler W e) \<Longrightarrow> er_message (errorHandler W e) = ''Internal server error''"
  using assms by (auto simp: errorHandler_def Let_def is_zod_error_def)

section \<open>requireInternalService\<close>

definition safe_equal :: "string \<Rightarrow> string \<Rightarrow> bool" where
  "safe_equal a b = (length a = length b \<and> list_all (\<lambda>(x, y). x = y) (zip a b))"

lemma safe_equal_iff: "safe_equal a b \<longleftrightarrow> a = b"
proof (induction a arbitrary: b)
  case (Cons x a)
  then show ?case by (cases b) (auto simp: safe_equal_def)
qed (auto simp: safe_equal_def)

definition requireInternalService :: "world \<Rightarrow> string option \<Rightarrow> js_error option" where
  "requireInternalService W token =
     (case token of
        None \<Rightarrow> Some (ApiError 401 ''Unauthorized internal service request'')
      | Some t \<Rightarrow>
          if length t \<noteq> length (INTERNAL_API_TOKEN W) \<or> \<not> safe_equal t (INTERNAL_API_TOKEN W)
          then Some (ApiError 401 ''Unauthorized internal service request'') else None)"

lemma internal_service_iff: "requireInternalService W token = None \<longleftrightarrow> token = Some (INTERNAL_API_TOKEN W)"
  by (auto simp: requireInternalService_def safe_equal_iff split: option.splits)

section \<open>Base64 and bullBoardBasicAuth\<close>

definition b64_alphabet :: string where
  "b64_alphabet = ''ABCDEFGHIJKLMNOPQRSTUVWXYZabcdefghijklmnopqrstuvwxyz0123456789+/''"

fun index_of :: "'a \<Rightarrow> 'a list \<Rightarrow> nat option" where
  "index_of x [] = None"
| "index_of x (y # ys) = (if x = y then Some 0 else map_option Suc (index_of x ys))"

text \<open>
  \<open>Buffer.from(s, 'base64')\<close>: characters outside the alphabet are skipped, the URL-safe ones
  accepted, and the padding ends the text.
\<close>

definition b64_value :: "char \<Rightarrow> nat option" where
  "b64_value c = (if c = CHR ''-'' then Some 62 else if c = CHR ''_'' then Some 63 else index_of c b64_alphabet)"

definition b64_sextets :: "string \<Rightarrow> nat list" where
  "b64_sextets s = List.map_filter b64_value (takeWhile (\<lambda>c. c \<noteq> CHR ''='') s)"

fun sextet_bytes :: "nat list \<Rightarrow> nat list" where
  "sextet_bytes (w # x # y # z # r) =
     (w * 4 + x div 16) # (x mod 16 * 16 + y div 4) # (y mod 4 * 64 + z) # sextet_bytes r"
| "sextet_bytes [w, x, y] = [w * 4 + x div 16, x mod 16 * 16 + y div 4]"
| "sextet_bytes [w, x] = [w * 4 + x div 16]"
| "sextet_bytes _ = []"

definition base64_decode :: "string \<Rightarrow> string" where
  "base64_decode s = map char_of (sextet_bytes (b64_sextets s))"

definition basic_password :: "string \<Rightarrow> string" where
  "basic_password decoded =
     (if CHR '':'' \<in> set decoded then drop 1 (dropWhile (\<lambda>c. c \<noteq> CHR '':'') decoded) else [])"

definition bullBoardBasicAuth :: "world \<Rightarrow> string option \<Rightarrow> js_error option" where
  "bullBoardBasicAuth W authorization =
     (if \<not> truthy_str (BULL_BOARD_PASSWORD W)
      then Some (ApiError 503 ''Bull Board password is not configured'')
      else case authorization of
        None \<Rightarrow> Some (ApiError 401 ''Bull Board authentication required'')
      | Some h \<Rightarrow>
          if \<not> startsWith h ''Basic '' then Some (ApiError 401 ''Bull Board authentication required'')
          else if \<not> safe_equal (basic_password (base64_decode (drop 6 h))) (the (BULL_BOARD_PASSWORD W))
          then Some (ApiError 401 ''Invalid Bull Board credentials'') else None)"

text \<open>What a browser sends: the encoding of RFC 4648 of the bytes of \<open>user:password\<close>.\<close>

definition b64_char :: "nat \<Rightarrow> char" where
  "b64_char n = b64_alphabet ! n"

fun base64_encode_bytes :: "nat list \<Rightarrow> string" where
  "base64_encode_bytes (a # b # c # r) =
     b64_char (a div 4) # b64_char (a mod 4 * 16 + b div 16) # b64_char (b mod 16 * 4 + c div 64)
       # b64_char (c mod 64) # base64_encode_bytes r"
| "base64_encode_bytes [a, b] =
     [b64_char (a div 4), b64_char (a mod 4 * 16 + b div 16), b64_char (b mod 16 * 4), CHR ''='']"
| "base64_encode_bytes [a] = [b64_char (a div 4), b64_char (a mod 4 * 16), CHR ''='', CHR ''='']"
| "base64_encode_bytes [] = []"

definition base64_encode :: "string \<Rightarrow> string" where
  "base64_encode s = base64_encode_bytes (map of_char s)"

lemma b64_table: "list_all (\<lambda>n. b64_value (b64_char n) = Some n \<and> b64_char n \<noteq> CHR ''='') [0..<64]"
  by code_simp

lemma b64_char_value [simp]: "n < 64 \<Longrightarrow> b64_value (b64_char n) = Some n" "n < 64 \<Longrightarrow> b64_char n \<noteq> CHR ''=''"
  using b64_table by (auto simp: list_all_iff)

lemma sextets_Cons [simp]: "n < 64 \<Longrightarrow> b64_sextets (b64_char n # s) = n # b64_sextets s"
  by (simp add: b64_sextets_def)

lemma sextets_pad [simp]: "b64_sextets (CHR ''='' # s) = []" "b64_sextets [] = []"
  by (simp_all add: b64_sextets_def)

lemma encode_sextets:
  "list_all (\<lambda>b. b < 256) bs \<Longrightarrow> sextet_bytes (b64_sextets (base64_encode_bytes bs)) = bs"
proof (induction bs rule: base64_encode_bytes.induct)
  case (1 a b c r)
  then have "a div 4 < 64" "a mod 4 * 16 + b div 16 < 64" "b mod 16 * 4 + c div 64 < 64" "c mod 64 < 64"
    by auto
  moreover have "(a mod 4 * 16 + b div 16) div 16 = a mod 4" "(a mod 4 * 16 + b div 16) mod 16 = b div 16"
    "(b mod 16 * 4 + c div 64) div 4 = b mod 16" "(b mod 16 * 4 + c div 64) mod 4 = c div 64"
    using 1 by auto
  ultimately show ?case using 1 by (simp add: div_mult_mod_eq)
next
  case (2 a b)
  then have "a div 4 < 64" "a mod 4 * 16 + b div 16 < 64" "b mod 16 * 4 < 64" by auto
  moreover have "(a mod 4 * 16 + b div 16) div 16 = a mod 4" "(a mod 4 * 16 + b div 16) mod 16 = b div 16"
    using 2 by auto
  ultimately show ?case by simp
next
  case (3 a)
  then have "a div 4 < 64" "a mod 4 * 16 < 64" by auto
  then show ?case by simp
qed simp

lemma base64_roundtrip: "base64_decode (base64_encode s) = s"
  by (simp add: base64_decode_def base64_encode_def encode_sextets list_all_iff comp_def)

lemma basic_password_of:
  "CHR '':'' \<notin> set user \<Longrightarrow> basic_password (user @ CHR '':'' # pw) = pw"
proof -
  assume "CHR '':'' \<notin> set user"
  then have "dropWhile (\<lambda>c. c \<noteq> CHR '':'') (user @ CHR '':'' # pw) = CHR '':'' # pw"
    by (induction user) auto
  then show ?thesis by (simp add: basic_password_def)
qed

lemma basic_auth_iff:
  assumes "truthy_str (BULL_BOARD_PASSWORD W)" "CHR '':'' \<notin> set user"
  shows "bullBoardBasicAuth W (Some (''Basic '' @ base64_encode (user @ CHR '':'' # pw))) = None
    \<longleftrightarrow> BULL_BOARD_PASSWORD W = Some pw"
proof -
  obtain p where "BULL_BOARD_PASSWORD W = Some p" using assms(1) by (cases "BULL_BOARD_PASSWORD W") auto
  with assms show ?thesis
    by (auto simp: bullBoardBasicAuth_def base64_roundtrip basic_password_of safe_equal_iff)
qed

section \<open>cacheMiddleware\<close>

text \<open>
  A response is its status, the JSON text of its body, and the headers \<open>X-Cache\<close> and
  \<open>Cache-Control\<close>.  The keys of the cache hold texts; a cached text that is not empty is sent as
  it is.  A Redis that fails is logged and ignored, which is a miss without a store.
\<close>

record http_response =
  hr_status :: int
  hr_body :: string
  hr_xcache :: "string option"
  hr_control :: "string option"

definition buildCacheKey :: "string \<Rightarrow> string \<Rightarrow> string option \<Rightarrow> string" where
  "buildCacheKey method url usr =
     ''route-cache:'' @ method @ '':'' @ url @ (if truthy_str usr then '':user:'' @ the usr else [])"

definition cache_headers :: "string option \<Rightarrow> int \<Rightarrow> string \<Rightarrow> http_response \<Rightarrow> http_response" where
  "cache_headers usr ttl mark r =
     r\<lparr>hr_xcache := Some mark,
       hr_control := Some ((if truthy_str usr then ''private'' else ''public'') @ '', max-age='' @ int_str ttl)\<rparr>"

definition plain_response :: "int \<Rightarrow> string \<Rightarrow> http_response" where
  "plain_response st body = \<lparr> hr_status = st, hr_body = body, hr_xcache = None, hr_control = None \<rparr>"

definition cached_body :: "string \<Rightarrow> db \<Rightarrow> string option" where
  "cached_body key s =
     (case redis_get key s of Some (RedisString t) \<Rightarrow> if t = [] then None else Some t | _ \<Rightarrow> None)"

definition cacheMiddleware ::
  "int \<Rightarrow> string \<Rightarrow> string \<Rightarrow> string option \<Rightarrow> (db, int \<times> string) handler \<Rightarrow> (db, http_response) handler" where
  "cacheMiddleware ttl method url usr route s =
     (if method \<noteq> ''GET''
      then (case route s of (Inl e, s') \<Rightarrow> (Inl e, s') | (Inr (st, body), s') \<Rightarrow> (Inr (plain_response st body), s'))
      else case cached_body (buildCacheKey method url usr) s of
        Some body \<Rightarrow> (Inr (cache_headers usr ttl ''HIT'' (plain_response 200 body)), s)
      | None \<Rightarrow>
          (case route s of
             (Inl e, s') \<Rightarrow> (Inl e, s')
           | (Inr (st, body), s') \<Rightarrow>
               if 200 \<le> st \<and> st < 300
               then (Inr (cache_headers usr ttl ''MISS'' (plain_response st body)),
                     redis_setex (buildCacheKey method url usr) ttl (RedisString body) s')
               else (Inr (plain_response st body), s')))"

lemma cache_key_inj:
  assumes "buildCacheKey m url (Some a) = buildCacheKey m url' (Some b)"
    and "a \<noteq> []" "b \<noteq> []" "CHR '':'' \<notin> set a" "CHR '':'' \<notin> set b"
  shows "a = b \<and> url = url'"
proof -
  have eq: "(url @ '':user'') @ CHR '':'' # a = (url' @ '':user'') @ CHR '':'' # b"
    using assms by (simp add: buildCacheKey_def)
  have strip: "takeWhile (\<lambda>c. c \<noteq> CHR '':'') (rev (p @ CHR '':'' # x)) = rev x" if "CHR '':'' \<notin> set x" for p x
  proof -
    have "takeWhile (\<lambda>c. c \<noteq> CHR '':'') (rev x @ CHR '':'' # rev p) =
        rev x @ takeWhile (\<lambda>c. c \<noteq> CHR '':'') (CHR '':'' # rev p)"
      by (rule takeWhile_append2) (use that in auto)
    then show ?thesis by simp
  qed
  from eq have "takeWhile (\<lambda>c. c \<noteq> CHR '':'') (rev ((url @ '':user'') @ CHR '':'' # a)) =
      takeWhile (\<lambda>c. c \<noteq> CHR '':'') (rev ((url' @ '':user'') @ CHR '':'' # b))" by simp
  then have "a = b" unfolding strip [OF assms(4)] strip [OF assms(5)] by simp
  with eq show ?thesis by simp
qed

text \<open>Within the time to live the second request gets the first answer, whatever the route would do.\<close>

lemma cache_serves_again:
  assumes "cacheMiddleware ttl ''GET'' url usr route s = (Inr r, s')" "hr_xcache r = Some ''MISS''"
    and "hr_body r \<noteq> []" "clock s' \<le> now" "now < clock s' + ttl * 1000"
  shows "\<exists>r'. cacheMiddleware ttl ''GET'' url usr route' (s'\<lparr>clock := now\<rparr>) = (Inr r', s'\<lparr>clock := now\<rparr>)
    \<and> hr_body r' = hr_body r \<and> hr_control r' = hr_control r \<and> hr_xcache r' = Some ''HIT''"
proof -
  let ?k = "buildCacheKey ''GET'' url usr"
  from assms(1,2) obtain st body s1 where r: "route s = (Inr (st, body), s1)"
    and s': "s' = redis_setex ?k ttl (RedisString body) s1"
    and r': "r = cache_headers usr ttl ''MISS'' (plain_response st body)"
    by (auto simp: cacheMiddleware_def cache_headers_def plain_response_def
        split: option.splits prod.splits sum.splits if_splits)
  have "redis_get ?k (s'\<lparr>clock := now\<rparr>) = Some (RedisString body)"
    using assms(4,5) by (simp add: s' redis_get_def redis_setex_def update_conv live_def)
  then show ?thesis
    using assms(3) by (simp add: cacheMiddleware_def cached_body_def r' cache_headers_def plain_response_def)
qed

section \<open>loadShedder\<close>

text \<open>
  The counter of requests in flight.  A request that was let through holds a flag \<open>released\<close>
  shared by its two listeners; \<open>finish\<close> and \<open>close\<close> may both fire.
\<close>

record shed =
  sh_inFlight :: int
  sh_open :: "(nat \<times> bool) list"

datatype shed_event = Arrive nat string | Finish nat | Close nat

definition exemptPaths :: "string list" where
  "exemptPaths = [''/health'', ''/ready'', ''/metrics'']"

definition shed_release :: "nat \<Rightarrow> shed \<Rightarrow> shed" where
  "shed_release i h =
     (case map_of (sh_open h) i of
        Some False \<Rightarrow>
          \<lparr> sh_inFlight = max 0 ((if sh_inFlight h = 0 then 1 else sh_inFlight h) - 1),
            sh_open = AList.update i True (sh_open h) \<rparr>
      | _ \<Rightarrow> h)"

text \<open>The answer 503, or \<open>None\<close> for \<open>next()\<close>.\<close>

fun shed_step :: "int \<Rightarrow> shed_event \<Rightarrow> shed \<Rightarrow> int option \<times> shed" where
  "shed_step limit (Arrive i path) h =
     (if path \<in> set exemptPaths then (None, h)
      else if limit \<le> sh_inFlight h then (Some 503, h)
      else (None, \<lparr> sh_inFlight = sh_inFlight h + 1, sh_open = (i, False) # sh_open h \<rparr>))"
| "shed_step limit (Finish i) h = (None, shed_release i h)"
| "shed_step limit (Close i) h = (None, shed_release i h)"

definition shed_initial :: shed where
  "shed_initial = \<lparr> sh_inFlight = 0, sh_open = [] \<rparr>"

text \<open>The events of a process: every request has its own number.\<close>

inductive shed_run :: "int \<Rightarrow> shed \<Rightarrow> bool" for limit where
  start: "shed_run limit shed_initial"
| step: "shed_run limit h \<Longrightarrow> (case ev of Arrive i p \<Rightarrow> i \<notin> fst ` set (sh_open h) | _ \<Rightarrow> True) \<Longrightarrow>
    shed_run limit (snd (shed_step limit ev h))"

definition in_service :: "shed \<Rightarrow> nat" where
  "in_service h = length (filter (\<lambda>(i, released). \<not> released) (sh_open h))"

lemma update_released:
  assumes "distinct (map fst xs)" "map_of xs i = Some False"
  shows "Suc (length (filter (\<lambda>(i, released). \<not> released) (AList.update i True xs))) =
    length (filter (\<lambda>(i, released). \<not> released) xs)"
  using assms
proof (induction xs)
  case (Cons x xs)
  obtain k r where x: "x = (k, r)" by fastforce
  with Cons show ?case by (cases "k = i") auto
qed simp

lemma shed_counts:
  assumes "shed_run limit h" "0 \<le> limit"
  shows "sh_inFlight h = int (in_service h) \<and> sh_inFlight h \<le> limit \<and> distinct (map fst (sh_open h))"
  using assms(1)
proof induction
  case start
  then show ?case using assms(2) by (simp add: shed_initial_def in_service_def)
next
  case (step h ev)
  have rel: "sh_inFlight g = int (in_service g) \<and> sh_inFlight g \<le> limit \<and> distinct (map fst (sh_open g))"
    if g: "g = shed_release i h" for i g
  proof (cases "map_of (sh_open h) i")
    case None
    with step.IH g show ?thesis by (simp add: shed_release_def)
  next
    case (Some b)
    with step.IH g show ?thesis
      using update_released [of "sh_open h" i]
      by (cases b) (auto simp: shed_release_def in_service_def distinct_update)
  qed
  show ?case
  proof (cases ev)
    case (Arrive i p)
    with step show ?thesis by (auto simp: in_service_def)
  next
    case (Finish i)
    with rel [of "shed_release i h" i] show ?thesis by auto
  next
    case (Close i)
    with rel [of "shed_release i h" i] show ?thesis by auto
  qed
qed

section \<open>requireHttps, request ids and rate-limit keys\<close>

definition requireHttps :: "world \<Rightarrow> bool \<Rightarrow> string option \<Rightarrow> int option" where
  "requireHttps W secure forwardedProto =
     (if \<not> REQUIRE_HTTPS W then None
      else if secure \<or> forwardedProto = Some ''https'' then None else Some 426)"

definition request_id :: "string option \<Rightarrow> string option \<Rightarrow> string \<Rightarrow> string" where
  "request_id xRequestId xCorrelationId uuid =
     (if truthy_str xRequestId then the xRequestId
      else if truthy_str xCorrelationId then the xCorrelationId else uuid)"

definition userOrIpKey :: "auth_user option \<Rightarrow> string option \<Rightarrow> string" where
  "userOrIpKey user ip =
     (case user of
        Some a \<Rightarrow> if au_id a \<noteq> [] then ''user:'' @ au_id a else ''ip:'' @ str_or ip ''anon''
      | None \<Rightarrow> ''ip:'' @ str_or ip ''anon'')"

text \<open>The limiters of \<open>rateLimiter.ts\<close>: the window in milliseconds and the number of requests.\<close>

datatype limiter = AuthLimit | UserLimit | TripLimit | DeliveryLimit | MatchReadLimit
  | MatchWriteLimit | MapsLimit | PaymentLimit | WebhookLimit

fun limit_max :: "bool \<Rightarrow> limiter \<Rightarrow> int \<times> int" where
  "limit_max demo AuthLimit = (15 * 60 * 1000, if demo then 500 else 30)"
| "limit_max demo UserLimit = (60 * 1000, if demo then 2000 else 300)"
| "limit_max demo TripLimit = (60 * 1000, if demo then 2000 else 300)"
| "limit_max demo DeliveryLimit = (60 * 1000, if demo then 2000 else 300)"
| "limit_max demo MatchReadLimit = (60 * 1000, if demo then 10000 else 3000)"
| "limit_max demo MatchWriteLimit = (60 * 1000, if demo then 2000 else 500)"
| "limit_max demo MapsLimit = (60 * 1000, if demo then 3000 else 600)"
| "limit_max demo PaymentLimit = (60 * 1000, if demo then 1000 else 200)"
| "limit_max demo WebhookLimit = (60 * 1000, if demo then 2000 else 600)"

definition limit_key :: "limiter \<Rightarrow> auth_user option \<Rightarrow> string option \<Rightarrow> string" where
  "limit_key l user ip =
     (if l \<in> {AuthLimit, WebhookLimit} then str_or ip ''anon'' else userOrIpKey user ip)"

definition limit_skipped :: "world \<Rightarrow> limiter \<Rightarrow> string \<Rightarrow> bool" where
  "limit_skipped W l path = (l = AuthLimit \<and> DEMO_MODE W \<and> path = ''/demo-login'')"

end
