(* ===== verification/Workers.thy ===== *)
theory Workers
  imports Deliveries Lifecycle
begin

text \<open>
  The background workers of \<open>backend/src/queues\<close>: the SLA audit that cancels and rematches the
  matches of carriers who did not pick up, the payment reconciler, and the OTP audit.  (The
  matching, payout and reminder jobs are in the theories of their services.)
\<close>

section \<open>slaRematchQueue\<close>

definition sla_candidate :: "match_doc \<Rightarrow> bool" where
  "sla_candidate m =
     (m_status m \<in> {CarrierAccepted, SenderConfirmed, PickupPending} \<and>
      os_verifiedAt (m_otpPickup m) = None)"

definition sla_cancel :: "int \<Rightarrow> match_doc \<Rightarrow> match_doc" where
  "sla_cancel now m =
     m\<lparr>m_status := Cancelled,
       m_timeline := m_timeline m @ [\<lparr> te_event = EvCancelled, te_timestamp = now, te_actor = None,
         te_metadata = JObj [(''reason'', JStr
           ''Auto-cancelled due to SLA pickup timeout (<45 mins to departure with no pickup).'')] \<rparr>]\<rparr>"

definition update_match :: "oid \<Rightarrow> (match_doc \<Rightarrow> match_doc) \<Rightarrow> db \<Rightarrow> db" where
  "update_match k f s = s\<lparr>matches := findByIdAndUpdate k f (matches s)\<rparr>"

definition count_rating :: "user \<Rightarrow> user" where
  "count_rating u = u\<lparr>u_ratingCount := u_ratingCount u + 1\<rparr>"

definition add_capacity :: "rat \<Rightarrow> trip \<Rightarrow> trip" where
  "add_capacity w t =
     t\<lparr>t_availableCapacity := (t_availableCapacity t)
         \<lparr>c_weightKg := jadd (c_weightKg (t_availableCapacity t)) w\<rparr>\<rparr>"

definition other_trips :: "oid \<Rightarrow> int \<Rightarrow> db \<Rightarrow> oid list" where
  "other_trips tid now s =
     take 5 (map fst (filter (\<lambda>(k, t). k \<noteq> tid \<and> t_status t = TripActive \<and> now \<le> t_departureTime t) (trips s)))"

record sla_result =
  sr_cancelledCount :: nat
  sr_rematchedCount :: nat

text \<open>
  One match with the trip and the request that were populated when the audit began.  An error of
  the rematch search is logged and swallowed.
\<close>

definition sla_match ::
  "world \<Rightarrow> int \<Rightarrow> oid \<times> match_doc \<times> trip option \<times> delivery_request option \<Rightarrow> (db, sla_result) handler" where
  "sla_match W now entry =
     (case entry of (mid, m, trip_opt, req_opt) \<Rightarrow>
        case trip_opt of
          None \<Rightarrow> retM \<lparr> sr_cancelledCount = 0, sr_rematchedCount = 0 \<rparr>
        | Some t \<Rightarrow>
            if \<not> t_departureTime t \<le> now + 45 * 60 * 1000
            then retM \<lparr> sr_cancelledCount = 0, sr_rematchedCount = 0 \<rparr>
            else
              thenM (modM (update_match mid (sla_cancel now)))
              (thenM (modM (update_user (m_carrier m) count_rating))
              (case req_opt of
                 None \<Rightarrow> retM \<lparr> sr_cancelledCount = 1, sr_rematchedCount = 0 \<rparr>
               | Some r \<Rightarrow>
                   thenM (whenM (p_weightKg (r_package r) \<noteq> 0)
                       (modM (update_trip (m_trip m) (add_capacity (p_weightKg (r_package r))))))
                   (thenM (modM (update_request (m_deliveryRequest m) (set_request_status ReqCreated)))
                   (catchM
                      (bindM (readM (other_trips (m_trip m) now)) (\<lambda>tids.
                       thenM (eachM (matchTripAgainstPendingRequests W) tids)
                         (retM \<lparr> sr_cancelledCount = 1, sr_rematchedCount = 1 \<rparr>)))
                      (\<lambda>e. retM \<lparr> sr_cancelledCount = 1, sr_rematchedCount = 0 \<rparr>))))))"

definition sla_entries :: "db \<Rightarrow> (oid \<times> match_doc \<times> trip option \<times> delivery_request option) list" where
  "sla_entries s =
     map (\<lambda>(k, m). (k, m, findById (trips s) (m_trip m), findById (requests s) (m_deliveryRequest m)))
       (findAll sla_candidate (matches s))"

definition processSlaRematchAudit :: "world \<Rightarrow> (db, sla_result) handler" where
  "processSlaRematchAudit W =
     bindM (readM clock) (\<lambda>now.
     bindM (readM sla_entries) (\<lambda>entries.
     bindM (eachM (sla_match W now) entries) (\<lambda>rs.
     retM \<lparr> sr_cancelledCount = sum_list (map sr_cancelledCount rs),
            sr_rematchedCount = sum_list (map sr_rematchedCount rs) \<rparr>)))"

section \<open>paymentReconcilerQueue\<close>

definition reconcile_candidate :: "int \<Rightarrow> transaction \<Rightarrow> bool" where
  "reconcile_candidate now x =
     (x_status x = TxPending \<and> x_type x = EscrowHold \<and> x_createdAt x \<le> now - 10 * 60 * 1000)"

definition reconcile_match :: "int \<Rightarrow> match_doc \<Rightarrow> match_doc" where
  "reconcile_match now m =
     m\<lparr>m_status := SenderConfirmed,
       m_timeline := m_timeline m @ [\<lparr> te_event = EvSenderConfirmed, te_timestamp = now, te_actor = None,
         te_metadata = JObj [(''reason'', JStr ''Payment reconciled via background reconciler engine.'')] \<rparr>]\<rparr>"

definition reconcile_one :: "oid \<times> transaction \<Rightarrow> (db, nat) handler" where
  "reconcile_one p s =
     (case x_match (snd p) of
        None \<Rightarrow> (Inr 0, s)
      | Some mid \<Rightarrow>
          (case findById (matches s) mid of
             None \<Rightarrow> (Inr 0, s)
           | Some m \<Rightarrow>
               if \<not> (truthy_str (x_razorpayPaymentId (snd p)) \<or> truthy_str (x_razorpayOrderId (snd p)))
               then (Inr 0, s)
               else
                 (let s1 = save_transaction (fst p) ((snd p)\<lparr>x_status := TxCompleted\<rparr>) s
                  in if m_status m = CarrierAccepted \<or> m_status m = Proposed
                     then (Inr 1, save_match mid (reconcile_match (clock s) m) s1)
                     else (Inr 0, s1))))"

definition processPaymentReconciliation :: "(db, nat) handler" where
  "processPaymentReconciliation =
     bindM (readM (\<lambda>s. findAll (reconcile_candidate (clock s)) (transactions s))) (\<lambda>xs.
     bindM (eachM reconcile_one xs) (\<lambda>ns. retM (sum_list ns)))"

section \<open>otpCleanup\<close>

text \<open>
  The audit counts the \<open>otp:\<close> keys whose \<open>ttl\<close> is negative: a key without expiry (-1) or one
  that expired between SCAN and TTL (-2).  \<open>pages\<close> are the keys the cursor yields.
\<close>

definition redis_ttl :: "string \<Rightarrow> db \<Rightarrow> int" where
  "redis_ttl k s =
     (case map_of (redis s) k of
        None \<Rightarrow> - 2
      | Some (v, None) \<Rightarrow> - 1
      | Some (v, Some t) \<Rightarrow> if clock s < t then (t - clock s) div 1000 else - 2)"

definition otp_cleanup_audit :: "string list list \<Rightarrow> db \<Rightarrow> nat" where
  "otp_cleanup_audit pages s =
     sum_list (map (\<lambda>keys. length (filter (\<lambda>k. redis_ttl k s < 0) keys)) pages)"

section \<open>Facts\<close>

lemma keeps_update_match_pairs:
  assumes "\<And>m. m_trip (f m) = m_trip m \<and> m_deliveryRequest (f m) = m_deliveryRequest m"
  shows "keeps unique_pairs (modM (update_match k f))"
proof (rule keeps_modM)
  fix s
  assume "unique_pairs s"
  moreover have "map (\<lambda>(k, m). (m_trip m, m_deliveryRequest m)) (findByIdAndUpdate k f c) =
      map (\<lambda>(k, m). (m_trip m, m_deliveryRequest m)) c" for c
  proof (induction c)
    case Nil
    then show ?case by (simp add: findByIdAndUpdate_def)
  next
    case (Cons p c)
    then show ?case
      using assms by (cases p) (auto simp: findByIdAndUpdate_def split: option.splits if_splits)
  qed
  ultimately show "unique_pairs (update_match k f s)"
    by (simp add: unique_pairs_def update_match_def)
qed

lemma keeps_sla_audit: "keeps unique_pairs (processSlaRematchAudit W)"
  unfolding processSlaRematchAudit_def sla_match_def
  by (intro keeps_intros keeps_matchTrip keeps_update_match_pairs keeps_silent_pairs)
     (simp_all add: sla_cancel_def)

text \<open>
  The reconciler acts on escrow holds that carry a Razorpay id, and no hold ever does: on a
  ledger of the service it changes nothing.
\<close>

definition holds_without_ids :: "db \<Rightarrow> bool" where
  "holds_without_ids s \<longleftrightarrow>
     (\<forall>(k, x) \<in> set (transactions s). x_type x = EscrowHold \<longrightarrow>
        x_razorpayPaymentId x = None \<and> x_razorpayOrderId x = None)"

lemma reconcile_one_noop:
  "x_razorpayPaymentId (snd p) = None \<Longrightarrow> x_razorpayOrderId (snd p) = None \<Longrightarrow> reconcile_one p s = (Inr 0, s)"
  by (simp add: reconcile_one_def split: option.splits)

lemma reconcile_each_noop:
  "(\<And>p. p \<in> set xs \<Longrightarrow> x_razorpayPaymentId (snd p) = None \<and> x_razorpayOrderId (snd p) = None) \<Longrightarrow>
     eachM reconcile_one xs s = (Inr (map (\<lambda>_. 0) xs), s)"
  by (induction xs) (simp_all add: reconcile_one_noop run_simps)

lemma reconciler_noop:
  assumes "holds_without_ids s"
  shows "processPaymentReconciliation s = (Inr 0, s)"
proof -
  let ?xs = "findAll (reconcile_candidate (clock s)) (transactions s)"
  have "eachM reconcile_one ?xs s = (Inr (map (\<lambda>_. 0) ?xs), s)"
    by (rule reconcile_each_noop)
      (use assms in \<open>auto simp: set_findAll reconcile_candidate_def holds_without_ids_def\<close>)
  then show ?thesis by (simp add: processPaymentReconciliation_def run_simps map_replicate_const sum_list_replicate)
qed

lemma holds_without_ids_hold: "keeps holds_without_ids (holdFunds W mid n kind)"
proof -
  have "keeps holds_without_ids (hold_body W u mid n kind)" for u
    unfolding hold_body_def
    by (intro keeps_intros keeps_modM) (auto simp: holds_without_ids_def new_transaction_def)
  then show ?thesis
    unfolding holdFunds_def
    by (intro keeps_intros keeps_runInTransaction) (auto simp: holds_without_ids_def)
qed

text \<open>What the SLA audit does to one late match: the request gets a status nothing matches.\<close>

lemma created_never_matched: "r_status r = ReqCreated \<Longrightarrow> \<not> request_fits t r"
  by (simp add: request_fits_def)

lemma sla_match_cancels:
  assumes "sla_match W now (mid, m, Some t, req) s = (q, s')"
    and "t_departureTime t \<le> now + 45 * 60 * 1000" and "req = None"
    and "findById (matches s) mid = Some m0"
  shows "findById (matches s') mid = Some (sla_cancel now m0) \<and> q = Inr \<lparr> sr_cancelledCount = 1, sr_rematchedCount = 0 \<rparr>"
  using assms by (auto simp: sla_match_def run_simps update_match_def)

end
