(* ===== verification/Api.thy ===== *)
theory Api
  imports Decode Config Http Workers
begin

text \<open>
  \<open>routes/*.ts\<close> and \<open>controllers/*.ts\<close>: the endpoints of the API that reach the database, the
  middleware of each in the order of its router, and what each controller calls and answers.  A
  request runs its middleware, then its controller; an error goes to the error handler.
\<close>

section \<open>Endpoints\<close>

text \<open>One datatype per router; the two spellings of an OTP route are one endpoint.\<close>

datatype auth_route =
    SendOtpE | VerifyOtpE | RegisterE | LoginE | GoogleE | DemoLoginE | RefreshE
  | LogoutE

datatype user_route =
    MeE | UpdateMeE | DeleteMeE | VerifyIdE | WalletE | SetupStatusE | AadhaarE
  | PayoutE | PreferencesE | PublicProfileE oid

datatype trip_route =
    CreateTripE | ListTripsE | MyTripsE | GetTripE oid | UpdateTripE oid
  | DeleteTripE oid | PreTripDepositE | PayDepositE oid | ConfirmDepositE oid

datatype delivery_route =
    CreateDeliveryE | ListDeliveriesE | MyDeliveriesE | GetDeliveryE oid
  | UpdateDeliveryE oid | DeleteDeliveryE oid | PayDeliveryE oid | ConfirmPayE oid
  | DeliveryMatchesE oid

datatype match_route =
    GetMatchE oid | CarrierAcceptE oid | CarrierRejectE oid | SenderConfirmE oid
  | SenderRejectE oid | PickupOtpE oid | VerifyPickupE oid | DeliveryOtpE oid
  | VerifyDeliveryE oid | RateE oid | DisputeE oid | RapidoE oid

datatype payment_route =
    CreateOrderE | VerifyPaymentE | WebhookE | TransactionsE

datatype pricing_route =
    EstimateE | GuidanceE

datatype internal_route =
    MatchRequestI oid | MatchTripI oid

datatype endpoint =
    AuthRoute auth_route | UserRoute user_route | TripRoute trip_route
  | DeliveryRoute delivery_route | MatchRoute match_route | PaymentRoute payment_route
  | PricingRoute pricing_route | InternalRoute internal_route | WebhookPing

record request =
  rq_authorization :: "string option"
  rq_internalToken :: "string option"
  rq_signature :: "string option"
  rq_ip :: "string option"
  rq_body :: json
  rq_rawBody :: string
  rq_query :: json

text \<open>The middleware in front of a controller.\<close>

datatype guard = Limit limiter | NeedAuth | NeedRole string | NeedInternal | Body zschema

fun auth_guards :: "auth_route \<Rightarrow> guard list" where
  "auth_guards SendOtpE = [Limit AuthLimit, Body sendOtpSchema]"
| "auth_guards VerifyOtpE = [Limit AuthLimit, Body verifyOtpSchema]"
| "auth_guards RegisterE = [Limit AuthLimit, Body registerSchema]"
| "auth_guards LoginE = [Limit AuthLimit, Body loginSchema]"
| "auth_guards GoogleE = [Limit AuthLimit, Body googleLoginSchema]"
| "auth_guards DemoLoginE = [Limit AuthLimit, Body demoLoginSchema]"
| "auth_guards RefreshE = [Limit AuthLimit, Body refreshSchema]"
| "auth_guards LogoutE = [Limit AuthLimit, NeedAuth]"

fun user_guards :: "user_route \<Rightarrow> guard list" where
  "user_guards MeE = [Limit UserLimit, NeedAuth]"
| "user_guards UpdateMeE = [Limit UserLimit, NeedAuth, Body updateMeSchema]"
| "user_guards DeleteMeE = [Limit UserLimit, NeedAuth]"
| "user_guards VerifyIdE = [Limit UserLimit, NeedAuth, Body verifyIdSchema]"
| "user_guards WalletE = [Limit UserLimit, NeedAuth]"
| "user_guards SetupStatusE = [Limit UserLimit, NeedAuth]"
| "user_guards AadhaarE = [Limit UserLimit, NeedAuth, Body verifyCarrierAadhaarSchema]"
| "user_guards PayoutE = [Limit UserLimit, NeedAuth, Body saveCarrierPayoutSchema]"
| "user_guards PreferencesE = [Limit UserLimit, NeedAuth, Body saveCarrierPreferencesSchema]"
| "user_guards (PublicProfileE _) = [Limit UserLimit, NeedAuth]"

fun trip_guards :: "trip_route \<Rightarrow> guard list" where
  "trip_guards CreateTripE = [Limit TripLimit, NeedAuth, NeedRole ''carrier'', Body createTripSchema]"
| "trip_guards ListTripsE = [Limit TripLimit, NeedAuth]"
| "trip_guards MyTripsE = [Limit TripLimit, NeedAuth]"
| "trip_guards (GetTripE _) = [Limit TripLimit, NeedAuth]"
| "trip_guards (UpdateTripE _) = [Limit TripLimit, NeedAuth, NeedRole ''carrier'', Body updateTripSchema]"
| "trip_guards (DeleteTripE _) = [Limit TripLimit, NeedAuth, NeedRole ''carrier'']"
| "trip_guards PreTripDepositE = [Limit TripLimit, NeedAuth, NeedRole ''carrier'']"
| "trip_guards (PayDepositE _) = [Limit TripLimit, NeedAuth, NeedRole ''carrier'']"
| "trip_guards (ConfirmDepositE _) = [Limit TripLimit, NeedAuth, NeedRole ''carrier'']"

fun delivery_guards :: "delivery_route \<Rightarrow> guard list" where
  "delivery_guards CreateDeliveryE = [Limit DeliveryLimit, NeedAuth, Body createDeliverySchema]"
| "delivery_guards ListDeliveriesE = [Limit DeliveryLimit, NeedAuth, NeedRole ''admin'']"
| "delivery_guards MyDeliveriesE = [Limit DeliveryLimit, NeedAuth]"
| "delivery_guards (GetDeliveryE _) = [Limit DeliveryLimit, NeedAuth]"
| "delivery_guards (UpdateDeliveryE _) = [Limit DeliveryLimit, NeedAuth, Body updateDeliverySchema]"
| "delivery_guards (DeleteDeliveryE _) = [Limit DeliveryLimit, NeedAuth]"
| "delivery_guards (PayDeliveryE _) = [Limit DeliveryLimit, NeedAuth]"
| "delivery_guards (ConfirmPayE _) = [Limit DeliveryLimit, NeedAuth]"
| "delivery_guards (DeliveryMatchesE _) = [Limit DeliveryLimit, NeedAuth]"

fun match_guards :: "match_route \<Rightarrow> guard list" where
  "match_guards (GetMatchE _) = [NeedAuth, Limit MatchReadLimit]"
| "match_guards (CarrierAcceptE _) = [NeedAuth, Limit MatchWriteLimit]"
| "match_guards (CarrierRejectE _) = [NeedAuth, Limit MatchWriteLimit]"
| "match_guards (SenderConfirmE _) = [NeedAuth, Limit MatchWriteLimit]"
| "match_guards (SenderRejectE _) = [NeedAuth, Limit MatchWriteLimit]"
| "match_guards (PickupOtpE _) = [NeedAuth, Limit MatchWriteLimit]"
| "match_guards (VerifyPickupE _) = [NeedAuth, Limit MatchWriteLimit, Body match_verifyOtpSchema]"
| "match_guards (DeliveryOtpE _) = [NeedAuth, Limit MatchWriteLimit]"
| "match_guards (VerifyDeliveryE _) = [NeedAuth, Limit MatchWriteLimit, Body match_verifyOtpSchema]"
| "match_guards (RateE _) = [NeedAuth, Limit MatchWriteLimit, Body rateMatchSchema]"
| "match_guards (DisputeE _) = [NeedAuth, Limit MatchWriteLimit, Body disputeSchema]"
| "match_guards (RapidoE _) = [NeedAuth, Limit MatchWriteLimit, Body requestRapidoSchema]"

fun payment_guards :: "payment_route \<Rightarrow> guard list" where
  "payment_guards CreateOrderE = [NeedAuth, Limit PaymentLimit]"
| "payment_guards VerifyPaymentE = [NeedAuth, Limit PaymentLimit]"
| "payment_guards WebhookE = [Limit WebhookLimit]"
| "payment_guards TransactionsE = [NeedAuth, Limit PaymentLimit]"

fun pricing_guards :: "pricing_route \<Rightarrow> guard list" where
  "pricing_guards EstimateE = [Limit TripLimit]"
| "pricing_guards GuidanceE = [Limit TripLimit, NeedAuth, NeedRole ''carrier'']"

fun internal_guards :: "internal_route \<Rightarrow> guard list" where
  "internal_guards (MatchRequestI _) = [NeedInternal]"
| "internal_guards (MatchTripI _) = [NeedInternal]"

fun route_guards :: "endpoint \<Rightarrow> guard list" where
  "route_guards (AuthRoute r) = auth_guards r"
| "route_guards (UserRoute r) = user_guards r"
| "route_guards (TripRoute r) = trip_guards r"
| "route_guards (DeliveryRoute r) = delivery_guards r"
| "route_guards (MatchRoute r) = match_guards r"
| "route_guards (PaymentRoute r) = payment_guards r"
| "route_guards (PricingRoute r) = pricing_guards r"
| "route_guards (InternalRoute r) = internal_guards r"
| "route_guards WebhookPing = []"

text \<open>
  What the API gets from outside: zod's messages, JSON.parse of a webhook, the zone of the host,
  and the store of the rate limiters.
\<close>

record api_env =
  ae_msgs :: "zschema \<Rightarrow> json \<Rightarrow> string"
  ae_parse :: "string \<Rightarrow> json option"
  ae_tz :: int
  ae_allow :: "limiter \<Rightarrow> string \<Rightarrow> bool"

definition too_many :: js_error where
  "too_many = ApiError 429 ''Too many requests, please try again later.''"

text \<open>One step: the user and the body seen by what follows.\<close>

fun run_guard :: "world \<Rightarrow> api_env \<Rightarrow> int \<Rightarrow> request \<Rightarrow> guard \<Rightarrow> auth_user option \<times> json \<Rightarrow>
    js_error + (auth_user option \<times> json)" where
  "run_guard W A now rq (Limit l) (u, b) =
     (if ae_allow A l (limit_key l u (rq_ip rq)) then Inr (u, b) else Inl too_many)"
| "run_guard W A now rq NeedAuth (u, b) =
     (case requireAuth W now (rq_authorization rq) of Inl e \<Rightarrow> Inl e | Inr a \<Rightarrow> Inr (Some a, b))"
| "run_guard W A now rq (NeedRole r) (u, b) =
     (case requireRole r u of Some e \<Rightarrow> Inl e | None \<Rightarrow> Inr (u, b))"
| "run_guard W A now rq NeedInternal (u, b) =
     (case requireInternalService W (rq_internalToken rq) of Some e \<Rightarrow> Inl e | None \<Rightarrow> Inr (u, b))"
| "run_guard W A now rq (Body sch) (u, b) =
     (case validate W (ae_msgs A) sch b of Inl e \<Rightarrow> Inl e | Inr b' \<Rightarrow> Inr (u, b'))"

fun run_guards :: "world \<Rightarrow> api_env \<Rightarrow> int \<Rightarrow> request \<Rightarrow> guard list \<Rightarrow> auth_user option \<times> json \<Rightarrow>
    js_error + (auth_user option \<times> json)" where
  "run_guards W A now rq [] ub = Inr ub"
| "run_guards W A now rq (g # gs) ub =
     (case run_guard W A now rq g ub of Inl e \<Rightarrow> Inl e | Inr ub' \<Rightarrow> run_guards W A now rq gs ub')"

section \<open>Answers\<close>

datatype answer =
    NoData | DTokens tokens | DUser user | DPublic public_profile | DWallet wallet_view
  | DSetup setup_status | DAadhaar aadhaar_result | DPayout payout_result
  | DPreferences carrier_preferences | DTrip "oid option \<times> trip" | DTripPage trip_page
  | DTrips "(oid \<times> trip) list" | DOrder order_result | DConfirmation confirmation
  | DRequest "oid option \<times> delivery_request" | DRequests "(oid \<times> delivery_request) list"
  | DMatch match_doc | DMatches "(oid \<times> match_doc) list" | DConfirm confirm_result
  | DOtp otp_issued | DStandalone standalone_order | DVerified "string \<times> string"
  | DWebhook webhook_answer | DTransactions "(oid \<times> transaction) list"
  | DEstimate estimate_result | DGuidance guidance | DProcessed nat | DFailure error_response

record api_response =
  ap_status :: int
  ap_message :: string
  ap_data :: answer

definition answerM :: "int \<Rightarrow> string \<Rightarrow> ('a \<Rightarrow> answer) \<Rightarrow> (db, 'a) handler \<Rightarrow> (db, api_response) handler" where
  "answerM st msg f m = bindM m (\<lambda>x. retM \<lparr> ap_status = st, ap_message = msg, ap_data = f x \<rparr>)"

definition bad_request :: "string \<Rightarrow> (db, api_response) handler" where
  "bad_request msg = retM \<lparr> ap_status = 400, ap_message = msg, ap_data = NoData \<rparr>"

text \<open>The \<open>catch\<close> of the two payment controllers, with its default status.\<close>

definition catch_status :: "int \<Rightarrow> (db, api_response) handler \<Rightarrow> (db, api_response) handler" where
  "catch_status st m =
     catchM m (\<lambda>e. retM \<lparr> ap_status = num_or (err_statusCode e) st, ap_message = err_message e, ap_data = NoData \<rparr>)"

text \<open>Text fields that no schema has checked: any other value ends in an error.\<close>

definition textM :: "json \<Rightarrow> (db, string) handler" where
  "textM v = (case v of JStr t \<Rightarrow> retM t | _ \<Rightarrow> throwM (LibError ''TypeError''))"

definition opt_textM :: "json \<Rightarrow> (db, string option) handler" where
  "opt_textM v = (case v of JStr t \<Rightarrow> retM (Some t) | JUndef \<Rightarrow> retM None | JNull \<Rightarrow> retM None
                  | _ \<Rightarrow> throwM (LibError ''TypeError''))"

text \<open>A page number or a limit that is no natural number is refused by the database.\<close>

definition natM :: "json \<Rightarrow> (db, nat) handler" where
  "natM v = (case v of JNum x \<Rightarrow>
       if 0 \<le> x \<and> x = of_int \<lfloor>x\<rfloor> then retM (nat \<lfloor>x\<rfloor>) else throwM (LibError ''MongoServerError'')
     | _ \<Rightarrow> throwM (LibError ''MongoServerError''))"

definition dateM :: "world \<Rightarrow> json \<Rightarrow> (db, int option) handler" where
  "dateM W v =
     (case v of JStr t \<Rightarrow> if t = [] then retM None
        else (case dateParse W t of None \<Rightarrow> throwM (LibError ''CastError'') | Some d \<Rightarrow> retM (Some d))
      | _ \<Rightarrow> retM None)"

section \<open>Controllers\<close>

fun auth_controller :: "world \<Rightarrow> auth_route \<Rightarrow> oid \<Rightarrow> json \<Rightarrow> (db, api_response) handler" where
  "auth_controller W SendOtpE usr b =
     answerM 200 ''OTP sent'' (\<lambda>_. NoData) (sendOtp W (js_text (jget b ''phone'')))"
| "auth_controller W VerifyOtpE usr b =
     answerM 200 ''OTP verified'' DTokens (verifyOtpLogin W (js_text (jget b ''phone'')) (js_text (jget b ''otp'')))"
| "auth_controller W RegisterE usr b =
     answerM 201 ''User registered successfully'' DTokens
       (registerUser W (js_text (jget b ''name'')) (js_text (jget b ''email'')) (js_text (jget b ''phone''))
          (js_text (jget b ''otp'')))"
| "auth_controller W LoginE usr b =
     answerM 200 ''Login successful'' DTokens (verifyOtpLogin W (js_text (jget b ''phone'')) (js_text (jget b ''otp'')))"
| "auth_controller W DemoLoginE usr b =
     answerM 200 ''Demo login successful'' DTokens
       (demoLogin W (decode_persona (if jget b ''persona'' = JUndef then jget b ''role'' else jget b ''persona'')))"
| "auth_controller W GoogleE usr b =
     answerM 200 ''Google login successful'' DTokens (googleLogin W (js_text (jget b ''idToken'')))"
| "auth_controller W RefreshE usr b =
     answerM 200 ''Token refreshed'' DTokens (refreshAuthToken W (js_text (jget b ''refreshToken'')))"
| "auth_controller W LogoutE usr b = answerM 200 ''Logged out successfully'' (\<lambda>_. NoData) (logoutUser usr)"

fun user_controller :: "world \<Rightarrow> user_route \<Rightarrow> oid \<Rightarrow> json \<Rightarrow> (db, api_response) handler" where
  "user_controller W MeE usr b = answerM 200 ''Profile fetched'' DUser (getMyProfile usr)"
| "user_controller W UpdateMeE usr b = answerM 200 ''Profile updated'' DUser (updateMyProfile usr b)"
| "user_controller W DeleteMeE usr b = answerM 200 ''Account deactivated'' (\<lambda>_. NoData) (deleteMyAccount usr)"
| "user_controller W VerifyIdE usr b =
     answerM 200 ''Government ID verified'' DUser
       (verifyGovernmentId W usr (decode_government_id (jget b ''governmentIdType''))
          (js_text (jget b ''governmentIdNumber'')))"
| "user_controller W WalletE usr b = answerM 200 ''Wallet fetched'' DWallet (getWallet usr)"
| "user_controller W SetupStatusE usr b =
     answerM 200 ''Carrier setup status fetched'' DSetup (getCarrierSetupStatus usr)"
| "user_controller W AadhaarE usr b =
     answerM 200 ''Aadhaar verified successfully'' DAadhaar
       (verifyCarrierAadhaarDigiLocker W usr (js_text (jget b ''aadhaarNumber'')))"
| "user_controller W PayoutE usr b =
     answerM 200 ''Payout method updated'' DPayout (saveCarrierPayoutMethod usr (decode_payout b))"
| "user_controller W PreferencesE usr b =
     answerM 200 ''Carrier preferences updated'' DPreferences (saveCarrierPreferences usr b)"
| "user_controller W (PublicProfileE k) usr b = answerM 200 ''Public profile fetched'' DPublic (getPublicProfile k)"

definition trip_filter_of :: "world \<Rightarrow> json \<Rightarrow> (db, trip_filter) handler" where
  "trip_filter_of W q =
     bindM (dateM W (jget q ''date'')) (\<lambda>d.
     bindM (natM (jget q ''page'')) (\<lambda>page.
     bindM (natM (jget q ''limit'')) (\<lambda>limit.
     retM \<lparr> tf_origin_city = decode_opt js_text (jget q ''origin_city''),
            tf_destination_city = decode_opt js_text (jget q ''destination_city''), tf_date = d,
            tf_mode = decode_opt decode_mode (jget q ''mode''),
            tf_min_capacity_kg = decode_opt decode_num (jget q ''min_capacity_kg''),
            tf_page = page, tf_limit = limit \<rparr>)))"

fun trip_controller :: "world \<Rightarrow> int \<Rightarrow> trip_route \<Rightarrow> oid \<Rightarrow> json \<Rightarrow> json \<Rightarrow> (db, api_response) handler" where
  "trip_controller W tz CreateTripE usr b q =
     answerM 201 ''Trip created'' (\<lambda>(k, t). DTrip (Some k, t)) (createTrip W usr (decode_trip b))"
| "trip_controller W tz ListTripsE usr b q =
     bindM (parseM W tripFilterSchema q) (\<lambda>query.
     bindM (trip_filter_of W query) (\<lambda>f.
     answerM 200 ''Trips fetched'' DTripPage (readM (listTrips tz f))))"
| "trip_controller W tz MyTripsE usr b q = answerM 200 ''My trips fetched'' DTrips (readM (listMyTrips usr))"
| "trip_controller W tz (GetTripE k) usr b q =
     answerM 200 ''Trip fetched'' (\<lambda>t. DTrip (None, t)) (getTripById k (Some usr))"
| "trip_controller W tz (UpdateTripE k) usr b q =
     answerM 200 ''Trip updated'' (\<lambda>t. DTrip (None, t)) (updateTrip W usr k (decode_trip_update b) b)"
| "trip_controller W tz (DeleteTripE k) usr b q =
     answerM 200 ''Trip cancelled'' (\<lambda>t. DTrip (None, t)) (cancelTrip W usr k)"
| "trip_controller W tz PreTripDepositE usr b q =
     answerM 200 ''Pre-trip deposit order created'' DOrder (createPreTripDepositOrder W usr)"
| "trip_controller W tz (PayDepositE k) usr b q =
     answerM 200 ''Deposit order created'' DOrder (createDepositOrder W usr k)"
| "trip_controller W tz (ConfirmDepositE k) usr b q =
     bindM (textM (jget b ''razorpayOrderId'')) (\<lambda>o'.
     bindM (textM (jget b ''razorpayPaymentId'')) (\<lambda>p.
     bindM (textM (jget b ''razorpaySignature'')) (\<lambda>sg.
     answerM 200 ''Deposit confirmed'' DConfirmation (confirmDeposit W usr k o' p sg))))"

fun delivery_controller :: "world \<Rightarrow> delivery_route \<Rightarrow> oid \<Rightarrow> json \<Rightarrow> (db, api_response) handler" where
  "delivery_controller W CreateDeliveryE usr b =
     answerM 201 ''Delivery request created'' (\<lambda>(k, r). DRequest (Some k, r))
       (createDeliveryRequest W usr (decode_request b))"
| "delivery_controller W ListDeliveriesE usr b =
     answerM 200 ''All delivery requests fetched'' DRequests (readM listAllRequests)"
| "delivery_controller W MyDeliveriesE usr b =
     answerM 200 ''My delivery requests fetched'' DRequests (readM (listMyRequests usr))"
| "delivery_controller W (GetDeliveryE k) usr b =
     answerM 200 ''Delivery request fetched'' (\<lambda>r. DRequest (None, r)) (getRequestById usr k)"
| "delivery_controller W (UpdateDeliveryE k) usr b =
     answerM 200 ''Delivery request updated'' (\<lambda>r. DRequest (None, r))
       (updateRequest W usr k (decode_request_update b) b)"
| "delivery_controller W (DeleteDeliveryE k) usr b =
     answerM 200 ''Delivery request cancelled'' (\<lambda>r. DRequest (None, r)) (cancelRequest W usr k)"
| "delivery_controller W (PayDeliveryE k) usr b =
     answerM 200 ''Delivery payment order created'' DOrder (createDeliveryPaymentOrder W usr k)"
| "delivery_controller W (ConfirmPayE k) usr b =
     bindM (textM (jget b ''razorpayOrderId'')) (\<lambda>o'.
     bindM (textM (jget b ''razorpayPaymentId'')) (\<lambda>p.
     bindM (textM (jget b ''razorpaySignature'')) (\<lambda>sg.
     answerM 200 ''Delivery payment confirmed'' DConfirmation (confirmDeliveryPay W usr k o' p sg))))"
| "delivery_controller W (DeliveryMatchesE k) usr b =
     answerM 200 ''Delivery matches fetched'' DMatches (getRequestMatches W usr k)"

fun match_controller :: "world \<Rightarrow> match_route \<Rightarrow> oid \<Rightarrow> json \<Rightarrow> (db, api_response) handler" where
  "match_controller W (GetMatchE k) usr b = answerM 200 ''Match fetched'' DMatch (getMatchById k usr)"
| "match_controller W (CarrierAcceptE k) usr b =
     answerM 200 ''Match accepted by carrier'' DMatch (carrierAccept W k usr)"
| "match_controller W (CarrierRejectE k) usr b =
     answerM 200 ''Match rejected by carrier'' DMatch (carrierReject W k usr)"
| "match_controller W (SenderConfirmE k) usr b =
     answerM 200 ''Match confirmed by sender'' DConfirm (senderConfirm W k usr)"
| "match_controller W (SenderRejectE k) usr b =
     answerM 200 ''Match rejected by sender'' DMatch (senderReject W k usr)"
| "match_controller W (PickupOtpE k) usr b =
     answerM 200 ''Pickup OTP generated'' DOtp (generatePickupOtp W k usr)"
| "match_controller W (VerifyPickupE k) usr b =
     answerM 200 ''Pickup OTP verified'' DMatch (verifyPickupOtpForMatch W k usr (js_text (jget b ''otp'')))"
| "match_controller W (DeliveryOtpE k) usr b =
     answerM 200 ''Delivery OTP generated'' DOtp (generateDeliveryOtp W k usr)"
| "match_controller W (VerifyDeliveryE k) usr b =
     answerM 200 ''Delivery OTP verified'' DMatch (verifyDeliveryOtpForMatch W k usr (js_text (jget b ''otp'')))"
| "match_controller W (RateE k) usr b =
     answerM 200 ''Rating submitted'' DMatch
       (rateMatch W k usr \<lfloor>decode_num (jget b ''score'')\<rfloor> (decode_opt js_text (jget b ''comment'')))"
| "match_controller W (DisputeE k) usr b =
     answerM 200 ''Dispute created'' DMatch
       (disputeMatch W k usr (js_text (jget b ''reason'')) (js_text (jget b ''description'')))"
| "match_controller W (RapidoE k) usr b =
     answerM 200 ''Rapido requested'' DMatch
       (requestRapidoForMatch W k usr (decode_pair (jget b ''pickupCoords'')) (js_text (jget b ''dropAddress'')))"

text \<open>An amount that is not a whole number of paise is refused by the provider.\<close>

definition order_amount :: "json \<Rightarrow> rat option" where
  "order_amount v = (case v of JNum x \<Rightarrow> if 100 \<le> x then Some x else None | _ \<Rightarrow> None)"

definition paiseM :: "rat \<Rightarrow> (db, int) handler" where
  "paiseM x = (if x = of_int \<lfloor>x\<rfloor> then retM \<lfloor>x\<rfloor> else throwM (ApiError 502 ''Failed to create payment order with provider''))"

definition jor3 :: "json \<Rightarrow> string \<Rightarrow> string \<Rightarrow> string \<Rightarrow> json" where
  "jor3 b k1 k2 k3 = jor (jor (jget b k1) (jget b k2)) (jget b k3)"

fun payment_controller :: "world \<Rightarrow> api_env \<Rightarrow> payment_route \<Rightarrow> request \<Rightarrow> oid \<Rightarrow> json \<Rightarrow> (db, api_response) handler" where
  "payment_controller W A CreateOrderE rq usr b =
     (case order_amount (jget b ''amount'') of
        None \<Rightarrow> bad_request ''Invalid amount. Minimum amount is 100 paise.''
      | Some x \<Rightarrow>
          catch_status 500
            (bindM (paiseM x) (\<lambda>n.
             bindM (opt_textM (jget b ''currency'')) (\<lambda>cur.
             bindM (opt_textM (jget b ''receipt'')) (\<lambda>rc.
             answerM 200 [] DStandalone (createStandaloneOrder W n cur rc))))))"
| "payment_controller W A VerifyPaymentE rq usr b =
     (let order_id = jor3 b ''razorpay_order_id'' ''order_id'' ''orderId'';
          payment_id = jor3 b ''razorpay_payment_id'' ''payment_id'' ''paymentId'';
          signature = jor (jget b ''razorpay_signature'') (jget b ''signature'')
      in if \<not> truthy order_id \<or> \<not> truthy payment_id \<or> \<not> truthy signature
         then bad_request ''Missing required payment verification fields (order_id, payment_id, signature)''
         else catch_status 400
           (bindM (textM order_id) (\<lambda>o'.
            bindM (textM payment_id) (\<lambda>p.
            bindM (textM signature) (\<lambda>sg.
            answerM 200 ''Payment verified successfully'' DVerified (verifyStandalonePayment W o' p sg))))))"
| "payment_controller W A WebhookE rq usr b =
     answerM 200 ''Webhook processed'' DWebhook (handleWebhook W (ae_parse A) (rq_rawBody rq) (rq_signature rq))"
| "payment_controller W A TransactionsE rq usr b =
     answerM 200 ''Transactions fetched'' DTransactions (readM (getTransactions usr))"

fun pricing_controller :: "world \<Rightarrow> pricing_route \<Rightarrow> json \<Rightarrow> (db, api_response) handler" where
  "pricing_controller W EstimateE q =
     bindM (parseM W pricingEstimateQuerySchema q) (\<lambda>query.
     answerM 200 ''Pricing estimate fetched'' DEstimate (readM (estimatePricing W (decode_estimate query))))"
| "pricing_controller W GuidanceE q =
     bindM (parseM W carrierGuidanceQuerySchema q) (\<lambda>query.
     answerM 200 ''Carrier earning guidance fetched'' DGuidance
       (readM (estimateCarrierEarnings W (decode_guidance query))))"

fun internal_controller :: "world \<Rightarrow> internal_route \<Rightarrow> (db, api_response) handler" where
  "internal_controller W (MatchRequestI k) = answerM 202 [] (\<lambda>ms. DProcessed (length ms)) (findMatches W k)"
| "internal_controller W (MatchTripI k) =
     answerM 202 [] (\<lambda>ms. DProcessed (length ms)) (matchTripAgainstPendingRequests W k)"

text \<open>\<open>req.user!.id\<close>: behind \<open>requireAuth\<close> there always is a user.\<close>

definition user_id :: "auth_user option \<Rightarrow> oid" where
  "user_id u = (case u of None \<Rightarrow> [] | Some a \<Rightarrow> au_id a)"

fun controller :: "world \<Rightarrow> api_env \<Rightarrow> endpoint \<Rightarrow> request \<Rightarrow> auth_user option \<Rightarrow> json \<Rightarrow> (db, api_response) handler" where
  "controller W A (AuthRoute r) rq u b = auth_controller W r (user_id u) b"
| "controller W A (UserRoute r) rq u b = user_controller W r (user_id u) b"
| "controller W A (TripRoute r) rq u b = trip_controller W (ae_tz A) r (user_id u) b (rq_query rq)"
| "controller W A (DeliveryRoute r) rq u b = delivery_controller W r (user_id u) b"
| "controller W A (MatchRoute r) rq u b = match_controller W r (user_id u) b"
| "controller W A (PaymentRoute r) rq u b = payment_controller W A r rq (user_id u) b"
| "controller W A (PricingRoute r) rq u b = pricing_controller W r (rq_query rq)"
| "controller W A (InternalRoute r) rq u b = internal_controller W r"
| "controller W A WebhookPing rq u b = retM \<lparr> ap_status = 200, ap_message = ''Webhook route live'', ap_data = NoData \<rparr>"

section \<open>A request\<close>

definition failure :: "world \<Rightarrow> js_error \<Rightarrow> api_response" where
  "failure W e =
     (let r = errorHandler W e in \<lparr> ap_status = er_status r, ap_message = er_message r, ap_data = DFailure r \<rparr>)"

definition handle :: "world \<Rightarrow> api_env \<Rightarrow> endpoint \<Rightarrow> request \<Rightarrow> db \<Rightarrow> api_response \<times> db" where
  "handle W A ep rq s =
     (case run_guards W A (clock s) rq (route_guards ep) (None, sanitizeNoSql (rq_body rq)) of
        Inl e \<Rightarrow> (failure W e, s)
      | Inr (u, b) \<Rightarrow>
          (case controller W A ep rq u b s of
             (Inl e, s') \<Rightarrow> (failure W e, s')
           | (Inr r, s') \<Rightarrow> (r, s')))"

section \<open>What the middleware guarantees\<close>

lemma run_guards_member:
  "run_guards W A now rq gs ub = Inr ub' \<Longrightarrow> g \<in> set gs \<Longrightarrow> \<exists>ub1 ub2. run_guard W A now rq g ub1 = Inr ub2"
  by (induction gs arbitrary: ub) (auto split: sum.splits)

text \<open>A user in the request is always the one of the access token.\<close>

definition user_checked :: "world \<Rightarrow> int \<Rightarrow> request \<Rightarrow> auth_user option \<Rightarrow> bool" where
  "user_checked W now rq u = (case u of None \<Rightarrow> True | Some a \<Rightarrow> requireAuth W now (rq_authorization rq) = Inr a)"

lemma run_guard_checked:
  "run_guard W A now rq g ub = Inr ub' \<Longrightarrow> user_checked W now rq (fst ub) \<Longrightarrow> user_checked W now rq (fst ub')"
  by (cases g; cases ub) (auto simp: user_checked_def split: if_splits sum.splits option.splits)

lemma run_guard_keeps_user:
  "run_guard W A now rq g ub = Inr ub' \<Longrightarrow> fst ub \<noteq> None \<Longrightarrow> fst ub' \<noteq> None"
  by (cases g; cases ub) (auto split: if_splits sum.splits option.splits)

lemma run_guards_checked:
  "run_guards W A now rq gs ub = Inr ub' \<Longrightarrow> user_checked W now rq (fst ub) \<Longrightarrow> user_checked W now rq (fst ub')"
  by (induction gs arbitrary: ub) (auto split: sum.splits dest: run_guard_checked)

lemma run_guards_keep_user:
  "run_guards W A now rq gs ub = Inr ub' \<Longrightarrow> fst ub \<noteq> None \<Longrightarrow> fst ub' \<noteq> None"
  by (induction gs arbitrary: ub) (auto split: sum.splits dest!: run_guard_keeps_user)

lemma run_guards_auth:
  assumes "run_guards W A now rq gs ub = Inr ub'" "NeedAuth \<in> set gs" "user_checked W now rq (fst ub)"
  obtains a where "fst ub' = Some a" "requireAuth W now (rq_authorization rq) = Inr a"
proof -
  have "fst ub' \<noteq> None"
    using assms(1,2)
  proof (induction gs arbitrary: ub)
    case (Cons g gs)
    then obtain ub1 where g: "run_guard W A now rq g ub = Inr ub1" and gs: "run_guards W A now rq gs ub1 = Inr ub'"
      by (auto split: sum.splits)
    show ?case
    proof (cases "g = NeedAuth")
      case True
      with g have "fst ub1 \<noteq> None" by (cases ub) (auto split: sum.splits)
      with gs show ?thesis by (rule run_guards_keep_user)
    next
      case False
      with Cons gs show ?thesis by auto
    qed
  qed simp
  with run_guards_checked [OF assms(1,3)] that show ?thesis by (auto simp: user_checked_def)
qed

lemma run_guards_role:
  assumes "run_guards W A now rq gs ub = Inr ub'" "NeedRole r \<in> set gs" "user_checked W now rq (fst ub)"
  shows "\<exists>a. requireAuth W now (rq_authorization rq) = Inr a \<and> requireRole r (Some a) = None"
  using assms
proof (induction gs arbitrary: ub)
  case (Cons g gs)
  then obtain ub1 where g: "run_guard W A now rq g ub = Inr ub1" and gs: "run_guards W A now rq gs ub1 = Inr ub'"
    by (auto split: sum.splits)
  show ?case
  proof (cases "g = NeedRole r")
    case True
    with g have "requireRole r (fst ub) = None" by (cases ub) (auto split: option.splits)
    with Cons.prems(3) show ?thesis by (cases "fst ub") (auto simp: user_checked_def requireRole_def)
  next
    case False
    with Cons gs run_guard_checked [OF g] show ?thesis by auto
  qed
qed simp

lemma run_guards_append:
  "run_guards W A now rq (gs @ hs) ub =
     (case run_guards W A now rq gs ub of Inl e \<Rightarrow> Inl e | Inr ub' \<Rightarrow> run_guards W A now rq hs ub')"
  by (induction gs arbitrary: ub) (auto split: sum.splits)

lemma run_guards_body:
  assumes "run_guards W A now rq (gs @ [Body sch]) ub = Inr (u, b)"
  obtains b1 where "zparse W sch b1 = Some b"
proof -
  from assms obtain ub1 where "run_guard W A now rq (Body sch) ub1 = Inr (u, b)"
    by (auto simp: run_guards_append split: sum.splits)
  then have "\<exists>b1. zparse W sch b1 = Some b" by (cases ub1) (auto simp: validate_Inr split: sum.splits)
  with that show ?thesis by blast
qed

text \<open>The schemas on the routes are all well formed.\<close>

definition body_schema :: "endpoint \<Rightarrow> zschema option" where
  "body_schema ep =
     (case rev (route_guards ep) of Body sch # _ \<Rightarrow> Some sch | _ \<Rightarrow> None)"

lemma body_schema_guards: "body_schema ep = Some sch \<Longrightarrow> \<exists>gs. route_guards ep = gs @ [Body sch]"
  by (cases "route_guards ep" rule: rev_cases) (auto simp: body_schema_def split: guard.splits)

lemma body_schema_ok:
  assumes "body_schema ep = Some sch"
  shows "sch \<in> set all_schemas"
proof (cases ep)
  case (AuthRoute r)
  with assms show ?thesis by (cases r) (auto simp: body_schema_def all_schemas_def)
next
  case (UserRoute r)
  with assms show ?thesis by (cases r) (auto simp: body_schema_def all_schemas_def)
next
  case (TripRoute r)
  with assms show ?thesis by (cases r) (auto simp: body_schema_def all_schemas_def)
next
  case (DeliveryRoute r)
  with assms show ?thesis by (cases r) (auto simp: body_schema_def all_schemas_def)
next
  case (MatchRoute r)
  with assms show ?thesis by (cases r) (auto simp: body_schema_def all_schemas_def)
next
  case (PaymentRoute r)
  with assms show ?thesis by (cases r) (auto simp: body_schema_def all_schemas_def)
next
  case (PricingRoute r)
  with assms show ?thesis by (cases r) (auto simp: body_schema_def all_schemas_def)
next
  case (InternalRoute r)
  with assms show ?thesis by (cases r) (auto simp: body_schema_def all_schemas_def)
qed (use assms in \<open>simp_all add: body_schema_def\<close>)

lemma body_conforms:
  assumes "run_guards W A now rq (route_guards ep) ub = Inr (u, b)" "body_schema ep = Some sch"
  shows "conforms W sch b \<and> operator_free b \<and> zparse W sch b = Some b"
proof -
  obtain gs where "route_guards ep = gs @ [Body sch]" using body_schema_guards [OF assms(2)] by blast
  with assms(1) obtain b1 where z: "zparse W sch b1 = Some b" by (metis run_guards_body)
  have "schema_ok sch" using all_schemas_ok body_schema_ok [OF assms(2)] by (auto simp: list_all_iff)
  with z show ?thesis by (simp add: zparse_conforms(1) zparse_operator_free(1) zparse_idem(1))
qed

section \<open>Refusals\<close>

lemma refused_unchanged:
  "run_guards W A (clock s) rq (route_guards ep) (None, sanitizeNoSql (rq_body rq)) = Inl e \<Longrightarrow>
   handle W A ep rq s = (failure W e, s)"
  by (simp add: handle_def)

text \<open>Before the access token is checked, only a rate limiter can stop a request.\<close>

fun auth_first :: "guard list \<Rightarrow> bool" where
  "auth_first (NeedAuth # gs) = True"
| "auth_first (Limit l # gs) = auth_first gs"
| "auth_first _ = False"

lemma needs_auth_first:
  assumes "NeedAuth \<in> set (route_guards ep)"
  shows "auth_first (route_guards ep)"
proof (cases ep)
  case (AuthRoute r)
  with assms show ?thesis by (cases r) (auto)
next
  case (UserRoute r)
  with assms show ?thesis by (cases r) (auto)
next
  case (TripRoute r)
  with assms show ?thesis by (cases r) (auto)
next
  case (DeliveryRoute r)
  with assms show ?thesis by (cases r) (auto)
next
  case (MatchRoute r)
  with assms show ?thesis by (cases r) (auto)
next
  case (PaymentRoute r)
  with assms show ?thesis by (cases r) (auto)
next
  case (PricingRoute r)
  with assms show ?thesis by (cases r) (auto)
next
  case (InternalRoute r)
  with assms show ?thesis by (cases r) (auto)
qed (use assms in simp_all)

lemma auth_first_refused:
  assumes "auth_first gs" "requireAuth W now (rq_authorization rq) = Inl e"
  shows "run_guards W A now rq gs ub = Inl e \<or> run_guards W A now rq gs ub = Inl too_many"
  using assms(1)
proof (induction gs arbitrary: ub rule: auth_first.induct)
  case (1 gs)
  then show ?case using assms(2) by (cases ub) simp
next
  case (2 l gs)
  obtain u b where ub: "ub = (u, b)" by fastforce
  from 2 have "run_guards W A now rq gs (u, b) = Inl e \<or> run_guards W A now rq gs (u, b) = Inl too_many"
    by simp
  then show ?case by (auto simp: ub)
qed simp_all

lemma requireAuth_error: "requireAuth W now h = Inl e \<Longrightarrow> e = ApiError 401 ''Invalid or expired token''"
  by (auto simp: requireAuth_def split: option.splits)

lemma unauthenticated_refused:
  assumes "NeedAuth \<in> set (route_guards ep)" "requireAuth W (clock s) (rq_authorization rq) = Inl e"
  shows "snd (handle W A ep rq s) = s \<and> ap_status (fst (handle W A ep rq s)) \<in> {401, 429}"
proof -
  have "run_guards W A (clock s) rq (route_guards ep) ub = Inl e \<or>
        run_guards W A (clock s) rq (route_guards ep) ub = Inl too_many" for ub
    using auth_first_refused needs_auth_first assms by blast
  from this [of "(None, sanitizeNoSql (rq_body rq))"] requireAuth_error [OF assms(2)] show ?thesis
    by (auto simp: handle_def failure_def Let_def errorHandler_status(1) too_many_def)
qed

lemma role_refused:
  assumes "NeedRole r \<in> set (route_guards ep)"
    and "\<forall>a. requireAuth W (clock s) (rq_authorization rq) = Inr a \<longrightarrow> requireRole r (Some a) \<noteq> None"
  shows "snd (handle W A ep rq s) = s"
proof (cases "run_guards W A (clock s) rq (route_guards ep) (None, sanitizeNoSql (rq_body rq))")
  case (Inl e)
  then show ?thesis by (simp add: handle_def)
next
  case (Inr ub)
  with run_guards_role [OF Inr assms(1)] assms(2) show ?thesis by (auto simp: user_checked_def)
qed

lemma internal_refused:
  assumes "NeedInternal \<in> set (route_guards ep)" "rq_internalToken rq \<noteq> Some (INTERNAL_API_TOKEN W)"
  shows "snd (handle W A ep rq s) = s"
proof (cases "run_guards W A (clock s) rq (route_guards ep) (None, sanitizeNoSql (rq_body rq))")
  case (Inl e)
  then show ?thesis by (simp add: handle_def)
next
  case (Inr ub)
  from run_guards_member [OF this assms(1)] obtain ub1 ub2
    where "run_guard W A (clock s) rq NeedInternal ub1 = Inr ub2" by blast
  then show ?thesis using assms(2) internal_service_iff
    by (cases ub1) (auto split: option.splits)
qed

end
