(* ===== verification/Consumers.thy ===== *)
theory Consumers
  imports Api
begin

text \<open>
  The consumers of the event log, \<open>services/*/src/server.ts\<close>: the notification consumer, the
  matching orchestrator, the search indexer and the analytics pipeline, and the Kafka message that
  the outbox relay sends them.  Kafka delivers a message again when its handler throws.
  \<open>JSON.stringify\<close> followed by \<open>JSON.parse\<close> is \<open>wire\<close>; the text of a date is the parameter \<open>dt\<close>.
\<close>

section \<open>Kafka messages\<close>

text \<open>A value on the wire: undefined fields are dropped, undefined items are null, dates are texts.\<close>

fun wire :: "(int \<Rightarrow> string) \<Rightarrow> json \<Rightarrow> json" where
  "wire dt (JArr xs) = JArr (map (\<lambda>v. if v = JUndef then JNull else wire dt v) xs)"
| "wire dt (JObj kvs) = JObj (map (\<lambda>(k, v). (k, wire dt v)) (filter (\<lambda>(k, v). v \<noteq> JUndef) kvs))"
| "wire dt (JDate t) = JStr (dt t)"
| "wire dt v = v"

definition getKafkaTopicName :: "string \<Rightarrow> string \<Rightarrow> string" where
  "getKafkaTopicName prefix topic = (if prefix \<noteq> [] then prefix @ ''.'' @ topic else topic)"

definition kafka_value :: "oid \<times> outbox_event \<Rightarrow> json" where
  "kafka_value p =
     JObj [(''event_id'', JStr (fst p)), (''event_type'', JStr (o_eventType (snd p))),
           (''aggregate_type'', JStr (o_aggregateType (snd p))), (''aggregate_id'', JStr (o_aggregateId (snd p))),
           (''schema_version'', JNum 1), (''occurred_at'', JDate (o_createdAt (snd p))),
           (''payload'', o_payload (snd p))]"

text \<open>What a consumer reads from an event.\<close>

definition envelope_payload :: "json \<Rightarrow> json" where
  "envelope_payload envelope = jor (jget envelope ''payload'') (JObj [])"

lemma map_of_filtered:
  "distinct (map fst kvs) \<Longrightarrow> map_of (filter (\<lambda>(k, v). v \<noteq> JUndef) kvs) k =
     (case map_of kvs k of None \<Rightarrow> None | Some v \<Rightarrow> if v = JUndef then None else Some v)"
proof (induction kvs)
  case (Cons p kvs)
  obtain j v where p: "p = (j, v)" by fastforce
  have "map_of (filter (\<lambda>(k, v). v \<noteq> JUndef) kvs) j = None" if "v = JUndef"
    using Cons.prems by (auto simp: p map_of_eq_None_iff)
  with Cons show ?case by (auto simp: p map_of_eq_None_iff split: option.splits)
qed simp

lemma wire_jget:
  assumes "distinct (map fst kvs)"
  shows "jget (wire dt (JObj kvs)) k = wire dt (jget (JObj kvs) k)"
proof -
  have "map_of (map (\<lambda>(k, v). (k, wire dt v)) xs) k = map_option (wire dt) (map_of xs k)" for xs
    by (induction xs) auto
  with assms show ?thesis by (simp add: map_of_filtered split: option.splits)
qed

lemma wire_truthy: "(\<And>t. dt t \<noteq> []) \<Longrightarrow> truthy (wire dt v) = truthy v"
  by (cases v) simp_all

text \<open>The fields of an event as they arrive.\<close>

lemma kafka_fields:
  "jget (wire dt (kafka_value p)) ''event_type'' = JStr (o_eventType (snd p))"
  "jget (wire dt (kafka_value p)) ''aggregate_id'' = JStr (o_aggregateId (snd p))"
  "jget (wire dt (kafka_value p)) ''payload'' = wire dt (o_payload (snd p))"
  "jget (wire dt (kafka_value p)) ''occurred_at'' = JStr (dt (o_createdAt (snd p)))"
  by (simp_all add: kafka_value_def)

lemma kafka_payload:
  "o_payload (snd p) = JObj kvs \<Longrightarrow> envelope_payload (wire dt (kafka_value p)) = wire dt (JObj kvs)"
  by (simp add: envelope_payload_def kafka_fields jor_def)

text \<open>\<open>eachMessage\<close>: no text and no JSON are passed over; an error of the handler is thrown on.\<close>

datatype 'a consumed = NoText | ParseFailed | Handled 'a

definition eachMessage ::
  "(string \<Rightarrow> json option) \<Rightarrow> (json \<Rightarrow> (db, 'a) handler) \<Rightarrow> string option \<Rightarrow> (db, 'a consumed) handler" where
  "eachMessage parse handler raw =
     (if \<not> truthy_str raw then retM NoText
      else case parse (the raw) of
             None \<Rightarrow> retM ParseFailed
           | Some envelope \<Rightarrow> bindM (handler envelope) (\<lambda>x. retM (Handled x)))"

section \<open>The notification consumer\<close>

definition text_field :: "json \<Rightarrow> string option" where
  "text_field v = (case v of JStr t \<Rightarrow> if t = [] then None else Some t | _ \<Rightarrow> None)"

definition consumer_notification :: "json \<Rightarrow> int \<Rightarrow> notification option" where
  "consumer_notification payload now =
     (case (text_field (jget payload ''userId''), text_field (jget payload ''title''),
            text_field (jget payload ''body''), text_field (jget payload ''type'')) of
        (Some u, Some t, Some b, Some ty) \<Rightarrow>
          Some \<lparr> n_user = u, n_title = t, n_body = b, n_type = ty, n_read = False,
                 n_metadata = jor (jget payload ''metadata'') (JObj []), n_createdAt = now \<rparr>
      | _ \<Rightarrow> None)"

text \<open>
  The consumer's state is the database and the channel of realtime messages; \<open>redis_ok\<close> says
  whether Redis takes the next publication.  Creating a notification without user, title, body or
  type fails the validation of the schema.
\<close>

type_synonym channel = "json list"

definition publishRealtime :: "bool \<Rightarrow> json \<Rightarrow> channel \<Rightarrow> (js_error + unit) \<times> channel" where
  "publishRealtime redis_ok m ch = (if redis_ok then (Inr (), ch @ [m]) else (Inl (LibError ''Redis''), ch))"

definition handle_notification ::
  "world \<Rightarrow> (int \<Rightarrow> string) \<Rightarrow> string \<Rightarrow> bool \<Rightarrow> string \<Rightarrow> json \<Rightarrow> db \<times> channel \<Rightarrow> (js_error + unit) \<times> (db \<times> channel)" where
  "handle_notification W dt prefix redis_ok topic envelope st =
     (case st of (s, ch) \<Rightarrow>
        let payload = envelope_payload envelope
        in if topic = getKafkaTopicName prefix topic_notification then
             (case consumer_notification payload (clock s) of
                None \<Rightarrow> (Inl (LibError ''ValidationError''), (s, ch))
              | Some n \<Rightarrow>
                  let k = newId W (draws s);
                      (r, ch') = publishRealtime redis_ok
                        (JObj [(''target'', JObj [(''type'', JStr ''user''), (''id'', JStr (n_user n))]),
                               (''event'', JStr ''notification:new''),
                               (''payload'', wire dt (notification_json k n))]) ch
                  in (r, (next_draw (s\<lparr>notifications := notifications s @ [(k, n)]\<rparr>), ch')))
           else if topic = getKafkaTopicName prefix topic_realtime then
             (case publishRealtime redis_ok payload ch of (r, ch') \<Rightarrow> (r, (s, ch')))
           else (Inr (), (s, ch)))"

text \<open>What the service publishes itself when it does not go through Kafka.\<close>

definition rt_json :: "rt_message \<Rightarrow> json" where
  "rt_json m =
     JObj [(''target'', (case rt_target m of
               RtUser k \<Rightarrow> JObj [(''type'', JStr ''user''), (''id'', JStr k)]
             | RtMatch k \<Rightarrow> JObj [(''type'', JStr ''match''), (''id'', JStr k)]
             | RtTrip k \<Rightarrow> JObj [(''type'', JStr ''trip''), (''id'', JStr k)]
             | RtRoom r \<Rightarrow> JObj [(''type'', JStr ''room''), (''room'', JStr r)]
             | RtBroadcast \<Rightarrow> JObj [(''type'', JStr ''broadcast'')])),
           (''event'', JStr (rt_event m)), (''payload'', rt_payload m)]"

definition direct :: "world \<Rightarrow> world" where
  "direct W = W\<lparr>OUTBOX_RELAY_ENABLED := False\<rparr>"

lemma direct_sync [simp]: "\<not> shouldDispatchAsync (direct W)"
  by (simp add: shouldDispatchAsync_def direct_def)

lemma direct_newId [simp]: "newId (direct W) = newId W"
  by (simp add: direct_def)

lemma topic_names [simp]:
  "getKafkaTopicName prefix topic_realtime = getKafkaTopicName prefix topic_notification \<longleftrightarrow> False"
  "getKafkaTopicName prefix topic_notification = getKafkaTopicName prefix topic_realtime \<longleftrightarrow> False"
  by (simp_all add: getKafkaTopicName_def topic_realtime_def topic_notification_def)

text \<open>
  A realtime message arrives on the channel the same whether the service publishes it or sends it
  through the outbox, the relay and the consumer.
\<close>

lemma realtime_paths_agree:
  assumes "o_payload e = in_payload (realtime_event ''user'' usr ev payload)"
  shows "handle_notification W dt prefix True (getKafkaTopicName prefix topic_realtime)
       (wire dt (kafka_value (k, e))) (s, ch) =
     (Inr (), (s, ch @ [wire dt (rt_json (last (published (emitToUser (direct W) usr ev payload s))))]))"
proof -
  have "envelope_payload (wire dt (kafka_value (k, e))) = wire dt (in_payload (realtime_event ''user'' usr ev payload))"
    using assms by (simp add: realtime_event_def event_input_def kafka_payload)
  then show ?thesis
    by (simp add: handle_notification_def publishRealtime_def emitToUser_def publishRealtimeEvent_def rt_json_def
        realtime_event_def event_input_def)
qed

text \<open>The notification of the consumer is the one the service creates directly, with its metadata as sent.\<close>

lemma notification_paths_agree:
  assumes "o_payload e = in_payload (notify_event p)" "np_metadata p = Some (JObj m)"
    and "np_userId p \<noteq> []" "np_title p \<noteq> []" "np_body p \<noteq> []" "np_type p \<noteq> []"
  obtains n where
    "handle_notification W dt prefix True (getKafkaTopicName prefix topic_notification)
       (wire dt (kafka_value (k, e))) (s, ch) =
     (Inr (), (next_draw (s\<lparr>notifications := notifications s @ [(newId W (draws s), n)]\<rparr>),
       ch @ [wire dt (rt_json \<lparr> rt_target = RtUser (np_userId p), rt_event = ''notification:new'',
          rt_payload = notification_json (newId W (draws s)) n \<rparr>)]))"
    "snd (last (notifications (notifyUser (direct W) p s))) = n\<lparr>n_metadata := JObj m\<rparr>"
    "n_metadata n = wire dt (JObj m)"
proof -
  let ?n = "\<lparr> n_user = np_userId p, n_title = np_title p, n_body = np_body p, n_type = np_type p,
      n_read = False, n_metadata = wire dt (JObj m), n_createdAt = clock s \<rparr>"
  have "envelope_payload (wire dt (kafka_value (k, e))) = wire dt (in_payload (notify_event p))"
    using assms(1) by (simp add: notify_event_def event_input_def kafka_payload)
  then have "consumer_notification (envelope_payload (wire dt (kafka_value (k, e)))) (clock s) = Some ?n"
    using assms(2-) by (simp add: consumer_notification_def notify_event_def event_input_def text_field_def jor_def)
  then show thesis
    using assms(2) by (intro that [of ?n])
      (simp_all add: handle_notification_def publishRealtime_def rt_json_def notification_json_def notifyUser_def
        publishRealtimeEvent_def Let_def jopt_def)
qed

text \<open>When Redis refuses the message, Kafka sends the event again and the user is notified twice.\<close>

lemma redelivery_duplicates:
  assumes "consumer_notification (envelope_payload envelope) (clock s) = Some n"
  shows "\<exists>e s1 s2 ch2 k1 k2.
     handle_notification W dt prefix False (getKafkaTopicName prefix topic_notification) envelope (s, ch) = (Inl e, (s1, ch)) \<and>
     handle_notification W dt prefix True (getKafkaTopicName prefix topic_notification) envelope (s1, ch) = (Inr (), (s2, ch2)) \<and>
     notifications s2 = notifications s @ [(k1, n), (k2, n)]"
  using assms by (simp add: handle_notification_def publishRealtime_def Let_def)

section \<open>The matching orchestrator\<close>

datatype orchestration = TriggerDelivery string | TriggerTrip string | Skipped

definition flag_set :: "json \<Rightarrow> bool" where
  "flag_set payload \<longleftrightarrow>
     jget payload ''safetyDepositPaid'' = JBool True \<or> jget payload ''safety_deposit_paid'' = JBool True \<or>
     jget (jget payload ''updates'') ''safetyDepositPaid'' = JBool True \<or>
     jget (jget payload ''updates'') ''safety_deposit_paid'' = JBool True"

definition orchestrate :: "string \<Rightarrow> string \<Rightarrow> json \<Rightarrow> orchestration" where
  "orchestrate prefix topic envelope =
     (let payload = envelope_payload envelope;
          ty = jget envelope ''event_type'';
          requestId = jor (jget payload ''requestId'') (jget envelope ''aggregate_id'');
          tripId = jor (jget payload ''tripId'') (jget envelope ''aggregate_id'')
      in if topic = getKafkaTopicName prefix topic_delivery then
           (if \<not> truthy requestId \<or> jget payload ''status'' = JStr ''cancelled'' then Skipped
            else if ty \<in> {JStr ''DeliveryRequested'', JStr ''DeliveryUpdated''} then TriggerDelivery (js_text requestId)
            else Skipped)
         else if topic = getKafkaTopicName prefix topic_payment then
           (if ty = JStr ''DeliveryPaid'' \<and> truthy requestId then TriggerDelivery (js_text requestId) else Skipped)
         else if topic = getKafkaTopicName prefix topic_trip then
           (if \<not> truthy tripId \<or> jget payload ''status'' \<noteq> JStr ''active'' \<or> \<not> flag_set payload then Skipped
            else if ty \<in> {JStr ''TripPosted'', JStr ''TripUpdated''} then TriggerTrip (js_text tripId)
            else Skipped)
         else Skipped)"

text \<open>The call it makes: the internal routes of the service, with its own token.\<close>

definition triggerCoreApi :: "string \<Rightarrow> request" where
  "triggerCoreApi token =
     \<lparr> rq_authorization = None, rq_internalToken = Some token, rq_signature = None, rq_ip = None,
       rq_body = JObj [], rq_rawBody = ''{}'', rq_query = JObj [] \<rparr>"

fun trigger_endpoint :: "orchestration \<Rightarrow> endpoint option" where
  "trigger_endpoint (TriggerDelivery k) = Some (InternalRoute (MatchRequestI k))"
| "trigger_endpoint (TriggerTrip k) = Some (InternalRoute (MatchTripI k))"
| "trigger_endpoint Skipped = None"

lemma topic_name_inj [simp]: "getKafkaTopicName prefix a = getKafkaTopicName prefix b \<longleftrightarrow> a = b"
  by (simp add: getKafkaTopicName_def)

lemmas topic_defs = topic_trip_def topic_delivery_def topic_payment_def topic_match_def topic_realtime_def
  topic_notification_def

text \<open>What the events of the service trigger.\<close>

definition sent :: "(int \<Rightarrow> string) \<Rightarrow> outbox_input \<Rightarrow> oid \<Rightarrow> int \<Rightarrow> json" where
  "sent dt e k now = wire dt (kafka_value (k, pending_event now e))"

lemma orchestrate_event:
  assumes "in_payload e = JObj kvs" "distinct (map fst kvs)"
  shows "orchestrate prefix (getKafkaTopicName prefix topic) (sent dt e k now) =
     (let field = (\<lambda>f. wire dt (jget (JObj kvs) f)); agg = JStr (in_aggregateId e);
          requestId = jor (field ''requestId'') agg; tripId = jor (field ''tripId'') agg
      in if topic = topic_delivery then
           (if \<not> truthy requestId \<or> field ''status'' = JStr ''cancelled'' then Skipped
            else if in_eventType e \<in> {''DeliveryRequested'', ''DeliveryUpdated''} then TriggerDelivery (js_text requestId)
            else Skipped)
         else if topic = topic_payment then
           (if in_eventType e = ''DeliveryPaid'' \<and> truthy requestId then TriggerDelivery (js_text requestId) else Skipped)
         else if topic = topic_trip then
           (if \<not> truthy tripId \<or> field ''status'' \<noteq> JStr ''active'' \<or> \<not> flag_set (wire dt (JObj kvs)) then Skipped
            else if in_eventType e \<in> {''TripPosted'', ''TripUpdated''} then TriggerTrip (js_text tripId)
            else Skipped)
         else Skipped)"
proof -
  have "envelope_payload (sent dt e k now) = wire dt (JObj kvs)"
    using assms(1) by (simp add: sent_def kafka_payload pending_event_def)
  moreover have "jget (wire dt (JObj kvs)) f = wire dt (jget (JObj kvs) f)" for f
    by (rule wire_jget [OF assms(2)])
  moreover have "jget (sent dt e k now) ''event_type'' = JStr (in_eventType e)"
    "jget (sent dt e k now) ''aggregate_id'' = JStr (in_aggregateId e)"
    by (simp_all add: sent_def kafka_fields pending_event_def)
  ultimately show ?thesis by (simp add: orchestrate_def Let_def del: wire.simps jget.simps)
qed

text \<open>A request created through the service is searched for, a cancelled one is not.\<close>

lemma request_json_keys: "distinct (map fst (request_json rid r @ [(''totalCharge'', v)]))"
  "distinct (map fst (request_json rid r @ [(''updates'', v)]))" "distinct (map fst (request_json rid r))"
  by (simp_all add: request_json_def)

lemma orchestrate_created:
  assumes "rid \<noteq> []" "r_status r \<noteq> ReqCancelled"
  shows "orchestrate prefix (getKafkaTopicName prefix topic_delivery)
     (sent dt (event_input topic_delivery delivery_requested ''delivery_request'' rid
        (JObj (request_json rid r @ [(''totalCharge'', v)]))) k now) = TriggerDelivery rid"
proof -
  have "request_status_str (r_status r) \<noteq> ''cancelled''" using assms(2) by (cases "r_status r") simp_all
  then show ?thesis
    using assms(1) request_json_keys(1) [of rid r v]
    by (subst orchestrate_event [where kvs = "request_json rid r @ [(''totalCharge'', v)]"])
      (simp_all add: event_input_def request_json_def delivery_requested_def jor_def js_text_def topic_defs)
qed

lemma orchestrate_cancelled:
  assumes "r_status r = ReqCancelled"
  shows "orchestrate prefix (getKafkaTopicName prefix topic_delivery)
     (sent dt (event_input topic_delivery delivery_cancelled ''delivery_request'' rid
        (JObj (request_json rid r))) k now) = Skipped"
  using assms request_json_keys(3) [of rid r]
  by (subst orchestrate_event [where kvs = "request_json rid r"])
    (simp_all add: event_input_def request_json_def topic_defs)

text \<open>A proposal announces its request as updated, and the orchestrator searches for it again.\<close>

lemma orchestrate_proposal:
  assumes "rid \<noteq> []"
  shows "orchestrate prefix (getKafkaTopicName prefix topic_delivery)
     (sent dt (last (proposal_events mid tid t rid r q)) k now) = TriggerDelivery rid"
  using assms
  by (subst orchestrate_event [where kvs = "[(''requestId'', JStr rid), (''senderId'', JStr (r_sender r)),
         (''origin'', location_json (r_origin r)), (''destination'', location_json (r_destination r)),
         (''preferredDeliveryWindow'', window_json (r_window r)), (''package'', package_json (r_package r)),
         (''status'', JStr ''matched''), (''paymentStatus'', JStr (payment_status_str (r_paymentStatus r))),
         (''updates'', JObj [(''status'', JStr ''matched'')])]"])
    (simp_all add: proposal_events_def event_input_def delivery_updated_def jor_def js_text_def topic_defs)

text \<open>A trip is matched when its deposit is confirmed, provided it is active.\<close>

lemma orchestrate_deposit:
  assumes "tid \<noteq> []" "t_status t = TripActive"
  shows "orchestrate prefix (getKafkaTopicName prefix topic_trip)
     (sent dt (deposit_event tid usr t paymentId) k now) = TriggerTrip tid"
  using assms
  by (subst orchestrate_event [where kvs = "[(''tripId'', JStr tid), (''carrierId'', JStr usr),
         (''status'', JStr (trip_status_str (t_status t))), (''safetyDepositPaid'', JBool True),
         (''safetyDepositTransactionId'', JStr paymentId), (''updates'', JObj [(''safetyDepositPaid'', JBool True)])]"])
    (simp_all add: deposit_event_def event_input_def trip_updated_def jor_def js_text_def topic_defs flag_set_def)

lemma orchestrate_payment:
  assumes "rid \<noteq> []"
  shows "orchestrate prefix (getKafkaTopicName prefix topic_payment)
     (sent dt (paid_event rid usr charge orderId paymentId) k now) = TriggerDelivery rid"
  using assms
  by (subst orchestrate_event [where kvs = "[(''requestId'', JStr rid), (''userId'', JStr usr),
         (''paymentStatus'', JStr ''paid''), (''totalCharge'', JInt charge), (''razorpayOrderId'', JStr orderId),
         (''razorpayPaymentId'', JStr paymentId)]"])
    (simp_all add: paid_event_def event_input_def delivery_paid_def jor_def js_text_def topic_defs)

text \<open>The call is let in exactly when both sides have the same token; then it runs the search.\<close>

lemma trigger_accepted:
  assumes "trigger_endpoint o' = Some ep"
  shows "snd (handle W E ep (triggerCoreApi (INTERNAL_API_TOKEN W)) s) =
     snd (controller W E ep (triggerCoreApi (INTERNAL_API_TOKEN W)) None (JObj []) s)"
proof -
  have "requireInternalService W (Some (INTERNAL_API_TOKEN W)) = None" by (simp add: internal_service_iff)
  with assms show ?thesis
    by (cases o') (auto simp: handle_def triggerCoreApi_def split: sum.splits prod.splits)
qed

lemma trigger_refused:
  assumes "trigger_endpoint o' = Some ep" "token \<noteq> INTERNAL_API_TOKEN W"
  shows "snd (handle W E ep (triggerCoreApi token) s) = s"
  using assms
  by (cases o') (auto intro!: internal_refused simp: triggerCoreApi_def)

section \<open>The search indexer\<close>

definition or_null :: "json \<Rightarrow> json" where
  "or_null v = jor v JNull"

definition trip_upsert :: "json \<Rightarrow> string \<times> json" where
  "trip_upsert envelope =
     (let payload = envelope_payload envelope
      in (''/internal/v1/index/trip-upsert'', JObj
           [(''trip_id'', jor (jget payload ''tripId'') (jget envelope ''aggregate_id'')),
            (''carrier_id'', jget payload ''carrierId''), (''origin'', jget payload ''origin''),
            (''destination'', jget payload ''destination''), (''departure_time'', jget payload ''departureTime''),
            (''price_per_kg'', jget payload ''pricePerKg''),
            (''available_capacity'', jget payload ''availableCapacity''), (''status'', jget payload ''status''),
            (''safety_deposit_paid'', jget payload ''safetyDepositPaid''),
            (''event_type'', jget envelope ''event_type''), (''occurred_at'', jget envelope ''occurred_at'')]))"

definition location_upsert :: "json \<Rightarrow> json \<Rightarrow> string \<Rightarrow> string \<times> json" where
  "location_upsert envelope requestId role =
     (let place = jget (envelope_payload envelope) role
      in (''/internal/v1/index/location-upsert'', JObj
           [(''location_id'', JStr (js_text requestId @ '':'' @ role)), (''entity_id'', requestId),
            (''entity_kind'', JStr ''delivery_request''), (''role'', JStr role), (''city'', jget place ''city''),
            (''place_id'', or_null (jor (jget place ''placeId'') (jget place ''place_id''))),
            (''latitude'', or_null (jget place ''latitude'')), (''longitude'', or_null (jget place ''longitude'')),
            (''event_type'', jget envelope ''event_type''), (''occurred_at'', jget envelope ''occurred_at'')]))"

definition delivery_upsert :: "json \<Rightarrow> json \<Rightarrow> string \<times> json" where
  "delivery_upsert envelope requestId =
     (let payload = envelope_payload envelope
      in (''/internal/v1/index/delivery-request-upsert'', JObj
           [(''delivery_request_id'', requestId),
            (''sender_id'', jor (jget payload ''senderId'') (jget payload ''userId'')),
            (''origin'', jget payload ''origin''), (''destination'', jget payload ''destination''),
            (''pickup_window'', jor (jget payload ''pickupWindow'') (jget payload ''preferredDeliveryWindow'')),
            (''package'', jget payload ''package''), (''status'', jget payload ''status''),
            (''payment_status'', jget payload ''paymentStatus''), (''total_charge'', jget payload ''totalCharge''),
            (''event_type'', jget envelope ''event_type''), (''occurred_at'', jget envelope ''occurred_at'')]))"

definition handleDeliveryLifecycle :: "json \<Rightarrow> (string \<times> json) list" where
  "handleDeliveryLifecycle envelope =
     (let payload = envelope_payload envelope;
          requestId = jor (jget payload ''requestId'') (jget envelope ''aggregate_id'')
      in [delivery_upsert envelope requestId] @
         (if truthy (jget (jget payload ''origin'') ''city'') then [location_upsert envelope requestId ''origin''] else []) @
         (if truthy (jget (jget payload ''destination'') ''city'') then [location_upsert envelope requestId ''destination'']
          else []))"

definition handlePaymentLifecycle :: "json \<Rightarrow> (string \<times> json) list" where
  "handlePaymentLifecycle envelope =
     (let payload = envelope_payload envelope
      in if jget envelope ''event_type'' \<noteq> JStr ''DeliveryPaid'' then []
         else [(''/internal/v1/index/delivery-request-upsert'', JObj
           [(''delivery_request_id'', jor (jget payload ''requestId'') (jget envelope ''aggregate_id'')),
            (''sender_id'', jget payload ''userId''), (''payment_status'', jget payload ''paymentStatus''),
            (''total_charge'', jget payload ''totalCharge''), (''event_type'', jget envelope ''event_type''),
            (''occurred_at'', jget envelope ''occurred_at'')])])"

text \<open>The writes of one event to the routing-search service.\<close>

definition index_writes :: "string \<Rightarrow> string \<Rightarrow> json \<Rightarrow> (string \<times> json) list" where
  "index_writes prefix topic envelope =
     (if topic = getKafkaTopicName prefix topic_trip then [trip_upsert envelope]
      else if topic = getKafkaTopicName prefix topic_delivery then handleDeliveryLifecycle envelope
      else if topic = getKafkaTopicName prefix topic_payment then handlePaymentLifecycle envelope
      else [])"

text \<open>
  A place of the data model has its coordinates in \<open>coordinates.coordinates\<close>; the indexer reads
  \<open>latitude\<close> and \<open>longitude\<close>, so no coordinates of a request ever reach the index.
\<close>

lemma indexed_without_coordinates:
  assumes "envelope_payload envelope = wire dt (JObj kvs)" "distinct (map fst kvs)"
    and "jget (JObj kvs) ''origin'' = location_json a" "jget (JObj kvs) ''destination'' = location_json b"
    and "(path, JObj fs) \<in> set (handleDeliveryLifecycle envelope)" "path = ''/internal/v1/index/location-upsert''"
  shows "map_of fs ''latitude'' = Some JNull \<and> map_of fs ''longitude'' = Some JNull"
proof -
  have place: "jget (wire dt (location_json l)) ''latitude'' = JUndef" "jget (wire dt (location_json l)) ''longitude'' = JUndef"
    for l by (simp_all add: location_json_def jopt_def split: option.splits)
  have "jget (envelope_payload envelope) ''origin'' = wire dt (location_json a)"
    "jget (envelope_payload envelope) ''destination'' = wire dt (location_json b)"
    using wire_jget [OF assms(2)] assms(1,3,4) by metis+
  with assms(5,6) place show ?thesis
    by (auto simp: handleDeliveryLifecycle_def delivery_upsert_def location_upsert_def Let_def or_null_def jor_def
        split: if_splits)
qed

section \<open>The analytics pipeline\<close>

text \<open>The conversion steps one event counts.\<close>

definition recordDerivedConversion :: "string \<Rightarrow> json \<Rightarrow> (string \<times> string) list" where
  "recordDerivedConversion ty payload =
     (if ty = ''DeliveryRequested'' then [(''sender_activation'', ''delivery_requested'')] else []) @
     (if ty = ''DeliveryPaid'' then [(''sender_activation'', ''payment_completed'')] else []) @
     (if ty = ''MatchProposed'' then [(''marketplace'', ''match_proposed'')] else []) @
     (if ty = ''CarrierAccepted'' then [(''marketplace'', ''carrier_accepted'')] else []) @
     (if ty = ''SenderConfirmed'' then [(''marketplace'', ''sender_confirmed'')] else []) @
     (if ty = ''DeliveryCompleted'' \<or> ty = ''PayoutCompleted'' then [(''sender_activation'', ''delivery_completed'')] else []) @
     (if ty = ''TripPosted'' then [(''carrier_activation'', ''trip_posted'')] else []) @
     (if ty = ''TripUpdated'' \<and> flag_set payload then [(''carrier_activation'', ''deposit_locked'')] else [])"

lemma one_conversion: "length (recordDerivedConversion ty payload) \<le> 1"
  by (auto simp: recordDerivedConversion_def)

text \<open>The deposit of a trip is counted when it is confirmed, and again at every later edit of the trip.\<close>

lemma deposit_counted_again:
  assumes "t_safetyDepositPaid t"
  shows "recordDerivedConversion ''TripUpdated'' (wire dt (JObj (trip_json tid usr t @ [(''updates'', body)]))) =
     [(''carrier_activation'', ''deposit_locked'')]"
proof -
  have "distinct (map fst (trip_json tid usr t @ [(''updates'', body)]))" by (simp add: trip_json_def)
  from wire_jget [OF this, of dt "''safetyDepositPaid''"]
  have "jget (wire dt (JObj (trip_json tid usr t @ [(''updates'', body)]))) ''safetyDepositPaid'' = JBool True"
    using assms by (simp add: trip_json_def del: wire.simps(2))
  then show ?thesis by (simp add: recordDerivedConversion_def flag_set_def del: wire.simps(2))
qed

section \<open>Probes\<close>

text \<open>The status of each consumer's HTTP server: the first for those whose readiness is one flag.\<close>

definition probe :: "bool \<Rightarrow> string \<Rightarrow> int" where
  "probe ready url =
     (if url = ''/health'' then 200 else if url = ''/ready'' then (if ready then 200 else 503)
      else if url = ''/metrics'' then 200 else 404)"

definition notification_probe :: "bool \<Rightarrow> bool \<Rightarrow> bool \<Rightarrow> string \<Rightarrow> int" where
  "notification_probe ready mongoReady redisReady url = probe (ready \<and> mongoReady \<and> redisReady) url"

lemma ready_needs_dependencies:
  "notification_probe ready mongoReady redisReady ''/ready'' = 200 \<longleftrightarrow> ready \<and> mongoReady \<and> redisReady"
  by (simp add: notification_probe_def probe_def)

end
