(* ===== verification/Backbone.thy ===== *)
theory Backbone
  imports Redis "HOL-Library.Multiset"
begin

text \<open>
  The connections of the process: how \<open>config/redis.ts\<close> chooses its clients and queues, the \<open>scan\<close> of
  the in-memory client, and the producer of \<open>services/kafka.service.ts\<close>, which is shared by every
  caller and connected on the first use.
\<close>

section \<open>Clients and queues\<close>

record redis_settings =
  rs_url :: "string option"
  rs_cacheUrl :: "string option"
  rs_queueUrl :: "string option"
  rs_nodeEnv :: string
  rs_vercel :: "string option"
  rs_lambda :: "string option"

definition cacheUrl :: "redis_settings \<Rightarrow> string" where
  "cacheUrl S = str_or (rs_cacheUrl S) (str_or (rs_url S) ''redis://localhost:6379'')"

definition queueUrl :: "redis_settings \<Rightarrow> string" where
  "queueUrl S = str_or (rs_queueUrl S) (str_or (rs_url S) ''redis://localhost:6379'')"

definition isTestEnv :: "redis_settings \<Rightarrow> bool" where
  "isTestEnv S = (rs_nodeEnv S = ''test'')"

definition isServerless :: "redis_settings \<Rightarrow> bool" where
  "isServerless S = (rs_vercel S = Some ''1'' \<or> truthy_str (rs_lambda S) \<or> \<not> truthy_str (rs_url S))"

definition retryStrategy :: "int \<Rightarrow> int option" where
  "retryStrategy n = (if n > 3 then None else Some (min (n * 100) 2000))"

text \<open>\<open>constructs\<close> says whether the constructor of the library takes the argument.\<close>

datatype redis_client = MockClient | IoRedis string bool

definition createRedisClient :: "(string \<Rightarrow> bool) \<Rightarrow> redis_settings \<Rightarrow> string \<Rightarrow> bool \<Rightarrow> redis_client" where
  "createRedisClient constructs S url readyCheck =
     (if isTestEnv S \<or> isServerless S then MockClient
      else if constructs url then IoRedis url readyCheck else MockClient)"

definition cacheRedis :: "(string \<Rightarrow> bool) \<Rightarrow> redis_settings \<Rightarrow> redis_client" where
  "cacheRedis constructs S = createRedisClient constructs S (cacheUrl S) True"

definition queueConnection :: "(string \<Rightarrow> bool) \<Rightarrow> redis_settings \<Rightarrow> redis_client" where
  "queueConnection constructs S = createRedisClient constructs S (queueUrl S) False"

datatype job_queue = MockQueue | BullQueue string redis_client

definition createQueue :: "(string \<Rightarrow> bool) \<Rightarrow> (string \<Rightarrow> bool) \<Rightarrow> redis_settings \<Rightarrow> string \<Rightarrow> job_queue" where
  "createQueue constructs queues S name =
     (if isTestEnv S \<or> isServerless S then MockQueue
      else if queues name then BullQueue name (queueConnection constructs S) else MockQueue)"

definition queue_names :: "string list" where
  "queue_names = [''matchQueue'', ''otpCleanupQueue'', ''payoutQueue'', ''reminderQueue'', ''slaRematchQueue'',
     ''paymentReconcilerQueue'']"

text \<open>\<open>add\<close>: the answer's id, and the jobs that are waiting for a worker.\<close>

fun queue_add :: "job_queue \<Rightarrow> string \<Rightarrow> 'job \<Rightarrow> 'job list \<Rightarrow> string \<times> 'job list" where
  "queue_add MockQueue i job waiting = (''mock-job'', waiting)"
| "queue_add (BullQueue name c) i job waiting = (i, waiting @ [job])"

section \<open>The scan of the in-memory client\<close>

text \<open>
  A pattern becomes a regular expression with \<open>*\<close> as \<open>.*\<close> and everything else as it stands.  Of a
  pattern without the other special characters, \<open>glob_match\<close> is what the expression matches; of the
  rest, \<open>rx\<close> (\<open>.\<close> does not match the ends of lines).
\<close>

definition line_end :: "char \<Rightarrow> bool" where
  "line_end c = (c = CHR 0x0A \<or> c = CHR 0x0D)"

function glob_match :: "string \<Rightarrow> string \<Rightarrow> bool" where
  "glob_match [] s = (s = [])"
| "glob_match (p # ps) s =
     (if p = CHR ''*''
      then glob_match ps s \<or> (case s of [] \<Rightarrow> False | c # cs \<Rightarrow> \<not> line_end c \<and> glob_match (p # ps) cs)
      else (case s of [] \<Rightarrow> False | c # cs \<Rightarrow> c = p \<and> glob_match ps cs))"
  by pat_completeness auto
termination by (relation "measure (\<lambda>(p, s). length p + length s)") auto

definition plain_pattern :: "string \<Rightarrow> bool" where
  "plain_pattern p = list_all (\<lambda>c. c \<notin> set (''.+?^${}()|[]'' @ [CHR 0x5C])) p"

datatype scan_arg = ScanText string | ScanCount int

definition scan_pattern :: "scan_arg list \<Rightarrow> string" where
  "scan_pattern args =
     (case dropWhile (\<lambda>a. case a of ScanText t \<Rightarrow> toUpperCase t \<noteq> ''MATCH'' | ScanCount n \<Rightarrow> True) args of
        [] \<Rightarrow> (case args of ScanText t # _ \<Rightarrow> t | _ \<Rightarrow> ''*'')
      | _ # ScanText t # _ \<Rightarrow> t
      | _ \<Rightarrow> ''*'')"

definition mock_scan :: "(string \<Rightarrow> string \<Rightarrow> bool) \<Rightarrow> scan_arg list \<Rightarrow> mock_redis \<Rightarrow> string \<times> string list" where
  "mock_scan rx args st =
     (let p = scan_pattern args
      in (''0'', filter (\<lambda>k. if plain_pattern p then glob_match p k else rx p k) (map fst st)))"

definition otp_scan :: "scan_arg list" where
  "otp_scan = [ScanText ''MATCH'', ScanText ''otp:*'', ScanText ''COUNT'', ScanCount 100]"

section \<open>The producer of Kafka\<close>

text \<open>
  \<open>kp_links\<close> has every connection that was begun, \<open>kp_producer\<close> and \<open>kp_promise\<close> are the two variables
  of the module, \<open>kp_closing\<close> the connection whose \<open>disconnect\<close> is awaited, \<open>kp_waiting\<close> the messages
  whose caller waits for the promise of a connection.
\<close>

datatype kafka_link = Connecting | Connected | LinkRefused | LinkClosed

record 'm kafka_producer =
  kp_producer :: "nat option"
  kp_promise :: "nat option"
  kp_links :: "kafka_link list"
  kp_waiting :: "(nat \<times> 'm) list"
  kp_sent :: "(nat \<times> 'm) list"
  kp_failed :: "'m list"
  kp_closing :: "nat option"

definition kafka_start :: "'m kafka_producer" where
  "kafka_start = \<lparr> kp_producer = None, kp_promise = None, kp_links = [], kp_waiting = [], kp_sent = [], kp_failed = [], kp_closing = None \<rparr>"

definition getKafkaProducer :: "'m \<Rightarrow> 'm kafka_producer \<Rightarrow> 'm kafka_producer" where
  "getKafkaProducer m k =
     (case kp_producer k of
        Some i \<Rightarrow> k\<lparr>kp_sent := kp_sent k @ [(i, m)]\<rparr>
      | None \<Rightarrow>
          (case kp_promise k of
             Some i \<Rightarrow>
               (case kp_links k ! i of
                  Connecting \<Rightarrow> k\<lparr>kp_waiting := kp_waiting k @ [(i, m)]\<rparr>
                | LinkRefused \<Rightarrow> k\<lparr>kp_failed := kp_failed k @ [m]\<rparr>
                | _ \<Rightarrow> k\<lparr>kp_sent := kp_sent k @ [(i, m)]\<rparr>)
           | None \<Rightarrow>
               k\<lparr>kp_promise := Some (length (kp_links k)), kp_links := kp_links k @ [Connecting],
                 kp_waiting := kp_waiting k @ [(length (kp_links k), m)]\<rparr>))"

definition publishKafkaMessage :: "bool \<Rightarrow> 'm \<Rightarrow> 'm kafka_producer \<Rightarrow> 'm kafka_producer" where
  "publishKafkaMessage configured m k =
     (if configured then getKafkaProducer m k else k\<lparr>kp_failed := kp_failed k @ [m]\<rparr>)"

definition connection_up :: "nat \<Rightarrow> 'm kafka_producer \<Rightarrow> 'm kafka_producer" where
  "connection_up i k =
     k\<lparr>kp_links := (kp_links k)[i := Connected], kp_producer := Some i,
       kp_sent := kp_sent k @ filter (\<lambda>(j, m). j = i) (kp_waiting k),
       kp_waiting := filter (\<lambda>(j, m). j \<noteq> i) (kp_waiting k)\<rparr>"

definition connection_refused :: "nat \<Rightarrow> 'm kafka_producer \<Rightarrow> 'm kafka_producer" where
  "connection_refused i k =
     k\<lparr>kp_links := (kp_links k)[i := LinkRefused], kp_promise := None,
       kp_failed := kp_failed k @ map snd (filter (\<lambda>(j, m). j = i) (kp_waiting k)),
       kp_waiting := filter (\<lambda>(j, m). j \<noteq> i) (kp_waiting k)\<rparr>"

definition disconnectKafkaProducer :: "'m kafka_producer \<Rightarrow> 'm kafka_producer" where
  "disconnectKafkaProducer k =
     (case kp_producer k of
        None \<Rightarrow> k\<lparr>kp_promise := None\<rparr>
      | Some i \<Rightarrow> k\<lparr>kp_closing := Some i\<rparr>)"

definition disconnected :: "nat \<Rightarrow> 'm kafka_producer \<Rightarrow> 'm kafka_producer" where
  "disconnected i k =
     k\<lparr>kp_links := (kp_links k)[i := LinkClosed], kp_producer := None, kp_promise := None, kp_closing := None\<rparr>"

datatype 'm kafka_event = Publish 'm | Answered nat bool | Disconnect | DisconnectAnswered

text \<open>An answer is that of a connection under way.\<close>

fun kafka_step :: "bool \<Rightarrow> 'm kafka_event \<Rightarrow> 'm kafka_producer \<Rightarrow> 'm kafka_producer" where
  "kafka_step configured (Publish m) k = publishKafkaMessage configured m k"
| "kafka_step configured (Answered i ok) k =
     (if i < length (kp_links k) \<and> kp_links k ! i = Connecting
      then if ok then connection_up i k else connection_refused i k else k)"
| "kafka_step configured Disconnect k = disconnectKafkaProducer k"
| "kafka_step configured DisconnectAnswered k = (case kp_closing k of None \<Rightarrow> k | Some i \<Rightarrow> disconnected i k)"

section \<open>Which clients there are\<close>

text \<open>Without \<open>REDIS_URL\<close> everything is in memory, even when the urls of the cache and of the queues are given.\<close>

lemma no_url_no_redis:
  assumes "\<not> truthy_str (rs_url S)"
  shows "cacheRedis constructs S = MockClient" "queueConnection constructs S = MockClient"
    "createQueue constructs queues S name = MockQueue"
  using assms by (simp_all add: cacheRedis_def queueConnection_def createRedisClient_def createQueue_def isServerless_def)

text \<open>A queue is real exactly when the connection it is given is allowed to be.\<close>

lemma queue_has_connection:
  assumes "\<forall>u. constructs u" and "queues name"
  shows "createQueue constructs queues S name =
    (case queueConnection constructs S of MockClient \<Rightarrow> MockQueue | c \<Rightarrow> BullQueue name c)"
  using assms by (simp add: createQueue_def queueConnection_def createRedisClient_def)

text \<open>What is added to a queue in memory is answered with an id and is never waiting for a worker.\<close>

lemma mock_jobs_lost: "fold (\<lambda>(i, j) w. snd (queue_add MockQueue i j w)) js waiting = waiting"
  by (induction js arbitrary: waiting) auto

lemma real_jobs_wait: "fold (\<lambda>(i, j) w. snd (queue_add (BullQueue n c) i j w)) js waiting = waiting @ map snd js"
  by (induction js arbitrary: waiting) auto

lemma retries_end: "retryStrategy n = None \<longleftrightarrow> 3 < n"
  by (simp add: retryStrategy_def)

lemma retries_grow: "0 < m \<Longrightarrow> m \<le> n \<Longrightarrow> retryStrategy n = Some d \<Longrightarrow> \<exists>e. retryStrategy m = Some e \<and> e \<le> d"
  by (auto simp: retryStrategy_def split: if_splits)

section \<open>What a scan finds\<close>

declare glob_match.simps [simp del]

lemma glob_nil [simp]: "glob_match [] s \<longleftrightarrow> s = []"
  by (simp add: glob_match.simps)

lemma glob_char: "p \<noteq> CHR ''*'' \<Longrightarrow> glob_match (p # ps) s \<longleftrightarrow> (\<exists>cs. s = p # cs \<and> glob_match ps cs)"
  by (cases s) (simp_all add: glob_match.simps)

lemma glob_any [simp]:
  "glob_match (CHR ''*'' # ps) [] \<longleftrightarrow> glob_match ps []"
  "glob_match (CHR ''*'' # ps) (c # cs) \<longleftrightarrow> glob_match ps (c # cs) \<or> (\<not> line_end c \<and> glob_match (CHR ''*'' # ps) cs)"
  by (subst glob_match.simps, simp)+

lemma glob_literal: "CHR ''*'' \<notin> set p \<Longrightarrow> glob_match (p @ q) s \<longleftrightarrow> (\<exists>r. s = p @ r \<and> glob_match q r)"
  by (induction p arbitrary: s) (auto simp: glob_char)

lemma glob_star: "glob_match ''*'' s \<longleftrightarrow> list_all (\<lambda>c. \<not> line_end c) s"
  by (induction s) simp_all

lemma glob_prefix:
  "CHR ''*'' \<notin> set p \<Longrightarrow> glob_match (p @ ''*'') s \<longleftrightarrow> (\<exists>r. s = p @ r \<and> list_all (\<lambda>c. \<not> line_end c) r)"
  by (simp add: glob_literal glob_star)

lemma upper_option: "toUpperCase ''MATCH'' = ''MATCH''" "toUpperCase ''COUNT'' = ''COUNT''"
  by code_simp+

lemma scan_patterns: "scan_pattern otp_scan = ''otp:*''" "scan_pattern [ScanText ''COUNT'', ScanCount n] = ''COUNT''"
  by (simp_all add: scan_pattern_def otp_scan_def upper_option)

lemma plain_patterns: "plain_pattern ''otp:*''" "plain_pattern ''COUNT''"
  by code_simp+

lemma otp_scan_keys:
  "mock_scan rx otp_scan st =
     (''0'', filter (\<lambda>k. \<exists>r. k = ''otp:'' @ r \<and> list_all (\<lambda>c. \<not> line_end c) r) (map fst st))"
proof -
  have "glob_match ''otp:*'' k \<longleftrightarrow> (\<exists>r. k = ''otp:'' @ r \<and> list_all (\<lambda>c. \<not> line_end c) r)" for k
  proof -
    have "''otp:*'' = ''otp:'' @ ''*''" "CHR ''*'' \<notin> set ''otp:''" by simp_all
    then show ?thesis by (metis glob_prefix)
  qed
  then show ?thesis by (simp only: mock_scan_def scan_patterns plain_patterns Let_def if_True)
qed

text \<open>
  The in-memory client knows no expiry: the \<open>ttl\<close> of every key it finds is -1, so the audit counts every
  one-time password as expired, also the one sent a second ago.
\<close>

lemma mock_audit_counts_all:
  "filter (\<lambda>k. mock_ttl k st < 0) (snd (mock_scan rx args st)) = snd (mock_scan rx args st)"
  by (intro filter_True) (simp add: mock_ttl_def)

text \<open>Without MATCH the first option is taken for the pattern.\<close>

lemma scan_without_match: "set (snd (mock_scan rx [ScanText ''COUNT'', ScanCount n] st)) \<subseteq> {''COUNT''}"
proof -
  have "CHR ''*'' \<notin> set ''COUNT''" by simp
  then have "glob_match ''COUNT'' k \<longleftrightarrow> k = ''COUNT''" for k
    using glob_literal [of "''COUNT''" "[]" k] by auto
  then show ?thesis by (auto simp only: mock_scan_def scan_patterns plain_patterns Let_def if_True snd_conv set_filter)
qed

section \<open>Messages and connections\<close>

text \<open>Every message is sent once, refused once or waiting, whatever the order of the events.\<close>

definition accounted :: "'m kafka_producer \<Rightarrow> 'm multiset" where
  "accounted k = mset (map snd (kp_sent k)) + mset (kp_failed k) + mset (map snd (kp_waiting k))"

fun message_of :: "'m kafka_event \<Rightarrow> 'm multiset" where
  "message_of (Publish m) = {#m#}"
| "message_of _ = {#}"

lemma split_waiting:
  "mset (map snd (filter (\<lambda>(j, m). j = i) ws)) + mset (map snd (filter (\<lambda>(j, m). j \<noteq> i) ws)) = mset (map snd ws)"
  by (induction ws) (auto split: prod.splits)

lemma step_accounted: "accounted (kafka_step configured e k) = accounted k + message_of e"
proof (cases e)
  case (Answered i ok)
  then show ?thesis using split_waiting [of i "kp_waiting k"]
    by (simp add: accounted_def connection_up_def connection_refused_def add.assoc)
qed (auto simp: accounted_def publishKafkaMessage_def getKafkaProducer_def disconnectKafkaProducer_def disconnected_def
  split: option.splits kafka_link.splits)

lemma messages_conserved:
  "accounted (fold (kafka_step configured) es kafka_start) = sum_list (map message_of es)"
proof -
  have "accounted (fold (kafka_step configured) es k) = accounted k + sum_list (map message_of es)" for k
    by (induction es arbitrary: k) (simp_all add: step_accounted)
  then show ?thesis by (simp add: accounted_def kafka_start_def)
qed

text \<open>Without brokers every message is refused.\<close>

lemma unconfigured_refuses:
  "kp_failed (fold (kafka_step False) (map Publish ms) k) = kp_failed k @ ms"
  by (induction ms arbitrary: k) (simp_all add: publishKafkaMessage_def)

text \<open>As long as nobody disconnects, there is one connection at a time and everybody waits for it.\<close>

definition open_link :: "'m kafka_producer \<Rightarrow> nat \<Rightarrow> bool" where
  "open_link k i = (i < length (kp_links k) \<and> (kp_links k ! i = Connecting \<or> kp_links k ! i = Connected))"

definition single_link :: "'m kafka_producer \<Rightarrow> bool" where
  "single_link k \<longleftrightarrow>
     kp_closing k = None \<and>
     (\<forall>i. open_link k i \<longleftrightarrow> kp_promise k = Some i) \<and>
     (\<forall>i. kp_producer k = Some i \<longleftrightarrow> i < length (kp_links k) \<and> kp_links k ! i = Connected) \<and>
     (\<forall>(i, m) \<in> set (kp_waiting k). i < length (kp_links k) \<and> kp_links k ! i = Connecting)"

lemma start_single: "single_link kafka_start"
  by (simp add: single_link_def kafka_start_def open_link_def)

lemma publish_single:
  assumes "single_link k" shows "single_link (publishKafkaMessage configured m k)"
proof (cases "configured \<and> kp_producer k = None \<and> kp_promise k = None")
  case True
  let ?n = "length (kp_links k)"
  have k': "publishKafkaMessage configured m k =
      k\<lparr>kp_promise := Some ?n, kp_links := kp_links k @ [Connecting], kp_waiting := kp_waiting k @ [(?n, m)]\<rparr>"
    using True by (simp add: publishKafkaMessage_def getKafkaProducer_def)
  show ?thesis using assms True unfolding k' single_link_def open_link_def
    by (auto simp: nth_append less_Suc_eq split: if_splits)
next
  case False
  show ?thesis
  proof (cases "configured \<and> kp_producer k = None")
    case True
    with False obtain i where i: "kp_promise k = Some i" by auto
    with assms have "open_link k i" by (simp add: single_link_def)
    moreover have "kp_links k ! i \<noteq> Connected" using assms True \<open>open_link k i\<close> by (auto simp: single_link_def open_link_def)
    ultimately have "i < length (kp_links k) \<and> kp_links k ! i = Connecting" by (simp add: open_link_def)
    with assms True i show ?thesis
      by (simp add: single_link_def open_link_def publishKafkaMessage_def getKafkaProducer_def)
  next
    case False
    then show ?thesis
    proof (cases "kp_producer k")
      case (Some j)
      with assms show ?thesis
        by (simp add: single_link_def open_link_def publishKafkaMessage_def getKafkaProducer_def)
    qed (insert assms False, simp add: single_link_def open_link_def publishKafkaMessage_def)
  qed
qed

lemma answer_single:
  assumes "single_link k" "i < length (kp_links k)" "kp_links k ! i = Connecting"
  shows "single_link (connection_up i k)" "single_link (connection_refused i k)"
proof -
  have promise: "kp_promise k = Some i" using assms by (auto simp: single_link_def open_link_def)
  have none: "kp_producer k = None"
  proof (cases "kp_producer k")
    case (Some j)
    then have "open_link k j" "kp_links k ! j = Connected" using assms(1) by (auto simp: single_link_def open_link_def)
    then have "j = i" using assms(1) promise by (simp add: single_link_def)
    with \<open>kp_links k ! j = Connected\<close> assms(3) show ?thesis by simp
  qed simp
  show "single_link (connection_up i k)" "single_link (connection_refused i k)"
    using assms promise none
    by (auto simp: single_link_def open_link_def connection_up_def connection_refused_def nth_list_update split: if_splits prod.splits)
qed

definition no_disconnect :: "'m kafka_event \<Rightarrow> bool" where
  "no_disconnect e = (e \<noteq> Disconnect)"

lemma step_single: "no_disconnect e \<Longrightarrow> single_link k \<Longrightarrow> single_link (kafka_step configured e k)"
  by (cases e) (auto simp: no_disconnect_def publish_single answer_single, simp add: single_link_def)

interpretation kafka_links: kept_run "kafka_step configured" single_link no_disconnect for configured
  by unfold_locales (rule step_single)

lemma run_single: "list_all no_disconnect es \<Longrightarrow> single_link (fold (kafka_step configured) es kafka_start)"
  by (rule kafka_links.admitted_run [OF start_single])

theorem one_connection:
  assumes "list_all no_disconnect es" "k = fold (kafka_step configured) es kafka_start" "open_link k i" "open_link k j"
  shows "i = j"
  using run_single [OF assms(1)] assms(2-4) by (auto simp: single_link_def)

text \<open>
  A shutdown that comes while the connection is being made forgets it: the connection comes up, is the
  producer, and nobody disconnects it.
\<close>

lemma disconnect_misses_connecting:
  assumes "kp_producer k = None" "i < length (kp_links k)" "kp_links k ! i = Connecting" "kp_closing k = None"
  shows "let k' = fold (kafka_step configured) [Disconnect, Answered i True, DisconnectAnswered] k
         in kp_producer k' = Some i \<and> kp_links k' ! i = Connected"
  using assms by (simp add: disconnectKafkaProducer_def connection_up_def)

text \<open>
  After such a disconnect the next message begins a second connection, and a refusal of the first one
  forgets the second: the third message begins another.
\<close>

lemma stale_refusal:
  "map (open_link (fold (kafka_step True) [Publish a, Disconnect, Publish b, Answered 0 False, Publish c] kafka_start)) [0, 1, 2]
     = [False, True, True]"
  by (simp add: kafka_start_def publishKafkaMessage_def getKafkaProducer_def disconnectKafkaProducer_def
      connection_refused_def open_link_def)

end
