(* ===== verification/Processes.thy ===== *)
theory Processes
  imports Consumers Backbone
begin

text \<open>
  The processes of the four Kafka consumers from \<open>bootstrap\<close> to \<open>shutdown\<close> (\<open>server.ts\<close> of
  \<open>search-indexer\<close>, \<open>matching-orchestrator\<close>, \<open>notification-consumer\<close> and \<open>analytics-pipeline\<close>), and what
  the service measures about itself (\<open>observability/metrics.ts\<close>, \<open>observability/traceContext.ts\<close>).
\<close>

section \<open>The consumers\<close>

record consumer_app =
  ca_name :: string
  ca_mongo :: bool
  ca_topics :: "string list"
  ca_exits :: bool

definition search_indexer :: consumer_app where
  "search_indexer = \<lparr> ca_name = ''search-indexer'', ca_mongo = False,
     ca_topics = [''trip.lifecycle'', ''delivery.lifecycle'', ''payment.lifecycle''], ca_exits = True \<rparr>"

definition matching_orchestrator :: consumer_app where
  "matching_orchestrator = \<lparr> ca_name = ''matching-orchestrator'', ca_mongo = False,
     ca_topics = [''delivery.lifecycle'', ''trip.lifecycle'', ''payment.lifecycle''], ca_exits = False \<rparr>"

definition notification_consumer :: consumer_app where
  "notification_consumer = \<lparr> ca_name = ''notification-consumer'', ca_mongo = True,
     ca_topics = [''notification.dispatch'', ''realtime.dispatch''], ca_exits = False \<rparr>"

definition analytics_pipeline :: consumer_app where
  "analytics_pipeline = \<lparr> ca_name = ''analytics-pipeline'', ca_mongo = False,
     ca_topics = [''trip.lifecycle'', ''delivery.lifecycle'', ''match.lifecycle'', ''payment.lifecycle''], ca_exits = False \<rparr>"

definition consumer_brokers :: "string \<Rightarrow> string list" where
  "consumer_brokers t = map trim (split_on (CHR '','') t)"

text \<open>The steps that \<open>bootstrap\<close> awaits, one after the other.\<close>

datatype boot_step = ConnectMongo | ConnectConsumer | Subscribe string | RunConsumer

definition bootstrap_steps :: "consumer_app \<Rightarrow> boot_step list" where
  "bootstrap_steps a =
     (if ca_mongo a then [ConnectMongo] else []) @ [ConnectConsumer] @ map Subscribe (ca_topics a) @ [RunConsumer]"

text \<open>
  \<open>cp_made\<close>: the variable \<open>consumer\<close> is set; \<open>cp_open\<close>: it is connected; \<open>cp_stopping\<close>: a shutdown is
  under way.  What Kafka and MongoDB answer are events.
\<close>

record consumer_process =
  cp_todo :: "boot_step list"
  cp_made :: bool
  cp_open :: bool
  cp_topics :: "string list"
  cp_ready :: bool
  cp_gauge :: bool
  cp_listening :: bool
  cp_stopping :: bool
  cp_exit :: "int option"

definition booting :: "consumer_app \<Rightarrow> consumer_process" where
  "booting a = \<lparr> cp_todo = bootstrap_steps a, cp_made = (\<not> ca_mongo a), cp_open = False, cp_topics = [], cp_ready = False,
     cp_gauge = False, cp_listening = False, cp_stopping = False, cp_exit = None \<rparr>"

fun boot_answered :: "boot_step \<Rightarrow> consumer_process \<Rightarrow> consumer_process" where
  "boot_answered ConnectMongo p = p\<lparr>cp_made := True\<rparr>"
| "boot_answered ConnectConsumer p = p\<lparr>cp_open := True, cp_gauge := True\<rparr>"
| "boot_answered (Subscribe t) p = p\<lparr>cp_topics := cp_topics p @ [t]\<rparr>"
| "boot_answered RunConsumer p = p\<lparr>cp_ready := True, cp_listening := True\<rparr>"

definition begin_shutdown :: "consumer_process \<Rightarrow> consumer_process" where
  "begin_shutdown p = p\<lparr>cp_ready := False, cp_gauge := False, cp_listening := False, cp_stopping := True\<rparr>"

definition end_shutdown :: "consumer_app \<Rightarrow> consumer_process \<Rightarrow> consumer_process" where
  "end_shutdown a p =
     p\<lparr>cp_open := (if cp_made p then False else cp_open p), cp_stopping := False,
       cp_exit := (if ca_exits a then Some 0 else None)\<rparr>"

datatype consumer_event = BootAnswer bool | ConsumerSignal | ShutdownSettled

fun consumer_step :: "consumer_app \<Rightarrow> consumer_event \<Rightarrow> consumer_process \<Rightarrow> consumer_process" where
  "consumer_step a (BootAnswer ok) p =
     (if cp_exit p \<noteq> None then p
      else case cp_todo p of
             [] \<Rightarrow> p
           | st # rest \<Rightarrow> if ok then boot_answered st (p\<lparr>cp_todo := rest\<rparr>) else p\<lparr>cp_exit := Some 1\<rparr>)"
| "consumer_step a ConsumerSignal p = (if cp_exit p \<noteq> None then p else begin_shutdown p)"
| "consumer_step a ShutdownSettled p = (if cp_exit p = None \<and> cp_stopping p then end_shutdown a p else p)"

definition consumer_run :: "consumer_app \<Rightarrow> consumer_event list \<Rightarrow> consumer_process" where
  "consumer_run a es = fold (consumer_step a) es (booting a)"

text \<open>
  The answer to a request, if anybody listens (of \<open>notification-consumer\<close>: while MongoDB and Redis are
  ready).
\<close>

definition process_probe :: "consumer_process \<Rightarrow> string \<Rightarrow> int option" where
  "process_probe p url = (if cp_exit p = None \<and> cp_listening p then Some (probe (cp_ready p) url) else None)"

section \<open>What the service measures\<close>

record job_counts =
  jc_wait :: "int option"
  jc_active :: "int option"
  jc_delayed :: "int option"
  jc_failed :: "int option"

datatype counts_answer = NoCounts | CountsFailed | Counts job_counts

record queue_metrics =
  qm_jobs :: "string \<times> string \<Rightarrow> int"
  qm_refresh_failures :: "string \<Rightarrow> nat"
  qm_outcomes :: "string \<times> string \<Rightarrow> nat"

definition trackedQueues :: "string list" where
  "trackedQueues = [''match'', ''otp_cleanup'', ''payout'', ''reminder'']"

definition setQueueState :: "string \<Rightarrow> string \<Rightarrow> int \<Rightarrow> queue_metrics \<Rightarrow> queue_metrics" where
  "setQueueState q st v m = m\<lparr>qm_jobs := (qm_jobs m)((q, st) := v)\<rparr>"

definition or_zero :: "int option \<Rightarrow> int" where
  "or_zero v = (case v of None \<Rightarrow> 0 | Some n \<Rightarrow> n)"

definition set_states :: "string \<Rightarrow> int \<Rightarrow> int \<Rightarrow> int \<Rightarrow> int \<Rightarrow> queue_metrics \<Rightarrow> queue_metrics" where
  "set_states q w a d f m =
     setQueueState q ''failed'' f (setQueueState q ''delayed'' d (setQueueState q ''active'' a (setQueueState q ''waiting'' w m)))"

fun refreshTrackedQueueMetrics :: "string \<Rightarrow> counts_answer \<Rightarrow> queue_metrics \<Rightarrow> queue_metrics" where
  "refreshTrackedQueueMetrics q NoCounts m = set_states q 0 0 0 0 m"
| "refreshTrackedQueueMetrics q (Counts c) m =
     set_states q (or_zero (jc_wait c)) (or_zero (jc_active c)) (or_zero (jc_delayed c)) (or_zero (jc_failed c)) m"
| "refreshTrackedQueueMetrics q CountsFailed m =
     m\<lparr>qm_refresh_failures := (qm_refresh_failures m)(q := qm_refresh_failures m q + 1)\<rparr>"

definition refreshQueueMetrics :: "(string \<Rightarrow> counts_answer) \<Rightarrow> queue_metrics \<Rightarrow> queue_metrics" where
  "refreshQueueMetrics answers m = fold (\<lambda>q. refreshTrackedQueueMetrics q (answers q)) trackedQueues m"

definition recordQueueJobOutcome :: "string \<Rightarrow> string \<Rightarrow> queue_metrics \<Rightarrow> queue_metrics" where
  "recordQueueJobOutcome q oc m = m\<lparr>qm_outcomes := (qm_outcomes m)((q, oc) := qm_outcomes m (q, oc) + 1)\<rparr>"

text \<open>\<open>route\<close> is the pattern of the route that has taken the request, if one has.\<close>

definition getMetricsRoute :: "string option \<Rightarrow> string option \<Rightarrow> string \<Rightarrow> string" where
  "getMetricsRoute route baseUrl path = (if truthy_str route then str_or baseUrl [] @ the route else path)"

text \<open>The context of a trace in the data of a job; the propagation is OpenTelemetry's.\<close>

definition injectTraceContext :: "('c \<Rightarrow> string) \<Rightarrow> ('x \<Rightarrow> 'c) \<Rightarrow> 'x \<Rightarrow> (string \<times> json) list" where
  "injectTraceContext stringify inject active = [(''_otelCarrier'', JStr (stringify (inject active)))]"

definition extractTraceContext :: "(string \<Rightarrow> 'c option) \<Rightarrow> ('x \<Rightarrow> 'c \<Rightarrow> 'x) \<Rightarrow> 'x \<Rightarrow> json \<Rightarrow> 'x" where
  "extractTraceContext parse extract active job =
     (case jget job ''_otelCarrier'' of
        JStr t \<Rightarrow> (case parse t of None \<Rightarrow> active | Some c \<Rightarrow> extract active c)
      | _ \<Rightarrow> active)"

section \<open>A process answers when it has subscribed to everything\<close>

definition steps_before :: "consumer_app \<Rightarrow> boot_step list \<Rightarrow> boot_step list \<Rightarrow> bool" where
  "steps_before a done todo = (bootstrap_steps a = done @ todo)"

definition consumer_ok :: "consumer_app \<Rightarrow> consumer_process \<Rightarrow> bool" where
  "consumer_ok a p \<longleftrightarrow>
     (\<exists>ds. steps_before a ds (cp_todo p) \<and>
        cp_topics p = concat (map (\<lambda>st. case st of Subscribe t \<Rightarrow> [t] | _ \<Rightarrow> []) ds)) \<and>
     (cp_listening p \<longrightarrow> cp_todo p = [] \<and> cp_ready p) \<and> (cp_ready p \<longrightarrow> cp_listening p)"

lemma booting_ok: "consumer_ok a (booting a)"
  by (auto simp: consumer_ok_def booting_def steps_before_def intro!: exI [of _ "[]"])

lemma run_is_last:
  assumes "steps_before a ds (RunConsumer # rest)" shows "rest = []"
proof -
  have "RunConsumer \<notin> set (butlast (bootstrap_steps a))" by (auto simp: bootstrap_steps_def butlast_append)
  with assms show ?thesis by (cases rest) (auto simp: steps_before_def butlast_append)
qed

lemma consumer_step_ok: "consumer_ok a p \<Longrightarrow> consumer_ok a (consumer_step a e p)"
proof (cases e)
  case (BootAnswer ok)
  assume p: "consumer_ok a p"
  show ?thesis
  proof (cases "cp_exit p = None \<and> ok \<and> cp_todo p \<noteq> []")
    case True
    then obtain st rest where todo: "cp_todo p = st # rest" by (cases "cp_todo p") auto
    obtain ds where ds: "steps_before a ds (st # rest)"
      "cp_topics p = concat (map (\<lambda>st. case st of Subscribe t \<Rightarrow> [t] | _ \<Rightarrow> []) ds)"
      using p todo by (auto simp: consumer_ok_def)
    have more: "steps_before a (ds @ [st]) rest" using ds(1) by (simp add: steps_before_def)
    have idle: "\<not> cp_listening p" "\<not> cp_ready p" using p todo by (auto simp: consumer_ok_def)
    show ?thesis using True todo ds more idle run_is_last [of a ds rest]
      by (cases st) (auto simp: consumer_ok_def BootAnswer intro!: exI [of _ "ds @ [st]"])
  qed (use p in \<open>auto simp: BootAnswer split: list.splits; auto simp: consumer_ok_def\<close>)
qed (auto simp: consumer_ok_def begin_shutdown_def end_shutdown_def)

interpretation consumer_steps: kept_run "consumer_step a" "consumer_ok a" "\<lambda>_. True" for a
  by unfold_locales (rule consumer_step_ok)

lemma consumer_run_ok: "consumer_ok a (consumer_run a es)"
  unfolding consumer_run_def by (rule consumer_steps.admitted_run [OF booting_ok]) (simp add: list_all_iff)

lemma all_topics: "concat (map (\<lambda>st. case st of Subscribe t \<Rightarrow> [t] | _ \<Rightarrow> []) (bootstrap_steps a)) = ca_topics a"
proof -
  have "concat (map ((\<lambda>st. case st of Subscribe t \<Rightarrow> [t] | _ \<Rightarrow> []) \<circ> Subscribe) ts) = ts" for ts
    by (induction ts) simp_all
  then show ?thesis by (simp add: bootstrap_steps_def)
qed

text \<open>Whoever gets an answer gets it from a process that has subscribed to every topic, and that is ready.\<close>

theorem answers_when_subscribed:
  assumes "process_probe (consumer_run a es) url = Some st"
  shows "cp_topics (consumer_run a es) = ca_topics a \<and> cp_ready (consumer_run a es) \<and> st = probe True url"
proof -
  let ?p = "consumer_run a es"
  have listening: "cp_listening ?p" "st = probe (cp_ready ?p) url" using assms by (auto simp: process_probe_def split: if_splits)
  with consumer_run_ok [of a es] have "cp_ready ?p" "cp_todo ?p = []"
    and "\<exists>ds. steps_before a ds [] \<and> cp_topics ?p = concat (map (\<lambda>st. case st of Subscribe t \<Rightarrow> [t] | _ \<Rightarrow> []) ds)"
    by (auto simp: consumer_ok_def)
  with listening show ?thesis by (auto simp: steps_before_def all_topics)
qed

section \<open>Signals\<close>

lemma answers_run:
  "cp_exit p = None \<Longrightarrow>
     let q = fold (consumer_step a) (replicate (length (cp_todo p)) (BootAnswer True)) p
     in cp_exit q = None \<and> cp_todo q = [] \<and> (cp_open p \<or> ConnectConsumer \<in> set (cp_todo p) \<longrightarrow> cp_open q) \<and>
        (ConnectConsumer \<notin> set (cp_todo p) \<longrightarrow> cp_open q = cp_open p) \<and>
        (RunConsumer \<in> set (cp_todo p) \<or> cp_ready p \<and> cp_listening p \<longrightarrow> cp_ready q \<and> cp_listening q)"
proof (induction "cp_todo p" arbitrary: p)
  case (Cons st rest)
  let ?q = "boot_answered st (p\<lparr>cp_todo := rest\<rparr>)"
  have "rest = cp_todo ?q" "cp_exit ?q = None" using Cons.prems by (cases st; simp)+
  from Cons.hyps(1) [OF this] Cons.hyps(2) [symmetric] Cons.prems show ?case
    by (cases st) (auto simp: Let_def)
qed (simp add: Let_def)

text \<open>Without a signal, when everything answers, the process comes up connected and ready.\<close>

theorem boots:
  "let p = consumer_run a (replicate (length (bootstrap_steps a)) (BootAnswer True))
   in cp_open p \<and> process_probe p ''/ready'' = Some 200"
proof -
  have "cp_exit (booting a) = None" "cp_todo (booting a) = bootstrap_steps a" by (simp_all add: booting_def)
  moreover have "ConnectConsumer \<in> set (bootstrap_steps a)" "RunConsumer \<in> set (bootstrap_steps a)"
    by (simp_all add: bootstrap_steps_def)
  ultimately show ?thesis using answers_run [of "booting a" a]
    by (simp add: consumer_run_def process_probe_def probe_def Let_def)
qed

text \<open>
  A signal that comes while the process is subscribing is lost where the handler does not end the
  process: the bootstrap goes on, and the process says that it is ready while its consumer has been
  disconnected.
\<close>

theorem signal_during_boot:
  assumes "\<not> ca_exits a" "cp_exit p = None" "cp_made p" "ConnectConsumer \<notin> set (cp_todo p)" "RunConsumer \<in> set (cp_todo p)"
  shows "let q = fold (consumer_step a) ([ConsumerSignal, ShutdownSettled] @ replicate (length (cp_todo p)) (BootAnswer True)) p
         in process_probe q ''/ready'' = Some 200 \<and> \<not> cp_open q"
proof -
  let ?p = "end_shutdown a (begin_shutdown p)"
  have p: "cp_exit ?p = None" "cp_todo ?p = cp_todo p" "\<not> cp_open ?p"
    using assms(1-3) by (simp_all add: end_shutdown_def begin_shutdown_def)
  have "fold (consumer_step a) [ConsumerSignal, ShutdownSettled] p = ?p"
    using assms(2) by (simp add: begin_shutdown_def)
  then show ?thesis using answers_run [of ?p a] p assms(4,5) by (simp add: process_probe_def probe_def Let_def)
qed

lemma signal_during_boot_orchestrator:
  "let p = consumer_run matching_orchestrator
       ([BootAnswer True, ConsumerSignal, ShutdownSettled] @ replicate 4 (BootAnswer True))
   in process_probe p ''/ready'' = Some 200 \<and> \<not> cp_open p \<and> cp_exit p = None"
  by code_simp

text \<open>Where the handler ends the process, a signal ends it whatever comes after.\<close>

lemma ended_stays: "cp_exit p = Some c \<Longrightarrow> fold (consumer_step a) es p = p"
proof (induction es)
  case (Cons e es)
  then have "consumer_step a e p = p" by (cases e) simp_all
  with Cons show ?case by (simp del: consumer_step.simps)
qed simp

theorem signal_ends:
  assumes "ca_exits a" "cp_exit p = None"
  shows "cp_exit (fold (consumer_step a) (ConsumerSignal # ShutdownSettled # es) p) = Some 0"
proof -
  let ?p = "consumer_step a ShutdownSettled (consumer_step a ConsumerSignal p)"
  have "cp_exit ?p = Some 0" using assms by (simp add: begin_shutdown_def end_shutdown_def)
  with ended_stays [OF this] show ?thesis by (simp del: consumer_step.simps)
qed

text \<open>A step that fails ends the process with status 1, before anybody was answered.\<close>

lemma failure_ends:
  assumes "cp_exit p = None" "cp_todo p \<noteq> []" "consumer_ok a p"
  shows "cp_exit (fold (consumer_step a) (BootAnswer False # es) p) = Some 1 \<and> \<not> cp_listening p"
proof -
  have "cp_exit (consumer_step a (BootAnswer False) p) = Some 1" using assms(1,2) by (simp split: list.splits)
  with ended_stays [OF this] assms(2,3) show ?thesis by (auto simp: consumer_ok_def simp del: consumer_step.simps)
qed

section \<open>Topics and brokers\<close>

text \<open>Every topic of the service has a consumer.\<close>

lemma topics_consumed:
  "set (concat (map ca_topics [search_indexer, matching_orchestrator, notification_consumer, analytics_pipeline])) =
     {topic_trip, topic_delivery, topic_payment, topic_match, topic_notification, topic_realtime}"
  by (auto simp: search_indexer_def matching_orchestrator_def notification_consumer_def analytics_pipeline_def
      topic_defs topic_notification_def)

text \<open>The consumers keep what the service leaves out: the empty names of brokers.\<close>

lemma brokers_agree:
  assumes "KAFKA_BROKERS W = Some t" shows "getKafkaBrokers W = Some (filter (\<lambda>b. b \<noteq> []) (consumer_brokers t))"
  using assms by (simp add: getKafkaBrokers_def consumer_brokers_def)

lemma no_brokers: "consumer_brokers [] = [[]]" "KAFKA_BROKERS W = Some [] \<Longrightarrow> \<not> isKafkaConfigured W"
  by (simp_all add: consumer_brokers_def isKafkaConfigured_def getKafkaBrokers_def trim_def)

section \<open>Metrics\<close>

lemma set_states_read [simp]:
  "qm_jobs (set_states q w a d f m) k =
     (if k = (q, ''waiting'') then w else if k = (q, ''active'') then a else if k = (q, ''delayed'') then d
      else if k = (q, ''failed'') then f else qm_jobs m k)"
  by (auto simp: set_states_def setQueueState_def)

lemma refresh_other: "fst k \<noteq> q \<Longrightarrow> qm_jobs (refreshTrackedQueueMetrics q ans m) k = qm_jobs m k"
  by (cases k; cases ans) simp_all

lemma refresh_others: "fst k \<notin> set qs \<Longrightarrow> qm_jobs (fold (\<lambda>q. refreshTrackedQueueMetrics q (answers q)) qs m) k = qm_jobs m k"
  by (induction qs arbitrary: m) (simp_all add: refresh_other)

text \<open>Two of the six queues are never measured.\<close>

theorem unmeasured_queues:
  "qm_jobs (refreshQueueMetrics answers m) (''sla_rematch'', st) = qm_jobs m (''sla_rematch'', st)"
  "qm_jobs (refreshQueueMetrics answers m) (''payment_reconciler'', st) = qm_jobs m (''payment_reconciler'', st)"
proof -
  have "''sla_rematch'' \<notin> set trackedQueues" "''payment_reconciler'' \<notin> set trackedQueues" by (simp_all add: trackedQueues_def)
  then show "qm_jobs (refreshQueueMetrics answers m) (''sla_rematch'', st) = qm_jobs m (''sla_rematch'', st)"
    "qm_jobs (refreshQueueMetrics answers m) (''payment_reconciler'', st) = qm_jobs m (''payment_reconciler'', st)"
    unfolding refreshQueueMetrics_def by (simp_all add: refresh_others)
qed

lemma refresh_at:
  assumes "distinct qs" "q \<in> set qs"
  shows "qm_jobs (fold (\<lambda>q. refreshTrackedQueueMetrics q (answers q)) qs m) (q, st) =
    qm_jobs (refreshTrackedQueueMetrics q (answers q) m) (q, st)"
  using assms
proof (induction qs arbitrary: m)
  case (Cons r qs)
  have agree: "qm_jobs m' (q, st) = qm_jobs m (q, st) \<Longrightarrow>
      qm_jobs (refreshTrackedQueueMetrics q ans m') (q, st) = qm_jobs (refreshTrackedQueueMetrics q ans m) (q, st)" for m' ans
    by (cases ans) simp_all
  show ?case
  proof (cases "r = q")
    case True
    with Cons.prems show ?thesis by (simp add: refresh_others)
  next
    case False
    with Cons.prems Cons.IH [of "refreshTrackedQueueMetrics r (answers r) m"]
      agree [of "refreshTrackedQueueMetrics r (answers r) m" "answers q"]
    show ?thesis by (simp add: refresh_other)
  qed
qed simp

lemma refreshed_waiting:
  assumes "q \<in> set trackedQueues" "answers q = Counts c"
  shows "qm_jobs (refreshQueueMetrics answers m) (q, ''waiting'') = or_zero (jc_wait c)"
proof -
  have "distinct trackedQueues" by (simp add: trackedQueues_def)
  from refresh_at [OF this assms(1)] assms(2) show ?thesis by (simp add: refreshQueueMetrics_def)
qed

text \<open>A request that no route has taken is counted under its own path, so anybody can make up labels.\<close>

lemma labels_unbounded: "getMetricsRoute None baseUrl path = path"
  by (simp add: getMetricsRoute_def)

text \<open>A worker continues the trace of whoever added the job, and an unreadable carrier changes nothing.\<close>

theorem trace_continues:
  assumes "\<forall>c. parse (stringify c) = Some c" "\<forall>x y. extract y (inject x) = x" "''_otelCarrier'' \<notin> set (map fst kvs)"
  shows "extractTraceContext parse extract here (JObj (kvs @ injectTraceContext stringify inject there)) = there"
proof -
  have "jget (JObj (kvs @ injectTraceContext stringify inject there)) ''_otelCarrier'' = JStr (stringify (inject there))"
    using assms(3) by (induction kvs) (auto simp: injectTraceContext_def)
  with assms(1,2) show ?thesis by (simp add: extractTraceContext_def)
qed

lemma trace_root: "jget job ''_otelCarrier'' = JStr t \<Longrightarrow> parse t = None \<Longrightarrow> extractTraceContext parse extract here job = here"
  by (simp add: extractTraceContext_def)

end
