(* ===== verification/Samples.thy ===== *)
theory Samples
  imports Workers
begin

text \<open>
  A concrete world and a concrete database, on which the witnesses of the properties run: two
  users, a trip, a paid request and their match in a chosen status.
\<close>

definition sample_world :: world where
  "sample_world =
     \<lparr> DEMO_MODE = False, OUTBOX_RELAY_ENABLED = False, KAFKA_BROKERS = None,
       OUTBOX_BATCH_SIZE = 25, OUTBOX_MAX_ATTEMPTS = 8, PLATFORM_FEE_PERCENT = 12,
       DEFAULT_SAFETY_DEPOSIT_PAISE = 50000, ESCROW_RELEASE_DELAY_MS = 7200000,
       RAZORPAY_KEY_SECRET = ''key:'', RAZORPAY_WEBHOOK_SECRET = ''hook:'',
       JWT_ACCESS_SECRET = ''access:'', JWT_REFRESH_SECRET = ''refresh:'', INTERNAL_API_TOKEN = ''internal-token-0001'',
       BULL_BOARD_PASSWORD = None, GOOGLE_CLIENT_ID = Some ''client'',
       MSG91_AUTH_KEY = None, MSG91_TEMPLATE_ID = None, MAX_IN_FLIGHT_REQUESTS = 1000,
       REQUIRE_HTTPS = False, NODE_ENV = ''production'',
       newId = (\<lambda>n. ''id'' @ int_str (int n)), randomInt = (\<lambda>n lo hi. lo),
       randomToken = (\<lambda>n. int_str (int n)), bcryptHash = (\<lambda>n p. p), bcryptCompare = (\<lambda>p h. p = h),
       hmacSha256Hex = (\<lambda>k t. k @ t), aes256cbcHex = (\<lambda>k t. rev t),
       jwtSign = (\<lambda>now k p. k @ js_text (jget p ''id'')),
       jwtVerify = (\<lambda>now k t. if startsWith t k then Some (JObj [(''id'', JStr (drop (length k) t)),
                                (''roles'', JArr [JStr ''carrier''])]) else None),
       verifyIdToken = (\<lambda>t. None), zodEmail = (\<lambda>t. CHR ''@'' \<in> set t), zodUrl = (\<lambda>t. startsWith t ''http''),
       dateParse = (\<lambda>t. None), msg91Post = (\<lambda>p t. None), startSession = None, commitTransaction = (\<lambda>n. None),
       ordersCreate = (\<lambda>n amount receipt. Inr \<lparr> ro_id = ''order_'' @ receipt, ro_amount = amount,
                                               ro_currency = ''INR'' \<rparr>),
       matchCandidates = (\<lambda>body. None), isValidObjectId = (\<lambda>k. True),
       rapidoBook = (\<lambda>mid body a. Inr (Some ''bk'', None, None)) \<rparr>"

definition city :: "string \<Rightarrow> location" where
  "city c = \<lparr> l_city = c, l_state = None, l_coordinates = None, l_placeId = None, l_fullAddress = None \<rparr>"

definition sample_package :: package where
  "sample_package =
     \<lparr> p_description = ''papers'', p_category = Documents, p_weightKg = 2, p_dimensionsCm = None,
       p_isFragile = False, p_declaredValue = None, p_photoUrl = None \<rparr>"

definition sample_request :: delivery_request where
  "sample_request =
     \<lparr> r_sender = ''sam'', r_origin = city ''Pune'', r_destination = city ''Mumbai'',
       r_package = sample_package,
       r_recipient = \<lparr> rc_name = ''Ria'', rc_phone = ''9000000000'', rc_address = ''12 Road'' \<rparr>,
       r_window = \<lparr> w_earliest = 0, w_latest = 90000000 \<rparr>, r_status = ReqMatched,
       r_quotedPrice = Some 16000, r_platformFee = Some 1920, r_totalCharge = Some 17920,
       r_match = Some ''m1'', r_paymentOrderId = None, r_paymentStatus = Paid,
       r_expiresAt = None, r_createdAt = 0 \<rparr>"

definition sample_trip :: trip where
  "sample_trip =
     \<lparr> t_carrier = ''cara'', t_origin = city ''Pune'', t_destination = city ''Mumbai'',
       t_departureTime = 40000000, t_estimatedArrivalTime = None, t_modeOfTransport = Train,
       t_transportDetails = Some \<lparr> td_name = Some ''Express'', td_pnr = Some ''4521'',
                                   td_seatNumber = Some ''B2'' \<rparr>,
       t_availableCapacity = \<lparr> c_weightKg = 10, c_dimensionsCm = None, c_allowedCategories = [Documents] \<rparr>,
       t_pricePerKg = 80, t_status = TripActive, t_safetyDepositPaid = True,
       t_safetyDepositAmount = Some 50000, t_safetyDepositTransactionId = None,
       t_pickupInstructions = None, t_dropoffInstructions = None, t_matches = [''m1''] \<rparr>"

definition sample_match :: "match_status \<Rightarrow> match_doc" where
  "sample_match st =
     (new_match ''t1'' ''r1'' ''cara'' ''sam'' 17920 (Some 16000)
       [\<lparr> te_event = EvPickupVerified, te_timestamp = 0, te_actor = Some ''sam'', te_metadata = JUndef \<rparr>] 0)
       \<lparr>m_status := st\<rparr>"

definition carrier_user :: user where
  "carrier_user = (new_user ''Cara'' ''c@x'' ''91'' [CarrierRole] 0)\<lparr>u_escrowHeld := 50000\<rparr>"

definition sender_user :: user where
  "sender_user = (new_user ''Sam'' ''s@x'' ''92'' [SenderRole] 0)\<lparr>u_escrowHeld := 17920\<rparr>"

definition sample_db :: "match_status \<Rightarrow> db" where
  "sample_db st =
     (empty_db 1000)\<lparr>users := [(''cara'', carrier_user), (''sam'', sender_user)],
       trips := [(''t1'', sample_trip)], requests := [(''r1'', sample_request)],
       matches := [(''m1'', sample_match st)],
       redis := [(delivery_key ''m1'',
         RedisOtp \<lparr> otp_hash = ''123456'', otp_attempts = 0, otp_createdAt = 0 \<rparr>, Some 600000)]\<rparr>"

lemmas sample_defs =
  sample_world_def city_def sample_package_def sample_request_def sample_trip_def sample_match_def
  carrier_user_def sender_user_def sample_db_def empty_db_def new_user_def new_match_def

lemma sample_finds [simp]:
  "findById (matches (sample_db st)) ''m1'' = Some (sample_match st)"
  "findById (trips (sample_db st)) ''t1'' = Some sample_trip"
  "findById (requests (sample_db st)) ''r1'' = Some sample_request"
  "findById (users (sample_db st)) ''cara'' = Some carrier_user"
  "findById (users (sample_db st)) ''sam'' = Some sender_user"
  "transactions (sample_db st) = []" "clock (sample_db st) = 1000" "webhooks (sample_db st) = []"
  "outbox (sample_db st) = []" "draws (sample_db st) = 0"
  "matches (sample_db st) = [(''m1'', sample_match st)]"
  "redis_get (delivery_key ''m1'') (sample_db st) =
     Some (RedisOtp \<lparr> otp_hash = ''123456'', otp_attempts = 0, otp_createdAt = 0 \<rparr>)"
  by (simp_all add: sample_db_def empty_db_def redis_get_def live_def)

lemma sample_match_fields [simp]:
  "m_trip (sample_match st) = ''t1''" "m_deliveryRequest (sample_match st) = ''r1''"
  "m_carrier (sample_match st) = ''cara''" "m_sender (sample_match st) = ''sam''"
  "m_status (sample_match st) = st" "m_agreedPrice (sample_match st) = 17920"
  by (simp_all add: sample_match_def new_match_def)

lemma sample_world_fields [simp]:
  "startSession sample_world = None" "commitTransaction sample_world n = None"
  "bcryptCompare sample_world p h = (p = h)" "DEMO_MODE sample_world = False"
  "PLATFORM_FEE_PERCENT sample_world = 12" "DEFAULT_SAFETY_DEPOSIT_PAISE sample_world = 50000"
  "hmacSha256Hex sample_world k t = k @ t" "RAZORPAY_KEY_SECRET sample_world = ''key:''"
  "RAZORPAY_WEBHOOK_SECRET sample_world = ''hook:''" "OUTBOX_MAX_ATTEMPTS sample_world = 8"
  "OUTBOX_BATCH_SIZE sample_world = 25" "matchCandidates sample_world b = None"
  by (simp_all add: sample_world_def)

lemma sample_journey: "journey (sample_db st)"
  by (auto simp: journey_def sample_db_def empty_db_def pickup_verified_def sample_match_def new_match_def
      delivery_key_def otp_key_def otpKeys_delivery_def split: if_splits)

lemma sample_server: "tx_succeeds sample_world" "session_ok sample_world" "commits_atomically sample_world"
  by (simp_all add: tx_succeeds_def session_ok_def commits_atomically_def)

end
