(* ===== verification/Frames.thy ===== *)
theory Frames
  imports Api
begin

text \<open>
  What the services other than those of users and logins do to the accounts: they move money,
  count deliveries and ratings and add the carrier role, and change nothing else of any user.
  One rule per operation, composed along the structure of the handlers.
\<close>

section \<open>The frame\<close>

text \<open>A user without the fields that the other services write.\<close>

definition ident :: "user \<Rightarrow> user" where
  "ident u = u\<lparr>u_balance := 0, u_escrowHeld := 0, u_role := [], u_totalDeliveries := 0,
               u_totalTripsAsCarrier := 0, u_ratingAverage := 0, u_ratingCount := 0\<rparr>"

definition accounts :: "db \<Rightarrow> (oid \<times> user) list" where
  "accounts s = map (\<lambda>(k, u). (k, ident u)) (users s)"

definition accounts_are :: "(oid \<times> user) list \<Rightarrow> db \<Rightarrow> bool" where
  "accounts_are A s \<longleftrightarrow> accounts s = A"

lemma accounts_are_cong: "users s = users t \<Longrightarrow> accounts_are A t \<Longrightarrow> accounts_are A s"
  by (simp add: accounts_are_def accounts_def)

lemma accounts_silent: "(\<And>s. users (f s) = users s) \<Longrightarrow> keeps (accounts_are A) (modM f)"
  by (intro keeps_modM) (auto intro: accounts_are_cong)

lemma accounts_silent_handler: "(\<And>s. users (snd (m s)) = users s) \<Longrightarrow> keeps (accounts_are A) m"
  by (auto simp: keeps_def intro: accounts_are_cong)

lemma map_saved:
  assumes "map_of c k = Some d" "g d' = g d"
  shows "map (\<lambda>(k, d). (k, g d)) (AList.update k d' c) = map (\<lambda>(k, d). (k, g d)) c"
  using assms(1)
proof (induction c)
  case (Cons p c)
  then show ?case using assms(2) by (cases p) (auto split: if_splits)
qed simp

lemma map_updated:
  assumes "\<And>d. g (f d) = g d"
  shows "map (\<lambda>(k, d). (k, g d)) (findByIdAndUpdate k f c) = map (\<lambda>(k, d). (k, g d)) c"
  using map_saved [of c k _ g "f _"] assms
  by (auto simp: findByIdAndUpdate_def findById_def saveDoc_def split: option.splits)

lemma accounts_update:
  "(\<And>u. ident (f u) = ident u) \<Longrightarrow> keeps (accounts_are A) (modM (update_user k f))"
  by (rule keeps_modM) (simp add: accounts_are_def accounts_def map_updated update_user_def)

lemma accounts_abort: "accounts_are A s \<Longrightarrow> accounts_are A (abort s s')"
  by (rule accounts_are_cong) simp_all

lemma ident_ops [simp]:
  "ident (inc_escrow n u) = ident u" "ident (become_carrier u) = ident u"
  "ident (refund_wallet n u) = ident u" "ident (add_rating n u) = ident u"
  "ident (count_rating u) = ident u" "ident (pay_carrier v d p u) = ident u"
  "ident (settle_sender v p u) = ident u"
  by (simp_all add: ident_def inc_escrow_def become_carrier_def refund_wallet_def add_rating_def
      count_rating_def pay_carrier_def settle_sender_def)

section \<open>The operations on matches\<close>

lemma updateMatchStatus_users: "users (snd (updateMatchStatus W mid st a m s)) = users s"
  by (simp add: updateMatchStatus_def Let_def split: option.splits)

lemmas accounts_leaves =
  keeps_intros accounts_silent accounts_update
  accounts_silent_handler [OF updateMatchStatus_users]
  accounts_silent_handler [OF generateOTP_frame(1)] accounts_silent_handler [OF verifyOTP_frame(1)]

lemma accounts_hold: "keeps (accounts_are A) (holdFunds W mid n kind)"
proof -
  have "keeps (accounts_are A) (hold_body W u mid n kind)" for u
    unfolding hold_body_def by (intro accounts_leaves) simp_all
  then show ?thesis
    unfolding holdFunds_def by (intro accounts_leaves keeps_runInTransaction) (simp_all add: accounts_abort)
qed

lemma accounts_release: "keeps (accounts_are A) (releaseFunds W mid)"
proof -
  have "keeps (accounts_are A) (release_body W mid c sd dep pay fee out)" for c sd dep pay fee out
    by (auto simp: keeps_def release_body_def Let_def accounts_are_def accounts_def map_updated update_user_def
        split: option.splits)
  then have "keeps (accounts_are A) (runInTransaction W (release_body W mid c sd dep pay fee out))" for c sd dep pay fee out
    by (rule keeps_runInTransaction) (simp add: accounts_abort)
  then show ?thesis
    by (auto simp: keeps_def releaseFunds_def Let_def thenM_run split: option.splits prod.splits sum.splits)
      (metis snd_conv)+
qed

lemmas match_defs =
  carrierReject_def senderReject_def senderConfirm_def confirm_with_def generatePickupOtp_def
  verifyPickupOtpForMatch_def generateDeliveryOtp_def verifyDeliveryOtpForMatch_def rateMatch_def
  disputeMatch_def requestRapidoForMatch_def getMatchById_def ensureInvolved_def findMatch_def
  saveMatch_def notify_match_def emit_both_def carrierAccept_body_def

lemma bookRapido_users: "users (snd (bookRapido W mid c a s)) = users s"
  by (simp add: bookRapido_def split: sum.splits)

lemma accounts_match_ops:
  "keeps (accounts_are A) (carrierAccept_body W mid usr)"
  "keeps (accounts_are A) (carrierReject W mid usr)"
  "keeps (accounts_are A) (senderReject W mid usr)"
  "keeps (accounts_are A) (senderConfirm W mid usr)"
  "keeps (accounts_are A) (generatePickupOtp W mid usr)"
  "keeps (accounts_are A) (verifyPickupOtpForMatch W mid usr otp)"
  "keeps (accounts_are A) (generateDeliveryOtp W mid usr)"
  "keeps (accounts_are A) (verifyDeliveryOtpForMatch W mid usr otp)"
  "keeps (accounts_are A) (rateMatch W mid usr sc c)"
  "keeps (accounts_are A) (disputeMatch W mid usr r d)"
  "keeps (accounts_are A) (requestRapidoForMatch W mid usr co a)"
  "keeps (accounts_are A) (getMatchById mid usr)"
  unfolding match_defs
  by (intro accounts_leaves accounts_hold accounts_silent_handler [OF bookRapido_users]; simp)+

lemma accounts_carrierAccept: "keeps (accounts_are A) (carrierAccept W mid usr)"
  unfolding carrierAccept_def
  by (rule keeps_withLock [OF _ accounts_match_ops(1)]) (auto intro: accounts_are_cong)

lemma accounts_payout_job: "keeps (accounts_are A) (payout_job W n mid)"
  using keepsD [OF accounts_release]
  by (auto simp: keeps_def payout_job_def thenM_run split: option.splits prod.splits sum.splits) (metis snd_conv)+

section \<open>Matching\<close>

lemma accounts_create_match: "keeps (accounts_are A) (create_match W m)"
  by (rule accounts_silent_handler) (simp add: create_match_def)

lemma accounts_proposals:
  "keeps (accounts_are A) (createMatchWithoutTransaction W tid t rid r q)"
  "keeps (accounts_are A) (proposal_body W pt rid r q)"
  unfolding createMatchWithoutTransaction_def proposal_body_def link_match_def
  by (intro accounts_leaves accounts_create_match; simp)+

lemma accounts_createMatchProposal: "keeps (accounts_are A) (createMatchProposal W pt req)"
  unfolding createMatchProposal_def
  by (intro accounts_leaves accounts_proposals keeps_runInTransaction) (simp_all add: accounts_abort)

lemma accounts_matching:
  "keeps (accounts_are A) (findMatches W rid)"
  "keeps (accounts_are A) (matchTripAgainstPendingRequests W tid)"
  unfolding findMatches_def matchTripAgainstPendingRequests_def propose_unless_own_def
  by (intro accounts_leaves accounts_createMatchProposal; auto intro: accounts_createMatchProposal)+

section \<open>Trips, deliveries, payments\<close>

lemma createOrder_users: "users (snd (createOrder W n r s)) = users s"
  by (simp add: createOrder_def split: sum.splits)

lemma insert_users: "users (snd (insert_trip W t s)) = users s" "users (snd (insert_request W r s)) = users s"
  by (simp_all add: insert_trip_def insert_request_def)

lemmas accounts_orders =
  accounts_leaves accounts_silent_handler [OF createOrder_users]
  accounts_silent_handler [OF insert_users(1)] accounts_silent_handler [OF insert_users(2)]

lemma accounts_standalone:
  "keeps (accounts_are A) (createStandaloneOrder W n c r)"
  "keeps (accounts_are A) (verifyStandalonePayment W o' p sg)"
  unfolding createStandaloneOrder_def verifyStandalonePayment_def by (intro accounts_orders; simp)+

lemma accounts_trip_ops:
  "keeps (accounts_are A) (createTrip W usr p)"
  "keeps (accounts_are A) (getTripById tid u)"
  "keeps (accounts_are A) (updateTrip W usr tid tu body)"
  "keeps (accounts_are A) (cancelTrip W usr tid)"
  "keeps (accounts_are A) (createDepositOrder W usr tid)"
  "keeps (accounts_are A) (createPreTripDepositOrder W usr)"
  "keeps (accounts_are A) (confirmDeposit W usr tid o' pid sg)"
  unfolding createTrip_def persistTrip_def remind_def getTripById_def updateTrip_def cancelTrip_def
    createDepositOrder_def createTripDepositOrder_def createPreTripDepositOrder_def confirmDeposit_def
    confirmTripDeposit_def Let_def
  by (intro accounts_orders accounts_standalone accounts_matching keeps_runInTransaction; simp add: accounts_abort)+

lemma accounts_hold_once: "keeps (accounts_are A) (hold_once W m n)"
  unfolding hold_once_def by (intro accounts_leaves accounts_hold)

lemma accounts_delivery_ops:
  "keeps (accounts_are A) (createDeliveryRequest W usr p)"
  "keeps (accounts_are A) (getRequestById usr rid)"
  "keeps (accounts_are A) (updateRequest W usr rid ru body)"
  "keeps (accounts_are A) (cancelRequest W usr rid)"
  "keeps (accounts_are A) (createDeliveryPaymentOrder W usr rid)"
  "keeps (accounts_are A) (confirmDeliveryPay W usr rid o' pid sg)"
  "keeps (accounts_are A) (getRequestMatches W usr rid)"
  unfolding createDeliveryRequest_def persistDeliveryRequest_def getRequestById_def own_request_def
    updateRequest_def cancelRequest_def createDeliveryPaymentOrder_def createDeliveryOrder_def
    confirmDeliveryPay_def confirmDeliveryPayment_def getRequestMatches_def Let_def
  by (intro accounts_orders accounts_hold_once accounts_matching keeps_runInTransaction; simp add: accounts_abort)+

lemma process_webhook_users [simp]: "users (process_webhook ev p o' s) = users s"
  by (simp add: process_webhook_def Let_def split: option.splits)

lemma accounts_webhook: "keeps (accounts_are A) (handleWebhook W parse body sg)"
  unfolding handleWebhook_def Let_def by (intro accounts_leaves; simp)

section \<open>The background workers\<close>

lemma reconcile_one_users: "users (snd (reconcile_one p s)) = users s"
  by (simp add: reconcile_one_def Let_def split: option.splits)

lemma accounts_workers:
  "keeps (accounts_are A) (processSlaRematchAudit W)"
  "keeps (accounts_are A) processPaymentReconciliation"
  unfolding processSlaRematchAudit_def sla_match_def processPaymentReconciliation_def
  by (intro accounts_leaves accounts_matching accounts_silent_handler [OF reconcile_one_users];
      simp add: update_match_def)+

lemma accounts_match_job: "keeps (accounts_are A) (match_job W n rid)"
  unfolding match_job_def by (intro accounts_leaves accounts_matching)

lemma fold_users: "(\<And>x s. users (f x s) = users s) \<Longrightarrow> users (fold f xs s) = users s"
  by (induction xs arbitrary: s) auto

lemma reminder_job_users [simp]: "users (reminder_job W n tid s) = users s"
  by (auto simp: reminder_job_def split: option.splits intro!: fold_users)

section \<open>The controllers\<close>

lemma keeps_answerM [keeps_intros]: "keeps I m \<Longrightarrow> keeps I (answerM st msg f m)"
  unfolding answerM_def by (intro keeps_intros)

lemma keeps_small [keeps_intros]:
  "keeps I (textM v)" "keeps I (opt_textM v)" "keeps I (natM v)" "keeps I (dateM W v)"
  "keeps I (bad_request m)" "keeps I (paiseM x)" "keeps I (parseM W sch v)" "keeps I (trip_filter_of W q)"
  unfolding textM_def opt_textM_def natM_def dateM_def bad_request_def paiseM_def parseM_def trip_filter_of_def
  by (auto simp: keeps_def bindM_run split: json.splits option.splits prod.splits sum.splits)

lemma keeps_catch_status [keeps_intros]: "keeps I m \<Longrightarrow> keeps I (catch_status st m)"
  unfolding catch_status_def by (intro keeps_intros)

lemma accounts_controllers:
  "keeps (accounts_are A) (trip_controller W tz tr usr b q)"
  "keeps (accounts_are A) (delivery_controller W dr usr b)"
  "keeps (accounts_are A) (match_controller W mr usr b)"
  "keeps (accounts_are A) (payment_controller W E pr rq usr b)"
  "keeps (accounts_are A) (pricing_controller W cr q)"
  "keeps (accounts_are A) (internal_controller W ir)"
proof -
  show "keeps (accounts_are A) (trip_controller W tz tr usr b q)"
    by (cases tr) (simp; intro keeps_intros accounts_trip_ops)+
  show "keeps (accounts_are A) (delivery_controller W dr usr b)"
    by (cases dr) (simp; intro keeps_intros accounts_delivery_ops)+
  show "keeps (accounts_are A) (match_controller W mr usr b)"
    by (cases mr) (simp; intro keeps_intros accounts_match_ops accounts_carrierAccept)+
  show "keeps (accounts_are A) (payment_controller W E pr rq usr b)"
    by (cases pr; simp only: payment_controller.simps Let_def; intro keeps_intros accounts_standalone accounts_webhook)
  show "keeps (accounts_are A) (pricing_controller W cr q)"
    by (cases cr) (simp; intro keeps_intros)+
  show "keeps (accounts_are A) (internal_controller W ir)"
    by (cases ir) (simp; intro keeps_intros accounts_matching)+
qed

end
