(* ===== verification/System.thy ===== *)
theory System
  imports Frames Lifecycle Samples
begin

text \<open>
  The service as a whole: the states that any sequence of requests, worker runs, relay flushes and
  waits can reach, and what holds in all of them.  Every request goes through its middleware and
  its controller, with any header, body, query and user.
\<close>

section \<open>One match per trip and request, by id\<close>

definition one_match :: "db \<Rightarrow> bool" where
  "one_match s =
     (\<forall>k m k' m'. findById (matches s) k = Some m \<longrightarrow> findById (matches s) k' = Some m' \<longrightarrow> k \<noteq> k' \<longrightarrow>
        (m_trip m, m_deliveryRequest m) \<noteq> (m_trip m', m_deliveryRequest m'))"

lemma one_match_kept:
  assumes "one_match s"
    and "\<And>k m'. findById (matches t) k = Some m' \<Longrightarrow>
      \<exists>m. findById (matches s) k = Some m \<and> m_trip m' = m_trip m \<and> m_deliveryRequest m' = m_deliveryRequest m"
  shows "one_match t"
  unfolding one_match_def
proof (intro allI impI)
  fix k m k' m'
  assume "findById (matches t) k = Some m" "findById (matches t) k' = Some m'" "k \<noteq> k'"
  then show "(m_trip m, m_deliveryRequest m) \<noteq> (m_trip m', m_deliveryRequest m')"
    using assms(2) [of k m] assms(2) [of k' m'] assms(1) unfolding one_match_def by metis
qed

section \<open>The core of the data\<close>

text \<open>The Redis store is a parameter: only the operations on matches and logins touch it.\<close>

definition core :: "(string \<times> redis_value \<times> int option) list \<Rightarrow> db \<Rightarrow> bool" where
  "core R s \<longleftrightarrow> journey s \<and> one_match s \<and> redis s = R"

lemma core_cong: "matches s = matches t \<Longrightarrow> redis s = redis t \<Longrightarrow> core R t \<Longrightarrow> core R s"
  by (simp add: core_def journey_def one_match_def)

lemma core_silent: "(\<And>s. matches (f s) = matches s \<and> redis (f s) = redis s) \<Longrightarrow> keeps (core R) (modM f)"
  by (intro keeps_modM) (auto intro: core_cong)

lemma core_silent_handler:
  "(\<And>s. matches (snd (m s)) = matches s \<and> redis (snd (m s)) = redis s) \<Longrightarrow> keeps (core R) m"
  by (auto simp: keeps_def intro: core_cong)

text \<open>A change of documents that keeps their pairs and their history, and reaches no late state.\<close>

definition mild :: "match_doc \<Rightarrow> match_doc \<Rightarrow> bool" where
  "mild m m' \<longleftrightarrow> match_kept m m' \<and> (m_status m' = m_status m \<or> \<not> after_pickup (m_status m'))"

lemma core_mild:
  assumes "core R s" "redis t = redis s"
    and "\<And>k m'. findById (matches t) k = Some m' \<Longrightarrow> \<exists>m. findById (matches s) k = Some m \<and> mild m m'"
    and "\<And>k m. findById (matches s) k = Some m \<Longrightarrow> \<exists>m'. findById (matches t) k = Some m' \<and> mild m m'"
  shows "core R t"
proof -
  have "journey t"
    unfolding journey_def
  proof (intro conjI allI impI)
    fix k m'
    assume m': "findById (matches t) k = Some m'" "after_pickup (m_status m')"
    from assms(3) [OF m'(1)] obtain m where m: "findById (matches s) k = Some m" "mild m m'" by blast
    with m'(2) assms(1) have "pickup_verified m" by (auto simp: mild_def core_def journey_def)
    with m(2) show "pickup_verified m'" by (auto simp: mild_def intro: pickup_verified_kept)
  next
    fix k
    assume "map_of (redis t) (delivery_key k) \<noteq> None"
    with assms(1,2) obtain m where m: "findById (matches s) k = Some m" "pickup_verified m"
      by (metis core_def journey_def)
    from assms(4) [OF m(1)] m(2) show "\<exists>m. findById (matches t) k = Some m \<and> pickup_verified m"
      by (auto simp: mild_def intro: pickup_verified_kept)
  qed
  moreover have "one_match t"
  proof (rule one_match_kept)
    show "one_match s" using assms(1) by (simp add: core_def)
    fix k m'
    assume "findById (matches t) k = Some m'"
    from assms(3) [OF this]
    show "\<exists>m. findById (matches s) k = Some m \<and> m_trip m' = m_trip m \<and> m_deliveryRequest m' = m_deliveryRequest m"
      by (auto simp: mild_def match_kept_def)
  qed
  ultimately show ?thesis using assms(1,2) by (simp add: core_def)
qed

lemma mild_refl [simp]: "mild m m"
  by (simp add: mild_def)

lemma core_update_match:
  assumes "\<And>m. mild m (f m)"
  shows "keeps (core R) (modM (update_match k f))"
proof (rule keeps_modM)
  fix s
  assume "core R s"
  then show "core R (update_match k f s)"
    by (rule core_mild) (auto simp: update_match_def assms split: if_splits)
qed

lemma mild_cancel: "mild m (cancel_match_of sender now m)"
  by (simp add: mild_def match_kept_def cancel_match_of_def after_pickup_def)

lemma core_cancel_matches: "keeps (core R) (modM (cancel_matches rid sender))"
proof (rule keeps_modM)
  fix s :: db
  let ?P = "\<lambda>m. m_deliveryRequest m = rid \<and> cancellable_status (m_status m)"
  let ?f = "\<lambda>m. if ?P m then cancel_match_of sender (clock s) m else m"
  have f: "findById (matches (cancel_matches rid sender s)) k = map_option ?f (findById (matches s) k)" for k
    by (simp add: cancel_matches_def)
  assume "core R s"
  then show "core R (cancel_matches rid sender s)"
    by (rule core_mild) (auto simp: f mild_cancel cancel_matches_def)
qed

lemma core_reconcile_one: "keeps (core R) (reconcile_one p)"
proof -
  have "core R (snd (reconcile_one p s))" if "core R s" for s
    using that
    by (rule core_mild)
       (auto simp: reconcile_one_def Let_def mild_def match_kept_def reconcile_match_def after_pickup_def
        split: option.splits if_splits)
  then show ?thesis by (simp add: keeps_def)
qed

lemma core_create_match:
  assumes "m_status m = Proposed"
  shows "keeps (core R) (create_match W m)"
proof -
  have "core R (snd (create_match W m s))" if C: "core R s" for s
  proof (cases "existsDoc (same_pair (m_trip m) (m_deliveryRequest m)) (matches s)")
    case True
    with C show ?thesis by (simp add: create_match_def)
  next
    case False
    let ?k = "newId W (draws s)"
    have fresh: "(m_trip d, m_deliveryRequest d) \<noteq> (m_trip m, m_deliveryRequest m)"
      if "findById (matches s) k = Some d" for k d
      using False findById_in_set [OF that] by (auto simp: existsDoc_iff same_pair_def)
    have f: "findById (matches (snd (create_match W m s))) k =
        (case findById (matches s) k of Some d \<Rightarrow> Some d | None \<Rightarrow> if k = ?k then Some m else None)" for k
      using False by (simp add: create_match_def split: option.splits)
    have r: "redis (snd (create_match W m s)) = redis s"
      using False by (simp add: create_match_def)
    from C have "journey (snd (create_match W m s))"
      unfolding journey_def core_def f r
    proof (intro conjI allI impI; elim conjE)
      fix k d
      assume "\<forall>mid m. findById (matches s) mid = Some m \<longrightarrow> after_pickup (m_status m) \<longrightarrow> pickup_verified m"
        "(case findById (matches s) k of Some d \<Rightarrow> Some d | None \<Rightarrow> if k = ?k then Some m else None) = Some d"
        "after_pickup (m_status d)"
      then show "pickup_verified d"
        using assms by (cases "findById (matches s) k") (auto simp: after_pickup_def split: if_splits)
    next
      fix k
      assume "\<forall>mid. map_of (redis s) (delivery_key mid) \<noteq> None \<longrightarrow>
          (\<exists>m. findById (matches s) mid = Some m \<and> pickup_verified m)"
        "map_of (redis s) (delivery_key k) \<noteq> None"
      then obtain d where "findById (matches s) k = Some d" "pickup_verified d" by blast
      then show "\<exists>d. (case findById (matches s) k of Some d \<Rightarrow> Some d | None \<Rightarrow> if k = ?k then Some m else None) =
          Some d \<and> pickup_verified d" by simp
    qed
    moreover from C have "one_match (snd (create_match W m s))"
      unfolding one_match_def core_def f
      using fresh by (fastforce split: option.splits if_splits)
    ultimately show ?thesis using C r by (simp add: core_def)
  qed
  then show ?thesis by (simp add: keeps_def)
qed

lemma core_abort: "core R s \<Longrightarrow> core R s' \<Longrightarrow> core R (abort s s')"
  by (simp add: core_def journey_def one_match_def abort_def)

section \<open>The services keep the core\<close>

lemmas core_leaves = keeps_intros core_silent core_update_match core_cancel_matches

lemma core_proposals:
  "keeps (core R) (createMatchWithoutTransaction W tid t rid r q)"
  "keeps (core R) (proposal_body W pt rid r q)"
  unfolding createMatchWithoutTransaction_def proposal_body_def link_match_def
  by (intro core_leaves core_create_match; simp add: proposed_match_def new_match_def)+

lemma core_createMatchProposal: "keeps (core R) (createMatchProposal W pt req)"
  unfolding createMatchProposal_def
  by (intro core_leaves core_proposals keeps_runInTransaction) (simp_all add: core_abort)

lemma core_matching:
  "keeps (core R) (findMatches W rid)"
  "keeps (core R) (matchTripAgainstPendingRequests W tid)"
  unfolding findMatches_def matchTripAgainstPendingRequests_def propose_unless_own_def
  by (intro core_leaves core_createMatchProposal; auto intro: core_createMatchProposal)+

lemma createOrder_core: "matches (snd (createOrder W n r s)) = matches s \<and> redis (snd (createOrder W n r s)) = redis s"
  by (simp add: createOrder_def split: sum.splits)

lemma insert_core:
  "matches (snd (insert_trip W t s)) = matches s \<and> redis (snd (insert_trip W t s)) = redis s"
  "matches (snd (insert_request W r s)) = matches s \<and> redis (snd (insert_request W r s)) = redis s"
  by (simp_all add: insert_trip_def insert_request_def)

lemmas core_orders =
  core_leaves core_silent_handler [OF createOrder_core]
  core_silent_handler [OF insert_core(1)] core_silent_handler [OF insert_core(2)]

lemma core_hold: "keeps (core R) (holdFunds W mid n kind)"
proof -
  have "keeps (core R) (hold_body W u mid n kind)" for u
    unfolding hold_body_def by (intro core_leaves) simp_all
  then show ?thesis
    unfolding holdFunds_def by (intro core_leaves keeps_runInTransaction) (simp_all add: core_abort)
qed

lemma core_standalone:
  "keeps (core R) (createStandaloneOrder W n c r)"
  "keeps (core R) (verifyStandalonePayment W o' p sg)"
  unfolding createStandaloneOrder_def verifyStandalonePayment_def by (intro core_orders; simp)+

lemma core_trip_ops:
  "keeps (core R) (createTrip W usr p)"
  "keeps (core R) (getTripById tid u)"
  "keeps (core R) (updateTrip W usr tid tu body)"
  "keeps (core R) (cancelTrip W usr tid)"
  "keeps (core R) (createDepositOrder W usr tid)"
  "keeps (core R) (createPreTripDepositOrder W usr)"
  "keeps (core R) (confirmDeposit W usr tid o' pid sg)"
  unfolding createTrip_def persistTrip_def remind_def getTripById_def updateTrip_def cancelTrip_def
    createDepositOrder_def createTripDepositOrder_def createPreTripDepositOrder_def confirmDeposit_def
    confirmTripDeposit_def Let_def
  by (intro core_orders core_standalone core_matching keeps_runInTransaction; simp add: core_abort)+

lemma core_hold_once: "keeps (core R) (hold_once W m n)"
  unfolding hold_once_def by (intro core_leaves core_hold)

lemma core_delivery_ops:
  "keeps (core R) (createDeliveryRequest W usr p)"
  "keeps (core R) (getRequestById usr rid)"
  "keeps (core R) (updateRequest W usr rid ru body)"
  "keeps (core R) (cancelRequest W usr rid)"
  "keeps (core R) (createDeliveryPaymentOrder W usr rid)"
  "keeps (core R) (confirmDeliveryPay W usr rid o' pid sg)"
  "keeps (core R) (getRequestMatches W usr rid)"
  unfolding createDeliveryRequest_def persistDeliveryRequest_def getRequestById_def own_request_def
    updateRequest_def cancelRequest_def createDeliveryPaymentOrder_def createDeliveryOrder_def
    confirmDeliveryPay_def confirmDeliveryPayment_def getRequestMatches_def Let_def
  by (intro core_orders core_hold_once core_matching keeps_runInTransaction; simp add: core_abort)+

lemma process_webhook_core [simp]:
  "matches (process_webhook ev p o' s) = matches s" "redis (process_webhook ev p o' s) = redis s"
  by (simp_all add: process_webhook_def Let_def split: option.splits)

lemma core_webhook: "keeps (core R) (handleWebhook W parse body sg)"
  unfolding handleWebhook_def Let_def by (intro core_leaves; simp)

lemma mild_sla: "mild m (sla_cancel now m)"
  by (simp add: mild_def match_kept_def sla_cancel_def after_pickup_def)

lemma core_workers:
  "keeps (core R) (processSlaRematchAudit W)"
  "keeps (core R) processPaymentReconciliation"
  unfolding processSlaRematchAudit_def sla_match_def processPaymentReconciliation_def
  by (intro core_leaves core_matching core_reconcile_one; simp add: mild_sla)+

lemma core_match_job: "keeps (core R) (match_job W n rid)"
  unfolding match_job_def by (intro core_leaves core_matching)

lemma core_controllers:
  "keeps (core R) (trip_controller W tz tr usr b q)"
  "keeps (core R) (delivery_controller W dr usr b)"
  "keeps (core R) (payment_controller W E pr rq usr b)"
  "keeps (core R) (pricing_controller W cr q)"
  "keeps (core R) (internal_controller W ir)"
proof -
  show "keeps (core R) (trip_controller W tz tr usr b q)"
    by (cases tr) (simp; intro keeps_intros core_trip_ops)+
  show "keeps (core R) (delivery_controller W dr usr b)"
    by (cases dr) (simp; intro keeps_intros core_delivery_ops)+
  show "keeps (core R) (payment_controller W E pr rq usr b)"
    by (cases pr; simp only: payment_controller.simps Let_def; intro keeps_intros core_standalone core_webhook)
  show "keeps (core R) (pricing_controller W cr q)"
    by (cases cr) (simp; intro keeps_intros)+
  show "keeps (core R) (internal_controller W ir)"
    by (cases ir) (simp; intro keeps_intros core_matching)+
qed

text \<open>An operation on a match is one of the table of the life of a match.\<close>

lemma exec_one_match: "one_match s \<Longrightarrow> one_match (exec W op s)"
proof (rule one_match_kept)
  fix k m'
  assume "findById (matches (exec W op s)) k = Some m'"
  then show "\<exists>m. findById (matches s) k = Some m \<and> m_trip m' = m_trip m \<and> m_deliveryRequest m' = m_deliveryRequest m"
    using exec_follows [of op s W]
    by (cases "k = op_match op"; cases "findById (matches s) k") (auto simp: follows_def match_kept_def)
qed

interpretation pairing: kept_run "exec W" one_match "\<lambda>_. True" for W
  by unfold_locales (rule exec_one_match)

lemma snd_answerM: "snd (answerM st msg f m s) = snd (m s)"
  by (simp add: answerM_def bindM_run split: prod.splits sum.splits)

lemma getMatchById_state: "snd (getMatchById mid usr s) = s"
  by (simp add: getMatchById_def ensureInvolved_def findMatch_def run_simps split: option.splits)

fun match_op_of :: "match_route \<Rightarrow> oid \<Rightarrow> json \<Rightarrow> match_op option" where
  "match_op_of (GetMatchE k) usr b = None"
| "match_op_of (CarrierAcceptE k) usr b = Some (CarrierAccept k usr)"
| "match_op_of (CarrierRejectE k) usr b = Some (CarrierReject k usr)"
| "match_op_of (SenderConfirmE k) usr b = Some (SenderConfirm k usr)"
| "match_op_of (SenderRejectE k) usr b = Some (SenderReject k usr)"
| "match_op_of (PickupOtpE k) usr b = Some (GeneratePickupOtp k usr)"
| "match_op_of (VerifyPickupE k) usr b = Some (VerifyPickupOtp k usr (js_text (jget b ''otp'')))"
| "match_op_of (DeliveryOtpE k) usr b = Some (GenerateDeliveryOtp k usr)"
| "match_op_of (VerifyDeliveryE k) usr b = Some (VerifyDeliveryOtp k usr (js_text (jget b ''otp'')))"
| "match_op_of (RateE k) usr b =
     Some (RateMatch k usr \<lfloor>decode_num (jget b ''score'')\<rfloor> (decode_opt js_text (jget b ''comment'')))"
| "match_op_of (DisputeE k) usr b =
     Some (DisputeMatch k usr (js_text (jget b ''reason'')) (js_text (jget b ''description'')))"
| "match_op_of (RapidoE k) usr b =
     Some (RequestRapido k usr (decode_pair (jget b ''pickupCoords'')) (js_text (jget b ''dropAddress'')))"

lemma match_controller_exec:
  "snd (match_controller W r usr b s) = (case match_op_of r usr b of None \<Rightarrow> s | Some op \<Rightarrow> exec W op s)"
  by (cases r) (simp_all add: snd_answerM getMatchById_state)

fun user_op_of :: "user_route \<Rightarrow> json \<Rightarrow> user_op option" where
  "user_op_of UpdateMeE b = Some (UpdateProfile b)"
| "user_op_of DeleteMeE b = Some DeleteAccount"
| "user_op_of VerifyIdE b =
     Some (VerifyGovernmentId (decode_government_id (jget b ''governmentIdType''))
             (js_text (jget b ''governmentIdNumber'')))"
| "user_op_of AadhaarE b = Some (VerifyAadhaar (js_text (jget b ''aadhaarNumber'')))"
| "user_op_of PayoutE b = Some (SavePayout (decode_payout b))"
| "user_op_of PreferencesE b = Some (SavePreferences b)"
| "user_op_of _ b = None"

lemma user_reads:
  "snd (getMyProfile usr s) = s" "snd (getWallet usr s) = s" "snd (getCarrierSetupStatus usr s) = s"
  "snd (getPublicProfile k s) = s"
  by (simp_all add: user_handler_defs run_simps split: option.splits)

lemma user_controller_op:
  "snd (user_controller W r usr b s) = (case user_op_of r b of None \<Rightarrow> s | Some op \<Rightarrow> run_user_op W usr op s)"
  by (cases r) (simp_all add: snd_answerM user_reads)

fun auth_op_of :: "auth_route \<Rightarrow> oid \<Rightarrow> json \<Rightarrow> auth_op" where
  "auth_op_of SendOtpE usr b = SendOtp (js_text (jget b ''phone''))"
| "auth_op_of VerifyOtpE usr b = VerifyOtpLogin (js_text (jget b ''phone'')) (js_text (jget b ''otp''))"
| "auth_op_of LoginE usr b = VerifyOtpLogin (js_text (jget b ''phone'')) (js_text (jget b ''otp''))"
| "auth_op_of RegisterE usr b =
     Register (js_text (jget b ''name'')) (js_text (jget b ''email'')) (js_text (jget b ''phone''))
       (js_text (jget b ''otp''))"
| "auth_op_of DemoLoginE usr b =
     DemoLogin (decode_persona (if jget b ''persona'' = JUndef then jget b ''role'' else jget b ''persona''))"
| "auth_op_of GoogleE usr b = GoogleLogin (js_text (jget b ''idToken''))"
| "auth_op_of RefreshE usr b = Refresh (js_text (jget b ''refreshToken''))"
| "auth_op_of LogoutE usr b = Logout usr"

lemma auth_controller_op: "snd (auth_controller W r usr b s) = run_auth_op W (auth_op_of r usr b) s"
  by (cases r) (simp_all add: snd_answerM)

section \<open>Users and logins keep the core\<close>

lemma user_op_core: "core R s \<Longrightarrow> core R (run_user_op W usr op s)"
proof (cases "run_user_op W usr op s = s")
  case False
  assume "core R s"
  from False obtain v where "run_user_op W usr op s = save_user usr v s" by (rule user_op_cases)
  with \<open>core R s\<close> show ?thesis by (simp add: core_cong [of _ s])
qed simp

definition login_frame :: "db \<Rightarrow> db \<Rightarrow> bool" where
  "login_frame s t \<longleftrightarrow> matches t = matches s \<and> no_new_otp s t"

lemma login_silent: "(\<And>t. matches (f t) = matches t \<and> redis (f t) = redis t) \<Longrightarrow> keeps (login_frame s) (modM f)"
  by (intro keeps_modM) (simp add: login_frame_def no_new_otp_def)

lemma login_silent_handler:
  "(\<And>t. matches (snd (m t)) = matches t \<and> redis (snd (m t)) = redis t) \<Longrightarrow> keeps (login_frame s) m"
  by (auto simp: keeps_def login_frame_def no_new_otp_def)

lemma create_user_core:
  "matches (snd (create_user W v t)) = matches t \<and> redis (snd (create_user W v t)) = redis t"
  by (simp add: create_user_def Let_def)

lemma issueTokens_core:
  "matches (snd (issueTokens W usr t)) = matches t \<and> redis (snd (issueTokens W usr t)) = redis t"
  by (simp add: issueTokens_def Let_def split: option.splits)

lemma login_generate: "keeps (login_frame s) (generateOTP W (otpKeys_phone p))"
proof -
  have "no_new_otp t (snd (generateOTP W (otpKeys_phone p) t))" for t
    by (simp add: no_new_otp_def generateOTP_def Let_def redis_setex_def update_conv')
  then show ?thesis by (auto simp: keeps_def login_frame_def no_new_otp_def)
qed

lemma login_verify: "keeps (login_frame s) (verifyOTP W key otp)"
  using verifyOTP_no_new [of _ W key otp] by (auto simp: keeps_def login_frame_def no_new_otp_def)

lemma login_sms: "keeps (login_frame s) (sendSmsOTP W phone otp)"
  unfolding sendSmsOTP_def by (intro keeps_intros)

lemmas login_leaves =
  keeps_intros login_silent login_generate login_verify login_sms
  login_silent_handler [OF create_user_core] login_silent_handler [OF issueTokens_core]

lemma login_demo_user: "keeps (login_frame s) (ensureDemoUser W p)"
  unfolding ensureDemoUser_def by (intro login_leaves; simp)

lemma refresh_core:
  "matches (snd (refreshAuthToken W t s)) = matches s \<and> redis (snd (refreshAuthToken W t s)) = redis s"
  by (simp add: refreshAuthToken_def Let_def issueTokens_core split: option.splits)

lemma login_handlers:
  "keeps (login_frame s) (sendOtp W phone)" "keeps (login_frame s) (verifyOtpLogin W phone otp)"
  "keeps (login_frame s) (registerUser W name email phone otp)"
  "keeps (login_frame s) (demoLogin W p)" "keeps (login_frame s) (googleLogin W t)"
  "keeps (login_frame s) (logoutUser usr)"
  unfolding auth_handler_defs by (intro login_leaves login_demo_user; simp)+

lemma auth_op_frame: "login_frame s (run_auth_op W op s)"
proof -
  have s: "login_frame s s" by (simp add: login_frame_def no_new_otp_def)
  have r: "login_frame s (snd (refreshAuthToken W t s))" for t
    by (simp add: login_frame_def no_new_otp_def refresh_core)
  show ?thesis
    by (cases op) (simp_all add: r keepsD [OF login_handlers(1) s] keepsD [OF login_handlers(2) s]
        keepsD [OF login_handlers(3) s] keepsD [OF login_handlers(4) s] keepsD [OF login_handlers(5) s]
        keepsD [OF login_handlers(6) s])
qed

text \<open>A new account has the first tier; a login changes no identity and no payout.\<close>

lemma keeps_kyc_update:
  "(\<And>u. kyc_ok u \<Longrightarrow> kyc_ok (f u)) \<Longrightarrow> keeps kyc_sound (modM (update_user k f))"
  by (rule keeps_modM) (rule kyc_sound_update)

lemma keeps_kyc_create: "kyc_ok v \<Longrightarrow> keeps kyc_sound (create_user W v)"
proof -
  assume v: "kyc_ok v"
  then have "kyc_ok (v\<lparr>u_name := n, u_email := e\<rparr>)" for n e
    by (simp add: kyc_ok_def has_identity_def has_payout_def)
  then have "kyc_sound (snd (create_user W v s))" if "kyc_sound s" for s
    using that by (auto simp: create_user_def Let_def kyc_sound_def split: option.splits if_splits)
  then show ?thesis by (simp add: keeps_def)
qed

lemma keeps_kyc_issue: "keeps kyc_sound (issueTokens W usr)"
proof -
  have "kyc_sound (snd (issueTokens W usr s))" if "kyc_sound s" for s
    using that
    by (auto simp: issueTokens_def Let_def kyc_sound_def kyc_ok_def has_identity_def has_payout_def
        split: option.splits if_splits)
  then show ?thesis by (simp add: keeps_def)
qed

lemma keeps_kyc_otp: "keeps kyc_sound (generateOTP W key)" "keeps kyc_sound (verifyOTP W key otp)"
  by (simp_all add: keeps_def kyc_sound_def)

lemma kyc_ok_new:
  "kyc_ok (registered_user n e p now)" "kyc_ok (google_user pl e now)"
  "kyc_ok ((new_user n e p rs now)\<lparr>u_phoneVerified := True, u_emailVerified := True\<rparr>)"
  "kyc_ok u \<Longrightarrow> kyc_ok (refresh_demo_user rs u)"
  "kyc_ok u \<Longrightarrow> kyc_ok (u\<lparr>u_emailVerified := b\<rparr>)" "kyc_ok u \<Longrightarrow> kyc_ok (u\<lparr>u_refreshTokenHash := h\<rparr>)"
  by (simp_all add: registered_user_def google_user_def new_user_def refresh_demo_user_def Let_def
      kyc_ok_def has_identity_def has_payout_def)

lemmas kyc_leaves = keeps_intros keeps_kyc_update keeps_kyc_create keeps_kyc_issue keeps_kyc_otp

lemma kyc_handlers:
  "keeps kyc_sound (sendOtp W phone)" "keeps kyc_sound (verifyOtpLogin W phone otp)"
  "keeps kyc_sound (registerUser W name email phone otp)"
  "keeps kyc_sound (demoLogin W p)" "keeps kyc_sound (googleLogin W t)" "keeps kyc_sound (logoutUser usr)"
  unfolding auth_handler_defs sendSmsOTP_def ensureDemoUser_def by (intro kyc_leaves; simp add: kyc_ok_new)+

lemma auth_op_kyc: "kyc_sound s \<Longrightarrow> kyc_sound (run_auth_op W op s)"
proof -
  assume s: "kyc_sound s"
  have r: "kyc_sound (snd (refreshAuthToken W t s))" for t
    using s keepsD [OF keeps_kyc_issue s] by (simp add: refreshAuthToken_def Let_def split: option.splits)
  show ?thesis
    by (cases op) (simp_all add: r keepsD [OF kyc_handlers(1) s] keepsD [OF kyc_handlers(2) s]
        keepsD [OF kyc_handlers(3) s] keepsD [OF kyc_handlers(4) s] keepsD [OF kyc_handlers(5) s]
        keepsD [OF kyc_handlers(6) s])
qed

section \<open>The accounts depend on the frame only\<close>

lemma accounts_find:
  "accounts s = accounts t \<Longrightarrow> findById (users s) k = Some u \<Longrightarrow>
     \<exists>v. findById (users t) k = Some v \<and> ident v = ident u"
proof -
  have m: "map_of (accounts s) k = map_option ident (findById (users s) k)" for s
    by (simp add: accounts_def findById_def map_of_map comp_def)
  assume "accounts s = accounts t" "findById (users s) k = Some u"
  with m [of s] m [of t] show ?thesis by auto
qed

lemma ident_fields:
  assumes "ident v = ident u"
  shows "u_email v = u_email u" "u_phone v = u_phone u" "kyc_ok v = kyc_ok u"
    "u_refreshTokenHash v = u_refreshTokenHash u" "u_isActive v = u_isActive u"
proof -
  from assms have k: "kyc_ok (ident v) = kyc_ok (ident u)" by simp
  show "u_email v = u_email u" "u_phone v = u_phone u" "u_refreshTokenHash v = u_refreshTokenHash u"
    "u_isActive v = u_isActive u"
    using arg_cong [OF assms, of u_email] arg_cong [OF assms, of u_phone]
      arg_cong [OF assms, of u_refreshTokenHash] arg_cong [OF assms, of u_isActive]
    by (simp_all add: ident_def)
  show "kyc_ok v = kyc_ok u" using k by (simp add: ident_def kyc_ok_def has_identity_def has_payout_def)
qed

lemma accounts_sound:
  assumes "accounts t = accounts s" "unique_contacts s \<and> kyc_sound s"
  shows "unique_contacts t \<and> kyc_sound t"
proof
  show "kyc_sound t"
    unfolding kyc_sound_def
  proof (intro allI impI)
    fix k u
    assume "findById (users t) k = Some u"
    from accounts_find [OF assms(1) this] obtain v where "findById (users s) k = Some v" "ident v = ident u" by blast
    with assms(2) ident_fields(3) [of v u] show "kyc_ok u" by (auto simp: kyc_sound_def)
  qed
  show "unique_contacts t"
    unfolding unique_contacts_def
  proof (intro allI impI)
    fix k u k' u'
    assume f: "findById (users t) k = Some u" "findById (users t) k' = Some u'" "k \<noteq> k'"
    from accounts_find [OF assms(1) f(1)] obtain v where v: "findById (users s) k = Some v" "ident v = ident u" by blast
    from accounts_find [OF assms(1) f(2)] obtain v' where v': "findById (users s) k' = Some v'" "ident v' = ident u'" by blast
    from assms(2) unique_contactsD [OF _ v(1) v'(1) f(3)]
    show "u_email u \<noteq> u_email u' \<and> u_phone u \<noteq> u_phone u'"
      using ident_fields(1,2) [OF v(2)] ident_fields(1,2) [OF v'(2)] by simp
  qed
qed

section \<open>Reachable states\<close>

datatype worker_run =
    MatchWorker string oid | PayoutWorker string oid | ReminderWorker string oid
  | SlaAudit | PaymentReconciler | RelayFlush "oid \<Rightarrow> outbox_event \<Rightarrow> string option" bool | RelayStart "oid \<Rightarrow> outbox_event \<Rightarrow> string option"

fun run_worker :: "world \<Rightarrow> worker_run \<Rightarrow> db \<Rightarrow> db" where
  "run_worker W (MatchWorker n rid) s = snd (match_job W n rid s)"
| "run_worker W (PayoutWorker n mid) s = snd (payout_job W n mid s)"
| "run_worker W (ReminderWorker n tid) s = reminder_job W n tid s"
| "run_worker W SlaAudit s = snd (processSlaRematchAudit W s)"
| "run_worker W PaymentReconciler s = snd (processPaymentReconciliation s)"
| "run_worker W (RelayFlush send running) s = snd (flushOutboxBatch W send running s)"
| "run_worker W (RelayStart send) s = snd (startOutboxRelay W send s)"

text \<open>
  A job may be run at any time, again, or for any document: BullMQ delivers at least once.  Every
  request may find other answers of the rate limiters and the parsers.
\<close>

inductive service :: "world \<Rightarrow> db \<Rightarrow> bool" for W where
  start: "service W (empty_db now)"
| request: "service W s \<Longrightarrow> service W (snd (handle W A ep rq s))"
| worker: "service W s \<Longrightarrow> service W (run_worker W w s)"
| wait: "service W s \<Longrightarrow> clock s \<le> now \<Longrightarrow> service W (s\<lparr>clock := now\<rparr>)"

definition service_ok :: "db \<Rightarrow> bool" where
  "service_ok s \<longleftrightarrow> journey s \<and> one_match s \<and> unique_contacts s \<and> kyc_sound s"

lemma service_ok_core: "service_ok s \<longleftrightarrow> core (redis s) s \<and> unique_contacts s \<and> kyc_sound s"
  by (auto simp: service_ok_def core_def)

lemma service_ok_keeps:
  assumes "service_ok s" "\<And>R. keeps (core R) m" "\<And>A. keeps (accounts_are A) m"
  shows "service_ok (snd (m s))"
proof -
  from assms(1) have "core (redis s) (snd (m s))"
    using keepsD [OF assms(2)] by (simp add: service_ok_core)
  moreover have "accounts (snd (m s)) = accounts s"
    using keepsD [OF assms(3) [of "accounts s"], of s] by (simp add: accounts_are_def)
  ultimately show ?thesis
    using assms(1) accounts_sound [of "snd (m s)" s] by (auto simp: service_ok_def core_def)
qed

lemma service_ok_silent:
  "service_ok s \<Longrightarrow> users t = users s \<Longrightarrow> matches t = matches s \<Longrightarrow> redis t = redis s \<Longrightarrow> service_ok t"
  by (simp add: service_ok_def journey_def one_match_def unique_contacts_def kyc_sound_def)

lemma accounts_kept: "keeps (accounts_are (accounts s)) m \<Longrightarrow> accounts (snd (m s)) = accounts s"
  using keepsD [of "accounts_are (accounts s)" m s] by (simp add: accounts_are_def)

lemmas match_ops_kept =
  accounts_match_ops [THEN accounts_kept] accounts_carrierAccept [THEN accounts_kept]
  accounts_payout_job [THEN accounts_kept]

lemma exec_accounts: "accounts (exec W op s) = accounts s"
  by (cases op) (simp_all add: match_ops_kept)

lemma service_ok_exec: "service_ok s \<Longrightarrow> service_ok (exec W op s)"
  using exec_journey [of s W op] exec_one_match [of s W op] accounts_sound [OF exec_accounts [of W op s]]
  by (simp add: service_ok_def)

lemma service_ok_user:
  assumes "service_ok s" "valid_user_op op"
  shows "service_ok (run_user_op W usr op s)"
proof -
  from assms(1) have "core (redis s) (run_user_op W usr op s)"
    by (intro user_op_core) (simp add: service_ok_core)
  moreover from assms have "unique_contacts (run_user_op W usr op s)" "kyc_sound (run_user_op W usr op s)"
    by (simp_all add: service_ok_def user_op_contacts user_op_kyc_sound)
  ultimately show ?thesis by (simp add: service_ok_def core_def)
qed

lemma service_ok_auth: "service_ok s \<Longrightarrow> service_ok (run_auth_op W op s)"
proof -
  assume s: "service_ok s"
  then have J: "journey s" "one_match s" and U: "unique_contacts s" "kyc_sound s"
    by (simp_all add: service_ok_def)
  have f: "matches (run_auth_op W op s) = matches s" "no_new_otp s (run_auth_op W op s)"
    using auth_op_frame [of s W op] by (simp_all add: login_frame_def)
  have "journey (run_auth_op W op s)"
    by (rule journey_quiet [OF J(1) follows_same [OF f(1), of "\<lambda>_ _. False" "[]"] f(2)]) simp
  moreover have "one_match (run_auth_op W op s)"
    by (rule one_match_kept [OF J(2)]) (simp add: f)
  ultimately show ?thesis
    using auth_op_contacts [OF U(1)] auth_op_kyc [OF U(2)] by (simp add: service_ok_def)
qed

text \<open>The schema of the payout route leaves two methods only.\<close>

lemma valid_op_of_body:
  assumes "conforms W sch b" "body_schema (UserRoute r) = Some sch" "user_op_of r b = Some op"
  shows "valid_user_op op"
  using assms
  by (cases r) (auto simp: body_schema_def schema_defs decode_payout_def js_text_def split: json.splits)

lemma payout_has_schema: "user_op_of r b = Some (SavePayout p) \<Longrightarrow> body_schema (UserRoute r) = Some saveCarrierPayoutSchema"
  by (cases r) (simp_all add: body_schema_def)

lemma service_ok_request: "service_ok s \<Longrightarrow> service_ok (snd (handle W A ep rq s))"
proof (cases "run_guards W A (clock s) rq (route_guards ep) (None, sanitizeNoSql (rq_body rq))")
  case (Inl e)
  moreover assume "service_ok s"
  ultimately show ?thesis by (simp add: handle_def)
next
  case (Inr ub)
  assume s: "service_ok s"
  obtain u b where ub: "ub = (u, b)" by fastforce
  have h: "snd (handle W A ep rq s) = snd (controller W A ep rq u b s)"
    by (simp add: handle_def Inr ub split: prod.splits sum.splits)
  show ?thesis
  proof (cases ep)
    case (AuthRoute r)
    with h s show ?thesis by (simp add: auth_controller_op service_ok_auth)
  next
    case (UserRoute r)
    have "valid_user_op op" if op: "user_op_of r b = Some op" for op
    proof (cases "\<exists>p. op = SavePayout p")
      case True
      with op payout_has_schema have "body_schema ep = Some saveCarrierPayoutSchema" by (auto simp: UserRoute)
      with body_conforms [OF Inr [unfolded ub]] op UserRoute show ?thesis
        by (blast intro: valid_op_of_body)
    next
      case False
      then show ?thesis by (cases op) auto
    qed
    with h s UserRoute show ?thesis
      by (auto simp: user_controller_op service_ok_user split: option.splits)
  next
    case (TripRoute r)
    with h service_ok_keeps [OF s core_controllers(1) accounts_controllers(1)] show ?thesis by simp
  next
    case (DeliveryRoute r)
    with h service_ok_keeps [OF s core_controllers(2) accounts_controllers(2)] show ?thesis by simp
  next
    case (MatchRoute r)
    with h s show ?thesis by (auto simp: match_controller_exec service_ok_exec split: option.splits)
  next
    case (PaymentRoute r)
    with h service_ok_keeps [OF s core_controllers(3) accounts_controllers(4)] show ?thesis by simp
  next
    case (PricingRoute r)
    with h service_ok_keeps [OF s core_controllers(4) accounts_controllers(5)] show ?thesis by simp
  next
    case (InternalRoute r)
    with h service_ok_keeps [OF s core_controllers(5) accounts_controllers(6)] show ?thesis by simp
  next
    case WebhookPing
    with h s show ?thesis by simp
  qed
qed

lemma flush_frame: "\<exists>c. snd (flushOutboxBatch W send running s) = s\<lparr>outbox := c\<rparr>"
proof (cases running)
  case True
  then show ?thesis by (intro exI [of _ "outbox s"]) (simp add: flushOutboxBatch_def)
next
  case False
  obtain evs s1 where c: "claimOutboxBatch (OUTBOX_BATCH_SIZE W) s = (evs, s1)" by fastforce
  then have "claim_loop (OUTBOX_BATCH_SIZE W) (clock s) s = (evs, s1)" by (simp add: claimOutboxBatch_def)
  then obtain c1 where "s1 = s\<lparr>outbox := c1\<rparr>" using claim_loop_frame by blast
  moreover obtain c2 where "fold (publish_event W send) evs s1 = s1\<lparr>outbox := c2\<rparr>"
    using publish_events_frame by blast
  ultimately show ?thesis using c False by (auto simp: flushOutboxBatch_def)
qed

lemma reminder_job_frame [simp]: "matches (reminder_job W n tid s) = matches s" "redis (reminder_job W n tid s) = redis s"
proof -
  have "matches (fold f xs t) = matches t \<and> redis (fold f xs t) = redis t"
    if "\<And>x t. matches (f x t) = matches t \<and> redis (f x t) = redis t" for f :: "'b \<Rightarrow> db \<Rightarrow> db" and xs t
    using that by (induction xs arbitrary: t) auto
  note this [simp]
  show "matches (reminder_job W n tid s) = matches s" "redis (reminder_job W n tid s) = redis s"
    by (auto simp: reminder_job_def split: option.splits prod.splits)
qed

lemma service_ok_worker: "service_ok s \<Longrightarrow> service_ok (run_worker W w s)"
proof (cases w)
  case (MatchWorker n rid)
  assume "service_ok s"
  with MatchWorker service_ok_keeps [OF _ core_match_job accounts_match_job] show ?thesis by simp
next
  case (PayoutWorker n mid)
  assume "service_ok s"
  with PayoutWorker service_ok_exec [of s W "PayoutJob n mid"] show ?thesis by simp
next
  case (ReminderWorker n tid)
  assume "service_ok s"
  with ReminderWorker show ?thesis by (simp add: service_ok_silent [of s])
next
  case SlaAudit
  assume "service_ok s"
  with SlaAudit service_ok_keeps [OF _ core_workers(1) accounts_workers(1)] show ?thesis by simp
next
  case PaymentReconciler
  assume "service_ok s"
  with PaymentReconciler service_ok_keeps [OF _ core_workers(2) accounts_workers(2)] show ?thesis by simp
next
  case (RelayFlush send running)
  assume "service_ok s"
  with RelayFlush flush_frame [of W send running s] show ?thesis by (auto simp: service_ok_silent [of s])
next
  case (RelayStart send)
  assume "service_ok s"
  with RelayStart flush_frame [of W send False "requeueProcessingOutboxEvents s"] show ?thesis
    by (auto simp: startOutboxRelay_def requeueProcessingOutboxEvents_def service_ok_silent [of s])
qed

lemma service_sound: "service W s \<Longrightarrow> service_ok s"
proof (induction rule: service.induct)
  case (start now)
  show ?case
    by (simp add: service_ok_def journey_def one_match_def unique_contacts_def kyc_sound_def empty_db_def findById_def)
next
  case (wait s now)
  then show ?case by (simp add: service_ok_silent [of s])
qed (simp_all add: service_ok_request service_ok_worker)

end
