(* ===== verification/Sessions.thy ===== *)
theory Sessions
  imports System
begin

text \<open>
  Sessions across the whole API: which requests can give a user a session.  The other services
  keep the accounts (\<open>Frames\<close>), the operations of a user keep or drop the session, and the logins
  check an identity (\<open>Auth\<close>).
\<close>

lemma put_payout_hash: "put_payout p u = Inr v \<Longrightarrow> u_refreshTokenHash v = u_refreshTokenHash u"
  by (auto simp: put_payout_def split: if_splits)

lemma hash_kept [simp]:
  "u_refreshTokenHash (put_profile p u) = u_refreshTokenHash u"
  "u_refreshTokenHash (put_government_id W ty n u) = u_refreshTokenHash u"
  "u_refreshTokenHash (put_aadhaar W n u) = u_refreshTokenHash u"
  "u_refreshTokenHash (raise_tier u) = u_refreshTokenHash u"
  "u_refreshTokenHash (add_role r u) = u_refreshTokenHash u"
  "u_refreshTokenHash (deactivated u) = None"
  by (simp_all add: put_profile_def put_government_id_def put_aadhaar_def raise_tier_def add_role_def deactivated_def)

lemma has_session_save [simp]:
  "has_session k (save_user usr v s) = (if k = usr then truthy_str (u_refreshTokenHash v) else has_session k s)"
  by (simp add: has_session_def)

lemma has_session_user: "findById (users s) usr = Some u \<Longrightarrow> has_session usr s = truthy_str (u_refreshTokenHash u)"
  by (simp add: has_session_def)

lemma user_op_no_session:
  assumes "has_session k (run_user_op W usr op s)"
  shows "has_session k s"
proof (cases "findById (users s) usr")
  case None
  then have "run_user_op W usr op s = s"
    by (cases op) (simp_all add: user_handler_defs run_simps Let_def)
  with assms show ?thesis by simp
next
  case (Some u)
  have same: "update_user usr f s = save_user usr (f u) s" for f
    using Some by (simp add: update_user_def save_user_def findByIdAndUpdate_def)
  note here = has_session_user [OF Some]
  show ?thesis
  proof (cases op)
    case (UpdateProfile p)
    with Some assms here show ?thesis
      by (auto simp: user_handler_defs Let_def same split: if_splits)
  next
    case (VerifyGovernmentId ty n)
    with Some assms here show ?thesis
      by (auto simp: user_handler_defs run_simps same split: if_splits)
  next
    case (VerifyAadhaar n)
    with Some assms here show ?thesis
      by (auto simp: user_handler_defs run_simps Let_def split: if_splits)
  next
    case (SavePayout p)
    with Some assms here show ?thesis
      by (cases "put_payout p u")
        (auto simp: user_handler_defs run_simps Let_def dest: put_payout_hash split: if_splits)
  next
    case (SavePreferences p)
    with Some assms here show ?thesis
      by (auto simp: user_handler_defs run_simps Let_def split: if_splits)
  next
    case DeleteAccount
    with Some assms here show ?thesis
      by (auto simp: user_handler_defs run_simps split: if_splits)
  qed
qed

lemma ident_hash: "ident v = ident u \<Longrightarrow> u_refreshTokenHash v = u_refreshTokenHash u"
  by (drule arg_cong [where f = u_refreshTokenHash]) (simp add: ident_def)

lemma accounts_session:
  assumes "accounts s = accounts t"
  shows "has_session k s = has_session k t"
proof -
  have "has_session k t" if "has_session k s" "accounts s = accounts t" for s t
  proof -
    from that(1) obtain u where u: "findById (users s) k = Some u" "truthy_str (u_refreshTokenHash u)"
      by (auto simp: has_session_def split: option.splits)
    with accounts_find [OF that(2) u(1)] show ?thesis
      using ident_hash by (metis has_session_user)
  qed
  with assms show ?thesis by metis
qed

text \<open>A request gives a user a session only through a login that has checked an identity.\<close>

lemma new_session_by_login:
  assumes "distinct (map fst (users s))" "\<not> has_session k s" "has_session k (snd (handle W A ep rq s))"
  obtains r u b where "ep = AuthRoute r"
    "run_guards W A (clock s) rq (route_guards ep) (None, sanitizeNoSql (rq_body rq)) = Inr (u, b)"
    "identity_checked W (auth_op_of r (user_id u) b) s k"
proof (cases "run_guards W A (clock s) rq (route_guards ep) (None, sanitizeNoSql (rq_body rq))")
  case (Inl e)
  with assms show thesis by (simp add: handle_def)
next
  case (Inr ub)
  obtain u b where ub: "ub = (u, b)" by fastforce
  have h: "snd (handle W A ep rq s) = snd (controller W A ep rq u b s)"
    by (simp add: handle_def Inr ub split: prod.splits sum.splits)
  have quiet: False if "keeps (accounts_are (accounts s)) (controller W A ep rq u b)"
    using assms(2,3) accounts_session [OF accounts_kept [OF that]] h by simp
  show thesis
  proof (cases ep)
    case (AuthRoute r)
    with h have "snd (handle W A ep rq s) = run_auth_op W (auth_op_of r (user_id u) b) s"
      by (simp add: auth_controller_op)
    with AuthRoute session_needs_identity [OF assms(1,2)] assms(3) that Inr ub show thesis by metis
  next
    case (UserRoute r)
    with h assms(2,3) have "has_session k (case user_op_of r b of None \<Rightarrow> s | Some op \<Rightarrow> run_user_op W (user_id u) op s)"
      by (simp add: user_controller_op)
    with user_op_no_session [of k W "user_id u"] assms(2) show thesis by (auto split: option.splits)
  next
    case WebhookPing
    with h assms(2,3) show thesis by (simp add: snd_answerM)
  qed (use quiet accounts_controllers in \<open>auto\<close>)
qed

section \<open>Who needs no session\<close>

text \<open>
  The endpoints open to everybody: the logins, a price estimate, and the webhook with its probe.
  The internal routes ask for the token of the internal services instead.
\<close>

fun public_endpoint :: "endpoint \<Rightarrow> bool" where
  "public_endpoint (AuthRoute r) = (r \<noteq> LogoutE)"
| "public_endpoint (PricingRoute r) = (r = EstimateE)"
| "public_endpoint (PaymentRoute r) = (r = WebhookE)"
| "public_endpoint WebhookPing = True"
| "public_endpoint _ = False"

lemma needs_auth:
  assumes "\<not> public_endpoint ep" "\<And>r. ep \<noteq> InternalRoute r"
  shows "NeedAuth \<in> set (route_guards ep)"
proof (cases ep)
  case (AuthRoute r)
  with assms show ?thesis by (cases r) auto
next
  case (UserRoute r)
  then show ?thesis by (cases r) auto
next
  case (TripRoute r)
  then show ?thesis by (cases r) auto
next
  case (DeliveryRoute r)
  then show ?thesis by (cases r) auto
next
  case (MatchRoute r)
  then show ?thesis by (cases r) auto
next
  case (PaymentRoute r)
  with assms show ?thesis by (cases r) auto
next
  case (PricingRoute r)
  with assms show ?thesis by (cases r) auto
qed (use assms in auto)

lemma needs_internal: "NeedInternal \<in> set (route_guards (InternalRoute r))"
  by (cases r) auto

text \<open>A body that reaches a controller has been through the schema of its endpoint.\<close>

lemma handle_body:
  assumes "body_schema ep = Some sch"
  shows "(\<exists>e. handle W A ep rq s = (failure W e, s)) \<or>
     (\<exists>u b. snd (handle W A ep rq s) = snd (controller W A ep rq u b s) \<and>
        conforms W sch b \<and> operator_free b \<and> zparse W sch b = Some b)"
proof (cases "run_guards W A (clock s) rq (route_guards ep) (None, sanitizeNoSql (rq_body rq))")
  case (Inl e)
  then have "handle W A ep rq s = (failure W e, s)" by (simp add: handle_def)
  then show ?thesis by blast
next
  case (Inr ub)
  obtain u b where ub: "ub = (u, b)" by fastforce
  have "snd (handle W A ep rq s) = snd (controller W A ep rq u b s)"
    by (simp add: handle_def Inr ub split: prod.splits sum.splits)
  with body_conforms [OF Inr [unfolded ub] assms] show ?thesis by blast
qed

end
