(* ===== verification/Client.thy ===== *)
theory Client
  imports Users "HOL-Library.Multiset"
begin

text \<open>
  The browser's side of a session: \<open>shared/src/auth/index.ts\<close> (the store of tokens),
  \<open>shared/src/api/index.ts\<close> (the HTTP client that refreshes an expired token once for all waiting
  requests) and \<open>shared/src/hooks/useSocketStatus.ts\<close>.  JavaScript runs each callback to its end,
  so one event of the model is one callback: a call is issued, an answer arrives, the refresh
  answers.  Telemetry is left out.
\<close>

section \<open>The auth store\<close>

record auth_state =
  as_user :: "json option"
  as_accessToken :: "string option"
  as_refreshToken :: "string option"
  as_isBootstrapping :: bool

definition initial_auth :: auth_state where
  "initial_auth = \<lparr> as_user = None, as_accessToken = None, as_refreshToken = None, as_isBootstrapping = False \<rparr>"

definition setAuth :: "json option \<Rightarrow> string option \<Rightarrow> string option \<Rightarrow> auth_state \<Rightarrow> auth_state" where
  "setAuth usr access refresh a =
     a\<lparr>as_user := usr, as_accessToken := access, as_refreshToken := refresh, as_isBootstrapping := False\<rparr>"

definition updateUser :: "(string \<times> json) list \<Rightarrow> auth_state \<Rightarrow> auth_state" where
  "updateUser changes a =
     a\<lparr>as_user := (case as_user a of Some (JObj kvs) \<Rightarrow> Some (JObj (AList.updates (map fst changes) (map snd changes) kvs))
                   | u \<Rightarrow> u)\<rparr>"

definition setBootstrapping :: "bool \<Rightarrow> auth_state \<Rightarrow> auth_state" where
  "setBootstrapping b a = a\<lparr>as_isBootstrapping := b\<rparr>"

definition clearAuth :: "auth_state \<Rightarrow> auth_state" where
  "clearAuth a =
     a\<lparr>as_user := None, as_accessToken := None, as_refreshToken := None, as_isBootstrapping := False\<rparr>"

definition isAuthenticated :: "auth_state \<Rightarrow> bool" where
  "isAuthenticated a \<longleftrightarrow> as_user a \<noteq> None \<and> truthy_str (as_accessToken a)"

text \<open>What \<open>persist\<close> writes to the local storage, and the store after a reload.\<close>

definition partialize :: "auth_state \<Rightarrow> json option \<times> string option \<times> string option" where
  "partialize a = (as_user a, as_accessToken a, as_refreshToken a)"

fun rehydrate :: "json option \<times> string option \<times> string option \<Rightarrow> auth_state" where
  "rehydrate (usr, access, refresh) =
     initial_auth\<lparr>as_user := usr, as_accessToken := access, as_refreshToken := refresh\<rparr>"

lemma reload_keeps_session: "\<not> as_isBootstrapping a \<Longrightarrow> rehydrate (partialize a) = a"
  by (simp add: partialize_def initial_auth_def)

section \<open>The address of the service\<close>

definition ends_with :: "string \<Rightarrow> string \<Rightarrow> bool" where
  "ends_with s p \<longleftrightarrow> startsWith (rev s) (rev p)"

definition strip_slash :: "string \<Rightarrow> string" where
  "strip_slash s = (if s \<noteq> [] \<and> last s = CHR ''/'' then butlast s else s)"

definition buildApiBaseUrl :: "string option \<Rightarrow> string option \<Rightarrow> string" where
  "buildApiBaseUrl apiUrl hostname =
     (if truthy_str apiUrl \<and> trim (the apiUrl) \<noteq> []
      then let trimmed = strip_slash (trim (the apiUrl))
           in if ends_with trimmed ''/api/v1'' then trimmed else trimmed @ ''/api/v1''
      else if (case hostname of None \<Rightarrow> False | Some h \<Rightarrow> strIncludes h ''vercel.app'')
      then ''https://hop-drop-backend.vercel.app/api/v1''
      else ''/api/v1'')"

lemma ends_with_append [simp]: "ends_with (s @ t) t"
  by (simp add: ends_with_def)

lemma base_url_versioned: "ends_with (buildApiBaseUrl apiUrl hostname) ''/api/v1''"
proof -
  have "ends_with ''https://hop-drop-backend.vercel.app/api/v1'' ''/api/v1''" "ends_with ''/api/v1'' ''/api/v1''"
    by (simp_all add: ends_with_def)
  then show ?thesis by (simp add: buildApiBaseUrl_def Let_def)
qed

section \<open>Calls and their outcomes\<close>

text \<open>An answer is a success or an error with its status; no status means no answer (network).\<close>

datatype reply = Success | Failure "int option"

datatype client_error = HttpError "int option" | NoRefreshToken | RefreshFailed

datatype outcome = Resolved | Rejected client_error

record call =
  ca_id :: nat
  ca_retry :: bool
  ca_authorization :: "string option"

record client =
  cl_auth :: auth_state
  cl_isRefreshing :: bool
  cl_pendingQueue :: "call list"
  cl_leader :: "(call \<times> string) option"
  cl_flight :: "call list"
  cl_settled :: "(nat \<times> outcome) list"
  cl_toasts :: nat
  cl_next :: nat

definition initial_client :: "auth_state \<Rightarrow> client" where
  "initial_client a =
     \<lparr> cl_auth = a, cl_isRefreshing = False, cl_pendingQueue = [], cl_leader = None, cl_flight = [],
       cl_settled = [], cl_toasts = 0, cl_next = 0 \<rparr>"

text \<open>The request interceptor, and sending a call.\<close>

definition bearer :: "string \<Rightarrow> string" where
  "bearer token = ''Bearer '' @ token"

definition request_interceptor :: "auth_state \<Rightarrow> call \<Rightarrow> call" where
  "request_interceptor a c =
     (if truthy_str (as_accessToken a) then c\<lparr>ca_authorization := Some (bearer (the (as_accessToken a)))\<rparr> else c)"

definition send_call :: "call \<Rightarrow> client \<Rightarrow> client" where
  "send_call c cl = cl\<lparr>cl_flight := cl_flight cl @ [request_interceptor (cl_auth cl) c]\<rparr>"

definition settle_call :: "nat \<Rightarrow> outcome \<Rightarrow> client \<Rightarrow> client" where
  "settle_call i out cl = cl\<lparr>cl_settled := cl_settled cl @ [(i, out)]\<rparr>"

text \<open>\<open>onRefreshed\<close>: the callbacks of the queue, each rejecting its call or sending it again.\<close>

definition resume :: "string option \<Rightarrow> call \<Rightarrow> client \<Rightarrow> client" where
  "resume token c cl =
     (if \<not> truthy_str token then settle_call (ca_id c) (Rejected (HttpError (Some 401))) cl
      else send_call (c\<lparr>ca_authorization := Some (bearer (the token))\<rparr>) cl)"

definition onRefreshed :: "string option \<Rightarrow> client \<Rightarrow> client" where
  "onRefreshed token cl = (fold (resume token) (cl_pendingQueue cl) cl)\<lparr>cl_pendingQueue := []\<rparr>"

text \<open>The \<open>catch\<close> branch of the refresh, with its \<open>finally\<close>.\<close>

definition refresh_failed :: "call \<Rightarrow> client_error \<Rightarrow> client \<Rightarrow> client" where
  "refresh_failed c e cl =
     settle_call (ca_id c) (Rejected e)
       (onRefreshed None (cl\<lparr>cl_auth := clearAuth (cl_auth cl)\<rparr>))\<lparr>cl_isRefreshing := False, cl_leader := None\<rparr>"

text \<open>The error callback of the response interceptor.\<close>

definition on_error :: "call \<Rightarrow> int option \<Rightarrow> client \<Rightarrow> client" where
  "on_error c status cl =
     (if status \<noteq> Some 401 \<or> ca_retry c
      then settle_call (ca_id c) (Rejected (HttpError status))
             (case status of Some n \<Rightarrow> if n \<ge> 500 then cl\<lparr>cl_toasts := cl_toasts cl + 1\<rparr> else cl | None \<Rightarrow> cl)
      else let c' = c\<lparr>ca_retry := True\<rparr>
           in if cl_isRefreshing cl then cl\<lparr>cl_pendingQueue := cl_pendingQueue cl @ [c']\<rparr>
              else let started = cl\<lparr>cl_isRefreshing := True\<rparr>
                   in if \<not> truthy_str (as_refreshToken (cl_auth cl)) then refresh_failed c' NoRefreshToken started
                      else started\<lparr>cl_leader := Some (c', the (as_refreshToken (cl_auth cl)))\<rparr>)"

text \<open>The answer to \<open>/auth/refresh\<close>: no answer or an error, or the \<open>data\<close> of the body.\<close>

definition token_of :: "json \<Rightarrow> string option" where
  "token_of j = (case j of JStr t \<Rightarrow> Some t | _ \<Rightarrow> None)"

definition user_of :: "json \<Rightarrow> json option" where
  "user_of j = (if j = JUndef \<or> j = JNull then None else Some j)"

definition on_refresh :: "call \<Rightarrow> json option \<Rightarrow> client \<Rightarrow> client" where
  "on_refresh c answer cl =
     (case answer of
        None \<Rightarrow> refresh_failed c RefreshFailed cl
      | Some data \<Rightarrow>
          (if data = JUndef \<or> data = JNull then refresh_failed c RefreshFailed cl
           else let access = token_of (jget data ''accessToken'');
                    cl1 = cl\<lparr>cl_auth := setAuth (user_of (jget data ''user'')) access (token_of (jget data ''refreshToken'')) (cl_auth cl)\<rparr>;
                    cl2 = onRefreshed access cl1
                in (send_call (c\<lparr>ca_authorization := Some (bearer (case access of None \<Rightarrow> ''undefined'' | Some t \<Rightarrow> t))\<rparr>) cl2)
                     \<lparr>cl_isRefreshing := False, cl_leader := None\<rparr>))"

datatype client_event = Issue | Reply nat reply | RefreshAnswer "json option"

fun client_step :: "client_event \<Rightarrow> client \<Rightarrow> client option" where
  "client_step Issue cl =
     Some (send_call \<lparr> ca_id = cl_next cl, ca_retry = False, ca_authorization = None \<rparr> (cl\<lparr>cl_next := cl_next cl + 1\<rparr>))"
| "client_step (Reply i r) cl =
     (case find (\<lambda>c. ca_id c = i) (cl_flight cl) of
        None \<Rightarrow> None
      | Some c \<Rightarrow>
          let cl' = cl\<lparr>cl_flight := remove1 c (cl_flight cl)\<rparr>
          in Some (case r of Success \<Rightarrow> settle_call i Resolved cl' | Failure status \<Rightarrow> on_error c status cl'))"
| "client_step (RefreshAnswer answer) cl =
     (case cl_leader cl of None \<Rightarrow> None | Some (c, _) \<Rightarrow> Some (on_refresh c answer cl))"

fun client_run :: "client_event list \<Rightarrow> client \<Rightarrow> client option" where
  "client_run [] cl = Some cl"
| "client_run (e # es) cl = (case client_step e cl of None \<Rightarrow> None | Some cl' \<Rightarrow> client_run es cl')"

section \<open>Where the calls are\<close>

definition leading :: "client \<Rightarrow> call list" where
  "leading cl = (case cl_leader cl of None \<Rightarrow> [] | Some (c, _) \<Rightarrow> [c])"

definition whereabouts :: "client \<Rightarrow> nat multiset" where
  "whereabouts cl =
     mset (map ca_id (cl_flight cl)) + mset (map ca_id (cl_pendingQueue cl)) + mset (map ca_id (leading cl)) +
     mset (map fst (cl_settled cl))"

text \<open>
  The invariant: every call issued is in exactly one place and is settled at most once; a refresh
  is under way exactly when it has a leader, and only then calls wait; those who wait have used
  their retry.
\<close>

definition client_ok :: "client \<Rightarrow> bool" where
  "client_ok cl \<longleftrightarrow>
     whereabouts cl = mset [0..<cl_next cl] \<and>
     (cl_isRefreshing cl \<longleftrightarrow> cl_leader cl \<noteq> None) \<and>
     (cl_pendingQueue cl \<noteq> [] \<longrightarrow> cl_isRefreshing cl) \<and>
     (\<forall>c \<in> set (cl_pendingQueue cl @ leading cl). ca_retry c)"

text \<open>The work left: a first answer, a refresh, a second answer.\<close>

definition call_work :: "call \<Rightarrow> nat" where
  "call_work c = (if ca_retry c then 1 else 3)"

definition work :: "client \<Rightarrow> nat" where
  "work cl = sum_list (map call_work (cl_flight cl)) + 2 * length (cl_pendingQueue cl) + 2 * length (leading cl)"

lemma interceptor_fields [simp]:
  "ca_id (request_interceptor a c) = ca_id c" "ca_retry (request_interceptor a c) = ca_retry c"
  by (simp_all add: request_interceptor_def)

lemma send_call_fields [simp]:
  "cl_auth (send_call c cl) = cl_auth cl" "cl_pendingQueue (send_call c cl) = cl_pendingQueue cl"
  "cl_leader (send_call c cl) = cl_leader cl" "cl_settled (send_call c cl) = cl_settled cl"
  "cl_isRefreshing (send_call c cl) = cl_isRefreshing cl" "cl_next (send_call c cl) = cl_next cl"
  "cl_flight (send_call c cl) = cl_flight cl @ [request_interceptor (cl_auth cl) c]"
  by (simp_all add: send_call_def)

lemma settle_fields [simp]:
  "cl_auth (settle_call i out cl) = cl_auth cl" "cl_pendingQueue (settle_call i out cl) = cl_pendingQueue cl"
  "cl_leader (settle_call i out cl) = cl_leader cl" "cl_settled (settle_call i out cl) = cl_settled cl @ [(i, out)]"
  "cl_isRefreshing (settle_call i out cl) = cl_isRefreshing cl" "cl_next (settle_call i out cl) = cl_next cl"
  "cl_flight (settle_call i out cl) = cl_flight cl"
  by (simp_all add: settle_call_def)

text \<open>What the callbacks of the queue do, all together.\<close>

lemma resume_all_auth:
  "cl_auth (fold (resume token) cs cl) = cl_auth cl \<and> cl_pendingQueue (fold (resume token) cs cl) = cl_pendingQueue cl \<and>
   cl_leader (fold (resume token) cs cl) = cl_leader cl \<and> cl_isRefreshing (fold (resume token) cs cl) = cl_isRefreshing cl \<and>
   cl_next (fold (resume token) cs cl) = cl_next cl"
  by (induction cs arbitrary: cl) (simp_all add: resume_def)

lemmas resume_fields [simp] = resume_all_auth [THEN conjunct1] resume_all_auth [THEN conjunct2, THEN conjunct1]
  resume_all_auth [THEN conjunct2, THEN conjunct2, THEN conjunct1]
  resume_all_auth [THEN conjunct2, THEN conjunct2, THEN conjunct2, THEN conjunct1]
  resume_all_auth [THEN conjunct2, THEN conjunct2, THEN conjunct2, THEN conjunct2]

lemma resume_all_rejected:
  "\<not> truthy_str token \<Longrightarrow>
   cl_flight (fold (resume token) cs cl) = cl_flight cl \<and>
   cl_settled (fold (resume token) cs cl) =
     cl_settled cl @ map (\<lambda>c. (ca_id c, Rejected (HttpError (Some 401)))) cs"
  by (induction cs arbitrary: cl) (simp_all add: resume_def)

lemma resume_all_sent:
  "truthy_str token \<Longrightarrow>
   cl_settled (fold (resume token) cs cl) = cl_settled cl \<and>
   cl_flight (fold (resume token) cs cl) =
     cl_flight cl @ map (\<lambda>c. request_interceptor (cl_auth cl) (c\<lparr>ca_authorization := Some (bearer (the token))\<rparr>)) cs"
  by (induction cs arbitrary: cl) (simp_all add: resume_def)

lemma onRefreshed_fields [simp]:
  "cl_auth (onRefreshed token cl) = cl_auth cl" "cl_pendingQueue (onRefreshed token cl) = []"
  "cl_leader (onRefreshed token cl) = cl_leader cl" "cl_isRefreshing (onRefreshed token cl) = cl_isRefreshing cl"
  "cl_next (onRefreshed token cl) = cl_next cl"
  by (simp_all add: onRefreshed_def)

lemma onRefreshed_calls:
  "\<not> truthy_str token \<Longrightarrow> cl_flight (onRefreshed token cl) = cl_flight cl"
  "\<not> truthy_str token \<Longrightarrow> cl_settled (onRefreshed token cl) =
     cl_settled cl @ map (\<lambda>c. (ca_id c, Rejected (HttpError (Some 401)))) (cl_pendingQueue cl)"
  "truthy_str token \<Longrightarrow> cl_settled (onRefreshed token cl) = cl_settled cl"
  "truthy_str token \<Longrightarrow> cl_flight (onRefreshed token cl) = cl_flight cl @
     map (\<lambda>c. request_interceptor (cl_auth cl) (c\<lparr>ca_authorization := Some (bearer (the token))\<rparr>)) (cl_pendingQueue cl)"
  using resume_all_rejected [of token "cl_pendingQueue cl" cl] resume_all_sent [of token "cl_pendingQueue cl" cl]
  by (simp_all add: onRefreshed_def)

lemma onRefreshed_whereabouts:
  "mset (map ca_id (cl_flight (onRefreshed token cl))) + mset (map fst (cl_settled (onRefreshed token cl))) =
   mset (map ca_id (cl_flight cl)) + mset (map fst (cl_settled cl)) + mset (map ca_id (cl_pendingQueue cl))"
  by (cases "truthy_str token") (simp_all add: onRefreshed_calls comp_def)

lemma onRefreshed_work:
  assumes "\<forall>c \<in> set (cl_pendingQueue cl). ca_retry c"
  shows "sum_list (map call_work (cl_flight (onRefreshed token cl))) \<le>
     sum_list (map call_work (cl_flight cl)) + length (cl_pendingQueue cl)"
proof (cases "truthy_str token")
  case True
  have "sum_list (map (\<lambda>c. call_work (request_interceptor a (c\<lparr>ca_authorization := x\<rparr>))) cs) = length cs"
    if "\<forall>c \<in> set cs. ca_retry c" for a x and cs :: "call list"
    using that by (induction cs) (simp_all add: call_work_def)
  from this [OF assms] True show ?thesis by (simp add: onRefreshed_calls comp_def)
qed (simp add: onRefreshed_calls)

section \<open>Every step keeps track of every call\<close>

text \<open>Calls outside the leader.\<close>

definition elsewhere :: "client \<Rightarrow> nat multiset" where
  "elsewhere cl = mset (map ca_id (cl_flight cl)) + mset (map ca_id (cl_pendingQueue cl)) + mset (map fst (cl_settled cl))"

lemma whereabouts_split: "whereabouts cl = elsewhere cl + mset (map ca_id (leading cl))"
  by (simp add: whereabouts_def elsewhere_def)

lemma refresh_failed_fields [simp]:
  "cl_auth (refresh_failed c e cl) = clearAuth (cl_auth cl)" "cl_pendingQueue (refresh_failed c e cl) = []"
  "cl_leader (refresh_failed c e cl) = None" "\<not> cl_isRefreshing (refresh_failed c e cl)"
  "cl_next (refresh_failed c e cl) = cl_next cl" "cl_flight (refresh_failed c e cl) = cl_flight cl"
  "cl_settled (refresh_failed c e cl) = cl_settled cl @
     map (\<lambda>c. (ca_id c, Rejected (HttpError (Some 401)))) (cl_pendingQueue cl) @ [(ca_id c, Rejected e)]"
  by (simp_all add: refresh_failed_def onRefreshed_calls)

lemma refresh_failed_ok:
  assumes "add_mset (ca_id c) (elsewhere cl) = mset [0..<cl_next cl]"
  shows "client_ok (refresh_failed c e cl)"
  using assms by (simp add: client_ok_def whereabouts_def elsewhere_def leading_def comp_def ac_simps)

lemma refresh_failed_work: "work (refresh_failed c e cl) = sum_list (map call_work (cl_flight cl))"
  by (simp add: work_def leading_def)

lemma on_refresh_ok:
  assumes "client_ok cl" "cl_leader cl = Some (c, t)"
  shows "client_ok (on_refresh c answer cl) \<and> work (on_refresh c answer cl) < work cl"
proof -
  let ?access = "token_of (jget (the answer) ''accessToken'')"
  let ?cl1 = "cl\<lparr>cl_auth := setAuth (user_of (jget (the answer) ''user'')) ?access
      (token_of (jget (the answer) ''refreshToken'')) (cl_auth cl)\<rparr>"
  have all: "add_mset (ca_id c) (elsewhere cl) = mset [0..<cl_next cl]" and retry: "ca_retry c"
    and waiting: "\<forall>c \<in> set (cl_pendingQueue cl). ca_retry c"
    using assms by (auto simp: client_ok_def whereabouts_split leading_def)
  have failed: "client_ok (refresh_failed c e cl) \<and> work (refresh_failed c e cl) < work cl" for e
    using refresh_failed_ok [OF all] assms(2) by (simp add: refresh_failed_work work_def leading_def)
  have moved: "mset (map ca_id (cl_flight (onRefreshed ?access ?cl1))) + mset (map fst (cl_settled (onRefreshed ?access ?cl1))) =
      elsewhere cl"
    using onRefreshed_whereabouts [of ?access ?cl1] by (simp add: elsewhere_def ac_simps)
  have less: "sum_list (map call_work (cl_flight (onRefreshed ?access ?cl1))) \<le>
      sum_list (map call_work (cl_flight cl)) + length (cl_pendingQueue cl)"
    using onRefreshed_work [of ?cl1 ?access] waiting by simp
  show ?thesis
  proof (cases "answer = None \<or> answer = Some JUndef \<or> answer = Some JNull")
    case True
    with failed show ?thesis by (auto simp: on_refresh_def)
  next
    case False
    then obtain data where a: "answer = Some data" "data \<noteq> JUndef" "data \<noteq> JNull" by auto
    show ?thesis
      using moved less all retry assms(2)
      by (auto simp: a on_refresh_def Let_def client_ok_def whereabouts_def leading_def work_def call_work_def)
  qed
qed

text \<open>The response interceptor, for a call that has left the wire.\<close>

lemma on_error_ok:
  assumes "client_ok cl" "cl_flight cl = us @ c # vs"
  shows "client_ok (on_error c status (cl\<lparr>cl_flight := us @ vs\<rparr>)) \<and>
     work (on_error c status (cl\<lparr>cl_flight := us @ vs\<rparr>)) < work cl"
proof -
  let ?cl = "cl\<lparr>cl_flight := us @ vs\<rparr>" and ?c = "c\<lparr>ca_retry := True\<rparr>"
  have all: "add_mset (ca_id c) (elsewhere ?cl + mset (map ca_id (leading cl))) = mset [0..<cl_next cl]"
    using assms by (simp add: client_ok_def whereabouts_split elsewhere_def)
  have positive: "0 < call_work c" by (simp add: call_work_def)
  show ?thesis
  proof (cases "status \<noteq> Some 401 \<or> ca_retry c")
    case True
    with assms all positive show ?thesis
      by (auto simp: on_error_def client_ok_def whereabouts_def elsewhere_def leading_def work_def split: option.splits)
  next
    case fresh: False
    show ?thesis
    proof (cases "cl_isRefreshing cl")
      case True
      with assms all fresh show ?thesis
        by (auto simp: on_error_def client_ok_def whereabouts_def elsewhere_def leading_def work_def call_work_def)
    next
      case False
      with assms(1) have quiet: "cl_leader cl = None" "cl_pendingQueue cl = []"
        by (auto simp: client_ok_def simp del: not_None_eq not_Some_eq)
      with all have "add_mset (ca_id ?c) (elsewhere (?cl\<lparr>cl_isRefreshing := True\<rparr>)) = mset [0..<cl_next cl]"
        by (simp add: leading_def elsewhere_def)
      with refresh_failed_ok [of ?c "?cl\<lparr>cl_isRefreshing := True\<rparr>"] quiet fresh False assms(2) show ?thesis
        by (auto simp: on_error_def refresh_failed_work client_ok_def whereabouts_def elsewhere_def leading_def
            work_def call_work_def Let_def)
    qed
  qed
qed

lemma settle_ok:
  assumes "client_ok cl" "cl_flight cl = us @ c # vs"
  shows "client_ok (settle_call (ca_id c) out (cl\<lparr>cl_flight := us @ vs\<rparr>)) \<and>
     work (settle_call (ca_id c) out (cl\<lparr>cl_flight := us @ vs\<rparr>)) < work cl"
  using assms by (auto simp: client_ok_def whereabouts_def leading_def work_def call_work_def)

lemma find_first:
  assumes "find P xs = Some x"
  obtains us vs where "xs = us @ x # vs" "remove1 x xs = us @ vs" "P x"
proof -
  have x: "x \<in> set xs" "P x" using assms by (auto simp: find_Some_iff)
  obtain us vs where "xs = us @ x # vs" "x \<notin> set us" using split_list_first [OF x(1)] by blast
  with x that show thesis by (simp add: remove1_append)
qed

lemma issued_next: "mset_set {0..<Suc n} = add_mset n (mset_set {0..<n})"
  by (simp add: atLeastLessThanSuc)

lemma Issue_ok:
  assumes "client_ok cl" "client_step Issue cl = Some cl'"
  shows "client_ok cl' \<and> work cl' = work cl + 3"
proof -
  have "cl' = send_call \<lparr> ca_id = cl_next cl, ca_retry = False, ca_authorization = None \<rparr> (cl\<lparr>cl_next := cl_next cl + 1\<rparr>)"
    using assms(2) by simp
  moreover have "leading cl' = leading cl" using calculation by (simp add: leading_def)
  ultimately show ?thesis
    using assms(1) by (auto simp: client_ok_def whereabouts_def work_def call_work_def issued_next)
qed

theorem client_step_ok:
  assumes "client_ok cl" "client_step e cl = Some cl'"
  shows "client_ok cl' \<and> (if e = Issue then work cl' = work cl + 3 else work cl' < work cl)"
proof (cases e)
  case Issue
  with Issue_ok [OF assms(1)] assms(2) show ?thesis by (auto simp del: client_step.simps)
next
  case (Reply i r)
  with assms(2) obtain c where c: "find (\<lambda>c. ca_id c = i) (cl_flight cl) = Some c"
    by (auto split: option.splits)
  obtain us vs where uv: "cl_flight cl = us @ c # vs" "remove1 c (cl_flight cl) = us @ vs" "ca_id c = i"
    using c by (rule find_first)
  have "cl' = (case r of Success \<Rightarrow> settle_call i Resolved (cl\<lparr>cl_flight := us @ vs\<rparr>)
      | Failure status \<Rightarrow> on_error c status (cl\<lparr>cl_flight := us @ vs\<rparr>))"
    using assms(2) uv(2) by (simp add: Reply c Let_def)
  with settle_ok [OF assms(1) uv(1)] on_error_ok [OF assms(1) uv(1)] uv(3) show ?thesis
    by (cases r) (auto simp: Reply)
next
  case (RefreshAnswer answer)
  with assms(2) obtain c t where "cl_leader cl = Some (c, t)" "cl' = on_refresh c answer cl"
    by (auto split: option.splits)
  with on_refresh_ok [OF assms(1)] show ?thesis by (simp add: RefreshAnswer)
qed

section \<open>Every call is settled\<close>

lemma initial_ok: "client_ok (initial_client a)"
  by (simp add: client_ok_def initial_client_def whereabouts_def leading_def)

lemma run_ok: "client_ok cl \<Longrightarrow> client_run es cl = Some cl' \<Longrightarrow> client_ok cl'"
  by (induction es arbitrary: cl) (auto split: option.splits dest: client_step_ok)

lemma run_length:
  assumes "client_ok cl" "client_run es cl = Some cl'"
  shows "length (filter (\<lambda>e. e \<noteq> Issue) es) + work cl' \<le> work cl + 3 * length (filter (\<lambda>e. e = Issue) es)"
  using assms
proof (induction es arbitrary: cl)
  case (Cons e es)
  from Cons.prems(2) obtain cl1 where one: "client_step e cl = Some cl1" and rest: "client_run es cl1 = Some cl'"
    by (auto split: option.splits)
  have "client_ok cl1" "if e = Issue then work cl1 = work cl + 3 else work cl1 < work cl"
    using client_step_ok [OF Cons.prems(1) one] by simp_all
  with Cons.IH [OF _ rest] show ?case by (cases "e = Issue") auto
qed simp

text \<open>A call that is not settled waits for an answer that the network still owes.\<close>

definition quiescent :: "client \<Rightarrow> bool" where
  "quiescent cl \<longleftrightarrow> cl_flight cl = [] \<and> cl_leader cl = None"

lemma enabled_unless_quiescent:
  "\<not> quiescent cl \<Longrightarrow> \<exists>e. e \<noteq> Issue \<and> client_step e cl \<noteq> None"
proof -
  assume "\<not> quiescent cl"
  then consider c cs where "cl_flight cl = c # cs" | c t where "cl_leader cl = Some (c, t)"
    by (cases "cl_flight cl"; cases "cl_leader cl") (auto simp: quiescent_def)
  then show ?thesis
  proof cases
    case 1
    then have "client_step (Reply (ca_id c) Success) cl \<noteq> None" by (simp add: Let_def)
    then show ?thesis by blast
  next
    case 2
    then have "client_step (RefreshAnswer None) cl \<noteq> None" by simp
    then show ?thesis by blast
  qed
qed

lemma quiescent_settled:
  assumes "client_ok cl" "quiescent cl"
  shows "cl_pendingQueue cl = []" "mset (map fst (cl_settled cl)) = mset [0..<cl_next cl]"
  using assms by (auto simp: client_ok_def quiescent_def whereabouts_def leading_def)

text \<open>A call settled once stays settled the same way.\<close>

lemma settled_once:
  assumes "client_ok cl"
  shows "distinct (map fst (cl_settled cl))"
proof -
  obtain ys where "mset ys = mset (map ca_id (cl_flight cl)) + mset (map ca_id (cl_pendingQueue cl)) + mset (map ca_id (leading cl))"
    using ex_mset by blast
  then have "mset (ys @ map fst (cl_settled cl)) = mset [0..<cl_next cl]"
    using assms by (simp add: client_ok_def whereabouts_def)
  from mset_eq_imp_distinct_iff [OF this] show ?thesis by simp
qed

section \<open>The socket's status\<close>

datatype connection = Connected | Disconnected | Reconnecting

record socket_state =
  ss_status :: connection
  ss_attempt :: int

datatype socket_event = SocketConnect | SocketDisconnect | ReconnectAttempt int | ReconnectError

fun socket_status_step :: "socket_event \<Rightarrow> socket_state \<Rightarrow> socket_state" where
  "socket_status_step SocketConnect _ = \<lparr> ss_status = Connected, ss_attempt = 0 \<rparr>"
| "socket_status_step SocketDisconnect st =
     \<lparr> ss_status = (if ss_attempt st > 0 then Reconnecting else Disconnected), ss_attempt = ss_attempt st \<rparr>"
| "socket_status_step (ReconnectAttempt n) _ = \<lparr> ss_status = Reconnecting, ss_attempt = n \<rparr>"
| "socket_status_step ReconnectError st =
     \<lparr> ss_status = Reconnecting, ss_attempt = (if ss_attempt st > 0 then ss_attempt st else 1) \<rparr>"

lemma connected_resets: "ss_status (socket_status_step e st) = Connected \<Longrightarrow> ss_attempt (socket_status_step e st) = 0"
  by (cases e) (auto split: if_splits)

end
