(* ===== verification/Realtime.thy ===== *)
theory Realtime
  imports Consumers Lifecycle "HOL-Library.Multiset"
begin

text \<open>
  The two socket servers: \<open>backend/src/config/socket.ts\<close>, and \<open>services/realtime-gateway\<close>, of which
  several instances share the realtime channel of Redis.  A socket is its number, its user and its
  rooms; an uncaught exception of a handler is \<open>None\<close>, for it ends the process.  The library's
  transport and the Redis adapter are not modelled.
\<close>

section \<open>Sockets and rooms\<close>

record socket =
  so_id :: nat
  so_user :: "string option"
  so_rooms :: "string list"

definition room_of_user :: "string \<Rightarrow> string" where
  "room_of_user u = ''user:'' @ u"

definition room_of_match :: "string \<Rightarrow> string" where
  "room_of_match k = ''match:'' @ k"

definition room_of_trip :: "string \<Rightarrow> string" where
  "room_of_trip k = ''trip:'' @ k"

lemma rooms_distinct [simp]:
  "room_of_user a = room_of_user b \<longleftrightarrow> a = b" "room_of_match a = room_of_match b \<longleftrightarrow> a = b"
  "room_of_user a \<noteq> room_of_match b" "room_of_match a \<noteq> room_of_user b"
  "room_of_user a \<noteq> room_of_trip b" "room_of_trip a \<noteq> room_of_user b"
  "room_of_match a \<noteq> room_of_trip b" "room_of_trip a \<noteq> room_of_match b"
  by (simp_all add: room_of_user_def room_of_match_def room_of_trip_def)

definition join_room :: "nat \<Rightarrow> string \<Rightarrow> socket list \<Rightarrow> socket list" where
  "join_room i room ss = map (\<lambda>s. if so_id s = i then s\<lparr>so_rooms := List.insert room (so_rooms s)\<rparr> else s) ss"

text \<open>What a message to a room reaches, and what \<open>io.emit\<close> reaches.\<close>

type_synonym delivery = "nat \<times> string \<times> json"

definition emit_to :: "string \<Rightarrow> string \<Rightarrow> json \<Rightarrow> socket list \<Rightarrow> delivery list" where
  "emit_to room ev payload ss = map (\<lambda>s. (so_id s, ev, payload)) (filter (\<lambda>s. room \<in> set (so_rooms s)) ss)"

definition emit_all :: "string \<Rightarrow> json \<Rightarrow> socket list \<Rightarrow> delivery list" where
  "emit_all ev payload ss = map (\<lambda>s. (so_id s, ev, payload)) ss"

text \<open>
  The handshake: the token of \<open>auth\<close>, or the \<open>Authorization\<close> header without its \<open>Bearer \<close>.  The
  verification is a parameter: the backend admits one algorithm, the gateway those of the library.
\<close>

fun remove_first :: "string \<Rightarrow> string \<Rightarrow> string" where
  "remove_first p [] = []"
| "remove_first p (c # s) = (if startsWith (c # s) p then drop (length p) (c # s) else c # remove_first p s)"

definition socket_token :: "json \<Rightarrow> string option \<Rightarrow> json" where
  "socket_token token authorization =
     (if token = JUndef \<or> token = JNull then jopt (\<lambda>h. JStr (remove_first ''Bearer '' h)) authorization else token)"

definition handshake :: "(string \<Rightarrow> json option) \<Rightarrow> json \<Rightarrow> string option \<Rightarrow> string + json" where
  "handshake verify token authorization =
     (let t = socket_token token authorization
      in if \<not> truthy t then Inl ''Unauthorized socket connection''
         else case t of
                JStr text \<Rightarrow> (case verify text of None \<Rightarrow> Inl ''Invalid socket token'' | Some p \<Rightarrow> Inr p)
              | _ \<Rightarrow> Inl ''Invalid socket token'')"

lemma handshake_verified: "handshake verify token authorization = Inr p \<Longrightarrow> \<exists>t. t \<noteq> [] \<and> verify t = Some p"
  by (auto simp: handshake_def Let_def split: if_splits json.splits option.splits)

definition string_field :: "json \<Rightarrow> string option" where
  "string_field v = (case v of JStr t \<Rightarrow> Some t | _ \<Rightarrow> None)"

text \<open>Destructuring the argument of a message throws for undefined and null.\<close>

definition destructure :: "json \<Rightarrow> string \<Rightarrow> json option" where
  "destructure arg k = (if arg = JUndef \<or> arg = JNull then None else Some (jget arg k))"

datatype client_message = JoinUser json | JoinMatch json | JoinTrip json | LocationUpdate json

definition is_number :: "json \<Rightarrow> bool" where
  "is_number v = (case v of JNum _ \<Rightarrow> True | _ \<Rightarrow> False)"

definition location_valid :: "json \<Rightarrow> bool" where
  "location_valid p \<longleftrightarrow> truthy (jget p ''matchId'') \<and> is_number (jget p ''lat'') \<and> is_number (jget p ''lng'')"

definition with_fields :: "(string \<times> json) list \<Rightarrow> json \<Rightarrow> json" where
  "with_fields extra p =
     (case p of JObj kvs \<Rightarrow> JObj (AList.updates (map fst extra) (map snd extra) kvs) | v \<Rightarrow> v)"

section \<open>The socket server of the backend\<close>

definition connect_socket :: "nat \<Rightarrow> json \<Rightarrow> socket list \<Rightarrow> socket list" where
  "connect_socket i payload ss =
     (let usr = string_field (jget payload ''id'')
      in ss @ [\<lparr> so_id = i, so_user = usr, so_rooms = (if truthy_str usr then [room_of_user (the usr)] else []) \<rparr>])"

definition match_party :: "db \<Rightarrow> string \<Rightarrow> string option \<Rightarrow> bool" where
  "match_party s k usr \<longleftrightarrow>
     (case findById (matches s) k of None \<Rightarrow> False | Some m \<Rightarrow> usr = Some (m_carrier m) \<or> usr = Some (m_sender m))"

definition match_carrier :: "db \<Rightarrow> string \<Rightarrow> string option \<Rightarrow> bool" where
  "match_carrier s k usr \<longleftrightarrow>
     (case findById (matches s) k of None \<Rightarrow> False | Some m \<Rightarrow> usr = Some (m_carrier m))"

fun backend_message :: "db \<Rightarrow> socket \<Rightarrow> client_message \<Rightarrow> socket list \<Rightarrow> (socket list \<times> delivery list) option" where
  "backend_message s so (JoinUser arg) ss =
     (case destructure arg ''userId'' of
        None \<Rightarrow> None
      | Some (JStr u) \<Rightarrow> Some (if u \<noteq> [] \<and> so_user so = Some u then join_room (so_id so) (room_of_user u) ss else ss, [])
      | Some _ \<Rightarrow> Some (ss, []))"
| "backend_message s so (JoinMatch arg) ss =
     (case destructure arg ''matchId'' of
        None \<Rightarrow> None
      | Some (JStr k) \<Rightarrow>
          Some (if k \<noteq> [] \<and> match_party s k (so_user so) then join_room (so_id so) (room_of_match k) ss else ss, [])
      | Some _ \<Rightarrow> Some (ss, []))"
| "backend_message s so (JoinTrip arg) ss = Some (ss, [])"
| "backend_message s so (LocationUpdate payload) ss =
     (case jget payload ''matchId'' of
        JStr k \<Rightarrow>
          Some (ss, if location_valid payload \<and> match_carrier s k (so_user so)
                    then let enriched = with_fields [(''at'', JInt (clock s))] payload
                         in emit_to (room_of_match k) ''location:update'' enriched ss @
                            emit_to (room_of_match k) ''carrier:location'' enriched ss
                    else [])
      | _ \<Rightarrow> Some (ss, []))"

text \<open>
  Who may be in a room: the user in the room of the user, the two parties in the room of a match.
  The parties of a match never change, so the rooms stay right while the handlers run.
\<close>

definition rooms_sound :: "db \<Rightarrow> socket list \<Rightarrow> bool" where
  "rooms_sound s ss \<longleftrightarrow>
     (\<forall>so \<in> set ss. \<forall>room \<in> set (so_rooms so).
        (\<exists>u. room = room_of_user u \<and> so_user so = Some u) \<or> (\<exists>k. room = room_of_match k \<and> match_party s k (so_user so)))"

lemma same_socket: "distinct (map so_id ss) \<Longrightarrow> a \<in> set ss \<Longrightarrow> b \<in> set ss \<Longrightarrow> so_id a = so_id b \<Longrightarrow> a = b"
  by (auto simp: distinct_map dest: inj_onD)

lemma join_sound:
  assumes "rooms_sound s ss"
    and "\<And>so. so \<in> set ss \<Longrightarrow> so_id so = i \<Longrightarrow>
      (\<exists>u. room = room_of_user u \<and> so_user so = Some u) \<or> (\<exists>k. room = room_of_match k \<and> match_party s k (so_user so))"
  shows "rooms_sound s (join_room i room ss)"
  unfolding rooms_sound_def
proof (intro ballI)
  fix so' r
  assume so': "so' \<in> set (join_room i room ss)" and r: "r \<in> set (so_rooms so')"
  obtain so where so: "so \<in> set ss" "so' = (if so_id so = i then so\<lparr>so_rooms := List.insert room (so_rooms so)\<rparr> else so)"
    using so' by (auto simp: join_room_def)
  with r have "r \<in> set (so_rooms so) \<or> (so_id so = i \<and> r = room)" by (auto split: if_splits)
  moreover have "so_user so' = so_user so" using so(2) by simp
  ultimately show "(\<exists>u. r = room_of_user u \<and> so_user so' = Some u) \<or>
      (\<exists>k. r = room_of_match k \<and> match_party s k (so_user so'))"
    using assms(1) assms(2) [OF so(1)] so(1) unfolding rooms_sound_def by auto
qed

lemma connect_sound: "rooms_sound s ss \<Longrightarrow> rooms_sound s (connect_socket i payload ss)"
  by (cases "string_field (jget payload ''id'')")
    (auto simp: rooms_sound_def connect_socket_def Let_def split: if_splits)

text \<open>Numbers identify sockets.\<close>

lemma message_sound:
  assumes "rooms_sound s ss" "so \<in> set ss" "distinct (map so_id ss)"
    and "backend_message s so msg ss = Some (ss', out)"
  shows "rooms_sound s ss'"
proof -
  have same: "so' = so" if "so' \<in> set ss" "so_id so' = so_id so" for so'
    using same_socket [OF assms(3) that(1) assms(2) that(2)] .
  show ?thesis
  proof (cases msg)
    case (JoinUser arg)
    with assms(1,4) show ?thesis
      by (auto split: option.splits json.splits if_splits intro!: join_sound dest!: same)
  next
    case (JoinMatch arg)
    with assms(1,4) show ?thesis
      by (auto split: option.splits json.splits if_splits intro!: join_sound dest!: same)
  qed (use assms in \<open>auto split: json.splits\<close>)
qed

lemma message_ids: "backend_message s so msg ss = Some (ss', out) \<Longrightarrow> map so_id ss' = map so_id ss"
  by (cases msg) (auto simp: join_room_def comp_def split: option.splits json.splits if_splits)

definition parties_kept :: "db \<Rightarrow> db \<Rightarrow> bool" where
  "parties_kept s s' \<longleftrightarrow>
     (\<forall>k m. findById (matches s) k = Some m \<longrightarrow>
        (\<exists>m'. findById (matches s') k = Some m' \<and> m_carrier m' = m_carrier m \<and> m_sender m' = m_sender m))"

lemma sound_kept: "rooms_sound s ss \<Longrightarrow> parties_kept s s' \<Longrightarrow> rooms_sound s' ss"
  unfolding rooms_sound_def match_party_def parties_kept_def
  by (fastforce split: option.splits)

lemma exec_parties_kept: "parties_kept s (exec W op s)"
  unfolding parties_kept_def
proof (intro allI impI)
  fix k m
  assume m: "findById (matches s) k = Some m"
  show "\<exists>m'. findById (matches (exec W op s)) k = Some m' \<and> m_carrier m' = m_carrier m \<and> m_sender m' = m_sender m"
    using exec_follows [of op s W] m by (cases "k = op_match op") (auto simp: follows_def match_kept_def)
qed

text \<open>A run: sockets come and go and send messages while the handlers of matches run.\<close>

inductive backend_run :: "world \<Rightarrow> db \<Rightarrow> socket list \<Rightarrow> bool" for W where
  start: "backend_run W s []"
| connect: "backend_run W s ss \<Longrightarrow> i \<notin> set (map so_id ss) \<Longrightarrow> backend_run W s (connect_socket i payload ss)"
| message: "backend_run W s ss \<Longrightarrow> so \<in> set ss \<Longrightarrow> backend_message s so msg ss = Some (ss', out) \<Longrightarrow> backend_run W s ss'"
| disconnect: "backend_run W s ss \<Longrightarrow> backend_run W s (filter (\<lambda>so. so_id so \<noteq> i) ss)"
| handler: "backend_run W s ss \<Longrightarrow> backend_run W (exec W op s) ss"

lemma backend_run_sound: "backend_run W s ss \<Longrightarrow> rooms_sound s ss \<and> distinct (map so_id ss)"
proof (induction rule: backend_run.induct)
  case (connect s ss i payload)
  then show ?case by (auto simp: connect_sound) (simp add: connect_socket_def Let_def)
next
  case (message s ss so msg ss' out)
  then show ?case using message_sound message_ids by metis
next
  case (disconnect s ss i)
  then show ?case by (auto simp: rooms_sound_def distinct_map_filter)
next
  case (handler s ss op)
  then show ?case using sound_kept exec_parties_kept by blast
qed (simp add: rooms_sound_def)

text \<open>A message for a match reaches its parties only.\<close>

lemma backend_private:
  assumes "backend_run W s ss" "findById (matches s) k = Some m" "(i, ev, p) \<in> set (emit_to (room_of_match k) ev' p' ss)"
  shows "\<exists>so \<in> set ss. so_id so = i \<and> (so_user so = Some (m_carrier m) \<or> so_user so = Some (m_sender m))"
proof -
  obtain so where so: "so \<in> set ss" "so_id so = i" "room_of_match k \<in> set (so_rooms so)"
    using assms(3) by (auto simp: emit_to_def)
  with backend_run_sound [OF assms(1)] have "match_party s k (so_user so)"
    unfolding rooms_sound_def by force
  with so assms(2) show ?thesis by (auto simp: match_party_def)
qed

section \<open>The realtime gateway\<close>

text \<open>Rooms of the gateway: the templates print whatever they are given.\<close>

definition template :: "json \<Rightarrow> string" where
  "template v = (case v of JStr t \<Rightarrow> t | JUndef \<Rightarrow> ''undefined'' | JNull \<Rightarrow> ''null'' | _ \<Rightarrow> ''[object Object]'')"

definition resolveRoom :: "json \<Rightarrow> string option" where
  "resolveRoom target =
     (let ty = jget target ''type''
      in if ty = JStr ''user'' then Some (room_of_user (template (jget target ''id'')))
         else if ty = JStr ''match'' then Some (room_of_match (template (jget target ''id'')))
         else if ty = JStr ''trip'' then Some (room_of_trip (template (jget target ''id'')))
         else if ty = JStr ''room'' then string_field (jget target ''room'')
         else None)"

definition emitMessage :: "json \<Rightarrow> socket list \<Rightarrow> delivery list" where
  "emitMessage m ss =
     (case resolveRoom (jget m ''target'') of
        Some room \<Rightarrow> if room \<noteq> [] then emit_to room (template (jget m ''event'')) (jget m ''payload'') ss
                    else emit_all (template (jget m ''event'')) (jget m ''payload'') ss
      | None \<Rightarrow> emit_all (template (jget m ''event'')) (jget m ''payload'') ss)"

record gateway =
  gw_id :: string
  gw_sockets :: "socket list"
  gw_inbox :: "json list"
  gw_emitted :: "json list"
  gw_delivered :: "delivery list"

text \<open>The joins of one client: the room of a match or a trip is open to everybody.\<close>

fun gateway_join :: "socket \<Rightarrow> client_message \<Rightarrow> socket list \<Rightarrow> socket list option" where
  "gateway_join so (JoinUser arg) ss =
     (case destructure arg ''userId'' of
        None \<Rightarrow> None
      | Some u \<Rightarrow> Some (if so_user so = None \<or> string_field u \<noteq> so_user so then ss
                       else join_room (so_id so) (room_of_user (the (so_user so))) ss))"
| "gateway_join so (JoinMatch arg) ss =
     (case destructure arg ''matchId'' of
        None \<Rightarrow> None
      | Some k \<Rightarrow> Some (if \<not> truthy k then ss else join_room (so_id so) (room_of_match (template k)) ss))"
| "gateway_join so (JoinTrip arg) ss =
     (case destructure arg ''tripId'' of
        None \<Rightarrow> None
      | Some k \<Rightarrow> Some (if \<not> truthy k then ss else join_room (so_id so) (room_of_trip (template k)) ss))"
| "gateway_join so (LocationUpdate payload) ss = Some ss"

definition gateway_connect :: "nat \<Rightarrow> json \<Rightarrow> socket list \<Rightarrow> socket list" where
  "gateway_connect i payload ss = ss @ [\<lparr> so_id = i, so_user = string_field (jget payload ''id''), so_rooms = [] \<rparr>]"

text \<open>The two messages of a location, tagged with the instance, and emitting one locally.\<close>

definition location_messages :: "string \<Rightarrow> int \<Rightarrow> string option \<Rightarrow> json \<Rightarrow> json list" where
  "location_messages origin now usr payload =
     (let enriched = with_fields [(''at'', JInt now), (''userId'', jopt JStr usr)] payload;
          target = JObj [(''type'', JStr ''match''), (''id'', jget payload ''matchId'')]
      in map (\<lambda>ev. JObj [(''target'', target), (''event'', JStr ev), (''payload'', enriched), (''origin'', JStr origin)])
           [''location:update'', ''carrier:location''])"

definition emit_here :: "json \<Rightarrow> gateway \<Rightarrow> gateway" where
  "emit_here m g =
     g\<lparr>gw_emitted := gw_emitted g @ [m], gw_delivered := gw_delivered g @ emitMessage m (gw_sockets g)\<rparr>"

definition receive_all :: "json list \<Rightarrow> gateway \<Rightarrow> gateway" where
  "receive_all ms g = g\<lparr>gw_inbox := gw_inbox g @ ms\<rparr>"

text \<open>A message is emitted unless it is the instance's own, or has no target (that throws and is logged).\<close>

definition foreign :: "string \<Rightarrow> json \<Rightarrow> bool" where
  "foreign me m \<longleftrightarrow> jget m ''origin'' \<noteq> JStr me \<and> jget m ''target'' \<noteq> JUndef \<and> jget m ''target'' \<noteq> JNull"

definition take_message :: "gateway \<Rightarrow> gateway" where
  "take_message g =
     (case gw_inbox g of
        [] \<Rightarrow> g
      | m # ms \<Rightarrow> (if foreign (gw_id g) m then emit_here m else id) (g\<lparr>gw_inbox := ms\<rparr>))"

text \<open>
  The instances, and the messages dispatched so far: by a client's location, of whose two
  publications Redis takes the first \<open>n\<close>, or by the service on the channel.
\<close>

record cluster =
  cs_gateways :: "gateway list"
  cs_log :: "json list"

datatype cluster_event =
    ClientLocation string "string option" json int nat
  | ServiceMessage json
  | TakeMessage string

definition on_gateway :: "string \<Rightarrow> (gateway \<Rightarrow> gateway) \<Rightarrow> gateway list \<Rightarrow> gateway list" where
  "on_gateway gid f gs = map (\<lambda>g. if gw_id g = gid then f g else g) gs"

fun cluster_step :: "cluster_event \<Rightarrow> cluster \<Rightarrow> cluster" where
  "cluster_step (ClientLocation gid usr payload now n) c =
     (if location_valid payload \<and> gid \<in> set (map gw_id (cs_gateways c))
      then let ms = location_messages gid now usr payload
           in c\<lparr>cs_gateways := map (receive_all (take n ms)) (on_gateway gid (fold emit_here ms) (cs_gateways c)),
                cs_log := cs_log c @ ms\<rparr>
      else c)"
| "cluster_step (ServiceMessage m) c =
     (if jget m ''origin'' = JUndef \<and> jget m ''target'' \<noteq> JUndef \<and> jget m ''target'' \<noteq> JNull
      then c\<lparr>cs_gateways := map (receive_all [m]) (cs_gateways c), cs_log := cs_log c @ [m]\<rparr> else c)"
| "cluster_step (TakeMessage gid) c = c\<lparr>cs_gateways := on_gateway gid take_message (cs_gateways c)\<rparr>"

text \<open>Publications are healthy when Redis takes both messages of a location.\<close>

fun healthy :: "cluster_event \<Rightarrow> bool" where
  "healthy (ClientLocation _ _ _ _ n) = (2 \<le> n)"
| "healthy _ = True"

text \<open>What an instance has emitted and will still emit.\<close>

definition owed :: "gateway \<Rightarrow> json multiset" where
  "owed g = mset (gw_emitted g) + mset (filter (foreign (gw_id g)) (gw_inbox g))"

lemma emit_here_fields [simp]:
  "gw_id (emit_here m g) = gw_id g" "gw_inbox (emit_here m g) = gw_inbox g"
  "gw_emitted (emit_here m g) = gw_emitted g @ [m]" "gw_sockets (emit_here m g) = gw_sockets g"
  by (simp_all add: emit_here_def)

lemma emit_all_fields [simp]:
  "gw_id (fold emit_here ms g) = gw_id g" "gw_inbox (fold emit_here ms g) = gw_inbox g"
  "gw_emitted (fold emit_here ms g) = gw_emitted g @ ms"
  by (induction ms arbitrary: g) simp_all

lemma receive_fields [simp]:
  "gw_id (receive_all ms g) = gw_id g" "gw_emitted (receive_all ms g) = gw_emitted g"
  "gw_inbox (receive_all ms g) = gw_inbox g @ ms"
  by (simp_all add: receive_all_def)

lemma take_message_owed: "owed (take_message g) = owed g" "gw_id (take_message g) = gw_id g"
  by (simp_all add: take_message_def owed_def split: list.splits)

lemma location_foreign:
  "m \<in> set (location_messages origin now usr payload) \<Longrightarrow> foreign me m \<longleftrightarrow> me \<noteq> origin"
  by (auto simp: location_messages_def Let_def foreign_def)

lemma location_owed:
  assumes "ms = location_messages origin now usr payload"
  shows "owed (receive_all (take n ms) (if gw_id g = origin then fold emit_here ms g else g)) =
     owed g + mset (if gw_id g = origin then ms else take n ms)"
proof (cases "gw_id g = origin")
  case True
  have "filter (foreign origin) (take n ms) = []"
    using location_foreign [of _ origin now usr payload origin] by (auto simp: assms filter_empty_conv dest: in_set_takeD)
  with True show ?thesis by (simp add: owed_def ac_simps)
next
  case False
  have "filter (foreign (gw_id g)) (take n ms) = take n ms"
    using False location_foreign [of _ origin now usr payload "gw_id g"]
    by (auto simp: assms filter_id_conv dest: in_set_takeD)
  with False show ?thesis by (simp add: owed_def)
qed

text \<open>Per instance: nothing is emitted more than once, and nothing is lost while Redis is healthy.\<close>

definition fanned_out :: "bool \<Rightarrow> cluster \<Rightarrow> bool" where
  "fanned_out exact c \<longleftrightarrow>
     (\<forall>g \<in> set (cs_gateways c). if exact then owed g = mset (cs_log c) else owed g \<subseteq># mset (cs_log c))"

lemma mset_take_subset: "mset (take n xs) \<subseteq># mset xs"
  by (metis append_take_drop_id mset_append mset_subset_eq_add_left)

lemma cluster_step_fanned:
  assumes "fanned_out exact c" "exact \<longrightarrow> healthy e"
  shows "fanned_out exact (cluster_step e c)"
proof (cases e)
  case (ClientLocation gid usr payload now n)
  let ?ms = "location_messages gid now usr payload"
  have len: "length ?ms = 2" by (simp add: location_messages_def Let_def)
  show ?thesis
  proof (cases "location_valid payload \<and> gid \<in> set (map gw_id (cs_gateways c))")
    case True
    show ?thesis unfolding fanned_out_def
    proof
      fix g'
      assume "g' \<in> set (cs_gateways (cluster_step e c))"
      then obtain g where g: "g \<in> set (cs_gateways c)"
        "g' = receive_all (take n ?ms) (if gw_id g = gid then fold emit_here ?ms g else g)"
        using True by (auto simp: ClientLocation Let_def on_gateway_def)
      have o': "owed g' = owed g + mset (if gw_id g = gid then ?ms else take n ?ms)"
        unfolding g(2) by (rule location_owed) (rule refl)
      have log: "cs_log (cluster_step e c) = cs_log c @ ?ms" using True by (simp add: ClientLocation Let_def)
      show "if exact then owed g' = mset (cs_log (cluster_step e c)) else owed g' \<subseteq># mset (cs_log (cluster_step e c))"
      proof (cases exact)
        case True
        then have "take n ?ms = ?ms" using assms(2) len by (simp add: ClientLocation)
        with True assms(1) g(1) show ?thesis by (simp add: fanned_out_def o' log)
      next
        case False
        then have "owed g \<subseteq># mset (cs_log c)" using assms(1) g(1) by (simp add: fanned_out_def)
        moreover have "mset (if gw_id g = gid then ?ms else take n ?ms) \<subseteq># mset ?ms" by (simp add: mset_take_subset)
        ultimately show ?thesis using False by (simp add: o' log subset_mset.add_mono)
      qed
    qed
  next
    case False
    have "cluster_step e c = c" by (simp only: ClientLocation cluster_step.simps if_not_P [OF False])
    with assms(1) show ?thesis by simp
  qed
next
  case (ServiceMessage m)
  have "owed (receive_all [m] g) = add_mset m (owed g)"
    if "jget m ''origin'' = JUndef" "jget m ''target'' \<noteq> JUndef" "jget m ''target'' \<noteq> JNull" for g
    using that by (simp add: owed_def foreign_def)
  with assms(1) show ?thesis by (auto simp: ServiceMessage fanned_out_def)
next
  case (TakeMessage gid)
  with assms(1) show ?thesis by (auto simp: fanned_out_def on_gateway_def take_message_owed)
qed

definition cluster_run :: "cluster_event list \<Rightarrow> cluster \<Rightarrow> cluster" where
  "cluster_run es c = fold cluster_step es c"

interpretation fan_out: kept_run cluster_step "fanned_out exact" "\<lambda>e. exact \<longrightarrow> healthy e" for exact
  by unfold_locales (rule cluster_step_fanned)

lemma cluster_run_fanned:
  "fanned_out exact c \<Longrightarrow> (exact \<longrightarrow> list_all healthy es) \<Longrightarrow> fanned_out exact (cluster_run es c)"
  unfolding cluster_run_def using fan_out.admitted_run by (simp add: list_all_iff)

definition fresh_cluster :: "gateway list \<Rightarrow> cluster" where
  "fresh_cluster gs =
     \<lparr> cs_gateways = map (\<lambda>g. g\<lparr>gw_inbox := [], gw_emitted := [], gw_delivered := []\<rparr>) gs, cs_log = [] \<rparr>"

lemma fresh_fanned: "fanned_out exact (fresh_cluster gs)"
  by (auto simp: fanned_out_def fresh_cluster_def owed_def)

text \<open>Every message dispatched is emitted once by every instance, when all have read their inboxes.\<close>

lemma emitted_once:
  assumes "list_all healthy es" "g \<in> set (cs_gateways (cluster_run es (fresh_cluster gs)))" "gw_inbox g = []"
  shows "mset (gw_emitted g) = mset (cs_log (cluster_run es (fresh_cluster gs)))"
proof -
  have "fanned_out True (cluster_run es (fresh_cluster gs))"
    by (rule cluster_run_fanned [OF fresh_fanned]) (use assms(1) in simp)
  with assms(2,3) show ?thesis by (auto simp: fanned_out_def owed_def)
qed

lemma emitted_at_most_once:
  assumes "g \<in> set (cs_gateways (cluster_run es (fresh_cluster gs)))"
  shows "mset (gw_emitted g) \<subseteq># mset (cs_log (cluster_run es (fresh_cluster gs)))"
proof -
  have "fanned_out False (cluster_run es (fresh_cluster gs))"
    by (rule cluster_run_fanned [OF fresh_fanned]) simp
  with assms show ?thesis
    by (auto simp: fanned_out_def owed_def intro: subset_mset.order_trans [OF mset_subset_eq_add_left])
qed

text \<open>Reading an inbox to its end: the instance owes nothing any more.\<close>

lemma take_messages:
  "gw_inbox ((take_message ^^ n) g) = drop n (gw_inbox g)" "gw_id ((take_message ^^ n) g) = gw_id g"
proof (induction n)
  case (Suc n)
  { case 1
    have "gw_inbox (take_message h) = tl (gw_inbox h)" for h
      by (simp add: take_message_def split: list.splits)
    with Suc show ?case by (simp add: drop_Suc tl_drop)
  next
    case 2
    with Suc show ?case by (simp add: take_message_owed) }
qed simp_all

lemma cluster_run_takes:
  "cluster_run (replicate n (TakeMessage gid)) c =
     c\<lparr>cs_gateways := map (\<lambda>g. if gw_id g = gid then (take_message ^^ n) g else g) (cs_gateways c)\<rparr>"
proof (induction n)
  case (Suc n)
  have "cluster_run (replicate (Suc n) (TakeMessage gid)) c =
      cluster_step (TakeMessage gid) (cluster_run (replicate n (TakeMessage gid)) c)"
    by (simp add: cluster_run_def fold_commute_apply flip: replicate_append_same)
  with Suc show ?case by (simp add: on_gateway_def take_messages cong: if_cong) 
qed (simp add: cluster_run_def cong: if_cong)

lemma read_to_the_end:
  assumes "list_all healthy es" "g \<in> set (cs_gateways (cluster_run es (fresh_cluster gs)))"
  shows "\<exists>g' \<in> set (cs_gateways (cluster_run (es @ replicate (length (gw_inbox g)) (TakeMessage (gw_id g))) (fresh_cluster gs))).
     gw_id g' = gw_id g \<and> gw_inbox g' = [] \<and>
     mset (gw_emitted g') = mset (cs_log (cluster_run es (fresh_cluster gs)))"
proof -
  let ?c = "cluster_run es (fresh_cluster gs)" and ?n = "length (gw_inbox g)"
  let ?ts = "replicate ?n (TakeMessage (gw_id g))" and ?g = "(take_message ^^ length (gw_inbox g)) g"
  have run: "cluster_run (es @ ?ts) (fresh_cluster gs) =
      ?c\<lparr>cs_gateways := map (\<lambda>h. if gw_id h = gw_id g then (take_message ^^ ?n) h else h) (cs_gateways ?c)\<rparr>"
    using cluster_run_takes [of ?n "gw_id g" ?c] by (simp add: cluster_run_def)
  have g: "?g \<in> set (cs_gateways (cluster_run (es @ ?ts) (fresh_cluster gs)))"
    using assms(2) by (force simp: run)
  moreover have "gw_inbox ?g = []" "gw_id ?g = gw_id g" by (simp_all add: take_messages)
  moreover have "mset (gw_emitted ?g) = mset (cs_log (cluster_run (es @ ?ts) (fresh_cluster gs)))"
    by (rule emitted_once [OF _ g]) (use assms(1) in \<open>auto simp: list_all_iff take_messages\<close>)
  ultimately show ?thesis by (auto simp: run)
qed

section \<open>Privacy of the gateway\<close>

definition own_user_rooms :: "socket list \<Rightarrow> bool" where
  "own_user_rooms ss \<longleftrightarrow> (\<forall>so \<in> set ss. \<forall>u. room_of_user u \<in> set (so_rooms so) \<longrightarrow> so_user so = Some u)"

lemma join_room_members:
  "so' \<in> set (join_room i room ss) \<Longrightarrow>
   \<exists>so \<in> set ss. so_user so' = so_user so \<and> so_id so' = so_id so \<and>
     (\<forall>r \<in> set (so_rooms so'). r \<in> set (so_rooms so) \<or> (so_id so = i \<and> r = room))"
  by (auto simp: join_room_def split: if_splits)

lemma gateway_join_private:
  assumes "own_user_rooms ss" "so \<in> set ss" "distinct (map so_id ss)" "gateway_join so msg ss = Some ss'"
  shows "own_user_rooms ss'"
proof -
  have same: "so' = so" if "so' \<in> set ss" "so_id so' = so_id so" for so'
    using same_socket [OF assms(3) that(1) assms(2) that(2)] .
  have joined: "own_user_rooms (join_room (so_id so) room ss)" if "\<And>u. room = room_of_user u \<Longrightarrow> so_user so = Some u" for room
    unfolding own_user_rooms_def
  proof (intro ballI allI impI)
    fix so' u
    assume "so' \<in> set (join_room (so_id so) room ss)" and u: "room_of_user u \<in> set (so_rooms so')"
    then obtain so0 where so0: "so0 \<in> set ss" "so_user so' = so_user so0"
      "\<forall>r \<in> set (so_rooms so'). r \<in> set (so_rooms so0) \<or> (so_id so0 = so_id so \<and> r = room)"
      using join_room_members by metis
    with u assms(1) that same [OF so0(1)] show "so_user so' = Some u"
      unfolding own_user_rooms_def by metis
  qed
  with assms(1,4) show ?thesis
    by (cases msg) (auto intro!: joined split: option.splits if_splits)
qed

text \<open>Anybody with a valid token may listen to any match, and speak as its carrier.\<close>

lemma gateway_eavesdrop:
  assumes "so \<in> set ss" "k \<noteq> []" "gateway_join so (JoinMatch (JObj [(''matchId'', JStr k)])) ss = Some ss'"
  shows "(so_id so, ev, p) \<in> set (emit_to (room_of_match k) ev p ss')"
proof -
  have "ss' = join_room (so_id so) (room_of_match k) ss"
    using assms(2,3) by (simp add: destructure_def template_def)
  with assms(1) have "so\<lparr>so_rooms := List.insert (room_of_match k) (so_rooms so)\<rparr> \<in> set ss'"
    by (auto simp: join_room_def intro!: rev_image_eqI)
  then show ?thesis by (auto simp: emit_to_def intro!: rev_image_eqI)
qed

lemma gateway_spoof:
  assumes "location_valid payload" "g \<in> set gs"
  shows "\<exists>m \<in> set (cs_log (cluster_step (ClientLocation (gw_id g) usr payload now 2) (fresh_cluster gs))).
     jget m ''event'' = JStr ''carrier:location'' \<and> resolveRoom (jget m ''target'') = Some (room_of_match (template (jget payload ''matchId'')))"
proof -
  have "gw_id g \<in> set (map gw_id (cs_gateways (fresh_cluster gs)))"
    using assms(2) by (auto simp: fresh_cluster_def)
  with assms(1) show ?thesis
    by (simp add: fresh_cluster_def location_messages_def Let_def resolveRoom_def)
qed

text \<open>A message without an argument ends the process.\<close>

lemma malformed_join_crashes: "gateway_join so (JoinUser JUndef) ss = None" "backend_message s so (JoinUser JUndef) ss = None"
  by (simp_all add: destructure_def)

end
