(* ===== verification/Server.thy ===== *)
theory Server
  imports Http
begin

text \<open>
  The life of the server process: \<open>server.ts\<close> (start and shutdown) and \<open>config/db.ts\<close>
  (connecting to MongoDB).  What the dependencies answer is a parameter; timers are events.
\<close>

section \<open>connectDB\<close>

definition MAX_RETRIES :: nat where
  "MAX_RETRIES = 5"

text \<open>
  \<open>connect n\<close> is the answer to the attempt \<open>n\<close>, counted from 1.  The value is the outcome, the
  attempts made and the pauses between them in milliseconds.
\<close>

record connection_run =
  cr_result :: "js_error + unit"
  cr_attempts :: nat
  cr_pauses :: "nat list"

function connect_loop :: "(nat \<Rightarrow> js_error option) \<Rightarrow> bool \<Rightarrow> nat \<Rightarrow> nat \<Rightarrow> nat list \<Rightarrow> connection_run" where
  "connect_loop connect isServerless maxRetries retries pauses =
     (if retries < maxRetries then
        (case connect (retries + 1) of
           None \<Rightarrow> \<lparr> cr_result = Inr (), cr_attempts = retries + 1, cr_pauses = pauses \<rparr>
         | Some e \<Rightarrow>
             (if retries + 1 \<ge> maxRetries
              then \<lparr> cr_result = (if isServerless then Inr () else Inl e), cr_attempts = retries + 1, cr_pauses = pauses \<rparr>
              else connect_loop connect isServerless maxRetries (retries + 1) (pauses @ [1500 * (retries + 1)])))
      else \<lparr> cr_result = Inr (), cr_attempts = retries, cr_pauses = pauses \<rparr>)"
  by pat_completeness auto
termination
  by (relation "measure (\<lambda>(_, _, m, r, _). m - r)") auto

declare connect_loop.simps [simp del]

definition connectDB :: "(nat \<Rightarrow> js_error option) \<Rightarrow> bool \<Rightarrow> connection_run" where
  "connectDB connect isServerless = connect_loop connect isServerless (if isServerless then 1 else MAX_RETRIES) 0 []"

text \<open>The loop goes on to the first success, or to the last attempt.\<close>

lemma connect_loop_outcome:
  assumes "retries < maxRetries"
  shows "(\<exists>n. retries < n \<and> n \<le> maxRetries \<and> connect n = None \<and> (\<forall>k. retries < k \<and> k < n \<longrightarrow> connect k \<noteq> None) \<and>
       cr_result (connect_loop connect sl maxRetries retries ps) = Inr () \<and>
       cr_attempts (connect_loop connect sl maxRetries retries ps) = n) \<or>
     ((\<forall>k. retries < k \<and> k \<le> maxRetries \<longrightarrow> connect k \<noteq> None) \<and>
       cr_result (connect_loop connect sl maxRetries retries ps) =
         (if sl then Inr () else Inl (the (connect maxRetries))) \<and>
       cr_attempts (connect_loop connect sl maxRetries retries ps) = maxRetries)"
  using assms
proof (induction connect sl maxRetries retries ps rule: connect_loop.induct)
  case (1 connect sl maxRetries retries ps)
  show ?case
  proof (cases "connect (retries + 1)")
    case None
    with "1.prems" show ?thesis
      by (intro disjI1 exI [of _ "retries + 1"]) (auto simp: connect_loop.simps [of connect sl maxRetries retries])
  next
    case (Some e)
    show ?thesis
    proof (cases "retries + 1 \<ge> maxRetries")
      case True
      with "1.prems" have m: "maxRetries = retries + 1" by simp
      have "connect_loop connect sl maxRetries retries ps =
          \<lparr> cr_result = (if sl then Inr () else Inl e), cr_attempts = retries + 1, cr_pauses = ps \<rparr>"
        using "1.prems" Some True by (simp add: connect_loop.simps [of connect sl maxRetries retries])
      with Some show ?thesis by (intro disjI2) (auto simp: m dest: le_antisym)
    next
      case False
      then have step: "connect_loop connect sl maxRetries retries ps =
          connect_loop connect sl maxRetries (retries + 1) (ps @ [1500 * (retries + 1)])"
        using "1.prems" Some by (simp add: connect_loop.simps [of connect sl maxRetries retries])
      have more: "retries < k \<longleftrightarrow> k = retries + 1 \<or> retries + 1 < k" for k by auto
      from "1.IH" [OF "1.prems" Some] False show ?thesis
        unfolding step using Some by (auto simp: more)
    qed
  qed
qed

lemma connectDB_outcome:
  "cr_attempts (connectDB connect False) \<le> MAX_RETRIES \<and>
   (cr_result (connectDB connect False) = Inr () \<longleftrightarrow> (\<exists>n. 1 \<le> n \<and> n \<le> MAX_RETRIES \<and> connect n = None))"
proof -
  have five: "0 < MAX_RETRIES" by (simp add: MAX_RETRIES_def)
  show ?thesis
    using connect_loop_outcome [OF five, of connect False "[]"]
    by (auto simp: connectDB_def Suc_le_eq)
qed

text \<open>Serverless, the start goes on whether the database answered or not.\<close>

lemma serverless_connects: "cr_result (connectDB connect True) = Inr ()"
  by (simp add: connectDB_def connect_loop.simps split: option.splits)

section \<open>Starting\<close>

text \<open>
  The steps of \<open>start\<close> in their order; the steps of one group run together, and a group is
  started only when all steps of the groups before have succeeded.
\<close>

definition start_groups :: "string list list" where
  "start_groups =
     [[''initTelemetry''], [''connectDatabase''], [''pingCacheRedis'', ''pingQueueRedis''], [''startOutbox''],
      [''createWorkers''], [''scheduleOtpCleanup'', ''scheduleSlaRematchAudit'', ''schedulePaymentReconcilerAudit''],
      [''listen'']]"

fun run_groups :: "(string \<Rightarrow> js_error option) \<Rightarrow> string list list \<Rightarrow> (js_error + unit) \<times> string list" where
  "run_groups answer [] = (Inr (), [])"
| "run_groups answer (g # gs) =
     (case List.find (\<lambda>n. answer n \<noteq> None) g of
        Some n \<Rightarrow> (Inl (the (answer n)), g)
      | None \<Rightarrow> (case run_groups answer gs of (r, started) \<Rightarrow> (r, g @ started)))"

definition start_server :: "(string \<Rightarrow> js_error option) \<Rightarrow> (js_error + unit) \<times> string list" where
  "start_server answer = run_groups answer start_groups"

lemma run_groups_complete: "fst (run_groups answer gs) = Inr () \<longleftrightarrow> (\<forall>g \<in> set gs. \<forall>n \<in> set g. answer n = None)"
  by (induction gs) (auto simp: find_None_iff find_Some_iff split: option.splits prod.splits)

text \<open>The server listens only after every step before has succeeded.\<close>

lemma run_groups_before:
  assumes "n \<in> set (snd (run_groups answer (before @ [[n]])))" "\<forall>g \<in> set before. n \<notin> set g"
  shows "\<forall>g \<in> set before. \<forall>k \<in> set g. answer k = None"
  using assms
proof (induction before)
  case (Cons g before)
  show ?case
  proof (cases "List.find (\<lambda>n. answer n \<noteq> None) g")
    case None
    with Cons.prems have "n \<in> set (snd (run_groups answer (before @ [[n]])))"
      by (auto split: prod.splits)
    with Cons.IH Cons.prems(2) None show ?thesis by (auto simp: find_None_iff)
  next
    case (Some k)
    with Cons.prems show ?thesis by simp
  qed
qed simp

lemma listens_last:
  assumes "''listen'' \<in> set (snd (start_server answer))"
  shows "\<forall>n \<in> {''connectDatabase'', ''pingCacheRedis'', ''pingQueueRedis'', ''startOutbox'', ''createWorkers'',
     ''scheduleOtpCleanup'', ''scheduleSlaRematchAudit'', ''schedulePaymentReconcilerAudit''}. answer n = None"
proof -
  have "start_groups = butlast start_groups @ [[''listen'']]" by (simp add: start_groups_def)
  then have "''listen'' \<in> set (snd (run_groups answer (butlast start_groups @ [[''listen'']])))"
    using assms by (simp add: start_server_def)
  from run_groups_before [OF this] show ?thesis by (simp add: start_groups_def)
qed

section \<open>Shutting down\<close>

record runtime_workers =
  rw_matchWorker :: bool
  rw_otpCleanupWorker :: bool
  rw_payoutWorker :: bool
  rw_reminderWorker :: bool
  rw_slaRematchWorker :: bool
  rw_paymentReconcilerWorker :: bool

definition createShutdownSteps :: "runtime_workers \<Rightarrow> string list" where
  "createShutdownSteps w =
     [''http_server'', ''outbox_relay''] @
     (if rw_matchWorker w then [''match_worker''] else []) @
     (if rw_otpCleanupWorker w then [''otp_cleanup_worker''] else []) @
     (if rw_payoutWorker w then [''payout_worker''] else []) @
     (if rw_reminderWorker w then [''reminder_worker''] else []) @
     (if rw_slaRematchWorker w then [''sla_rematch_worker''] else []) @
     (if rw_paymentReconcilerWorker w then [''payment_reconciler_worker''] else []) @
     [''match_queue'', ''otp_cleanup_queue'', ''payout_queue'', ''reminder_queue'', ''sla_rematch_queue'',
      ''payment_reconciler_queue'', ''cache_redis'', ''queue_redis'', ''mongo'', ''opentelemetry'']"

lemma shutdown_steps_distinct: "distinct (createShutdownSteps w)"
  by (simp add: createShutdownSteps_def)

text \<open>
  The process: the steps begun, those that have ended with their error, and the exit codes asked
  for.  A signal begins all steps at once; \<open>StepDone\<close> is the end of one of them, \<open>ForcedExit\<close> the
  timer of ten seconds.
\<close>

record process_state =
  pr_shuttingDown :: bool
  pr_begun :: "string list"
  pr_results :: "(string \<times> string option) list"
  pr_timer :: bool
  pr_exits :: "int list"

definition running_process :: process_state where
  "running_process = \<lparr> pr_shuttingDown = False, pr_begun = [], pr_results = [], pr_timer = False, pr_exits = [] \<rparr>"

datatype process_event = Signal | StepDone string "string option" | ForcedExit

definition shutdown_failures :: "process_state \<Rightarrow> (string \<times> string) list" where
  "shutdown_failures p = concat (map (\<lambda>(n, r). case r of None \<Rightarrow> [] | Some e \<Rightarrow> [(n, e)]) (pr_results p))"

fun process_step :: "runtime_workers \<Rightarrow> process_event \<Rightarrow> process_state \<Rightarrow> process_state" where
  "process_step w Signal p =
     (if pr_shuttingDown p then p
      else p\<lparr>pr_shuttingDown := True, pr_begun := pr_begun p @ createShutdownSteps w, pr_timer := True\<rparr>)"
| "process_step w (StepDone n r) p =
     (if n \<in> set (pr_begun p) \<and> n \<notin> fst ` set (pr_results p) then
        let p' = p\<lparr>pr_results := pr_results p @ [(n, r)]\<rparr>
        in if set (pr_begun p') \<subseteq> fst ` set (pr_results p') then
             (if shutdown_failures p' \<noteq> [] then p'\<lparr>pr_exits := pr_exits p' @ [1]\<rparr>
              else p'\<lparr>pr_timer := False, pr_exits := pr_exits p' @ [0]\<rparr>)
           else p'
      else p)"
| "process_step w ForcedExit p = (if pr_timer p then p\<lparr>pr_timer := False, pr_exits := pr_exits p @ [1]\<rparr> else p)"

inductive process_run :: "runtime_workers \<Rightarrow> process_state \<Rightarrow> bool" for w where
  start: "process_run w running_process"
| step: "process_run w p \<Longrightarrow> process_run w (process_step w e p)"

definition process_ok :: "runtime_workers \<Rightarrow> process_state \<Rightarrow> bool" where
  "process_ok w p \<longleftrightarrow>
     pr_begun p = (if pr_shuttingDown p then createShutdownSteps w else []) \<and>
     fst ` set (pr_results p) \<subseteq> set (pr_begun p) \<and> distinct (map fst (pr_results p)) \<and>
     (0 \<in> set (pr_exits p) \<longrightarrow>
        set (createShutdownSteps w) \<subseteq> fst ` set (pr_results p) \<and> shutdown_failures p = [] \<and> pr_shuttingDown p)"

lemma process_step_ok:
  assumes "process_ok w p"
  shows "process_ok w (process_step w e p)"
proof (cases e)
  case Signal
  with assms show ?thesis by (auto simp: process_ok_def shutdown_failures_def)
next
  case (StepDone n r)
  show ?thesis
  proof (cases "n \<in> set (pr_begun p) \<and> n \<notin> fst ` set (pr_results p)")
    case True
    then have down: "pr_shuttingDown p" "n \<in> set (createShutdownSteps w)"
      using assms by (auto simp: process_ok_def split: if_splits)
    with True assms have "0 \<notin> set (pr_exits p)" by (auto simp: process_ok_def)
    with True down assms show ?thesis
      by (auto simp: StepDone Let_def process_ok_def shutdown_failures_def image_iff)
  next
    case False
    then have "process_step w e p = p" by (simp only: StepDone process_step.simps if_not_P if_False)
    with assms show ?thesis by simp
  qed
next
  case ForcedExit
  with assms show ?thesis by (auto simp: process_ok_def shutdown_failures_def)
qed

interpretation process_steps: kept_run "process_step w" "process_ok w" "\<lambda>_. True" for w
  by unfold_locales (rule process_step_ok)

lemma process_run_ok: "process_run w p \<Longrightarrow> process_ok w p"
proof (induction rule: process_run.induct)
  case start
  show ?case by (simp add: process_ok_def running_process_def)
qed (rule process_step_ok)

text \<open>Every resource is closed at most once, and the process reports success only when all closed well.\<close>

lemma clean_exit:
  assumes "process_run w p" "0 \<in> set (pr_exits p)"
  shows "\<forall>n \<in> set (createShutdownSteps w). (n, None) \<in> set (pr_results p)"
proof
  fix n
  assume "n \<in> set (createShutdownSteps w)"
  with process_run_ok [OF assms(1)] assms(2) obtain r where r: "(n, r) \<in> set (pr_results p)"
    by (fastforce simp: process_ok_def)
  moreover have "r = None"
    using process_run_ok [OF assms(1)] assms(2) r
    by (cases r) (force simp: process_ok_def shutdown_failures_def)+
  ultimately show "(n, None) \<in> set (pr_results p)" by simp
qed

text \<open>A second signal changes nothing.\<close>

lemma second_signal: "process_step w Signal (process_step w Signal p) = process_step w Signal p"
  by simp

end
