(* ===== verification/Runs.thy ===== *)
theory Runs
  imports Samples Sessions Status Client Realtime Server
begin

text \<open>
  Concrete requests, clients, sockets and processes, on which the witnesses of the properties of
  the outer layers run.
\<close>

section \<open>A request\<close>

definition sample_env :: api_env where
  "sample_env =
     \<lparr> ae_msgs = (\<lambda>sch v. ''Invalid''), ae_parse = (\<lambda>t. None), ae_tz = 0, ae_allow = (\<lambda>l k. True) \<rparr>"

definition sample_rq :: "json \<Rightarrow> request" where
  "sample_rq body =
     \<lparr> rq_authorization = None, rq_internalToken = None, rq_signature = None, rq_ip = Some ''10.0.0.1'',
       rq_body = body, rq_rawBody = [], rq_query = JObj [] \<rparr>"

definition login_body :: json where
  "login_body = JObj [(''phone'', JStr ''9200000000''), (''otp'', JStr ''123456'')]"

definition login_db :: db where
  "login_db = (sample_db Proposed)\<lparr>users := [(''sam'', sender_user\<lparr>u_phone := ''9200000000''\<rparr>)],
     redis := [(''otp:phone:9200000000'',
       RedisOtp \<lparr> otp_hash = ''123456'', otp_attempts = 0, otp_createdAt = 0 \<rparr>, Some 600000)]\<rparr>"

lemma sample_login:
  "distinct (map fst (users login_db))" "\<not> has_session ''sam'' login_db"
  "has_session ''sam'' (snd (handle sample_world sample_env (AuthRoute VerifyOtpE) (sample_rq login_body) login_db))"
  by code_simp+

section \<open>A world with long tokens\<close>

text \<open>bcrypt looks at 72 bytes; the tokens of a user differ only in the time after them.\<close>

definition token_world :: world where
  "token_world = sample_world\<lparr>bcryptHash := (\<lambda>n p. CHR ''$'' # take 72 p),
     bcryptCompare := (\<lambda>p h. CHR ''$'' # take 72 p = h),
     jwtSign := (\<lambda>now k p. replicate 72 CHR ''a'' @ int_str now),
     jwtVerify := (\<lambda>now k t. Some (JObj [(''id'', JStr ''sam'')]))\<rparr>"

lemma clock_text: "int_str 1000 = ''1000''"
  by code_simp

lemma token_sample:
  "issueTokens token_world ''sam'' (sample_db Proposed) =
     (Inr \<lparr> tk_accessToken = replicate 72 CHR ''a'' @ ''1000'', tk_refreshToken = replicate 72 CHR ''a'' @ ''1000'',
            tk_user = sanitizeUser ''sam'' (sender_user\<lparr>u_refreshTokenHash := Some (CHR ''$'' # replicate 72 CHR ''a'')\<rparr>) \<rparr>,
      save_user ''sam'' (sender_user\<lparr>u_refreshTokenHash := Some (CHR ''$'' # replicate 72 CHR ''a'')\<rparr>) (next_draw (sample_db Proposed)))"
  by (simp add: issueTokens_def token_world_def Let_def clock_text)

section \<open>A client\<close>

text \<open>Two calls fail with an expired token; one refreshes it, the other waits; both are sent again.\<close>

definition sample_calls :: "client_event list" where
  "sample_calls =
     [Issue, Issue, Reply 0 (Failure (Some 401)), Reply 1 (Failure (Some 401)),
      RefreshAnswer (Some (JObj [(''accessToken'', JStr ''a2''), (''refreshToken'', JStr ''r2''), (''user'', JObj [])])),
      Reply 0 Success, Reply 1 (Failure (Some 500))]"

definition sample_client :: client where
  "sample_client =
     the (client_run sample_calls (initial_client (initial_auth\<lparr>as_refreshToken := Some ''r1''\<rparr>)))"

lemma sample_client_run:
  "client_run sample_calls (initial_client (initial_auth\<lparr>as_refreshToken := Some ''r1''\<rparr>)) = Some sample_client"
  "cl_flight sample_client = []" "cl_leader sample_client = None" "cl_next sample_client = 2"
  by code_simp+

section \<open>A gateway cluster\<close>

definition sample_gateway :: "string \<Rightarrow> gateway" where
  "sample_gateway gid =
     \<lparr> gw_id = gid, gw_sockets = [\<lparr> so_id = 1, so_user = Some ''sam'', so_rooms = [room_of_match ''m1''] \<rparr>],
       gw_inbox = [], gw_emitted = [], gw_delivered = [] \<rparr>"

lemma sample_gateway_fields [simp]: "gw_id (sample_gateway gid) = gid" "gw_inbox (sample_gateway gid) = []"
  by (simp_all add: sample_gateway_def)

definition sample_location :: json where
  "sample_location = JObj [(''matchId'', JStr ''m1''), (''lat'', JNum 18), (''lng'', JNum 73)]"

lemma sample_location_valid: "location_valid sample_location"
  by (simp add: sample_location_def location_valid_def is_number_def)

definition joined :: "socket list" where
  "joined = [\<lparr> so_id = 7, so_user = Some ''cara'', so_rooms = [room_of_match ''m1'', room_of_user ''cara''] \<rparr>]"

lemma joined_run: "backend_run W (sample_db st) joined"
proof -
  let ?ss = "connect_socket 7 (JObj [(''id'', JStr ''cara'')]) []"
  have "backend_run W (sample_db st) ?ss" by (rule backend_run.connect [OF backend_run.start]) simp
  from backend_run.message [OF this, of "hd ?ss" "JoinMatch (JObj [(''matchId'', JStr ''m1'')])" joined "[]"]
  show ?thesis
    by (simp add: connect_socket_def string_field_def destructure_def match_party_def join_room_def joined_def)
qed

section \<open>A process that shuts down\<close>

lemma process_run_fold: "process_run w p \<Longrightarrow> process_run w (fold (process_step w) es p)"
  by (induction es arbitrary: p) (auto intro: process_run.step)

definition all_workers :: runtime_workers where
  "all_workers = \<lparr> rw_matchWorker = True, rw_otpCleanupWorker = True, rw_payoutWorker = True,
     rw_reminderWorker = True, rw_slaRematchWorker = True, rw_paymentReconcilerWorker = True \<rparr>"

definition clean_process :: process_state where
  "clean_process = fold (process_step all_workers)
     (Signal # map (\<lambda>n. StepDone n None) (createShutdownSteps all_workers)) running_process"

lemma clean_process_run: "process_run all_workers clean_process"
  unfolding clean_process_def by (rule process_run_fold) (rule process_run.start)

lemma clean_process_exits: "pr_exits clean_process = [0]"
  by code_simp

end
