(* ===== verification/RouteMap.thy ===== *)
theory RouteMap
  imports Places
begin

text \<open>
  Distances: the rest of \<open>maps.service.ts\<close> (the great-circle distance, geocoding, the distance and the
  geometry of a route, with their fallbacks), \<open>routingSearch.service.ts\<close>, and the map of the portals
  that asks for them, \<open>shared/src/maps/RoutePreviewMap.tsx\<close>: its own estimate, its labels, and the
  requests it makes as the route changes.  The functions of \<open>Math\<close> that IEEE 754 leaves open are
  fields of \<open>math\<close>.
\<close>

section \<open>The great circle\<close>

text \<open>
  \<open>ma_sqrt\<close> is used at non-negative arguments only: at a negative one \<open>Math.sqrt\<close> is \<open>NaN\<close>, which is
  the \<open>None\<close> of \<open>js_sqrt\<close> and of every distance.
\<close>

record math =
  ma_PI :: rat
  ma_sin :: "rat \<Rightarrow> rat"
  ma_cos :: "rat \<Rightarrow> rat"
  ma_sqrt :: "rat \<Rightarrow> rat"
  ma_atan2 :: "rat \<Rightarrow> rat \<Rightarrow> rat"

definition js_sqrt :: "math \<Rightarrow> rat \<Rightarrow> rat option" where
  "js_sqrt M x = (if x < 0 then None else Some (ma_sqrt M x))"

definition toRadians :: "math \<Rightarrow> rat \<Rightarrow> rat" where
  "toRadians M v = jdiv (jmul v (ma_PI M)) 180"

text \<open>A point is its longitude and its latitude.\<close>

definition half_chord :: "math \<Rightarrow> rat \<times> rat \<Rightarrow> rat \<times> rat \<Rightarrow> rat" where
  "half_chord M = (\<lambda>(lng1, lat1) (lng2, lat2).
     (let dLat = toRadians M (jsub lat2 lat1);
          dLng = toRadians M (jsub lng2 lng1);
          s1 = ma_sin M (jdiv dLat 2);
          s2 = ma_sin M (jdiv dLng 2)
      in jadd (jmul s1 s1)
           (jmul (jmul (jmul (ma_cos M (toRadians M lat1)) (ma_cos M (toRadians M lat2))) s2) s2)))"

definition haversineKm :: "math \<Rightarrow> rat \<times> rat \<Rightarrow> rat \<times> rat \<Rightarrow> rat option" where
  "haversineKm M orig dest =
     (let a = half_chord M orig dest in
      case (js_sqrt M a, js_sqrt M (jsub 1 a)) of
        (Some y, Some x) \<Rightarrow> Some (jmul 6371 (jmul 2 (ma_atan2 M y x)))
      | _ \<Rightarrow> None)"

text \<open>\<open>Math.round(x * 10) / 10\<close>.\<close>

definition one_decimal :: "rat \<Rightarrow> rat" where
  "one_decimal x = jdiv (of_int (js_round (jmul x 10))) 10"

section \<open>Distance and geometry at the server\<close>

text \<open>
  The provider: \<open>re_places\<close> answers a token and a query, \<open>re_eta\<close> a key and the two points,
  \<open>re_route\<close> a token and the two points; \<open>None\<close> is a failed call.
\<close>

record route_env =
  re_maps :: maps_env
  re_math :: math
  re_REST_KEY :: "string option"
  re_places :: "string \<Rightarrow> string \<Rightarrow> json option"
  re_eta :: "string option \<Rightarrow> rat \<times> rat \<Rightarrow> rat \<times> rat \<Rightarrow> json option"
  re_route :: "string \<Rightarrow> rat \<times> rat \<Rightarrow> rat \<times> rat \<Rightarrow> json option"

text \<open>\<open>callRoutingSearch\<close>: no call without a URL, and a failed call is no answer.\<close>

definition stripped_url :: "string \<Rightarrow> string" where
  "stripped_url u = (if u \<noteq> [] \<and> last u = CHR ''/'' then butlast u else u)"

definition callRoutingSearch ::
  "string option \<Rightarrow> (string \<Rightarrow> json \<Rightarrow> json option) \<Rightarrow> string \<Rightarrow> json \<Rightarrow> json option" where
  "callRoutingSearch url post path payload =
     (case map_option stripped_url url of
        None \<Rightarrow> None
      | Some u \<Rightarrow> if u = [] then None else
          (case post (u @ path) payload of
             None \<Rightarrow> None
           | Some v \<Rightarrow> if truthy v then Some v else None))"

definition with_routing :: "string option \<Rightarrow> (string \<Rightarrow> json \<Rightarrow> json option) \<Rightarrow> route_env \<Rightarrow> route_env" where
  "with_routing url post E = E\<lparr>re_maps := (re_maps E)\<lparr>mp_routing := callRoutingSearch url post\<rparr>\<rparr>"

text \<open>\<open>v?.[0]\<close>.\<close>

definition first_of :: "json \<Rightarrow> json" where
  "first_of v =
     (case v of JArr (x # _) \<Rightarrow> x | JStr (c # _) \<Rightarrow> JStr [c] | JObj _ \<Rightarrow> jget v ''0'' | _ \<Rightarrow> JUndef)"

datatype geocoded = ByProvider json | ByServer json | BySuggestion "suggestion option"

definition first_suggestion :: "search_response \<Rightarrow> geocoded" where
  "first_suggestion r =
     (case r of Proxied v \<Rightarrow> ByServer (jor (first_of (jget v ''suggestions'')) JNull)
      | Found gs _ \<Rightarrow> BySuggestion (case gs of [] \<Rightarrow> None | g # _ \<Rightarrow> Some g))"

definition one_result :: search_context where
  "one_result = \<lparr> sc_actor = None, sc_field = None, sc_limit = Some 1 \<rparr>"

definition geocode_locally :: "route_env \<Rightarrow> string \<Rightarrow> search_db \<Rightarrow> geocoded \<times> search_db" where
  "geocode_locally E query s =
     (case suggestCities (re_maps E) query ''IND'' one_result s of (r, s1) \<Rightarrow> (first_suggestion r, s1))"

text \<open>An answer of \<open>null\<close> cannot be read, which is caught like a failure.\<close>

definition geocode :: "route_env \<Rightarrow> string \<Rightarrow> search_db \<Rightarrow> geocoded \<times> search_db" where
  "geocode E query s =
     (if useDemoMaps (re_maps E) then geocode_locally E query s
      else case getMMIToken (re_maps E) s of
        (None, s1) \<Rightarrow> geocode_locally E query s1
      | (Some token, s1) \<Rightarrow>
          (case re_places E token query of
             None \<Rightarrow> geocode_locally E query s1
           | Some v \<Rightarrow> if v = JNull \<or> v = JUndef then geocode_locally E query s1
               else (ByProvider (jor (first_of (jget v ''suggestedLocations'')) JNull), s1)))"

text \<open>\<open>(v || 0) / d\<close>; \<open>None\<close> is \<open>NaN\<close>.\<close>

definition number_over :: "json \<Rightarrow> rat \<Rightarrow> rat option" where
  "number_over v d = map_option (\<lambda>x. jdiv x d) (to_number (jor v (JNum 0)))"

definition local_distance :: "math \<Rightarrow> rat \<times> rat \<Rightarrow> rat \<times> rat \<Rightarrow> rat option \<times> int option" where
  "local_distance M orig dest =
     (let km = haversineKm M orig dest
      in (map_option one_decimal km, map_option (\<lambda>x. js_round (jmul (jdiv x 55) 60)) km))"

text \<open>The distance in kilometres and the time in minutes.\<close>

definition getRouteDistance :: "route_env \<Rightarrow> rat \<times> rat \<Rightarrow> rat \<times> rat \<Rightarrow> rat option \<times> rat option" where
  "getRouteDistance E orig dest =
     (let local = (case local_distance (re_math E) orig dest of (km, t) \<Rightarrow> (km, map_option of_int t))
      in if useDemoMaps (re_maps E) then local
         else case re_eta E (if truthy_str (re_REST_KEY E) then re_REST_KEY E else mp_MMI_CLIENT_ID (re_maps E)) orig dest of
           None \<Rightarrow> local
         | Some v \<Rightarrow> if v = JNull \<or> v = JUndef then local
             else (let route = first_of (jget v ''routes'')
                   in (number_over (jget route ''distance'') 1000, number_over (jget route ''duration'') 60)))"

record route_geometry =
  rg_distanceKm :: "rat option"
  rg_durationHours :: "rat option"
  rg_geometry :: json

datatype route_reply = Verbatim json | Computed route_geometry

definition line_string :: "(rat \<times> rat) list \<Rightarrow> json" where
  "line_string ps =
     JObj [(''type'', JStr ''LineString''), (''coordinates'', JArr (map (\<lambda>(x, y). JArr [JNum x, JNum y]) ps))]"

definition midpoint :: "rat \<times> rat \<Rightarrow> rat \<times> rat \<Rightarrow> rat \<times> rat" where
  "midpoint orig dest =
     (jdiv (jadd (fst orig) (fst dest)) 2, jadd (jdiv (jadd (snd orig) (snd dest)) 2) (fl (35 / 100)))"

definition fallbackGeometry :: "math \<Rightarrow> rat \<times> rat \<Rightarrow> rat \<times> rat \<Rightarrow> route_geometry" where
  "fallbackGeometry M orig dest =
     (let km = haversineKm M orig dest
      in \<lparr> rg_distanceKm = map_option one_decimal km,
           rg_durationHours = map_option (\<lambda>x. one_decimal (jdiv x 55)) km,
           rg_geometry = line_string [orig, midpoint orig dest, dest] \<rparr>)"

definition route_of :: "json \<Rightarrow> route_geometry" where
  "route_of v =
     (let route = first_of (jget v ''routes'')
      in \<lparr> rg_distanceKm = map_option one_decimal (number_over (jget route ''distance'') 1000),
           rg_durationHours = map_option one_decimal (number_over (jget route ''duration'') 3600),
           rg_geometry = jor (jget route ''geometry'') (line_string []) \<rparr>)"

text \<open>As \<open>JSON.stringify\<close> writes it: \<open>NaN\<close> is \<open>null\<close>.\<close>

definition geometry_json :: "route_geometry \<Rightarrow> json" where
  "geometry_json r =
     JObj [(''distanceKm'', case rg_distanceKm r of None \<Rightarrow> JNull | Some x \<Rightarrow> JNum x),
           (''durationHours'', case rg_durationHours r of None \<Rightarrow> JNull | Some x \<Rightarrow> JNum x),
           (''geometry'', rg_geometry r)]"

definition route_key :: "route_env \<Rightarrow> rat \<times> rat \<Rightarrow> rat \<times> rat \<Rightarrow> string" where
  "route_key E orig dest =
     (let t = mp_number_text (re_maps E)
      in ''cache:route:'' @ t (fst orig) @ '','' @ t (snd orig) @ '':'' @ t (fst dest) @ '','' @ t (snd dest))"

definition route_params :: "rat \<times> rat \<Rightarrow> rat \<times> rat \<Rightarrow> json" where
  "route_params orig dest =
     JObj [(''origin_lng'', JNum (fst orig)), (''origin_lat'', JNum (snd orig)),
           (''dest_lng'', JNum (fst dest)), (''dest_lat'', JNum (snd dest))]"

text \<open>The provider asked, and its answer kept for a day.\<close>

definition ask_provider :: "route_env \<Rightarrow> rat \<times> rat \<Rightarrow> rat \<times> rat \<Rightarrow> search_db \<Rightarrow> route_reply \<times> search_db" where
  "ask_provider E orig dest s =
     (case getMMIToken (re_maps E) s of
        (None, s1) \<Rightarrow> (Computed (fallbackGeometry (re_math E) orig dest), s1)
      | (Some token, s1) \<Rightarrow>
          (case re_route E token orig dest of
             None \<Rightarrow> (Computed (fallbackGeometry (re_math E) orig dest), s1)
           | Some v \<Rightarrow>
               (Computed (route_of v),
                lift_db (redis_setex (route_key E orig dest) 86400
                  (RedisString (mp_stringify (re_maps E) (geometry_json (route_of v))))) s1)))"

definition getRouteGeometry :: "route_env \<Rightarrow> rat \<times> rat \<Rightarrow> rat \<times> rat \<Rightarrow> search_db \<Rightarrow> route_reply \<times> search_db" where
  "getRouteGeometry E orig dest s =
     (case mp_routing (re_maps E) ''/internal/v1/route-geometry'' (route_params orig dest) of
        Some v \<Rightarrow> (Verbatim v, s)
      | None \<Rightarrow>
          if useDemoMaps (re_maps E) then (Computed (fallbackGeometry (re_math E) orig dest), s)
          else case cached_text (route_key E orig dest) s of
            Some (c # t) \<Rightarrow>
              (case mp_parse (re_maps E) (c # t) of
                 Some v \<Rightarrow> (Verbatim v, s)
               | None \<Rightarrow> ask_provider E orig dest s)
          | _ \<Rightarrow> ask_provider E orig dest s)"

section \<open>The map of the portals\<close>

record route_stats =
  rs_distanceKm :: "rat option"
  rs_durationHours :: "rat option"

definition crowKm :: "math \<Rightarrow> rat \<times> rat \<Rightarrow> rat \<times> rat \<Rightarrow> rat option" where
  "crowKm M = (\<lambda>(lng1, lat1) (lng2, lat2).
     (let dLat = jdiv (jmul (jsub lat2 lat1) (ma_PI M)) 180;
          dLon = jdiv (jmul (jsub lng2 lng1) (ma_PI M)) 180;
          s1 = ma_sin M (jdiv dLat 2);
          s2 = ma_sin M (jdiv dLon 2);
          a = jadd (jmul s1 s1)
                (jmul (jmul (jmul (ma_cos M (jdiv (jmul lat1 (ma_PI M)) 180))
                                  (ma_cos M (jdiv (jmul lat2 (ma_PI M)) 180))) s2) s2)
      in case (js_sqrt M a, js_sqrt M (jsub 1 a)) of
           (Some y, Some x) \<Rightarrow> Some (jmul 6371 (jmul 2 (ma_atan2 M y x)))
         | _ \<Rightarrow> None))"

definition roadKm :: "rat \<Rightarrow> int" where
  "roadKm km = max (js_round (jmul km (fl (128 / 100)))) 35"

definition computeEstimatedStats :: "math \<Rightarrow> (rat \<times> rat) option \<Rightarrow> (rat \<times> rat) option \<Rightarrow> route_stats" where
  "computeEstimatedStats M originCoords destCoords =
     (case (originCoords, destCoords) of
        (Some orig, Some dest) \<Rightarrow>
          (let road = map_option roadKm (crowKm M orig dest)
           in \<lparr> rs_distanceKm = map_option of_int road,
                rs_durationHours = map_option (\<lambda>n. to_fixed 1 (jdiv (of_int n) 65)) road \<rparr>)
      | _ \<Rightarrow> \<lparr> rs_distanceKm = Some 650, rs_durationHours = Some (95 / 10) \<rparr>)"

text \<open>The landmark of a city: the name, of what \<open>getCityLandmark\<close> gives.\<close>

definition city_landmarks :: "(string list \<times> string) list" where
  "city_landmarks =
     [([''bengaluru'', ''bangalore''], ''Vidhana Soudha''),
      ([''hyderabad'', ''secunderabad''], ''Charminar''),
      ([''delhi'', ''noida'', ''gurgaon'', ''gurugram''], ''India Gate''),
      ([''mumbai'', ''bombay'', ''thane''], ''Gateway of India''),
      ([''chennai'', ''madras''], ''Central Station''),
      ([''kolkata'', ''calcutta''], ''Howrah Bridge''),
      ([''jaipur''], ''Hawa Mahal''),
      ([''pune''], ''Shaniwar Wada'')]"

definition getCityLandmark :: "string option \<Rightarrow> string" where
  "getCityLandmark cityName =
     (let q = toLowerCase (str_or cityName [])
      in case find (\<lambda>(names, _). list_ex (strIncludes q) names) city_landmarks of
           Some (_, landmark) \<Rightarrow> landmark
         | None \<Rightarrow> str_or cityName ''City'' @ '' Hub'')"

definition normalizedMode :: "string option \<Rightarrow> string" where
  "normalizedMode m = toLowerCase (str_or m ''train'')"

definition mode_data :: "string \<Rightarrow> (string \<times> string) list" where
  "mode_data m =
     (if m = ''flight'' then
       [(''mode'', ''flight''),
        (''title'', ''Direct Jet Airway''),
        (''speed'', ''840 km/h Airspeed''),
        (''badge'', ''Skyway Flight''),
        (''accentBg'', ''bg-sky-50''),
        (''accentText'', ''text-sky-700''),
        (''accentBorder'', ''border-sky-200''),
        (''originLabel'', ''ORIGIN AIRPORT''),
        (''destLabel'', ''DEST AIRPORT''),
        (''tagline'', ''High-altitude airway with non-stop aerial transit'')]
      else 
     if m = ''car'' then
       [(''mode'', ''car''),
        (''title'', ''National Highway (NH-44)''),
        (''speed'', ''110 km/h Express Drive''),
        (''badge'', ''Scenic Expressway''),
        (''accentBg'', ''bg-indigo-50''),
        (''accentText'', ''text-indigo-700''),
        (''accentBorder'', ''border-indigo-200''),
        (''originLabel'', ''PICKUP HUB''),
        (''destLabel'', ''DOORSTEP DROP''),
        (''tagline'', ''Lush roadside drive with non-stop highway transit'')]
      else 
     if m = ''bus'' then
       [(''mode'', ''bus''),
        (''title'', ''Intercity AC Sleeper''),
        (''speed'', ''80 km/h Highway Cruiser''),
        (''badge'', ''Intercity Trunk''),
        (''accentBg'', ''bg-amber-50''),
        (''accentText'', ''text-amber-700''),
        (''accentBorder'', ''border-amber-200''),
        (''originLabel'', ''BUS TERMINAL''),
        (''destLabel'', ''CITY HUB''),
        (''tagline'', ''Reliable trunk route connection across state highways'')]
      else 
     if m = ''bike'' then
       [(''mode'', ''bike''),
        (''title'', ''Express City Relay''),
        (''speed'', ''45 km/h Quick Courier''),
        (''badge'', ''Rapid Metro Relay''),
        (''accentBg'', ''bg-rose-50''),
        (''accentText'', ''text-rose-700''),
        (''accentBorder'', ''border-rose-200''),
        (''originLabel'', ''METRO HUB''),
        (''destLabel'', ''EXPRESS DROP''),
        (''tagline'', ''Agile point-to-point courier handoff through city corridors'')]
      else 
       [(''mode'', ''train''),
        (''title'', ''Vande Bharat High-Speed Rail''),
        (''speed'', ''130 km/h Track Speed''),
        (''badge'', ''Electrified Rail''),
        (''accentBg'', ''bg-emerald-50''),
        (''accentText'', ''text-emerald-700''),
        (''accentBorder'', ''border-emerald-200''),
        (''originLabel'', ''RAIL JUNCTION''),
        (''destLabel'', ''CENTRAL TERMINAL''),
        (''tagline'', ''Dedicated electrified railway corridor with zero traffic'')])"

text \<open>
  The requests of a map.  \<open>pv_pending\<close> has the calls that have not answered, each with the estimate
  that its effect closed over; nothing cancels them.  \<open>pv_reported\<close> is what \<open>onDistanceFetched\<close> got.
\<close>

record preview =
  pv_route :: "(rat \<times> rat) option \<times> (rat \<times> rat) option"
  pv_routeStats :: "route_stats option"
  pv_pending :: "(nat \<times> route_stats) list"
  pv_next :: nat
  pv_reported :: "route_stats list"

definition fallbackStats :: "math \<Rightarrow> preview \<Rightarrow> route_stats" where
  "fallbackStats M p = computeEstimatedStats M (fst (pv_route p)) (snd (pv_route p))"

definition activeStats :: "math \<Rightarrow> preview \<Rightarrow> route_stats" where
  "activeStats M p = (case pv_routeStats p of Some st \<Rightarrow> st | None \<Rightarrow> fallbackStats M p)"

definition preview_start :: preview where
  "preview_start =
     \<lparr> pv_route = (None, None), pv_routeStats = None, pv_pending = [], pv_next = 0, pv_reported = [] \<rparr>"

datatype preview_event =
    RouteSet "(rat \<times> rat) option" "(rat \<times> rat) option"
  | RouteAnswered nat "route_stats option"

definition ask_route :: "math \<Rightarrow> preview \<Rightarrow> preview" where
  "ask_route M p =
     (if fst (pv_route p) = None \<or> snd (pv_route p) = None then p
      else p\<lparr>pv_pending := pv_pending p @ [(pv_next p, fallbackStats M p)], pv_next := pv_next p + 1\<rparr>)"

definition route_answered :: "nat \<Rightarrow> route_stats option \<Rightarrow> preview \<Rightarrow> preview" where
  "route_answered n found p =
     (case map_of (pv_pending p) n of
        None \<Rightarrow> p
      | Some estimate \<Rightarrow>
          (let p1 = p\<lparr>pv_pending := filter (\<lambda>c. fst c \<noteq> n) (pv_pending p)\<rparr>
           in case found of
                Some st \<Rightarrow> p1\<lparr>pv_routeStats := Some st, pv_reported := pv_reported p1 @ [st]\<rparr>
              | None \<Rightarrow> p1\<lparr>pv_reported := pv_reported p1 @ [estimate]\<rparr>))"

fun preview_step :: "math \<Rightarrow> preview_event \<Rightarrow> preview \<Rightarrow> preview" where
  "preview_step M (RouteSet orig dest) p = ask_route M (p\<lparr>pv_route := (orig, dest)\<rparr>)"
| "preview_step M (RouteAnswered n found) p = route_answered n found p"

section \<open>Distances\<close>

lemma jmul_commute: "jmul a b = jmul b a"
  by (simp add: jmul_def mult.commute)

lemma jmul_minus [simp]: "jmul (- a) b = - jmul a b" "jmul a (- b) = - jmul a b"
  by (simp_all add: jmul_def fl_minus)

lemma jdiv_minus [simp]: "jdiv (- a) b = - jdiv a b"
  by (simp add: jdiv_def fl_minus)

lemma jsub_swap: "jsub a b = - jsub b a"
  by (metis fl_minus jsub_def minus_diff_eq)

text \<open>The page and the server work the distance out in the same way.\<close>

lemma crow_is_haversine: "crowKm M orig dest = haversineKm M orig dest"
  by (simp add: crowKm_def haversineKm_def half_chord_def toRadians_def Let_def split: prod.splits)

lemma haversine_symmetric:
  assumes odd: "\<And>x. ma_sin M (- x) = - ma_sin M x"
  shows "haversineKm M orig dest = haversineKm M dest orig"
proof -
  have "half_chord M orig dest = half_chord M dest orig"
    by (simp add: half_chord_def Let_def toRadians_def odd jsub_swap [of "fst orig" "fst dest"]
        jsub_swap [of "snd orig" "snd dest"] jmul_commute [of "ma_cos M (toRadians M (snd orig))"]
        jmul_commute [of "ma_cos M (jdiv (jmul (snd orig) (ma_PI M)) 180)"] split_beta)
  then show ?thesis by (simp add: haversineKm_def)
qed

text \<open>What the functions are documented to give, and the Number \<open>Math.PI\<close>.\<close>

definition math_ok :: "math \<Rightarrow> bool" where
  "math_ok M \<longleftrightarrow>
     ma_PI M = 884279719003555 / 281474976710656 \<and>
     (\<forall>x. ma_sin M (- x) = - ma_sin M x) \<and>
     (\<forall>x y. 0 \<le> y \<longrightarrow> 0 \<le> x \<longrightarrow> 0 \<le> ma_atan2 M y x \<and> ma_atan2 M y x \<le> ma_PI M / 2) \<and>
     (\<forall>x. 0 \<le> x \<longrightarrow> 0 \<le> ma_sqrt M x)"

lemma angle_bounds:
  assumes "0 \<le> t" and "t \<le> 884279719003555 / 562949953421312"
  shows "0 \<le> jmul 6371 (jmul 2 t)" and "jmul 6371 (jmul 2 t) \<le> 25484"
proof -
  show "0 \<le> jmul 6371 (jmul 2 t)" using assms(1) by (intro jmul_nonneg) simp_all
  have "jmul 2 t \<le> of_int 4"
    unfolding jmul_def using assms(2) by (intro fl.rnd_le_int) simp_all
  then have "6371 * jmul 2 t \<le> of_int 25484" by simp
  then show "jmul 6371 (jmul 2 t) \<le> 25484"
    using fl.rnd_le_int [of "6371 * jmul 2 t" 25484] by (simp add: jmul_def)
qed

lemma haversine_bounds: "math_ok M \<Longrightarrow> haversineKm M orig dest = Some km \<Longrightarrow> 0 \<le> km \<and> km \<le> 25484"
proof -
  assume M: "math_ok M" and km: "haversineKm M orig dest = Some km"
  let ?y = "ma_sqrt M (half_chord M orig dest)" and ?x = "ma_sqrt M (jsub 1 (half_chord M orig dest))"
  have xy: "km = jmul 6371 (jmul 2 (ma_atan2 M ?y ?x))"
    and "0 \<le> half_chord M orig dest" and "0 \<le> jsub 1 (half_chord M orig dest)"
    using km by (auto simp: haversineKm_def js_sqrt_def Let_def not_less split: if_splits)
  then have "0 \<le> ?y" "0 \<le> ?x" using M by (simp_all add: math_ok_def)
  then have "0 \<le> ma_atan2 M ?y ?x" "ma_atan2 M ?y ?x \<le> ma_PI M / 2" using M by (auto simp: math_ok_def)
  moreover have "ma_PI M / 2 = 884279719003555 / 562949953421312" using M by (simp add: math_ok_def)
  ultimately show ?thesis using angle_bounds [of "ma_atan2 M ?y ?x"] by (simp add: xy)
qed

lemma roadKm_bounds:
  assumes "0 \<le> km" and "km \<le> 25484"
  shows "35 \<le> roadKm km" and "roadKm km \<le> 50968"
proof -
  show "35 \<le> roadKm km" by (simp add: roadKm_def)
  have f: "fl (128 / 100) \<le> of_int 2" by (intro fl.rnd_le_int) simp_all
  have "0 \<le> fl (128 / 100)" by (rule fl.rnd_nonneg) simp
  then have "km * fl (128 / 100) \<le> 25484 * 2" using assms f by (intro mult_mono) simp_all
  then have "jmul km (fl (128 / 100)) \<le> of_int 50968"
    unfolding jmul_def by (intro fl.rnd_le_int) simp_all
  then have "js_round (jmul km (fl (128 / 100))) \<le> 50968" by (rule js_round_le)
  then show "roadKm km \<le> 50968" by (simp add: roadKm_def)
qed

text \<open>The estimate of a page that knows both places.\<close>

lemma estimate_bounds:
  assumes "math_ok M" and "rs_distanceKm (computeEstimatedStats M (Some orig) (Some dest)) = Some km"
  shows "35 \<le> km \<and> km \<le> 50968 \<and> (\<exists>n. km = of_int n)"
proof -
  obtain crow where "haversineKm M orig dest = Some crow" "km = of_int (roadKm crow)"
    using assms(2) by (auto simp: computeEstimatedStats_def crow_is_haversine Let_def)
  moreover from this haversine_bounds [OF assms(1)] roadKm_bounds [of crow]
  have "35 \<le> roadKm crow" "roadKm crow \<le> 50968" by blast+
  ultimately show ?thesis by auto
qed

section \<open>The geometry of a route\<close>

lemma fallback_symmetric:
  "math_ok M \<Longrightarrow> rg_distanceKm (fallbackGeometry M orig dest) = rg_distanceKm (fallbackGeometry M dest orig)"
  by (simp add: fallbackGeometry_def math_ok_def haversine_symmetric [of M orig dest] Let_def)

definition later :: "int \<Rightarrow> search_db \<Rightarrow> search_db" where
  "later t = lift_db (\<lambda>d. d\<lparr>clock := clock d + t\<rparr>)"

lemma cached_later:
  "0 \<le> t \<Longrightarrow> t < ttl * 1000 \<Longrightarrow> cached_text k (later t (lift_db (redis_setex k ttl (RedisString v)) s)) = Some v"
  by (simp add: cached_text_def later_def lift_db_def redis_setex_def redis_get_def live_def update_conv')

lemma routing_config [simp]: "re_maps (E\<lparr>re_route := f\<rparr>) = re_maps E" "route_key (E\<lparr>re_route := f\<rparr>) = route_key E"
  by (simp_all add: route_key_def fun_eq_iff)

text \<open>For a day after the provider has answered it is not asked again: the answer is read back.\<close>

lemma route_read_back:
  assumes "mp_routing (re_maps E) ''/internal/v1/route-geometry'' (route_params orig dest) = None"
    and "\<not> useDemoMaps (re_maps E)"
    and "case cached_text (route_key E orig dest) s of None \<Rightarrow> True | Some t \<Rightarrow> t = []"
    and "getMMIToken (re_maps E) s = (Some token, s1)" and "re_route E token orig dest = Some v"
    and "mp_stringify (re_maps E) (geometry_json (route_of v)) \<noteq> []"
    and "mp_parse (re_maps E) (mp_stringify (re_maps E) (geometry_json (route_of v))) = Some (geometry_json (route_of v))"
    and "0 \<le> t" and "t < 86400000"
  shows "fst (getRouteGeometry E orig dest s) = Computed (route_of v)"
    and "fst (getRouteGeometry (E\<lparr>re_route := f\<rparr>) orig dest (later t (snd (getRouteGeometry E orig dest s)))) =
           Verbatim (geometry_json (route_of v))"
proof -
  let ?text = "mp_stringify (re_maps E) (geometry_json (route_of v))"
  have first: "getRouteGeometry E orig dest s =
      (Computed (route_of v), lift_db (redis_setex (route_key E orig dest) 86400 (RedisString ?text)) s1)"
    using assms(1-5) by (auto simp: getRouteGeometry_def ask_provider_def split: option.splits list.splits)
  then show "fst (getRouteGeometry E orig dest s) = Computed (route_of v)" by simp
  have "cached_text (route_key E orig dest) (later t (snd (getRouteGeometry E orig dest s))) = Some ?text"
    unfolding first snd_conv using assms(8,9) by (intro cached_later) simp_all
  moreover obtain c u where "?text = c # u" using assms(6) by (cases ?text) auto
  ultimately show "fst (getRouteGeometry (E\<lparr>re_route := f\<rparr>) orig dest (later t (snd (getRouteGeometry E orig dest s)))) =
           Verbatim (geometry_json (route_of v))"
    using assms(1,2,7) by (simp add: getRouteGeometry_def)
qed

section \<open>The requests of a map\<close>

text \<open>Every request is numbered, and is either under way or has been reported once.\<close>

definition preview_ok :: "preview \<Rightarrow> bool" where
  "preview_ok p =
     (distinct (map fst (pv_pending p)) \<and> list_all (\<lambda>c. fst c < pv_next p) (pv_pending p) \<and>
      length (pv_pending p) + length (pv_reported p) = pv_next p)"

lemma length_removed:
  "distinct (map fst xs) \<Longrightarrow> map_of xs n = Some v \<Longrightarrow> Suc (length (filter (\<lambda>c. fst c \<noteq> n) xs)) = length xs"
proof (induction xs)
  case (Cons c xs)
  then show ?case
    by (auto simp: image_iff split: if_splits intro!: arg_cong [where f = length] filter_True)
qed simp

lemma ask_route_ok: "preview_ok p \<Longrightarrow> preview_ok (ask_route M p)"
  by (auto simp: preview_ok_def ask_route_def list_all_iff)

lemma route_answered_ok: "preview_ok p \<Longrightarrow> preview_ok (route_answered n found p)"
proof (cases "map_of (pv_pending p) n")
  case None
  then show "preview_ok p \<Longrightarrow> ?thesis" by (simp add: route_answered_def)
next
  case (Some estimate)
  assume p: "preview_ok p"
  then have "Suc (length (filter (\<lambda>c. fst c \<noteq> n) (pv_pending p))) = length (pv_pending p)"
    using length_removed [OF _ Some] by (simp add: preview_ok_def)
  with p Some show ?thesis
    by (auto simp: preview_ok_def route_answered_def Let_def list_all_iff distinct_map_filter split: option.splits)
qed

lemma route_changed_ok [simp]: "preview_ok (p\<lparr>pv_route := r\<rparr>) = preview_ok p"
  by (simp add: preview_ok_def)

lemma preview_step_ok: "preview_ok p \<Longrightarrow> preview_ok (preview_step M e p)"
  by (cases e) (simp_all add: route_answered_ok ask_route_ok)

interpretation route_preview: kept_run "preview_step M" preview_ok "\<lambda>_. True" for M
  by unfold_locales (rule preview_step_ok)

lemma preview_runs_ok: "preview_ok (fold (preview_step M) es preview_start)"
  using route_preview.admitted_run [of preview_start es M]
  by (simp add: list_all_iff preview_start_def preview_ok_def)

text \<open>
  The answer for a route that has been left replaces the statistics of the one shown; until then the
  statistics of the old route stay.
\<close>

lemma left_route_shown:
  assumes "preview_ok p" and "map_of (pv_pending p) n = Some estimate"
  shows "activeStats M (preview_step M (RouteAnswered n (Some st)) (preview_step M (RouteSet orig dest) p)) = st"
  using assms by (auto simp: ask_route_def route_answered_def activeStats_def Let_def split: option.splits)

lemma old_statistics_kept:
  "pv_routeStats p = Some st \<Longrightarrow> activeStats M (preview_step M (RouteSet orig dest) p) = st"
  by (simp add: ask_route_def activeStats_def)

end
