(* ===== verification/SideRoutes.thy ===== *)
theory SideRoutes
  imports Api RouteMap Reports
begin

text \<open>
  The routes beside the core: \<open>maps.routes.ts\<close>, \<open>job.routes.ts\<close> and \<open>analytics.routes.ts\<close> with their
  controllers, and the health checks of \<open>app.ts\<close>.  They run behind the same middleware as \<open>Api\<close>, on the
  state of the search and the stored analytics events; none of them changes a document.
\<close>

section \<open>Routes\<close>

text \<open>\<open>JobsE\<close> has the URL as it was sent, which is part of the key of the response cache.\<close>

datatype side_endpoint =
    SuggestE | SelectE | RouteE | JobsE string | DwellE
  | AdminAllE | AdminSummaryE | AdminFunnelE | AdminDwellE | AdminTrendE
  | HealthE | ReadyE

fun side_guards :: "side_endpoint \<Rightarrow> guard list" where
  "side_guards SuggestE = [Limit MapsLimit]"
| "side_guards SelectE = [Limit MapsLimit]"
| "side_guards RouteE = [Limit MapsLimit]"
| "side_guards (JobsE _) = [Limit TripLimit, NeedAuth, NeedRole ''carrier'']"
| "side_guards DwellE = [Limit AuthLimit]"
| "side_guards AdminAllE = [NeedInternal]"
| "side_guards AdminSummaryE = [NeedInternal]"
| "side_guards AdminFunnelE = [NeedInternal]"
| "side_guards AdminDwellE = [NeedInternal]"
| "side_guards AdminTrendE = [NeedInternal]"
| "side_guards HealthE = []"
| "side_guards ReadyE = []"

record side_state =
  ss_search :: search_db
  ss_events :: "analytics_event list"

text \<open>
  \<open>sv_jobsText\<close> is the JSON text of a listing of jobs, \<open>sv_ready\<close> whether MongoDB, the cache and the
  queue are connected, \<open>sv_epoch\<close> the number of days that the driver makes of an invalid date.
\<close>

record side_env =
  sv_api :: api_env
  sv_route :: route_env
  sv_jobsText :: "job_view list \<Rightarrow> string"
  sv_ready :: "bool \<times> bool \<times> bool"
  sv_epoch :: int

datatype side_answer =
    SideSuggest search_response | SideSelected "json + bool" | SideRoute route_reply
  | SideJobs http_response | SideSummary summary | SideFunnel "(string \<times> nat) list"
  | SideDwell "page_dwell list" | SideTrend "(int \<times> nat) list"
  | SideAll summary "(string \<times> nat) list" "page_dwell list" "(int \<times> nat) list"
  | SideNone | SideHealth | SideReady bool bool bool | SideFailure error_response

section \<open>Controllers\<close>

definition search_context_of :: "json \<Rightarrow> search_context" where
  "search_context_of q =
     \<lparr> sc_actor = (case jget q ''actor'' of JStr t \<Rightarrow> Some t | _ \<Rightarrow> None),
       sc_field = (case jget q ''field'' of JStr t \<Rightarrow> Some t | _ \<Rightarrow> None),
       sc_limit = (case jget q ''limit'' of JNum n \<Rightarrow> Some \<lfloor>n\<rfloor> | _ \<Rightarrow> None) \<rparr>"

definition opt_string :: "json \<Rightarrow> string option" where
  "opt_string v = (case v of JStr t \<Rightarrow> Some t | _ \<Rightarrow> None)"

definition selection_of :: "json \<Rightarrow> selection" where
  "selection_of p =
     (let g = jget p ''suggestion'' in
      \<lparr> sl_query = js_text (jget p ''query''), sl_region = opt_string (jget p ''region''),
        sl_actor = opt_string (jget p ''actor''), sl_field = opt_string (jget p ''field''),
        sl_placeName = js_text (jget g ''placeName''), sl_placeAddress = js_text (jget g ''placeAddress''),
        sl_eLoc = js_text (jget g ''eLoc''), sl_city = opt_string (jget g ''city''), sl_state = opt_string (jget g ''state'') \<rparr>)"

definition number_of :: "json \<Rightarrow> rat" where
  "number_of v = (case v of JNum x \<Rightarrow> x | _ \<Rightarrow> 0)"

text \<open>\<open>parseInt(t, 10)\<close>; \<open>None\<close> is \<open>NaN\<close>.\<close>

fun digits_int :: "int \<Rightarrow> string \<Rightarrow> int" where
  "digits_int n [] = n"
| "digits_int n (c # s) = digits_int (n * 10 + (char_code c - 48)) s"

definition unsigned_prefix :: "string \<Rightarrow> int option" where
  "unsigned_prefix t = (let ds = takeWhile is_digit t in if ds = [] then None else Some (digits_int 0 ds))"

definition js_parseInt :: "string \<Rightarrow> int option" where
  "js_parseInt t =
     (case dropWhile is_space t of
        [] \<Rightarrow> None
      | c # s \<Rightarrow> if c = CHR ''-'' then map_option uminus (unsigned_prefix s)
                 else if c = CHR ''+'' then unsigned_prefix s else unsigned_prefix (c # s))"

definition trend_days :: "side_env \<Rightarrow> json \<Rightarrow> int" where
  "trend_days E v =
     (case js_parseInt (if v = JUndef \<or> v = JNull then ''30'' else mp_text (re_maps (sv_route E)) v) of
        None \<Rightarrow> sv_epoch E
      | Some d \<Rightarrow> min (max d 1) 90)"

text \<open>A handler of the search, and one of the database, on the state of these routes.\<close>

definition on_search :: "(search_db \<Rightarrow> 'a \<times> search_db) \<Rightarrow> (side_state, 'a) handler" where
  "on_search f st = (case f (ss_search st) of (x, s) \<Rightarrow> (Inr x, st\<lparr>ss_search := s\<rparr>))"

definition on_db :: "(db, 'a) handler \<Rightarrow> (side_state, 'a) handler" where
  "on_db m st =
     (case m (sd_db (ss_search st)) of
        (r, d) \<Rightarrow> (r, st\<lparr>ss_search := (ss_search st)\<lparr>sd_db := d\<rparr>\<rparr>))"

definition jobs_route :: "side_env \<Rightarrow> oid \<Rightarrow> (db, int \<times> string) handler" where
  "jobs_route E usr = readM (\<lambda>d. (200, sv_jobsText E (listAvailableJobs usr d)))"

fun side_controller ::
  "world \<Rightarrow> side_env \<Rightarrow> side_endpoint \<Rightarrow> request \<Rightarrow> auth_user option \<Rightarrow> json \<Rightarrow> (side_state, int \<times> side_answer) handler" where
  "side_controller W E SuggestE rq u b =
     bindM (parseM W mapSuggestSchema (rq_query rq)) (\<lambda>q.
     bindM (on_search (suggestCities (re_maps (sv_route E)) (js_text (jget q ''q'')) (js_text (jget q ''region''))
       (search_context_of q))) (\<lambda>r. retM (200, SideSuggest r)))"
| "side_controller W E SelectE rq u b =
     bindM (parseM W mapSelectSchema b) (\<lambda>p.
     bindM (on_search (recordSuggestionSelection (re_maps (sv_route E)) (selection_of p))) (\<lambda>r.
     retM (200, SideSelected r)))"
| "side_controller W E RouteE rq u b =
     bindM (parseM W mapRouteSchema (rq_query rq)) (\<lambda>q.
     bindM (on_search (getRouteGeometry (sv_route E)
       (number_of (jget q ''originLng''), number_of (jget q ''originLat''))
       (number_of (jget q ''destLng''), number_of (jget q ''destLat'')))) (\<lambda>r. retM (200, SideRoute r)))"
| "side_controller W E (JobsE url) rq u b =
     bindM (on_db (cacheMiddleware 30 ''GET'' url (map_option au_id u) (jobs_route E (user_id u)))) (\<lambda>r.
     retM (hr_status r, SideJobs r))"
| "side_controller W E DwellE rq u b =
     (\<lambda>st. case recordDwellController (mp_text (re_maps (sv_route E))) b (clock (sd_db (ss_search st))) (ss_events st) of
        (Inl e, es) \<Rightarrow> (Inl e, st\<lparr>ss_events := es\<rparr>)
      | (Inr n, es) \<Rightarrow> (Inr (n, SideNone), st\<lparr>ss_events := es\<rparr>))"
| "side_controller W E AdminAllE rq u b =
     (\<lambda>st. let d = sd_db (ss_search st) in
        (Inr (200, SideAll (getAnalyticsSummary d) (getMatchFunnel d) (getDwellByPage (ss_events st)) (getSignupTrend 30 d)), st))"
| "side_controller W E AdminSummaryE rq u b =
     readM (\<lambda>st. (200, SideSummary (getAnalyticsSummary (sd_db (ss_search st)))))"
| "side_controller W E AdminFunnelE rq u b =
     readM (\<lambda>st. (200, SideFunnel (getMatchFunnel (sd_db (ss_search st)))))"
| "side_controller W E AdminDwellE rq u b = readM (\<lambda>st. (200, SideDwell (getDwellByPage (ss_events st))))"
| "side_controller W E AdminTrendE rq u b =
     readM (\<lambda>st. (200, SideTrend (getSignupTrend (trend_days E (jget (rq_query rq) ''days'')) (sd_db (ss_search st)))))"
| "side_controller W E HealthE rq u b = retM (200, SideHealth)"
| "side_controller W E ReadyE rq u b =
     (case sv_ready E of (mongo, cache, queue) \<Rightarrow>
        retM (if mongo \<and> cache \<and> queue then 200 else 503, SideReady mongo cache queue))"

definition side_failure :: "world \<Rightarrow> js_error \<Rightarrow> int \<times> side_answer" where
  "side_failure W e = (let r = errorHandler W e in (er_status r, SideFailure r))"

definition side_handle ::
  "world \<Rightarrow> side_env \<Rightarrow> side_endpoint \<Rightarrow> request \<Rightarrow> side_state \<Rightarrow> (int \<times> side_answer) \<times> side_state" where
  "side_handle W E ep rq st =
     (case run_guards W (sv_api E) (clock (sd_db (ss_search st))) rq (side_guards ep) (None, sanitizeNoSql (rq_body rq)) of
        Inl e \<Rightarrow> (side_failure W e, st)
      | Inr (u, b) \<Rightarrow>
          (case side_controller W E ep rq u b st of
             (Inl e, st') \<Rightarrow> (side_failure W e, st')
           | (Inr r, st') \<Rightarrow> (r, st')))"

section \<open>What they leave alone\<close>

text \<open>The documents, jobs and messages of the database: everything but Redis.\<close>

definition same_documents :: "db \<Rightarrow> db \<Rightarrow> bool" where
  "same_documents d d' \<longleftrightarrow> d'\<lparr>redis := redis d\<rparr> = d"

lemma same_documents_refl [simp]: "same_documents d d"
  by (simp add: same_documents_def)

lemma same_documents_setex [simp]: "same_documents d (redis_setex k ttl v d') = same_documents d d'"
  by (simp add: same_documents_def redis_setex_def)

definition keeps_documents :: "(search_db \<Rightarrow> 'a \<times> search_db) \<Rightarrow> bool" where
  "keeps_documents f \<longleftrightarrow> (\<forall>s. same_documents (sd_db s) (sd_db (snd (f s))))"

lemma token_keeps: "same_documents d (sd_db (snd (getMMIToken E s))) = same_documents d (sd_db s)"
  by (auto simp: getMMIToken_def lift_db_def split: option.splits list.splits)

lemma payload_keeps: "same_documents d (sd_db (snd (provider_payload E q r s))) = same_documents d (sd_db s)"
  using token_keeps [of d E s]
  by (auto simp: provider_payload_def Let_def lift_db_def split: option.splits list.splits prod.splits)

lemma load_keeps: "same_documents d (sd_db (snd (loadProviderCandidates E q r s))) = same_documents d (sd_db s)"
  using payload_keeps [of d E q r s]
  by (auto simp: loadProviderCandidates_def Let_def split: option.splits prod.splits)

lemma suggest_keeps: "same_documents d (sd_db (snd (suggestCities E q r cx s))) = same_documents d (sd_db s)"
  using load_keeps [of d E q r s]
  by (auto simp: suggestCities_def search_candidates_def Let_def split: option.splits prod.splits)

lemma click_keeps: "sd_db (click k m t) = sd_db t"
  by (simp add: click_def zincrby_def expire_def)

lemma fold_clicks_keep: "sd_db (fold (click p) ks t) = sd_db t"
  by (induction ks arbitrary: t) (simp_all add: click_keeps)

lemma clicks_keep [simp]: "sd_db (record_clicks r q a f p s) = sd_db s"
  by (simp add: record_clicks_def fold_clicks_keep click_keeps zincrby_def)

lemma select_keeps: "same_documents d (sd_db (snd (recordSuggestionSelection E p s))) = same_documents d (sd_db s)"
  by (auto simp: recordSuggestionSelection_def hset_def Let_def split: option.splits)

lemma geometry_keeps: "same_documents d (sd_db (snd (getRouteGeometry E orig dest s))) = same_documents d (sd_db s)"
proof -
  have "same_documents d (sd_db (snd (ask_provider E orig dest s))) = same_documents d (sd_db s)"
    using token_keeps [of d "re_maps E" s]
    by (auto simp: ask_provider_def lift_db_def split: option.splits prod.splits)
  then show ?thesis by (auto simp: getRouteGeometry_def split: option.splits list.splits)
qed

lemma cache_keeps:
  assumes "\<And>s. snd (route s) = s"
  shows "same_documents d (snd (cacheMiddleware ttl m url u route s)) = same_documents d s"
  using assms [of s] by (auto simp: cacheMiddleware_def split: option.splits prod.splits sum.splits)

lemma on_search_keeps:
  assumes "\<And>s. same_documents d (sd_db (snd (f s))) = same_documents d (sd_db s)"
  shows "same_documents d (sd_db (ss_search (snd (on_search f st)))) = same_documents d (sd_db (ss_search st))"
  using assms [of "ss_search st"] by (cases "f (ss_search st)") (simp add: on_search_def)

lemma parsed_keeps:
  assumes "\<And>v. same_documents d (sd_db (ss_search (snd (k v st)))) = same_documents d (sd_db (ss_search st))"
  shows "same_documents d (sd_db (ss_search (snd (bindM (parseM W sch v) k st)))) = same_documents d (sd_db (ss_search st))"
  using assms by (auto simp: bindM_run parseM_def throwM_def split: option.splits)

lemma answered_keeps:
  assumes "same_documents d (sd_db (ss_search (snd (m st)))) = same_documents d (sd_db (ss_search st))"
  shows "same_documents d (sd_db (ss_search (snd (bindM m (\<lambda>r. retM (g r)) st)))) = same_documents d (sd_db (ss_search st))"
  using assms by (auto simp: bindM_run split: prod.splits sum.splits)

lemma controller_keeps:
  "same_documents d (sd_db (ss_search (snd (side_controller W E ep rq u b st)))) = same_documents d (sd_db (ss_search st))"
proof (cases ep)
  case (JobsE url)
  then show ?thesis
    using cache_keeps [of "jobs_route E (user_id u)" d 30 "''GET''" url "map_option au_id u" "sd_db (ss_search st)"]
    by (auto simp: on_db_def jobs_route_def readM_def split: prod.splits sum.splits intro!: answered_keeps)
qed (auto simp: readM_def Let_def split: prod.splits sum.splits
    intro!: parsed_keeps answered_keeps on_search_keeps suggest_keeps select_keeps geometry_keeps)

lemma side_keeps_documents:
  "same_documents (sd_db (ss_search st)) (sd_db (ss_search (snd (side_handle W E ep rq st))))"
proof -
  have "same_documents (sd_db (ss_search st)) (sd_db (ss_search (snd (side_controller W E ep rq u b st))))" for u b
    by (simp add: controller_keeps)
  then show ?thesis
    by (auto simp: side_handle_def split: sum.splits prod.splits) (metis snd_conv)+
qed

section \<open>Who is answered\<close>

text \<open>The reports are for internal services only.\<close>

lemma reports_need_token:
  assumes "side_guards ep = [NeedInternal]" and "rq_internalToken rq \<noteq> Some (INTERNAL_API_TOKEN W)"
  shows "side_handle W E ep rq st = (side_failure W (ApiError 401 ''Unauthorized internal service request''), st)"
proof -
  have "requireInternalService W (rq_internalToken rq) = Some (ApiError 401 ''Unauthorized internal service request'')"
    using assms(2) by (auto simp: requireInternalService_def safe_equal_iff split: option.splits)
  with assms(1) show ?thesis by (simp add: side_handle_def)
qed

lemma trend_is_bounded: "js_parseInt t = Some n \<Longrightarrow> jget (rq_query rq) ''days'' = JStr t \<Longrightarrow>
    mp_text (re_maps (sv_route E)) (JStr t) = t \<Longrightarrow> 1 \<le> trend_days E (jget (rq_query rq) ''days'') \<and>
    trend_days E (jget (rq_query rq) ''days'') \<le> 90"
  by (simp add: trend_days_def)

text \<open>A carrier's listing is cached under a key of the carrier's own: another carrier's request does not change it.\<close>

definition serve_jobs :: "side_env \<Rightarrow> string \<Rightarrow> oid \<Rightarrow> (db, http_response) handler" where
  "serve_jobs E url usr = cacheMiddleware 30 ''GET'' url (Some usr) (jobs_route E usr)"

lemma listing_ignores_cache: "listAvailableJobs usr (redis_setex k ttl v d) = listAvailableJobs usr d"
  by (simp add: listAvailableJobs_def redis_setex_def)

lemma cached_apart: "k \<noteq> k' \<Longrightarrow> 0 < ttl \<Longrightarrow> cached_body k' (redis_setex k ttl v d) = cached_body k' d"
  by (simp add: cached_body_def redis_get_setex)

lemma jobs_are_private:
  assumes "a \<noteq> []" "b \<noteq> []" "CHR '':'' \<notin> set a" "CHR '':'' \<notin> set b" and "a \<noteq> b"
  shows "fst (serve_jobs E url' b (snd (serve_jobs E url a d))) = fst (serve_jobs E url' b d)"
proof -
  have "buildCacheKey ''GET'' url (Some a) \<noteq> buildCacheKey ''GET'' url' (Some b)"
    using cache_key_inj [of "''GET''" url a url' b] assms by blast
  then have "cached_body (buildCacheKey ''GET'' url' (Some b)) (redis_setex (buildCacheKey ''GET'' url (Some a)) 30 v d) =
      cached_body (buildCacheKey ''GET'' url' (Some b)) d" for v
    by (rule cached_apart) simp
  then show ?thesis
    by (auto simp: serve_jobs_def cacheMiddleware_def jobs_route_def readM_def listing_ignores_cache split: option.splits)
qed

end
