(* ===== verification/Telemetry.thy ===== *)
theory Telemetry
  imports JsString JsNumber
begin

text \<open>
  \<open>shared/src/telemetry/index.tsx\<close> and \<open>hooks/useDwellTracker.ts\<close> of both portals: what the
  portals report about pages and sessions.  The clients of PostHog and Sentry are third-party; the
  calls made to them are the log of the model.  Times are milliseconds.
\<close>

section \<open>Starting up\<close>

record telemetry_config =
  tc_appName :: string
  tc_environment :: string
  tc_release :: "string option"
  tc_posthogKey :: "string option"
  tc_posthogHost :: "string option"
  tc_sentryDsn :: "string option"
  tc_debug :: bool

record telemetry_user =
  tu_id :: string
  tu_name :: "string option"
  tu_email :: "string option"
  tu_phone :: "string option"
  tu_role :: "string list option"

type_synonym props = "(string \<times> json) list"

datatype client_call =
    SentryInit string
  | PosthogInit string string
  | PosthogCapture string props
  | PosthogIdentify string props
  | PosthogReset
  | SentryCapture string props
  | SentrySetUser "(string \<times> string option \<times> string option) option"

record telemetry =
  te_config :: "telemetry_config option"
  te_sentry :: bool
  te_posthog :: bool
  te_log :: "client_call list"

definition telemetry_start :: telemetry where
  "telemetry_start = \<lparr> te_config = None, te_sentry = False, te_posthog = False, te_log = [] \<rparr>"

definition client_call :: "client_call \<Rightarrow> telemetry \<Rightarrow> telemetry" where
  "client_call c t = t\<lparr>te_log := te_log t @ [c]\<rparr>"

definition initClientTelemetry :: "telemetry_config \<Rightarrow> telemetry \<Rightarrow> telemetry" where
  "initClientTelemetry c t =
     (let t0 = t\<lparr>te_config := Some c\<rparr>;
          t1 = (if truthy_str (tc_sentryDsn c) \<and> \<not> te_sentry t0
                then (client_call (SentryInit (the (tc_sentryDsn c))) t0)\<lparr>te_sentry := True\<rparr> else t0)
      in if truthy_str (tc_posthogKey c) \<and> \<not> te_posthog t1
         then (client_call (PosthogInit (the (tc_posthogKey c))
                 (str_or (tc_posthogHost c) ''https://app.posthog.com'')) t1)\<lparr>te_posthog := True\<rparr>
         else t1)"

text \<open>A property given by the caller overrides one of the same name.\<close>

definition captureAnalyticsEvent :: "string \<Rightarrow> props \<Rightarrow> telemetry \<Rightarrow> telemetry" where
  "captureAnalyticsEvent event properties t =
     (case te_config t of
        None \<Rightarrow> t
      | Some c \<Rightarrow>
          if \<not> te_posthog t then t
          else client_call (PosthogCapture event
                 (properties @ [(''app_name'', JStr (tc_appName c)), (''environment'', JStr (tc_environment c))])) t)"

definition captureClientError :: "string \<Rightarrow> props \<Rightarrow> telemetry \<Rightarrow> telemetry" where
  "captureClientError message context t =
     captureAnalyticsEvent ''client_error'' (context @ [(''message'', JStr message)])
       (if te_sentry t then client_call (SentryCapture message context) t else t)"

definition identifyTelemetryUser :: "telemetry_user option \<Rightarrow> telemetry \<Rightarrow> telemetry" where
  "identifyTelemetryUser usr t =
     (case usr of
        None \<Rightarrow> t
      | Some u \<Rightarrow>
          if tu_id u = [] then t
          else (let t1 = (if te_posthog t
                  then client_call (PosthogIdentify (tu_id u)
                         [(''name'', jopt JStr (tu_name u)), (''email'', jopt JStr (tu_email u)),
                          (''phone'', jopt JStr (tu_phone u)),
                          (''role'', jopt (\<lambda>rs. JArr (map JStr rs)) (tu_role u))]) t
                  else t)
                in if te_sentry t1
                   then client_call (SentrySetUser (Some (tu_id u, tu_name u, tu_email u))) t1 else t1))"

definition resetTelemetryUser :: "telemetry \<Rightarrow> telemetry" where
  "resetTelemetryUser t =
     (let t1 = (if te_posthog t then client_call PosthogReset t else t)
      in if te_sentry t1 then client_call (SentrySetUser None) t1 else t1)"

definition trackFunnelStep :: "string \<Rightarrow> string \<Rightarrow> props \<Rightarrow> telemetry \<Rightarrow> telemetry" where
  "trackFunnelStep flow step properties =
     captureAnalyticsEvent ''funnel_step'' (properties @ [(''flow'', JStr flow), (''step'', JStr step)])"

definition trackCtaClick :: "string \<Rightarrow> props \<Rightarrow> telemetry \<Rightarrow> telemetry" where
  "trackCtaClick cta properties = captureAnalyticsEvent ''cta_clicked'' (properties @ [(''cta'', JStr cta)])"

section \<open>The bridge\<close>

definition getFlowName :: "string \<Rightarrow> string" where
  "getFlowName appName = (if strIncludes appName ''carrier'' then ''carrier_activation'' else ''sender_activation'')"

definition getDurationSeconds :: "int \<Rightarrow> int \<Rightarrow> rat" where
  "getDurationSeconds startedAt now = to_fixed 2 (jdiv (of_int (now - startedAt)) 1000)"

definition DAY_MS :: int where
  "DAY_MS = 24 * 60 * 60 * 1000"

record bridge =
  br_appName :: string
  br_sessionStartedAt :: int
  br_previousPath :: "string option"
  br_pageStartedAt :: int
  br_session :: "string list"
  br_lastSeen :: "(string \<times> int) list"
  br_telemetry :: telemetry

text \<open>The sessions that have started, by their key in \<open>sessionStorage\<close>.\<close>

definition session_key :: "string \<Rightarrow> string" where
  "session_key appName = ''hopdrop:'' @ appName @ '':session-started''"

definition begin_session :: "bool \<Rightarrow> string \<Rightarrow> bridge \<Rightarrow> bridge" where
  "begin_session authenticated path b =
     (let k = session_key (br_appName b)
      in if k \<in> set (br_session b) then b
         else b\<lparr>br_session := k # br_session b,
                br_telemetry := captureAnalyticsEvent ''session_started''
                  [(''authenticated'', JBool authenticated), (''entry_path'', JStr path)] (br_telemetry b)\<rparr>)"

definition end_session :: "string \<Rightarrow> int \<Rightarrow> bridge \<Rightarrow> bridge" where
  "end_session path now b =
     b\<lparr>br_telemetry := captureAnalyticsEvent ''session_ended''
         [(''duration_seconds'', JNum (getDurationSeconds (br_sessionStartedAt b) now)),
          (''exit_path'', JStr (str_or (br_previousPath b) path))] (br_telemetry b)\<rparr>"

definition visit_page :: "string \<Rightarrow> string \<Rightarrow> int \<Rightarrow> bridge \<Rightarrow> bridge" where
  "visit_page path navigation now b =
     (let t0 = br_telemetry b;
          t1 = (if truthy_str (br_previousPath b)
                then captureAnalyticsEvent ''page_leave''
                       [(''path'', JStr (the (br_previousPath b))),
                        (''duration_seconds'', JNum (getDurationSeconds (br_pageStartedAt b) now))] t0
                else t0)
      in b\<lparr>br_previousPath := Some path, br_pageStartedAt := now,
           br_telemetry := captureAnalyticsEvent ''page_view''
             [(''path'', JStr path), (''navigation_type'', JStr navigation)] t1\<rparr>)"

definition retention_key :: "string \<Rightarrow> string \<Rightarrow> string" where
  "retention_key appName usr = ''hopdrop:'' @ appName @ '':last-authenticated-at:'' @ usr"

definition days_since :: "int \<Rightarrow> int \<Rightarrow> int" where
  "days_since previous now = max 1 ((now - previous) div DAY_MS)"

text \<open>Who is signed in: \<open>None\<close> for nobody.\<close>

definition signed_in :: "telemetry_user option \<Rightarrow> int \<Rightarrow> bridge \<Rightarrow> bridge" where
  "signed_in usr now b =
     (case usr of
        None \<Rightarrow> b\<lparr>br_telemetry := resetTelemetryUser (br_telemetry b)\<rparr>
      | Some u \<Rightarrow>
          (let t1 = identifyTelemetryUser (Some u) (br_telemetry b);
               k = retention_key (br_appName b) (tu_id u);
               previous = (case map_of (br_lastSeen b) k of None \<Rightarrow> 0 | Some n \<Rightarrow> n);
               t2 = (if 0 < previous \<and> DAY_MS \<le> now - previous
                     then trackFunnelStep (getFlowName (br_appName b)) ''retained_session''
                            [(''days_since_last_seen'', JInt (days_since previous now))] t1
                     else t1)
           in b\<lparr>br_lastSeen := AList.update k now (br_lastSeen b), br_telemetry := t2\<rparr>))"

section \<open>The dwell tracker\<close>

record dwell =
  dw_entryMs :: int
  dw_lastPage :: string
  dw_sent :: "(string \<times> int) list"

definition flush_dwell :: "string \<Rightarrow> int \<Rightarrow> dwell \<Rightarrow> dwell" where
  "flush_dwell page now d =
     (let durationMs = now - dw_entryMs d
      in if durationMs < 1000 then d else d\<lparr>dw_sent := dw_sent d @ [(page, durationMs)]\<rparr>)"

definition dwell_navigate :: "string \<Rightarrow> int \<Rightarrow> dwell \<Rightarrow> dwell" where
  "dwell_navigate path now d =
     (if dw_lastPage d \<noteq> path
      then (flush_dwell (dw_lastPage d) now d)\<lparr>dw_lastPage := path, dw_entryMs := now\<rparr> else d)"

definition dwell_unload :: "int \<Rightarrow> dwell \<Rightarrow> dwell" where
  "dwell_unload now d = flush_dwell (dw_lastPage d) now d"

text \<open>\<open>getSessionId\<close>: the stored id, or a new one that is then stored.\<close>

definition getSessionId :: "string \<Rightarrow> string option \<Rightarrow> string \<times> string option" where
  "getSessionId fresh stored_id =
     (if truthy_str stored_id then (the stored_id, stored_id) else (fresh, Some fresh))"

section \<open>What is reported\<close>

definition page_call :: "client_call \<Rightarrow> bool" where
  "page_call c = (case c of PosthogCapture e ps \<Rightarrow> e = ''page_view'' \<or> e = ''page_leave'' | _ \<Rightarrow> False)"

definition call_path :: "client_call \<Rightarrow> string \<times> json" where
  "call_path c = (case c of PosthogCapture e ps \<Rightarrow> (e, jget (JObj ps) ''path'') | _ \<Rightarrow> ([], JUndef))"

definition page_trail :: "telemetry \<Rightarrow> (string \<times> json) list" where
  "page_trail t = map call_path (filter page_call (te_log t))"

definition reporting :: "telemetry \<Rightarrow> bool" where
  "reporting t = (te_posthog t \<and> te_config t \<noteq> None)"

lemma capture_reporting [simp]: "reporting (captureAnalyticsEvent e ps t) = reporting t"
  by (simp add: captureAnalyticsEvent_def reporting_def client_call_def split: option.splits)

lemma capture_trail:
  "reporting t \<Longrightarrow> page_trail (captureAnalyticsEvent e ps t) =
     page_trail t @ (if e = ''page_view'' \<or> e = ''page_leave''
       then [(e, case map_of ps ''path'' of Some v \<Rightarrow> v | None \<Rightarrow> JUndef)] else [])"
  by (auto simp: reporting_def captureAnalyticsEvent_def client_call_def page_trail_def page_call_def call_path_def
      split: option.splits)

text \<open>The trail of pages visited one after the other: each page is left before the next is viewed.\<close>

fun trail_of :: "string list \<Rightarrow> (string \<times> json) list" where
  "trail_of [] = []"
| "trail_of [p] = [(''page_view'', JStr p)]"
| "trail_of (p # q # ps) = (''page_view'', JStr p) # (''page_leave'', JStr p) # trail_of (q # ps)"

definition visits :: "(string \<times> string \<times> int) list \<Rightarrow> bridge \<Rightarrow> bridge" where
  "visits vs = fold (\<lambda>(p, nav, now). visit_page p nav now) vs"

lemma trail_snoc: "ps \<noteq> [] \<Longrightarrow> trail_of (ps @ [q]) = trail_of ps @ [(''page_leave'', JStr (last ps)), (''page_view'', JStr q)]"
  by (induction ps rule: trail_of.induct) auto

lemma visit_trail:
  assumes "reporting (br_telemetry b)"
  shows "page_trail (br_telemetry (visit_page p nav now b)) =
    page_trail (br_telemetry b) @
    (if truthy_str (br_previousPath b) then [(''page_leave'', JStr (the (br_previousPath b)))] else []) @
    [(''page_view'', JStr p)]"
  using assms by (simp add: visit_page_def Let_def capture_trail)

lemma visit_fields [simp]:
  "br_previousPath (visit_page p nav now b) = Some p"
  "reporting (br_telemetry (visit_page p nav now b)) = reporting (br_telemetry b)"
  by (simp_all add: visit_page_def Let_def)

lemma visits_trail:
  assumes "reporting (br_telemetry b)" and "br_previousPath b = None" and "\<forall>v \<in> set vs. fst v \<noteq> []"
  shows "page_trail (br_telemetry (visits vs b)) = page_trail (br_telemetry b) @ trail_of (map fst vs)
    \<and> reporting (br_telemetry (visits vs b))
    \<and> br_previousPath (visits vs b) = (if vs = [] then None else Some (fst (last vs)))"
  using assms(3)
proof (induction vs rule: rev_induct)
  case Nil
  then show ?case using assms by (simp add: visits_def)
next
  case (snoc v vs)
  obtain p nav now where v: "v = (p, nav, now)" by (cases v)
  have IH: "page_trail (br_telemetry (visits vs b)) = page_trail (br_telemetry b) @ trail_of (map fst vs)"
    "reporting (br_telemetry (visits vs b))"
    "br_previousPath (visits vs b) = (if vs = [] then None else Some (fst (last vs)))"
    using snoc by simp_all
  have last_named: "vs \<noteq> [] \<Longrightarrow> fst (last vs) \<noteq> []" using snoc.prems by simp
  have step: "visits (vs @ [v]) b = visit_page p nav now (visits vs b)" by (simp add: visits_def v)
  show ?case
  proof (cases "vs = []")
    case True
    with IH show ?thesis unfolding step by (simp add: visit_trail v)
  next
    case False
    with IH last_named show ?thesis
      unfolding step by (simp add: visit_trail v trail_snoc last_map)
  qed
qed

text \<open>Time is counted once: what has been sent and the stay on this page make up the time passed.\<close>

definition dwell_total :: "dwell \<Rightarrow> int" where
  "dwell_total d = sum_list (map snd (dw_sent d))"

lemma navigate_total:
  "dw_entryMs d \<le> now \<Longrightarrow> dwell_total (dwell_navigate p now d) \<le> dwell_total d + (now - dw_entryMs d) \<and>
     (dwell_total (dwell_navigate p now d) = dwell_total d \<or> dw_entryMs (dwell_navigate p now d) = now) \<and>
     dw_entryMs (dwell_navigate p now d) \<le> now"
  by (auto simp: dwell_navigate_def flush_dwell_def dwell_total_def Let_def)

lemma session_once:
  "session_key (br_appName b) \<in> set (br_session b) \<Longrightarrow> begin_session a p b = b"
  by (simp add: begin_session_def)

lemma retention_days: "DAY_MS \<le> now - previous \<Longrightarrow> days_since previous now = (now - previous) div DAY_MS"
  using zdiv_mono1 [of DAY_MS "now - previous" DAY_MS] by (simp add: days_since_def DAY_MS_def)

end
