(* ===== verification/PortalRuns.thy ===== *)
theory PortalRuns
  imports SendWizard MatchPage Telemetry RouteMap Runs
begin

text \<open>
  Concrete runs of the pages of the portals, on which the witnesses of their properties rest: a trip
  and a package entered from the first page to the last, a city typed and searched, an identity
  submitted, and a match as the page of its carrier has it.
\<close>

section \<open>Forms\<close>

definition form_world :: world where
  "form_world = sample_world\<lparr>dateParse := (\<lambda>t.
     if t = ''2026-01-05T09:00'' then Some 1767603600000
     else if t = ''2026-01-05T21:00'' then Some 1767646800000 else None)\<rparr>"

lemma form_world_fields [simp]:
  "dateParse form_world ''2026-01-05T09:00'' = Some 1767603600000"
  "dateParse form_world ''2026-01-05T21:00'' = Some 1767646800000"
  "zodUrl form_world = zodUrl sample_world"
  by (simp_all add: form_world_def)

definition trip_entries :: "pt_event list" where
  "trip_entries =
     [PlaceChosen True ''Pune'' ''DEMO_PNQ'' (73, 18), PlaceChosen False ''Mumbai'' ''DEMO_BOM'' (72, 19),
      Continue, DepartureSet ''2026-01-05T09:00'', ArrivalSet ''2026-01-05T21:00'', Continue,
      CapacitySet 5, CategoryToggled ''food'', Continue]"

lemma trip_entries_allowed: "list_all (pt_allowed form_world) trip_entries"
  by (simp add: trip_entries_def trip_categories_def)

lemma trip_entries_run:
  "pt_step (fold (pt_step_event form_world) trip_entries post_trip_start) = 4"
  by (simp add: trip_entries_def post_trip_start_def pt_step_event_def advanceStep_def getStepValidationMessage_def
      routeConfigured_def hasValidArrival_def set_place_def toggled_def no_place_def)

definition package_entries :: "sp_event list" where
  "package_entries =
     [DescriptionSet ''books'', WeightSet (Some 2), DeclaredSet ''-5'', NextStep,
      CityChosen True ''Pune'' ''DEMO_PNQ'' (73, 18), CityChosen False ''Mumbai'' ''DEMO_BOM'' (72, 19),
      NameSet ''Ria'', PhoneSet ''9000000000'', AddressSet ''12 Road'',
      EarliestSet ''2026-01-05T09:00'', LatestSet ''2026-01-05T21:00'', NextStep]"

lemma minus_five: "text_number ''-5'' = Some (- 5)"
  by code_simp

lemma tenth_below_two: "fl (1 / 10) \<le> 2"
  using fl.rnd_le_int [of "1 / 10" 2] by simp

definition entered_form :: send_form where
  "entered_form =
     \<lparr> sf_description = ''books'', sf_category = ''documents'', sf_weightKg = Some 2,
       sf_declaredValue = ''-5'', sf_photoUrl = [], sf_isFragile = False,
       sf_origin = \<lparr> sp_city = Some ''Pune'', sp_placeId = Some ''DEMO_PNQ'', sp_coords = Some (73, 18), sp_fullAddress = None \<rparr>,
       sf_destination = \<lparr> sp_city = Some ''Mumbai'', sp_placeId = Some ''DEMO_BOM'', sp_coords = Some (72, 19), sp_fullAddress = None \<rparr>,
       sf_name = ''Ria'', sf_phone = ''9000000000'', sf_address = ''12 Road'',
       sf_earliest = ''2026-01-05T09:00'', sf_latest = ''2026-01-05T21:00'' \<rparr>"

lemma first_page_valid:
  "sf_category f = ''documents'' \<Longrightarrow> sf_description f = ''books'' \<Longrightarrow> sf_weightKg f = Some 2 \<Longrightarrow> step_valid W 0 f"
  using tenth_below_two
  by (simp add: step_valid_def package_values_def weight_field_def number_ok_def text_ok_def form_categories_def
      trim_def is_space_def)

lemma second_page_valid: "step_valid form_world 1 entered_form"
  by (simp add: step_valid_def entered_form_def recipient_values_def window_values_def recipient_fields_def object_of_def
      pickupWindowSchema_def text_ok_def jopt_def to_date_def)

lemma package_entries_run:
  "fold (sp_step form_world) package_entries (prefill [] [] send_start) =
     \<lparr> sw_step = 2, sw_form = entered_form,
       sw_originPoint = Some (''Pune'', ''DEMO_PNQ'', 73, 18), sw_destinationPoint = Some (''Mumbai'', ''DEMO_BOM'', 72, 19) \<rparr>"
  using second_page_valid
  by (simp add: package_entries_def sp_step_def prefill_def send_start_def edit_send_def nextStep_def first_page_valid
      set_city_def place_at_def unset_place_def has_place_def entered_form_def)

lemma entered_form_checks:
  "declared_number entered_form" "photo_ok W entered_form" "\<not> declared_whole entered_form"
  by (simp_all add: entered_form_def declared_number_def photo_ok_def declared_whole_def minus_five)

section \<open>Pages\<close>

definition pune :: mmi where
  "pune = plain_suggestion ''Pune'' ''Pune, India'' ''Pune'' ''Maharashtra'' ''DEMO_PNQ'' 18 73 MatchExact ''catalog''"

definition no_storage :: browser_storage where
  "no_storage = \<lparr> bs_window = True, bs_readable = True, bs_writable = True, bs_items = [] \<rparr>"

lemma no_storage_ok: "storage_ok no_storage"
  by (simp add: storage_ok_def no_storage_def)

definition typed_field :: ac_state where
  "typed_field = fold ac_step [Typed ''pun'', DebounceFires, SearchEnds 2 (Some [pune]), ClickOption 0]
     (ac_start (portal_context ''sender'' ''origin'') [] no_storage)"

lemma typed_field_reached: "ac_reach (portal_context ''sender'' ''origin'') [] no_storage typed_field"
  unfolding typed_field_def fold_simps by (intro ac_reach.intros) (simp_all add: echoes_def)

definition typed_identity :: carrier_setup where
  "typed_identity = setup_start\<lparr>cu_aadhaarInput := ''4215 9876 5432'', cu_otpStep := True, cu_aadhaarOtp := ''0000''\<rparr>"

lemma typed_number:
  "groups_of_four (take 12 (filter is_digit ''421598765432'')) = ''4215 9876 5432''"
  "length (filter (\<lambda>c. \<not> is_space c) ''4215 9876 5432'') = 12" "is_digit (CHR ''0'')"
  by code_simp+

lemma typed_identity_reached:
  "fold (setup_step sample_world ''cara'') [NumberTyped ''421598765432'', SubmitIdentity, OtpTyped ''0000''] (setup_start, sample_db st) =
     (typed_identity, sample_db st)"
  unfolding fold_simps setup_step.simps aadhaar_typed_def otp_typed_def submit_aadhaar_def handleAadhaarSubmit_def typed_number
  by (simp add: typed_number otp_typed_def setup_start_def typed_identity_def is_space_def)

definition carrier_page :: "match_status \<Rightarrow> match_page" where
  "carrier_page st = (page_start ''cara'')\<lparr>mp_match := Some (sample_match st)\<rparr>"

lemma carrier_page_fields [simp]:
  "mp_user (carrier_page st) = ''cara''" "mp_match (carrier_page st) = Some (sample_match st)"
  by (simp_all add: carrier_page_def page_start_def)

lemma carrier_page_fetched: "fst (getMatchById ''m1'' ''cara'' (sample_db st)) = Inr (sample_match st)"
  by (simp add: getMatchById_def ensureInvolved_def findMatch_def run_simps)

lemma sample_driver: "driver_errors sample_world"
  by (simp add: driver_errors_def sample_world_def)

end
