(* ===== verification/Navigation.thy ===== *)
theory Navigation
  imports Client
begin

text \<open>
  What the two portals show at an address: the routes of \<open>App.tsx\<close> with \<open>ProtectedRoute\<close>, the links
  from one portal into the other (\<open>utils/portal.ts\<close>), and the session that the portals make up for
  themselves in demo mode (\<open>bootstrapDemoAuth\<close>), as a machine of the effects and answers of React.
\<close>

section \<open>Paths\<close>

text \<open>
  The matching of react-router: the pathname is split at slashes, trailing slashes do not count,
  literal segments are compared without case, a parameter takes one segment that is not empty.  The
  patterns of one table never compete, so the first that matches is the one that is taken.
\<close>

datatype segment = Lit string | Param

fun segment_matches :: "segment \<Rightarrow> string \<Rightarrow> bool" where
  "segment_matches (Lit w) s = (toLowerCase s = toLowerCase w)"
| "segment_matches Param s = (s \<noteq> [])"

definition path_segments :: "string \<Rightarrow> string list" where
  "path_segments p = List.tl (split_on (CHR ''/'') (rev (dropWhile (\<lambda>c. c = CHR ''/'') (rev p))))"

definition pattern_matches :: "segment list \<Rightarrow> string \<Rightarrow> bool" where
  "pattern_matches pat p = list_all2 segment_matches pat (path_segments p)"

text \<open>The part of a link before its query.\<close>

definition pathname_of :: "string \<Rightarrow> string" where
  "pathname_of href = takeWhile (\<lambda>c. c \<noteq> CHR ''?'') href"

section \<open>Routes\<close>

text \<open>
  \<open>Plain\<close>: for everybody; \<open>Guest\<close>: for visitors, others are sent on; \<open>Guarded\<close>: inside
  \<open>ProtectedRoute\<close>; \<open>Forward\<close>: a \<open>Navigate\<close>.
\<close>

datatype 'p element = Plain 'p | Guest 'p string | Guarded 'p | Forward string

datatype 'p screen = Page 'p | Preparing | GoTo string

definition ProtectedRoute :: "'p \<Rightarrow> auth_state \<Rightarrow> 'p screen" where
  "ProtectedRoute p a =
     (if as_isBootstrapping a then Preparing
      else if \<not> isAuthenticated a then GoTo ''/auth/login''
      else Page p)"

fun render_element :: "'p element \<Rightarrow> auth_state \<Rightarrow> 'p screen" where
  "render_element (Plain p) a = Page p"
| "render_element (Guest p goal) a = (if isAuthenticated a then GoTo goal else Page p)"
| "render_element (Guarded p) a = ProtectedRoute p a"
| "render_element (Forward goal) a = GoTo goal"

type_synonym 'p routes = "(segment list \<times> 'p element) list"

definition element_at :: "'p routes \<Rightarrow> 'p \<Rightarrow> string \<Rightarrow> 'p element" where
  "element_at table otherwise p =
     (case List.find (\<lambda>(pat, e). pattern_matches pat p) table of
        Some (_, e) \<Rightarrow> e | None \<Rightarrow> Plain otherwise)"

text \<open>What is shown in the end, following at most so many redirections; \<open>None\<close> if they do not end.\<close>

fun visit :: "nat \<Rightarrow> 'p routes \<Rightarrow> 'p \<Rightarrow> auth_state \<Rightarrow> string \<Rightarrow> 'p screen option" where
  "visit n table otherwise a p =
     (case render_element (element_at table otherwise p) a of
        GoTo goal \<Rightarrow> (case n of 0 \<Rightarrow> None | Suc m \<Rightarrow> visit m table otherwise a goal)
      | shown \<Rightarrow> Some shown)"

datatype sender_page =
    Home | SenderLogin | SenderRegister | SenderOtpVerify | SenderDashboard | SendPackage
  | BrowseCarriers | SenderTrips | MyShipments | TrackDeliveryPage | SenderProfile | WalletPage | SenderNotFound

definition sender_routes :: "sender_page routes" where
  "sender_routes =
     [([], Plain Home),
      ([Lit ''auth'', Lit ''login''], Guest SenderLogin ''/dashboard''),
      ([Lit ''auth'', Lit ''register''], Guest SenderRegister ''/dashboard''),
      ([Lit ''auth'', Lit ''otp-verify''], Guest SenderOtpVerify ''/dashboard''),
      ([Lit ''dashboard''], Guarded SenderDashboard),
      ([Lit ''send-package''], Guarded SendPackage),
      ([Lit ''browse-carriers''], Guarded BrowseCarriers),
      ([Lit ''browse-trips''], Guarded BrowseCarriers),
      ([Lit ''my-trips''], Guarded SenderTrips),
      ([Lit ''my-deliveries''], Guarded MyShipments),
      ([Lit ''shipments''], Guarded MyShipments),
      ([Lit ''track'', Param], Guarded TrackDeliveryPage),
      ([Lit ''track-delivery'', Param], Guarded TrackDeliveryPage),
      ([Lit ''matches'', Param], Guarded TrackDeliveryPage),
      ([Lit ''profile''], Guarded SenderProfile),
      ([Lit ''wallet''], Guarded WalletPage),
      ([Lit ''home''], Forward ''/'')]"

datatype carrier_page =
    CarrierHome | CarrierLogin | CarrierRegister | CarrierOtpVerify | PostTrip | IncomingRequests
  | ActiveDelivery | CarrierTrips | Earnings | CarrierSetup | CarrierProfile | CarrierNotFound

definition carrier_routes :: "carrier_page routes" where
  "carrier_routes =
     [([], Plain CarrierHome),
      ([Lit ''auth'', Lit ''login''], Guest CarrierLogin ''/''),
      ([Lit ''auth'', Lit ''register''], Guest CarrierRegister ''/''),
      ([Lit ''auth'', Lit ''otp-verify''], Guest CarrierOtpVerify ''/''),
      ([Lit ''dashboard''], Guarded CarrierHome),
      ([Lit ''post-trip''], Guarded PostTrip),
      ([Lit ''incoming-requests''], Guarded IncomingRequests),
      ([Lit ''active-delivery'', Param], Guarded ActiveDelivery),
      ([Lit ''my-trips''], Guarded CarrierTrips),
      ([Lit ''earnings''], Guarded Earnings),
      ([Lit ''setup''], Guarded CarrierSetup),
      ([Lit ''verification''], Guarded CarrierSetup),
      ([Lit ''profile''], Guarded CarrierProfile),
      ([Lit ''home''], Forward ''/'')]"

definition sender_visit :: "auth_state \<Rightarrow> string \<Rightarrow> sender_page screen option" where
  "sender_visit = visit 1 sender_routes SenderNotFound"

definition carrier_visit :: "auth_state \<Rightarrow> string \<Rightarrow> carrier_page screen option" where
  "carrier_visit = visit 1 carrier_routes CarrierNotFound"

section \<open>From one portal to the other\<close>

record browser_location =
  hostname :: string
  port :: string

text \<open>The segment after one of the prefixes: what the regular expressions of \<open>extractMatchId\<close> capture.\<close>

fun segment_after :: "string list \<Rightarrow> string \<Rightarrow> string" where
  "segment_after [] p = []"
| "segment_after (pre # pres) p =
     (if startsWith p pre \<and> takeWhile (\<lambda>c. c \<noteq> CHR ''/'') (drop (length pre) p) \<noteq> []
      then takeWhile (\<lambda>c. c \<noteq> CHR ''/'') (drop (length pre) p)
      else segment_after pres p)"

definition sender_extractMatchId :: "string \<Rightarrow> string" where
  "sender_extractMatchId p = segment_after [''/track-delivery/'', ''/matches/''] p"

definition carrier_extractMatchId :: "string \<Rightarrow> string" where
  "carrier_extractMatchId p = segment_after [''/active-delivery/''] p"

definition getCarrierBase :: "browser_location \<Rightarrow> string" where
  "getCarrierBase l =
     (if strIncludes (hostname l) ''sender-portal'' \<or> strIncludes (hostname l) ''vercel.app''
      then ''https://hop-drop-carrier-portal.vercel.app''
      else if hostname l = ''localhost'' \<and> port l = ''3001'' then ''http://localhost:3002''
      else ''/carrier'')"

definition getSenderBase :: "browser_location \<Rightarrow> string" where
  "getSenderBase l =
     (if strIncludes (hostname l) ''carrier-portal'' \<or> strIncludes (hostname l) ''vercel.app''
      then ''https://hop-drop-sender-portal.vercel.app''
      else if hostname l = ''localhost'' \<and> port l = ''3002'' then ''http://localhost:3001''
      else [])"

definition getCarrierMatchHref :: "browser_location \<Rightarrow> string \<Rightarrow> string" where
  "getCarrierMatchHref l mid = getCarrierBase l @ ''/active-delivery/'' @ mid"

definition getSenderMatchHref :: "browser_location \<Rightarrow> string \<Rightarrow> string" where
  "getSenderMatchHref l mid = getSenderBase l @ ''/track-delivery/'' @ mid"

definition getCarrierPortalHref :: "browser_location \<Rightarrow> string \<Rightarrow> string" where
  "getCarrierPortalHref l p =
     (if sender_extractMatchId p \<noteq> [] then getCarrierMatchHref l (sender_extractMatchId p)
      else getCarrierBase l @
        (if startsWith p ''/send-package'' then ''/post-trip''
         else if startsWith p ''/browse-carriers'' \<or> startsWith p ''/browse-trips'' then ''/incoming-requests''
         else if startsWith p ''/wallet'' then ''/earnings''
         else if startsWith p ''/my-deliveries'' \<or> startsWith p ''/shipments'' then ''/incoming-requests''
         else if startsWith p ''/dashboard'' then ''/dashboard''
         else []))"

definition getSenderPortalHref :: "browser_location \<Rightarrow> string \<Rightarrow> string" where
  "getSenderPortalHref l p =
     (if carrier_extractMatchId p \<noteq> [] then getSenderMatchHref l (carrier_extractMatchId p)
      else getSenderBase l @
        (if startsWith p ''/post-trip'' then ''/send-package''
         else if startsWith p ''/incoming-requests'' then ''/browse-carriers''
         else if startsWith p ''/earnings'' then ''/wallet''
         else if startsWith p ''/my-trips'' then ''/shipments''
         else if startsWith p ''/dashboard'' then ''/dashboard''
         else []))"

section \<open>Links\<close>

text \<open>
  The addresses that the pages of the sender's portal navigate to, for a request \<open>rid\<close> and a match
  \<open>mid\<close>: the navigation bar, the pages, and the redirections.
\<close>

definition sender_pages :: "string list" where
  "sender_pages =
     [''/send-package'', ''/browse-carriers'', ''/shipments'', ''/'', ''/wallet'', ''/profile'', ''/auth/login'',
      ''/auth/register'', ''/dashboard'', ''/my-trips'']"

definition sender_links :: "string \<Rightarrow> string \<Rightarrow> string list" where
  "sender_links rid mid =
     sender_pages @ [''/browse-trips?requestId='' @ rid, ''/matches/'' @ mid, ''/track/'' @ mid]"

text \<open>\<open>MyShipments\<close>: the link to the matches of a request, and that of \<open>Live Tracking\<close>.\<close>

definition matches_link :: "string \<Rightarrow> string" where
  "matches_link rid = ''/deliveries/'' @ rid @ ''/matches''"

definition tracking_link :: "string option \<Rightarrow> string \<Rightarrow> string" where
  "tracking_link activeMatchId rid =
     (if truthy_str activeMatchId then ''/track/'' @ the activeMatchId else matches_link rid)"

definition carrier_pages :: "string list" where
  "carrier_pages =
     [''/post-trip'', ''/incoming-requests'', ''/my-trips'', ''/setup'', ''/'', ''/earnings'', ''/profile'',
      ''/auth/login'', ''/auth/register'', ''/dashboard'']"

definition carrier_links :: "string \<Rightarrow> string list" where
  "carrier_links mid = carrier_pages @ [''/active-delivery/'' @ mid]"

section \<open>The session of demo mode\<close>

text \<open>
  One run of the effect of \<open>App\<close>: \<open>er_active\<close> is the variable \<open>active\<close> of its closure, \<open>er_pending\<close>
  whether its call of \<open>demoLogin\<close> has not been answered.
\<close>

record effect_run =
  er_active :: bool
  er_pending :: bool

record demo_app =
  dm_auth :: auth_state
  dm_runs :: "effect_run list"

datatype portal = SenderPortal | CarrierPortal

fun fallback_user :: "portal \<Rightarrow> json" where
  "fallback_user SenderPortal =
     JObj [(''_id'', JStr ''sender_priya_demo''), (''name'', JStr ''Priya Nair''),
       (''email'', JStr ''priya.nair@hopdrop.in''), (''phone'', JStr ''+919876543210''),
       (''role'', JArr [JStr ''sender'']),
       (''rating'', JObj [(''average'', JNum (fl (49 / 10))), (''count'', JNum 28)]),
       (''wallet'', JObj [(''balance'', JNum 14500), (''escrowHeld'', JNum 850)])]"
| "fallback_user CarrierPortal =
     JObj [(''_id'', JStr ''carrier_arjun_demo''), (''name'', JStr ''Arjun Rao''),
       (''email'', JStr ''arjun.rao@hopdrop.in''), (''phone'', JStr ''+919876543211''),
       (''role'', JArr [JStr ''carrier'', JStr ''sender'']),
       (''rating'', JObj [(''average'', JNum (fl (495 / 100))), (''count'', JNum 42)]),
       (''wallet'', JObj [(''balance'', JNum 28500), (''escrowHeld'', JNum 1200)])]"

fun fallback_tokens :: "portal \<Rightarrow> string \<times> string" where
  "fallback_tokens SenderPortal = (''demo_sender_token'', ''demo_sender_refresh'')"
| "fallback_tokens CarrierPortal = (''demo_carrier_token'', ''demo_carrier_refresh'')"

definition forged_session :: "portal \<Rightarrow> auth_state \<Rightarrow> auth_state" where
  "forged_session pt = setAuth (Some (fallback_user pt)) (Some (fst (fallback_tokens pt))) (Some (snd (fallback_tokens pt)))"

text \<open>The variable \<open>VITE_DEMO_MODE\<close> of the build.\<close>

definition demoMode :: "string option \<Rightarrow> bool" where
  "demoMode v = (toLowerCase (case v of None \<Rightarrow> ''true'' | Some t \<Rightarrow> t) \<noteq> ''false'')"

definition bootstrapDemoAuth :: "bool \<Rightarrow> demo_app \<Rightarrow> demo_app" where
  "bootstrapDemoAuth demo s =
     (let calls = demo \<and> \<not> isAuthenticated (dm_auth s) in
      s\<lparr>dm_auth := setBootstrapping calls (dm_auth s),
        dm_runs := dm_runs s @ [\<lparr>er_active = True, er_pending = calls\<rparr>]\<rparr>)"

definition cleanup :: "demo_app \<Rightarrow> demo_app" where
  "cleanup s = s\<lparr>dm_runs := map (\<lambda>r. r\<lparr>er_active := False\<rparr>) (dm_runs s)\<rparr>"

text \<open>After a change of the store the effect runs again if \<open>isAuthenticated\<close> has another value.\<close>

definition rerender :: "bool \<Rightarrow> demo_app \<Rightarrow> auth_state \<Rightarrow> demo_app" where
  "rerender demo s a =
     (if isAuthenticated a = isAuthenticated (dm_auth s) then s\<lparr>dm_auth := a\<rparr>
      else bootstrapDemoAuth demo (cleanup (s\<lparr>dm_auth := a\<rparr>)))"

datatype demo_reply = DemoSession json string string | DemoNothing | DemoFailed

fun demo_session :: "portal \<Rightarrow> demo_reply \<Rightarrow> auth_state \<Rightarrow> auth_state" where
  "demo_session pt (DemoSession usr access refresh) a = setAuth (Some usr) (Some access) (Some refresh) a"
| "demo_session pt DemoNothing a = a"
| "demo_session pt DemoFailed a = forged_session pt a"

text \<open>
  \<open>SignIn\<close> and \<open>SignOut\<close> are calls of \<open>setAuth\<close> and \<open>clearAuth\<close> elsewhere in the portal: the pages of
  the sign-in, the button of the navigation bar, a failed refresh.
\<close>

datatype demo_event = DemoReply nat demo_reply | SignIn json string string | SignOut

fun demo_step :: "bool \<Rightarrow> portal \<Rightarrow> demo_event \<Rightarrow> demo_app \<Rightarrow> demo_app" where
  "demo_step demo pt (DemoReply i r) s =
     (if i < length (dm_runs s) \<and> er_pending (dm_runs s ! i) then
        let s' = s\<lparr>dm_runs := (dm_runs s)[i := (dm_runs s ! i)\<lparr>er_pending := False\<rparr>]\<rparr>
        in if er_active (dm_runs s ! i)
           then rerender demo s' (setBootstrapping False (demo_session pt r (dm_auth s)))
           else s'
      else s)"
| "demo_step demo pt (SignIn usr access refresh) s =
     rerender demo s (setAuth (Some usr) (Some access) (Some refresh) (dm_auth s))"
| "demo_step demo pt SignOut s = rerender demo s (clearAuth (dm_auth s))"

definition demo_start :: "bool \<Rightarrow> auth_state \<Rightarrow> demo_app" where
  "demo_start demo a = bootstrapDemoAuth demo \<lparr> dm_auth = a, dm_runs = [] \<rparr>"

definition demo_run :: "bool \<Rightarrow> portal \<Rightarrow> demo_event list \<Rightarrow> auth_state \<Rightarrow> demo_app" where
  "demo_run demo pt es a = fold (demo_step demo pt) es (demo_start demo a)"

section \<open>Routes and their guards\<close>

text \<open>No address matches two patterns of a table, so the order of the routes does not matter.\<close>

fun apart :: "segment list \<Rightarrow> segment list \<Rightarrow> bool" where
  "apart (Lit u # us) (Lit w # ws) = (toLowerCase u \<noteq> toLowerCase w \<or> apart us ws)"
| "apart (u # us) (w # ws) = apart us ws"
| "apart [] [] = False"
| "apart _ _ = True"

lemma apart_segments: "apart us ws \<Longrightarrow> list_all2 segment_matches us ss \<Longrightarrow> \<not> list_all2 segment_matches ws ss"
  by (induction us ws arbitrary: ss rule: apart.induct) (auto simp: list_all2_Cons1)

definition exclusive :: "'p routes \<Rightarrow> bool" where
  "exclusive table \<longleftrightarrow>
     list_all (\<lambda>(i, j). i = j \<or> apart (fst (table ! i)) (fst (table ! j)))
       (List.product [0..<length table] [0..<length table])"

lemma routes_exclusive: "exclusive sender_routes" "exclusive carrier_routes"
  by code_simp+

lemma one_route:
  assumes "exclusive table" "i < length table" "j < length table"
    and "pattern_matches (fst (table ! i)) p" "pattern_matches (fst (table ! j)) p"
  shows "i = j"
proof -
  have "(i, j) \<in> set (List.product [0..<length table] [0..<length table])" using assms(2,3) by simp
  from bspec [OF assms(1) [unfolded exclusive_def list_all_iff] this]
  have "i = j \<or> apart (fst (table ! i)) (fst (table ! j))" by simp
  with assms(4,5) show ?thesis
    using apart_segments [of "fst (table ! i)" "fst (table ! j)" "path_segments p"] by (auto simp: pattern_matches_def)
qed

lemma element_at_cases:
  "element_at table otherwise p = Plain otherwise \<or> element_at table otherwise p \<in> snd ` set table"
proof (cases "List.find (\<lambda>(pat, e). pattern_matches pat p) table")
  case (Some r)
  then have "r \<in> set table" by (auto simp: find_Some_iff) (metis nth_mem)
  with Some show ?thesis by (cases r) (force simp: element_at_def)
qed (simp add: element_at_def)

lemma sender_targets:
  "element_at sender_routes SenderNotFound ''/dashboard'' = Guarded SenderDashboard"
  "element_at sender_routes SenderNotFound ''/auth/login'' = Guest SenderLogin ''/dashboard''"
  "element_at sender_routes SenderNotFound ''/'' = Plain Home"
  by code_simp+

lemma carrier_targets:
  "element_at carrier_routes CarrierNotFound ''/auth/login'' = Guest CarrierLogin ''/''"
  "element_at carrier_routes CarrierNotFound ''/'' = Plain CarrierHome"
  by code_simp+

text \<open>
  One redirection is enough: the guards do not send a user round in a circle, whatever the address
  and the session.
\<close>

lemma sender_settles: "sender_visit a p \<noteq> None"
  using element_at_cases [of sender_routes SenderNotFound p]
  by (auto simp: sender_visit_def sender_routes_def [THEN arg_cong [where f = set]] ProtectedRoute_def sender_targets)

lemma carrier_settles: "carrier_visit a p \<noteq> None"
  using element_at_cases [of carrier_routes CarrierNotFound p]
  by (auto simp: carrier_visit_def carrier_routes_def [THEN arg_cong [where f = set]] ProtectedRoute_def carrier_targets)

text \<open>Without a session only the public pages are shown, and the pages of the sign-in only then.\<close>

lemma sender_pages_guarded:
  assumes "sender_visit a p = Some (Page x)"
  shows "x \<in> {Home, SenderNotFound} \<or>
    (if x \<in> {SenderLogin, SenderRegister, SenderOtpVerify} then \<not> isAuthenticated a
     else isAuthenticated a \<and> \<not> as_isBootstrapping a)"
  using element_at_cases [of sender_routes SenderNotFound p] assms
  by (auto simp: sender_visit_def sender_routes_def [THEN arg_cong [where f = set]] ProtectedRoute_def sender_targets
      split: if_splits)

lemma carrier_pages_guarded:
  assumes "carrier_visit a p = Some (Page x)"
  shows "x \<in> {CarrierHome, CarrierNotFound} \<or>
    (if x \<in> {CarrierLogin, CarrierRegister, CarrierOtpVerify} then \<not> isAuthenticated a
     else isAuthenticated a \<and> \<not> as_isBootstrapping a)"
  using element_at_cases [of carrier_routes CarrierNotFound p] assms
  by (auto simp: carrier_visit_def carrier_routes_def [THEN arg_cong [where f = set]] ProtectedRoute_def carrier_targets
      split: if_splits)

section \<open>Links lead to pages\<close>

text \<open>An identifier in a link: not empty, without slashes and without a query.\<close>

definition link_id :: "string \<Rightarrow> bool" where
  "link_id t \<longleftrightarrow> t \<noteq> [] \<and> CHR ''/'' \<notin> set t \<and> CHR ''?'' \<notin> set t"

lemma split_on_plain: "d \<notin> set w \<Longrightarrow> split_on d w = [w]"
  by (induction w) auto

lemma no_trailing: "t \<noteq> [] \<Longrightarrow> List.last t \<noteq> d \<Longrightarrow> rev (dropWhile (\<lambda>c. c = d) (rev t)) = t"
  by (cases "rev t") (auto simp: rev_swap)

lemma split_on_pair: "d \<notin> set w \<Longrightarrow> d \<notin> set t \<Longrightarrow> split_on d (w @ d # t) = [w, t]"
  by (induction w) (auto simp: split_on_plain)

lemma path_pair:
  assumes "link_id t" "CHR ''/'' \<notin> set w"
  shows "path_segments (CHR ''/'' # w @ CHR ''/'' # t) = [w, t]"
proof -
  have "List.last (CHR ''/'' # w @ CHR ''/'' # t) \<noteq> CHR ''/''"
    using assms(1) by (auto simp: link_id_def dest: last_in_set)
  then have whole: "rev (dropWhile (\<lambda>c. c = CHR ''/'') (rev (CHR ''/'' # w @ CHR ''/'' # t))) = CHR ''/'' # w @ CHR ''/'' # t"
    by (intro no_trailing) simp_all
  have "split_on (CHR ''/'') (w @ CHR ''/'' # t) = [w, t]"
    using assms by (intro split_on_pair) (simp_all add: link_id_def)
  then show ?thesis unfolding path_segments_def whole by simp
qed

lemmas route_eval =
  element_at_def pattern_matches_def link_id_def toLowerCase_def lower_char_def char_code_def

lemma known_link:
  assumes "link_id t"
  shows "element_at sender_routes SenderNotFound (''/track/'' @ t) = Guarded TrackDeliveryPage"
    and "element_at sender_routes SenderNotFound (''/track-delivery/'' @ t) = Guarded TrackDeliveryPage"
    and "element_at sender_routes SenderNotFound (''/matches/'' @ t) = Guarded TrackDeliveryPage"
    and "element_at carrier_routes CarrierNotFound (''/active-delivery/'' @ t) = Guarded ActiveDelivery"
  using assms path_pair [OF assms, of "''track''"] path_pair [OF assms, of "''track-delivery''"]
    path_pair [OF assms, of "''matches''"] path_pair [OF assms, of "''active-delivery''"]
  by (simp_all add: route_eval sender_routes_def carrier_routes_def)

lemma sender_fixed_links:
  "list_all (\<lambda>l. element_at sender_routes SenderNotFound (pathname_of l) \<noteq> Plain SenderNotFound) sender_pages"
  by code_simp

lemma carrier_fixed_links:
  "list_all (\<lambda>l. element_at carrier_routes CarrierNotFound (pathname_of l) \<noteq> Plain CarrierNotFound) carrier_pages"
  by code_simp

lemma pathname_plain: "CHR ''?'' \<notin> set p \<Longrightarrow> pathname_of p = p"
  by (auto simp: pathname_of_def takeWhile_eq_all_conv)

lemma pathname_id:
  assumes "link_id t"
  shows "pathname_of (''/track/'' @ t) = ''/track/'' @ t" "pathname_of (''/matches/'' @ t) = ''/matches/'' @ t"
    "pathname_of (''/active-delivery/'' @ t) = ''/active-delivery/'' @ t"
  by (rule pathname_plain, use assms in \<open>simp add: link_id_def\<close>)+

lemma browse_link: "element_at sender_routes SenderNotFound (pathname_of (''/browse-trips?requestId='' @ rid)) = Guarded BrowseCarriers"
proof -
  have "pathname_of (''/browse-trips?requestId='' @ rid) = ''/browse-trips''" by (simp add: pathname_of_def)
  moreover have "element_at sender_routes SenderNotFound ''/browse-trips'' = Guarded BrowseCarriers" by code_simp
  ultimately show ?thesis by simp
qed

text \<open>Every link of the two portals leads to a page that exists, but for the matches of a request.\<close>

lemma sender_links_resolve:
  assumes "link_id mid" and "l \<in> set (sender_links rid mid)"
  shows "element_at sender_routes SenderNotFound (pathname_of l) \<noteq> Plain SenderNotFound"
proof -
  consider "l \<in> set sender_pages" | "l = ''/browse-trips?requestId='' @ rid" | "l = ''/matches/'' @ mid" | "l = ''/track/'' @ mid"
    using assms(2) unfolding sender_links_def set_append by auto
  then show ?thesis
  proof cases
    case 1
    with sender_fixed_links show ?thesis by (simp add: list_all_iff)
  next
    case 2
    then show ?thesis by (simp only: browse_link) simp
  next
    case 3
    show ?thesis by (simp only: 3 pathname_id [OF assms(1)] known_link [OF assms(1)]) simp
  next
    case 4
    show ?thesis by (simp only: 4 pathname_id [OF assms(1)] known_link [OF assms(1)]) simp
  qed
qed

lemma carrier_links_resolve:
  assumes "link_id mid" and "l \<in> set (carrier_links mid)"
  shows "element_at carrier_routes CarrierNotFound (pathname_of l) \<noteq> Plain CarrierNotFound"
proof -
  consider "l \<in> set carrier_pages" | "l = ''/active-delivery/'' @ mid"
    using assms(2) unfolding carrier_links_def set_append by auto
  then show ?thesis
  proof cases
    case 1
    with carrier_fixed_links show ?thesis by (simp add: list_all_iff)
  next
    case 2
    show ?thesis by (simp only: 2 pathname_id [OF assms(1)] known_link [OF assms(1)]) simp
  qed
qed

text \<open>
  \<open>View Matches\<close> on the list of shipments leads to the page for unknown addresses, and so does \<open>Live
  Tracking\<close>, since a request has no field \<open>activeMatchId\<close>.
\<close>

lemma split_on_three:
  "d \<notin> set u \<Longrightarrow> d \<notin> set w \<Longrightarrow> d \<notin> set t \<Longrightarrow> split_on d (u @ d # w @ d # t) = [u, w, t]"
  by (induction u) (auto simp: split_on_pair)

lemma matches_link_is_dead:
  assumes "link_id rid"
  shows "element_at sender_routes SenderNotFound (matches_link rid) = Plain SenderNotFound"
proof -
  have "split_on (CHR ''/'') (''deliveries'' @ CHR ''/'' # rid @ CHR ''/'' # ''matches'') = [''deliveries'', rid, ''matches'']"
    using assms by (intro split_on_three) (auto simp: link_id_def)
  then have "path_segments (matches_link rid) = [''deliveries'', rid, ''matches'']"
    by (simp add: path_segments_def matches_link_def)
  then show ?thesis by (simp add: route_eval sender_routes_def)
qed

lemma tracking_link_is_dead:
  "link_id rid \<Longrightarrow> element_at sender_routes SenderNotFound (tracking_link None rid) = Plain SenderNotFound"
  by (simp add: tracking_link_def truthy_str_def matches_link_is_dead)

section \<open>Crossing between the portals\<close>

lemma segment_after_id:
  assumes "CHR ''?'' \<notin> set p" and "segment_after pres p \<noteq> []"
  shows "link_id (segment_after pres p)"
  using assms by (induction pres) (auto simp: link_id_def dest: set_takeWhileD in_set_dropD split: if_splits)

lemma takeWhile_all: "c \<notin> set t \<Longrightarrow> takeWhile (\<lambda>d. d \<noteq> c) t = t"
  by (induction t) auto

text \<open>On the pages of a match the links go to the same match, and back.\<close>

lemma match_ids_cross:
  assumes "t \<noteq> []" "CHR ''/'' \<notin> set t"
  shows "carrier_extractMatchId (''/active-delivery/'' @ t) = t"
    and "sender_extractMatchId (''/track-delivery/'' @ t) = t"
    and "getCarrierPortalHref l (''/track-delivery/'' @ t) = getCarrierBase l @ ''/active-delivery/'' @ t"
    and "getSenderPortalHref l (''/active-delivery/'' @ t) = getSenderBase l @ ''/track-delivery/'' @ t"
  using assms by (simp_all add: carrier_extractMatchId_def sender_extractMatchId_def takeWhile_all
      getCarrierPortalHref_def getSenderPortalHref_def getCarrierMatchHref_def getSenderMatchHref_def)

text \<open>From \<open>/track/:matchId\<close>, the same page, the link goes to the start page of the carriers.\<close>

lemma track_loses_match: "getCarrierPortalHref l (''/track/'' @ t) = getCarrierBase l"
  by (simp add: getCarrierPortalHref_def sender_extractMatchId_def)

lemma carrier_goals:
  "list_all (\<lambda>r. element_at carrier_routes CarrierNotFound r \<noteq> Plain CarrierNotFound)
     [''/post-trip'', ''/incoming-requests'', ''/earnings'', ''/dashboard'', []]"
  by code_simp

lemma sender_goals:
  "list_all (\<lambda>r. element_at sender_routes SenderNotFound r \<noteq> Plain SenderNotFound)
     [''/send-package'', ''/browse-carriers'', ''/wallet'', ''/shipments'', ''/dashboard'', []]"
  by code_simp

text \<open>From any page of one portal the link leads to a page that the other one has.\<close>

lemma carrier_href_resolves:
  assumes "CHR ''?'' \<notin> set p"
  shows "\<exists>r. getCarrierPortalHref l p = getCarrierBase l @ r \<and> element_at carrier_routes CarrierNotFound r \<noteq> Plain CarrierNotFound"
proof (cases "sender_extractMatchId p = []")
  case True
  then show ?thesis using carrier_goals by (auto simp: getCarrierPortalHref_def)
next
  case False
  with assms have "link_id (sender_extractMatchId p)"
    unfolding sender_extractMatchId_def by (rule segment_after_id)
  then have "element_at carrier_routes CarrierNotFound (''/active-delivery/'' @ sender_extractMatchId p) \<noteq> Plain CarrierNotFound"
    by (simp only: known_link) simp
  with False show ?thesis by (simp only: getCarrierPortalHref_def getCarrierMatchHref_def not_False_eq_True if_True) blast
qed

lemma sender_href_resolves:
  assumes "CHR ''?'' \<notin> set p"
  shows "\<exists>r. getSenderPortalHref l p = getSenderBase l @ r \<and> element_at sender_routes SenderNotFound r \<noteq> Plain SenderNotFound"
proof (cases "carrier_extractMatchId p = []")
  case True
  then show ?thesis using sender_goals by (auto simp: getSenderPortalHref_def)
next
  case False
  with assms have "link_id (carrier_extractMatchId p)"
    unfolding carrier_extractMatchId_def by (rule segment_after_id)
  then have "element_at sender_routes SenderNotFound (''/track-delivery/'' @ carrier_extractMatchId p) \<noteq> Plain SenderNotFound"
    by (simp only: known_link) simp
  with False show ?thesis by (simp only: getSenderPortalHref_def getSenderMatchHref_def not_False_eq_True if_True) blast
qed

section \<open>Demo mode\<close>

lemma setBootstrapping_twice [simp]: "setBootstrapping b (setBootstrapping c a) = setBootstrapping b a"
  by (simp add: setBootstrapping_def)

lemma auth_flags [simp]:
  "isAuthenticated (setBootstrapping b a) = isAuthenticated a"
  "as_isBootstrapping (setBootstrapping b a) = b"
  "\<not> as_isBootstrapping (clearAuth a)" "\<not> isAuthenticated (clearAuth a)"
  "\<not> as_isBootstrapping (setAuth u t r a)"
  "isAuthenticated (setAuth u t r a) = (u \<noteq> None \<and> truthy_str t)"
  by (simp_all add: isAuthenticated_def setBootstrapping_def clearAuth_def setAuth_def truthy_str_def)

text \<open>
  Only the last run of the effect is active; while the pages show \<open>Preparing your workspace\<close> its call
  is waiting for an answer, and only a visitor without a session of demo mode has such a call.
\<close>

definition boot_ok :: "bool \<Rightarrow> demo_app \<Rightarrow> bool" where
  "boot_ok demo s \<longleftrightarrow> dm_runs s \<noteq> [] \<and> er_active (List.last (dm_runs s)) \<and> (\<forall>r \<in> set (butlast (dm_runs s)). \<not> er_active r) \<and>
     (as_isBootstrapping (dm_auth s) \<longrightarrow> er_pending (List.last (dm_runs s))) \<and>
     (er_pending (List.last (dm_runs s)) \<longrightarrow> demo \<and> \<not> isAuthenticated (dm_auth s))"

lemma bootstrap_ok: "(\<forall>r \<in> set (dm_runs s). \<not> er_active r) \<Longrightarrow> boot_ok demo (bootstrapDemoAuth demo s)"
  by (simp add: bootstrapDemoAuth_def boot_ok_def Let_def)

lemma rerender_ok:
  assumes "dm_runs s \<noteq> []" "er_active (List.last (dm_runs s))" "\<forall>r \<in> set (butlast (dm_runs s)). \<not> er_active r"
    and "er_pending (List.last (dm_runs s)) \<longrightarrow> demo \<and> \<not> isAuthenticated (dm_auth s)"
    and "\<not> as_isBootstrapping a"
  shows "boot_ok demo (rerender demo s a)"
proof (cases "isAuthenticated a = isAuthenticated (dm_auth s)")
  case True
  with assms show ?thesis by (simp add: rerender_def boot_ok_def)
next
  case False
  then show ?thesis by (auto simp: rerender_def cleanup_def intro!: bootstrap_ok)
qed

lemma active_is_last:
  assumes "\<forall>r \<in> set (butlast rs). \<not> er_active r" "i < length rs" "er_active (rs ! i)"
  shows "i = length rs - 1"
proof (rule ccontr)
  assume "i \<noteq> length rs - 1"
  with assms(2) have "i < length (butlast rs)" by simp
  with assms show False by (metis nth_butlast nth_mem)
qed

lemma demo_step_ok: "boot_ok demo s \<Longrightarrow> boot_ok demo (demo_step demo pt e s)"
proof (cases e)
  case (DemoReply i r)
  assume ok: "boot_ok demo s"
  let ?run = "dm_runs s ! i"
  let ?s' = "s\<lparr>dm_runs := (dm_runs s)[i := ?run\<lparr>er_pending := False\<rparr>]\<rparr>"
  show ?thesis
  proof (cases "i < length (dm_runs s) \<and> er_pending ?run")
    case hit: True
    show ?thesis
    proof (cases "er_active ?run")
      case True
      with ok hit have last: "i = length (dm_runs s) - 1" by (intro active_is_last) (auto simp: boot_ok_def)
      have "boot_ok demo (rerender demo ?s' (setBootstrapping False (demo_session pt r (dm_auth s))))"
        using ok hit last by (intro rerender_ok) (auto simp: boot_ok_def last_conv_nth butlast_list_update)
      with DemoReply hit True show ?thesis by (simp add: Let_def)
    next
      case False
      then have other: "i \<noteq> length (dm_runs s) - 1" using ok by (auto simp: boot_ok_def last_conv_nth)
      then have "List.last (dm_runs ?s') = List.last (dm_runs s)"
        using ok by (simp add: boot_ok_def last_list_update)
      moreover have "\<forall>r \<in> set (butlast (dm_runs ?s')). \<not> er_active r"
        using ok False other
        by (auto simp: boot_ok_def butlast_list_update dest!: set_update_subset_insert [THEN subsetD])
      ultimately have "boot_ok demo ?s'" using ok by (simp add: boot_ok_def)
      with DemoReply hit False show ?thesis by (simp add: Let_def)
    qed
  qed (use ok DemoReply in auto)
next
  case (SignIn usr access refresh)
  then show "boot_ok demo s \<Longrightarrow> ?thesis" by (simp, intro rerender_ok) (simp_all add: boot_ok_def)
next
  case SignOut
  then show "boot_ok demo s \<Longrightarrow> ?thesis" by (simp, intro rerender_ok) (simp_all add: boot_ok_def)
qed

lemma demo_run_ok: "boot_ok demo (demo_run demo pt es a)"
proof -
  have "boot_ok demo s \<Longrightarrow> boot_ok demo (fold (demo_step demo pt) es s)" for s
    by (induction es arbitrary: s) (simp_all add: demo_step_ok)
  moreover have "boot_ok demo (demo_start demo a)" by (simp add: demo_start_def bootstrap_ok)
  ultimately show ?thesis by (simp add: demo_run_def)
qed

text \<open>When every call has been answered no page is kept waiting.\<close>

lemma bootstrap_settles:
  assumes "\<forall>r \<in> set (dm_runs (demo_run demo pt es a)). \<not> er_pending r"
  shows "\<not> as_isBootstrapping (dm_auth (demo_run demo pt es a))"
  using demo_run_ok [of demo pt es a] assms by (auto simp: boot_ok_def)

text \<open>
  In demo mode nobody stays signed out: the end of a session starts a call whose answer, or failure,
  opens the next one.  When it fails the session is the made-up one, with tokens that no server has
  issued.
\<close>

lemma sign_out_is_undone:
  assumes "isAuthenticated (dm_auth s)"
  shows "let s' = demo_step True pt SignOut s; i = length (dm_runs s) in
    er_pending (dm_runs s' ! i) \<and>
    dm_auth (demo_step True pt (DemoReply i DemoFailed) s') = setBootstrapping False (forged_session pt (dm_auth s')) \<and>
    isAuthenticated (dm_auth (demo_step True pt (DemoReply i DemoFailed) s'))"
  using assms
  by (cases pt) (simp_all add: rerender_def bootstrapDemoAuth_def cleanup_def forged_session_def Let_def nth_append truthy_str_def)

text \<open>An answer that arrives after the user has signed in changes nothing in the session.\<close>

lemma late_answer_is_ignored:
  assumes "boot_ok demo s" and "\<not> isAuthenticated (dm_auth s)" and "access \<noteq> []" and "i < length (dm_runs s)"
  shows "dm_auth (demo_step demo pt (DemoReply i r) (demo_step demo pt (SignIn usr access refresh) s)) =
         dm_auth (demo_step demo pt (SignIn usr access refresh) s)"
  using assms
  by (simp add: rerender_def bootstrapDemoAuth_def cleanup_def Let_def nth_append truthy_str_def)

text \<open>Without demo mode there is no call, and the portal makes up no session.\<close>

definition no_calls :: "demo_app \<Rightarrow> bool" where
  "no_calls s \<longleftrightarrow> (\<forall>r \<in> set (dm_runs s). \<not> er_pending r)"

lemma rerender_no_calls: "no_calls s \<Longrightarrow> no_calls (rerender False s a)"
  by (auto simp: no_calls_def rerender_def bootstrapDemoAuth_def cleanup_def Let_def)

lemma step_no_calls: "no_calls s \<Longrightarrow> no_calls (demo_step False pt e s)"
  by (cases e) (auto simp: rerender_no_calls, auto simp: no_calls_def)

lemma no_demo_no_calls: "no_calls (demo_run False pt es a)"
proof -
  have "no_calls s \<Longrightarrow> no_calls (fold (demo_step False pt) es s)" for s
    by (induction es arbitrary: s) (simp_all add: step_no_calls)
  moreover have "no_calls (demo_start False a)"
    by (simp add: demo_start_def bootstrapDemoAuth_def no_calls_def Let_def)
  ultimately show ?thesis by (simp add: demo_run_def)
qed

end
