(* ===== verification/Boards.thy ===== *)
theory Boards
  imports MatchPage Reports Navigation
begin

text \<open>
  The pages that list what a user has: \<open>MyShipments\<close> and \<open>BrowseTrips\<close> of the sender,
  \<open>IncomingRequests\<close>, \<open>Earnings\<close> and \<open>ActiveDelivery\<close> of the carrier, with \<open>utils/matches.ts\<close>.  The
  lists are the answers of the services; shown are the filters, orders and sums, and that the buttons
  do what the server admits.
\<close>

section \<open>The shipments of a sender\<close>

datatype shipment_tab = AllTab | ActiveTab | DeliveredTab | MatchingTab

definition active_shipment :: "string \<Rightarrow> bool" where
  "active_shipment st = (st \<in> set [''picked_up'', ''in_transit'', ''matched'', ''active'', ''accepted'', ''confirmed''])"

definition matching_shipment :: "string \<Rightarrow> bool" where
  "matching_shipment st = (st \<in> set [''created'', ''pending'', ''open'', ''searching''])"

fun on_tab :: "shipment_tab \<Rightarrow> string \<Rightarrow> bool" where
  "on_tab AllTab st = True"
| "on_tab ActiveTab st = active_shipment st"
| "on_tab DeliveredTab st = (st = ''delivered'')"
| "on_tab MatchingTab st = matching_shipment st"

definition shipment_found :: "string \<Rightarrow> delivery_request \<Rightarrow> bool" where
  "shipment_found search r =
     (trim search = [] \<or>
      (let q = toLowerCase search
       in strIncludes (toLowerCase (l_city (r_origin r))) q \<or> strIncludes (toLowerCase (l_city (r_destination r))) q \<or>
          strIncludes (toLowerCase (p_description (r_package r))) q \<or> strIncludes (toLowerCase (rc_name (r_recipient r))) q))"

definition filteredRequests ::
  "shipment_tab \<Rightarrow> string \<Rightarrow> (oid \<times> delivery_request) list \<Rightarrow> (oid \<times> delivery_request) list" where
  "filteredRequests tab search rs =
     filter (\<lambda>(k, r). on_tab tab (toLowerCase (request_status_str (r_status r))) \<and> shipment_found search r) rs"

definition activeCount :: "(oid \<times> delivery_request) list \<Rightarrow> nat" where
  "activeCount rs = length (filter (\<lambda>(k, r). active_shipment (request_status_str (r_status r))) rs)"

definition deliveredCount :: "(oid \<times> delivery_request) list \<Rightarrow> nat" where
  "deliveredCount rs = length (filter (\<lambda>(k, r). request_status_str (r_status r) = ''delivered'') rs)"

datatype shipment_badge = DeliveredBadge | TransitBadge | PairedBadge | MatchingBadge

definition badge_of :: "string \<Rightarrow> shipment_badge" where
  "badge_of st =
     (if st = ''delivered'' then DeliveredBadge
      else if st \<in> set [''picked_up'', ''in_transit''] then TransitBadge
      else if st \<in> set [''matched'', ''confirmed'', ''accepted''] then PairedBadge
      else MatchingBadge)"

text \<open>Which of the four steps of the small progress bar are lit.\<close>

definition progress_bar :: "string \<Rightarrow> bool list" where
  "progress_bar st =
     (let b = badge_of st in
      [st \<noteq> [], b \<in> {PairedBadge, TransitBadge, DeliveredBadge}, b \<in> {TransitBadge, DeliveredBadge}, b = DeliveredBadge])"

section \<open>The board of trips\<close>

datatype browse_sort = ByPrice | ByDeparture | ByRating

text \<open>\<open>[...v]\<close>: only arrays can be spread here, an object is not iterable.\<close>

fun spread :: "json \<Rightarrow> js_error + json list" where
  "spread (JArr xs) = Inr xs"
| "spread v = Inl (LibError ''TypeError'')"

definition number_or_0 :: "json \<Rightarrow> rat" where
  "number_or_0 v = (case v of JNum x \<Rightarrow> x | _ \<Rightarrow> 0)"

text \<open>
  The orders of the board; \<open>tm\<close> is \<open>new Date(v || 0).getTime()\<close>.  The matches of a request and the
  public trips keep price and departure at different places.
\<close>

definition board_sort :: "browse_sort \<Rightarrow> (json \<Rightarrow> rat) \<Rightarrow> (json \<Rightarrow> rat) \<Rightarrow> json list \<Rightarrow> json list" where
  "board_sort sortBy price departure xs =
     (case sortBy of
        ByPrice \<Rightarrow> sort_key price xs
      | ByDeparture \<Rightarrow> sort_key departure xs
      | ByRating \<Rightarrow> sort_key (\<lambda>j. - number_or_0 (jget (jget (jget j ''carrier'') ''rating'') ''average'')) xs)"

definition text_includes :: "json \<Rightarrow> string \<Rightarrow> bool" where
  "text_includes v q = (case v of JStr t \<Rightarrow> strIncludes (toLowerCase t) q | _ \<Rightarrow> False)"

definition displayedTrips ::
  "(json \<Rightarrow> rat) \<Rightarrow> string \<Rightarrow> json \<Rightarrow> json \<Rightarrow> browse_sort \<Rightarrow> string \<Rightarrow> js_error + json list" where
  "displayedTrips tm requestId matchData tripData sortBy cityFilter =
     (if requestId \<noteq> [] then
        (case spread (jor matchData (JArr [])) of
           Inl e \<Rightarrow> Inl e
         | Inr xs \<Rightarrow> Inr (board_sort sortBy (\<lambda>j. number_or_0 (jget j ''agreedPrice''))
             (\<lambda>j. tm (jget (jget j ''trip'') ''departureTime'')) xs))
      else
        (case spread (jor tripData (JArr [])) of
           Inl e \<Rightarrow> Inl e
         | Inr xs \<Rightarrow>
             let q = toLowerCase (trim cityFilter);
                 shown = (if trim cityFilter = [] then xs
                   else filter (\<lambda>j. text_includes (jget (jget j ''origin'') ''city'') q \<or>
                                    text_includes (jget (jget j ''destination'') ''city'') q \<or>
                                    text_includes (jget (jget j ''carrier'') ''name'') q) xs)
             in Inr (board_sort sortBy (\<lambda>j. number_or_0 (jget j ''pricePerKg'')) (\<lambda>j. tm (jget j ''departureTime'')) shown)))"

text \<open>How soon the matches are asked for again, in milliseconds.\<close>

definition refetchInterval :: "string \<Rightarrow> json list option \<Rightarrow> int option" where
  "refetchInterval requestId data =
     (if requestId = [] then None
      else Some (if (case data of None \<Rightarrow> 0 | Some xs \<Rightarrow> length xs) \<noteq> 0 then 10000 else 2000))"

text \<open>The answer of \<open>GET /trips\<close> as JSON; \<open>enc\<close> writes a trip.\<close>

definition page_json :: "(oid \<times> trip \<times> int \<Rightarrow> json) \<Rightarrow> trip_page \<Rightarrow> json" where
  "page_json enc pg =
     JObj [(''items'', JArr (map enc (tg_items pg))), (''total'', JNum (of_nat (tg_total pg))),
       (''page'', JNum (of_nat (tg_page pg))), (''limit'', JNum (of_nat (tg_limit pg))),
       (''totalPages'', JNum (of_nat (tg_totalPages pg)))]"

section \<open>The matches of a carrier\<close>

text \<open>
  A job, or a match that was fetched by itself, as the pages use it; \<open>bm_touched\<close> is
  \<open>updatedAt || createdAt\<close>.
\<close>

record board_match =
  bm_id :: oid
  bm_match :: match_doc
  bm_request :: "delivery_request option"
  bm_financials :: "financials option"
  bm_touched :: int

definition board_of_job :: "(oid \<Rightarrow> int option) \<Rightarrow> job_view \<Rightarrow> board_match" where
  "board_of_job updated j =
     \<lparr> bm_id = fst (jb_match j), bm_match = snd (jb_match j), bm_request = jb_request j,
       bm_financials = Some (jb_financials j),
       bm_touched = (case updated (fst (jb_match j)) of Some t \<Rightarrow> t | None \<Rightarrow> m_createdAt (snd (jb_match j))) \<rparr>"

text \<open>
  \<open>utils/matches.ts\<close>: the jobs; when that fails, the matches of the carrier's trips, one call for
  each, without those that failed.
\<close>

definition fetchCarrierMatches ::
  "(js_error + 'm list) \<Rightarrow> (js_error + oid list list) \<Rightarrow> (oid \<Rightarrow> 'm option) \<Rightarrow> js_error + 'm list" where
  "fetchCarrierMatches available tripMatches getMatch =
     (case available of
        Inr xs \<Rightarrow> Inr xs
      | Inl _ \<Rightarrow>
          (case tripMatches of
             Inl e \<Rightarrow> Inl e
           | Inr ids \<Rightarrow> Inr (List.map_filter getMatch (dedup (concat ids)))))"

definition proposedMatches :: "board_match list \<Rightarrow> board_match list" where
  "proposedMatches bs = filter (\<lambda>b. match_status_str (m_status (bm_match b)) = ''proposed'') bs"

definition activeMatches :: "board_match list \<Rightarrow> board_match list" where
  "activeMatches bs = filter (\<lambda>b. match_status_str (m_status (bm_match b)) \<in> set MATCH_ACTIVE_STATUSES) bs"

datatype incoming_action = IncomingAccept | IncomingReject

fun incoming_call :: "world \<Rightarrow> oid \<Rightarrow> incoming_action \<Rightarrow> oid \<Rightarrow> (db, unit) handler" where
  "incoming_call W usr IncomingAccept mid = bindM (carrierAccept W mid usr) (\<lambda>_. retM ())"
| "incoming_call W usr IncomingReject mid = bindM (carrierReject W mid usr) (\<lambda>_. retM ())"

section \<open>Earnings\<close>

definition getMatchPayout :: "board_match \<Rightarrow> int" where
  "getMatchPayout b =
     (case bm_financials b of Some f \<Rightarrow> fi_payoutToCarrier f
      | None \<Rightarrow> (case m_payoutToCarrier (bm_match b) of Some n \<Rightarrow> n | None \<Rightarrow> 0))"

definition getMatchPlatformFee :: "board_match \<Rightarrow> int" where
  "getMatchPlatformFee b =
     (case bm_financials b of Some f \<Rightarrow> fi_platformFee f
      | None \<Rightarrow> max (m_agreedPrice (bm_match b) - getMatchPayout b) 0)"

definition payout_released :: "transaction \<Rightarrow> bool" where
  "payout_released x = (x_type x = CarrierPayout \<and> x_status x = TxCompleted)"

definition releasedMatchIds :: "transaction list \<Rightarrow> oid list" where
  "releasedMatchIds xs = filter (\<lambda>i. i \<noteq> []) (map (\<lambda>x. case x_match x of Some i \<Rightarrow> i | None \<Rightarrow> []) (filter payout_released xs))"

definition completedMatches :: "board_match list \<Rightarrow> board_match list" where
  "completedMatches bs = filter (\<lambda>b. match_status_str (m_status (bm_match b)) \<in> set MATCH_COMPLETED_STATUSES) bs"

definition pendingMatches :: "transaction list \<Rightarrow> board_match list \<Rightarrow> board_match list" where
  "pendingMatches xs bs =
     filter (\<lambda>b. match_status_str (m_status (bm_match b)) \<notin> set [''cancelled'', ''disputed''] \<and>
                 bm_id b \<notin> set (releasedMatchIds xs)) bs"

definition route_name :: "board_match \<Rightarrow> string" where
  "route_name b =
     (case bm_request b of
        None \<Rightarrow> ''Origin -> Destination''
      | Some r \<Rightarrow> (if l_city (r_origin r) = [] then ''Origin'' else l_city (r_origin r)) @ '' -> '' @
                  (if l_city (r_destination r) = [] then ''Destination'' else l_city (r_destination r)))"

text \<open>The properties of an object stay in the order in which they were first written.\<close>

fun add_route :: "string \<Rightarrow> int \<Rightarrow> (string \<times> nat \<times> int) list \<Rightarrow> (string \<times> nat \<times> int) list" where
  "add_route route pay [] = [(route, 1, pay)]"
| "add_route route pay ((k, n, p) # acc) =
     (if k = route then (k, Suc n, p + pay) # acc else (k, n, p) # add_route route pay acc)"

definition routeTotals :: "board_match list \<Rightarrow> (string \<times> nat \<times> int) list" where
  "routeTotals bs = fold (\<lambda>b. add_route (route_name b) (getMatchPayout b)) bs []"

record metrics =
  me_activeCount :: nat
  me_completedCount :: nat
  me_releasedPayout :: int
  me_pendingPayout :: int
  me_bookedPayout :: int
  me_platformFees :: int
  me_averageCompletedPayout :: int
  me_topRoutes :: "(string \<times> nat \<times> int) list"
  me_pipeline :: "board_match list"

definition earnings_metrics :: "transaction list \<Rightarrow> board_match list \<Rightarrow> metrics" where
  "earnings_metrics xs bs =
     (let completed = completedMatches bs; pending = pendingMatches xs bs in
      \<lparr> me_activeCount = length (activeMatches bs), me_completedCount = length completed,
        me_releasedPayout = sum_list (map x_amount (filter payout_released xs)),
        me_pendingPayout = sum_list (map getMatchPayout pending),
        me_bookedPayout = sum_list (map getMatchPayout bs),
        me_platformFees = sum_list (map getMatchPlatformFee bs),
        me_averageCompletedPayout =
          (if 0 < length completed
           then js_round (jdiv (of_int (sum_list (map getMatchPayout completed))) (of_nat (length completed))) else 0),
        me_topRoutes = take 4 (sort_key (\<lambda>(k, n, p). - p) (routeTotals (pending @ completed))),
        me_pipeline = take 6 (sort_key (\<lambda>b. - bm_touched b) pending) \<rparr>)"

section \<open>The delivery of a carrier\<close>

record workspace =
  wk_match :: "match_doc option"
  wk_pickupOtp :: string
  wk_deliveryOtp :: string

datatype work_action = WorkAccept | WorkReject | WorkPickup | WorkDelivery

fun work_offers :: "string \<Rightarrow> work_action \<Rightarrow> bool" where
  "work_offers st WorkAccept = (st = ''proposed'')"
| "work_offers st WorkReject = (st = ''proposed'')"
| "work_offers st WorkPickup = (st \<in> set [''sender_confirmed'', ''active''])"
| "work_offers st WorkDelivery = (st \<in> set [''picked_up'', ''in_transit''])"

fun work_call :: "world \<Rightarrow> oid \<Rightarrow> oid \<Rightarrow> work_action \<Rightarrow> (db, string) handler" where
  "work_call W usr mid WorkAccept = bindM (carrierAccept W mid usr) (\<lambda>_. retM [])"
| "work_call W usr mid WorkReject = bindM (carrierReject W mid usr) (\<lambda>_. retM [])"
| "work_call W usr mid WorkPickup = bindM (generatePickupOtp W mid usr) (\<lambda>o'. retM (oi_otp o'))"
| "work_call W usr mid WorkDelivery = bindM (generateDeliveryOtp W mid usr) (\<lambda>o'. retM (oi_otp o'))"

definition work_success :: "work_action \<Rightarrow> string \<Rightarrow> workspace \<Rightarrow> workspace" where
  "work_success act otp w =
     (case act of WorkPickup \<Rightarrow> w\<lparr>wk_pickupOtp := otp\<rparr> | WorkDelivery \<Rightarrow> w\<lparr>wk_deliveryOtp := otp\<rparr> | _ \<Rightarrow> w)"

text \<open>A press: the mutation, its toast, and the match as the invalidated query fetches it again.\<close>

definition work_press :: "world \<Rightarrow> oid \<Rightarrow> oid \<Rightarrow> work_action \<Rightarrow> workspace \<times> db \<Rightarrow> bool \<times> workspace \<times> db" where
  "work_press W usr mid act = (\<lambda>(w, d).
     case work_call W usr mid act d of
       (Inl e, d') \<Rightarrow> (False, w, d')
     | (Inr otp, d') \<Rightarrow>
         let w' = work_success act otp w in
         (True, w'\<lparr>wk_match := (case fst (getMatchById mid usr d') of Inr m \<Rightarrow> Some m | Inl _ \<Rightarrow> wk_match w')\<rparr>, d'))"

definition shouldBroadcast :: "string \<Rightarrow> bool" where
  "shouldBroadcast st = (st \<in> set [''picked_up'', ''in_transit'', ''delivery_pending''])"

definition showTrackingMap :: "string \<Rightarrow> bool" where
  "showTrackingMap st = (st \<in> set MATCH_LOCATION_TRACKING_STATUSES)"

definition handoff_card :: "workspace \<Rightarrow> bool" where
  "handoff_card w =
     (case wk_match w of None \<Rightarrow> False
      | Some m \<Rightarrow> match_status_str (m_status m) = ''delivery_pending'' \<or> wk_deliveryOtp w \<noteq> [])"

text \<open>The money of the workspace.\<close>

definition money_of :: "board_match \<Rightarrow> int \<times> int \<times> int" where
  "money_of b =
     (let payout = getMatchPayout b;
          charge = (case bm_financials b of Some f \<Rightarrow> fi_totalCharge f | None \<Rightarrow> m_agreedPrice (bm_match b))
      in (payout, charge, case bm_financials b of Some f \<Rightarrow> fi_platformFee f | None \<Rightarrow> max (charge - payout) 0))"

text \<open>\<open>useLocationBroadcast\<close>: whether the timer runs.\<close>

definition broadcasts :: "bool \<Rightarrow> string \<Rightarrow> bool \<Rightarrow> bool \<Rightarrow> bool" where
  "broadcasts socket matchId enabled geolocation = (socket \<and> enabled \<and> matchId \<noteq> [] \<and> geolocation)"

section \<open>Shipments: filters and badges\<close>

lemma status_lower [simp]: "toLowerCase (request_status_str st) = request_status_str st"
  by (induction st) code_simp+

text \<open>The number on a tab is the number of shipments under it.\<close>

lemma tab_counts:
  "length (filteredRequests AllTab [] rs) = length rs"
  "length (filteredRequests ActiveTab [] rs) = activeCount rs"
  "length (filteredRequests DeliveredTab [] rs) = deliveredCount rs"
  by (simp_all add: filteredRequests_def activeCount_def deliveredCount_def shipment_found_def trim_def case_prod_unfold)

text \<open>
  No shipment is under two of the other tabs; a cancelled or expired one, and one whose one-time
  password has been sent, is under none.
\<close>

lemma tabs_disjoint:
  "t \<noteq> t' \<Longrightarrow> t \<noteq> AllTab \<Longrightarrow> t' \<noteq> AllTab \<Longrightarrow> \<not> (on_tab t (request_status_str st) \<and> on_tab t' (request_status_str st))"
  by (cases t; cases t'; cases st) (simp_all add: active_shipment_def matching_shipment_def)

lemma tabs_cover:
  "(\<exists>t. t \<noteq> AllTab \<and> on_tab t (request_status_str st)) \<longleftrightarrow> st \<notin> {ReqPickupOtpSent, ReqDeliveryOtpSent, ReqCancelled, ReqExpired}"
proof -
  have "(\<exists>t. t \<noteq> AllTab \<and> on_tab t (request_status_str st)) \<longleftrightarrow>
      on_tab ActiveTab (request_status_str st) \<or> on_tab DeliveredTab (request_status_str st) \<or> on_tab MatchingTab (request_status_str st)"
    by (metis shipment_tab.distinct(1,3,5) shipment_tab.exhaust)
  then show ?thesis by (cases st) (simp_all add: active_shipment_def matching_shipment_def)
qed

text \<open>A step of the bar is lit only when all before it are.\<close>

lemma bar_is_prefix: "progress_bar (request_status_str st) \<in> set (map (\<lambda>n. replicate n True @ replicate (4 - n) False) [1..<5])"
  by (induction st) code_simp+

text \<open>A cancelled request is shown as one that is looking for a trip.\<close>

lemma cancelled_looks_matching: "badge_of (request_status_str ReqCancelled) = MatchingBadge"
  by code_simp

text \<open>A shipment that is found has the text in one of its four fields.\<close>

lemma search_is_sound:
  "(k, r) \<in> set (filteredRequests tab search rs) \<Longrightarrow> trim search \<noteq> [] \<Longrightarrow>
     \<exists>t \<in> {l_city (r_origin r), l_city (r_destination r), p_description (r_package r), rc_name (r_recipient r)}.
       strIncludes (toLowerCase t) (toLowerCase search)"
  by (auto simp: filteredRequests_def shipment_found_def Let_def)

section \<open>The board of trips: what it shows\<close>

text \<open>The matches of a request are shown all, in the chosen order.\<close>

lemma board_sort_perm: "mset (board_sort sortBy price departure xs) = mset xs"
  by (simp add: board_sort_def split: browse_sort.split)

lemma board_sort_sorted:
  "sorted (map price (board_sort ByPrice price departure xs))"
  "sorted (map departure (board_sort ByDeparture price departure xs))"
  by (simp_all add: board_sort_def)

lemma matches_are_shown:
  assumes "requestId \<noteq> []"
  shows "\<exists>ys. displayedTrips tm requestId (JArr xs) tripData sortBy f = Inr ys \<and> mset ys = mset xs"
  using assms by (auto simp: displayedTrips_def jor_def board_sort_perm split: if_splits)

lemma cheapest_match_first:
  assumes "requestId \<noteq> []"
  shows "\<exists>ys. displayedTrips tm requestId (JArr xs) tripData ByPrice f = Inr ys \<and>
    sorted (map (\<lambda>j. number_or_0 (jget j ''agreedPrice'')) ys)"
  using assms by (auto simp: displayedTrips_def jor_def board_sort_sorted split: if_splits)

text \<open>
  The board of all trips cannot show the answer of the service: that is a page object with the trips
  in \<open>items\<close>, and the board spreads it as an array.
\<close>

lemma public_board_throws:
  "displayedTrips tm [] matchData (page_json enc pg) sortBy f = Inl (LibError ''TypeError'')"
  by (simp add: displayedTrips_def page_json_def jor_def)

section \<open>Incoming requests\<close>

lemma job_open:
  assumes "j \<in> set (listAvailableJobs c s)"
  shows "jb_match j \<in> set (matches s)" "m_carrier (snd (jb_match j)) = c"
    "m_status (snd (jb_match j)) \<notin> {Delivered, Cancelled, Disputed}"
  using jobs_complete [of c s] assms by (metis (mono_tags, lifting) case_prodE image_eqI mem_Collect_eq snd_conv)+

lemma proposed_or_active:
  "st \<notin> {Delivered, Cancelled, Disputed} \<Longrightarrow>
     (match_status_str st = ''proposed'') \<noteq> (match_status_str st \<in> set MATCH_ACTIVE_STATUSES)"
  by (cases st) (simp_all add: MATCH_ACTIVE_STATUSES_def)

text \<open>Every job of a carrier is on exactly one of the two lists of the page.\<close>

lemma incoming_partition:
  assumes "bs = map (board_of_job upd) (listAvailableJobs c s)"
  shows "mset (proposedMatches bs) + mset (activeMatches bs) = mset bs"
    and "set (proposedMatches bs) \<inter> set (activeMatches bs) = {}"
proof -
  have one: "(match_status_str (m_status (bm_match b)) = ''proposed'') \<noteq>
      (match_status_str (m_status (bm_match b)) \<in> set MATCH_ACTIVE_STATUSES)" if "b \<in> set bs" for b
  proof -
    from that assms obtain j where "j \<in> set (listAvailableJobs c s)" "b = board_of_job upd j" by auto
    then show ?thesis using proposed_or_active [OF job_open(3)] by (simp add: board_of_job_def)
  qed
  then have "activeMatches bs = filter (\<lambda>b. match_status_str (m_status (bm_match b)) \<noteq> ''proposed'') bs"
    unfolding activeMatches_def by (intro filter_cong) auto
  then show "mset (proposedMatches bs) + mset (activeMatches bs) = mset bs"
    by (simp add: proposedMatches_def flip: multiset_partition)
  show "set (proposedMatches bs) \<inter> set (activeMatches bs) = {}"
    using one by (auto simp: proposedMatches_def activeMatches_def)
qed

lemma status_proposed: "match_status_str st = ''proposed'' \<longleftrightarrow> st = Proposed"
  by (cases st) simp_all

text \<open>What the page offers on a proposed match, the server does not refuse.\<close>

lemma incoming_not_refused:
  assumes "b \<in> set (proposedMatches (map (board_of_job upd) (listAvailableJobs usr d)))"
    and "distinct (map fst (matches d))"
  shows "safe_run refused (incoming_call W usr act (bm_id b)) d"
proof -
  obtain j where j: "j \<in> set (listAvailableJobs usr d)" "b = board_of_job upd j"
    and st: "m_status (snd (jb_match j)) = Proposed"
    using assms(1) by (auto simp: proposedMatches_def board_of_job_def status_proposed)
  have m: "findById (matches d) (bm_id b) = Some (snd (jb_match j))"
    using job_open(1) [OF j(1)] assms(2) by (simp add: findById_def j(2) board_of_job_def)
  show ?thesis
    using carrierAccept_safe [OF m job_open(2) [OF j(1)] st] carrierReject_safe [OF m job_open(2) [OF j(1)]]
    by (cases act) (auto intro!: safe_bindM never_retM)
qed

text \<open>The same for the workspace of a delivery, for a carrier who sees the match as it is.\<close>

lemma work_not_refused:
  assumes "fst (getMatchById mid usr d) = Inr m" and "m_carrier m = usr"
    and "work_offers (match_status_str (m_status m)) act"
  shows "safe_run refused (work_call W usr mid act) d"
proof -
  note m = fetched_match [OF assms(1), THEN conjunct1]
  show ?thesis
    using assms(3) carrierAccept_safe [OF m assms(2)] carrierReject_safe [OF m assms(2)]
      generatePickupOtp_safe [OF m assms(2)] generateDeliveryOtp_safe [OF m assms(2)]
    by (cases act) (auto simp: status_proposed intro!: safe_bindM never_retM)
qed

text \<open>A position is sent only while the map of the sender shows it.\<close>

lemma broadcast_is_shown: "shouldBroadcast st \<Longrightarrow> showTrackingMap st"
  by (auto simp: shouldBroadcast_def showTrackingMap_def MATCH_LOCATION_TRACKING_STATUSES_def)

section \<open>Earnings: sums\<close>

text \<open>Jobs are never over, so the page has no completed delivery and no average, whatever the carrier has done.\<close>

lemma jobs_never_completed:
  "completedMatches (map (board_of_job upd) (listAvailableJobs c s)) = []"
proof -
  have "match_status_str (m_status (bm_match (board_of_job upd j))) \<notin> set MATCH_COMPLETED_STATUSES"
    if "j \<in> set (listAvailableJobs c s)" for j
    using job_open(3) [OF that]
    by (cases "m_status (snd (jb_match j))") (simp_all add: board_of_job_def MATCH_COMPLETED_STATUSES_def)
  then show ?thesis by (simp add: completedMatches_def filter_empty_conv)
qed

lemma no_completed_deliveries:
  "me_completedCount (earnings_metrics xs (map (board_of_job upd) (listAvailableJobs c s))) = 0 \<and>
   me_averageCompletedPayout (earnings_metrics xs (map (board_of_job upd) (listAvailableJobs c s))) = 0"
  by (simp add: earnings_metrics_def Let_def jobs_never_completed)

text \<open>
  The routes count every pending match and every completed one; a delivered match whose payout is
  not among the transactions is both, and counted twice.
\<close>

lemma add_route_sums:
  "sum_list (map (\<lambda>(k, n, p). n) (add_route r pay acc)) = Suc (sum_list (map (\<lambda>(k, n, p). n) acc))"
  "sum_list (map (\<lambda>(k, n, p). p) (add_route r pay acc)) = pay + sum_list (map (\<lambda>(k, n, p). p) acc)"
  by (induction r pay acc rule: add_route.induct) auto

lemma fold_route_sums:
  "sum_list (map (\<lambda>(k, n, p). n) (fold (\<lambda>b. add_route (route_name b) (getMatchPayout b)) bs acc)) =
     length bs + sum_list (map (\<lambda>(k, n, p). n) acc)"
  "sum_list (map (\<lambda>(k, n, p). p) (fold (\<lambda>b. add_route (route_name b) (getMatchPayout b)) bs acc)) =
     sum_list (map getMatchPayout bs) + sum_list (map (\<lambda>(k, n, p). p) acc)"
  by (induction bs arbitrary: acc) (simp_all add: add_route_sums)

lemma route_sums:
  "sum_list (map (\<lambda>(k, n, p). n) (routeTotals (pendingMatches xs bs @ completedMatches bs))) =
     length (pendingMatches xs bs) + length (completedMatches bs)"
  "sum_list (map (\<lambda>(k, n, p). p) (routeTotals (pendingMatches xs bs @ completedMatches bs))) =
     sum_list (map getMatchPayout (pendingMatches xs bs)) + sum_list (map getMatchPayout (completedMatches bs))"
  using fold_route_sums [of "pendingMatches xs bs @ completedMatches bs" "[]"] by (simp_all add: routeTotals_def)

lemma delivered_counted_twice:
  assumes "b \<in> set (completedMatches bs)" and "bm_id b \<notin> set (releasedMatchIds xs)"
  shows "b \<in> set (pendingMatches xs bs)"
  using assms by (auto simp: completedMatches_def pendingMatches_def MATCH_COMPLETED_STATUSES_def)

text \<open>One line for each route.\<close>

lemma add_route_keys: "map fst (add_route r pay acc) = (if r \<in> set (map fst acc) then map fst acc else map fst acc @ [r])"
  by (induction r pay acc rule: add_route.induct) auto

lemma routes_distinct: "distinct (map fst (routeTotals bs))"
proof -
  have "distinct (map fst acc) \<Longrightarrow> distinct (map fst (fold (\<lambda>b. add_route (route_name b) (getMatchPayout b)) bs acc))" for acc
    by (induction bs arbitrary: acc) (simp_all add: add_route_keys)
  then show ?thesis by (simp add: routeTotals_def)
qed

text \<open>A payout that is neither released nor called off is pending: with no transaction yet, all of them are.\<close>

lemma all_booked_is_pending:
  "me_pendingPayout (earnings_metrics [] (map (board_of_job upd) (listAvailableJobs c s))) =
   me_bookedPayout (earnings_metrics [] (map (board_of_job upd) (listAvailableJobs c s)))"
proof -
  have "match_status_str (m_status (bm_match (board_of_job upd j))) \<notin> set [''cancelled'', ''disputed'']"
    if "j \<in> set (listAvailableJobs c s)" for j
    using job_open(3) [OF that] by (cases "m_status (snd (jb_match j))") (simp_all add: board_of_job_def)
  then have "pendingMatches [] (map (board_of_job upd) (listAvailableJobs c s)) = map (board_of_job upd) (listAvailableJobs c s)"
    by (simp add: pendingMatches_def releasedMatchIds_def)
  then show ?thesis by (simp add: earnings_metrics_def Let_def)
qed

end
