(* ===== verification/SignIn.thy ===== *)
theory SignIn
  imports SendWizard Sessions Navigation
begin

text \<open>
  The pages of the sign-in, \<open>Auth/Login.tsx\<close> and \<open>Auth/Register.tsx\<close> of both portals, in front of the
  service: a page sends its requests through \<open>handle\<close> and keeps the answer in the store of the
  session.
\<close>

section \<open>Requests and answers\<close>

definition session_user_json :: "session_user \<Rightarrow> json" where
  "session_user_json u =
     JObj [(''_id'', JStr (su_id u)), (''name'', JStr (su_name u)), (''email'', JStr (su_email u)),
       (''phone'', JStr (su_phone u)), (''phoneVerified'', JBool (su_phoneVerified u)),
       (''emailVerified'', JBool (su_emailVerified u)), (''role'', JArr (map (JStr \<circ> role_str) (su_role u))),
       (''rating'', JObj [(''average'', JNum (fst (su_rating u))), (''count'', JNum (of_int (snd (su_rating u))))]),
       (''wallet'', JObj [(''balance'', JNum (of_int (fst (su_wallet u)))), (''escrowHeld'', JNum (of_int (snd (su_wallet u))))]),
       (''profilePhoto'', jopt JStr (su_profilePhoto u)), (''totalDeliveries'', JNum (of_int (su_totalDeliveries u))),
       (''totalTripsAsCarrier'', JNum (of_int (su_totalTripsAsCarrier u)))]"

text \<open>A call of \<open>authApi\<close> by a browser at an address, with the token of the store if there is one.\<close>

definition auth_request :: "string option \<Rightarrow> auth_state \<Rightarrow> json \<Rightarrow> request" where
  "auth_request ip a body =
     \<lparr> rq_authorization = map_option bearer (as_accessToken a), rq_internalToken = None, rq_signature = None,
       rq_ip = ip, rq_body = body, rq_rawBody = [], rq_query = JUndef \<rparr>"

definition call_auth ::
  "world \<Rightarrow> api_env \<Rightarrow> string option \<Rightarrow> auth_route \<Rightarrow> json \<Rightarrow> auth_state \<Rightarrow> db \<Rightarrow> api_response \<times> db" where
  "call_auth W A ip r body a d = handle W A (AuthRoute r) (auth_request ip a body) d"

definition is_success :: "api_response \<Rightarrow> bool" where
  "is_success r \<longleftrightarrow> 200 \<le> ap_status r \<and> ap_status r < 300"

text \<open>\<open>setAuth(response.data.data)\<close>.\<close>

definition accept_session :: "api_response \<Rightarrow> auth_state \<Rightarrow> auth_state" where
  "accept_session r a =
     (case ap_data r of
        DTokens t \<Rightarrow> setAuth (Some (session_user_json (tk_user t))) (Some (tk_accessToken t)) (Some (tk_refreshToken t)) a
      | _ \<Rightarrow> a)"

section \<open>Signing in\<close>

datatype login_step = PhoneStep | OtpStep

record login_page =
  lp_step :: login_step
  lp_phone :: string
  lp_fieldPhone :: string
  lp_fieldOtp :: string
  lp_goto :: "string option"
  lp_funnel :: "string list"

definition login_start :: login_page where
  "login_start = \<lparr> lp_step = PhoneStep, lp_phone = [], lp_fieldPhone = [], lp_fieldOtp = [], lp_goto = None, lp_funnel = [] \<rparr>"

type_synonym 'p front = "'p \<times> auth_state \<times> db"

text \<open>\<open>sendOtpMutation\<close>: only a success changes the page.\<close>

definition login_send_otp :: "world \<Rightarrow> api_env \<Rightarrow> string option \<Rightarrow> string \<Rightarrow> login_page front \<Rightarrow> login_page front" where
  "login_send_otp W A ip phone = (\<lambda>(p, a, d).
     let (r, d') = call_auth W A ip SendOtpE (JObj [(''phone'', JStr phone)]) a d in
     (if is_success r then p\<lparr>lp_step := OtpStep, lp_funnel := lp_funnel p @ [''login_otp_requested'']\<rparr> else p, a, d'))"

definition login_values :: "login_page \<Rightarrow> json" where
  "login_values p = JObj [(''phone'', JStr (lp_fieldPhone p)), (''otp'', JStr (lp_fieldOtp p))]"

text \<open>\<open>handleSubmit\<close> calls the mutation when the form passes its schema; the phone is the one the OTP was sent to.\<close>

definition login_submit :: "world \<Rightarrow> api_env \<Rightarrow> string option \<Rightarrow> login_page front \<Rightarrow> login_page front" where
  "login_submit W A ip = (\<lambda>(p, a, d).
     case zparse W form_loginSchema (login_values p) of
       None \<Rightarrow> (p, a, d)
     | Some v \<Rightarrow>
         let (r, d') = call_auth W A ip LoginE (JObj [(''phone'', JStr (lp_phone p)), (''otp'', jget v ''otp'')]) a d in
         if is_success r
         then (p\<lparr>lp_goto := Some ''/dashboard'', lp_funnel := lp_funnel p @ [''login_completed'']\<rparr>, accept_session r a, d')
         else (p, a, d'))"

datatype login_event = TypePhone string | TypeOtp string | PressSend | PressResend | PressChange | PressSignIn

text \<open>The phone and its button are on the first step, the rest on the second.\<close>

fun login_react :: "world \<Rightarrow> api_env \<Rightarrow> string option \<Rightarrow> login_event \<Rightarrow> login_page front \<Rightarrow> login_page front" where
  "login_react W A ip (TypePhone t) (p, a, d) =
     (if lp_step p = PhoneStep then (p\<lparr>lp_fieldPhone := t\<rparr>, a, d) else (p, a, d))"
| "login_react W A ip (TypeOtp t) (p, a, d) =
     (if lp_step p = OtpStep then (p\<lparr>lp_fieldOtp := take 6 t\<rparr>, a, d) else (p, a, d))"
| "login_react W A ip PressSend (p, a, d) =
     (if lp_step p = PhoneStep then login_send_otp W A ip (lp_fieldPhone p) (p\<lparr>lp_phone := lp_fieldPhone p\<rparr>, a, d) else (p, a, d))"
| "login_react W A ip PressResend (p, a, d) =
     (if lp_step p = OtpStep then login_send_otp W A ip (lp_phone p) (p, a, d) else (p, a, d))"
| "login_react W A ip PressChange (p, a, d) =
     (if lp_step p = OtpStep then (p\<lparr>lp_step := PhoneStep\<rparr>, a, d) else (p, a, d))"
| "login_react W A ip PressSignIn (p, a, d) =
     (if lp_step p = OtpStep then login_submit W A ip (p, a, d) else (p, a, d))"

section \<open>Registering\<close>

record register_page =
  rg_name :: string
  rg_email :: string
  rg_phone :: string
  rg_otp :: string
  rg_goto :: "string option"
  rg_funnel :: "string list"

definition register_start :: register_page where
  "register_start = \<lparr> rg_name = [], rg_email = [], rg_phone = [], rg_otp = [], rg_goto = None, rg_funnel = [] \<rparr>"

definition register_values :: "register_page \<Rightarrow> json" where
  "register_values p =
     JObj [(''name'', JStr (rg_name p)), (''email'', JStr (rg_email p)), (''phone'', JStr (rg_phone p)), (''otp'', JStr (rg_otp p))]"

definition register_send_otp :: "world \<Rightarrow> api_env \<Rightarrow> string option \<Rightarrow> register_page front \<Rightarrow> register_page front" where
  "register_send_otp W A ip = (\<lambda>(p, a, d).
     let (r, d') = call_auth W A ip SendOtpE (JObj [(''phone'', JStr (rg_phone p))]) a d in
     (if is_success r then p\<lparr>rg_funnel := rg_funnel p @ [''signup_otp_requested'']\<rparr> else p, a, d'))"

definition register_submit :: "world \<Rightarrow> api_env \<Rightarrow> string option \<Rightarrow> register_page front \<Rightarrow> register_page front" where
  "register_submit W A ip = (\<lambda>(p, a, d).
     case zparse W form_registerSchema (register_values p) of
       None \<Rightarrow> (p, a, d)
     | Some v \<Rightarrow>
         let (r, d') = call_auth W A ip RegisterE v a d in
         if is_success r
         then (p\<lparr>rg_goto := Some ''/dashboard'', rg_funnel := rg_funnel p @ [''signup_completed'']\<rparr>, accept_session r a, d')
         else (p, a, d'))"

section \<open>What the server takes\<close>

text \<open>The forms ask for at least ten characters of a phone and the server for at most fifteen as well.\<close>

lemma login_form_crosses:
  assumes "zparse W form_loginSchema (login_values p) = Some v"
  shows "zparse W loginSchema (JObj [(''phone'', jget v ''phone''), (''otp'', jget v ''otp'')]) \<noteq> None \<longleftrightarrow>
     length (lp_fieldPhone p) \<le> 15"
  using assms
  by (auto simp: form_loginSchema_def loginSchema_def phoneSchema_def login_values_def text_ok_def split: if_splits)

lemma register_form_crosses:
  assumes "zparse W form_registerSchema (register_values p) = Some v"
  shows "zparse W registerSchema v \<noteq> None \<longleftrightarrow> length (rg_phone p) \<le> 15"
  using assms
  by (auto simp: form_registerSchema_def registerSchema_def phoneSchema_def register_values_def text_ok_def split: if_splits)

section \<open>The session that a page opens\<close>

lemma plain_body [simp]:
  "sanitizeNoSql (JObj [(''phone'', JStr p), (''otp'', JStr t)]) = JObj [(''phone'', JStr p), (''otp'', JStr t)]"
  by (simp add: operator_key_def)

lemma guarded_login:
  assumes "run_guards W A now rq (route_guards (AuthRoute LoginE)) (None, JObj [(''phone'', JStr p), (''otp'', JStr t)]) = Inr (u, b)"
  shows "jget b ''phone'' = JStr p" "jget b ''otp'' = JStr t"
  using assms
  by (auto simp: validate_def loginSchema_def phoneSchema_def text_ok_def split: if_splits option.splits sum.splits)

lemma login_answer:
  assumes "call_auth W A ip LoginE (JObj [(''phone'', JStr p), (''otp'', JStr t)]) a d = (r, d')" and "ap_data r = DTokens tk"
  shows "verifyOtpLogin W p t d = (Inr tk, d')"
proof -
  define rq where "rq = auth_request ip a (JObj [(''phone'', JStr p), (''otp'', JStr t)])"
  have body: "sanitizeNoSql (rq_body rq) = JObj [(''phone'', JStr p), (''otp'', JStr t)]"
    by (simp only: rq_def auth_request_def request.simps plain_body)
  have run: "handle W A (AuthRoute LoginE) rq d = (r, d')"
    using assms(1) by (simp only: call_auth_def rq_def)
  show ?thesis
  proof (cases "run_guards W A (clock d) rq (route_guards (AuthRoute LoginE)) (None, JObj [(''phone'', JStr p), (''otp'', JStr t)])")
    case (Inl e)
    then have "handle W A (AuthRoute LoginE) rq d = (failure W e, d)"
      by (simp only: handle_def body sum.case)
    with run assms(2) show ?thesis by (auto simp: failure_def Let_def)
  next
    case (Inr ub)
    obtain u b where ub: "ub = (u, b)" by (cases ub)
    note jb = guarded_login [OF Inr [unfolded ub]]
    have "handle W A (AuthRoute LoginE) rq d =
        (case verifyOtpLogin W p t d of (Inl e, s') \<Rightarrow> (failure W e, s')
         | (Inr tk, s') \<Rightarrow> (\<lparr> ap_status = 200, ap_message = ''Login successful'', ap_data = DTokens tk \<rparr>, s'))"
      using jb by (cases "verifyOtpLogin W p t d")
        (auto simp: handle_def body Inr ub answerM_def run_simps simp del: run_guards.simps route_guards.simps split: sum.splits)
    with run assms(2) show ?thesis
      by (auto simp: failure_def Let_def split: prod.splits sum.splits)
  qed
qed

lemma login_tokens:
  assumes "verifyOtpLogin W p t d = (Inr tk, d')" and "distinct (map fst (users d))"
  shows "otp_correct W (otpKeys_phone p) t d"
    and "\<exists>k u. findById (users d) k = Some u \<and> u_phone u = p \<and> u_isActive u \<and>
      tk_accessToken tk = jwtSign W (clock d) (JWT_ACCESS_SECRET W) (token_payload k u)"
proof -
  obtain r s1 where v: "verifyOTP W (otpKeys_phone p) t d = (r, s1)" by fastforce
  have us: "users s1 = users d" "clock s1 = clock d"
    using verifyOTP_frame [of W "otpKeys_phone p" t d] v by simp_all
  obtain b where r: "r = Inr b"
    using assms(1) v by (cases r) (auto simp: verifyOtpLogin_def run_simps)
  with v show "otp_correct W (otpKeys_phone p) t d" by (simp add: verifyOTP_correct)
  obtain k u where f: "findOne (\<lambda>u. u_phone u = p \<and> u_isActive u) (users d) = Some (k, u)"
    using assms v r us by (auto simp: verifyOtpLogin_def run_simps split: option.splits)
  note fu = findOne_by_id [OF f assms(2)]
  have "issueTokens W k s1 = (Inr tk, d')"
    using assms(1) v r us f by (simp add: verifyOtpLogin_def run_simps)
  then show "\<exists>k u. findById (users d) k = Some u \<and> u_phone u = p \<and> u_isActive u \<and>
      tk_accessToken tk = jwtSign W (clock d) (JWT_ACCESS_SECRET W) (token_payload k u)"
    using fu us by (intro exI [of _ k] exI [of _ u]) (auto simp: issueTokens_def Let_def)
qed

text \<open>
  A press of \<open>Sign in\<close> that changes the session has shown the server the OTP of the phone it was sent
  to, and the new session is that of an active user with this phone.
\<close>

lemma sign_in_is_checked:
  assumes "login_submit W A ip (p, a, d) = (p', a', d')" and "a' \<noteq> a" and "distinct (map fst (users d))"
  shows "otp_correct W (otpKeys_phone (lp_phone p)) (lp_fieldOtp p) d \<and>
    (\<exists>k u. findById (users d) k = Some u \<and> u_phone u = lp_phone p \<and> u_isActive u \<and>
       as_accessToken a' = Some (jwtSign W (clock d) (JWT_ACCESS_SECRET W) (token_payload k u)))"
proof -
  obtain v where v: "zparse W form_loginSchema (login_values p) = Some v"
    using assms by (auto simp: login_submit_def split: option.splits)
  then have otp: "jget v ''otp'' = JStr (lp_fieldOtp p)"
    by (auto simp: form_loginSchema_def login_values_def text_ok_def split: if_splits)
  obtain r e where r: "call_auth W A ip LoginE (JObj [(''phone'', JStr (lp_phone p)), (''otp'', JStr (lp_fieldOtp p))]) a d = (r, e)"
    by fastforce
  then have a': "a' = accept_session r a" "d' = e"
    using assms v otp by (auto simp: login_submit_def Let_def split: if_splits)
  then obtain tk where tk: "ap_data r = DTokens tk"
    using assms(2) by (auto simp: accept_session_def split: answer.splits)
  note l = login_answer [OF r tk]
  have "as_accessToken a' = Some (tk_accessToken tk)" by (simp add: a' accept_session_def tk setAuth_def)
  with login_tokens [OF l assms(3)] show ?thesis by auto
qed

text \<open>
  Until the user changes the phone, the OTP is sent to the phone that is signed in with: what is typed
  meanwhile does not matter.
\<close>

lemma typed_phone_is_fixed:
  assumes "lp_step p = OtpStep"
  shows "lp_phone (fst (login_react W A ip e (p, a, d))) = lp_phone p"
  using assms
  by (cases e) (auto simp: login_send_otp_def login_submit_def Let_def split: option.splits prod.splits)

text \<open>
  Signing in with the phone of nobody uses the OTP up, so the registration that the answer asks for
  needs another one.
\<close>

lemma unknown_phone_spends_otp:
  assumes "otp_correct W (otpKeys_phone p) t d" and "findOne (\<lambda>u. u_phone u = p \<and> u_isActive u) (users d) = None"
  shows "fst (verifyOtpLogin W p t d) = Inl (ApiError 404 ''User not found. Please register.'')"
    and "\<not> otp_correct W (otpKeys_phone p) t (snd (verifyOtpLogin W p t d))"
proof -
  obtain r s1 where v: "verifyOTP W (otpKeys_phone p) t d = (r, s1)" by fastforce
  have us: "users s1 = users d" using verifyOTP_frame(1) [of W "otpKeys_phone p" t d] v by simp
  from v have "r = Inr True \<and> redis_get (otp_key (otpKeys_phone p)) s1 = None"
  proof (cases rule: verifyOTP_cases)
    case (refused e)
    with assms(1) v show ?thesis
      by (auto simp: otp_correct_def verifyOTP_def Let_def split: option.splits redis_value.splits if_splits)
  next
    case (wrong e)
    with assms(1) show ?thesis by (auto simp: otp_correct_def)
  qed simp
  with v us assms(2) show "fst (verifyOtpLogin W p t d) = Inl (ApiError 404 ''User not found. Please register.'')"
    and "\<not> otp_correct W (otpKeys_phone p) t (snd (verifyOtpLogin W p t d))"
    by (simp_all add: verifyOtpLogin_def run_simps otp_correct_def)
qed

text \<open>A new carrier has no role of a carrier: the jobs are refused to the first session.\<close>

lemma registered_is_no_carrier:
  "requireRole ''carrier'' (Some (auth_user_of (token_payload k (registered_user name email phone now)))) =
     Some (ApiError 403 ''Forbidden'')"
  by (simp add: requireRole_def auth_user_of_def token_payload_def roles_include_def registered_user_def new_user_def)

end
