(* ===== verification/Spec2Isabelle.thy ===== *)
theory Spec2Isabelle
  imports Widgets Accounts Processes Runs SideRoutes PortalRuns Boards SignIn
begin

text \<open>
  HopDrop matches people who travel (carriers) with people who want a parcel carried (senders).
  This library models the TypeScript of the repository from the request of a browser to the
  collections of MongoDB and on to the sockets: the service under \<open>backend/src\<close>, the Kafka
  consumers and the realtime gateway under \<open>services\<close>, the parts of \<open>shared/src\<close> that keep
  state, and the pages of the two portals that send a request.  It proves the properties that make them correct.

  The core and its theories.  A carrier posts a trip (\<open>trip.service.ts\<close>, theory \<open>Trips\<close>) and
  pays a safety deposit (\<open>payment.service.ts\<close>, theory \<open>Payments\<close>).  A sender creates a delivery
  request (\<open>delivery.service.ts\<close>, theory \<open>Deliveries\<close>), quoted by \<open>utils/pricing.ts\<close> (theory
  \<open>Pricing\<close>); \<open>pricing.service.ts\<close> (theory \<open>PricingService\<close>) gives estimates and guidance.  The
  matcher (\<open>matching.service.ts\<close>, theory \<open>Matching\<close>) proposes matches; \<open>match.service.ts\<close>
  (theory \<open>Matches\<close>) takes a match through its life: acceptance, confirmation, the two one-time
  passwords (\<open>otp.service.ts\<close>, theory \<open>Otp\<close>), delivery, rating, dispute.  Money is held and
  released by \<open>escrow.service.ts\<close> (theory \<open>Escrow\<close>) inside \<open>utils/mongoTransactions.ts\<close> (theory
  \<open>Transactions\<close>).  \<open>utils/distributedLock.ts\<close> is theory \<open>Lock\<close>, \<open>config/redis.ts\<close> theory
  \<open>Redis\<close>, the outbox with its relay (\<open>outbox.service.ts\<close>, \<open>outboxRelay.service.ts\<close>,
  \<open>events/domainEvents.ts\<close>) theory \<open>Outbox\<close>, \<open>notification.service.ts\<close> and
  \<open>realtime.service.ts\<close> theory \<open>Notify\<close>, the background workers \<open>queues/slaRematchQueue.ts\<close>,
  \<open>queues/paymentReconcilerQueue.ts\<close> and \<open>queues/otpCleanup.ts\<close> theory \<open>Workers\<close>; the other
  queue processors stand with the service they call (\<open>payout_job\<close> in \<open>Matches\<close>, \<open>match_job\<close> in
  \<open>Matching\<close>, \<open>reminder_job\<close> in \<open>Trips\<close>).  \<open>utils/sanitize.ts\<close> is in \<open>JsString\<close>.

  The API around the core.  \<open>Users\<close> and \<open>Auth\<close> have \<open>user.service.ts\<close>, \<open>auth.service.ts\<close>,
  \<open>googleAuth.service.ts\<close> and the middleware that checks tokens and roles; \<open>Schemas\<close> the zod
  schemas of \<open>validators\<close> as values of one type with one parser, \<open>Config\<close> the schema of
  \<open>config/env.ts\<close> and the origins of CORS, \<open>Http\<close> the rest of the \<open>middleware\<close>; \<open>Decode\<close> reads a
  validated body as the record that a service expects.  \<open>Api\<close> has one datatype of endpoints, the
  middleware of each as a list of guards in the order of its router (\<open>routes\<close>), and the
  \<open>controllers\<close>; \<open>handle\<close> runs a request: sanitising, guards, controller, error handler.
  \<open>Frames\<close> proves what each service leaves alone, \<open>System\<close> puts the requests and the background
  jobs into one transition relation (\<open>service\<close>) and proves its invariant, \<open>Sessions\<close> says which
  requests can give a session and which need one.  \<open>Places\<close> is the search for places of
  \<open>maps.service.ts\<close> (normal forms, candidates, clicks, scores, ranking), \<open>RouteMap\<close> its distances and
  geometries of routes with \<open>routingSearch.service.ts\<close>, and \<open>Reports\<close> the reports of
  \<open>job.service.ts\<close> and \<open>analytics.service.ts\<close>; \<open>SideRoutes\<close> has their routes and the health checks, behind the guards of
  \<open>Api\<close> but on the state of the search and the stored events.

  Around the service.  \<open>Server\<close> is the start and the shutdown of the process (\<open>server.ts\<close>,
  \<open>config/db.ts\<close>), \<open>Backbone\<close> the choice of its Redis clients and queues with the scan of the in-memory
  one (\<open>config/redis.ts\<close>) and the shared Kafka producer (\<open>kafka.service.ts\<close>), \<open>Processes\<close> the bootstrap,
  the probes, the signals and the shutdown of the four consumers, and the metrics and trace context of
  \<open>observability\<close>.  \<open>Consumers\<close> has the four Kafka consumers (\<open>notification-consumer\<close>,
  \<open>matching-orchestrator\<close>, \<open>search-indexer\<close>, \<open>analytics-pipeline\<close>) with the JSON that the relay
  sends them; \<open>Realtime\<close> the two socket servers (\<open>config/socket.ts\<close> and \<open>realtime-gateway\<close>), as a
  run of sockets and messages and as a cluster of instances that share a channel.  \<open>Client\<close> is the
  portals' API client with its shared token refresh (\<open>shared/src/api\<close>), the persisted session
  (\<open>shared/src/auth\<close>) and the state of the socket; \<open>Status\<close> the presentation of a match's status
  (\<open>shared/src/status\<close>).

  The pages of the portals, each as a record of its state with the handlers of its events.
  \<open>Cities\<close> is the catalogue of \<open>shared/src/maps/indianCities.ts\<close> with its search, \<open>Autocomplete\<close> the
  field that searches for a city while the user types (\<open>RouteAutocomplete.tsx\<close>), \<open>RouteMap\<close> also the map
  of a route (\<open>RoutePreviewMap.tsx\<close>).  \<open>Checkout\<close> is \<open>RazorpayButton.tsx\<close>; \<open>TripWizard\<close> the four pages
  that post a trip (\<open>PostTrip.tsx\<close>), \<open>SendWizard\<close> the three pages that send a package
  (\<open>SendPackage.tsx\<close>) and the form schemas of \<open>validators/forms.ts\<close>, \<open>CarrierSetup\<close> the page of that
  name, \<open>MatchPage\<close> the pages of a match (\<open>MatchDetail.tsx\<close>, \<open>TrackDelivery.tsx\<close>), \<open>Boards\<close> the lists
  (\<open>MyShipments.tsx\<close>, \<open>BrowseTrips.tsx\<close>, \<open>IncomingRequests.tsx\<close>, \<open>Earnings.tsx\<close>, \<open>ActiveDelivery.tsx\<close>) and
  \<open>SignIn\<close> the pages of the sign-in (\<open>Auth/Login.tsx\<close>, \<open>Auth/Register.tsx\<close>).  \<open>Navigation\<close> has the
  routes of both \<open>App.tsx\<close> with their guards, the links and the session of demo mode.  \<open>Widgets\<close> are the
  parts with a state of their own that pages share: the socket of a page (\<open>shared/src/realtime\<close>), the
  tracking map, the loader of the map script and the rating form.  \<open>Accounts\<close> are the pages about an
  account (\<open>Profile.tsx\<close>, \<open>Wallet.tsx\<close>, \<open>MyTrips.tsx\<close>, \<open>Dashboard.tsx\<close>), the start pages and the admin
  portal.  What a page sends is
  handed to the schemas and the services above, so that a theorem can speak of both sides.
  \<open>Telemetry\<close> has \<open>shared/src/telemetry\<close> and the dwell tracker; \<open>PortalRuns\<close> concrete runs of the pages.

  Foundations.  \<open>Prelude\<close> has JSON values and JavaScript's truthiness, the error values of the
  service (\<open>js_error\<close>, after \<open>utils/ApiError.ts\<close>), the handler type (a state function returning an
  error or a value, so that every \<open>throw\<close> and early return is a branch) with its combinators, and
  collections of documents as association lists in insertion order with the operations of mongoose
  that the code uses.  \<open>JsNumber\<close> has Numbers: rationals with every arithmetic step rounded to 53
  bits (\<open>fl\<close>), \<open>Math.round\<close> and \<open>toFixed\<close>.  \<open>JsString\<close> has the string operations.  \<open>Models\<close> has
  one record per schema of \<open>models\<close>, one datatype per enum, the state \<open>db\<close> (collections, Redis,
  published messages, queued jobs, clock) and the \<open>world\<close>: the configuration read from
  \<open>config/env.ts\<close> and what is not under \<open>src\<close>, as parameters.  \<open>Lifecycle\<close> states the abstract
  table of the life of a match and proves that the handlers refine it; \<open>Samples\<close> and \<open>Runs\<close> have
  the concrete worlds, data and runs of the witnesses.

  Modelling decisions.
  A handler runs as one step, and the clock stands still in it; interleavings are modelled where
  the code is about them: \<open>Lock\<close> has a step relation of processes that compete for a lock, the
  client and the gateways are event systems, and the escrow theorems speak of repeated and retried
  runs.  A handler that throws keeps the writes it has made, as MongoDB does, except inside
  \<open>runInTransaction\<close>, where an abort restores the collections.  \<open>Promise.all\<close> over handlers runs
  them in the order of the list.  A \<open>save()\<close> of a document writes the fields the handler changed
  into the stored document.  Amounts of money are whole paise and integers; weights, rates and
  ratings are Numbers.  A Redis key with an expiry is visible as long as the clock is below it.
  Dates are milliseconds.  Random values and fresh identifiers are functions of a counter in the
  state, so that each draw may be any value.

  Parameters.  bcrypt, HMAC, AES, JSON Web Tokens, Google's verification, the SMS provider,
  \<open>JSON.parse\<close> of a webhook, zod's syntax of emails and URLs and its messages, the store of the
  rate limiters, Razorpay's orders, the routing-search service, Rapido, Kafka and the MongoDB
  server (whether a session starts, what a commit answers and whether it was applied) are
  arguments of the model.  What a theorem needs of them is a named hypothesis:
  \<open>commits_atomically\<close> (a failed commit was not applied), \<open>tx_succeeds\<close> (sessions start and
  commits succeed), \<open>session_ok\<close>, \<open>bcrypt_truncates\<close> (bcrypt reads 72 bytes); the sample worlds
  satisfy them.  In the pages, the answers of the server, of Razorpay and of the browser's storage are
  events or fields of a record of the surroundings; the functions of \<open>Math\<close> that are not exact are the
  fields of \<open>math\<close>, of which \<open>math_ok\<close> states what is documented.

  Interfaces.  \<open>doc_store\<close> (the laws of a collection) is interpreted on the operations of
  \<open>Prelude\<close>; \<open>rounding\<close> on \<open>fl\<close>; \<open>silent\<close> and its extension \<open>announcer\<close> (an announcement leaves
  business data alone and only appends pending events) on the outbox, the notifications and the
  realtime messages; \<open>kv_store\<close> on Redis and on the in-memory \<open>MockRedisEmitter\<close>; \<open>kept_run\<close> (what
  every admitted event keeps, every run keeps) on the handlers of a match, the cluster of gateways,
  the processes, the shared Kafka producer, the socket of a page and the pages.

  What the lemmas show.  The properties C1 to C40 below: the life of a match (only the sender's
  OTP delivers; the handlers refine the table; the invariant of the whole service), sessions and
  requests (a session only by an identity, nothing without a token, only bodies of their schema),
  OTPs (three guesses, one use), escrow (atomic holds, exact release), transactions
  (all or nothing, bounded retries), matching (only fitting trips, one match per pair), the lock
  (mutual exclusion within its time to live), prices (bounds and monotony through every rounding),
  the outbox (claims), payments, trips and requests, messages (who they reach, that
  they arrive once, that both ways of a notification agree), the client (every call is settled), and
  the pages (a page never offers what the server refuses; a trip that reaches the last page is
  accepted; what the server takes of the sender's form; the field shows the answer to the last text;
  the search is a stable sort; a payment is reported whatever its verification says; any code
  verifies an identity).  Further theorems of this file and of the others are not
  numbered, among them those of \<open>Places\<close> (normalising is idempotent, duplicates keep their first
  source, a selection is counted where the next search reads it, scores and lengths are bounded),
  of \<open>RouteMap\<close> (distances are symmetric and bounded and the page computes them as the server does; a
  route is read back from the cache for a day), of \<open>Telemetry\<close>, of \<open>Reports\<close> and of \<open>SideRoutes\<close> (no
  such route changes a document; a cached listing is its carrier's own), of \<open>Navigation\<close> (one redirection
  is enough, guarded pages need a session, links between the portals resolve, the wait for the demo
  session ends), of \<open>Boards\<close> (counts, orders and sums of the lists; what is offered is not refused) and of
  \<open>SignIn\<close> (a session is that of the phone whose OTP was shown), of \<open>Widgets\<close> (which socket is open, what
  rating is accepted), of \<open>Accounts\<close> (what the profile page can save; a top-up adds nothing; the bars of
  the admin table fit), of \<open>Backbone\<close> (one connection to Kafka as long as nobody disconnects, and every
  message sent, refused or waiting exactly once; what a scan finds) and of \<open>Processes\<close> (whoever is
  answered is answered by a process that has subscribed to every topic).  Some state what the code does against its intention (a dispute reopens the request; a
  pickup OTP in any status; a doubled hold after an unknown commit; a replayed deposit order; a
  rotated token that is still accepted; a gateway that lets anybody into the room of a match; a
  payment that is reported although its signature was refused; the statistics of a route that has been
  left; links and boards that cannot work; a sign-out that is undone; a socket that stays closed; a profile
  that cannot be saved; a consumer that is ready after it has been disconnected).

  Bounds.  The retry loop of a transaction has five attempts and one run without a session
  (\<open>tx_loop\<close> recurses on the attempts left, so it is total); a claim of the outbox recurses on its
  limit; an OTP has three attempts and lives ten minutes; a lock lives ten seconds; a call of the
  client is sent at most twice.  No definition uses fuel.

  Not modelled.  Counters, logging and the set-up of tracing, which change no state that the program
  reads; the TTL deletions of MongoDB; the texts of the \<open>insights\<close> of the carrier guidance; the pages that
  no route shows; all markup, drawings and emoji, which is most of what is left of the portals; seeds and
  test scripts; and the programs in Rust and Python.
\<close>

section \<open>The life of a match\<close>

text \<open>
  C1: A match becomes delivered in one way only: its own sender submits a delivery OTP that is
  still in Redis, has attempts left and matches the stored hash.
\<close>

theorem delivered_only_by_senders_otp:
  assumes "findById (matches s) mid = Some m" "m_status m \<noteq> Delivered"
    and "findById (matches (exec W op s)) mid = Some m'" "m_status m' = Delivered"
  shows "\<exists>otp. op = VerifyDeliveryOtp mid (m_sender m) otp \<and>
     (\<exists>r. redis_get (delivery_key mid) s = Some (RedisOtp r) \<and>
        otp_attempts r < MAX_ATTEMPTS \<and> bcryptCompare W otp (otp_hash r))"
  using assms by (rule delivered_by_otp)

lemma sample_verifies:
  "\<exists>s1. verifyOTP sample_world (otpKeys_delivery ''m1'') ''123456'' (sample_db st) = (Inr True, s1)"
  using sample_finds(12) [of st]
  by (simp add: verifyOTP_def MAX_ATTEMPTS_def delivery_key_def Let_def del: sample_finds)

lemma sample_delivery:
  "findById (matches (exec sample_world (VerifyDeliveryOtp ''m1'' ''sam'' ''123456'') (sample_db DeliveryPending))) ''m1'' =
     Some (delivered_doc 1000 ''sam'' (sample_match DeliveryPending))"
  using sample_verifies [of DeliveryPending] verifyDelivery_accepted(1) [of "sample_db DeliveryPending" "''m1''"]
  by auto

theorem delivered_only_by_senders_otp_witness:
  "\<exists>otp. VerifyDeliveryOtp ''m1'' ''sam'' ''123456'' = VerifyDeliveryOtp ''m1'' ''sam'' otp \<and>
     (\<exists>r. redis_get (delivery_key ''m1'') (sample_db DeliveryPending) = Some (RedisOtp r) \<and>
        otp_attempts r < MAX_ATTEMPTS \<and> bcryptCompare sample_world otp (otp_hash r))"
  using delivered_only_by_senders_otp [of "sample_db DeliveryPending" "''m1''" "sample_match DeliveryPending"
      sample_world "VerifyDeliveryOtp ''m1'' ''sam'' ''123456''", OF _ _ sample_delivery]
  by (simp add: delivered_doc_def Let_def)

text \<open>
  C2: Every handler of match.service refines the table of the life of a match: it touches only
  the match it is called for, keeps its parties, its trip, its request and its price, only
  appends to its timeline, and changes its status, if at all, as the table allows for the caller.
\<close>

theorem handlers_follow_the_table: "follows (allowed op) (op_match op) s (exec W op s)"
  by (rule exec_follows)

text \<open>
  C3: In every state that the service reaches, through requests with any answers of the
  middleware, background jobs run at any time and waiting: a match in custody or delivered has a
  verified pickup on its timeline; no trip and request have two matches; no two accounts share an
  email or a phone; and an account above the basic tier has a verified identity, on the highest
  also a way to be paid.
\<close>

theorem service_invariant:
  assumes "service W s"
  shows "(\<forall>k m. findById (matches s) k = Some m \<longrightarrow> m_status m \<in> {PickedUp, InTransit, DeliveryPending, Delivered} \<longrightarrow>
        EvPickupVerified \<in> te_event ` set (m_timeline m)) \<and>
     (\<forall>k m k' m'. findById (matches s) k = Some m \<longrightarrow> findById (matches s) k' = Some m' \<longrightarrow>
        m_trip m = m_trip m' \<longrightarrow> m_deliveryRequest m = m_deliveryRequest m' \<longrightarrow> k = k') \<and>
     (\<forall>k u k' u'. findById (users s) k = Some u \<longrightarrow> findById (users s) k' = Some u' \<longrightarrow>
        u_email u = u_email u' \<or> u_phone u = u_phone u' \<longrightarrow> k = k') \<and>
     (\<forall>k u. findById (users s) k = Some u \<longrightarrow>
        (u_kycTier u \<noteq> Tier1Basic \<longrightarrow> u_aadhaarVerified u \<or> u_governmentIdVerified u) \<and>
        (u_kycTier u = Tier3Pro \<longrightarrow> truthy_str (u_payoutUpi u) \<or> pb_verified (u_payoutBank u)))"
proof -
  have ok: "journey s" "one_match s" "unique_contacts s" "kyc_sound s"
    using service_sound [OF assms] by (simp_all add: service_ok_def)
  have "(u_kycTier u \<noteq> Tier1Basic \<longrightarrow> u_aadhaarVerified u \<or> u_governmentIdVerified u) \<and>
      (u_kycTier u = Tier3Pro \<longrightarrow> truthy_str (u_payoutUpi u) \<or> pb_verified (u_payoutBank u))"
    if "findById (users s) k = Some u" for k u
    using kyc_soundD [OF ok(4) that]
    by (cases "u_kycTier u") (auto simp: kyc_ok_def has_identity_def has_payout_def)
  moreover have "EvPickupVerified \<in> te_event ` set (m_timeline m)"
    if "findById (matches s) k = Some m" "m_status m \<in> {PickedUp, InTransit, DeliveryPending, Delivered}" for k m
    using ok(1) that by (auto simp: journey_def after_pickup_def pickup_verified_def)
  ultimately show ?thesis
    using ok(2) unique_contactsD [OF ok(3)] unfolding one_match_def by blast
qed

theorem service_invariant_witness:
  "\<not> (\<exists>k m. findById (matches (snd (handle sample_world sample_env (AuthRoute VerifyOtpE) (sample_rq login_body) (empty_db 0)))) k = Some m \<and>
      m_status m = PickedUp \<and> EvPickupVerified \<notin> te_event ` set (m_timeline m))"
  using service_invariant [OF service.request [OF service.start [of sample_world 0], of sample_env "AuthRoute VerifyOtpE" "sample_rq login_body"]]
  by blast

text \<open>
  The journey invariant is kept by every handler: a match in custody or delivered has a
  verified pickup on its timeline, and so has every match with a delivery OTP.
\<close>

theorem no_delivery_without_pickup: "journey s \<Longrightarrow> journey (exec W op s)"
  by (rule exec_journey)

theorem no_delivery_without_pickup_witness:
  "journey (exec sample_world (VerifyDeliveryOtp ''m1'' ''sam'' ''123456'') (sample_db DeliveryPending))"
  by (rule no_delivery_without_pickup [OF sample_journey])

text \<open>
  Opening a dispute puts the delivery request back to \<open>pending\<close>: the status map has no entry
  for \<open>disputed\<close> and falls back to it, so the disputed parcel can be matched again.
\<close>

theorem dispute_reopens_request:
  assumes "findById (matches s) mid = Some m" "findById (requests s) (m_deliveryRequest m) = Some r"
    and "findById (users s) (m_carrier m) \<noteq> None" "findById (users s) (m_sender m) \<noteq> None"
    and "usr = m_carrier m \<or> usr = m_sender m"
  shows "\<exists>m' s'. disputeMatch W mid usr reason d s = (Inr m', s') \<and> m_status m' = Disputed \<and>
     findById (requests s') (m_deliveryRequest m) = Some (r\<lparr>r_status := ReqPending\<rparr>)"
  using assms
  by (auto simp: disputeMatch_def ensureInvolved_def handler_defs run_simps doc_defs set_request_status_def)

theorem dispute_reopens_request_witness:
  "\<exists>m' s'. disputeMatch sample_world ''m1'' ''sam'' ''lost'' ''box'' (sample_db InTransit) = (Inr m', s') \<and>
     m_status m' = Disputed \<and>
     findById (requests s') ''r1'' = Some (sample_request\<lparr>r_status := ReqPending\<rparr>)"
  using dispute_reopens_request [of "sample_db InTransit" "''m1''" "sample_match InTransit" sample_request
      "''sam''" sample_world "''lost''" "''box''"] by simp

text \<open>
  A pickup OTP can be generated in any status: the handler checks the carrier and the payment
  but not the match, so a delivered match goes back to \<open>pickup_pending\<close>.
\<close>

theorem pickup_otp_in_any_status:
  assumes "findById (matches s) mid = Some m" "m_carrier m = usr"
    and "findById (requests s) (m_deliveryRequest m) = Some r" "r_paymentStatus r = Paid"
  shows "\<exists>i s' m'. generatePickupOtp W mid usr s = (Inr i, s') \<and>
     findById (matches s') mid = Some m' \<and> m_status m' = PickupPending \<and>
     findById (requests s') (m_deliveryRequest m) = Some (r\<lparr>r_status := ReqPickupOtpSent\<rparr>)"
  using assms
  by (simp add: generatePickupOtp_def generateOTP_def handler_defs run_simps set_request_status_def doc_defs)

theorem pickup_otp_in_any_status_witness:
  "\<exists>i s' m'. generatePickupOtp sample_world ''m1'' ''cara'' (sample_db Delivered) = (Inr i, s') \<and>
     findById (matches s') ''m1'' = Some m' \<and> m_status m' = PickupPending \<and>
     findById (requests s') ''r1'' = Some (sample_request\<lparr>r_status := ReqPickupOtpSent\<rparr>)"
  using pickup_otp_in_any_status [of "sample_db Delivered" "''m1''" "sample_match Delivered" "''cara''"
      sample_request sample_world] by (simp add: sample_request_def)

section \<open>Sessions and requests\<close>





text \<open>
  C6: On an endpoint with a schema, a controller sees only bodies of the schema's type, free of
  operator keys, and such that validating them again changes nothing; every other request is
  answered with an error and changes nothing.
\<close>

theorem bodies_conform_to_schema:
  assumes "body_schema ep = Some sch"
  shows "(\<exists>e. handle W A ep rq s = (failure W e, s)) \<or>
     (\<exists>u b. snd (handle W A ep rq s) = snd (controller W A ep rq u b s) \<and>
        conforms W sch b \<and> operator_free b \<and> zparse W sch b = Some b)"
  using assms by (rule handle_body)

theorem bodies_conform_to_schema_witness:
  "(\<exists>e. handle sample_world sample_env (AuthRoute VerifyOtpE) (sample_rq login_body) login_db = (failure sample_world e, login_db)) \<or>
     (\<exists>u b. snd (handle sample_world sample_env (AuthRoute VerifyOtpE) (sample_rq login_body) login_db) =
        snd (controller sample_world sample_env (AuthRoute VerifyOtpE) (sample_rq login_body) u b login_db) \<and>
        conforms sample_world verifyOtpSchema b \<and> operator_free b \<and> zparse sample_world verifyOtpSchema b = Some b)"
  by (rule bodies_conform_to_schema) (simp add: body_schema_def)

text \<open>
  C7: Refresh tokens are rotated in vain: bcrypt reads 72 bytes, so after new tokens have been
  issued an older token that agrees with the stored one so far is accepted again.
\<close>

theorem rotation_is_void:
  assumes "bcrypt_truncates W" "issueTokens W usr s = (Inr tk, s')"
    and "jwtVerify W (clock s') (JWT_REFRESH_SECRET W) old = Some payload" "js_text (jget payload ''id'') = usr"
    and "take 72 old = take 72 (tk_refreshToken tk)" "\<forall>n q. bcryptHash W n q \<noteq> []"
  shows "\<exists>tk' s''. refreshAuthToken W old s' = (Inr tk', s'')"
  using assms by (rule rotated_token_still_accepted)

theorem rotation_is_void_witness:
  "\<exists>tk' s''. refreshAuthToken token_world (replicate 72 CHR ''a'' @ ''7'')
     (save_user ''sam'' (sender_user\<lparr>u_refreshTokenHash := Some (CHR ''$'' # replicate 72 CHR ''a'')\<rparr>) (next_draw (sample_db Proposed))) = (Inr tk', s'')"
  by (rule rotation_is_void [OF _ token_sample, of _ "JObj [(''id'', JStr ''sam'')]"])
    (simp_all add: token_world_def bcrypt_truncates_def)

section \<open>One-time passwords\<close>



section \<open>Escrow\<close>

text \<open>
  C10: A hold is booked in the ledger and in the wallet together, exactly once, or not at all, on
  a server whose failed commits have not been applied.
\<close>

theorem hold_is_atomic:
  assumes "commits_atomically W" "startSession W = None" "findById (matches s) mid = Some mat"
  shows "(\<exists>e. fst (holdFunds W mid n kind s) = Inl e \<and> same_collections (snd (holdFunds W mid n kind s)) s) \<or>
     (fst (holdFunds W mid n kind s) = Inr () \<and>
      held (if kind = CarrierDeposit then m_carrier mat else m_sender mat) mid n s
        (snd (holdFunds W mid n kind s)))"
  using holdFunds_outcome [OF assms] by (metis prod.collapse)

theorem hold_is_atomic_witness:
  "held ''sam'' ''m1'' 17920 (sample_db Active) (snd (holdFunds sample_world ''m1'' 17920 SenderPayment (sample_db Active)))"
  using hold_is_atomic [OF sample_server(3) _ sample_finds(1) [of Active], of 17920 SenderPayment]
    holdFunds_succeeds [OF sample_server(1) sample_finds(1) [of Active], of 17920 SenderPayment]
  by (auto simp: hold_effect_def same_collections_def)

text \<open>
  C11: When the server applied a commit but answered with \<open>UnknownTransactionCommitResult\<close>, the
  retry of the loop books the same hold a second time.
\<close>

theorem unknown_commit_doubles_hold:
  assumes "startSession W = None" "findById (matches s) mid = Some mat"
    and "commitTransaction W 1 = Some (MongoError c msg [''UnknownTransactionCommitResult''], True)"
    and "commitTransaction W 2 = None" and "c \<noteq> 20"
    and "\<not> strIncludes msg ''Transaction numbers are only allowed on a replica set member or mongos''"
    and "findById (users s) (m_sender mat) = Some u"
  shows "\<exists>s'. holdFunds W mid n SenderPayment s = (Inr (), s') \<and>
     findById (users s') (m_sender mat) = Some (u\<lparr>u_escrowHeld := u_escrowHeld u + n + n\<rparr>) \<and>
     length (transactions s') = length (transactions s) + 2"
  by (rule holdFunds_unknown_commit [OF assms(1-4) _ _ assms(7)])
     (use assms(5,6) in \<open>simp_all add: isWriteConflictOrTransient_def isTransactionUnsupported_def\<close>)

definition flaky_world :: world where
  "flaky_world = sample_world\<lparr>commitTransaction :=
     (\<lambda>n. if n = 1 then Some (MongoError 50 ''timeout'' [''UnknownTransactionCommitResult''], True) else None)\<rparr>"

theorem unknown_commit_doubles_hold_witness:
  "\<exists>s'. holdFunds flaky_world ''m1'' 100 SenderPayment (sample_db Active) = (Inr (), s') \<and>
     findById (users s') ''sam'' = Some (sender_user\<lparr>u_escrowHeld := u_escrowHeld sender_user + 100 + 100\<rparr>) \<and>
     length (transactions s') = 2"
proof -
  have "\<not> strIncludes ''timeout'' ''Transaction numbers are only allowed on a replica set member or mongos''"
    by simp
  with unknown_commit_doubles_hold [of flaky_world "sample_db Active" "''m1''" "sample_match Active" 50 "''timeout''"
      sender_user 100] show ?thesis by (simp add: flaky_world_def numeral_2_eq_2)
qed



text \<open>
  Releasing again after a release changes nothing and reports no deposit and no fee, whatever
  the server answered to the commits of either.
\<close>

theorem release_is_idempotent:
  assumes "releaseFunds W mid s = (Inr r, s')"
  shows "snd (releaseFunds W mid s') = s' \<and> (\<exists>r'. fst (releaseFunds W mid s') = Inr r' \<and>
     rr_depositAmount r' = 0 \<and> rr_platformFee r' = 0)"
  using assms by (rule releaseFunds_twice)

theorem release_is_idempotent_witness:
  "\<exists>s'. snd (releaseFunds sample_world ''m1'' (sample_db Delivered)) = s' \<and>
     snd (releaseFunds sample_world ''m1'' s') = s'"
proof -
  obtain r s' where "releaseFunds sample_world ''m1'' (sample_db Delivered) = (Inr r, s')"
    using releaseFunds_succeeds [OF sample_server(1) sample_finds(1) [of Delivered], of sample_trip sample_request
        carrier_user sender_user] by simp
  with release_is_idempotent [OF this] show ?thesis by simp
qed

text \<open>C13: No match ever has two completed payouts: a release keeps it so on every server.\<close>

theorem one_payout_per_match: "paid_once s \<Longrightarrow> paid_once (snd (releaseFunds W mid s))"
  by (rule keepsD [OF keeps_releaseFunds])

theorem one_payout_per_match_witness:
  "paid_once (snd (releaseFunds flaky_world ''m1'' (sample_db Delivered)))"
  by (rule one_payout_per_match) (simp add: paid_once_def)

section \<open>Transactions\<close>



text \<open>
  C15: The retry loop is bounded: whatever the server answers, the body of a transaction runs at
  most six times (five attempts and one run without a session), counted by its draws.
\<close>

theorem transaction_retries_bounded:
  assumes "\<And>t. draws (snd (fn t)) \<le> draws t + k"
  shows "draws (snd (runInTransaction W fn s)) \<le> draws s + 6 * k"
  using assms by (rule runInTransaction_draws)

theorem transaction_retries_bounded_witness:
  "draws (snd (runInTransaction flaky_world (hold_body flaky_world ''sam'' ''m1'' 5 SenderPayment) (sample_db Active))) \<le> 6"
  using transaction_retries_bounded [of "hold_body flaky_world ''sam'' ''m1'' 5 SenderPayment" 1 flaky_world "sample_db Active"]
  by (simp add: hold_body_run hold_effect_def)

section \<open>Matching\<close>

text \<open>
  C16: A search proposes at most five matches, all for the request searched, each on a trip that
  existed, fits the request (window, capacity, category, active, deposit paid) and is not the
  sender's own.
\<close>

theorem search_proposes_fitting_trips:
  assumes "findMatches W rid s = (Inr ms, s')" "session_ok W" "findById (requests s) rid = Some r"
  shows "length ms \<le> 5 \<and> (\<forall>(mid, m) \<in> set ms. m_deliveryRequest m = rid \<and>
     (\<exists>t. (m_trip m, t) \<in> set (trips s) \<and>
        w_earliest (r_window r) \<le> t_departureTime t \<and> t_departureTime t \<le> w_latest (r_window r) \<and>
        t_status t = TripActive \<and> t_safetyDepositPaid t \<and>
        p_weightKg (r_package r) \<le> c_weightKg (t_availableCapacity t) \<and>
        p_category (r_package r) \<in> set (c_allowedCategories (t_availableCapacity t)) \<and>
        t_carrier t \<noteq> r_sender r))"
  using findMatches_result [OF assms] by (fastforce simp: trip_fits_def)

lemma sample_chosen: "chosen_trips sample_world ''r1'' sample_request (sample_db st) = [(''t1'', sample_trip, Some carrier_user)]"
proof -
  have f: "trip_fits sample_request sample_trip"
    by (simp add: trip_fits_def sample_request_def sample_trip_def sample_package_def)
  have "city_matches ''Pune'' ''Pune''" "city_matches ''Mumbai'' ''Mumbai''" by (simp_all add: city_matches_iff)
  with f have "query_trips sample_request (sample_db st) = [(''t1'', sample_trip, Some carrier_user)]"
    by (simp add: query_trips_def populate_def sample_db_def sample_request_def sample_trip_def city_def)
  then show ?thesis
    by (simp add: chosen_trips_def retrieveTripsWithRoutingSearch_def candidate_ids_def ranking_def
        rankTripsWithRoutingSearch_def score_order_def Let_def)
qed

lemma sample_search: "findMatches sample_world ''r1'' (sample_db Proposed) = (Inr [(''m1'', sample_match Proposed)], sample_db Proposed)"
  using createMatchProposal_existing [OF sample_server(2), of "''r1''" "''t1''" "sample_db Proposed"
      "(''m1'', sample_match Proposed)" sample_trip carrier_user sample_request]
  by (simp add: findMatches_def run_simps sample_chosen same_pair_def)

theorem search_proposes_fitting_trips_witness:
  "\<exists>t. (''t1'', t) \<in> set (trips (sample_db Proposed)) \<and> t_safetyDepositPaid t \<and> 2 \<le> c_weightKg (t_availableCapacity t)"
  using search_proposes_fitting_trips [OF sample_search sample_server(2) sample_finds(3)]
  by (auto simp: sample_request_def sample_package_def)



text \<open>Proposing a pair that has a match returns that match and changes nothing.\<close>

theorem proposal_is_idempotent:
  assumes "session_ok W" "rid \<noteq> []" "findOne (same_pair tid rid) (matches s) = Some p"
  shows "createMatchProposal W (tid, t, Some c) (rid, r) s = (Inr p, s)"
  using assms by (rule createMatchProposal_existing)

theorem proposal_is_idempotent_witness:
  "createMatchProposal sample_world (''t1'', sample_trip, Some carrier_user) (''r1'', sample_request)
     (sample_db Delivered) = (Inr (''m1'', sample_match Delivered), sample_db Delivered)"
  by (rule proposal_is_idempotent [OF sample_server(2)]) (simp_all add: same_pair_def)

text \<open>
  C18: A proposal for a new pair appends one proposed match at the quoted price, links it to the
  trip and sets the request to matched, whatever the status of the request was before.
\<close>

theorem proposal_effect:
  assumes "tx_succeeds W" "rid \<noteq> []" "\<not> existsDoc (same_pair tid rid) (matches s)"
    and "findById (requests s) rid = Some r0" "findById (trips s) tid = Some t0"
  shows "\<exists>mid m s'. createMatchProposal W (tid, t, Some c) (rid, r) s = (Inr (mid, m), s') \<and>
     matches s' = matches s @ [(mid, m)] \<and> m_status m = Proposed \<and>
     m_agreedPrice m = qt_totalCharge (proposal_quote W (tid, t, Some c) r) \<and>
     findById (requests s') rid = Some (r0\<lparr>r_status := ReqMatched\<rparr>) \<and>
     findById (trips s') tid = Some (t0\<lparr>t_matches := add_to_set mid (t_matches t0)\<rparr>)"
  using assms by (rule createMatchProposal_new)

theorem proposal_effect_witness:
  "\<exists>mid m s'. createMatchProposal sample_world (''t1'', sample_trip, Some carrier_user) (''r1'', sample_request)
       ((sample_db Proposed)\<lparr>matches := [], requests := [(''r1'', sample_request\<lparr>r_status := ReqCancelled\<rparr>)]\<rparr>) = (Inr (mid, m), s') \<and>
     matches s' = [(mid, m)] \<and> m_status m = Proposed \<and>
     m_agreedPrice m = qt_totalCharge (proposal_quote sample_world (''t1'', sample_trip, Some carrier_user) sample_request) \<and>
     findById (requests s') ''r1'' = Some (sample_request\<lparr>r_status := ReqMatched\<rparr>) \<and>
     findById (trips s') ''t1'' = Some (sample_trip\<lparr>t_matches := add_to_set mid (t_matches sample_trip)\<rparr>)"
  using proposal_effect [OF sample_server(1), of "''r1''" "''t1''"
      "(sample_db Proposed)\<lparr>matches := [], requests := [(''r1'', sample_request\<lparr>r_status := ReqCancelled\<rparr>)]\<rparr>"
      "sample_request\<lparr>r_status := ReqCancelled\<rparr>" sample_trip sample_trip carrier_user sample_request]
  by (simp add: sample_db_def)

section \<open>Locks\<close>

text \<open>
  C19: Mutual exclusion: of the processes competing for a lock, two are never inside its body at
  the same time while both are within the time to live of their locks.
\<close>

theorem lock_excludes:
  assumes "lock_reachable W key ttl s0 (s, ph)" "0 < ttl"
    and "ph i = Inside u t" "ph j = Inside v t'"
    and "clock s < t + ttl * 1000" "clock s < t' + ttl * 1000"
  shows "i = j"
  using lock_ok_exclusive [OF lock_reachable_ok [OF assms(1,2)] assms(3-6)] .

lemma sample_lock:
  "lock_reachable sample_world ''k'' 10 (sample_db Proposed)
     (snd (acquireLock sample_world ''k'' 10 (sample_db Proposed)),
      (\<lambda>_. Outside)(0 := Inside (lock_token sample_world (sample_db Proposed)) 1000))"
proof -
  let ?s = "sample_db Proposed"
  have free: "redis_get ''k'' ?s = None"
    by (simp add: redis_get_def sample_db_def delivery_key_def otp_key_def)
  have "acquireLock sample_world ''k'' 10 ?s =
      (Some (lock_token sample_world ?s), snd (acquireLock sample_world ''k'' 10 ?s))"
    by (simp add: acquireLock_def redis_set_nx_ex_def Let_def free)
  from lock_step.acquire [where ph = "\<lambda>_. Outside" and i = 0, OF refl this]
  have "lock_step sample_world ''k'' 10 (?s, \<lambda>_. Outside)
     (snd (acquireLock sample_world ''k'' 10 ?s),
      (\<lambda>_. Outside)(0 := Inside (lock_token sample_world ?s) 1000))" by simp
  from lock_reachable.step [OF lock_reachable.start this] show ?thesis .
qed

theorem lock_excludes_witness: "(0::nat) = 0 \<and>
   clock (snd (acquireLock sample_world ''k'' 10 (sample_db Proposed))) < 1000 + 10 * 1000"
proof -
  have c: "clock (snd (acquireLock sample_world ''k'' 10 (sample_db Proposed))) < 1000 + 10 * 1000"
    by (simp add: acquireLock_def redis_set_nx_ex_def Let_def)
  have "(0::nat) = 0" by (rule lock_excludes [OF sample_lock _ _ _ c c]) simp_all
  with c show ?thesis by simp
qed

text \<open>A body that leaves the lock's key alone leaves the lock free, whatever it returns or throws.\<close>

theorem lock_is_released:
  assumes "redis_get key s = None" "0 < ttl" "\<And>t. redis_get key (snd (fn t)) = redis_get key t"
  shows "redis_get key (snd (withLock W key fn ttl s)) = None"
  using withLock_released [of W key fn ttl s] assms by (metis prod.collapse)

theorem lock_is_released_witness:
  "redis_get ''k'' (snd (withLock sample_world ''k'' (throwM (LibError ''x'')) 10 (empty_db 0))) = None"
  by (rule lock_is_released) (simp_all add: redis_get_def empty_db_def)

section \<open>Prices\<close>

text \<open>
  C20: A quote splits the charge exactly into the carrier's earning and the platform's fee; the
  earning is at least the minimum payout (and 59 rupees), the fee is not negative, and the safety
  deposit is at most 5000 rupees.
\<close>

theorem quote_bounds:
  assumes "0 \<le> PLATFORM_FEE_PERCENT W"
  shows "qt_totalCharge (calculateQuote W q) = qt_carrierEarning (calculateQuote W q) + qt_platformFee (calculateQuote W q)
     \<and> quote_min_payout q \<le> qt_carrierEarning (calculateQuote W q) \<and> 5900 \<le> qt_carrierEarning (calculateQuote W q)
     \<and> quote_raw_earning q \<le> qt_carrierEarning (calculateQuote W q)
     \<and> 0 \<le> qt_platformFee (calculateQuote W q)
     \<and> calculateSafetyDepositAmount W (q_declaredValue q) \<le> 500000"
  using quote_total [of W q] quote_earning [of W q] quote_earning_pos [of W q] quote_fee_nonneg [OF assms, of q]
    deposit_bounds(1) [of W "q_declaredValue q"] by simp

theorem quote_bounds_witness:
  "qt_totalCharge (calculateQuote sample_world (quote_input_of 80 None sample_package None)) =
   qt_carrierEarning (calculateQuote sample_world (quote_input_of 80 None sample_package None)) +
   qt_platformFee (calculateQuote sample_world (quote_input_of 80 None sample_package None))"
  using quote_bounds [of sample_world "quote_input_of 80 None sample_package None"] by simp

text \<open>C21: Everything else equal, a heavier package is never cheaper and never earns the carrier less.\<close>

theorem quote_monotone:
  assumes "w \<le> w'" "0 \<le> PLATFORM_FEE_PERCENT W"
  shows "qt_totalCharge (calculateQuote W (q\<lparr>q_weightKg := VNumber w\<rparr>)) \<le> qt_totalCharge (calculateQuote W (q\<lparr>q_weightKg := VNumber w'\<rparr>))
     \<and> qt_carrierEarning (calculateQuote W (q\<lparr>q_weightKg := VNumber w\<rparr>)) \<le> qt_carrierEarning (calculateQuote W (q\<lparr>q_weightKg := VNumber w'\<rparr>))"
  using quote_total_mono [OF assms] quote_earning_mono [OF assms(1)] by simp

theorem quote_monotone_witness:
  "qt_totalCharge (calculateQuote sample_world ((quote_input_of 80 None sample_package None)\<lparr>q_weightKg := VNumber 2\<rparr>)) \<le>
   qt_totalCharge (calculateQuote sample_world ((quote_input_of 80 None sample_package None)\<lparr>q_weightKg := VNumber 3\<rparr>))"
  using quote_monotone [of 2 3 sample_world "quote_input_of 80 None sample_package None"] by simp

text \<open>
  C22: The earning guidance recommends a rate between 30 and 500, scores demand between 0 and 100,
  and its three tiers are ordered: fast fill, recommended, premium.
\<close>

theorem guidance_bounds:
  "30 \<le> gd_recommendedRatePerKg (estimateCarrierEarnings W i s) \<and>
   gd_recommendedRatePerKg (estimateCarrierEarnings W i s) \<le> 500 \<and>
   0 \<le> mk_demandScore (gd_market (estimateCarrierEarnings W i s)) \<and>
   mk_demandScore (gd_market (estimateCarrierEarnings W i s)) \<le> 100 \<and>
   ti_ratePerKg (gd_fastFill (estimateCarrierEarnings W i s)) \<le> of_int (gd_recommendedRatePerKg (estimateCarrierEarnings W i s)) \<and>
   of_int (gd_recommendedRatePerKg (estimateCarrierEarnings W i s)) \<le> ti_ratePerKg (gd_premium (estimateCarrierEarnings W i s))"
  using tiers_ordered [OF refl]
  by (simp add: estimateCarrierEarnings_def projectTier_def Let_def recommended_bounds demand_score_bounds)

text \<open>The packages chosen for a projection are candidates and fit into the capacity one after the other.\<close>

theorem projection_fits:
  "0 \<le> capacity \<Longrightarrow> fits capacity (fill_capacity capacity ps) \<and> set (fill_capacity capacity ps) \<subseteq> set ps"
  by (simp add: fill_capacity_fits fill_capacity_subset)

theorem projection_fits_witness:
  "fits 3 (fill_capacity 3 [projected_of sample_request, projected_of sample_request])"
  using projection_fits [of 3 "[projected_of sample_request, projected_of sample_request]"] by simp

text \<open>
  A price estimate is made on the cheapest of at most ten active trips of the exact route
  (cities compared ignoring case and surrounding blanks) that carry the weight and the category.
\<close>

theorem estimate_uses_cheapest_trip:
  assumes "er_estimate (estimatePricing W i s) = Some (q, k, price)"
  shows "\<exists>t. (k, t) \<in> set (estimate_trips i s) \<and> price = t_pricePerKg t \<and>
     (k, t) \<in> set (trips s) \<and> ei_weightKg i \<le> c_weightKg (t_availableCapacity t) \<and>
     toLowerCase (l_city (t_origin t)) = toLowerCase (trim (ei_originCity i)) \<and>
     (\<forall>(j, u) \<in> set (estimate_trips i s). price \<le> t_pricePerKg u) \<and>
     er_carrierCount (estimatePricing W i s) \<le> 10"
proof -
  obtain t rest where l: "estimate_trips i s = (k, t) # rest" and p: "price = t_pricePerKg t"
    using assms by (auto simp: estimatePricing_def split: list.splits)
  have "\<forall>(j, u) \<in> set (estimate_trips i s). price \<le> t_pricePerKg u"
    using estimate_trips_sorted [of i s] by (auto simp: l p)
  moreover have "er_carrierCount (estimatePricing W i s) \<le> 10"
    using estimate_trips_length [of i s] by (simp add: estimatePricing_def l)
  ultimately show ?thesis
    using estimate_trips_sound [of k t i s] p l by (auto simp: trip_on_route_def city_matcher_iff)
qed

definition sample_estimate :: estimate_input where
  "sample_estimate = \<lparr> ei_originCity = '' pune'', ei_destinationCity = ''MUMBAI'', ei_weightKg = 2,
     ei_category = Documents, ei_isFragile = False, ei_declaredValue = None \<rparr>"

lemma sample_estimate_trips: "estimate_trips sample_estimate (sample_db Proposed) = [(''t1'', sample_trip)]"
proof -
  have "createCityMatcher '' pune'' ''Pune''" "createCityMatcher ''MUMBAI'' ''Mumbai''" by code_simp+
  then show ?thesis
    by (simp add: estimate_trips_def trip_on_route_def sample_estimate_def sample_db_def sample_trip_def city_def)
qed

theorem estimate_uses_cheapest_trip_witness:
  "\<exists>q t. er_estimate (estimatePricing sample_world sample_estimate (sample_db Proposed)) = Some (q, ''t1'', 80) \<and>
     (''t1'', t) \<in> set (trips (sample_db Proposed)) \<and> 2 \<le> c_weightKg (t_availableCapacity t)"
proof -
  obtain q where q: "er_estimate (estimatePricing sample_world sample_estimate (sample_db Proposed)) = Some (q, ''t1'', 80)"
    by (simp add: estimatePricing_def sample_estimate_trips sample_trip_def)
  from estimate_uses_cheapest_trip [OF this] q show ?thesis by (auto simp: sample_estimate_def)
qed

section \<open>The outbox\<close>


definition sample_event :: "int \<Rightarrow> outbox_event" where
  "sample_event t = (pending_event t (event_input topic_trip trip_posted ''trip'' ''t1'' (JObj [])))"

definition outbox_db :: db where
  "outbox_db = (empty_db 1000)\<lparr>outbox := [(''e1'', sample_event 900), (''e2'', sample_event 5)]\<rparr>"

lemma sample_claim:
  "\<exists>s'. claimOutboxBatch 1 outbox_db =
     ([(''e2'', (sample_event 5)\<lparr>o_status := OutProcessing, o_attempts := 1\<rparr>)], s')"
  by (simp add: claimOutboxBatch_def outbox_db_def empty_db_def claimable_def sample_event_def
      pending_event_def event_input_def Let_def)


text \<open>
  A flush settles every event it claims: published if Kafka took it, otherwise pending again
  after a delay or, once its attempts are used up, failed; no claimed event stays processing and
  no other event changes.
\<close>

theorem flush_settles_claimed:
  assumes "distinct (map fst (outbox s))" "claimOutboxBatch (OUTBOX_BATCH_SIZE W) s = (evs, s1)"
  shows "\<forall>k. findById (outbox (snd (flushOutboxBatch W send False s))) k =
     (case map_of evs k of None \<Rightarrow> findById (outbox s) k
      | Some e \<Rightarrow> Some (settle W send (clock s) k e)) \<and>
     (\<forall>e. o_status (settle W send (clock s) k e) \<noteq> OutProcessing)"
  using flush_outbox [OF assms, of send "fst (flushOutboxBatch W send False s)"] settle_status by simp

theorem flush_settles_claimed_witness:
  "\<forall>k. findById (outbox (snd (flushOutboxBatch sample_world (\<lambda>k e. None) False outbox_db))) k =
     (case map_of (fst (claimOutboxBatch 25 outbox_db)) k of None \<Rightarrow> findById (outbox outbox_db) k
      | Some e \<Rightarrow> Some (settle sample_world (\<lambda>k e. None) 1000 k e))"
proof -
  have d: "distinct (map fst (outbox outbox_db))" "clock outbox_db = 1000"
    by (simp_all add: outbox_db_def empty_db_def)
  obtain evs s1 where run: "claimOutboxBatch 25 outbox_db = (evs, s1)" by fastforce
  have "claimOutboxBatch (OUTBOX_BATCH_SIZE sample_world) outbox_db = (evs, s1)" using run by simp
  from flush_settles_claimed [OF d(1) this, of "\<lambda>k e. None", unfolded d(2)] run show ?thesis by simp
qed

section \<open>Request data\<close>

text \<open>
  Sanitised request data holds no operator key at any depth, and sanitising it again changes
  nothing.
\<close>

theorem sanitised_is_operator_free:
  "operator_free (sanitizeNoSql v) \<and> sanitizeNoSql (sanitizeNoSql v) = sanitizeNoSql v"
  by (simp add: sanitized_operator_free sanitize_idem)

text \<open>
  A place given by a user is searched literally: escaping it yields a pattern without
  metacharacters that matches exactly the cities that contain it, ignoring case.
\<close>

theorem city_search_is_literal:
  "regex_literal (escapeRegex wanted) = Some wanted \<and>
   (city_matches wanted place \<longleftrightarrow> strIncludes (toLowerCase place) (toLowerCase wanted))"
  by (simp add: regex_literal_escape city_matches_iff)

section \<open>Payments\<close>

text \<open>
  C24: A confirmation without a valid signature changes nothing, neither a deposit nor a payment.
\<close>

theorem forged_confirmation_changes_nothing:
  assumes "\<not> verifySignature W orderId paymentId signature"
  shows "snd (confirmTripDeposit W tid usr orderId paymentId signature s) = s \<and>
     snd (confirmDeliveryPayment W rid usr orderId paymentId signature s) = s"
  using confirmations_need_signature [OF assms] by simp

theorem forged_confirmation_changes_nothing_witness:
  "snd (confirmTripDeposit sample_world ''t1'' ''cara'' ''o'' ''p'' ''forged'' (sample_db Proposed)) = sample_db Proposed"
  using forged_confirmation_changes_nothing [of sample_world "''o''" "''p''" "''forged''" "''t1''" "''cara''" "sample_db Proposed"]
  by (simp add: verifySignature_def)

text \<open>
  C25: A delivery payment marks the request paid, completes its transaction and puts the charge
  into escrow for the match, in the sender's wallet and as one new hold.
\<close>

theorem payment_goes_to_escrow:
  assumes "findById (requests s) rid = Some r" "r_sender r = usr" "verifySignature W orderId pid sg"
    and "r_paymentStatus r \<noteq> Paid"
    and "findOne (payment_tx DeliveryPayment usr orderId) (transactions s) = Some (k, x)"
    and "tx_succeeds W" "r_match r = Some mid" "findById (matches s) mid = Some mat"
    and "\<not> existsDoc (has_hold mid) (saveDoc k (complete_payment pid sg x) (transactions s))"
  shows "\<exists>s' h. confirmDeliveryPayment W rid usr orderId pid sg s =
        (Inr \<lparr> cn_success = True, cn_idempotent = False \<rparr>, s') \<and>
     findById (requests s') rid = Some (r\<lparr>r_paymentStatus := Paid\<rparr>) \<and>
     users s' = findByIdAndUpdate (m_sender mat) (inc_escrow (num_or (r_totalCharge r) (x_amount x))) (users s) \<and>
     transactions s' = saveDoc k (complete_payment pid sg x) (transactions s) @ [h] \<and>
     has_hold mid (snd h) \<and> x_amount (snd h) = num_or (r_totalCharge r) (x_amount x)"
  using assms by (rule confirmDeliveryPayment_new)

definition payment_row :: "transaction_type \<Rightarrow> oid \<Rightarrow> transaction" where
  "payment_row ty usr = with_order ''o1'' (new_transaction usr None ty 17920 TxInitiated ''row'' 0)"

definition payment_db :: db where
  "payment_db = (sample_db SenderConfirmed)\<lparr>requests := [(''r1'', sample_request\<lparr>r_paymentStatus := Unpaid\<rparr>)],
     trips := [(''t1'', sample_trip\<lparr>t_safetyDepositPaid := False\<rparr>), (''t2'', sample_trip\<lparr>t_safetyDepositPaid := False\<rparr>)],
     transactions := [(''x1'', payment_row DeliveryPayment ''sam''), (''x2'', payment_row SafetyDeposit ''cara'')]\<rparr>"

lemma payment_row_simps [simp]:
  "payment_tx ty u o1 (payment_row ty' u') \<longleftrightarrow> o1 = ''o1'' \<and> u = u' \<and> ty = ty'"
  "x_amount (payment_row ty' u') = 17920" "x_status (payment_row ty' u') = TxInitiated"
  "has_hold mid (payment_row DeliveryPayment u')\<longleftrightarrow> False" "has_hold mid (payment_row SafetyDeposit u') \<longleftrightarrow> False"
  "has_hold mid (complete_payment p sg (payment_row DeliveryPayment u')) \<longleftrightarrow> False"
  by (auto simp: payment_row_def payment_tx_def with_order_def new_transaction_def has_hold_def complete_payment_def)

theorem payment_goes_to_escrow_witness:
  "\<exists>s' h. confirmDeliveryPayment sample_world ''r1'' ''sam'' ''o1'' ''p1'' ''key:o1|p1'' payment_db =
        (Inr \<lparr> cn_success = True, cn_idempotent = False \<rparr>, s') \<and>
     has_hold ''m1'' (snd h) \<and> x_amount (snd h) = 17920"
  using payment_goes_to_escrow [of payment_db "''r1''" "sample_request\<lparr>r_paymentStatus := Unpaid\<rparr>" "''sam''" sample_world
      "''o1''" "''p1''" "''key:o1|p1''" "''x1''" "payment_row DeliveryPayment ''sam''" "''m1''" "sample_match SenderConfirmed"]
  by (auto simp: payment_db_def sample_request_def verifySignature_def sample_server)

text \<open>
  C26: One paid deposit order can be confirmed for several trips of its carrier: the transaction
  is looked up by order and user only, and each confirmation adds the amount to the escrow.
\<close>

theorem deposit_order_replayed:
  assumes "findById (trips s) a = Some ta" "findById (trips s) b = Some tb" "a \<noteq> b"
    and "t_carrier ta = usr" "t_carrier tb = usr" "\<not> t_safetyDepositPaid ta" "\<not> t_safetyDepositPaid tb"
    and "verifySignature W orderId pid sg"
    and "findOne (payment_tx SafetyDeposit usr orderId) (transactions s) = Some (k, x)"
    and "findById (users s) usr = Some u"
  shows "\<exists>s1 s2. confirmTripDeposit W a usr orderId pid sg s = (Inr \<lparr> cn_success = True, cn_idempotent = False \<rparr>, s1) \<and>
     confirmTripDeposit W b usr orderId pid sg s1 = (Inr \<lparr> cn_success = True, cn_idempotent = False \<rparr>, s2) \<and>
     findById (users s2) usr = Some (u\<lparr>u_escrowHeld := u_escrowHeld u + x_amount x + x_amount x\<rparr>) \<and>
     length (transactions s2) = length (transactions s)"
  using assms by (rule confirmTripDeposit_replay)

theorem deposit_order_replayed_witness:
  "\<exists>s1 s2. confirmTripDeposit sample_world ''t1'' ''cara'' ''o1'' ''p1'' ''key:o1|p1'' payment_db =
       (Inr \<lparr> cn_success = True, cn_idempotent = False \<rparr>, s1) \<and>
     confirmTripDeposit sample_world ''t2'' ''cara'' ''o1'' ''p1'' ''key:o1|p1'' s1 =
       (Inr \<lparr> cn_success = True, cn_idempotent = False \<rparr>, s2) \<and> length (transactions s2) = 2"
  using deposit_order_replayed [of payment_db "''t1''" "sample_trip\<lparr>t_safetyDepositPaid := False\<rparr>" "''t2''"
      "sample_trip\<lparr>t_safetyDepositPaid := False\<rparr>" "''cara''" sample_world "''o1''" "''p1''" "''key:o1|p1''"
      "''x2''" "payment_row SafetyDeposit ''cara''" carrier_user]
  by (auto simp: payment_db_def sample_trip_def verifySignature_def sample_db_def)

text \<open>A webhook for a payment that has been processed is acknowledged and changes nothing.\<close>

theorem webhook_processed_once:
  assumes "existsDoc (\<lambda>p. pw_eventId p = js_text (jget (jget (jget (jget pl ''payload'') ''payment'') ''entity'') ''id'')) (webhooks s)"
    and "parse body = Some pl" "truthy_str sg" "hmacSha256Hex W (RAZORPAY_WEBHOOK_SECRET W) body = the sg"
    and "truthy (jget (jget (jget (jget pl ''payload'') ''payment'') ''entity'') ''id'')"
  shows "handleWebhook W parse body sg s = (Inr ReceivedIdempotent, s)"
  using assms by (rule handleWebhook_repeated)

definition sample_hook :: json where
  "sample_hook = JObj [(''event'', JStr ''payment.captured''), (''payload'', JObj [(''payment'', JObj [(''entity'',
     JObj [(''id'', JStr ''p1''), (''order_id'', JStr ''o1'')])])])]"

theorem webhook_processed_once_witness:
  "handleWebhook sample_world (\<lambda>b. Some sample_hook) ''body'' (Some ''hook:body'')
     ((empty_db 0)\<lparr>webhooks := [(''w'', \<lparr> pw_eventId = ''p1'', pw_event = ''payment.authorized'',
        pw_orderId = ''o1'', pw_processedAt = 0 \<rparr>)]\<rparr>) =
   (Inr ReceivedIdempotent, (empty_db 0)\<lparr>webhooks := [(''w'', \<lparr> pw_eventId = ''p1'', pw_event = ''payment.authorized'',
        pw_orderId = ''o1'', pw_processedAt = 0 \<rparr>)]\<rparr>)"
  by (rule webhook_processed_once [where pl = sample_hook]) (simp_all add: sample_hook_def js_text_def)

section \<open>Trips and requests\<close>




text \<open>Ticket number and seat of a trip are shown to its carrier only.\<close>

theorem tickets_are_private:
  assumes "getTripById tid usr s = (Inr t', s')" "t_transportDetails t' = Some d"
    and "td_pnr d \<noteq> None \<or> td_seatNumber d \<noteq> None"
  shows "usr = Some (t_carrier t')"
proof -
  obtain t where "t' = (if truthy_str usr \<and> usr = Some (t_carrier t) then t else hide_ticket t)"
    using assms(1) by (auto simp: getTripById_def run_simps split: option.splits)
  with assms(2,3) hide_ticket_hidden [of t d] show ?thesis by (auto split: if_splits)
qed

theorem tickets_are_private_witness: "Some ''cara'' = Some (t_carrier sample_trip)"
proof -
  have "getTripById ''t1'' (Some ''cara'') (sample_db Proposed) = (Inr sample_trip, sample_db Proposed)"
    by (simp add: getTripById_def run_simps) (simp add: sample_trip_def)
  from tickets_are_private [OF this, of "\<lparr> td_name = Some ''Express'', td_pnr = Some ''4521'', td_seatNumber = Some ''B2'' \<rparr>"]
  show ?thesis by (simp add: sample_trip_def)
qed

text \<open>
  A trip with a parcel in custody cannot be cancelled; a cancelled trip refunds its paid
  deposit, whatever its status was, and cancelling it again refunds nothing.
\<close>

theorem trip_cancellation:
  assumes "cancelTrip W usr tid s = (Inr t', s')"
  shows "\<not> (existsDoc (\<lambda>m. m_trip m = tid \<and> custody_status (m_status m)) (matches s) \<and> s' \<noteq> s)
     \<and> t_carrier t' = usr \<and> cancelTrip W usr tid s' = (Inr t', s')"
proof -
  obtain t where t: "findById (trips s) tid = Some t" "t_carrier t = usr"
    and t': "t' = t\<lparr>t_status := TripCancelled\<rparr> \<or> t' = t"
    using assms by (auto simp: cancelTrip_def run_simps split: option.splits if_splits)
  have "s' = s" if "existsDoc (\<lambda>m. m_trip m = tid \<and> custody_status (m_status m)) (matches s)"
    using assms that t by (auto simp: cancelTrip_def run_simps split: if_splits)
  with t t' cancelTrip_idempotent [OF assms] show ?thesis by auto
qed

lemma sample_cancellation: "\<exists>s'. cancelTrip sample_world ''cara'' ''t1'' (sample_db Delivered) =
     (Inr (sample_trip\<lparr>t_status := TripCancelled\<rparr>), s')"
  using cancelTrip_effect [of "sample_db Delivered" "''t1''" sample_trip "''cara''" carrier_user sample_world]
  by (auto simp: custody_status_def sample_trip_def)

theorem trip_cancellation_witness:
  "\<exists>s'. cancelTrip sample_world ''cara'' ''t1'' (sample_db Delivered) = (Inr (sample_trip\<lparr>t_status := TripCancelled\<rparr>), s') \<and>
     cancelTrip sample_world ''cara'' ''t1'' s' = (Inr (sample_trip\<lparr>t_status := TripCancelled\<rparr>), s')"
  using sample_cancellation trip_cancellation by blast



text \<open>A trip is edited only by its carrier, only while no match blocks it, and never in its status, deposit or carrier.\<close>

theorem trip_edits_are_guarded:
  assumes "updateTrip W usr tid u body s = (Inr t', s')"
  shows "\<exists>t. findById (trips s) tid = Some t \<and> t_carrier t = usr \<and> t_carrier t' = usr \<and>
     \<not> existsDoc (\<lambda>m. m_trip m = tid \<and> blocking_status (m_status m)) (matches s) \<and>
     t_status t' = t_status t \<and> t_safetyDepositPaid t' = t_safetyDepositPaid t \<and>
     t_safetyDepositAmount t' = t_safetyDepositAmount t \<and> trips s' = saveDoc tid t' (trips s)"
proof -
  obtain t where "findById (trips s) tid = Some t" "t_carrier t = usr" "t' = apply_update u t"
    "\<not> existsDoc (\<lambda>m. m_trip m = tid \<and> blocking_status (m_status m)) (matches s)"
    "trips s' = saveDoc tid t' (trips s)"
    using assms by (rule updateTrip_guarded)
  then show ?thesis by (intro exI [of _ t]) (simp add: apply_update_protected)
qed

definition cheaper :: trip_update where
  "cheaper = \<lparr> tu_origin = None, tu_destination = None, tu_departureTime = None, tu_estimatedArrivalTime = None,
     tu_modeOfTransport = None, tu_transportDetails = None, tu_availableCapacity = None, tu_pricePerKg = Some 60,
     tu_pickupInstructions = None, tu_dropoffInstructions = None \<rparr>"

theorem trip_edits_are_guarded_witness:
  "\<exists>t' s'. updateTrip sample_world ''cara'' ''t1'' cheaper JUndef (sample_db Proposed) = (Inr t', s') \<and>
     t_status t' = t_status sample_trip \<and> trips s' = saveDoc ''t1'' t' (trips (sample_db Proposed))"
proof -
  have "\<exists>t' s'. updateTrip sample_world ''cara'' ''t1'' cheaper JUndef (sample_db Proposed) = (Inr t', s')"
    by (simp add: updateTrip_def run_simps blocking_status_def Let_def) (simp add: sample_trip_def)
  then obtain t' s' where run: "updateTrip sample_world ''cara'' ''t1'' cheaper JUndef (sample_db Proposed) = (Inr t', s')"
    by blast
  from trip_edits_are_guarded [OF run] run show ?thesis by auto
qed

text \<open>
  A created request is pending and unpaid; it is quoted as a whole or not at all, and a quoted
  charge is earning plus fee.
\<close>

theorem created_request:
  assumes "createDeliveryRequest W usr p s = (Inr (rid, r), s')"
  shows "r_status r = ReqPending \<and> r_paymentStatus r = Unpaid \<and> r_sender r = usr \<and> r_package r = rp_package p \<and>
     (r_totalCharge r = None \<longleftrightarrow> r_quotedPrice r = None) \<and>
     (\<forall>n. r_totalCharge r = Some n \<longrightarrow>
        (\<exists>e f. r_quotedPrice r = Some e \<and> r_platformFee r = Some f \<and> n = e + f \<and> 5900 \<le> e))"
  using assms by (rule createDeliveryRequest_result)

definition sample_payload :: request_payload where
  "sample_payload = \<lparr> rp_origin = city ''Pune'', rp_destination = city ''Mumbai'', rp_package = sample_package,
     rp_recipient = r_recipient sample_request, rp_window = r_window sample_request \<rparr>"

theorem created_request_witness:
  "\<exists>rid r s'. createDeliveryRequest sample_world ''sam'' sample_payload (sample_db Proposed) = (Inr (rid, r), s') \<and>
     r_status r = ReqPending"
proof -
  have "\<exists>rid r s'. persistDeliveryRequest sample_world ''sam'' sample_payload (sample_db Proposed) = (Inr (rid, r), s')"
    by (simp add: persistDeliveryRequest_def insert_request_def run_simps Let_def)
  then obtain rid r s' where "persistDeliveryRequest sample_world ''sam'' sample_payload (sample_db Proposed) = (Inr (rid, r), s')"
    by blast
  then have "createDeliveryRequest sample_world ''sam'' sample_payload (sample_db Proposed) = (Inr (rid, r), s')"
    unfolding createDeliveryRequest_def by (rule runInTransaction_succeeds [OF sample_server(1)])
  with created_request [OF this] show ?thesis by blast
qed

section \<open>Workers\<close>

text \<open>
  The payment reconciler never does anything: it acts on escrow holds with a Razorpay id, and
  the service creates none.
\<close>

theorem reconciler_does_nothing:
  assumes "holds_without_ids s"
  shows "processPaymentReconciliation s = (Inr 0, s) \<and> holds_without_ids (snd (holdFunds W mid n kind s))"
  using reconciler_noop [OF assms] keepsD [OF holds_without_ids_hold assms] by simp

theorem reconciler_does_nothing_witness:
  "processPaymentReconciliation payment_db = (Inr 0, payment_db)"
  using reconciler_does_nothing [of payment_db]
  by (simp add: holds_without_ids_def payment_db_def payment_row_def with_order_def new_transaction_def)

section \<open>Messages and clients\<close>



text \<open>
  C30: While Redis takes the publications, the instances of the realtime gateway emit a message at
  most once each, and every instance that reads its inbox to the end has emitted exactly the
  messages dispatched, its own among them.
\<close>

theorem realtime_messages_fan_out:
  assumes "list_all healthy es" "g \<in> set (cs_gateways (cluster_run es (fresh_cluster gs)))"
  shows "mset (gw_emitted g) \<subseteq># mset (cs_log (cluster_run es (fresh_cluster gs))) \<and>
     (\<exists>g' \<in> set (cs_gateways (cluster_run (es @ replicate (length (gw_inbox g)) (TakeMessage (gw_id g))) (fresh_cluster gs))).
        gw_id g' = gw_id g \<and> gw_inbox g' = [] \<and>
        mset (gw_emitted g') = mset (cs_log (cluster_run es (fresh_cluster gs))))"
  using emitted_at_most_once [OF assms(2)] read_to_the_end [OF assms] by blast

theorem realtime_messages_fan_out_witness:
  "\<exists>g' \<in> set (cs_gateways (cluster_run [ClientLocation ''a'' (Some ''cara'') sample_location 5 2, TakeMessage ''b'', TakeMessage ''b'']
      (fresh_cluster [sample_gateway ''a'', sample_gateway ''b'']))).
     gw_id g' = ''b'' \<and> gw_inbox g' = [] \<and>
     mset (gw_emitted g') = mset (location_messages ''a'' 5 (Some ''cara'') sample_location)"
proof -
  let ?es = "[ClientLocation ''a'' (Some ''cara'') sample_location 5 2]"
  let ?gs = "[sample_gateway ''a'', sample_gateway ''b'']" and ?ms = "location_messages ''a'' 5 (Some ''cara'') sample_location"
  let ?b = "receive_all ?ms (sample_gateway ''b'')"
  have two: "length ?ms = 2" by (simp add: location_messages_def Let_def)
  have c: "cluster_run ?es (fresh_cluster ?gs) =
      \<lparr> cs_gateways = [receive_all ?ms (fold emit_here ?ms (sample_gateway ''a'')), ?b], cs_log = ?ms \<rparr>"
    by (simp add: cluster_run_def fresh_cluster_def sample_location_valid sample_gateway_def on_gateway_def two Let_def)
  have b: "?b \<in> set (cs_gateways (cluster_run ?es (fresh_cluster ?gs)))"
    by (simp add: c)
  have reads: "replicate 2 (TakeMessage ''b'') = [TakeMessage ''b'', TakeMessage ''b'']"
    by (simp add: numeral_2_eq_2)
  show ?thesis
    using realtime_messages_fan_out [OF _ b] by (simp add: two reads c)
qed



text \<open>
  C32: The browser's API client, whatever the network answers: a call is settled at most once; a
  call leads to at most three answers (its own, the refresh it starts, its retry); and as long as
  some call is not settled, an answer can arrive, so that when none can, all calls are settled.
\<close>

theorem every_call_settles:
  assumes "client_run es (initial_client a) = Some cl"
  shows "length (filter (\<lambda>e. e \<noteq> Issue) es) \<le> 3 * length (filter (\<lambda>e. e = Issue) es) \<and>
     distinct (map fst (cl_settled cl)) \<and> set (map fst (cl_settled cl)) \<subseteq> {..<cl_next cl} \<and>
     ((\<exists>e. e \<noteq> Issue \<and> client_step e cl \<noteq> None) \<or> set (map fst (cl_settled cl)) = {..<cl_next cl})"
proof -
  have ok: "client_ok cl" by (rule run_ok [OF initial_ok assms])
  have "work (initial_client a) = 0" by (simp add: work_def initial_client_def leading_def)
  then have "length (filter (\<lambda>e. e \<noteq> Issue) es) \<le> 3 * length (filter (\<lambda>e. e = Issue) es)"
    using run_length [OF initial_ok assms] by simp
  moreover have "set (map fst (cl_settled cl)) = {..<cl_next cl}" if "quiescent cl"
    using arg_cong [OF quiescent_settled(2) [OF ok that], of set_mset] by (auto simp: lessThan_atLeast0)
  moreover have "set (map fst (cl_settled cl)) \<subseteq> {..<cl_next cl}"
  proof -
    have "set_mset (whereabouts cl) = {..<cl_next cl}"
      using ok by (simp add: client_ok_def lessThan_atLeast0)
    then show ?thesis by (auto simp: whereabouts_def)
  qed
  ultimately show ?thesis
    using settled_once [OF ok] enabled_unless_quiescent [of cl] by blast
qed

theorem every_call_settles_witness:
  "set (map fst (cl_settled sample_client)) = {..<2}"
proof -
  have "client_step e sample_client = None" if "e \<noteq> Issue" for e
    using sample_client_run(2,3) that by (cases e) simp_all
  with every_call_settles [OF sample_client_run(1)] sample_client_run(4) show ?thesis by metis
qed

text \<open>
  The status bars of the sender and the carrier and the timeline never go back when the
  regular course of a match takes a step.
\<close>

theorem progress_never_goes_back:
  assumes "forward_step op" "findById (matches s) k = Some m" "findById (matches (exec W op s)) k = Some m'"
  shows "sender_active_index (Some (match_status_str (m_status m))) \<le> sender_active_index (Some (match_status_str (m_status m'))) \<and>
     carrier_active_index (Some (match_status_str (m_status m))) \<le> carrier_active_index (Some (match_status_str (m_status m'))) \<and>
     getMatchTimelineIndex (Some (match_status_str (m_status m))) \<le> getMatchTimelineIndex (Some (match_status_str (m_status m')))"
proof -
  from exec_follows [of op s W] assms(2,3) have "m_status m' = m_status m \<or> allowed op m (m_status m')"
    by (cases "k = op_match op") (auto simp: follows_def)
  with forward_indices [OF assms(1), of m "m_status m'"] show ?thesis
    by (auto simp del: sender_index_of carrier_index_of timeline_index_of)
qed

theorem progress_never_goes_back_witness:
  "sender_active_index (Some (match_status_str DeliveryPending)) \<le> sender_active_index (Some (match_status_str Delivered))"
  using progress_never_goes_back [OF _ sample_finds(1) sample_delivery]
  by (simp add: delivered_doc_def Let_def del: sender_index_of carrier_index_of timeline_index_of match_status_str.simps)

section \<open>The pages of the portals\<close>



text \<open>
  C34: Whatever a carrier does in the pages that post a trip, on the last page the form is complete,
  both places have coordinates, and the request that is sent is one that the server's schema accepts.
\<close>

theorem posted_trip_is_accepted:
  assumes "list_all (pt_allowed W) es" and "pt_step (fold (pt_step_event W) es post_trip_start) = 4"
  shows "zparse W createTripSchema (JObj (trip_payload (pt_form (fold (pt_step_event W) es post_trip_start)))) \<noteq> None \<and>
    pp_coords (tf_origin (pt_form (fold (pt_step_event W) es post_trip_start))) \<noteq> None \<and>
    pp_coords (tf_destination (pt_form (fold (pt_step_event W) es post_trip_start))) \<noteq> None"
proof -
  note ok = wizard_ok [OF assms(1)]
  then have "form_ok W (pt_form (fold (pt_step_event W) es post_trip_start))" by (simp add: pt_ok_def)
  with last_page_ready [OF ok assms(2)] last_page_coords [OF ok assms(2)] show ?thesis
    by (simp add: payload_accepted)
qed

theorem posted_trip_is_accepted_witness:
  "zparse form_world createTripSchema
     (JObj (trip_payload (pt_form (fold (pt_step_event form_world) trip_entries post_trip_start)))) \<noteq> None"
  using posted_trip_is_accepted [OF trip_entries_allowed trip_entries_run] by simp

text \<open>
  C35: On the last page of the sender's form, whatever was entered before, the form's schema passes
  exactly when the declared value is a number and the photo a URL, and the server then takes the
  request exactly when the declared value is a whole number that is not negative and the phone has
  at most fifteen characters.
\<close>

theorem sent_package_at_the_server:
  assumes "sw_step (fold (sp_step W) es (prefill orig dest send_start)) = 2"
  shows "(submitted W (fold (sp_step W) es (prefill orig dest send_start)) \<noteq> None \<longleftrightarrow>
      declared_number (sw_form (fold (sp_step W) es (prefill orig dest send_start))) \<and>
      photo_ok W (sw_form (fold (sp_step W) es (prefill orig dest send_start)))) \<and>
    (\<forall>w. submitted W (fold (sp_step W) es (prefill orig dest send_start)) = Some w \<longrightarrow>
      (zparse W createDeliverySchema w \<noteq> None \<longleftrightarrow>
         declared_whole (sw_form (fold (sp_step W) es (prefill orig dest send_start))) \<and>
         length (sf_phone (sw_form (fold (sp_step W) es (prefill orig dest send_start)))) \<le> 15))"
proof (intro conjI allI impI)
  fix w assume "submitted W (fold (sp_step W) es (prefill orig dest send_start)) = Some w"
  with assms have "deliveryFormSchema W (send_values (sw_form (fold (sp_step W) es (prefill orig dest send_start)))) = Some w"
    by (simp add: submitted_def)
  then show "zparse W createDeliverySchema w \<noteq> None \<longleftrightarrow>
      declared_whole (sw_form (fold (sp_step W) es (prefill orig dest send_start))) \<and>
      length (sf_phone (sw_form (fold (sp_step W) es (prefill orig dest send_start)))) \<le> 15"
    by (rule delivery_crosses)
qed (rule last_step_submits [OF send_wizard_ok assms])

theorem sent_package_at_the_server_witness:
  "\<exists>w. submitted form_world (fold (sp_step form_world) package_entries (prefill [] [] send_start)) = Some w \<and>
     zparse form_world createDeliverySchema w = None"
  using sent_package_at_the_server [of form_world package_entries "[]" "[]"] entered_form_checks
  by (simp add: package_entries_run) blast

text \<open>
  C36: The route field, in every state that typing, answers in any order, keys and clicks can lead to:
  the suggestions only change to the answer for the last text typed, the active option exists, the
  spinner turns only while a search is due or under way, the remembered selections are at most five
  different places, and neither the error text nor the text for no match is ever shown.
\<close>

theorem field_answers_the_last_text:
  assumes "ac_reach cx v st s" and "storage_ok st"
  shows "in_range s \<and> recent_ok (ac_recent s) \<and>
    (ac_loading s \<longrightarrow> ac_debounce s \<noteq> None \<or> ac_request s \<in> fst ` set (ac_pending s)) \<and>
    listbox s \<noteq> NoMatches \<and> (\<forall>e. listbox s \<noteq> ErrorText e) \<and>
    (\<forall>n found. ac_suggestions (ac_step (SearchEnds n found) s) \<noteq> ac_suggestions s \<longrightarrow>
       n = ac_request s \<and> ac_suggestions (ac_step (SearchEnds n found) s) = answered (trim (last (ac_inputs s))) found)"
proof -
  have s: "requests_ok s" "memory_ok s" "in_range s" using reach_ok [OF assms] by simp_all
  then have "recent_ok (ac_recent s)"
    and "ac_loading s \<longrightarrow> ac_debounce s \<noteq> None \<or> ac_request s \<in> fst ` set (ac_pending s)"
    by (simp_all add: memory_ok_def requests_ok_def)
  with s show ?thesis using answers_last_typed [of s] listbox_texts [of s] by simp
qed

theorem field_answers_the_last_text_witness:
  "recent_ok (ac_recent typed_field) \<and> listbox typed_field \<noteq> NoMatches"
  using field_answers_the_last_text [OF typed_field_reached no_storage_ok] by blast

text \<open>
  C37: The search in the catalogue of cities, which fills four buckets in one pass and drops repeated
  places, is the catalogue filtered by the text and stably sorted by the kind of match (exact,
  prefix, alias, contained), cut at the limit but never below one city.
\<close>

theorem city_search_is_stable_sort:
  "searchIndianCities query limit =
     (let q = toLowerCase (trim query)
      in if q = [] then take limit ALL_INDIAN_CITIES
         else take (max 1 limit) (sort_key (bucket_of q) (filter (\<lambda>c. city_bucket q c \<noteq> None) ALL_INDIAN_CITIES)))"
proof (cases "toLowerCase (trim query) = []")
  case True
  then show ?thesis by (simp add: searchIndianCities_def search_in_def)
next
  case False
  with search_sorted [OF False refl, of limit] show ?thesis by (simp only: Let_def if_False)
qed

text \<open>
  C38: The payment button reports a success exactly once for every payment that the opened checkout
  announces, and never without one; the answer of the server to the verification of the signature
  makes no difference to what is reported.
\<close>

theorem success_whatever_the_verification:
  "success_calls (handlePay E s) =
     success_calls s +
       (if 100 \<le> pe_amount E \<and> (loadRazorpayScript E \<or> pe_sdk E) \<and> pe_opens E then paid_events (pe_events E) else 0) \<and>
   ps_calls (payment_handler E pid oid sig v s) = ps_calls (payment_handler E pid oid sig v' s)"
  using handlePay_successes verification_ignored by (intro conjI)

text \<open>
  C39: The identity of a carrier is verified by any code: from every state of the set-up page in which
  the code is asked for, submitting any four digits marks the number typed as verified on the server.
\<close>

theorem any_code_verifies_identity:
  assumes "fold (setup_step W usr) es (setup_start, d0) = (s, d)" and "cu_otpStep s"
    and "4 \<le> length (cu_aadhaarOtp s)" and "findById (users d) usr = Some u"
  shows "submit_aadhaar W usr (s, d) =
    (aadhaar_done s, save_user usr (put_aadhaar W (filter (\<lambda>c. \<not> is_space c) (cu_aadhaarInput s)) u) d)"
  using any_otp_verifies [OF _ assms(2-4)] setup_runs_ok [of W usr es d0] assms(1) by simp

theorem any_code_verifies_identity_witness:
  "submit_aadhaar sample_world ''cara'' (typed_identity, sample_db Proposed) =
     (aadhaar_done typed_identity,
      save_user ''cara'' (put_aadhaar sample_world ''421598765432'' carrier_user) (sample_db Proposed))"
  using any_code_verifies_identity [OF typed_identity_reached]
  by (simp add: typed_identity_def is_space_def)

section \<open>The process\<close>

text \<open>
  The load shedder counts exactly the requests in service, though a response may both finish
  and close, and never admits more than its limit.
\<close>

theorem load_is_bounded:
  assumes "shed_run limit h" "0 \<le> limit"
  shows "sh_inFlight h = int (length (filter (\<lambda>(i, released). \<not> released) (sh_open h))) \<and> sh_inFlight h \<le> limit"
  using shed_counts [OF assms] by (simp add: in_service_def)

theorem load_is_bounded_witness:
  "sh_inFlight (snd (shed_step 1 (Arrive 0 ''/api/trips'') shed_initial)) \<le> 1"
  by (rule conjunct2 [OF load_is_bounded]) (rule shed_run.step [OF shed_run.start], simp_all add: shed_initial_def)

text \<open>
  A shutdown that reports success has closed every resource without an error.
\<close>

theorem success_means_all_closed:
  assumes "process_run w p" "0 \<in> set (pr_exits p)"
  shows "\<forall>n \<in> set (createShutdownSteps w). (n, None) \<in> set (pr_results p)"
  using assms by (rule clean_exit)

theorem success_means_all_closed_witness:
  "(''mongo'', None) \<in> set (pr_results clean_process)"
  using success_means_all_closed [OF clean_process_run] clean_process_exits
  by (simp add: createShutdownSteps_def)

text \<open>
  C40: Basic authentication of the queue dashboard: decoding undoes the encoding of the
  credentials, and exactly the configured password is accepted, with colons in it or not.
\<close>

theorem admin_password_round_trip:
  assumes "truthy_str (BULL_BOARD_PASSWORD W)" "CHR '':'' \<notin> set user"
  shows "base64_decode (base64_encode (user @ CHR '':'' # pw)) = user @ CHR '':'' # pw \<and>
     (bullBoardBasicAuth W (Some (''Basic '' @ base64_encode (user @ CHR '':'' # pw))) = None \<longleftrightarrow>
      BULL_BOARD_PASSWORD W = Some pw)"
  using base64_roundtrip basic_auth_iff [OF assms] by blast

theorem admin_password_round_trip_witness:
  "bullBoardBasicAuth (sample_world\<lparr>BULL_BOARD_PASSWORD := Some ''pa:ss''\<rparr>)
     (Some (''Basic '' @ base64_encode (''admin'' @ CHR '':'' # ''pa:ss''))) = None"
  using admin_password_round_trip [of "sample_world\<lparr>BULL_BOARD_PASSWORD := Some ''pa:ss''\<rparr>" "''admin''" "''pa:ss''"]
  by simp

end
